(* ===== verification/Prelude.thy ===== *)
theory Prelude
  imports Main
begin

section \<open>Shared vocabulary\<close>

text \<open>
  What every component of the model uses: the result type of fallible Go functions and its
  sequencing, Go's 64-bit signed arithmetic, Go's view of strings as bytes (UTF-8 validity and
  the emptiness test after \<open>strings.TrimSpace\<close>), instants of time, and the lemma collections.
\<close>

named_theorems valid_simps \<open>the Valid and Terminal predicates of the closed status and code sets\<close>
named_theorems store_simps \<open>how the table operations of the store compute\<close>
named_theorems step_simps \<open>frame facts of single transaction steps\<close>
named_theorems port_simps \<open>projections of the outbound ports\<close>

subsection \<open>Results of fallible functions\<close>

text \<open>
  \<open>attempt m f\<close> is the Go idiom \<open>v, err := m; if err != nil { return err }; f(v)\<close>.
\<close>

definition attempt :: "'e + 'a \<Rightarrow> ('a \<Rightarrow> 'e + 'b) \<Rightarrow> 'e + 'b" where
  "attempt m f = (case m of Inl e \<Rightarrow> Inl e | Inr a \<Rightarrow> f a)"

lemma attempt_Inl [simp]: "attempt (Inl e) f = Inl e"
  by (simp add: attempt_def)

lemma attempt_Inr [simp]: "attempt (Inr a) f = f a"
  by (simp add: attempt_def)

lemma attempt_eq_Inr [simp]: "attempt m f = Inr r \<longleftrightarrow> (\<exists>a. m = Inr a \<and> f a = Inr r)"
  by (cases m) simp_all

lemma attempt_eq_Inl: "attempt m f = Inl e \<longleftrightarrow> m = Inl e \<or> (\<exists>a. m = Inr a \<and> f a = Inl e)"
  by (cases m) auto

lemma attempt_assoc: "attempt (attempt m f) g = attempt m (\<lambda>a. attempt (f a) g)"
  by (cases m) simp_all

lemma attempt_cong [fundef_cong]:
  "m = m' \<Longrightarrow> (\<And>a. m' = Inr a \<Longrightarrow> f a = f' a) \<Longrightarrow> attempt m f = attempt m' f'"
  by (cases m') simp_all

text \<open>\<open>require b e\<close> is the guard \<open>if !b { return e }\<close>.\<close>

definition require :: "bool \<Rightarrow> 'e \<Rightarrow> 'e + unit" where
  "require b e = (if b then Inr () else Inl e)"

lemma require_eq_Inr [simp]: "require b e = Inr u \<longleftrightarrow> b"
  by (simp add: require_def)

lemma require_eq_Inl [simp]: "require b e = Inl e' \<longleftrightarrow> \<not> b \<and> e = e'"
  by (simp add: require_def)

lemma require_True [simp]: "require True e = Inr ()"
  by (simp add: require_def)

lemma require_False [simp]: "require False e = Inl e"
  by (simp add: require_def)

subsection \<open>Signed 64-bit integers\<close>

text \<open>Go's \<open>int64\<close> as the integers with the wrap-around written out.\<close>

definition int64 :: "int \<Rightarrow> int" where
  "int64 x = (x + 2 ^ 63) mod 2 ^ 64 - 2 ^ 63"

lemma int64_range: "- (2 ^ 63) \<le> int64 x \<and> int64 x < 2 ^ 63"
proof -
  have "0 \<le> (x + 2 ^ 63) mod 2 ^ 64" and "(x + 2 ^ 63) mod 2 ^ 64 < 2 ^ 64"
    by simp_all
  then show ?thesis by (simp add: int64_def)
qed

lemma int64_id: "- (2 ^ 63) \<le> x \<Longrightarrow> x < 2 ^ 63 \<Longrightarrow> int64 x = x"
  by (simp add: int64_def mod_pos_pos_trivial)

lemma int64_succ: "0 \<le> v \<Longrightarrow> v < 2 ^ 63 - 1 \<Longrightarrow> int64 (v + 1) = v + 1"
  by (rule int64_id) auto

lemma int64_succ_overflow: "int64 ((2 ^ 63 - 1) + 1) = - (2 ^ 63)"
  by (simp add: int64_def)

lemma int64_succ_pos_iff:
  "0 < v \<Longrightarrow> v < 2 ^ 63 \<Longrightarrow> 0 < int64 (v + 1) \<longleftrightarrow> v \<noteq> 2 ^ 63 - 1"
  using int64_succ [of v] int64_succ_overflow by (cases "v = 2 ^ 63 - 1") auto

subsection \<open>Instants\<close>

text \<open>
  A \<open>time.Time\<close> is the number of nanoseconds since Go's zero instant (1 January of year 1, UTC),
  so \<open>IsZero\<close> is \<open>t = 0\<close>, \<open>Before\<close> is \<open><\<close> and \<open>Add\<close> is \<open>+\<close>. All instants of the
  program are converted to UTC before use; the location is not part of the value.
\<close>

type_synonym time = int
type_synonym duration = int

definition IsZero :: "time \<Rightarrow> bool" where
  "IsZero t \<longleftrightarrow> t = 0"

lemma IsZero_iff [simp]: "IsZero t \<longleftrightarrow> t = 0"
  by (simp add: IsZero_def)

subsection \<open>Strings as bytes\<close>

text \<open>
  A Go string is a sequence of bytes. A HOL \<open>string\<close> is a list of \<open>char\<close>, which are bytes too, so
  \<open>len(s)\<close> is \<open>length s\<close>. \<open>utf8_valid\<close> is \<open>utf8.ValidString\<close>: no overlong form, no surrogate,
  nothing above U+10FFFF.
\<close>

definition cont_byte :: "nat \<Rightarrow> bool" where
  "cont_byte b \<longleftrightarrow> 128 \<le> b \<and> b \<le> 191"

fun utf8_bytes :: "nat list \<Rightarrow> bool" where
  "utf8_bytes [] = True"
| "utf8_bytes (b # bs) =
    (if b < 128 then utf8_bytes bs
     else if 194 \<le> b \<and> b \<le> 223 then
       (case bs of c # cs \<Rightarrow> cont_byte c \<and> utf8_bytes cs | [] \<Rightarrow> False)
     else if 224 \<le> b \<and> b \<le> 239 then
       (case bs of c # d # cs \<Rightarrow>
          (if b = 224 then 160 \<le> c \<and> c \<le> 191 else if b = 237 then 128 \<le> c \<and> c \<le> 159 else cont_byte c)
          \<and> cont_byte d \<and> utf8_bytes cs
        | _ \<Rightarrow> False)
     else if 240 \<le> b \<and> b \<le> 244 then
       (case bs of c # d # e # cs \<Rightarrow>
          (if b = 240 then 144 \<le> c \<and> c \<le> 191 else if b = 244 then 128 \<le> c \<and> c \<le> 143 else cont_byte c)
          \<and> cont_byte d \<and> cont_byte e \<and> utf8_bytes cs
        | _ \<Rightarrow> False)
     else False)"

definition utf8_valid :: "string \<Rightarrow> bool" where
  "utf8_valid s = utf8_bytes (map of_char s)"

lemma utf8_bytes_ascii: "(\<forall>b \<in> set bs. b < 128) \<Longrightarrow> utf8_bytes bs"
  by (induction bs) auto

text \<open>
  \<open>blank s\<close> is \<open>strings.TrimSpace(s) == ""\<close>: every rune of \<open>s\<close> has the Unicode
  White_Space property (an invalid byte is not a space).
\<close>

fun blank_bytes :: "nat list \<Rightarrow> bool" where
  "blank_bytes [] = True"
| "blank_bytes (b # bs) =
    (if (9 \<le> b \<and> b \<le> 13) \<or> b = 32 then blank_bytes bs
     else if b = 194 then
       (case bs of c # cs \<Rightarrow> (c = 133 \<or> c = 160) \<and> blank_bytes cs | [] \<Rightarrow> False)
     else if b = 225 then
       (case bs of c # d # cs \<Rightarrow> c = 154 \<and> d = 128 \<and> blank_bytes cs | _ \<Rightarrow> False)
     else if b = 226 then
       (case bs of c # d # cs \<Rightarrow>
          ((c = 128 \<and> ((128 \<le> d \<and> d \<le> 138) \<or> d = 168 \<or> d = 169 \<or> d = 175)) \<or> (c = 129 \<and> d = 159))
          \<and> blank_bytes cs
        | _ \<Rightarrow> False)
     else if b = 227 then
       (case bs of c # d # cs \<Rightarrow> c = 128 \<and> d = 128 \<and> blank_bytes cs | _ \<Rightarrow> False)
     else False)"

definition blank :: "string \<Rightarrow> bool" where
  "blank s = blank_bytes (map of_char s)"

lemma blank_Nil [simp]: "blank []"
  by (simp add: blank_def)

lemma not_blank_nonempty: "\<not> blank s \<Longrightarrow> s \<noteq> []"
  by auto

text \<open>\<open>validSHA256\<close> of \<open>contracts/values.go\<close>: 64 lower-case hexadecimal digits.\<close>

definition hex_digit :: "char \<Rightarrow> bool" where
  "hex_digit c \<longleftrightarrow>
     (48 \<le> (of_char c :: nat) \<and> (of_char c :: nat) \<le> 57) \<or> (97 \<le> (of_char c :: nat) \<and> (of_char c :: nat) \<le> 102)"

definition validSHA256 :: "string \<Rightarrow> bool" where
  "validSHA256 v \<longleftrightarrow> length v = 64 \<and> (\<forall>c \<in> set v. hex_digit c)"

lemma validSHA256_nonempty [simp]: "\<not> validSHA256 []"
  by (simp add: validSHA256_def)

text \<open>The decimal rendering of Go's \<open>%d\<close> for a non-negative number.\<close>

fun digits_of :: "nat \<Rightarrow> string" where
  "digits_of n = (if n < 10 then [char_of (48 + n)] else digits_of (n div 10) @ [char_of (48 + n mod 10)])"

declare digits_of.simps [simp del]

definition decimal :: "int \<Rightarrow> string" where
  "decimal i = (if i < 0 then CHR ''-'' # digits_of (nat (- i)) else digits_of (nat i))"

subsection \<open>Generic lemmas on lists and options\<close>

lemma find_Some_in: "find P xs = Some x \<Longrightarrow> x \<in> set xs \<and> P x"
  by (auto simp: find_Some_iff)

lemma find_None_iff_all: "find P xs = None \<longleftrightarrow> (\<forall>x \<in> set xs. \<not> P x)"
  by (auto simp: find_None_iff)

lemma find_append: "find P (xs @ ys) = (case find P xs of None \<Rightarrow> find P ys | Some x \<Rightarrow> Some x)"
  by (induction xs) auto

lemma option_is_None_iff: "(\<forall>y. x \<noteq> Some y) \<longleftrightarrow> x = None"
  by (cases x) auto

end
