(* ===== verification/Status.thy ===== *)
theory Status
  imports Prelude
begin

section \<open>Closed status and code sets of the shared contracts\<close>

text \<open>
  The string types of \<open>internal/contracts/status.go\<close>, \<open>codes.go\<close>, \<open>execution.go\<close> and
  \<open>checkpoint.go\<close>. In Go each is a named string type with constants; a value that is none of the
  constants is representable, and the \<open>Valid\<close> methods reject it. Each datatype has the source's
  constants and one constructor \<open>...Other\<close> for every other string. The text of a constant is given
  by the \<open>..._text\<close> functions where the program prints or stores it.
\<close>

subsection \<open>Statuses\<close>

datatype TaskStatus =
    TaskStatusPending
  | TaskStatusRunning
  | TaskStatusWaitingApproval
  | TaskStatusInterrupted
  | TaskStatusCompleted
  | TaskStatusFailed
  | TaskStatusCancelled
  | TaskStatusOther string

fun TaskStatus_Valid :: "TaskStatus \<Rightarrow> bool" where
  "TaskStatus_Valid (TaskStatusOther _) = False"
| "TaskStatus_Valid _ = True"

definition TaskStatus_Terminal :: "TaskStatus \<Rightarrow> bool" where
  "TaskStatus_Terminal s \<longleftrightarrow>
     s = TaskStatusCompleted \<or> s = TaskStatusFailed \<or> s = TaskStatusCancelled"

fun TaskStatus_text :: "TaskStatus \<Rightarrow> string" where
  "TaskStatus_text TaskStatusPending = ''Pending''"
| "TaskStatus_text TaskStatusRunning = ''Running''"
| "TaskStatus_text TaskStatusWaitingApproval = ''WaitingApproval''"
| "TaskStatus_text TaskStatusInterrupted = ''INTERRUPTED''"
| "TaskStatus_text TaskStatusCompleted = ''Completed''"
| "TaskStatus_text TaskStatusFailed = ''Failed''"
| "TaskStatus_text TaskStatusCancelled = ''Cancelled''"
| "TaskStatus_text (TaskStatusOther s) = s"

definition TaskStatus_of :: "string \<Rightarrow> TaskStatus" where
  "TaskStatus_of s =
    (if s = ''Pending'' then TaskStatusPending
     else if s = ''Running'' then TaskStatusRunning
     else if s = ''WaitingApproval'' then TaskStatusWaitingApproval
     else if s = ''INTERRUPTED'' then TaskStatusInterrupted
     else if s = ''Completed'' then TaskStatusCompleted
     else if s = ''Failed'' then TaskStatusFailed
     else if s = ''Cancelled'' then TaskStatusCancelled
     else TaskStatusOther s)"

datatype RunStatus =
    RunStatusPending
  | RunStatusRunning
  | RunStatusWaitingApproval
  | RunStatusCompleted
  | RunStatusFailed
  | RunStatusOther string

fun RunStatus_Valid :: "RunStatus \<Rightarrow> bool" where
  "RunStatus_Valid (RunStatusOther _) = False"
| "RunStatus_Valid _ = True"

definition RunStatus_Terminal :: "RunStatus \<Rightarrow> bool" where
  "RunStatus_Terminal s \<longleftrightarrow> s = RunStatusCompleted \<or> s = RunStatusFailed"

fun RunStatus_text :: "RunStatus \<Rightarrow> string" where
  "RunStatus_text RunStatusPending = ''Pending''"
| "RunStatus_text RunStatusRunning = ''Running''"
| "RunStatus_text RunStatusWaitingApproval = ''WaitingApproval''"
| "RunStatus_text RunStatusCompleted = ''Completed''"
| "RunStatus_text RunStatusFailed = ''Failed''"
| "RunStatus_text (RunStatusOther s) = s"

definition RunStatus_of :: "string \<Rightarrow> RunStatus" where
  "RunStatus_of s =
    (if s = ''Pending'' then RunStatusPending
     else if s = ''Running'' then RunStatusRunning
     else if s = ''WaitingApproval'' then RunStatusWaitingApproval
     else if s = ''Completed'' then RunStatusCompleted
     else if s = ''Failed'' then RunStatusFailed
     else RunStatusOther s)"

datatype StepStatus =
    StepStatusPending
  | StepStatusRunning
  | StepStatusWaitingApproval
  | StepStatusCompleted
  | StepStatusFailed
  | StepStatusOther string

fun StepStatus_Valid :: "StepStatus \<Rightarrow> bool" where
  "StepStatus_Valid (StepStatusOther _) = False"
| "StepStatus_Valid _ = True"

definition StepStatus_Terminal :: "StepStatus \<Rightarrow> bool" where
  "StepStatus_Terminal s \<longleftrightarrow> s = StepStatusCompleted \<or> s = StepStatusFailed"

datatype TaskExecutionStatus =
    TaskExecutionStatusQueued
  | TaskExecutionStatusRunning
  | TaskExecutionStatusWaitingApproval
  | TaskExecutionStatusCompleted
  | TaskExecutionStatusFailed
  | TaskExecutionStatusInterrupted
  | TaskExecutionStatusOther string

fun TaskExecutionStatus_Valid :: "TaskExecutionStatus \<Rightarrow> bool" where
  "TaskExecutionStatus_Valid (TaskExecutionStatusOther _) = False"
| "TaskExecutionStatus_Valid _ = True"

definition TaskExecutionStatus_Ended :: "TaskExecutionStatus \<Rightarrow> bool" where
  "TaskExecutionStatus_Ended s \<longleftrightarrow>
     s = TaskExecutionStatusCompleted \<or> s = TaskExecutionStatusFailed \<or> s = TaskExecutionStatusInterrupted"

fun TaskExecutionStatus_text :: "TaskExecutionStatus \<Rightarrow> string" where
  "TaskExecutionStatus_text TaskExecutionStatusQueued = ''QUEUED''"
| "TaskExecutionStatus_text TaskExecutionStatusRunning = ''RUNNING''"
| "TaskExecutionStatus_text TaskExecutionStatusWaitingApproval = ''WAITING_APPROVAL''"
| "TaskExecutionStatus_text TaskExecutionStatusCompleted = ''COMPLETED''"
| "TaskExecutionStatus_text TaskExecutionStatusFailed = ''FAILED''"
| "TaskExecutionStatus_text TaskExecutionStatusInterrupted = ''INTERRUPTED''"
| "TaskExecutionStatus_text (TaskExecutionStatusOther s) = s"

definition TaskExecutionStatus_of :: "string \<Rightarrow> TaskExecutionStatus" where
  "TaskExecutionStatus_of s =
    (if s = ''QUEUED'' then TaskExecutionStatusQueued
     else if s = ''RUNNING'' then TaskExecutionStatusRunning
     else if s = ''WAITING_APPROVAL'' then TaskExecutionStatusWaitingApproval
     else if s = ''COMPLETED'' then TaskExecutionStatusCompleted
     else if s = ''FAILED'' then TaskExecutionStatusFailed
     else if s = ''INTERRUPTED'' then TaskExecutionStatusInterrupted
     else TaskExecutionStatusOther s)"

datatype ToolExecutionStatus =
    ToolExecutionStatusRunning
  | ToolExecutionStatusCompleted
  | ToolExecutionStatusFailed
  | ToolExecutionStatusUnknown
  | ToolExecutionStatusOther string

fun ToolExecutionStatus_Valid :: "ToolExecutionStatus \<Rightarrow> bool" where
  "ToolExecutionStatus_Valid (ToolExecutionStatusOther _) = False"
| "ToolExecutionStatus_Valid _ = True"

definition ToolExecutionStatus_Terminal :: "ToolExecutionStatus \<Rightarrow> bool" where
  "ToolExecutionStatus_Terminal s \<longleftrightarrow>
     s = ToolExecutionStatusCompleted \<or> s = ToolExecutionStatusFailed \<or> s = ToolExecutionStatusUnknown"

datatype ApprovalStatus =
    ApprovalStatusPending
  | ApprovalStatusApproved
  | ApprovalStatusRejected
  | ApprovalStatusOther string

definition ApprovalStatus_Valid :: "ApprovalStatus \<Rightarrow> bool" where
  "ApprovalStatus_Valid s \<longleftrightarrow>
     s = ApprovalStatusPending \<or> s = ApprovalStatusApproved \<or> s = ApprovalStatusRejected"

definition ApprovalStatus_Terminal :: "ApprovalStatus \<Rightarrow> bool" where
  "ApprovalStatus_Terminal s \<longleftrightarrow> s = ApprovalStatusApproved \<or> s = ApprovalStatusRejected"

datatype ReportStatus =
    ReportStatusPending
  | ReportStatusGenerating
  | ReportStatusCompleted
  | ReportStatusFailed
  | ReportStatusOther string

fun ReportStatus_Valid :: "ReportStatus \<Rightarrow> bool" where
  "ReportStatus_Valid (ReportStatusOther _) = False"
| "ReportStatus_Valid _ = True"

definition ReportStatus_Terminal :: "ReportStatus \<Rightarrow> bool" where
  "ReportStatus_Terminal s \<longleftrightarrow> s = ReportStatusCompleted \<or> s = ReportStatusFailed"

subsection \<open>Texts read back\<close>

text \<open>The text of a constant determines it, so a stored status is read back unchanged.\<close>

lemma TaskStatus_text_of [simp]: "TaskStatus_Valid s \<Longrightarrow> TaskStatus_of (TaskStatus_text s) = s"
  by (cases s) (simp_all add: TaskStatus_of_def)

lemma RunStatus_text_of [simp]: "RunStatus_Valid s \<Longrightarrow> RunStatus_of (RunStatus_text s) = s"
  by (cases s) (simp_all add: RunStatus_of_def)

lemma TaskExecutionStatus_text_of [simp]:
  "TaskExecutionStatus_Valid s \<Longrightarrow> TaskExecutionStatus_of (TaskExecutionStatus_text s) = s"
  by (cases s) (simp_all add: TaskExecutionStatus_of_def)

lemma TaskStatus_text_nonempty [simp]: "TaskStatus_Valid s \<Longrightarrow> TaskStatus_text s \<noteq> []"
  by (cases s) simp_all

lemma RunStatus_text_nonempty [simp]: "RunStatus_Valid s \<Longrightarrow> RunStatus_text s \<noteq> []"
  by (cases s) simp_all

lemma TaskExecutionStatus_text_nonempty [simp]:
  "TaskExecutionStatus_Valid s \<Longrightarrow> TaskExecutionStatus_text s \<noteq> []"
  by (cases s) simp_all

lemmas status_defs [valid_simps] =
  TaskStatus_Terminal_def RunStatus_Terminal_def StepStatus_Terminal_def TaskExecutionStatus_Ended_def
  ToolExecutionStatus_Terminal_def ApprovalStatus_Valid_def ApprovalStatus_Terminal_def
  ReportStatus_Terminal_def

end
