(* ===== verification/Codes.thy ===== *)
theory Codes
  imports Prelude
begin

section \<open>Error, reason and action codes\<close>

text \<open>
  The remaining closed string sets of \<open>internal/contracts\<close>: persisted error codes and their
  causes, checkpoint reason codes, invariant codes, the external termination reasons, the frozen
  next actions of a checkpoint, step continuations, step types, risk levels and the typed
  cancellation causes. As in the status theory, \<open>...Other\<close> stands for a string outside the set.
\<close>

subsection \<open>Error codes\<close>

datatype ErrorCode =
    ErrorCodeTaskCancelled
  | ErrorCodeTaskTimeout
  | ErrorCodeConfigVersionMismatch
  | ErrorCodeDataInconsistent
  | ErrorCodeCheckpointInvalid
  | ErrorCodePlanGenerationFailed
  | ErrorCodePlanValidationFailed
  | ErrorCodeInputResolutionFailed
  | ErrorCodeModelInputTooLarge
  | ErrorCodeModelCallFailed
  | ErrorCodeModelOutputInvalid
  | ErrorCodeResultSanitizationFailed
  | ErrorCodeStepOutputInvalid
  | ErrorCodeStepOutputTooLarge
  | ErrorCodeToolNotFound
  | ErrorCodeToolDisabled
  | ErrorCodeToolNotAuthorized
  | ErrorCodeToolInputInvalid
  | ErrorCodeToolAccessDenied
  | ErrorCodeToolTimeout
  | ErrorCodeToolConnectionLost
  | ErrorCodeToolCallFailed
  | ErrorCodeApprovalContextChanged
  | ErrorCodeApprovalRejected
  | ErrorCodeWriteToolInterrupted
  | ErrorCodeWorkerInterrupted
  | ErrorCodeResultPersistenceFailed
  | ErrorCodeReportGenerationFailed
  | ErrorCodeStepExecutorContractBroken
  | ErrorCodeRuntimeStaticToolSnapshotInconsistent
  | ErrorCodePersistenceInvariantViolation
  | ErrorCodeOther string

fun ErrorCode_text :: "ErrorCode \<Rightarrow> string" where
  "ErrorCode_text ErrorCodeTaskCancelled = ''TaskCancelled''"
| "ErrorCode_text ErrorCodeTaskTimeout = ''TaskTimeout''"
| "ErrorCode_text ErrorCodeConfigVersionMismatch = ''CONFIG_VERSION_MISMATCH''"
| "ErrorCode_text ErrorCodeDataInconsistent = ''DATA_INCONSISTENT''"
| "ErrorCode_text ErrorCodeCheckpointInvalid = ''CheckpointInvalid''"
| "ErrorCode_text ErrorCodePlanGenerationFailed = ''PlanGenerationFailed''"
| "ErrorCode_text ErrorCodePlanValidationFailed = ''PlanValidationFailed''"
| "ErrorCode_text ErrorCodeInputResolutionFailed = ''InputResolutionFailed''"
| "ErrorCode_text ErrorCodeModelInputTooLarge = ''ModelInputTooLarge''"
| "ErrorCode_text ErrorCodeModelCallFailed = ''ModelCallFailed''"
| "ErrorCode_text ErrorCodeModelOutputInvalid = ''ModelOutputInvalid''"
| "ErrorCode_text ErrorCodeResultSanitizationFailed = ''ResultSanitizationFailed''"
| "ErrorCode_text ErrorCodeStepOutputInvalid = ''StepOutputInvalid''"
| "ErrorCode_text ErrorCodeStepOutputTooLarge = ''StepOutputTooLarge''"
| "ErrorCode_text ErrorCodeToolNotFound = ''ToolNotFound''"
| "ErrorCode_text ErrorCodeToolDisabled = ''ToolDisabled''"
| "ErrorCode_text ErrorCodeToolNotAuthorized = ''ToolNotAuthorized''"
| "ErrorCode_text ErrorCodeToolInputInvalid = ''ToolInputInvalid''"
| "ErrorCode_text ErrorCodeToolAccessDenied = ''ToolAccessDenied''"
| "ErrorCode_text ErrorCodeToolTimeout = ''ToolTimeout''"
| "ErrorCode_text ErrorCodeToolConnectionLost = ''ToolConnectionLost''"
| "ErrorCode_text ErrorCodeToolCallFailed = ''ToolCallFailed''"
| "ErrorCode_text ErrorCodeApprovalContextChanged = ''ApprovalContextChanged''"
| "ErrorCode_text ErrorCodeApprovalRejected = ''ApprovalRejected''"
| "ErrorCode_text ErrorCodeWriteToolInterrupted = ''WRITE_TOOL_INTERRUPTED''"
| "ErrorCode_text ErrorCodeWorkerInterrupted = ''WORKER_INTERRUPTED''"
| "ErrorCode_text ErrorCodeResultPersistenceFailed = ''RESULT_PERSISTENCE_FAILED''"
| "ErrorCode_text ErrorCodeReportGenerationFailed = ''ReportGenerationFailed''"
| "ErrorCode_text ErrorCodeStepExecutorContractBroken = ''STEP_EXECUTOR_CONTRACT_BROKEN''"
| "ErrorCode_text ErrorCodeRuntimeStaticToolSnapshotInconsistent = ''RUNTIME_STATIC_TOOL_SNAPSHOT_INCONSISTENT''"
| "ErrorCode_text ErrorCodePersistenceInvariantViolation = ''PersistenceInvariantViolation''"
| "ErrorCode_text (ErrorCodeOther s) = s"

definition ErrorCode_of :: "string \<Rightarrow> ErrorCode" where
  "ErrorCode_of s =
    (if s = ''TaskCancelled'' then ErrorCodeTaskCancelled
     else if s = ''TaskTimeout'' then ErrorCodeTaskTimeout
     else if s = ''CONFIG_VERSION_MISMATCH'' then ErrorCodeConfigVersionMismatch
     else if s = ''DATA_INCONSISTENT'' then ErrorCodeDataInconsistent
     else if s = ''CheckpointInvalid'' then ErrorCodeCheckpointInvalid
     else if s = ''PlanGenerationFailed'' then ErrorCodePlanGenerationFailed
     else if s = ''PlanValidationFailed'' then ErrorCodePlanValidationFailed
     else if s = ''InputResolutionFailed'' then ErrorCodeInputResolutionFailed
     else if s = ''ModelInputTooLarge'' then ErrorCodeModelInputTooLarge
     else if s = ''ModelCallFailed'' then ErrorCodeModelCallFailed
     else if s = ''ModelOutputInvalid'' then ErrorCodeModelOutputInvalid
     else if s = ''ResultSanitizationFailed'' then ErrorCodeResultSanitizationFailed
     else if s = ''StepOutputInvalid'' then ErrorCodeStepOutputInvalid
     else if s = ''StepOutputTooLarge'' then ErrorCodeStepOutputTooLarge
     else if s = ''ToolNotFound'' then ErrorCodeToolNotFound
     else if s = ''ToolDisabled'' then ErrorCodeToolDisabled
     else if s = ''ToolNotAuthorized'' then ErrorCodeToolNotAuthorized
     else if s = ''ToolInputInvalid'' then ErrorCodeToolInputInvalid
     else if s = ''ToolAccessDenied'' then ErrorCodeToolAccessDenied
     else if s = ''ToolTimeout'' then ErrorCodeToolTimeout
     else if s = ''ToolConnectionLost'' then ErrorCodeToolConnectionLost
     else if s = ''ToolCallFailed'' then ErrorCodeToolCallFailed
     else if s = ''ApprovalContextChanged'' then ErrorCodeApprovalContextChanged
     else if s = ''ApprovalRejected'' then ErrorCodeApprovalRejected
     else if s = ''WRITE_TOOL_INTERRUPTED'' then ErrorCodeWriteToolInterrupted
     else if s = ''WORKER_INTERRUPTED'' then ErrorCodeWorkerInterrupted
     else if s = ''RESULT_PERSISTENCE_FAILED'' then ErrorCodeResultPersistenceFailed
     else if s = ''ReportGenerationFailed'' then ErrorCodeReportGenerationFailed
     else if s = ''STEP_EXECUTOR_CONTRACT_BROKEN'' then ErrorCodeStepExecutorContractBroken
     else if s = ''RUNTIME_STATIC_TOOL_SNAPSHOT_INCONSISTENT'' then ErrorCodeRuntimeStaticToolSnapshotInconsistent
     else if s = ''PersistenceInvariantViolation'' then ErrorCodePersistenceInvariantViolation
     else ErrorCodeOther s)"

fun ErrorCode_Valid :: "ErrorCode \<Rightarrow> bool" where
  "ErrorCode_Valid (ErrorCodeOther _) = False"
| "ErrorCode_Valid _ = True"

text \<open>
  \<open>CauseCode\<close> is a second string type over the same texts; its \<open>Valid\<close> converts to \<open>ErrorCode\<close>.
\<close>

type_synonym CauseCode = ErrorCode

definition CauseCode_Valid :: "CauseCode \<Rightarrow> bool" where
  "CauseCode_Valid c = ErrorCode_Valid c"

subsection \<open>Termination reasons, checkpoint reasons, invariant codes\<close>

datatype TerminationReason =
    TerminationReasonCancelled
  | TerminationReasonTimedOut
  | TerminationReasonOther string

fun TerminationReason_text :: "TerminationReason \<Rightarrow> string" where
  "TerminationReason_text TerminationReasonCancelled = ''CANCELLED''"
| "TerminationReason_text TerminationReasonTimedOut = ''TIMED_OUT''"
| "TerminationReason_text (TerminationReasonOther s) = s"

definition TerminationReason_of :: "string \<Rightarrow> TerminationReason" where
  "TerminationReason_of s =
    (if s = ''CANCELLED'' then TerminationReasonCancelled
     else if s = ''TIMED_OUT'' then TerminationReasonTimedOut
     else TerminationReasonOther s)"

definition TerminationReason_Valid :: "TerminationReason \<Rightarrow> bool" where
  "TerminationReason_Valid r \<longleftrightarrow> r = TerminationReasonCancelled \<or> r = TerminationReasonTimedOut"

datatype ReasonCode =
    ReasonCodeCheckpointNotFound
  | ReasonCodeRuntimeContextMalformed
  | ReasonCodeRuntimeContextVersionUnsupported
  | ReasonCodeCheckpointAttributionMismatch
  | ReasonCodeCheckpointExecutionHashMismatch
  | ReasonCodeCheckpointTypeAmbiguous
  | ReasonCodeCheckpointSourceInvalid
  | ReasonCodeCheckpointPlanReferenceInvalid
  | ReasonCodeCheckpointStepReferenceInvalid
  | ReasonCodeCheckpointStepOutputReferenceInvalid
  | ReasonCodeCheckpointReferenceSyntaxInvalid
  | ReasonCodeCheckpointReferencePathInvalid
  | ReasonCodeCheckpointReferencePathTooDeep
  | ReasonCodeCheckpointReferenceLimitExceeded
  | ReasonCodeCheckpointReferenceDuplicateTarget
  | ReasonCodeCheckpointReferenceOrderInvalid
  | ReasonCodeCheckpointReferenceMissing
  | ReasonCodeCheckpointReferenceExtra
  | ReasonCodeCheckpointReferenceSourceInvalid
  | ReasonCodeCheckpointApprovalReferenceInvalid
  | ReasonCodeCheckpointFrozenActionMismatch
  | ReasonCodeCheckpointFrozenInputHashMismatch
  | ReasonCodeCheckpointNextActionInvalid
  | ReasonCodeOther string

fun ReasonCode_text :: "ReasonCode \<Rightarrow> string" where
  "ReasonCode_text ReasonCodeCheckpointNotFound = ''CHECKPOINT_NOT_FOUND''"
| "ReasonCode_text ReasonCodeRuntimeContextMalformed = ''RUNTIME_CONTEXT_MALFORMED''"
| "ReasonCode_text ReasonCodeRuntimeContextVersionUnsupported = ''RUNTIME_CONTEXT_VERSION_UNSUPPORTED''"
| "ReasonCode_text ReasonCodeCheckpointAttributionMismatch = ''CHECKPOINT_ATTRIBUTION_MISMATCH''"
| "ReasonCode_text ReasonCodeCheckpointExecutionHashMismatch = ''CHECKPOINT_EXECUTION_HASH_MISMATCH''"
| "ReasonCode_text ReasonCodeCheckpointTypeAmbiguous = ''CHECKPOINT_TYPE_AMBIGUOUS''"
| "ReasonCode_text ReasonCodeCheckpointSourceInvalid = ''CHECKPOINT_SOURCE_INVALID''"
| "ReasonCode_text ReasonCodeCheckpointPlanReferenceInvalid = ''CHECKPOINT_PLAN_REFERENCE_INVALID''"
| "ReasonCode_text ReasonCodeCheckpointStepReferenceInvalid = ''CHECKPOINT_STEP_REFERENCE_INVALID''"
| "ReasonCode_text ReasonCodeCheckpointStepOutputReferenceInvalid = ''CHECKPOINT_STEP_OUTPUT_REFERENCE_INVALID''"
| "ReasonCode_text ReasonCodeCheckpointReferenceSyntaxInvalid = ''CHECKPOINT_REFERENCE_SYNTAX_INVALID''"
| "ReasonCode_text ReasonCodeCheckpointReferencePathInvalid = ''CHECKPOINT_REFERENCE_PATH_INVALID''"
| "ReasonCode_text ReasonCodeCheckpointReferencePathTooDeep = ''CHECKPOINT_REFERENCE_PATH_TOO_DEEP''"
| "ReasonCode_text ReasonCodeCheckpointReferenceLimitExceeded = ''CHECKPOINT_REFERENCE_LIMIT_EXCEEDED''"
| "ReasonCode_text ReasonCodeCheckpointReferenceDuplicateTarget = ''CHECKPOINT_REFERENCE_DUPLICATE_TARGET''"
| "ReasonCode_text ReasonCodeCheckpointReferenceOrderInvalid = ''CHECKPOINT_REFERENCE_ORDER_INVALID''"
| "ReasonCode_text ReasonCodeCheckpointReferenceMissing = ''CHECKPOINT_REFERENCE_MISSING''"
| "ReasonCode_text ReasonCodeCheckpointReferenceExtra = ''CHECKPOINT_REFERENCE_EXTRA''"
| "ReasonCode_text ReasonCodeCheckpointReferenceSourceInvalid = ''CHECKPOINT_REFERENCE_SOURCE_INVALID''"
| "ReasonCode_text ReasonCodeCheckpointApprovalReferenceInvalid = ''CHECKPOINT_APPROVAL_REFERENCE_INVALID''"
| "ReasonCode_text ReasonCodeCheckpointFrozenActionMismatch = ''CHECKPOINT_FROZEN_ACTION_MISMATCH''"
| "ReasonCode_text ReasonCodeCheckpointFrozenInputHashMismatch = ''CHECKPOINT_FROZEN_INPUT_HASH_MISMATCH''"
| "ReasonCode_text ReasonCodeCheckpointNextActionInvalid = ''CHECKPOINT_NEXT_ACTION_INVALID''"
| "ReasonCode_text (ReasonCodeOther s) = s"

definition ReasonCode_of :: "string \<Rightarrow> ReasonCode" where
  "ReasonCode_of s =
    (if s = ''CHECKPOINT_NOT_FOUND'' then ReasonCodeCheckpointNotFound
     else if s = ''RUNTIME_CONTEXT_MALFORMED'' then ReasonCodeRuntimeContextMalformed
     else if s = ''RUNTIME_CONTEXT_VERSION_UNSUPPORTED'' then ReasonCodeRuntimeContextVersionUnsupported
     else if s = ''CHECKPOINT_ATTRIBUTION_MISMATCH'' then ReasonCodeCheckpointAttributionMismatch
     else if s = ''CHECKPOINT_EXECUTION_HASH_MISMATCH'' then ReasonCodeCheckpointExecutionHashMismatch
     else if s = ''CHECKPOINT_TYPE_AMBIGUOUS'' then ReasonCodeCheckpointTypeAmbiguous
     else if s = ''CHECKPOINT_SOURCE_INVALID'' then ReasonCodeCheckpointSourceInvalid
     else if s = ''CHECKPOINT_PLAN_REFERENCE_INVALID'' then ReasonCodeCheckpointPlanReferenceInvalid
     else if s = ''CHECKPOINT_STEP_REFERENCE_INVALID'' then ReasonCodeCheckpointStepReferenceInvalid
     else if s = ''CHECKPOINT_STEP_OUTPUT_REFERENCE_INVALID'' then ReasonCodeCheckpointStepOutputReferenceInvalid
     else if s = ''CHECKPOINT_REFERENCE_SYNTAX_INVALID'' then ReasonCodeCheckpointReferenceSyntaxInvalid
     else if s = ''CHECKPOINT_REFERENCE_PATH_INVALID'' then ReasonCodeCheckpointReferencePathInvalid
     else if s = ''CHECKPOINT_REFERENCE_PATH_TOO_DEEP'' then ReasonCodeCheckpointReferencePathTooDeep
     else if s = ''CHECKPOINT_REFERENCE_LIMIT_EXCEEDED'' then ReasonCodeCheckpointReferenceLimitExceeded
     else if s = ''CHECKPOINT_REFERENCE_DUPLICATE_TARGET'' then ReasonCodeCheckpointReferenceDuplicateTarget
     else if s = ''CHECKPOINT_REFERENCE_ORDER_INVALID'' then ReasonCodeCheckpointReferenceOrderInvalid
     else if s = ''CHECKPOINT_REFERENCE_MISSING'' then ReasonCodeCheckpointReferenceMissing
     else if s = ''CHECKPOINT_REFERENCE_EXTRA'' then ReasonCodeCheckpointReferenceExtra
     else if s = ''CHECKPOINT_REFERENCE_SOURCE_INVALID'' then ReasonCodeCheckpointReferenceSourceInvalid
     else if s = ''CHECKPOINT_APPROVAL_REFERENCE_INVALID'' then ReasonCodeCheckpointApprovalReferenceInvalid
     else if s = ''CHECKPOINT_FROZEN_ACTION_MISMATCH'' then ReasonCodeCheckpointFrozenActionMismatch
     else if s = ''CHECKPOINT_FROZEN_INPUT_HASH_MISMATCH'' then ReasonCodeCheckpointFrozenInputHashMismatch
     else if s = ''CHECKPOINT_NEXT_ACTION_INVALID'' then ReasonCodeCheckpointNextActionInvalid
     else ReasonCodeOther s)"

fun ReasonCode_ValidForCheckpointInvalid :: "ReasonCode \<Rightarrow> bool" where
  "ReasonCode_ValidForCheckpointInvalid (ReasonCodeOther _) = False"
| "ReasonCode_ValidForCheckpointInvalid _ = True"

datatype InvariantCode =
    InvariantCodeCurrentExecutionInvalid
  | InvariantCodeQueueStateInvalid
  | InvariantCodeClaimSourceAmbiguous
  | InvariantCodeCrossObjectStateInvalid
  | InvariantCodeOther string

fun InvariantCode_Valid :: "InvariantCode \<Rightarrow> bool" where
  "InvariantCode_Valid (InvariantCodeOther _) = False"
| "InvariantCode_Valid _ = True"

subsection \<open>Frozen actions and continuations\<close>

datatype CheckpointNextAction =
    CheckpointNextActionGeneratePlan
  | CheckpointNextActionExecuteStep
  | CheckpointNextActionRequestApproval
  | CheckpointNextActionExecuteApprovedTool
  | CheckpointNextActionFinalizeRun
  | CheckpointNextActionOther string

fun CheckpointNextAction_Valid :: "CheckpointNextAction \<Rightarrow> bool" where
  "CheckpointNextAction_Valid (CheckpointNextActionOther _) = False"
| "CheckpointNextAction_Valid _ = True"

datatype StepContinuationKind =
    StepContinuationNextStep
  | StepContinuationFinalizeRun
  | StepContinuationKindOther string

definition StepContinuationKind_Valid :: "StepContinuationKind \<Rightarrow> bool" where
  "StepContinuationKind_Valid k \<longleftrightarrow> k = StepContinuationNextStep \<or> k = StepContinuationFinalizeRun"

datatype ExecutionCancellationCause =
    ExecutionCancellationCauseTaskCancelled
  | ExecutionCancellationCauseTaskTimedOut
  | ExecutionCancellationCauseActionTimeout
  | ExecutionCancellationCauseRuntimeShutdown
  | ExecutionCancellationCauseLockLost
  | ExecutionCancellationCauseOther string

fun ExecutionCancellationCause_Valid :: "ExecutionCancellationCause \<Rightarrow> bool" where
  "ExecutionCancellationCause_Valid (ExecutionCancellationCauseOther _) = False"
| "ExecutionCancellationCause_Valid _ = True"

datatype StepType =
    StepTypeAnalysis
  | StepTypeModelCall
  | StepTypeToolCall
  | StepTypeVerification
  | StepTypeOther string

fun StepType_Valid :: "StepType \<Rightarrow> bool" where
  "StepType_Valid (StepTypeOther _) = False"
| "StepType_Valid _ = True"

datatype RiskLevel =
    RiskLevelLow
  | RiskLevelHigh
  | RiskLevelOther string

definition RiskLevel_Valid :: "RiskLevel \<Rightarrow> bool" where
  "RiskLevel_Valid l \<longleftrightarrow> l = RiskLevelLow \<or> l = RiskLevelHigh"

subsection \<open>Texts read back\<close>

lemma ErrorCode_of_text: "ErrorCode_text (ErrorCode_of s) = s"
  by (simp add: ErrorCode_of_def)

lemma ErrorCode_text_of [simp]: "ErrorCode_Valid c \<Longrightarrow> ErrorCode_of (ErrorCode_text c) = c"
  by (cases c) (simp_all add: ErrorCode_of_def)

lemma TerminationReason_text_of [simp]:
  "TerminationReason_Valid r \<Longrightarrow> TerminationReason_of (TerminationReason_text r) = r"
  by (cases r) (simp_all add: TerminationReason_of_def TerminationReason_Valid_def)

lemma ReasonCode_text_of [simp]:
  "ReasonCode_ValidForCheckpointInvalid c \<Longrightarrow> ReasonCode_of (ReasonCode_text c) = c"
  by (cases c) (simp_all add: ReasonCode_of_def)

lemma ErrorCode_text_nonempty [simp]: "ErrorCode_Valid c \<Longrightarrow> ErrorCode_text c \<noteq> []"
  by (cases c) simp_all

lemma TerminationReason_text_nonempty [simp]:
  "TerminationReason_Valid r \<Longrightarrow> TerminationReason_text r \<noteq> []"
  by (cases r) (simp_all add: TerminationReason_Valid_def)

lemma ReasonCode_text_nonempty [simp]:
  "ReasonCode_ValidForCheckpointInvalid k \<Longrightarrow> ReasonCode_text k \<noteq> []"
  by (cases k) simp_all

lemmas code_defs [valid_simps] =
  CauseCode_Valid_def TerminationReason_Valid_def StepContinuationKind_Valid_def RiskLevel_Valid_def

end
