(* ===== verification/Lifecycle.thy ===== *)
theory Lifecycle
  imports Status Codes
begin

section \<open>Lifecycle policy\<close>

text \<open>
  \<open>internal/lifecycle/policy.go\<close>: the stateless rules that say which state changes of Task, Run,
  Step and TaskExecution are allowed, and the shared guard on execution version, worker ownership
  and deadline. The properties at the end are about the four state machines as graphs and about
  the guard.
\<close>

datatype RejectionReason =
    RejectionNone
  | RejectionInvalidState
  | RejectionVersionMismatch
  | RejectionWorkerMismatch
  | RejectionDeadlineReached
  | RejectionApprovalNotPending
  | RejectionInvalidSource

record Decision =
  Allowed :: bool
  Reason :: RejectionReason

definition allowed :: Decision where
  "allowed = \<lparr>Allowed = True, Reason = RejectionNone\<rparr>"

definition rejected :: "RejectionReason \<Rightarrow> Decision" where
  "rejected r = \<lparr>Allowed = False, Reason = r\<rparr>"

lemma Allowed_allowed [simp]: "Allowed allowed"
  by (simp add: allowed_def)

lemma Allowed_rejected [simp]: "\<not> Allowed (rejected r)"
  by (simp add: rejected_def)

lemma Reason_rejected [simp]: "Reason (rejected r) = r"
  by (simp add: rejected_def)

lemma allowed_neq_rejected [simp]: "allowed \<noteq> rejected r" "rejected r \<noteq> allowed"
  by (simp_all add: allowed_def rejected_def)

lemma rejected_inject [simp]: "rejected r = rejected r' \<longleftrightarrow> r = r'"
  by (simp add: rejected_def)

definition CanCreateTask :: "TaskStatus \<Rightarrow> RunStatus \<Rightarrow> TaskExecutionStatus \<Rightarrow> Decision" where
  "CanCreateTask taskStatus runStatus executionStatus =
    (if taskStatus \<noteq> TaskStatusPending \<or> runStatus \<noteq> RunStatusPending
        \<or> executionStatus \<noteq> TaskExecutionStatusQueued
     then rejected RejectionInvalidState else allowed)"

subsection \<open>The shared guard\<close>

text \<open>Execution versions are \<open>int64\<close>; identifiers are strings; a nil pointer is \<open>None\<close>.\<close>

type_synonym ExecutionVersion = int
type_synonym WorkerID = string

definition ExecutionVersion_Valid :: "ExecutionVersion \<Rightarrow> bool" where
  "ExecutionVersion_Valid v \<longleftrightarrow> 0 < v"

lemma ExecutionVersion_Valid_iff [simp]: "ExecutionVersion_Valid v \<longleftrightarrow> 0 < v"
  by (simp add: ExecutionVersion_Valid_def)

record GuardFacts =
  GF_CurrentExecutionVersion :: ExecutionVersion
  GF_RequestExecutionVersion :: ExecutionVersion
  GF_ExecutionWorkerID :: "WorkerID option"
  GF_RequestWorkerID :: "WorkerID option"
  GF_DeadlineAt :: time
  GF_DatabaseNow :: time

definition CheckGuard :: "GuardFacts \<Rightarrow> Decision" where
  "CheckGuard facts =
    (if \<not> ExecutionVersion_Valid (GF_CurrentExecutionVersion facts)
        \<or> GF_CurrentExecutionVersion facts \<noteq> GF_RequestExecutionVersion facts
     then rejected RejectionVersionMismatch
     else if (case GF_RequestWorkerID facts of
                None \<Rightarrow> False
              | Some requested \<Rightarrow>
                  (case GF_ExecutionWorkerID facts of
                     None \<Rightarrow> True
                   | Some owner \<Rightarrow> owner \<noteq> requested \<or> requested = ''''))
     then rejected RejectionWorkerMismatch
     else if IsZero (GF_DeadlineAt facts) \<or> \<not> GF_DatabaseNow facts < GF_DeadlineAt facts
     then rejected RejectionDeadlineReached
     else allowed)"

subsection \<open>State machine edges\<close>

definition CanTaskTransition :: "TaskStatus \<Rightarrow> TaskStatus \<Rightarrow> Decision" where
  "CanTaskTransition src dst =
    (if \<not> TaskStatus_Valid src \<or> \<not> TaskStatus_Valid dst \<or> src = dst then rejected RejectionInvalidState
     else
       (let valid =
          (case src of
             TaskStatusPending \<Rightarrow>
               dst = TaskStatusRunning \<or> dst = TaskStatusInterrupted
               \<or> dst = TaskStatusCancelled \<or> dst = TaskStatusFailed
           | TaskStatusRunning \<Rightarrow>
               dst = TaskStatusWaitingApproval \<or> dst = TaskStatusInterrupted
               \<or> dst = TaskStatusCompleted \<or> dst = TaskStatusFailed \<or> dst = TaskStatusCancelled
           | TaskStatusWaitingApproval \<Rightarrow>
               dst = TaskStatusRunning \<or> dst = TaskStatusCancelled \<or> dst = TaskStatusFailed
           | TaskStatusInterrupted \<Rightarrow>
               dst = TaskStatusPending \<or> dst = TaskStatusRunning
               \<or> dst = TaskStatusCancelled \<or> dst = TaskStatusFailed
           | _ \<Rightarrow> False)
        in if \<not> valid then rejected RejectionInvalidState else allowed))"

definition CanRunTransition :: "RunStatus \<Rightarrow> RunStatus \<Rightarrow> Decision" where
  "CanRunTransition src dst =
    (if \<not> RunStatus_Valid src \<or> \<not> RunStatus_Valid dst \<or> src = dst then rejected RejectionInvalidState
     else
       (let valid =
          (case src of
             RunStatusPending \<Rightarrow> dst = RunStatusRunning \<or> dst = RunStatusFailed
           | RunStatusRunning \<Rightarrow>
               dst = RunStatusWaitingApproval \<or> dst = RunStatusCompleted \<or> dst = RunStatusFailed
           | RunStatusWaitingApproval \<Rightarrow> dst = RunStatusRunning \<or> dst = RunStatusFailed
           | _ \<Rightarrow> False)
        in if \<not> valid then rejected RejectionInvalidState else allowed))"

definition CanStepTransition :: "StepStatus \<Rightarrow> StepStatus \<Rightarrow> Decision" where
  "CanStepTransition src dst =
    (if \<not> StepStatus_Valid src \<or> \<not> StepStatus_Valid dst \<or> src = dst then rejected RejectionInvalidState
     else
       (let valid =
          (case src of
             StepStatusPending \<Rightarrow> dst = StepStatusRunning \<or> dst = StepStatusFailed
           | StepStatusRunning \<Rightarrow>
               dst = StepStatusWaitingApproval \<or> dst = StepStatusCompleted \<or> dst = StepStatusFailed
           | StepStatusWaitingApproval \<Rightarrow> dst = StepStatusRunning \<or> dst = StepStatusFailed
           | _ \<Rightarrow> False)
        in if \<not> valid then rejected RejectionInvalidState else allowed))"

definition CanExecutionTransition :: "TaskExecutionStatus \<Rightarrow> TaskExecutionStatus \<Rightarrow> Decision" where
  "CanExecutionTransition src dst =
    (if \<not> TaskExecutionStatus_Valid src \<or> \<not> TaskExecutionStatus_Valid dst \<or> src = dst
     then rejected RejectionInvalidState
     else
       (let valid =
          (case src of
             TaskExecutionStatusQueued \<Rightarrow>
               dst = TaskExecutionStatusRunning \<or> dst = TaskExecutionStatusInterrupted
               \<or> dst = TaskExecutionStatusFailed
           | TaskExecutionStatusRunning \<Rightarrow>
               dst = TaskExecutionStatusWaitingApproval \<or> dst = TaskExecutionStatusCompleted
               \<or> dst = TaskExecutionStatusFailed \<or> dst = TaskExecutionStatusInterrupted
           | TaskExecutionStatusWaitingApproval \<Rightarrow>
               dst = TaskExecutionStatusQueued \<or> dst = TaskExecutionStatusFailed
           | TaskExecutionStatusInterrupted \<Rightarrow> dst = TaskExecutionStatusFailed
           | _ \<Rightarrow> False)
        in if \<not> valid then rejected RejectionInvalidState else allowed))"

subsection \<open>Approval decisions\<close>

record ApprovalFacts =
  AF_TaskStatus :: TaskStatus
  AF_RunStatus :: RunStatus
  AF_StepStatus :: StepStatus
  AF_ExecutionStatus :: TaskExecutionStatus
  AF_ApprovalStatus :: ApprovalStatus
  AF_CurrentExecutionVersion :: ExecutionVersion
  AF_RequestExecutionVersion :: ExecutionVersion
  AF_ExecutionWorkerID :: "WorkerID option"
  AF_RequestWorkerID :: "WorkerID option"
  AF_DeadlineAt :: time
  AF_DatabaseNow :: time

definition guardFacts :: "ApprovalFacts \<Rightarrow> GuardFacts" where
  "guardFacts facts =
    \<lparr>GF_CurrentExecutionVersion = AF_CurrentExecutionVersion facts,
     GF_RequestExecutionVersion = AF_RequestExecutionVersion facts,
     GF_ExecutionWorkerID = AF_ExecutionWorkerID facts,
     GF_RequestWorkerID = AF_RequestWorkerID facts,
     GF_DeadlineAt = AF_DeadlineAt facts,
     GF_DatabaseNow = AF_DatabaseNow facts\<rparr>"

definition CanEnterWaitingApproval :: "ApprovalFacts \<Rightarrow> Decision" where
  "CanEnterWaitingApproval facts =
    (if AF_RequestWorkerID facts = None then rejected RejectionWorkerMismatch
     else
       (let decision = CheckGuard (guardFacts facts)
        in if \<not> Allowed decision then decision
           else if AF_TaskStatus facts \<noteq> TaskStatusRunning \<or> AF_RunStatus facts \<noteq> RunStatusRunning
                   \<or> AF_StepStatus facts \<noteq> StepStatusRunning
                   \<or> AF_ExecutionStatus facts \<noteq> TaskExecutionStatusRunning
           then rejected RejectionInvalidState
           else allowed))"

definition checkWaitingApproval :: "ApprovalFacts \<Rightarrow> Decision" where
  "checkWaitingApproval facts =
    (if AF_RequestWorkerID facts \<noteq> None then rejected RejectionWorkerMismatch
     else
       (let withoutWorker = facts\<lparr>AF_RequestWorkerID := None\<rparr>;
            decision = CheckGuard (guardFacts withoutWorker)
        in if \<not> Allowed decision then decision
           else if AF_ExecutionWorkerID facts \<noteq> None then rejected RejectionWorkerMismatch
           else if AF_ApprovalStatus facts \<noteq> ApprovalStatusPending
           then rejected RejectionApprovalNotPending
           else if AF_TaskStatus facts \<noteq> TaskStatusWaitingApproval
                   \<or> AF_RunStatus facts \<noteq> RunStatusWaitingApproval
                   \<or> AF_StepStatus facts \<noteq> StepStatusWaitingApproval
                   \<or> AF_ExecutionStatus facts \<noteq> TaskExecutionStatusWaitingApproval
           then rejected RejectionInvalidState
           else allowed))"

definition CanApprove :: "ApprovalFacts \<Rightarrow> Decision" where
  "CanApprove facts =
    (let decision = checkWaitingApproval facts in if \<not> Allowed decision then decision else allowed)"

definition CanReject :: "ApprovalFacts \<Rightarrow> Decision" where
  "CanReject facts =
    (let decision = checkWaitingApproval facts in if \<not> Allowed decision then decision else allowed)"

datatype CheckpointInvalidSource =
    CheckpointInvalidSourceRequestApproval
  | CheckpointInvalidSourceApprove
  | CheckpointInvalidSourceReject
  | CheckpointInvalidSourceOther string

fun CanTerminalizeCheckpointInvalid :: "CheckpointInvalidSource \<Rightarrow> ApprovalFacts \<Rightarrow> Decision" where
  "CanTerminalizeCheckpointInvalid CheckpointInvalidSourceRequestApproval facts =
     CanEnterWaitingApproval facts"
| "CanTerminalizeCheckpointInvalid CheckpointInvalidSourceApprove facts = checkWaitingApproval facts"
| "CanTerminalizeCheckpointInvalid CheckpointInvalidSourceReject facts = checkWaitingApproval facts"
| "CanTerminalizeCheckpointInvalid (CheckpointInvalidSourceOther _) facts = rejected RejectionInvalidSource"

subsection \<open>Facts the services use\<close>

lemma CheckGuard_allowed_iff:
  "Allowed (CheckGuard f) \<longleftrightarrow>
     0 < GF_CurrentExecutionVersion f \<and> GF_CurrentExecutionVersion f = GF_RequestExecutionVersion f \<and>
     (GF_RequestWorkerID f = None \<or>
        GF_RequestWorkerID f = GF_ExecutionWorkerID f \<and> GF_RequestWorkerID f \<noteq> Some '''') \<and>
     GF_DeadlineAt f \<noteq> 0 \<and> GF_DatabaseNow f < GF_DeadlineAt f"
  by (auto simp: CheckGuard_def split: option.splits)

lemma checkWaitingApproval_allowed_iff:
  "Allowed (checkWaitingApproval f) \<longleftrightarrow>
     AF_RequestWorkerID f = None \<and> Allowed (CheckGuard (guardFacts f)) \<and> AF_ExecutionWorkerID f = None \<and>
     AF_ApprovalStatus f = ApprovalStatusPending \<and> AF_TaskStatus f = TaskStatusWaitingApproval \<and>
     AF_RunStatus f = RunStatusWaitingApproval \<and> AF_StepStatus f = StepStatusWaitingApproval \<and>
     AF_ExecutionStatus f = TaskExecutionStatusWaitingApproval"
  by (auto simp: checkWaitingApproval_def Let_def guardFacts_def)

lemma CanEnterWaitingApproval_allowed_iff:
  "Allowed (CanEnterWaitingApproval f) \<longleftrightarrow>
     AF_RequestWorkerID f \<noteq> None \<and> Allowed (CheckGuard (guardFacts f)) \<and>
     AF_TaskStatus f = TaskStatusRunning \<and> AF_RunStatus f = RunStatusRunning \<and>
     AF_StepStatus f = StepStatusRunning \<and> AF_ExecutionStatus f = TaskExecutionStatusRunning"
  by (auto simp: CanEnterWaitingApproval_def Let_def)

lemma CanTaskTransition_Failed:
  "Allowed (CanTaskTransition s TaskStatusFailed) \<longleftrightarrow> TaskStatus_Valid s \<and> \<not> TaskStatus_Terminal s"
  by (cases s) (simp_all add: CanTaskTransition_def valid_simps)

lemma CanTaskTransition_Cancelled:
  "Allowed (CanTaskTransition s TaskStatusCancelled) \<longleftrightarrow> TaskStatus_Valid s \<and> \<not> TaskStatus_Terminal s"
  by (cases s) (simp_all add: CanTaskTransition_def valid_simps)

lemma CanRunTransition_Failed:
  "Allowed (CanRunTransition s RunStatusFailed) \<longleftrightarrow> RunStatus_Valid s \<and> \<not> RunStatus_Terminal s"
  by (cases s) (simp_all add: CanRunTransition_def valid_simps)

lemma CanStepTransition_Failed:
  "Allowed (CanStepTransition s StepStatusFailed) \<longleftrightarrow> StepStatus_Valid s \<and> \<not> StepStatus_Terminal s"
  by (cases s) (simp_all add: CanStepTransition_def valid_simps)

lemma CanExecutionTransition_Failed:
  "Allowed (CanExecutionTransition s TaskExecutionStatusFailed) \<longleftrightarrow>
     TaskExecutionStatus_Valid s \<and> s \<noteq> TaskExecutionStatusCompleted \<and> s \<noteq> TaskExecutionStatusFailed"
  by (cases s) (simp_all add: CanExecutionTransition_def)

lemmas fail_transitions [simp] =
  CanTaskTransition_Failed CanTaskTransition_Cancelled CanRunTransition_Failed
  CanStepTransition_Failed CanExecutionTransition_Failed

text \<open>The edges the services take besides those into a terminal state.\<close>

lemma service_edges [simp]:
  "Allowed (CanExecutionTransition TaskExecutionStatusQueued TaskExecutionStatusRunning)"
  "Allowed (CanExecutionTransition TaskExecutionStatusQueued TaskExecutionStatusInterrupted)"
  "Allowed (CanExecutionTransition TaskExecutionStatusRunning TaskExecutionStatusInterrupted)"
  "Allowed (CanRunTransition RunStatusPending RunStatusRunning)"
  "Allowed (CanTaskTransition TaskStatusPending TaskStatusRunning)"
  "Allowed (CanTaskTransition TaskStatusPending TaskStatusInterrupted)"
  "Allowed (CanTaskTransition TaskStatusRunning TaskStatusInterrupted)"
  "Allowed (CanTaskTransition TaskStatusInterrupted TaskStatusPending)"
  "\<not> Allowed (CanTaskTransition TaskStatusRunning TaskStatusPending)"
  by (simp_all add: CanTaskTransition_def CanRunTransition_def CanExecutionTransition_def)

subsection \<open>Properties\<close>

text \<open>
  In each of the four state machines the statuses without an outgoing edge are exactly the
  invalid ones and the business-terminal ones: a committed terminal Task, Run, Step or
  TaskExecution can never move again, and no valid unfinished status is a dead end. An ended but
  INTERRUPTED execution still has its edge to FAILED.
\<close>

lemma lifecycle_dead_ends:
  "(\<exists>t. Allowed (CanTaskTransition s t)) = (TaskStatus_Valid s \<and> \<not> TaskStatus_Terminal s) \<and>
   (\<exists>u. Allowed (CanRunTransition r u)) = (RunStatus_Valid r \<and> \<not> RunStatus_Terminal r) \<and>
   (\<exists>v. Allowed (CanStepTransition p v)) = (StepStatus_Valid p \<and> \<not> StepStatus_Terminal p) \<and>
   (\<exists>w. Allowed (CanExecutionTransition e w)) =
     (TaskExecutionStatus_Valid e \<and> e \<noteq> TaskExecutionStatusCompleted \<and> e \<noteq> TaskExecutionStatusFailed)"
proof (intro conjI)
  show "(\<exists>t. Allowed (CanTaskTransition s t)) = (TaskStatus_Valid s \<and> \<not> TaskStatus_Terminal s)"
    using CanTaskTransition_Failed [of s]
    by (cases s) (auto simp: CanTaskTransition_def valid_simps simp del: fail_transitions)
  show "(\<exists>u. Allowed (CanRunTransition r u)) = (RunStatus_Valid r \<and> \<not> RunStatus_Terminal r)"
    using CanRunTransition_Failed [of r]
    by (cases r) (auto simp: CanRunTransition_def valid_simps simp del: fail_transitions)
  show "(\<exists>v. Allowed (CanStepTransition p v)) = (StepStatus_Valid p \<and> \<not> StepStatus_Terminal p)"
    using CanStepTransition_Failed [of p]
    by (cases p) (auto simp: CanStepTransition_def valid_simps simp del: fail_transitions)
  show "(\<exists>w. Allowed (CanExecutionTransition e w)) =
     (TaskExecutionStatus_Valid e \<and> e \<noteq> TaskExecutionStatusCompleted \<and> e \<noteq> TaskExecutionStatusFailed)"
    using CanExecutionTransition_Failed [of e]
    by (cases e) (auto simp: CanExecutionTransition_def simp del: fail_transitions)
qed

text \<open>
  The scene an allowed entry into WaitingApproval leaves behind, as the shared contract describes
  it: all four objects waiting, a Pending approval, and no worker.
\<close>

definition waiting_scene :: "ApprovalFacts \<Rightarrow> ApprovalFacts" where
  "waiting_scene f = f\<lparr>AF_TaskStatus := TaskStatusWaitingApproval, AF_RunStatus := RunStatusWaitingApproval,
     AF_StepStatus := StepStatusWaitingApproval, AF_ExecutionStatus := TaskExecutionStatusWaitingApproval,
     AF_ApprovalStatus := ApprovalStatusPending, AF_ExecutionWorkerID := None, AF_RequestWorkerID := None\<rparr>"

text \<open>
  C10: Approval hand-over. When the policy lets a running scene enter WaitingApproval, all four
  status changes are edges of their state machines, the resulting scene accepts Approve and Reject
  until the deadline is reached and neither afterwards, and the entry itself cannot be repeated
  from it.
\<close>

theorem approval_handover:
  assumes "Allowed (CanEnterWaitingApproval f)"
  shows "Allowed (CanTaskTransition (AF_TaskStatus f) (AF_TaskStatus (waiting_scene f))) \<and>
    Allowed (CanRunTransition (AF_RunStatus f) (AF_RunStatus (waiting_scene f))) \<and>
    Allowed (CanStepTransition (AF_StepStatus f) (AF_StepStatus (waiting_scene f))) \<and>
    Allowed (CanExecutionTransition (AF_ExecutionStatus f) (AF_ExecutionStatus (waiting_scene f))) \<and>
    Allowed (CanApprove ((waiting_scene f)\<lparr>AF_DatabaseNow := later\<rparr>)) = (later < AF_DeadlineAt f) \<and>
    Allowed (CanReject ((waiting_scene f)\<lparr>AF_DatabaseNow := later\<rparr>)) = (later < AF_DeadlineAt f) \<and>
    \<not> Allowed (CanEnterWaitingApproval ((waiting_scene f)\<lparr>AF_RequestWorkerID := w\<rparr>))"
  using assms
  by (auto simp: CanEnterWaitingApproval_allowed_iff waiting_scene_def CanApprove_def CanReject_def Let_def
      checkWaitingApproval_allowed_iff CheckGuard_allowed_iff guardFacts_def CanTaskTransition_def
      CanRunTransition_def CanStepTransition_def CanExecutionTransition_def)

definition running_scene :: ApprovalFacts where
  "running_scene = \<lparr>AF_TaskStatus = TaskStatusRunning, AF_RunStatus = RunStatusRunning,
     AF_StepStatus = StepStatusRunning, AF_ExecutionStatus = TaskExecutionStatusRunning,
     AF_ApprovalStatus = ApprovalStatusPending, AF_CurrentExecutionVersion = 2,
     AF_RequestExecutionVersion = 2, AF_ExecutionWorkerID = Some ''w1'', AF_RequestWorkerID = Some ''w1'',
     AF_DeadlineAt = 900, AF_DatabaseNow = 500\<rparr>"

theorem approval_handover_witness:
  "Allowed (CanEnterWaitingApproval running_scene) \<and>
   Allowed (CanApprove ((waiting_scene running_scene)\<lparr>AF_DatabaseNow := 899\<rparr>)) \<and>
   \<not> Allowed (CanReject ((waiting_scene running_scene)\<lparr>AF_DatabaseNow := 900\<rparr>))"
proof -
  have h: "Allowed (CanEnterWaitingApproval running_scene)"
    by (simp add: running_scene_def CanEnterWaitingApproval_allowed_iff CheckGuard_allowed_iff guardFacts_def)
  show ?thesis
    using h approval_handover [OF h, of 899] approval_handover [OF h, of 900]
    by (simp add: running_scene_def)
qed

end
