(* ===== verification/ExecConfig.thy ===== *)
theory ExecConfig
  imports Codes
begin

section \<open>Execution configuration\<close>

text \<open>
  \<open>internal/contracts/execution_config.go\<close>, \<open>schema.go\<close> and the selector of \<open>catalog.go\<close>: the frozen
  configuration that decides what an execution may do, one record per struct with the source's
  fields. Unsigned integers are naturals, a map is its list of entries in key order, a slice that
  the code compares with nil is an option. \<open>AgentRuntimeConfig\<close> is the projection of
  \<open>internal/taskruntime/checkpoint_port.go\<close> that Create, Claim and Execute look up.
\<close>

datatype JSONSchemaType =
    JSONSchemaTypeArray
  | JSONSchemaTypeBoolean
  | JSONSchemaTypeInteger
  | JSONSchemaTypeNumber
  | JSONSchemaTypeObject
  | JSONSchemaTypeString
  | JSONSchemaTypeOther string

fun JSONSchemaType_Valid :: "JSONSchemaType \<Rightarrow> bool" where
  "JSONSchemaType_Valid (JSONSchemaTypeOther _) = False"
| "JSONSchemaType_Valid _ = True"

datatype CanonicalJSONSchema =
  CanonicalJSONSchema
    (Schema_AdditionalProperties: "bool option")
    (Schema_Description: string)
    (Schema_Items: "CanonicalJSONSchema option")
    (Schema_Nullable: bool)
    (Schema_Properties: "(string \<times> CanonicalJSONSchema) list option")
    (Schema_Required: "string list option")
    (Schema_Type: JSONSchemaType)

text \<open>A lookup or a loop does not tell a nil map or slice from an empty one.\<close>

definition schema_properties :: "CanonicalJSONSchema \<Rightarrow> (string \<times> CanonicalJSONSchema) list" where
  "schema_properties schema = (case Schema_Properties schema of None \<Rightarrow> [] | Some properties \<Rightarrow> properties)"

definition schema_required :: "CanonicalJSONSchema \<Rightarrow> string list" where
  "schema_required schema = (case Schema_Required schema of None \<Rightarrow> [] | Some names \<Rightarrow> names)"

datatype ToolCapabilityKind =
    ToolCapabilityK8sGetDeployment
  | ToolCapabilityK8sGetPod
  | ToolCapabilityK8sGetEvent
  | ToolCapabilityK8sGetContainerLog
  | ToolCapabilityK8sPatchDeployment
  | ToolCapabilityKindOther string

fun ToolCapabilityKind_Valid :: "ToolCapabilityKind \<Rightarrow> bool" where
  "ToolCapabilityKind_Valid (ToolCapabilityKindOther _) = False"
| "ToolCapabilityKind_Valid _ = True"

datatype EventSortKey =
    EventSortKeyEventTimeDesc
  | EventSortKeyNamespaceAsc
  | EventSortKeyNameAsc
  | EventSortKeyUIDAsc
  | EventSortKeyOther string

fun EventSortKey_Valid :: "EventSortKey \<Rightarrow> bool" where
  "EventSortKey_Valid (EventSortKeyOther _) = False"
| "EventSortKey_Valid _ = True"

record CanonicalDecimalV1 =
  CD_coefficient :: int
  CD_scale :: nat

record GenerationParams =
  GP_Temperature :: CanonicalDecimalV1
  GP_TopP :: CanonicalDecimalV1
  GP_MaxOutputTokens :: nat

record AgentExecutionConfigV1 =
  Agent_AgentID :: string
  Agent_Enabled :: bool
  Agent_SystemInstruction :: string
  Agent_AllowedTools :: "string list"
  Agent_MaxSteps :: nat

record ModelExecutionConfigV1 =
  Model_ModelName :: string
  Model_Stream :: bool
  Model_ResponseFormat :: string
  Model_ModelClientContractVersion :: string
  Model_GenerationParamsSchemaVersion :: nat
  Model_GenerationParams :: GenerationParams

record JSONExecutionContractV1 =
  JSONC_CanonicalizationVersion :: string
  JSONC_MaxDepth :: nat
  JSONC_MaxObjectFields :: nat
  JSONC_RejectDuplicateKeys :: bool
  JSONC_RejectNull :: bool

record SafetyExecutionContractV1 =
  Safety_SanitizationRuleVersion :: string
  Safety_SafeSummaryMaxBytes :: nat
  Safety_LogStringMaxBytes :: nat

record PlannerLimitsV1 =
  PL_MaxTaskInputBytes :: nat
  PL_MaxAgentPromptBytes :: nat
  PL_MaxToolDescriptionBytes :: nat
  PL_MaxToolSchemaBytes :: nat
  PL_MaxPlanningTools :: nat
  PL_MaxInitialPromptBytes :: nat
  PL_MaxRepairPromptBytes :: nat
  PL_MaxModelResponseBytes :: nat
  PL_MaxPlanSteps :: nat
  PL_MaxPlanDraftBytes :: nat
  PL_MaxStepNameBytes :: nat
  PL_MaxGoalBytes :: nat
  PL_MaxStepInputBytes :: nat
  PL_MaxResolvedReferencesPerStep :: nat
  PL_MaxOutputFields :: nat
  PL_MaxOutputFieldNameBytes :: nat
  PL_MaxValidationIssues :: nat
  PL_MaxRepairCandidateSummaryBytes :: nat
  PL_PlannerModelCallTimeoutMS :: nat
  PL_RepairMinModelBudgetMS :: nat
  PL_PlannerLocalSafetyMarginMS :: nat

record PlannerExecutionConfigV1 =
  Planner_ContractVersion :: string
  Planner_PlanSchemaVersion :: nat
  Planner_NonToolInputContractVersion :: string
  Planner_ToolSchemaSubsetVersion :: string
  Planner_RepairPolicyVersion :: string
  Planner_AllowedStepTypes :: "StepType list"
  Planner_FinalStepType :: StepType
  Planner_SequenceStart :: nat
  Planner_RequiresContiguousSequence :: bool
  Planner_MaxRepairs :: nat
  Planner_Limits :: PlannerLimitsV1

record StepExecutorLimitsV1 =
  SEL_MaxResolvedStepInputBytes :: nat
  SEL_MaxStepOutputBytes :: nat
  SEL_MaxModelPromptBytes :: nat
  SEL_MaxModelResponseBytes :: nat
  SEL_MaxResolvedReferencesPerStep :: nat
  SEL_MaxTargetPathDepth :: nat

record StepExecutorExecutionConfigV1 =
  SE_ContractVersion :: string
  SE_StepInputContractVersion :: string
  SE_ReferenceProtocolVersion :: string
  SE_ReferenceActionModeVersion :: string
  SE_OutputSchemaVersion :: string
  SE_Limits :: StepExecutorLimitsV1

record ToolDefinitionV1 =
  Tool_Name :: string
  Tool_Enabled :: bool
  Tool_Description :: string
  Tool_CapabilityKind :: ToolCapabilityKind
  Tool_InputSchema :: CanonicalJSONSchema
  Tool_OutputSchema :: CanonicalJSONSchema
  Tool_RiskLevel :: RiskLevel
  Tool_ReadOnly :: bool
  Tool_TimeoutMS :: nat

record ResourcePolicyV1 =
  Resource_Kind :: string
  Resource_Verbs :: "string list"
  Resource_WriteFields :: "string list"

record ClusterPolicyV1 =
  Cluster_ClusterID :: string
  Cluster_Namespaces :: "string list"
  Cluster_Resources :: "ResourcePolicyV1 list"

record ReplicasPolicyV1 =
  Replicas_Enabled :: bool
  Replicas_Min :: int
  Replicas_Max :: int

record ToolAccessPolicyV1 =
  AP_Clusters :: "ClusterPolicyV1 list"
  AP_ReplicasPolicy :: ReplicasPolicyV1
  AP_ImageRegistryAllowlist :: "string list"

record ToolResultLimitsV1 =
  RL_RawResponseMaxBytes :: nat
  RL_SafeDTOMaxBytes :: nat
  RL_PodPageLimit :: nat
  RL_EventPageLimit :: nat
  RL_ContainerLogDefaultLines :: nat
  RL_ContainerLogMaxLines :: nat

record EventPolicyV1 =
  EP_Version :: string
  EP_SortKeys :: "EventSortKey list"
  EP_CandidateBudgetBytes :: nat
  EP_ReserveBytes :: nat
  EP_FollowContinue :: bool

record PatchPolicyV1 =
  PP_Version :: string
  PP_ResponseClassificationVersion :: string
  PP_ResourceVersionTestRequired :: bool
  PP_AllowedWriteFields :: "string list"

record ToolFrameworkExecutionConfigV1 =
  TF_ContractVersion :: string
  TF_ResultContractVersion :: string
  TF_Tools :: "ToolDefinitionV1 list"
  TF_AccessPolicy :: ToolAccessPolicyV1
  TF_ResultLimits :: ToolResultLimitsV1
  TF_EventPolicy :: EventPolicyV1
  TF_PatchPolicy :: PatchPolicyV1

record CheckpointExecutionConfigV1 =
  CC_ContractVersion :: string
  CC_RuntimeContextSchemaVersion :: nat
  CC_ResolvedReferenceProtocolVersion :: string
  CC_ActionModeVersion :: string
  CC_MaxResolvedReferencesPerStep :: nat
  CC_MaxTargetPathDepth :: nat

record ApprovalExecutionConfigV1 =
  APC_PolicyVersion :: string
  APC_RequiredRiskLevel :: RiskLevel
  APC_RequiredReadOnly :: bool
  APC_FreezeResourceVersion :: bool

record ExecutionConfigV1 =
  EC_Schema :: string
  EC_Version :: nat
  EC_Agent :: AgentExecutionConfigV1
  EC_Model :: ModelExecutionConfigV1
  EC_JSON :: JSONExecutionContractV1
  EC_Safety :: SafetyExecutionContractV1
  EC_Planner :: PlannerExecutionConfigV1
  EC_StepExecutor :: StepExecutorExecutionConfigV1
  EC_ToolFramework :: ToolFrameworkExecutionConfigV1
  EC_Checkpoint :: CheckpointExecutionConfigV1
  EC_Approval :: ApprovalExecutionConfigV1

record PlanningToolCatalogSelector =
  Selector_CatalogID :: string
  Selector_AllowedTools :: "string list option"
  Selector_ExpectedRegistryVersion :: string
  Selector_ExpectedSnapshotHash :: string

record AgentRuntimeConfig =
  ARC_TaskTimeout :: duration
  ARC_ExecutionConfig :: ExecutionConfigV1
  ARC_PlanningToolCatalogSelector :: PlanningToolCatalogSelector

text \<open>Shorthands for the paths the services read.\<close>

abbreviation agent_enabled :: "AgentRuntimeConfig \<Rightarrow> bool" where
  "agent_enabled c \<equiv> Agent_Enabled (EC_Agent (ARC_ExecutionConfig c))"

abbreviation agent_id_of :: "AgentRuntimeConfig \<Rightarrow> string" where
  "agent_id_of c \<equiv> Agent_AgentID (EC_Agent (ARC_ExecutionConfig c))"

abbreviation config_tools :: "ExecutionConfigV1 \<Rightarrow> ToolDefinitionV1 list" where
  "config_tools c \<equiv> TF_Tools (EC_ToolFramework c)"

end
