(* ===== verification/Entities.thy ===== *)
theory Entities
  imports Lifecycle ExecConfig
begin

section \<open>Entities and messages of the Task Runtime\<close>

text \<open>
  The persisted entities of \<open>internal/taskruntime/entity.go\<close>, the conditional updates of
  \<open>repository.go\<close>, the claim and execution messages of \<open>internal/contracts/execution.go\<close>, the
  errors the services return, and JSON values (command responses and run contexts are stored as
  JSON). A pointer field is an option; identifiers are strings.
\<close>

subsection \<open>Errors\<close>

text \<open>
  A Go error is represented by what \<open>errors.Is\<close> finds in its chain: the sentinel it wraps. An error
  built without \<open>%w\<close> is \<open>ErrText\<close> with its operation, or \<open>ErrLifecycle\<close> when it prints a policy
  decision. \<open>ErrConstraint\<close> is a constraint violation reported by the database and \<open>ErrInfra\<close> any
  other failure of a driver, connection or context.
\<close>

datatype GoError =
    ErrInvalidArgument
  | ErrCommandConflict
  | ErrAgentUnavailable
  | ErrTaskAlreadyTerminal
  | ErrTaskTimedOut
  | ErrRecoverStateConflict
  | ErrRecoverConfigMismatch
  | ErrRecoverCheckpointInvalid
  | ErrRepositoryNotFound
  | ErrPersistenceInvariantViolation
  | errClaimConditionMiss
  | errExecutionStale
  | ErrDuplicateActiveCall
  | ErrActiveCallNotPrepared
  | ErrInvalidCancellationCause
  | ErrLifecycle string RejectionReason
  | ErrText string
  | ErrConstraint string
  | ErrInfra string

subsection \<open>JSON\<close>

text \<open>
  The JSON values the program stores. \<open>JTime\<close> is the string leaf that holds the RFC 3339 text of an
  instant, which \<open>encoding/json\<close> writes and reads for \<open>time.Time\<close>.
\<close>

datatype json =
    JNull
  | JBool bool
  | JNum int
  | JStr string
  | JTime time
  | JArr "json list"
  | JObj "(string \<times> json) list"

text \<open>
  A \<open>json.RawMessage\<close>: its bytes, and the value they decode to, \<open>None\<close> when \<open>json.Valid\<close> rejects them.
\<close>

record RawMessage =
  Raw_Bytes :: string
  Raw_Value :: "json option"

definition json_Valid :: "RawMessage \<Rightarrow> bool" where
  "json_Valid raw \<longleftrightarrow> Raw_Value raw \<noteq> None"

text \<open>
  Members of a struct with the \<open>omitempty\<close> option are left out when they are the zero value; a
  \<open>time.Time\<close> is a struct and never left out. Reading a struct, an absent or null member keeps the
  zero value and a member of the wrong kind is an error.
\<close>

definition jmember :: "string \<Rightarrow> json \<Rightarrow> (string \<times> json) list" where
  "jmember k v = [(k, v)]"

definition jstr_omitempty :: "string \<Rightarrow> string \<Rightarrow> (string \<times> json) list" where
  "jstr_omitempty k s = (if s = '''' then [] else [(k, JStr s)])"

definition jnum_omitempty :: "string \<Rightarrow> int \<Rightarrow> (string \<times> json) list" where
  "jnum_omitempty k n = (if n = 0 then [] else [(k, JNum n)])"

fun jget_str :: "(string \<times> json) list \<Rightarrow> string \<Rightarrow> string option" where
  "jget_str ms k =
     (case map_of ms k of
        None \<Rightarrow> Some '''' | Some JNull \<Rightarrow> Some '''' | Some (JStr s) \<Rightarrow> Some s | Some _ \<Rightarrow> None)"

fun jget_int64 :: "(string \<times> json) list \<Rightarrow> string \<Rightarrow> int option" where
  "jget_int64 ms k =
     (case map_of ms k of
        None \<Rightarrow> Some 0 | Some JNull \<Rightarrow> Some 0
      | Some (JNum n) \<Rightarrow> if - (2 ^ 63) \<le> n \<and> n < 2 ^ 63 then Some n else None
      | Some _ \<Rightarrow> None)"

fun jget_time :: "(string \<times> json) list \<Rightarrow> string \<Rightarrow> time option" where
  "jget_time ms k =
     (case map_of ms k of
        None \<Rightarrow> Some 0 | Some JNull \<Rightarrow> Some 0 | Some (JTime t) \<Rightarrow> Some t | Some _ \<Rightarrow> None)"

text \<open>Reading back what the encoders wrote.\<close>

lemma jget_str_members [simp]:
  "jget_str (jstr_omitempty k v @ ms) k' =
     (if k = k' then (if v = [] then jget_str ms k' else Some v) else jget_str ms k')"
  "jget_str (jmember k (JStr v) @ ms) k' = (if k = k' then Some v else jget_str ms k')"
  "k \<noteq> k' \<Longrightarrow> jget_str (jmember k j @ ms) k' = jget_str ms k'"
  "k \<noteq> k' \<Longrightarrow> jget_str (jnum_omitempty k n @ ms) k' = jget_str ms k'"
  "jget_str [] k' = Some []"
  by (auto simp: jstr_omitempty_def jmember_def jnum_omitempty_def)

lemma jget_str_last [simp]:
  "jget_str (jstr_omitempty k v) k' = (if k = k' then Some v else Some [])"
  "k \<noteq> k' \<Longrightarrow> jget_str (jmember k j) k' = Some []"
  by (auto simp: jstr_omitempty_def jmember_def)

lemma jget_int64_members [simp]:
  "jget_int64 (jnum_omitempty k n @ ms) k' =
     (if k = k' then
        (if n = 0 then jget_int64 ms k' else if - (2 ^ 63) \<le> n \<and> n < 2 ^ 63 then Some n else None)
      else jget_int64 ms k')"
  "jget_int64 (jmember k (JNum n) @ ms) k' =
     (if k = k' then (if - (2 ^ 63) \<le> n \<and> n < 2 ^ 63 then Some n else None) else jget_int64 ms k')"
  "k \<noteq> k' \<Longrightarrow> jget_int64 (jstr_omitempty k v @ ms) k' = jget_int64 ms k'"
  "k \<noteq> k' \<Longrightarrow> jget_int64 (jmember k j @ ms) k' = jget_int64 ms k'"
  "k \<noteq> k' \<Longrightarrow> jget_int64 (jstr_omitempty k v) k' = Some 0"
  "k \<noteq> k' \<Longrightarrow> jget_int64 (jmember k j) k' = Some 0"
  by (auto simp: jstr_omitempty_def jmember_def jnum_omitempty_def)

lemma jget_time_members [simp]:
  "jget_time (jmember k (JTime t) @ ms) k' = (if k = k' then Some t else jget_time ms k')"
  "k \<noteq> k' \<Longrightarrow> jget_time (jmember k j @ ms) k' = jget_time ms k'"
  "k \<noteq> k' \<Longrightarrow> jget_time (jstr_omitempty k v @ ms) k' = jget_time ms k'"
  "k \<noteq> k' \<Longrightarrow> jget_time (jnum_omitempty k n @ ms) k' = jget_time ms k'"
  by (auto simp: jstr_omitempty_def jmember_def jnum_omitempty_def)

lemma jget_time_last [simp]:
  "jget_time (jmember k (JTime t)) k' = (if k = k' then Some t else Some 0)"
  "k \<noteq> k' \<Longrightarrow> jget_time (jstr_omitempty k v) k' = Some 0"
  by (auto simp: jstr_omitempty_def jmember_def)

declare jget_str.simps [simp del] jget_int64.simps [simp del] jget_time.simps [simp del]

subsection \<open>Persisted entities\<close>

type_synonym CommandID = string
type_synonym TaskID = string
type_synonym RunID = string
type_synonym PlanID = string
type_synonym StepID = string
type_synonym AgentID = string
type_synonym ToolName = string
type_synonym CheckpointID = string
type_synonym TaskExecutionID = string
type_synonym TaskLogID = string
type_synonym ExecutionConfigHash = string

datatype CommandType =
    CommandTypeCreate
  | CommandTypeApprove
  | CommandTypeReject
  | CommandTypeCancel
  | CommandTypeRecover
  | CommandTypeOther string

datatype TaskLogLevel = TaskLogLevelInfo | TaskLogLevelError | TaskLogLevelOther string

record Task =
  Task_TaskID :: TaskID
  Task_AgentID :: AgentID
  Task_CreatedBy :: string
  Task_Input :: string
  Task_Status :: TaskStatus
  Task_CurrentRunID :: RunID
  Task_CurrentExecutionVersion :: ExecutionVersion
  Task_ResultSummary :: "string option"
  Task_ErrorCode :: "ErrorCode option"
  Task_DeadlineAt :: time
  Task_QueuedAt :: "time option"
  Task_CreatedAt :: time
  Task_StartedAt :: "time option"
  Task_EndedAt :: "time option"

record Run =
  Run_RunID :: RunID
  Run_TaskID :: TaskID
  Run_Status :: RunStatus
  Run_PlanID :: "PlanID option"
  Run_CurrentStepID :: "StepID option"
  Run_Context :: "json option"
  Run_ErrorCode :: "ErrorCode option"
  Run_StartedAt :: "time option"
  Run_EndedAt :: "time option"

record TaskExecution =
  Exec_TaskExecutionID :: TaskExecutionID
  Exec_TaskID :: TaskID
  Exec_ExecutionVersion :: ExecutionVersion
  Exec_WorkerID :: "WorkerID option"
  Exec_Status :: TaskExecutionStatus
  Exec_ExecutionConfigHash :: ExecutionConfigHash
  Exec_ObservedConfigHash :: "ExecutionConfigHash option"
  Exec_ErrorCode :: "ErrorCode option"
  Exec_InvariantCode :: "InvariantCode option"
  Exec_TerminationReason :: "TerminationReason option"
  Exec_CreatedAt :: time
  Exec_StartedAt :: "time option"
  Exec_EndedAt :: "time option"

record CommandReceipt =
  Receipt_CommandID :: CommandID
  Receipt_CommandType :: CommandType
  Receipt_TargetID :: string
  Receipt_RequestFingerprint :: string
  Receipt_Response :: json
  Receipt_CreatedAt :: time

record TaskLog =
  Log_LogID :: TaskLogID
  Log_TaskID :: TaskID
  Log_RunID :: RunID
  Log_StepID :: "StepID option"
  Log_ExecutionVersion :: "ExecutionVersion option"
  Log_Level :: TaskLogLevel
  Log_Event :: string
  Log_Message :: string
  Log_Operator :: string
  Log_CreatedAt :: time

subsection \<open>Conditional updates and the queue candidate\<close>

record TaskUpdate =
  TU_TaskID :: TaskID
  TU_ExpectedStatus :: TaskStatus
  TU_ExpectedCurrentExecutionVersion :: ExecutionVersion
  TU_Status :: TaskStatus
  TU_CurrentExecutionVersion :: ExecutionVersion
  TU_ResultSummary :: "string option"
  TU_ErrorCode :: "ErrorCode option"
  TU_QueuedAt :: "time option"
  TU_StartedAt :: "time option"
  TU_EndedAt :: "time option"

record RunUpdate =
  RU_TaskID :: TaskID
  RU_RunID :: RunID
  RU_ExecutionVersion :: ExecutionVersion
  RU_ExpectedStatus :: RunStatus
  RU_Status :: RunStatus
  RU_PlanID :: "PlanID option"
  RU_CurrentStepID :: "StepID option"
  RU_Context :: "json option"
  RU_ErrorCode :: "ErrorCode option"
  RU_StartedAt :: "time option"
  RU_EndedAt :: "time option"

record TaskExecutionUpdate =
  EU_TaskID :: TaskID
  EU_ExecutionVersion :: ExecutionVersion
  EU_ExpectedStatus :: TaskExecutionStatus
  EU_ExpectedWorkerID :: "WorkerID option"
  EU_Status :: TaskExecutionStatus
  EU_WorkerID :: "WorkerID option"
  EU_ObservedConfigHash :: "ExecutionConfigHash option"
  EU_ErrorCode :: "ErrorCode option"
  EU_InvariantCode :: "InvariantCode option"
  EU_TerminationReason :: "TerminationReason option"
  EU_StartedAt :: "time option"
  EU_EndedAt :: "time option"

record QueueCandidate =
  QC_TaskID :: TaskID
  QC_RunID :: RunID
  QC_ExecutionVersion :: ExecutionVersion
  QC_TaskStatus :: TaskStatus
  QC_ExecutionStatus :: TaskExecutionStatus
  QC_QueuedAt :: time
  QC_CreatedAt :: time

subsection \<open>Claim and execution results\<close>

record ExecutionClaim =
  Claim_TaskID :: TaskID
  Claim_RunID :: RunID
  Claim_ExecutionVersion :: ExecutionVersion
  Claim_WorkerID :: WorkerID
  Claim_ClaimedAt :: time

datatype ClaimResult =
    ClaimResultClaimed ExecutionClaim
  | ClaimResultNoWork
  | ClaimResultConfigMismatchInterrupted
  | ClaimResultCheckpointInvalidTerminalized
  | ClaimResultDataInconsistentTerminalized
  | ClaimResultExpiredTerminalized

datatype ExecuteResult =
    ExecuteResultWaitingApproval
  | ExecuteResultTerminal
  | ExecuteResultStale

text \<open>\<open>ExecutionConfigHash.Valid\<close>, \<open>FrozenInputHash.Valid\<close> and \<open>CatalogSnapshotHash.Valid\<close>.\<close>

definition ExecutionConfigHash_Valid :: "string \<Rightarrow> bool" where
  "ExecutionConfigHash_Valid h = validSHA256 h"

lemma ExecutionConfigHash_Valid_nonempty: "ExecutionConfigHash_Valid h \<Longrightarrow> h \<noteq> []"
  by (auto simp: ExecutionConfigHash_Valid_def)

end
