(* ===== verification/Tables.thy ===== *)
theory Tables
  imports Prelude
begin

section \<open>Rows of a table and the repository interface\<close>

text \<open>
  A database table is the list of its rows. This theory has the generic reads and writes on such a
  list, and the two interfaces the application services rely on: an insert-only repository
  (command receipts) and a repository with conditional updates (Task, Run, TaskExecution). The
  store theory interprets both on the PostgreSQL adapter's operations.
\<close>

definition row_find :: "('r \<Rightarrow> 'k) \<Rightarrow> 'k \<Rightarrow> 'r list \<Rightarrow> 'r option" where
  "row_find key k rows = find (\<lambda>r. key r = k) rows"

definition row_replace :: "('r \<Rightarrow> 'k) \<Rightarrow> 'r \<Rightarrow> 'r list \<Rightarrow> 'r list" where
  "row_replace key r rows = map (\<lambda>x. if key x = key r then r else x) rows"

lemma row_find_Nil [simp]: "row_find key k [] = None"
  by (simp add: row_find_def)

lemma row_find_Cons: "row_find key k (r # rows) = (if key r = k then Some r else row_find key k rows)"
  by (simp add: row_find_def)

lemma row_find_SomeD: "row_find key k rows = Some r \<Longrightarrow> key r = k \<and> r \<in> set rows"
  using find_Some_in [of "\<lambda>r. key r = k" rows r] by (simp add: row_find_def)

lemma row_find_key: "row_find key k rows = Some r \<Longrightarrow> key r = k"
  by (drule row_find_SomeD) simp

lemma row_find_None_iff: "row_find key k rows = None \<longleftrightarrow> k \<notin> key ` set rows"
  by (auto simp: row_find_def find_None_iff_all)

lemma row_find_append:
  "row_find key k (rows @ [r]) =
     (case row_find key k rows of Some x \<Rightarrow> Some x | None \<Rightarrow> if key r = k then Some r else None)"
  by (auto simp: row_find_def find_append split: option.splits)

lemma row_find_append_fresh:
  "row_find key (key r) rows = None \<Longrightarrow>
     row_find key k (rows @ [r]) = (if k = key r then Some r else row_find key k rows)"
  by (auto simp: row_find_append split: option.splits)

lemma row_find_replace_same:
  "row_find key (key r) rows = Some r0 \<Longrightarrow> row_find key (key r) (row_replace key r rows) = Some r"
  by (induction rows) (auto simp: row_replace_def row_find_Cons split: if_splits)

lemma row_find_replace_other:
  "k \<noteq> key r \<Longrightarrow> row_find key k (row_replace key r rows) = row_find key k rows"
  by (induction rows) (auto simp: row_replace_def row_find_Cons)

lemma row_find_replace:
  "row_find key (key r) rows = Some r0 \<Longrightarrow>
     row_find key k (row_replace key r rows) = (if k = key r then Some r else row_find key k rows)"
  by (simp add: row_find_replace_same row_find_replace_other)

lemma map_key_replace [simp]: "map key (row_replace key r rows) = map key rows"
  by (induction rows) (auto simp: row_replace_def)

lemma set_row_replace: "x \<in> set (row_replace key r rows) \<Longrightarrow> x = r \<or> x \<in> set rows"
  by (auto simp: row_replace_def split: if_splits)

lemma row_find_distinct:
  "distinct (map key rows) \<Longrightarrow> r \<in> set rows \<Longrightarrow> row_find key (key r) rows = Some r"
  by (induction rows) (auto simp: row_find_Cons image_iff)

subsection \<open>Interfaces\<close>

text \<open>
  \<open>append_store\<close> is what a service may assume of an insert-only table: a row that was inserted is
  found again under its key, other keys are untouched, and a key cannot be used twice.
\<close>

locale append_store =
  fixes look :: "'k \<Rightarrow> 's \<Rightarrow> 'r option"
    and ins :: "'r \<Rightarrow> 's \<Rightarrow> 'e + 's"
    and row_key :: "'r \<Rightarrow> 'k"
  assumes look_key: "look k s = Some r \<Longrightarrow> row_key r = k"
    and ins_fresh: "ins r s = Inr s' \<Longrightarrow> look (row_key r) s = None"
    and look_ins: "ins r s = Inr s' \<Longrightarrow> look k s' = (if k = row_key r then Some r else look k s)"
begin

lemma look_ins_same: "ins r s = Inr s' \<Longrightarrow> look (row_key r) s' = Some r"
  by (simp add: look_ins)

lemma look_ins_other: "ins r s = Inr s' \<Longrightarrow> k \<noteq> row_key r \<Longrightarrow> look k s' = look k s"
  by (simp add: look_ins)

lemma ins_keeps: "ins r s = Inr s' \<Longrightarrow> look k s = Some x \<Longrightarrow> look k s' = Some x"
  using ins_fresh [of r s s'] by (auto simp: look_ins)

lemma ins_twice: "ins r s = Inr s' \<Longrightarrow> row_key r' = row_key r \<Longrightarrow> \<not> (\<exists>s''. ins r' s' = Inr s'')"
  using ins_fresh [of r' s'] look_ins_same [of r s s'] by auto

end

text \<open>
  \<open>guarded_store\<close> adds the conditional update: it reports whether exactly the target row met its
  guard, writes that row alone on a hit, and changes nothing on a miss.
\<close>

locale guarded_store = append_store look ins row_key
  for look :: "'k \<Rightarrow> 's \<Rightarrow> 'r option" and ins :: "'r \<Rightarrow> 's \<Rightarrow> 'e + 's" and row_key :: "'r \<Rightarrow> 'k" +
  fixes upd :: "'u \<Rightarrow> 's \<Rightarrow> 'e + bool \<times> 's"
    and target :: "'u \<Rightarrow> 'k"
    and hits :: "'u \<Rightarrow> 's \<Rightarrow> 'r \<Rightarrow> bool"
    and patch :: "'u \<Rightarrow> 'r \<Rightarrow> 'r"
  assumes upd_hit: "upd u s = Inr (True, s') \<Longrightarrow>
      \<exists>r. look (target u) s = Some r \<and> hits u s r \<and> look (target u) s' = Some (patch u r)"
    and upd_miss: "upd u s = Inr (False, s') \<Longrightarrow>
      s' = s \<and> (\<forall>r. look (target u) s = Some r \<longrightarrow> \<not> hits u s r)"
    and upd_other: "upd u s = Inr (b, s') \<Longrightarrow> k \<noteq> target u \<Longrightarrow> look k s' = look k s"
begin

lemma upd_dom: "upd u s = Inr (b, s') \<Longrightarrow> look k s' = None \<longleftrightarrow> look k s = None"
proof (cases b)
  case True
  assume "upd u s = Inr (b, s')"
  with True show ?thesis
    using upd_hit [of u s s'] upd_other [of u s b s' k] by (cases "k = target u") auto
next
  case False
  assume "upd u s = Inr (b, s')"
  with False show ?thesis using upd_miss [of u s s'] by auto
qed

text \<open>
  Two writers that expect the same row state: once the first has hit and its patch leaves that
  state, the second misses and changes nothing.
\<close>

lemma second_writer_misses:
  assumes "upd u s = Inr (True, s')" and "target v = target u"
    and "\<And>r. \<not> hits v s' (patch u r)" and "upd v s' = Inr (b, s'')"
  shows "\<not> b \<and> s'' = s'"
proof -
  from upd_hit [OF assms(1)] obtain r where "look (target u) s' = Some (patch u r)" by blast
  then have "\<not> b"
    using upd_hit [of v s' s''] assms(2,3,4) by (cases b) auto
  then show ?thesis using upd_miss [of v s' s''] assms(4) by auto
qed

end

end
