(* ===== verification/Store.thy ===== *)
theory Store
  imports Entities Tables "HOL-Library.List_Lexorder" "HOL-Library.Char_ord"
begin

section \<open>The PostgreSQL store of the Task Runtime\<close>

text \<open>
  The tables of \<open>migrations/taskruntime/000001_create_task_runtime_tables.go\<close> with their CHECK,
  UNIQUE and FOREIGN KEY constraints, and the statements of
  \<open>internal/adapter/postgres/taskruntime/repository.go\<close> over them. A table is its list of rows; a
  statement returns the new database or the constraint it violates. \<open>db_other\<close> is what the other
  modules keep in the same database (reports, steps, tool executions, checkpoints), which no
  statement here touches. A failing connection is an outcome of the transaction, see
  \<open>Execute\<close> at the end.
\<close>

record 'x db =
  db_tasks :: "Task list"
  db_runs :: "Run list"
  db_executions :: "TaskExecution list"
  db_receipts :: "CommandReceipt list"
  db_logs :: "TaskLog list"
  db_other :: 'x

subsection \<open>Row constraints\<close>

text \<open>
  \<open>sharedErrorCodeCheck\<close>: the error codes the three tables accept. It is the list of the migration,
  which is not the closed set of \<open>ErrorCode.Valid\<close>.
\<close>

definition sharedErrorCodeCheck :: "ErrorCode list" where
  "sharedErrorCodeCheck =
    [ErrorCodeTaskCancelled, ErrorCodeTaskTimeout, ErrorCodeConfigVersionMismatch,
     ErrorCodeDataInconsistent, ErrorCodeCheckpointInvalid, ErrorCodePlanGenerationFailed,
     ErrorCodePlanValidationFailed, ErrorCodeInputResolutionFailed, ErrorCodeModelCallFailed,
     ErrorCodeModelOutputInvalid, ErrorCodeResultSanitizationFailed, ErrorCodeStepOutputInvalid,
     ErrorCodeStepOutputTooLarge, ErrorCodeToolNotFound, ErrorCodeToolDisabled,
     ErrorCodeToolNotAuthorized, ErrorCodeToolInputInvalid, ErrorCodeToolAccessDenied,
     ErrorCodeToolTimeout, ErrorCodeToolConnectionLost, ErrorCodeToolCallFailed,
     ErrorCodeApprovalContextChanged, ErrorCodeApprovalRejected, ErrorCodeWriteToolInterrupted,
     ErrorCodeWorkerInterrupted, ErrorCodeResultPersistenceFailed, ErrorCodeReportGenerationFailed,
     ErrorCodeStepExecutorContractBroken, ErrorCodeRuntimeStaticToolSnapshotInconsistent,
     ErrorCodePersistenceInvariantViolation]"

definition error_code_column :: "ErrorCode option \<Rightarrow> bool" where
  "error_code_column c = (case c of None \<Rightarrow> True | Some e \<Rightarrow> e \<in> set sharedErrorCodeCheck)"

fun not_before :: "time option \<Rightarrow> time \<Rightarrow> bool" where
  "not_before None t = True"
| "not_before (Some u) t = (t \<le> u)"

text \<open>The upper bound of a \<open>BIGINT\<close> column; the other one follows from the CHECK constraints.\<close>

definition bigint :: "int \<Rightarrow> bool" where
  "bigint v \<longleftrightarrow> v < 2 ^ 63"

lemma bigint_1 [simp]: "bigint 1"
  by (simp add: bigint_def)

definition Task_check :: "Task \<Rightarrow> bool" where
  "Task_check t \<longleftrightarrow>
     Task_TaskID t \<noteq> '''' \<and> Task_AgentID t \<noteq> '''' \<and> Task_CreatedBy t \<noteq> '''' \<and>
     TaskStatus_Valid (Task_Status t) \<and> Task_CurrentRunID t \<noteq> '''' \<and>
     0 < Task_CurrentExecutionVersion t \<and> bigint (Task_CurrentExecutionVersion t) \<and> error_code_column (Task_ErrorCode t) \<and>
     Task_CreatedAt t \<le> Task_DeadlineAt t \<and>
     not_before (Task_StartedAt t) (Task_CreatedAt t) \<and> not_before (Task_EndedAt t) (Task_CreatedAt t) \<and>
     (case Task_StartedAt t of None \<Rightarrow> True | Some s \<Rightarrow> not_before (Task_EndedAt t) s) \<and>
     (TaskStatus_Terminal (Task_Status t) \<longleftrightarrow> Task_EndedAt t \<noteq> None) \<and>
     (Task_ErrorCode t \<noteq> None \<longleftrightarrow>
        Task_Status t \<in> {TaskStatusFailed, TaskStatusCancelled, TaskStatusInterrupted})"

definition is_object :: "json option \<Rightarrow> bool" where
  "is_object j = (case j of Some (JObj _) \<Rightarrow> True | _ \<Rightarrow> False)"

definition Run_check :: "Run \<Rightarrow> bool" where
  "Run_check r \<longleftrightarrow>
     Run_RunID r \<noteq> '''' \<and> Run_TaskID r \<noteq> '''' \<and> RunStatus_Valid (Run_Status r) \<and>
     is_object (Run_Context r) \<and> error_code_column (Run_ErrorCode r) \<and>
     (RunStatus_Terminal (Run_Status r) \<longleftrightarrow> Run_EndedAt r \<noteq> None) \<and>
     (Run_ErrorCode r \<noteq> None \<longleftrightarrow> Run_Status r = RunStatusFailed)"

definition TaskExecution_check :: "TaskExecution \<Rightarrow> bool" where
  "TaskExecution_check e \<longleftrightarrow>
     Exec_TaskExecutionID e \<noteq> '''' \<and> Exec_TaskID e \<noteq> '''' \<and> 0 < Exec_ExecutionVersion e \<and>
     bigint (Exec_ExecutionVersion e) \<and>
     Exec_WorkerID e \<noteq> Some '''' \<and> TaskExecutionStatus_Valid (Exec_Status e) \<and>
     validSHA256 (Exec_ExecutionConfigHash e) \<and>
     (case Exec_ObservedConfigHash e of None \<Rightarrow> True | Some h \<Rightarrow> validSHA256 h) \<and>
     error_code_column (Exec_ErrorCode e) \<and>
     (case Exec_InvariantCode e of None \<Rightarrow> True | Some c \<Rightarrow> InvariantCode_Valid c) \<and>
     (case Exec_TerminationReason e of None \<Rightarrow> True | Some r \<Rightarrow> TerminationReason_Valid r) \<and>
     not_before (Exec_StartedAt e) (Exec_CreatedAt e) \<and> not_before (Exec_EndedAt e) (Exec_CreatedAt e) \<and>
     (case Exec_StartedAt e of None \<Rightarrow> True | Some s \<Rightarrow> not_before (Exec_EndedAt e) s) \<and>
     (Exec_Status e = TaskExecutionStatusQueued \<and> Exec_WorkerID e = None \<and> Exec_EndedAt e = None \<or>
      Exec_Status e = TaskExecutionStatusRunning \<and> Exec_WorkerID e \<noteq> None \<and> Exec_StartedAt e \<noteq> None
        \<and> Exec_EndedAt e = None \<or>
      Exec_Status e = TaskExecutionStatusWaitingApproval \<and> Exec_WorkerID e = None
        \<and> Exec_StartedAt e \<noteq> None \<and> Exec_EndedAt e = None \<or>
      TaskExecutionStatus_Ended (Exec_Status e) \<and> Exec_EndedAt e \<noteq> None) \<and>
     (Exec_ObservedConfigHash e = None \<or>
      Exec_ErrorCode e = Some ErrorCodeConfigVersionMismatch \<and>
        Exec_Status e \<in> {TaskExecutionStatusInterrupted, TaskExecutionStatusFailed}) \<and>
     (Exec_InvariantCode e = None \<or> Exec_ErrorCode e = Some ErrorCodeDataInconsistent) \<and>
     (Exec_TerminationReason e = None \<or> Exec_Status e = TaskExecutionStatusFailed)"

fun CommandType_column :: "CommandType \<Rightarrow> bool" where
  "CommandType_column (CommandTypeOther _) = False"
| "CommandType_column _ = True"

definition CommandReceipt_check :: "CommandReceipt \<Rightarrow> bool" where
  "CommandReceipt_check r \<longleftrightarrow>
     Receipt_CommandID r \<noteq> '''' \<and> CommandType_column (Receipt_CommandType r) \<and>
     Receipt_TargetID r \<noteq> '''' \<and> validSHA256 (Receipt_RequestFingerprint r) \<and>
     is_object (Some (Receipt_Response r))"

definition TaskLog_check :: "TaskLog \<Rightarrow> bool" where
  "TaskLog_check l \<longleftrightarrow>
     Log_LogID l \<noteq> '''' \<and> Log_TaskID l \<noteq> '''' \<and> Log_RunID l \<noteq> '''' \<and>
     (case Log_ExecutionVersion l of None \<Rightarrow> True | Some v \<Rightarrow> 0 < v) \<and>
     (Log_Level l = TaskLogLevelInfo \<or> Log_Level l = TaskLogLevelError) \<and>
     Log_Event l \<noteq> '''' \<and> Log_Operator l \<noteq> ''''"

subsection \<open>Keys\<close>

definition Exec_key :: "TaskExecution \<Rightarrow> TaskID \<times> ExecutionVersion" where
  "Exec_key e = (Exec_TaskID e, Exec_ExecutionVersion e)"

definition task_row :: "TaskID \<Rightarrow> 'x db \<Rightarrow> Task option" where
  "task_row k s = row_find Task_TaskID k (db_tasks s)"

definition run_row :: "TaskID \<Rightarrow> 'x db \<Rightarrow> Run option" where
  "run_row k s = row_find Run_TaskID k (db_runs s)"

definition exec_row :: "TaskID \<times> ExecutionVersion \<Rightarrow> 'x db \<Rightarrow> TaskExecution option" where
  "exec_row k s = row_find Exec_key k (db_executions s)"

definition receipt_row :: "CommandID \<Rightarrow> 'x db \<Rightarrow> CommandReceipt option" where
  "receipt_row k s = row_find Receipt_CommandID k (db_receipts s)"

subsection \<open>Task statements\<close>

definition TaskRepository_Insert :: "Task \<Rightarrow> 'x db \<Rightarrow> GoError + 'x db" where
  "TaskRepository_Insert t s =
    (if \<not> Task_check t then Inl (ErrConstraint ''task'')
     else if task_row (Task_TaskID t) s \<noteq> None then Inl (ErrConstraint ''task_pkey'')
     else Inr (s\<lparr>db_tasks := db_tasks s @ [t]\<rparr>))"

definition scanTask :: "Task option \<Rightarrow> GoError + Task" where
  "scanTask row =
    (case row of
       None \<Rightarrow> Inl ErrRepositoryNotFound
     | Some t \<Rightarrow>
         if ExecutionVersion_Valid (Task_CurrentExecutionVersion t) then Inr t
         else Inl ErrPersistenceInvariantViolation)"

definition TaskRepository_Lock :: "TaskID \<Rightarrow> 'x db \<Rightarrow> GoError + Task" where
  "TaskRepository_Lock k s = scanTask (task_row k s)"

definition TaskUpdate_hits :: "TaskUpdate \<Rightarrow> Task \<Rightarrow> bool" where
  "TaskUpdate_hits u t \<longleftrightarrow>
     Task_Status t = TU_ExpectedStatus u \<and>
     Task_CurrentExecutionVersion t = TU_ExpectedCurrentExecutionVersion u"

definition TaskUpdate_patch :: "TaskUpdate \<Rightarrow> Task \<Rightarrow> Task" where
  "TaskUpdate_patch u t = t\<lparr>Task_Status := TU_Status u,
     Task_CurrentExecutionVersion := TU_CurrentExecutionVersion u,
     Task_ResultSummary := TU_ResultSummary u, Task_ErrorCode := TU_ErrorCode u,
     Task_QueuedAt := TU_QueuedAt u, Task_StartedAt := TU_StartedAt u, Task_EndedAt := TU_EndedAt u\<rparr>"

definition TaskRepository_Update :: "TaskUpdate \<Rightarrow> 'x db \<Rightarrow> GoError + bool \<times> 'x db" where
  "TaskRepository_Update u s =
    (case task_row (TU_TaskID u) s of
       None \<Rightarrow> Inr (False, s)
     | Some t \<Rightarrow>
         if \<not> TaskUpdate_hits u t then Inr (False, s)
         else if \<not> Task_check (TaskUpdate_patch u t) then Inl (ErrConstraint ''task'')
         else Inr (True, s\<lparr>db_tasks := row_replace Task_TaskID (TaskUpdate_patch u t) (db_tasks s)\<rparr>))"

subsection \<open>Run statements\<close>

definition RunRepository_Insert :: "Run \<Rightarrow> 'x db \<Rightarrow> GoError + 'x db" where
  "RunRepository_Insert r s =
    (if \<not> Run_check r then Inl (ErrConstraint ''run'')
     else if row_find Run_RunID (Run_RunID r) (db_runs s) \<noteq> None then Inl (ErrConstraint ''run_pkey'')
     else if run_row (Run_TaskID r) s \<noteq> None then Inl (ErrConstraint ''run_task_unique'')
     else if task_row (Run_TaskID r) s = None then Inl (ErrConstraint ''run_task_foreign_key'')
     else Inr (s\<lparr>db_runs := db_runs s @ [r]\<rparr>))"

definition RunRepository_LockByTask :: "TaskID \<Rightarrow> 'x db \<Rightarrow> GoError + Run" where
  "RunRepository_LockByTask k s =
    (case run_row k s of None \<Rightarrow> Inl ErrRepositoryNotFound | Some r \<Rightarrow> Inr r)"

definition RunUpdate_hits :: "RunUpdate \<Rightarrow> 'x db \<Rightarrow> Run \<Rightarrow> bool" where
  "RunUpdate_hits u s r \<longleftrightarrow>
     Run_RunID r = RU_RunID u \<and> Run_Status r = RU_ExpectedStatus u \<and>
     (case task_row (RU_TaskID u) s of
        None \<Rightarrow> False
      | Some t \<Rightarrow> Task_CurrentRunID t = RU_RunID u \<and> Task_CurrentExecutionVersion t = RU_ExecutionVersion u)"

definition RunUpdate_patch :: "RunUpdate \<Rightarrow> Run \<Rightarrow> Run" where
  "RunUpdate_patch u r = r\<lparr>Run_Status := RU_Status u, Run_PlanID := RU_PlanID u,
     Run_CurrentStepID := RU_CurrentStepID u, Run_Context := RU_Context u, Run_ErrorCode := RU_ErrorCode u,
     Run_StartedAt := RU_StartedAt u, Run_EndedAt := RU_EndedAt u\<rparr>"

definition RunRepository_Update :: "RunUpdate \<Rightarrow> 'x db \<Rightarrow> GoError + bool \<times> 'x db" where
  "RunRepository_Update u s =
    (case run_row (RU_TaskID u) s of
       None \<Rightarrow> Inr (False, s)
     | Some r \<Rightarrow>
         if \<not> RunUpdate_hits u s r then Inr (False, s)
         else if \<not> Run_check (RunUpdate_patch u r) then Inl (ErrConstraint ''run'')
         else Inr (True, s\<lparr>db_runs := row_replace Run_TaskID (RunUpdate_patch u r) (db_runs s)\<rparr>))"

subsection \<open>TaskExecution statements\<close>

definition TaskExecutionRepository_Insert :: "TaskExecution \<Rightarrow> 'x db \<Rightarrow> GoError + 'x db" where
  "TaskExecutionRepository_Insert e s =
    (if \<not> TaskExecution_check e then Inl (ErrConstraint ''task_execution'')
     else if row_find Exec_TaskExecutionID (Exec_TaskExecutionID e) (db_executions s) \<noteq> None
     then Inl (ErrConstraint ''task_execution_pkey'')
     else if exec_row (Exec_key e) s \<noteq> None then Inl (ErrConstraint ''task_execution_task_version_unique'')
     else if task_row (Exec_TaskID e) s = None then Inl (ErrConstraint ''task_execution_task_foreign_key'')
     else Inr (s\<lparr>db_executions := db_executions s @ [e]\<rparr>))"

definition scanTaskExecution :: "TaskExecution option \<Rightarrow> GoError + TaskExecution" where
  "scanTaskExecution row =
    (case row of
       None \<Rightarrow> Inl ErrRepositoryNotFound
     | Some e \<Rightarrow>
         if ExecutionVersion_Valid (Exec_ExecutionVersion e) then Inr e
         else Inl ErrPersistenceInvariantViolation)"

definition TaskExecutionRepository_LockByTaskVersion ::
    "TaskID \<Rightarrow> ExecutionVersion \<Rightarrow> 'x db \<Rightarrow> GoError + TaskExecution" where
  "TaskExecutionRepository_LockByTaskVersion k v s = scanTaskExecution (exec_row (k, v) s)"

definition EU_key :: "TaskExecutionUpdate \<Rightarrow> TaskID \<times> ExecutionVersion" where
  "EU_key u = (EU_TaskID u, EU_ExecutionVersion u)"

definition TaskExecutionUpdate_hits :: "TaskExecutionUpdate \<Rightarrow> 'x db \<Rightarrow> TaskExecution \<Rightarrow> bool" where
  "TaskExecutionUpdate_hits u s e \<longleftrightarrow>
     (case task_row (EU_TaskID u) s of
        None \<Rightarrow> False | Some t \<Rightarrow> Task_CurrentExecutionVersion t = EU_ExecutionVersion u) \<and>
     Exec_Status e = EU_ExpectedStatus u \<and> Exec_WorkerID e = EU_ExpectedWorkerID u \<and>
     (EU_ObservedConfigHash u = None \<or>
      Exec_ObservedConfigHash e = None \<and> EU_Status u = TaskExecutionStatusInterrupted \<and>
        EU_ErrorCode u = Some ErrorCodeConfigVersionMismatch)"

definition TaskExecutionUpdate_patch :: "TaskExecutionUpdate \<Rightarrow> TaskExecution \<Rightarrow> TaskExecution" where
  "TaskExecutionUpdate_patch u e = e\<lparr>Exec_Status := EU_Status u, Exec_WorkerID := EU_WorkerID u,
     Exec_ObservedConfigHash :=
       (case Exec_ObservedConfigHash e of None \<Rightarrow> EU_ObservedConfigHash u | Some h \<Rightarrow> Some h),
     Exec_ErrorCode := EU_ErrorCode u, Exec_InvariantCode := EU_InvariantCode u,
     Exec_TerminationReason := EU_TerminationReason u, Exec_StartedAt := EU_StartedAt u,
     Exec_EndedAt := EU_EndedAt u\<rparr>"

definition TaskExecutionRepository_Update :: "TaskExecutionUpdate \<Rightarrow> 'x db \<Rightarrow> GoError + bool \<times> 'x db" where
  "TaskExecutionRepository_Update u s =
    (case exec_row (EU_key u) s of
       None \<Rightarrow> Inr (False, s)
     | Some e \<Rightarrow>
         if \<not> TaskExecutionUpdate_hits u s e then Inr (False, s)
         else if \<not> TaskExecution_check (TaskExecutionUpdate_patch u e)
         then Inl (ErrConstraint ''task_execution'')
         else Inr (True, s\<lparr>db_executions := row_replace Exec_key (TaskExecutionUpdate_patch u e) (db_executions s)\<rparr>))"

subsection \<open>Receipts and logs\<close>

definition CommandReceiptRepository_Insert :: "CommandReceipt \<Rightarrow> 'x db \<Rightarrow> GoError + 'x db" where
  "CommandReceiptRepository_Insert r s =
    (if \<not> CommandReceipt_check r then Inl (ErrConstraint ''command_receipt'')
     else if receipt_row (Receipt_CommandID r) s \<noteq> None then Inl (ErrConstraint ''command_receipt_pkey'')
     else Inr (s\<lparr>db_receipts := db_receipts s @ [r]\<rparr>))"

definition CommandReceiptRepository_Lock :: "CommandID \<Rightarrow> 'x db \<Rightarrow> GoError + CommandReceipt" where
  "CommandReceiptRepository_Lock k s =
    (case receipt_row k s of None \<Rightarrow> Inl ErrRepositoryNotFound | Some r \<Rightarrow> Inr r)"

definition TaskLogRepository_Append :: "TaskLog \<Rightarrow> 'x db \<Rightarrow> GoError + 'x db" where
  "TaskLogRepository_Append l s =
    (if \<not> TaskLog_check l then Inl (ErrConstraint ''task_log'')
     else if row_find Log_LogID (Log_LogID l) (db_logs s) \<noteq> None then Inl (ErrConstraint ''task_log_pkey'')
     else if (case run_row (Log_TaskID l) s of None \<Rightarrow> True | Some r \<Rightarrow> Run_RunID r \<noteq> Log_RunID l)
     then Inl (ErrConstraint ''task_log_run_foreign_key'')
     else if (case Log_ExecutionVersion l of
                None \<Rightarrow> False | Some v \<Rightarrow> exec_row (Log_TaskID l, v) s = None)
     then Inl (ErrConstraint ''task_log_execution_foreign_key'')
     else Inr (s\<lparr>db_logs := db_logs s @ [l]\<rparr>))"

subsection \<open>The FIFO queue\<close>

text \<open>
  \<open>ORDER BY queued_at, created_at, task_id\<close>: the order of a queue entry. Text is compared byte by
  byte (the C collation).
\<close>

datatype QueueKey = QueueKey (qk_queued: time) (qk_created: time) (qk_task: TaskID)

instantiation QueueKey :: linorder
begin

definition less_eq_QueueKey :: "QueueKey \<Rightarrow> QueueKey \<Rightarrow> bool" where
  "less_eq_QueueKey a b \<longleftrightarrow>
     qk_queued a < qk_queued b \<or>
     qk_queued a = qk_queued b \<and>
       (qk_created a < qk_created b \<or> qk_created a = qk_created b \<and> qk_task a \<le> qk_task b)"

definition less_QueueKey :: "QueueKey \<Rightarrow> QueueKey \<Rightarrow> bool" where
  "less_QueueKey a b \<longleftrightarrow> a \<le> b \<and> \<not> b \<le> (a :: QueueKey)"

instance
proof
  fix a b c :: QueueKey
  show "a < b \<longleftrightarrow> a \<le> b \<and> \<not> b \<le> a" by (rule less_QueueKey_def)
  show "a \<le> a" by (simp add: less_eq_QueueKey_def)
  show "a \<le> b \<Longrightarrow> b \<le> c \<Longrightarrow> a \<le> c" by (auto simp: less_eq_QueueKey_def)
  show "a \<le> b \<Longrightarrow> b \<le> a \<Longrightarrow> a = b" by (cases a; cases b) (auto simp: less_eq_QueueKey_def)
  show "a \<le> b \<or> b \<le> a" by (auto simp: less_eq_QueueKey_def)
qed

end

definition candidate_of :: "'x db \<Rightarrow> Task \<Rightarrow> QueueCandidate option" where
  "candidate_of s t =
    (case Task_QueuedAt t of
       None \<Rightarrow> None
     | Some queued \<Rightarrow>
         (case exec_row (Task_TaskID t, Task_CurrentExecutionVersion t) s of
            None \<Rightarrow> None
          | Some e \<Rightarrow>
              Some \<lparr>QC_TaskID = Task_TaskID t, QC_RunID = Task_CurrentRunID t,
                QC_ExecutionVersion = Task_CurrentExecutionVersion t, QC_TaskStatus = Task_Status t,
                QC_ExecutionStatus = Exec_Status e, QC_QueuedAt = queued, QC_CreatedAt = Task_CreatedAt t\<rparr>))"

definition queue_candidates :: "'x db \<Rightarrow> QueueCandidate list" where
  "queue_candidates s = List.map_filter (candidate_of s) (db_tasks s)"

definition candidate_key :: "QueueCandidate \<Rightarrow> QueueKey" where
  "candidate_key c = QueueKey (QC_QueuedAt c) (QC_CreatedAt c) (QC_TaskID c)"

definition TaskRepository_LockNextQueueCandidate :: "'x db \<Rightarrow> GoError + QueueCandidate" where
  "TaskRepository_LockNextQueueCandidate s =
    (if queue_candidates s = [] then Inl ErrRepositoryNotFound
     else
       (let c = arg_min_list candidate_key (queue_candidates s)
        in if ExecutionVersion_Valid (QC_ExecutionVersion c) then Inr c
           else Inl ErrPersistenceInvariantViolation))"

subsection \<open>Transactions\<close>

text \<open>
  The deferred foreign keys of \<open>task\<close>, checked when a transaction commits: the current run and the
  current execution exist.
\<close>

definition deferred_ok :: "'x db \<Rightarrow> bool" where
  "deferred_ok s \<longleftrightarrow>
     (\<forall>t \<in> set (db_tasks s).
        (case run_row (Task_TaskID t) s of None \<Rightarrow> False | Some r \<Rightarrow> Run_RunID r = Task_CurrentRunID t) \<and>
        exec_row (Task_TaskID t, Task_CurrentExecutionVersion t) s \<noteq> None)"

text \<open>
  \<open>RuntimeWriteExecutor.Execute\<close>: run the work in one transaction, roll back on any error, commit
  otherwise. \<open>fault\<close> is an infrastructure failure (connection, context, commit) at any point of the
  transaction: every repository call returns it to its caller, no caller handles it, and the
  transaction is rolled back, so it is one outcome of the whole transaction.
\<close>

definition Execute ::
    "string option \<Rightarrow> ('x db \<Rightarrow> GoError + 'a \<times> 'x db) \<Rightarrow> 'x db \<Rightarrow> (GoError + 'a) \<times> 'x db" where
  "Execute fault work s =
    (case fault of
       Some cause \<Rightarrow> (Inl (ErrInfra cause), s)
     | None \<Rightarrow>
         (case work s of
            Inl e \<Rightarrow> (Inl e, s)
          | Inr (a, s') \<Rightarrow>
              if deferred_ok s' then (Inr a, s') else (Inl (ErrConstraint ''deferred''), s)))"

section \<open>Laws of the store\<close>

lemma row_frames [simp, store_simps]:
  "task_row k (s\<lparr>db_runs := rs\<rparr>) = task_row k s"
  "task_row k (s\<lparr>db_executions := es\<rparr>) = task_row k s"
  "task_row k (s\<lparr>db_receipts := cs\<rparr>) = task_row k s"
  "task_row k (s\<lparr>db_logs := ls\<rparr>) = task_row k s"
  "task_row k (s\<lparr>db_other := x\<rparr>) = task_row k s"
  "run_row k (s\<lparr>db_tasks := ts\<rparr>) = run_row k s"
  "run_row k (s\<lparr>db_executions := es\<rparr>) = run_row k s"
  "run_row k (s\<lparr>db_receipts := cs\<rparr>) = run_row k s"
  "run_row k (s\<lparr>db_logs := ls\<rparr>) = run_row k s"
  "run_row k (s\<lparr>db_other := x\<rparr>) = run_row k s"
  "exec_row p (s\<lparr>db_tasks := ts\<rparr>) = exec_row p s"
  "exec_row p (s\<lparr>db_runs := rs\<rparr>) = exec_row p s"
  "exec_row p (s\<lparr>db_receipts := cs\<rparr>) = exec_row p s"
  "exec_row p (s\<lparr>db_logs := ls\<rparr>) = exec_row p s"
  "exec_row p (s\<lparr>db_other := x\<rparr>) = exec_row p s"
  "receipt_row c (s\<lparr>db_tasks := ts\<rparr>) = receipt_row c s"
  "receipt_row c (s\<lparr>db_runs := rs\<rparr>) = receipt_row c s"
  "receipt_row c (s\<lparr>db_executions := es\<rparr>) = receipt_row c s"
  "receipt_row c (s\<lparr>db_logs := ls\<rparr>) = receipt_row c s"
  "receipt_row c (s\<lparr>db_other := x\<rparr>) = receipt_row c s"
  by (simp_all add: task_row_def run_row_def exec_row_def receipt_row_def)

lemma row_keys:
  "task_row k s = Some t \<Longrightarrow> Task_TaskID t = k"
  "run_row k s = Some r \<Longrightarrow> Run_TaskID r = k"
  "exec_row p s = Some e \<Longrightarrow> Exec_key e = p"
  "receipt_row c s = Some rc \<Longrightarrow> Receipt_CommandID rc = c"
  by (auto simp: task_row_def run_row_def exec_row_def receipt_row_def dest: row_find_key)

lemma patch_keys [simp]:
  "Task_TaskID (TaskUpdate_patch u t) = Task_TaskID t"
  "Run_TaskID (RunUpdate_patch v r) = Run_TaskID r"
  "Run_RunID (RunUpdate_patch v r) = Run_RunID r"
  "Exec_key (TaskExecutionUpdate_patch w e) = Exec_key e"
  "Exec_TaskExecutionID (TaskExecutionUpdate_patch w e) = Exec_TaskExecutionID e"
  "Exec_TaskID (TaskExecutionUpdate_patch w e) = Exec_TaskID e"
  by (simp_all add: TaskUpdate_patch_def RunUpdate_patch_def TaskExecutionUpdate_patch_def Exec_key_def)

lemma task_row_replace:
  "task_row (Task_TaskID t) s \<noteq> None \<Longrightarrow>
     task_row k (s\<lparr>db_tasks := row_replace Task_TaskID t (db_tasks s)\<rparr>) =
       (if k = Task_TaskID t then Some t else task_row k s)"
  by (auto simp: task_row_def row_find_replace)

lemma run_row_replace:
  "run_row (Run_TaskID r) s \<noteq> None \<Longrightarrow>
     run_row k (s\<lparr>db_runs := row_replace Run_TaskID r (db_runs s)\<rparr>) =
       (if k = Run_TaskID r then Some r else run_row k s)"
  by (auto simp: run_row_def row_find_replace)

lemma exec_row_replace:
  "exec_row (Exec_key e) s \<noteq> None \<Longrightarrow>
     exec_row k (s\<lparr>db_executions := row_replace Exec_key e (db_executions s)\<rparr>) =
       (if k = Exec_key e then Some e else exec_row k s)"
  by (auto simp: exec_row_def row_find_replace)

lemma row_appends:
  "task_row (Task_TaskID t) s = None \<Longrightarrow>
     task_row k (s\<lparr>db_tasks := db_tasks s @ [t]\<rparr>) = (if k = Task_TaskID t then Some t else task_row k s)"
  "run_row (Run_TaskID r) s = None \<Longrightarrow>
     run_row k (s\<lparr>db_runs := db_runs s @ [r]\<rparr>) = (if k = Run_TaskID r then Some r else run_row k s)"
  "exec_row (Exec_key e) s = None \<Longrightarrow>
     exec_row p (s\<lparr>db_executions := db_executions s @ [e]\<rparr>) = (if p = Exec_key e then Some e else exec_row p s)"
  "receipt_row (Receipt_CommandID rc) s = None \<Longrightarrow>
     receipt_row c (s\<lparr>db_receipts := db_receipts s @ [rc]\<rparr>) =
       (if c = Receipt_CommandID rc then Some rc else receipt_row c s)"
  by (simp_all add: task_row_def run_row_def exec_row_def receipt_row_def row_find_append_fresh)

text \<open>What a successful statement did: the exact row it wrote, everything else as it was.\<close>

lemma task_insert_iff:
  "TaskRepository_Insert t s = Inr s' \<longleftrightarrow>
     Task_check t \<and> task_row (Task_TaskID t) s = None \<and> s' = s\<lparr>db_tasks := db_tasks s @ [t]\<rparr>"
  by (auto simp: TaskRepository_Insert_def)

lemma run_insert_iff:
  "RunRepository_Insert r s = Inr s' \<longleftrightarrow>
     Run_check r \<and> row_find Run_RunID (Run_RunID r) (db_runs s) = None \<and> run_row (Run_TaskID r) s = None \<and>
     task_row (Run_TaskID r) s \<noteq> None \<and> s' = s\<lparr>db_runs := db_runs s @ [r]\<rparr>"
  by (auto simp: RunRepository_Insert_def)

lemma exec_insert_iff:
  "TaskExecutionRepository_Insert e s = Inr s' \<longleftrightarrow>
     TaskExecution_check e \<and>
     row_find Exec_TaskExecutionID (Exec_TaskExecutionID e) (db_executions s) = None \<and>
     exec_row (Exec_key e) s = None \<and> task_row (Exec_TaskID e) s \<noteq> None \<and>
     s' = s\<lparr>db_executions := db_executions s @ [e]\<rparr>"
  by (auto simp: TaskExecutionRepository_Insert_def)

lemma receipt_insert_iff:
  "CommandReceiptRepository_Insert r s = Inr s' \<longleftrightarrow>
     CommandReceipt_check r \<and> receipt_row (Receipt_CommandID r) s = None \<and>
     s' = s\<lparr>db_receipts := db_receipts s @ [r]\<rparr>"
  by (auto simp: CommandReceiptRepository_Insert_def)

lemma task_update_True_iff:
  "TaskRepository_Update u s = Inr (True, s') \<longleftrightarrow>
     (\<exists>t. task_row (TU_TaskID u) s = Some t \<and> TaskUpdate_hits u t \<and> Task_check (TaskUpdate_patch u t) \<and>
        s' = s\<lparr>db_tasks := row_replace Task_TaskID (TaskUpdate_patch u t) (db_tasks s)\<rparr>)"
  by (auto simp: TaskRepository_Update_def split: option.splits)

lemma run_update_True_iff:
  "RunRepository_Update u s = Inr (True, s') \<longleftrightarrow>
     (\<exists>r. run_row (RU_TaskID u) s = Some r \<and> RunUpdate_hits u s r \<and> Run_check (RunUpdate_patch u r) \<and>
        s' = s\<lparr>db_runs := row_replace Run_TaskID (RunUpdate_patch u r) (db_runs s)\<rparr>)"
  by (auto simp: RunRepository_Update_def split: option.splits)

lemma exec_update_True_iff:
  "TaskExecutionRepository_Update u s = Inr (True, s') \<longleftrightarrow>
     (\<exists>e. exec_row (EU_key u) s = Some e \<and> TaskExecutionUpdate_hits u s e \<and>
        TaskExecution_check (TaskExecutionUpdate_patch u e) \<and>
        s' = s\<lparr>db_executions := row_replace Exec_key (TaskExecutionUpdate_patch u e) (db_executions s)\<rparr>)"
  by (auto simp: TaskExecutionRepository_Update_def split: option.splits)

lemma update_False:
  "TaskRepository_Update u s = Inr (False, s') \<Longrightarrow>
     s' = s \<and> (\<forall>t. task_row (TU_TaskID u) s = Some t \<longrightarrow> \<not> TaskUpdate_hits u t)"
  "RunRepository_Update v s = Inr (False, s') \<Longrightarrow>
     s' = s \<and> (\<forall>r. run_row (RU_TaskID v) s = Some r \<longrightarrow> \<not> RunUpdate_hits v s r)"
  "TaskExecutionRepository_Update w s = Inr (False, s') \<Longrightarrow>
     s' = s \<and> (\<forall>e. exec_row (EU_key w) s = Some e \<longrightarrow> \<not> TaskExecutionUpdate_hits w s e)"
  by (auto simp: TaskRepository_Update_def RunRepository_Update_def TaskExecutionRepository_Update_def
      split: option.splits if_splits)

lemma task_update_rows:
  "TaskRepository_Update u s = Inr (True, s') \<Longrightarrow>
     \<exists>t. task_row (TU_TaskID u) s = Some t \<and> TaskUpdate_hits u t \<and>
       (\<forall>k. task_row k s' = (if k = TU_TaskID u then Some (TaskUpdate_patch u t) else task_row k s))"
  unfolding task_update_True_iff
  by (elim exE conjE, frule row_keys(1)) (simp add: task_row_replace)

lemma run_update_rows:
  "RunRepository_Update u s = Inr (True, s') \<Longrightarrow>
     \<exists>r. run_row (RU_TaskID u) s = Some r \<and> RunUpdate_hits u s r \<and>
       (\<forall>k. run_row k s' = (if k = RU_TaskID u then Some (RunUpdate_patch u r) else run_row k s))"
  unfolding run_update_True_iff
  by (elim exE conjE, frule row_keys(2)) (simp add: run_row_replace)

lemma exec_update_rows:
  "TaskExecutionRepository_Update u s = Inr (True, s') \<Longrightarrow>
     \<exists>e. exec_row (EU_key u) s = Some e \<and> TaskExecutionUpdate_hits u s e \<and>
       (\<forall>k. exec_row k s' = (if k = EU_key u then Some (TaskExecutionUpdate_patch u e) else exec_row k s))"
  unfolding exec_update_True_iff
  by (elim exE conjE, frule row_keys(3)) (simp add: exec_row_replace)

subsection \<open>The repositories meet their interfaces\<close>

interpretation task_store: guarded_store task_row TaskRepository_Insert Task_TaskID
  TaskRepository_Update TU_TaskID "\<lambda>u s t. TaskUpdate_hits u t" TaskUpdate_patch
proof unfold_locales
  fix u :: TaskUpdate and s s' :: "'x db" and b and k
  show "TaskRepository_Update u s = Inr (True, s') \<Longrightarrow>
      \<exists>r. task_row (TU_TaskID u) s = Some r \<and> TaskUpdate_hits u r \<and>
        task_row (TU_TaskID u) s' = Some (TaskUpdate_patch u r)"
    by (drule task_update_rows) auto
  show "TaskRepository_Update u s = Inr (False, s') \<Longrightarrow>
      s' = s \<and> (\<forall>r. task_row (TU_TaskID u) s = Some r \<longrightarrow> \<not> TaskUpdate_hits u r)"
    by (rule update_False)
  show "TaskRepository_Update u s = Inr (b, s') \<Longrightarrow> k \<noteq> TU_TaskID u \<Longrightarrow> task_row k s' = task_row k s"
    by (cases b) (auto dest: task_update_rows update_False)
qed (auto simp: task_insert_iff row_appends dest: row_keys)

interpretation run_store: guarded_store run_row RunRepository_Insert Run_TaskID
  RunRepository_Update RU_TaskID RunUpdate_hits RunUpdate_patch
proof unfold_locales
  fix u :: RunUpdate and s s' :: "'x db" and b and k
  show "RunRepository_Update u s = Inr (True, s') \<Longrightarrow>
      \<exists>r. run_row (RU_TaskID u) s = Some r \<and> RunUpdate_hits u s r \<and>
        run_row (RU_TaskID u) s' = Some (RunUpdate_patch u r)"
    by (drule run_update_rows) auto
  show "RunRepository_Update u s = Inr (False, s') \<Longrightarrow>
      s' = s \<and> (\<forall>r. run_row (RU_TaskID u) s = Some r \<longrightarrow> \<not> RunUpdate_hits u s r)"
    by (rule update_False)
  show "RunRepository_Update u s = Inr (b, s') \<Longrightarrow> k \<noteq> RU_TaskID u \<Longrightarrow> run_row k s' = run_row k s"
    by (cases b) (auto dest: run_update_rows update_False)
qed (auto simp: run_insert_iff row_appends dest: row_keys)

interpretation exec_store: guarded_store exec_row TaskExecutionRepository_Insert Exec_key
  TaskExecutionRepository_Update EU_key TaskExecutionUpdate_hits TaskExecutionUpdate_patch
proof unfold_locales
  fix u :: TaskExecutionUpdate and s s' :: "'x db" and b and k
  show "TaskExecutionRepository_Update u s = Inr (True, s') \<Longrightarrow>
      \<exists>r. exec_row (EU_key u) s = Some r \<and> TaskExecutionUpdate_hits u s r \<and>
        exec_row (EU_key u) s' = Some (TaskExecutionUpdate_patch u r)"
    by (drule exec_update_rows) (auto simp del: split_paired_All)
  show "TaskExecutionRepository_Update u s = Inr (False, s') \<Longrightarrow>
      s' = s \<and> (\<forall>r. exec_row (EU_key u) s = Some r \<longrightarrow> \<not> TaskExecutionUpdate_hits u s r)"
    by (rule update_False)
  show "TaskExecutionRepository_Update u s = Inr (b, s') \<Longrightarrow> k \<noteq> EU_key u \<Longrightarrow> exec_row k s' = exec_row k s"
    by (cases b) (auto simp del: split_paired_All dest: exec_update_rows update_False)
qed (auto simp: exec_insert_iff row_appends dest: row_keys)

interpretation receipt_store: append_store receipt_row CommandReceiptRepository_Insert Receipt_CommandID
  by unfold_locales (auto simp: receipt_insert_iff row_appends dest: row_keys)

text \<open>What a statement on one table leaves alone in the others.\<close>

lemma insert_frames:
  "TaskRepository_Insert t s = Inr s1 \<Longrightarrow> db_runs s1 = db_runs s \<and> db_executions s1 = db_executions s \<and>
     db_receipts s1 = db_receipts s \<and> db_logs s1 = db_logs s \<and> db_other s1 = db_other s"
  "RunRepository_Insert r s = Inr s2 \<Longrightarrow> db_tasks s2 = db_tasks s \<and> db_executions s2 = db_executions s \<and>
     db_receipts s2 = db_receipts s \<and> db_logs s2 = db_logs s \<and> db_other s2 = db_other s"
  "TaskExecutionRepository_Insert e s = Inr s3 \<Longrightarrow> db_tasks s3 = db_tasks s \<and> db_runs s3 = db_runs s \<and>
     db_receipts s3 = db_receipts s \<and> db_logs s3 = db_logs s \<and> db_other s3 = db_other s"
  "CommandReceiptRepository_Insert rc s = Inr s4 \<Longrightarrow> db_tasks s4 = db_tasks s \<and> db_runs s4 = db_runs s \<and>
     db_executions s4 = db_executions s \<and> db_logs s4 = db_logs s \<and> db_other s4 = db_other s"
  by (auto simp: task_insert_iff run_insert_iff exec_insert_iff receipt_insert_iff)

lemma update_frames:
  "TaskRepository_Update u s = Inr (b, s1) \<Longrightarrow> db_runs s1 = db_runs s \<and> db_executions s1 = db_executions s \<and>
     db_receipts s1 = db_receipts s \<and> db_logs s1 = db_logs s \<and> db_other s1 = db_other s"
  "RunRepository_Update v s = Inr (b, s2) \<Longrightarrow> db_tasks s2 = db_tasks s \<and> db_executions s2 = db_executions s \<and>
     db_receipts s2 = db_receipts s \<and> db_logs s2 = db_logs s \<and> db_other s2 = db_other s"
  "TaskExecutionRepository_Update w s = Inr (b, s3) \<Longrightarrow> db_tasks s3 = db_tasks s \<and> db_runs s3 = db_runs s \<and>
     db_receipts s3 = db_receipts s \<and> db_logs s3 = db_logs s \<and> db_other s3 = db_other s"
  by (auto simp: TaskRepository_Update_def RunRepository_Update_def TaskExecutionRepository_Update_def
      split: option.splits if_splits)

end
