(* ===== verification/Samples.thy ===== *)
theory Samples
  imports Store
begin

section \<open>Concrete scenes\<close>

text \<open>
  A small Agent configuration and databases with one task, on which the properties are applied to
  concrete inputs. The configuration has one reading and one writing tool.
\<close>

definition sample_planner_limits :: "PlannerLimitsV1" where
  "sample_planner_limits =
    \<lparr>PL_MaxTaskInputBytes = 64, PL_MaxAgentPromptBytes = 4096, PL_MaxToolDescriptionBytes =
    4096, PL_MaxToolSchemaBytes = 4096, PL_MaxPlanningTools = 4096, PL_MaxInitialPromptBytes = 4096,
    PL_MaxRepairPromptBytes = 4096, PL_MaxModelResponseBytes = 4096, PL_MaxPlanSteps = 4096,
    PL_MaxPlanDraftBytes = 4096, PL_MaxStepNameBytes = 4096, PL_MaxGoalBytes = 4096,
    PL_MaxStepInputBytes = 4096, PL_MaxResolvedReferencesPerStep = 4096, PL_MaxOutputFields = 4096,
    PL_MaxOutputFieldNameBytes = 4096, PL_MaxValidationIssues = 4096,
    PL_MaxRepairCandidateSummaryBytes = 4096, PL_PlannerModelCallTimeoutMS = 4096,
    PL_RepairMinModelBudgetMS = 4096, PL_PlannerLocalSafetyMarginMS = 4096\<rparr>"

definition sample_schema :: "CanonicalJSONSchema" where
  "sample_schema =
    (CanonicalJSONSchema (Some False) '''' None False (Some []) (Some []) JSONSchemaTypeObject)"

definition sample_tools :: "ToolDefinitionV1 list" where
  "sample_tools =
    [\<lparr>Tool_Name = ''get_pod'', Tool_Enabled = True, Tool_Description = ''tool'',
    Tool_CapabilityKind = ToolCapabilityK8sGetPod, Tool_InputSchema = sample_schema,
    Tool_OutputSchema = sample_schema, Tool_RiskLevel = RiskLevelLow, Tool_ReadOnly = True,
    Tool_TimeoutMS = 5000\<rparr>, \<lparr>Tool_Name = ''patch_deployment'', Tool_Enabled = True,
    Tool_Description = ''tool'', Tool_CapabilityKind = ToolCapabilityK8sPatchDeployment,
    Tool_InputSchema = sample_schema, Tool_OutputSchema = sample_schema, Tool_RiskLevel =
    RiskLevelHigh, Tool_ReadOnly = False, Tool_TimeoutMS = 5000\<rparr>]"

definition sample_config :: "ExecutionConfigV1" where
  "sample_config =
    \<lparr>EC_Schema = ''execution-config'', EC_Version = 1, EC_Agent = \<lparr>Agent_AgentID =
    ''ops'', Agent_Enabled = True, Agent_SystemInstruction = ''diagnose'', Agent_AllowedTools =
    [''get_pod'', ''patch_deployment''], Agent_MaxSteps = 8\<rparr>, EC_Model =
    \<lparr>Model_ModelName = ''m1'', Model_Stream = False, Model_ResponseFormat = ''json_object'',
    Model_ModelClientContractVersion = ''model-client-v1'', Model_GenerationParamsSchemaVersion = 1,
    Model_GenerationParams = \<lparr>GP_Temperature = \<lparr>CD_coefficient = 1, CD_scale =
    1\<rparr>, GP_TopP = \<lparr>CD_coefficient = 9, CD_scale = 1\<rparr>, GP_MaxOutputTokens =
    1024\<rparr>\<rparr>, EC_JSON = \<lparr>JSONC_CanonicalizationVersion = ''agentops-json-v1'',
    JSONC_MaxDepth = 16, JSONC_MaxObjectFields = 256, JSONC_RejectDuplicateKeys = True,
    JSONC_RejectNull = True\<rparr>, EC_Safety = \<lparr>Safety_SanitizationRuleVersion =
    ''result-sanitization-v1'', Safety_SafeSummaryMaxBytes = 1024, Safety_LogStringMaxBytes =
    1024\<rparr>, EC_Planner = \<lparr>Planner_ContractVersion = ''planner-v1.3'',
    Planner_PlanSchemaVersion = 1, Planner_NonToolInputContractVersion = ''non-tool-input-v1'',
    Planner_ToolSchemaSubsetVersion = ''tool-schema-subset-v1'', Planner_RepairPolicyVersion =
    ''single-repair-v1'', Planner_AllowedStepTypes = [StepTypeAnalysis, StepTypeModelCall,
    StepTypeToolCall, StepTypeVerification], Planner_FinalStepType = StepTypeVerification,
    Planner_SequenceStart = 1, Planner_RequiresContiguousSequence = True, Planner_MaxRepairs = 1,
    Planner_Limits = sample_planner_limits\<rparr>, EC_StepExecutor = \<lparr>SE_ContractVersion =
    ''step-executor-v1'', SE_StepInputContractVersion = ''step-input-v1'',
    SE_ReferenceProtocolVersion = ''step-output-ref-v1'', SE_ReferenceActionModeVersion =
    ''reference-action-mode-v1'', SE_OutputSchemaVersion = ''output-schema-v1'', SE_Limits =
    \<lparr>SEL_MaxResolvedStepInputBytes = 4096, SEL_MaxStepOutputBytes = 4096,
    SEL_MaxModelPromptBytes = 4096, SEL_MaxModelResponseBytes = 4096,
    SEL_MaxResolvedReferencesPerStep = 4096, SEL_MaxTargetPathDepth = 4096\<rparr>\<rparr>,
    EC_ToolFramework = \<lparr>TF_ContractVersion = ''tool-framework-v1'', TF_ResultContractVersion
    = ''tool-framework-result-v1'', TF_Tools = sample_tools, TF_AccessPolicy = \<lparr>AP_Clusters =
    [], AP_ReplicasPolicy = \<lparr>Replicas_Enabled = False, Replicas_Min = 0, Replicas_Max =
    0\<rparr>, AP_ImageRegistryAllowlist = []\<rparr>, TF_ResultLimits =
    \<lparr>RL_RawResponseMaxBytes = 4096, RL_SafeDTOMaxBytes = 4096, RL_PodPageLimit = 4096,
    RL_EventPageLimit = 4096, RL_ContainerLogDefaultLines = 4096, RL_ContainerLogMaxLines =
    4096\<rparr>, TF_EventPolicy = \<lparr>EP_Version = ''bounded-event-page-v1'', EP_SortKeys =
    [EventSortKeyEventTimeDesc, EventSortKeyNamespaceAsc, EventSortKeyNameAsc, EventSortKeyUIDAsc],
    EP_CandidateBudgetBytes = 4096, EP_ReserveBytes = 512, EP_FollowContinue = False\<rparr>,
    TF_PatchPolicy = \<lparr>PP_Version = ''deployment-patch-v1'', PP_ResponseClassificationVersion
    = ''patch-final-status-v1'', PP_ResourceVersionTestRequired = True, PP_AllowedWriteFields =
    []\<rparr>\<rparr>, EC_Checkpoint = \<lparr>CC_ContractVersion = ''checkpoint-v1.3'',
    CC_RuntimeContextSchemaVersion = 1, CC_ResolvedReferenceProtocolVersion =
    ''step-output-ref-v1'', CC_ActionModeVersion = ''checkpoint-action-mode-v1'',
    CC_MaxResolvedReferencesPerStep = 4096, CC_MaxTargetPathDepth = 4096\<rparr>, EC_Approval =
    \<lparr>APC_PolicyVersion = ''approval-policy-v1'', APC_RequiredRiskLevel = RiskLevelHigh,
    APC_RequiredReadOnly = False, APC_FreezeResourceVersion = True\<rparr>\<rparr>"


definition sample_selector :: PlanningToolCatalogSelector where
  "sample_selector = \<lparr>Selector_CatalogID = ''catalog'', Selector_AllowedTools = Some [''get_pod''],
     Selector_ExpectedRegistryVersion = ''1'', Selector_ExpectedSnapshotHash = ''''\<rparr>"

definition sample_agent :: AgentRuntimeConfig where
  "sample_agent = \<lparr>ARC_TaskTimeout = 4000, ARC_ExecutionConfig = sample_config,
     ARC_PlanningToolCatalogSelector = sample_selector\<rparr>"

definition sample_agents :: "string \<Rightarrow> AgentRuntimeConfig option" where
  "sample_agents a = (if a = ''ops'' then Some sample_agent else None)"

definition sample_hash :: string where
  "sample_hash = replicate 64 (CHR ''a'')"

definition other_hash :: string where
  "other_hash = replicate 64 (CHR ''b'')"

definition sample_hasher :: "ExecutionConfigV1 \<Rightarrow> GoError + ExecutionConfigHash" where
  "sample_hasher c = Inr sample_hash"

lemma sample_hash_valid [simp]: "validSHA256 sample_hash" "validSHA256 other_hash" "sample_hash \<noteq> other_hash"
  by (simp_all add: sample_hash_def other_hash_def validSHA256_def hex_digit_def)

text \<open>One task with its run and current execution, in given statuses.\<close>

definition sample_task :: "TaskStatus \<Rightarrow> time option \<Rightarrow> Task" where
  "sample_task st queued =
    \<lparr>Task_TaskID = ''t1'', Task_AgentID = ''ops'', Task_CreatedBy = ''alice'', Task_Input = ''look'',
     Task_Status = st, Task_CurrentRunID = ''r1'', Task_CurrentExecutionVersion = 1,
     Task_ResultSummary = None,
     Task_ErrorCode = (if st = TaskStatusInterrupted then Some ErrorCodeWorkerInterrupted else None),
     Task_DeadlineAt = 5000, Task_QueuedAt = queued, Task_CreatedAt = 1000,
     Task_StartedAt = (if st = TaskStatusPending then None else Some 1100), Task_EndedAt = None\<rparr>"

definition sample_run :: "RunStatus \<Rightarrow> Run" where
  "sample_run st =
    \<lparr>Run_RunID = ''r1'', Run_TaskID = ''t1'', Run_Status = st, Run_PlanID = None, Run_CurrentStepID = None,
     Run_Context = Some (JObj []), Run_ErrorCode = None,
     Run_StartedAt = (if st = RunStatusPending then None else Some 1100), Run_EndedAt = None\<rparr>"

definition sample_execution :: "TaskExecutionStatus \<Rightarrow> WorkerID option \<Rightarrow> TaskExecution" where
  "sample_execution st w =
    \<lparr>Exec_TaskExecutionID = ''e1'', Exec_TaskID = ''t1'', Exec_ExecutionVersion = 1, Exec_WorkerID = w,
     Exec_Status = st, Exec_ExecutionConfigHash = sample_hash, Exec_ObservedConfigHash = None,
     Exec_ErrorCode = (if st = TaskExecutionStatusInterrupted then Some ErrorCodeWorkerInterrupted else None),
     Exec_InvariantCode = None, Exec_TerminationReason = None, Exec_CreatedAt = 1000,
     Exec_StartedAt = (if st = TaskExecutionStatusQueued then None else Some 1100),
     Exec_EndedAt = (if TaskExecutionStatus_Ended st then Some 1200 else None)\<rparr>"

definition sample_db ::
    "TaskStatus \<Rightarrow> RunStatus \<Rightarrow> TaskExecutionStatus \<Rightarrow> WorkerID option \<Rightarrow> time option \<Rightarrow> 'x \<Rightarrow> 'x db" where
  "sample_db ts rs es w queued x =
    \<lparr>db_tasks = [sample_task ts queued], db_runs = [sample_run rs], db_executions = [sample_execution es w],
     db_receipts = [], db_logs = [], db_other = x\<rparr>"

definition queued_db :: "unit db" where
  "queued_db = sample_db TaskStatusPending RunStatusPending TaskExecutionStatusQueued None (Some 1000) ()"

definition running_db :: "unit db" where
  "running_db = sample_db TaskStatusRunning RunStatusRunning TaskExecutionStatusRunning (Some ''w1'') None ()"

lemmas sample_defs = sample_task_def sample_run_def sample_execution_def sample_db_def queued_db_def running_db_def

lemma sample_rows [simp]:
  "task_row k (sample_db ts rs es w q x) = (if k = ''t1'' then Some (sample_task ts q) else None)"
  "run_row k (sample_db ts rs es w q x) = (if k = ''t1'' then Some (sample_run rs) else None)"
  "exec_row p (sample_db ts rs es w q x) = (if p = (''t1'', 1) then Some (sample_execution es w) else None)"
  "receipt_row c (sample_db ts rs es w q x) = None"
  by (auto simp: task_row_def run_row_def exec_row_def receipt_row_def row_find_Cons sample_defs Exec_key_def)

lemma sample_deferred_ok [simp]: "deferred_ok (sample_db ts rs es w q x)"
  by (simp add: deferred_ok_def) (simp add: sample_defs)

end
