(* ===== verification/History.thy ===== *)
theory History
  imports Samples
begin

section \<open>Histories of statements\<close>

text \<open>
  What every sequence of statements of the PostgreSQL adapter keeps, whoever issues them and in
  whatever order: the row constraints, keys and references of the schema, the append-only tables
  and the columns no statement writes. \<open>statement\<close> is one statement of
  \<open>internal/adapter/postgres/taskruntime/repository.go\<close> or a change of another module's tables;
  transactions are sequences of them that commit or roll back as a whole.
\<close>

inductive statement :: "'x db \<Rightarrow> 'x db \<Rightarrow> bool" where
  insert_task: "TaskRepository_Insert t s = Inr s' \<Longrightarrow> statement s s'"
| insert_run: "RunRepository_Insert r s = Inr s' \<Longrightarrow> statement s s'"
| insert_execution: "TaskExecutionRepository_Insert e s = Inr s' \<Longrightarrow> statement s s'"
| insert_receipt: "CommandReceiptRepository_Insert c s = Inr s' \<Longrightarrow> statement s s'"
| append_log: "TaskLogRepository_Append l s = Inr s' \<Longrightarrow> statement s s'"
| update_task: "TaskRepository_Update tu s = Inr (b, s') \<Longrightarrow> statement s s'"
| update_run: "RunRepository_Update ru s = Inr (b, s') \<Longrightarrow> statement s s'"
| update_execution: "TaskExecutionRepository_Update eu s = Inr (b, s') \<Longrightarrow> statement s s'"
| other_module: "statement s (s\<lparr>db_other := x\<rparr>)"

definition schema_ok :: "'x db \<Rightarrow> bool" where
  "schema_ok s \<longleftrightarrow>
     list_all Task_check (db_tasks s) \<and> list_all Run_check (db_runs s) \<and>
     list_all TaskExecution_check (db_executions s) \<and> list_all CommandReceipt_check (db_receipts s) \<and>
     list_all TaskLog_check (db_logs s) \<and>
     distinct (map Task_TaskID (db_tasks s)) \<and> distinct (map Run_RunID (db_runs s)) \<and>
     distinct (map Run_TaskID (db_runs s)) \<and> distinct (map Exec_key (db_executions s)) \<and>
     distinct (map Exec_TaskExecutionID (db_executions s)) \<and>
     distinct (map Receipt_CommandID (db_receipts s)) \<and> distinct (map Log_LogID (db_logs s)) \<and>
     (\<forall>r \<in> set (db_runs s). Run_TaskID r \<in> Task_TaskID ` set (db_tasks s)) \<and>
     (\<forall>e \<in> set (db_executions s). Exec_TaskID e \<in> Task_TaskID ` set (db_tasks s)) \<and>
     (\<forall>l \<in> set (db_logs s). (Log_TaskID l, Log_RunID l) \<in> (\<lambda>r. (Run_TaskID r, Run_RunID r)) ` set (db_runs s)) \<and>
     (\<forall>l \<in> set (db_logs s). \<forall>v \<in> set_option (Log_ExecutionVersion l).
        (Log_TaskID l, v) \<in> Exec_key ` set (db_executions s))"

definition empty_db :: "'x \<Rightarrow> 'x db" where
  "empty_db x = \<lparr>db_tasks = [], db_runs = [], db_executions = [], db_receipts = [], db_logs = [], db_other = x\<rparr>"

lemma schema_ok_empty [simp]: "schema_ok (empty_db x)"
  by (simp add: schema_ok_def empty_db_def)

lemma list_all_row_replace: "list_all P rows \<Longrightarrow> P r \<Longrightarrow> list_all P (row_replace key r rows)"
  by (auto simp: list_all_iff dest: set_row_replace)

lemma map_row_replace_eq:
  "row_find key (key r') rows = Some r \<Longrightarrow> distinct (map key rows) \<Longrightarrow> f r' = f r \<Longrightarrow>
     map f (row_replace key r' rows) = map f rows"
proof (induction rows)
  case (Cons x rows)
  show ?case
  proof (cases "key x = key r'")
    case True
    then have "row_replace key r' rows = rows"
      using Cons.prems(2) by (auto simp: row_replace_def image_iff intro!: map_idI)
    with True Cons.prems show ?thesis by (simp add: row_replace_def row_find_Cons)
  next
    case False
    with Cons show ?thesis by (simp add: row_replace_def row_find_Cons)
  qed
qed simp

lemma image_row_replace_eq:
  "row_find key (key r') rows = Some r \<Longrightarrow> distinct (map key rows) \<Longrightarrow> f r' = f r \<Longrightarrow>
     f ` set (row_replace key r' rows) = f ` set rows"
  by (drule (2) map_row_replace_eq) (metis set_map)

text \<open>Every statement keeps the schema.\<close>

lemma schema_insert_task:
  assumes "schema_ok s" and "TaskRepository_Insert t s = Inr s'"
  shows "schema_ok s'"
  using assms by (simp add: schema_ok_def task_insert_iff task_row_def row_find_None_iff)

lemma schema_insert_run:
  assumes "schema_ok s" and "RunRepository_Insert r s = Inr s'"
  shows "schema_ok s'"
proof -
  have "Run_TaskID r \<in> Task_TaskID ` set (db_tasks s)"
    using assms(2) by (simp add: run_insert_iff task_row_def row_find_None_iff)
  then show ?thesis
    using assms by (simp add: schema_ok_def run_insert_iff run_row_def row_find_None_iff)
qed

lemma schema_insert_exec:
  assumes "schema_ok s" and "TaskExecutionRepository_Insert e s = Inr s'"
  shows "schema_ok s'"
proof -
  have "Exec_TaskID e \<in> Task_TaskID ` set (db_tasks s)"
    using assms(2) by (simp add: exec_insert_iff task_row_def row_find_None_iff)
  then show ?thesis
    using assms by (simp add: schema_ok_def exec_insert_iff exec_row_def row_find_None_iff)
qed

lemma schema_insert_receipt:
  assumes "schema_ok s" and "CommandReceiptRepository_Insert c s = Inr s'"
  shows "schema_ok s'"
  using assms by (simp add: schema_ok_def receipt_insert_iff receipt_row_def row_find_None_iff)

lemmas schema_insert = schema_insert_task schema_insert_run schema_insert_exec schema_insert_receipt

lemma schema_log:
  assumes "schema_ok s" and "TaskLogRepository_Append l s = Inr s'"
  shows "schema_ok s'"
proof -
  obtain r where r: "run_row (Log_TaskID l) s = Some r" "Run_RunID r = Log_RunID l"
    using assms(2) by (auto simp: TaskLogRepository_Append_def split: if_splits option.splits)
  then have run: "(Log_TaskID l, Log_RunID l) \<in> (\<lambda>r. (Run_TaskID r, Run_RunID r)) ` set (db_runs s)"
    using row_keys(2) [OF r(1)] row_find_SomeD [of Run_TaskID "Log_TaskID l" "db_runs s" r]
    by (auto simp: run_row_def image_iff intro!: bexI [of _ r])
  have exec: "\<forall>v \<in> set_option (Log_ExecutionVersion l). (Log_TaskID l, v) \<in> Exec_key ` set (db_executions s)"
    using assms(2)
    by (auto simp: TaskLogRepository_Append_def exec_row_def row_find_None_iff split: if_splits option.splits)
  have rest: "TaskLog_check l" "Log_LogID l \<notin> Log_LogID ` set (db_logs s)"
    "s' = s\<lparr>db_logs := db_logs s @ [l]\<rparr>"
    using assms(2)
    by (auto simp: TaskLogRepository_Append_def row_find_None_iff split: if_splits option.splits)
  show ?thesis
    using assms(1) run exec rest by (simp add: schema_ok_def ball_Un)
qed

lemma update_patched_task:
  assumes "TaskRepository_Update u s = Inr (True, s')"
  shows "\<exists>t. row_find Task_TaskID (Task_TaskID (TaskUpdate_patch u t)) (db_tasks s) = Some t \<and> Task_check (TaskUpdate_patch u t) \<and>
    s' = s\<lparr>db_tasks := row_replace Task_TaskID (TaskUpdate_patch u t) (db_tasks s)\<rparr>"
proof -
  obtain t where t: "task_row (TU_TaskID u) s = Some t" "Task_check (TaskUpdate_patch u t)"
      "s' = s\<lparr>db_tasks := row_replace Task_TaskID (TaskUpdate_patch u t) (db_tasks s)\<rparr>"
    using assms unfolding task_update_True_iff by blast
  then have "Task_TaskID t = TU_TaskID u" by (blast dest: row_keys)
  with t show ?thesis by (intro exI [of _ t]) (simp add: task_row_def)
qed

lemma schema_update_task:
  assumes "schema_ok s" and "TaskRepository_Update u s = Inr (True, s')"
  shows "schema_ok s'"
proof -
  obtain t where t: "row_find Task_TaskID (Task_TaskID (TaskUpdate_patch u t)) (db_tasks s) = Some t"
      "Task_check (TaskUpdate_patch u t)"
      "s' = s\<lparr>db_tasks := row_replace Task_TaskID (TaskUpdate_patch u t) (db_tasks s)\<rparr>"
    using update_patched_task [OF assms(2)] by blast
  have "distinct (map Task_TaskID (db_tasks s))" using assms(1) by (simp add: schema_ok_def)
  then have "Task_TaskID ` set (row_replace Task_TaskID (TaskUpdate_patch u t) (db_tasks s)) =
      Task_TaskID ` set (db_tasks s)"
    by (intro image_row_replace_eq [OF t(1)]) simp_all
  then show ?thesis
    using assms(1) t(2,3) by (simp add: schema_ok_def list_all_row_replace)
qed

lemma update_patched_run:
  assumes "RunRepository_Update u s = Inr (True, s')"
  shows "\<exists>r. row_find Run_TaskID (Run_TaskID (RunUpdate_patch u r)) (db_runs s) = Some r \<and> Run_check (RunUpdate_patch u r) \<and>
    s' = s\<lparr>db_runs := row_replace Run_TaskID (RunUpdate_patch u r) (db_runs s)\<rparr>"
proof -
  obtain r where r: "run_row (RU_TaskID u) s = Some r" "Run_check (RunUpdate_patch u r)"
      "s' = s\<lparr>db_runs := row_replace Run_TaskID (RunUpdate_patch u r) (db_runs s)\<rparr>"
    using assms unfolding run_update_True_iff by blast
  then have "Run_TaskID r = RU_TaskID u" by (blast dest: row_keys)
  with r show ?thesis by (intro exI [of _ r]) (simp add: run_row_def)
qed

lemma schema_update_run:
  assumes "schema_ok s" and "RunRepository_Update u s = Inr (True, s')"
  shows "schema_ok s'"
proof -
  obtain r where r: "row_find Run_TaskID (Run_TaskID (RunUpdate_patch u r)) (db_runs s) = Some r"
      "Run_check (RunUpdate_patch u r)"
      "s' = s\<lparr>db_runs := row_replace Run_TaskID (RunUpdate_patch u r) (db_runs s)\<rparr>"
    using update_patched_run [OF assms(2)] by blast
  have d: "distinct (map Run_TaskID (db_runs s))" using assms(1) by (simp add: schema_ok_def)
  have ids: "map Run_RunID (row_replace Run_TaskID (RunUpdate_patch u r) (db_runs s)) = map Run_RunID (db_runs s)"
    by (rule map_row_replace_eq [OF r(1) d]) simp
  have pairs: "(\<lambda>x. (Run_TaskID x, Run_RunID x)) ` set (row_replace Run_TaskID (RunUpdate_patch u r) (db_runs s)) =
      (\<lambda>x. (Run_TaskID x, Run_RunID x)) ` set (db_runs s)"
    by (rule image_row_replace_eq [OF r(1) d]) simp
  have "Run_TaskID r \<in> Task_TaskID ` set (db_tasks s)"
    using assms(1) r(1) by (auto simp: schema_ok_def dest: row_find_SomeD)
  then have "\<forall>x \<in> set (row_replace Run_TaskID (RunUpdate_patch u r) (db_runs s)).
      Run_TaskID x \<in> Task_TaskID ` set (db_tasks s)"
    using assms(1) by (auto simp: schema_ok_def dest!: set_row_replace)
  then show ?thesis
    using assms(1) r(2,3) ids pairs by (simp add: schema_ok_def list_all_row_replace)
qed

lemma update_patched_exec:
  assumes "TaskExecutionRepository_Update u s = Inr (True, s')"
  shows "\<exists>e. row_find Exec_key (Exec_key (TaskExecutionUpdate_patch u e)) (db_executions s) = Some e \<and> TaskExecution_check (TaskExecutionUpdate_patch u e) \<and>
    s' = s\<lparr>db_executions := row_replace Exec_key (TaskExecutionUpdate_patch u e) (db_executions s)\<rparr>"
proof -
  obtain e where e: "exec_row (EU_key u) s = Some e" "TaskExecution_check (TaskExecutionUpdate_patch u e)"
      "s' = s\<lparr>db_executions := row_replace Exec_key (TaskExecutionUpdate_patch u e) (db_executions s)\<rparr>"
    using assms unfolding exec_update_True_iff by blast
  then have "Exec_key e = EU_key u" by (blast dest: row_keys)
  with e show ?thesis by (intro exI [of _ e]) (simp add: exec_row_def)
qed

lemma schema_update_exec:
  assumes "schema_ok s" and "TaskExecutionRepository_Update u s = Inr (True, s')"
  shows "schema_ok s'"
proof -
  obtain e where e: "row_find Exec_key (Exec_key (TaskExecutionUpdate_patch u e)) (db_executions s) = Some e"
      "TaskExecution_check (TaskExecutionUpdate_patch u e)"
      "s' = s\<lparr>db_executions := row_replace Exec_key (TaskExecutionUpdate_patch u e) (db_executions s)\<rparr>"
    using update_patched_exec [OF assms(2)] by blast
  have d: "distinct (map Exec_key (db_executions s))" using assms(1) by (simp add: schema_ok_def)
  have ids: "map Exec_TaskExecutionID (row_replace Exec_key (TaskExecutionUpdate_patch u e) (db_executions s)) =
      map Exec_TaskExecutionID (db_executions s)"
    by (rule map_row_replace_eq [OF e(1) d]) simp
  have keys: "Exec_key ` set (row_replace Exec_key (TaskExecutionUpdate_patch u e) (db_executions s)) =
      Exec_key ` set (db_executions s)"
    by (rule image_row_replace_eq [OF e(1) d]) simp
  have "Exec_TaskID e \<in> Task_TaskID ` set (db_tasks s)"
    using assms(1) e(1) by (auto simp: schema_ok_def dest: row_find_SomeD)
  then have "\<forall>x \<in> set (row_replace Exec_key (TaskExecutionUpdate_patch u e) (db_executions s)).
      Exec_TaskID x \<in> Task_TaskID ` set (db_tasks s)"
    using assms(1) by (auto simp: schema_ok_def dest!: set_row_replace)
  then show ?thesis
    using assms(1) e(2,3) ids keys by (simp add: schema_ok_def list_all_row_replace)
qed

lemmas schema_update = schema_update_task schema_update_run schema_update_exec

lemma schema_statement: "statement s s' \<Longrightarrow> schema_ok s \<Longrightarrow> schema_ok s'"
proof (induction rule: statement.induct)
  case (update_task tu s b s')
  then show ?case using schema_update(1) [of s tu s'] update_False(1) [of tu s s'] by (cases b) auto
next
  case (update_run ru s b s')
  then show ?case using schema_update(2) [of s ru s'] update_False(2) [of ru s s'] by (cases b) auto
next
  case (update_execution eu s b s')
  then show ?case using schema_update(3) [of s eu s'] update_False(3) [of eu s s'] by (cases b) auto
next
  case (other_module s x)
  then show ?case by (simp add: schema_ok_def)
qed (auto intro: schema_insert schema_log)

lemma schema_statements: "statement\<^sup>*\<^sup>* s s' \<Longrightarrow> schema_ok s \<Longrightarrow> schema_ok s'"
  by (induction rule: rtranclp_induct) (auto intro: schema_statement)

subsection \<open>What no statement forgets\<close>

definition Task_identity :: "Task \<Rightarrow> TaskID \<times> AgentID \<times> string \<times> string \<times> RunID \<times> time \<times> time" where
  "Task_identity t = (Task_TaskID t, Task_AgentID t, Task_CreatedBy t, Task_Input t, Task_CurrentRunID t,
     Task_DeadlineAt t, Task_CreatedAt t)"

definition Exec_identity :: "TaskExecution \<Rightarrow> TaskExecutionID \<times> ExecutionConfigHash \<times> time" where
  "Exec_identity e = (Exec_TaskExecutionID e, Exec_ExecutionConfigHash e, Exec_CreatedAt e)"

definition history_kept :: "'x db \<Rightarrow> 'x db \<Rightarrow> bool" where
  "history_kept s s' \<longleftrightarrow>
     (\<exists>rs. db_receipts s' = db_receipts s @ rs) \<and> (\<exists>ls. db_logs s' = db_logs s @ ls) \<and>
     (\<forall>k t. task_row k s = Some t \<longrightarrow> (\<exists>t'. task_row k s' = Some t' \<and> Task_identity t' = Task_identity t)) \<and>
     (\<forall>k r. run_row k s = Some r \<longrightarrow> (\<exists>r'. run_row k s' = Some r' \<and> Run_RunID r' = Run_RunID r)) \<and>
     (\<forall>k v e. exec_row (k, v) s = Some e \<longrightarrow>
        (\<exists>e'. exec_row (k, v) s' = Some e' \<and> Exec_identity e' = Exec_identity e \<and>
           (Exec_ObservedConfigHash e \<noteq> None \<longrightarrow> Exec_ObservedConfigHash e' = Exec_ObservedConfigHash e)))"

lemma history_kept_refl [simp]: "history_kept s s"
  by (simp add: history_kept_def)

lemma history_kept_trans: "history_kept s s' \<Longrightarrow> history_kept s' s'' \<Longrightarrow> history_kept s s''"
  unfolding history_kept_def by (intro conjI; fastforce)

lemma patch_identity [simp]:
  "Task_identity (TaskUpdate_patch u t) = Task_identity t"
  "Exec_identity (TaskExecutionUpdate_patch w e) = Exec_identity e"
  "Exec_ObservedConfigHash e \<noteq> None \<Longrightarrow>
     Exec_ObservedConfigHash (TaskExecutionUpdate_patch w e) = Exec_ObservedConfigHash e"
  by (auto simp: Task_identity_def Exec_identity_def TaskUpdate_patch_def TaskExecutionUpdate_patch_def
      split: option.splits)

lemma history_inserts:
  "TaskRepository_Insert t s = Inr s1 \<Longrightarrow> history_kept s s1"
  "RunRepository_Insert r s = Inr s2 \<Longrightarrow> history_kept s s2"
  "TaskExecutionRepository_Insert e s = Inr s3 \<Longrightarrow> history_kept s s3"
  "CommandReceiptRepository_Insert c s = Inr s4 \<Longrightarrow> history_kept s s4"
  "TaskLogRepository_Append l s = Inr s5 \<Longrightarrow> history_kept s s5"
  by (auto simp: history_kept_def task_insert_iff run_insert_iff exec_insert_iff receipt_insert_iff
      TaskLogRepository_Append_def row_appends split: if_splits)

lemma history_task_update: "TaskRepository_Update u s = Inr (True, s') \<Longrightarrow> history_kept s s'"
  by (frule task_update_rows, frule update_frames) (auto simp: history_kept_def run_row_def exec_row_def)

lemma history_run_update: "RunRepository_Update u s = Inr (True, s') \<Longrightarrow> history_kept s s'"
  by (frule run_update_rows, frule update_frames) (auto simp: history_kept_def task_row_def exec_row_def)

lemma history_exec_update: "TaskExecutionRepository_Update u s = Inr (True, s') \<Longrightarrow> history_kept s s'"
  by (frule exec_update_rows, frule update_frames) (auto simp: history_kept_def task_row_def run_row_def)

lemma history_statement: "statement s s' \<Longrightarrow> history_kept s s'"
proof (induction rule: statement.induct)
  case (update_task tu s b s')
  then show ?case using update_False(1) [of tu s s'] by (cases b) (auto intro: history_task_update)
next
  case (update_run ru s b s')
  then show ?case using update_False(2) [of ru s s'] by (cases b) (auto intro: history_run_update)
next
  case (update_execution eu s b s')
  then show ?case using update_False(3) [of eu s s'] by (cases b) (auto intro: history_exec_update)
next
  case (other_module s x)
  then show ?case by (simp add: history_kept_def)
qed (auto intro: history_inserts)

lemma history_statements: "statement\<^sup>*\<^sup>* s s' \<Longrightarrow> history_kept s s'"
  by (induction rule: rtranclp_induct) (auto intro: history_statement history_kept_trans)

text \<open>A transaction made of statements commits a state they lead to, or changes nothing.\<close>

lemma Execute_cases:
  assumes "Execute fault work s = (r, s')"
  obtains (rolled_back) e where "r = Inl e" and "s' = s"
    | (committed) a where "r = Inr a" and "work s = Inr (a, s')" and "deferred_ok s'" and "fault = None"
  using assms by (auto simp: Execute_def split: option.splits sum.splits prod.splits if_splits)

lemma Execute_error_unchanged: "Execute fault work s = (Inl e, s') \<Longrightarrow> s' = s"
  by (auto elim: Execute_cases)

lemma Execute_ok_iff:
  "Execute fault work s = (Inr a, s') \<longleftrightarrow> fault = None \<and> work s = Inr (a, s') \<and> deferred_ok s'"
  by (auto simp: Execute_def split: option.splits sum.splits prod.splits if_splits)

lemma Execute_statements:
  "Execute fault work s = (r, s') \<Longrightarrow> (\<And>a t. work s = Inr (a, t) \<Longrightarrow> statement\<^sup>*\<^sup>* s t) \<Longrightarrow> statement\<^sup>*\<^sup>* s s'"
  by (erule Execute_cases) auto

subsection \<open>Properties\<close>

text \<open>
  C1: Whatever statements the adapter executes, in any order and number, the schema's CHECK, UNIQUE
  and row-level FOREIGN KEY constraints still hold, receipts and logs have only grown at the end, no
  Task, Run or TaskExecution has disappeared, their identity (owner, input, deadline, run, config
  hash, creation time) is what it was, and an observed config hash that was recorded once is kept.
\<close>

theorem statements_keep_schema_and_history:
  assumes "statement\<^sup>*\<^sup>* s s'" and "schema_ok s"
  shows "schema_ok s' \<and> history_kept s s'"
  using assms schema_statements history_statements by blast

definition claim_update :: TaskUpdate where
  "claim_update = \<lparr>TU_TaskID = ''t1'', TU_ExpectedStatus = TaskStatusPending,
     TU_ExpectedCurrentExecutionVersion = 1, TU_Status = TaskStatusRunning, TU_CurrentExecutionVersion = 1,
     TU_ResultSummary = None, TU_ErrorCode = None, TU_QueuedAt = None, TU_StartedAt = Some 1500,
     TU_EndedAt = None\<rparr>"

lemma queued_db_schema: "schema_ok queued_db"
  by (simp add: schema_ok_def sample_defs Task_check_def Run_check_def TaskExecution_check_def
      TaskExecution_check_def valid_simps is_object_def error_code_column_def)

theorem statements_keep_schema_and_history_witness:
  "\<exists>s' :: unit db. TaskRepository_Update claim_update queued_db = Inr (True, s') \<and>
     schema_ok s' \<and> history_kept queued_db s' \<and>
     (\<exists>t. task_row ''t1'' s' = Some t \<and> Task_Status t = TaskStatusRunning)"
proof -
  obtain s' where s': "TaskRepository_Update claim_update queued_db = Inr (True, s')"
    by (simp add: TaskRepository_Update_def claim_update_def queued_db_def TaskUpdate_hits_def sample_task_def
        TaskUpdate_patch_def Task_check_def valid_simps error_code_column_def)
  have "schema_ok s' \<and> history_kept queued_db s'"
    by (rule statements_keep_schema_and_history [OF _ queued_db_schema])
      (rule r_into_rtranclp, rule update_task [OF s'])
  moreover have "\<exists>t. task_row ''t1'' s' = Some t \<and> Task_Status t = TaskStatusRunning"
    using task_update_rows [OF s'] by (auto simp: claim_update_def TaskUpdate_patch_def)
  ultimately show ?thesis using s' by blast
qed

text \<open>
  C2: The queue is first in, first out. The candidate the claim locks is the head of the queue: a
  queued task whose current execution exists, and no other such task has an earlier queue time, or
  the same one and an earlier creation time, or both the same and a smaller identifier. The claim
  sees no work exactly when there is no such task. The only other answer is the invariant violation, exactly when the
  head has an execution version that is not valid, which the constraints of the task table rule out.
\<close>

lemma queue_candidates_set:
  "c \<in> set (queue_candidates s) \<longleftrightarrow> (\<exists>t \<in> set (db_tasks s). candidate_of s t = Some c)"
  unfolding queue_candidates_def List.map_filter_def by (force simp: image_iff)

theorem queue_is_fifo:
  "(TaskRepository_LockNextQueueCandidate s = Inl ErrRepositoryNotFound \<longleftrightarrow>
      (\<forall>t \<in> set (db_tasks s). candidate_of s t = None)) \<and>
   (list_all Task_check (db_tasks s) \<longrightarrow>
      TaskRepository_LockNextQueueCandidate s \<noteq> Inl ErrPersistenceInvariantViolation) \<and>
   (TaskRepository_LockNextQueueCandidate s \<noteq> Inl ErrRepositoryNotFound \<longrightarrow>
      (\<exists>t \<in> set (db_tasks s). \<exists>c. candidate_of s t = Some c \<and>
        (\<forall>t' \<in> set (db_tasks s). \<forall>d. candidate_of s t' = Some d \<longrightarrow> candidate_key c \<le> candidate_key d) \<and>
        TaskRepository_LockNextQueueCandidate s =
          (if 0 < QC_ExecutionVersion c then Inr c else Inl ErrPersistenceInvariantViolation)))"
proof (cases "queue_candidates s = []")
  case True
  then have "\<forall>t \<in> set (db_tasks s). candidate_of s t = None"
    using queue_candidates_set [of _ s] by (metis empty_iff list.set(1) not_None_eq)
  with True show ?thesis by (simp add: TaskRepository_LockNextQueueCandidate_def)
next
  case False
  define c where "c = arg_min_list candidate_key (queue_candidates s)"
  have "c \<in> set (queue_candidates s)"
    using False unfolding c_def by (rule arg_min_list_in)
  then obtain t where t: "t \<in> set (db_tasks s)" "candidate_of s t = Some c"
    using queue_candidates_set [of c s] by blast
  have "candidate_key c = Min (candidate_key ` set (queue_candidates s))"
    using False unfolding c_def by (rule f_arg_min_list_f)
  then have first: "\<forall>d \<in> set (queue_candidates s). candidate_key c \<le> candidate_key d" by simp
  have lock: "TaskRepository_LockNextQueueCandidate s =
      (if 0 < QC_ExecutionVersion c then Inr c else Inl ErrPersistenceInvariantViolation)"
    using False by (simp add: TaskRepository_LockNextQueueCandidate_def Let_def c_def ExecutionVersion_Valid_def)
  have "QC_ExecutionVersion c = Task_CurrentExecutionVersion t"
    using t(2) by (auto simp: candidate_of_def split: option.splits)
  then have valid: "list_all Task_check (db_tasks s) \<Longrightarrow> 0 < QC_ExecutionVersion c"
    using t(1) by (auto simp: list_all_iff Task_check_def)
  have "\<forall>t' \<in> set (db_tasks s). \<forall>d. candidate_of s t' = Some d \<longrightarrow> candidate_key c \<le> candidate_key d"
    using first queue_candidates_set [of _ s] by blast
  with t lock valid show ?thesis by auto
qed

text \<open>A second task that was queued earlier than \<open>t1\<close>.\<close>

definition two_queued_db :: "unit db" where
  "two_queued_db = queued_db
     \<lparr>db_tasks := [sample_task TaskStatusPending (Some 1000),
        (sample_task TaskStatusPending (Some 900))\<lparr>Task_TaskID := ''t2'', Task_CurrentRunID := ''r2''\<rparr>],
      db_executions := [sample_execution TaskExecutionStatusQueued None,
        (sample_execution TaskExecutionStatusQueued None)\<lparr>Exec_TaskID := ''t2''\<rparr>]\<rparr>"

lemma candidate_key_le [simp]:
  "candidate_key c \<le> candidate_key d \<longleftrightarrow>
     QC_QueuedAt c < QC_QueuedAt d \<or> QC_QueuedAt c = QC_QueuedAt d \<and>
       (QC_CreatedAt c < QC_CreatedAt d \<or> QC_CreatedAt c = QC_CreatedAt d \<and> QC_TaskID c \<le> QC_TaskID d)"
  by (simp add: candidate_key_def less_eq_QueueKey_def)

theorem queue_is_fifo_witness:
  "\<exists>c. TaskRepository_LockNextQueueCandidate two_queued_db = Inr c \<and> QC_TaskID c = ''t2'' \<and>
     QC_QueuedAt c \<le> 900"
proof -
  obtain c where c: "TaskRepository_LockNextQueueCandidate two_queued_db = Inr c"
      "QC_TaskID c = ''t2''"
    by (simp add: TaskRepository_LockNextQueueCandidate_def queue_candidates_def List.map_filter_def
        two_queued_db_def sample_defs candidate_of_def exec_row_def row_find_Cons Exec_key_def
        Let_def)
  have "\<forall>t \<in> set (db_tasks two_queued_db). \<forall>d. candidate_of two_queued_db t = Some d \<longrightarrow> candidate_key c \<le> candidate_key d"
    using queue_is_fifo [of two_queued_db] c(1) by (auto split: if_splits)
  then have "QC_QueuedAt c \<le> 900"
    by (auto simp: two_queued_db_def sample_defs candidate_of_def exec_row_def row_find_Cons Exec_key_def)
  with c show ?thesis by blast
qed

text \<open>
  C11: The error codes the three tables accept are the closed set of the contract without
  \<open>ModelInputTooLarge\<close>, so a Task, Run or TaskExecution can never be stored with that code: every
  update that carries it is rejected by the database or misses, although the Step Executor
  returns the code for an oversized prompt.
\<close>

lemma all_error_codes: "c \<in> set sharedErrorCodeCheck \<longleftrightarrow> ErrorCode_Valid c \<and> c \<noteq> ErrorCodeModelInputTooLarge"
  by (cases c) (simp_all add: sharedErrorCodeCheck_def)

theorem model_input_too_large_cannot_be_stored:
  "set sharedErrorCodeCheck = {c. ErrorCode_Valid c} - {ErrorCodeModelInputTooLarge} \<and>
   ErrorCode_Valid ErrorCodeModelInputTooLarge \<and>
   TaskRepository_Update (u\<lparr>TU_ErrorCode := Some ErrorCodeModelInputTooLarge\<rparr>) s \<noteq> Inr (True, s') \<and>
   RunRepository_Update (v\<lparr>RU_ErrorCode := Some ErrorCodeModelInputTooLarge\<rparr>) s \<noteq> Inr (True, s') \<and>
   TaskExecutionRepository_Update (w\<lparr>EU_ErrorCode := Some ErrorCodeModelInputTooLarge\<rparr>) s \<noteq> Inr (True, s')"
proof -
  have "\<not> Task_check (TaskUpdate_patch (u\<lparr>TU_ErrorCode := Some ErrorCodeModelInputTooLarge\<rparr>) t)"
    "\<not> Run_check (RunUpdate_patch (v\<lparr>RU_ErrorCode := Some ErrorCodeModelInputTooLarge\<rparr>) r)"
    "\<not> TaskExecution_check (TaskExecutionUpdate_patch (w\<lparr>EU_ErrorCode := Some ErrorCodeModelInputTooLarge\<rparr>) e)"
    for t r e
    by (simp_all add: Task_check_def Run_check_def TaskExecution_check_def TaskUpdate_patch_def
        RunUpdate_patch_def TaskExecutionUpdate_patch_def error_code_column_def all_error_codes)
  then show ?thesis
    by (auto simp: all_error_codes task_update_True_iff run_update_True_iff exec_update_True_iff)
qed

end
