(* ===== verification/Ports.thy ===== *)
theory Ports
  imports History "HOL-Library.Word"
begin

section \<open>Outbound ports of the Task Runtime\<close>

text \<open>
  The messages of \<open>internal/taskruntime/checkpoint_port.go\<close>, \<open>termination_port.go\<close>,
  \<open>recover_port.go\<close> and \<open>internal/contracts/report.go\<close>, the recovery repository of the PostgreSQL
  adapter, and the record \<open>Ports\<close> of the interfaces the services are given. A port reads the
  database of the transaction it is called in and changes only what other modules keep there
  (\<open>db_other\<close>); its error aborts the transaction. \<open>Call\<close> holds what one call takes from the outside:
  clock readings, fresh identifiers, an infrastructure failure, and how its log write goes.
\<close>

subsection \<open>Execution versions\<close>

text \<open>The next execution version, an \<open>int64\<close>: the addition wraps.\<close>

definition next_version :: "ExecutionVersion \<Rightarrow> ExecutionVersion" where
  "next_version v = sint (word_of_int (v + 1) :: 64 word)"

text \<open>The version after a valid one: one more, or invalid because the addition wrapped.\<close>

lemma next_version_mod [code]: "next_version v = (v + 1 + 2 ^ 63) mod 2 ^ 64 - 2 ^ 63"
  by (simp add: next_version_def signed_of_int signed_take_bit_eq_take_bit_shift take_bit_eq_mod del: of_int_add)

lemma next_version_below: "0 < v \<Longrightarrow> v < 2 ^ 63 - 1 \<Longrightarrow> next_version v = v + 1"
  by (simp add: next_version_mod)

lemma next_version_max: "next_version (2 ^ 63 - 1) = - (2 ^ 63)"
  by (simp add: next_version_mod)

lemma next_version_valid:
  assumes "0 < v" and "v < 2 ^ 63" and "ExecutionVersion_Valid (next_version v)"
  shows "next_version v = v + 1" "v + 1 < 2 ^ 63"
proof -
  have "v \<noteq> 2 ^ 63 - 1" using assms(3) next_version_max by (auto simp: ExecutionVersion_Valid_def)
  then show "next_version v = v + 1" "v + 1 < 2 ^ 63" using assms(1,2) next_version_below by simp_all
qed

subsection \<open>Checkpoints\<close>

datatype ReferencePathSegmentKind =
    ReferencePathSegmentKey
  | ReferencePathSegmentIndex
  | ReferencePathSegmentOther string

record ReferencePathSegment =
  Seg_Kind :: ReferencePathSegmentKind
  Seg_Key :: "string option"
  Seg_Index :: "64 word option"

record ResolvedReference =
  Ref_TargetPath :: "ReferencePathSegment list"
  Ref_SourceStepID :: StepID
  Ref_SourceOutputField :: string

record ApprovalContext =
  APX_ApprovalID :: string
  APX_ApprovalExecutionVersion :: ExecutionVersion
  APX_ToolName :: ToolName
  APX_FrozenToolInput :: RawMessage
  APX_ObservedValues :: RawMessage
  APX_ResourceVersion :: string
  APX_FrozenInputHash :: string

datatype ClaimCheckpointSource =
    ClaimCheckpointSourceInitial
  | ClaimCheckpointSourceContinuation

record SaveRuntimeCheckpointRequest =
  Save_TaskID :: TaskID
  Save_RunID :: RunID
  Save_ExecutionVersion :: ExecutionVersion
  Save_ExecutionConfigHash :: ExecutionConfigHash

record RuntimeCheckpoint =
  RC_CheckpointID :: CheckpointID
  RC_TaskID :: TaskID
  RC_RunID :: RunID
  RC_ExecutionVersion :: ExecutionVersion
  RC_ExecutionConfigHash :: ExecutionConfigHash
  RC_NextAction :: CheckpointNextAction
  RC_CheckpointSequence :: int
  RC_ResolvedReferences :: "ResolvedReference list"
  RC_ApprovalContext :: "ApprovalContext option"
  RC_SourceExecutionVersion :: "ExecutionVersion option"
  RC_SourceCheckpointID :: "CheckpointID option"

datatype StartupCleanupCheckpointResult =
    StartupCleanupCheckpointValid RuntimeCheckpoint
  | StartupCleanupCheckpointInvalid ReasonCode

datatype ClaimCheckpointResult =
    ClaimCheckpointValid RuntimeCheckpoint
  | ClaimCheckpointInvalid ReasonCode

datatype ExecutionCheckpointResult =
    ExecutionCheckpointValid RuntimeCheckpoint
  | ExecutionCheckpointInvalid ReasonCode

datatype RecoverySourcePhase =
    RecoverySourceBeforeFirstExecution
  | RecoverySourceStartedExecution

text \<open>The capability a valid recovery source carries is opaque to the runtime: a string here.\<close>

datatype RecoveryCheckpointResult =
    RecoveryCheckpointValid
      (RV_CheckpointID: CheckpointID) (RV_ExecutionConfigHash: ExecutionConfigHash)
      (RV_NextAction: CheckpointNextAction) (RV_Source: "string option")
  | RecoveryCheckpointInvalid ReasonCode
  | RecoveryCheckpointInvariantViolation CauseCode

record ValidateRecoveryCheckpointRequest =
  VR_TaskID :: TaskID
  VR_RunID :: RunID
  VR_SourceExecutionVersion :: ExecutionVersion
  VR_Phase :: RecoverySourcePhase

record CreateRecoveryStartRequest =
  RS_TaskID :: TaskID
  RS_RunID :: RunID
  RS_NewExecutionVersion :: ExecutionVersion
  RS_ExecutionConfigHash :: ExecutionConfigHash
  RS_ValidatedSource :: "string option"

subsection \<open>Reports and terminations\<close>

record EnsurePendingReportRequest =
  EPR_TaskID :: TaskID
  EPR_RunID :: RunID
  EPR_CreatedAt :: time

datatype EnsurePendingReportResult =
    EnsurePendingReportCreated
  | EnsurePendingReportExisting
  | EnsurePendingReportUnknown

record TerminationStep =
  TS_StepID :: StepID
  TS_Status :: StepStatus
  TS_ErrorCode :: "ErrorCode option"
  TS_EndedAt :: "time option"

record TerminationToolExecution =
  TT_ToolExecutionID :: string
  TT_ToolName :: ToolName
  TT_Status :: ToolExecutionStatus
  TT_ErrorCode :: "ErrorCode option"
  TT_SideEffectUnknown :: bool
  TT_EndedAt :: "time option"

record TerminationFacts =
  Facts_Task :: Task
  Facts_Run :: Run
  Facts_Execution :: TaskExecution
  Facts_Step :: "TerminationStep option"
  Facts_ToolExecution :: "TerminationToolExecution option"

record ApplyTerminationRequest =
  AT_TaskID :: TaskID
  AT_ExpectedExecutionVersion :: ExecutionVersion
  AT_ExpectedTaskStatus :: TaskStatus
  AT_ExpectedRunStatus :: RunStatus
  AT_ExpectedExecutionStatus :: TaskExecutionStatus
  AT_ExpectedStepStatus :: "StepStatus option"
  AT_ExpectedToolStatus :: "ToolExecutionStatus option"
  AT_TaskStatus :: TaskStatus
  AT_TaskErrorCode :: ErrorCode
  AT_RunErrorCode :: ErrorCode
  AT_StepErrorCode :: ErrorCode
  AT_ExecutionErrorCode :: "ErrorCode option"
  AT_TerminationReason :: TerminationReason
  AT_ToolStatus :: "ToolExecutionStatus option"
  AT_ToolErrorCode :: "ErrorCode option"
  AT_ToolSideEffectUnknown :: bool
  AT_EndedAt :: time
  AT_PreserveExecutionEndedAt :: bool

record ApplyRecoveryFailureRequest =
  ARF_TaskID :: TaskID
  ARF_ExpectedExecutionVersion :: ExecutionVersion
  ARF_ExpectedTaskStatus :: TaskStatus
  ARF_ExpectedRunStatus :: RunStatus
  ARF_ExpectedExecutionStatus :: TaskExecutionStatus
  ARF_ErrorCode :: ErrorCode
  ARF_TerminationReason :: "TerminationReason option"
  ARF_EndedAt :: time

subsection \<open>The ports\<close>

record 'x Ports =
  LookupAgent :: "AgentID \<Rightarrow> AgentRuntimeConfig option"
  HashExecutionConfigV1 :: "ExecutionConfigV1 \<Rightarrow> GoError + ExecutionConfigHash"
  json_digest :: "json \<Rightarrow> string"
  SaveInitializationCheckpoint :: "SaveRuntimeCheckpointRequest \<Rightarrow> 'x db \<Rightarrow> GoError + 'x"
  SaveGeneratePlanExecutionCheckpoint :: "SaveRuntimeCheckpointRequest \<Rightarrow> 'x db \<Rightarrow> GoError + 'x"
  LoadLatestForClaim ::
    "TaskID \<Rightarrow> RunID \<Rightarrow> ExecutionVersion \<Rightarrow> ClaimCheckpointSource \<Rightarrow> 'x db \<Rightarrow> GoError + ClaimCheckpointResult"
  LoadLatestForExecutionDispatch ::
    "TaskID \<Rightarrow> RunID \<Rightarrow> ExecutionVersion \<Rightarrow> 'x db \<Rightarrow> GoError + ExecutionCheckpointResult"
  LoadLatestForStartupCleanup ::
    "TaskID \<Rightarrow> RunID \<Rightarrow> ExecutionVersion \<Rightarrow> 'x db \<Rightarrow> GoError + StartupCleanupCheckpointResult"
  ValidateRecoverySource ::
    "ValidateRecoveryCheckpointRequest \<Rightarrow> 'x db \<Rightarrow> GoError + RecoveryCheckpointResult"
  CreateRecoveryStart :: "CreateRecoveryStartRequest \<Rightarrow> 'x db \<Rightarrow> GoError + CheckpointID \<times> 'x"
  EnsurePending :: "EnsurePendingReportRequest \<Rightarrow> 'x db \<Rightarrow> GoError + EnsurePendingReportResult \<times> 'x"

record LogOutcome =
  LO_acquired :: bool
  LO_logID :: "GoError + TaskLogID"
  LO_fault :: "string option"
  LO_now :: time

record Call =
  call_fault :: "string option"
  call_now :: time
  call_receipt_now :: time
  call_newID :: "string \<Rightarrow> GoError + string"
  call_log :: LogOutcome

text \<open>Running a port that writes: its new state of the other modules replaces the old one.\<close>

definition save_port :: "(GoError + 'x) \<Rightarrow> 'x db \<Rightarrow> GoError + 'x db" where
  "save_port outcome s = attempt outcome (\<lambda>x. Inr (s\<lparr>db_other := x\<rparr>))"

lemma save_port_iff [simp]:
  "save_port outcome s = Inr s' \<longleftrightarrow> (\<exists>x. outcome = Inr x \<and> s' = s\<lparr>db_other := x\<rparr>)"
  by (auto simp: save_port_def)

text \<open>
  \<open>ensurePendingReport\<close> of \<open>claim.go\<close>, which Cancel, Recover and StartupCleanup repeat with their
  own error texts.
\<close>

definition ensurePendingReport ::
    "'x Ports \<Rightarrow> TaskID \<Rightarrow> RunID \<Rightarrow> time \<Rightarrow> 'x db \<Rightarrow> GoError + 'x db" where
  "ensurePendingReport ports taskID runID now s =
    attempt (EnsurePending ports \<lparr>EPR_TaskID = taskID, EPR_RunID = runID, EPR_CreatedAt = now\<rparr> s)
      (\<lambda>(result, x).
        case result of
          EnsurePendingReportCreated \<Rightarrow> Inr (s\<lparr>db_other := x\<rparr>)
        | EnsurePendingReportExisting \<Rightarrow> Inr (s\<lparr>db_other := x\<rparr>)
        | EnsurePendingReportUnknown \<Rightarrow> Inl ErrPersistenceInvariantViolation)"

lemma ensurePendingReport_frame:
  "ensurePendingReport ports k r now s = Inr s' \<Longrightarrow> \<exists>x. s' = s\<lparr>db_other := x\<rparr>"
  by (auto simp: ensurePendingReport_def split: EnsurePendingReportResult.splits)
    (metis EnsurePendingReportResult.exhaust)

subsection \<open>The recovery repository\<close>

text \<open>
  \<open>RecoveryRepository\<close> of the PostgreSQL adapter: it locks the three objects, and closes a scene
  without step or tool in one statement guarded by the expected statuses.
\<close>

definition LockRecoveryFacts :: "TaskID \<Rightarrow> 'x db \<Rightarrow> GoError + TerminationFacts" where
  "LockRecoveryFacts k s =
    attempt (scanTask (task_row k s)) (\<lambda>task.
    attempt (RunRepository_LockByTask k s) (\<lambda>run.
    attempt (scanTaskExecution (exec_row (k, Task_CurrentExecutionVersion task) s)) (\<lambda>execution.
      Inr \<lparr>Facts_Task = task, Facts_Run = run, Facts_Execution = execution, Facts_Step = None,
           Facts_ToolExecution = None\<rparr>)))"

definition recovery_failure_hits :: "ApplyRecoveryFailureRequest \<Rightarrow> 'x db \<Rightarrow> (Task \<times> Run \<times> TaskExecution) option" where
  "recovery_failure_hits q s =
    (case task_row (ARF_TaskID q) s of
       None \<Rightarrow> None
     | Some t \<Rightarrow>
         (case run_row (ARF_TaskID q) s of
            None \<Rightarrow> None
          | Some r \<Rightarrow>
              (case exec_row (ARF_TaskID q, Task_CurrentExecutionVersion t) s of
                 None \<Rightarrow> None
               | Some e \<Rightarrow>
                   if Run_RunID r = Task_CurrentRunID t
                      \<and> Task_CurrentExecutionVersion t = ARF_ExpectedExecutionVersion q
                      \<and> Task_Status t = ARF_ExpectedTaskStatus q \<and> Run_Status r = ARF_ExpectedRunStatus q
                      \<and> Exec_Status e = ARF_ExpectedExecutionStatus q
                      \<and> TaskStatus_Valid (Task_Status t) \<and> \<not> TaskStatus_Terminal (Task_Status t)
                      \<and> RunStatus_Valid (Run_Status r) \<and> \<not> RunStatus_Terminal (Run_Status r)
                      \<and> Exec_Status e \<in> {TaskExecutionStatusQueued, TaskExecutionStatusRunning,
                           TaskExecutionStatusWaitingApproval, TaskExecutionStatusInterrupted}
                   then Some (t, r, e) else None)))"

definition recovery_failed_task :: "ApplyRecoveryFailureRequest \<Rightarrow> Task \<Rightarrow> Task" where
  "recovery_failed_task q t = t\<lparr>Task_Status := TaskStatusFailed, Task_ErrorCode := Some (ARF_ErrorCode q),
     Task_QueuedAt := None, Task_EndedAt := Some (ARF_EndedAt q)\<rparr>"

definition recovery_failed_run :: "ApplyRecoveryFailureRequest \<Rightarrow> Run \<Rightarrow> Run" where
  "recovery_failed_run q r = r\<lparr>Run_Status := RunStatusFailed, Run_ErrorCode := Some (ARF_ErrorCode q),
     Run_EndedAt := Some (ARF_EndedAt q)\<rparr>"

definition recovery_failed_execution :: "ApplyRecoveryFailureRequest \<Rightarrow> TaskExecution \<Rightarrow> TaskExecution" where
  "recovery_failed_execution q e = e\<lparr>Exec_Status := TaskExecutionStatusFailed,
     Exec_ErrorCode := (if Exec_ErrorCode e = Some ErrorCodeConfigVersionMismatch
       then Exec_ErrorCode e else Some (ARF_ErrorCode q)),
     Exec_TerminationReason := ARF_TerminationReason q,
     Exec_EndedAt := (case Exec_EndedAt e of None \<Rightarrow> Some (ARF_EndedAt q) | Some t \<Rightarrow> Some t)\<rparr>"

definition ApplyRecoveryFailure :: "ApplyRecoveryFailureRequest \<Rightarrow> 'x db \<Rightarrow> GoError + bool \<times> 'x db" where
  "ApplyRecoveryFailure q s =
    (case recovery_failure_hits q s of
       None \<Rightarrow> Inr (False, s)
     | Some (t, r, e) \<Rightarrow>
         if \<not> Task_check (recovery_failed_task q t) then Inl (ErrConstraint ''task'')
         else if \<not> Run_check (recovery_failed_run q r) then Inl (ErrConstraint ''run'')
         else if \<not> TaskExecution_check (recovery_failed_execution q e) then Inl (ErrConstraint ''task_execution'')
         else Inr (True, s\<lparr>db_tasks := row_replace Task_TaskID (recovery_failed_task q t) (db_tasks s),
                db_runs := row_replace Run_TaskID (recovery_failed_run q r) (db_runs s),
                db_executions := row_replace Exec_key (recovery_failed_execution q e) (db_executions s)\<rparr>))"

lemma ApplyRecoveryFailure_rows:
  assumes "ApplyRecoveryFailure q s = Inr (True, s')"
  obtains t r e where "recovery_failure_hits q s = Some (t, r, e)"
    "\<And>k. task_row k s' = (if k = ARF_TaskID q then Some (recovery_failed_task q t) else task_row k s)"
    "\<And>k. run_row k s' = (if k = ARF_TaskID q then Some (recovery_failed_run q r) else run_row k s)"
    "\<And>p. exec_row p s' = (if p = (ARF_TaskID q, Task_CurrentExecutionVersion t)
        then Some (recovery_failed_execution q e) else exec_row p s)"
proof -
  obtain t r e where h: "recovery_failure_hits q s = Some (t, r, e)"
    and s': "s' = s\<lparr>db_tasks := row_replace Task_TaskID (recovery_failed_task q t) (db_tasks s),
                db_runs := row_replace Run_TaskID (recovery_failed_run q r) (db_runs s),
                db_executions := row_replace Exec_key (recovery_failed_execution q e) (db_executions s)\<rparr>"
    using assms by (auto simp: ApplyRecoveryFailure_def split: option.splits if_splits)
  from h have rows: "task_row (ARF_TaskID q) s = Some t" "run_row (ARF_TaskID q) s = Some r"
      "exec_row (ARF_TaskID q, Task_CurrentExecutionVersion t) s = Some e"
    by (auto simp: recovery_failure_hits_def split: option.splits if_splits)
  note keys = row_keys(1) [OF rows(1)] row_keys(2) [OF rows(2)] row_keys(3) [OF rows(3)]
  have k: "Task_TaskID (recovery_failed_task q t) = ARF_TaskID q"
    "Run_TaskID (recovery_failed_run q r) = ARF_TaskID q"
    "Exec_key (recovery_failed_execution q e) = (ARF_TaskID q, Task_CurrentExecutionVersion t)"
    using keys by (simp_all add: recovery_failed_task_def recovery_failed_run_def recovery_failed_execution_def
        Exec_key_def)
  show ?thesis
  proof (rule that [OF h])
    fix p x
    show "task_row x s' = (if x = ARF_TaskID q then Some (recovery_failed_task q t) else task_row x s)"
      using task_row_replace [of "recovery_failed_task q t" s] k rows by (simp add: s' task_row_def)
    show "run_row x s' = (if x = ARF_TaskID q then Some (recovery_failed_run q r) else run_row x s)"
      using run_row_replace [of "recovery_failed_run q r" s] k rows by (simp add: s' run_row_def)
    show "exec_row p s' = (if p = (ARF_TaskID q, Task_CurrentExecutionVersion t)
        then Some (recovery_failed_execution q e) else exec_row p s)"
      using exec_row_replace [of "recovery_failed_execution q e" s] k rows by (simp add: s' exec_row_def)
  qed
qed

text \<open>The statement does what three guarded updates in a row would do.\<close>

lemma ApplyRecoveryFailure_statements:
  assumes "ApplyRecoveryFailure q s = Inr (b, s')"
  shows "statement\<^sup>*\<^sup>* s s'"
proof (cases b)
  case False
  with assms have "s' = s" by (auto simp: ApplyRecoveryFailure_def split: option.splits if_splits)
  then show ?thesis by simp
next
  case True
  let ?T = "recovery_failed_task q" and ?R = "recovery_failed_run q" and ?E = "recovery_failed_execution q"
  obtain t r e where h: "recovery_failure_hits q s = Some (t, r, e)"
    and checks: "Task_check (?T t)" "Run_check (?R r)" "TaskExecution_check (?E e)"
    and s': "s' = s\<lparr>db_tasks := row_replace Task_TaskID (?T t) (db_tasks s),
                db_runs := row_replace Run_TaskID (?R r) (db_runs s),
                db_executions := row_replace Exec_key (?E e) (db_executions s)\<rparr>"
    using assms True by (auto simp: ApplyRecoveryFailure_def split: option.splits if_splits)
  from h have rows: "task_row (ARF_TaskID q) s = Some t" "run_row (ARF_TaskID q) s = Some r"
      "exec_row (ARF_TaskID q, Task_CurrentExecutionVersion t) s = Some e"
      "Run_RunID r = Task_CurrentRunID t"
    by (auto simp: recovery_failure_hits_def split: option.splits if_splits)
  define tu where "tu = \<lparr>TU_TaskID = ARF_TaskID q, TU_ExpectedStatus = Task_Status t,
    TU_ExpectedCurrentExecutionVersion = Task_CurrentExecutionVersion t, TU_Status = TaskStatusFailed,
    TU_CurrentExecutionVersion = Task_CurrentExecutionVersion t, TU_ResultSummary = Task_ResultSummary t,
    TU_ErrorCode = Some (ARF_ErrorCode q), TU_QueuedAt = None, TU_StartedAt = Task_StartedAt t,
    TU_EndedAt = Some (ARF_EndedAt q)\<rparr>"
  define ru where "ru = \<lparr>RU_TaskID = ARF_TaskID q, RU_RunID = Run_RunID r,
    RU_ExecutionVersion = Task_CurrentExecutionVersion t, RU_ExpectedStatus = Run_Status r,
    RU_Status = RunStatusFailed, RU_PlanID = Run_PlanID r, RU_CurrentStepID = Run_CurrentStepID r,
    RU_Context = Run_Context r, RU_ErrorCode = Some (ARF_ErrorCode q), RU_StartedAt = Run_StartedAt r,
    RU_EndedAt = Some (ARF_EndedAt q)\<rparr>"
  define eu where "eu = \<lparr>EU_TaskID = ARF_TaskID q, EU_ExecutionVersion = Task_CurrentExecutionVersion t,
    EU_ExpectedStatus = Exec_Status e, EU_ExpectedWorkerID = Exec_WorkerID e,
    EU_Status = TaskExecutionStatusFailed, EU_WorkerID = Exec_WorkerID e, EU_ObservedConfigHash = None,
    EU_ErrorCode = Exec_ErrorCode (?E e), EU_InvariantCode = Exec_InvariantCode e,
    EU_TerminationReason = ARF_TerminationReason q, EU_StartedAt = Exec_StartedAt e,
    EU_EndedAt = Exec_EndedAt (?E e)\<rparr>"
  have patches: "TaskUpdate_patch tu t = ?T t" "RunUpdate_patch ru r = ?R r"
      "TaskExecutionUpdate_patch eu e = ?E e"
    by (simp_all add: tu_def ru_def eu_def TaskUpdate_patch_def RunUpdate_patch_def
        TaskExecutionUpdate_patch_def recovery_failed_task_def recovery_failed_run_def
        recovery_failed_execution_def split: option.splits)
  let ?s1 = "s\<lparr>db_executions := row_replace Exec_key (?E e) (db_executions s)\<rparr>"
  let ?s2 = "?s1\<lparr>db_runs := row_replace Run_TaskID (?R r) (db_runs s)\<rparr>"
  have "statement s ?s1"
    using rows checks patches(3)
    by (intro update_execution [of eu s True]) (auto simp: exec_update_True_iff TaskExecutionUpdate_hits_def
        EU_key_def eu_def)
  moreover have "statement ?s1 ?s2"
    using rows checks patches(2)
    by (intro update_run [of ru ?s1 True]) (auto simp: run_update_True_iff RunUpdate_hits_def ru_def)
  moreover have "statement ?s2 s'"
    using rows checks patches(1)
    by (intro update_task [of tu ?s2 True]) (auto simp: task_update_True_iff TaskUpdate_hits_def tu_def s')
  ultimately show ?thesis by (meson r_into_rtranclp rtranclp_trans)
qed

subsection \<open>Concrete ports\<close>

text \<open>
  Ports over other modules that keep nothing: every scene has a valid GENERATE_PLAN checkpoint and reports
  already exist. \<open>json_digest\<close> is a fixed digest, or one that tells its argument apart where a
  property needs it.
\<close>

definition sample_checkpoint :: RuntimeCheckpoint where
  "sample_checkpoint = \<lparr>RC_CheckpointID = ''c1'', RC_TaskID = ''t1'', RC_RunID = ''r1'', RC_ExecutionVersion = 1,
     RC_ExecutionConfigHash = sample_hash, RC_NextAction = CheckpointNextActionGeneratePlan,
     RC_CheckpointSequence = 1, RC_ResolvedReferences = [], RC_ApprovalContext = None,
     RC_SourceExecutionVersion = None, RC_SourceCheckpointID = None\<rparr>"

definition sample_checkpoint_of :: "TaskID \<Rightarrow> RunID \<Rightarrow> ExecutionVersion \<Rightarrow> RuntimeCheckpoint" where
  "sample_checkpoint_of k r v = sample_checkpoint\<lparr>RC_TaskID := k, RC_RunID := r, RC_ExecutionVersion := v\<rparr>"

definition sample_ports :: "unit Ports" where
  "sample_ports = \<lparr>LookupAgent = sample_agents, HashExecutionConfigV1 = sample_hasher,
     json_digest = (\<lambda>j. sample_hash), SaveInitializationCheckpoint = (\<lambda>q s. Inr ()),
     SaveGeneratePlanExecutionCheckpoint = (\<lambda>q s. Inr ()),
     LoadLatestForClaim = (\<lambda>k r v src s. Inr (ClaimCheckpointValid (sample_checkpoint_of k r v))),
     LoadLatestForExecutionDispatch = (\<lambda>k r v s. Inr (ExecutionCheckpointValid (sample_checkpoint_of k r v))),
     LoadLatestForStartupCleanup = (\<lambda>k r v s. Inr (StartupCleanupCheckpointValid (sample_checkpoint_of k r v))),
     ValidateRecoverySource = (\<lambda>q s. Inr (RecoveryCheckpointValid ''c1'' sample_hash
        CheckpointNextActionGeneratePlan (Some ''cap''))),
     CreateRecoveryStart = (\<lambda>q s. Inr (''c2'', ())),
     EnsurePending = (\<lambda>q s. Inr (EnsurePendingReportCreated, ()))\<rparr>"

definition sample_call :: Call where
  "sample_call = \<lparr>call_fault = None, call_now = 2000, call_receipt_now = 2001,
     call_newID = (\<lambda>prefix. Inr (prefix @ ''-1'')),
     call_log = \<lparr>LO_acquired = True, LO_logID = Inr ''task-log-1'', LO_fault = None, LO_now = 2002\<rparr>\<rparr>"

lemma sample_port_fields [port_simps]:
  "LookupAgent sample_ports = sample_agents"
  "HashExecutionConfigV1 sample_ports = sample_hasher"
  "json_digest sample_ports = (\<lambda>j. sample_hash)"
  "SaveInitializationCheckpoint sample_ports = (\<lambda>q s. Inr ())"
  "SaveGeneratePlanExecutionCheckpoint sample_ports = (\<lambda>q s. Inr ())"
  "LoadLatestForClaim sample_ports = (\<lambda>k r v src s. Inr (ClaimCheckpointValid (sample_checkpoint_of k r v)))"
  "LoadLatestForExecutionDispatch sample_ports = (\<lambda>k r v s. Inr (ExecutionCheckpointValid (sample_checkpoint_of k r v)))"
  "LoadLatestForStartupCleanup sample_ports = (\<lambda>k r v s. Inr (StartupCleanupCheckpointValid (sample_checkpoint_of k r v)))"
  "ValidateRecoverySource sample_ports = (\<lambda>q s. Inr (RecoveryCheckpointValid ''c1'' sample_hash
     CheckpointNextActionGeneratePlan (Some ''cap'')))"
  "CreateRecoveryStart sample_ports = (\<lambda>q s. Inr (''c2'', ()))"
  "EnsurePending sample_ports = (\<lambda>q s. Inr (EnsurePendingReportCreated, ()))"
  "call_fault sample_call = None" "call_now sample_call = 2000" "call_receipt_now sample_call = 2001"
  "call_newID sample_call = (\<lambda>prefix. Inr (prefix @ ''-1''))"
  by (simp_all add: sample_ports_def sample_call_def)

end
