(* ===== verification/TaskLogs.thy ===== *)
theory TaskLogs
  imports Ports
begin

section \<open>Best-effort task logs\<close>

text \<open>
  \<open>internal/taskruntime/task_log.go\<close>: after the core transaction of a service, one short attempt to
  append a log row in a transaction of its own. \<open>TryExecute\<close> does nothing when the write gate is
  busy; every failure is dropped.
\<close>

record taskLogDraft =
  Draft_taskID :: TaskID
  Draft_runID :: RunID
  Draft_executionVersion :: ExecutionVersion
  Draft_level :: TaskLogLevel
  Draft_event :: string
  Draft_message :: string

definition TryExecute ::
    "bool \<Rightarrow> string option \<Rightarrow> ('x db \<Rightarrow> GoError + 'a \<times> 'x db) \<Rightarrow> 'x db \<Rightarrow> (GoError + 'a option) \<times> 'x db" where
  "TryExecute acquired fault work s =
    (if \<not> acquired then (Inr None, s)
     else (case Execute fault work s of
             (Inl e, s') \<Rightarrow> (Inl e, s')
           | (Inr a, s') \<Rightarrow> (Inr (Some a), s')))"

definition appendTaskLogBestEffort :: "LogOutcome \<Rightarrow> taskLogDraft \<Rightarrow> 'x db \<Rightarrow> 'x db" where
  "appendTaskLogBestEffort out draft s =
    (if Draft_taskID draft = '''' \<or> Draft_runID draft = ''''
        \<or> \<not> ExecutionVersion_Valid (Draft_executionVersion draft)
     then s
     else
       (case LO_logID out of
          Inl _ \<Rightarrow> s
        | Inr logID \<Rightarrow>
            snd (TryExecute (LO_acquired out) (LO_fault out)
              (\<lambda>s. attempt (TaskLogRepository_Append
                    \<lparr>Log_LogID = logID, Log_TaskID = Draft_taskID draft, Log_RunID = Draft_runID draft,
                     Log_StepID = None, Log_ExecutionVersion = Some (Draft_executionVersion draft),
                     Log_Level = Draft_level draft, Log_Event = Draft_event draft,
                     Log_Message = Draft_message draft, Log_Operator = ''System'',
                     Log_CreatedAt = LO_now out\<rparr> s)
                  (\<lambda>s. Inr ((), s))) s)))"

definition terminalTaskLogDraft :: "QueueCandidate \<Rightarrow> ErrorCode \<Rightarrow> TerminationReason option \<Rightarrow> taskLogDraft" where
  "terminalTaskLogDraft candidate errorCode terminationReason =
    \<lparr>Draft_taskID = QC_TaskID candidate, Draft_runID = QC_RunID candidate,
     Draft_executionVersion = QC_ExecutionVersion candidate, Draft_level = TaskLogLevelError,
     Draft_event = ''TaskTerminalized'',
     Draft_message = ''task terminalized: status='' @ TaskStatus_text TaskStatusFailed
       @ '' error_code='' @ ErrorCode_text errorCode
       @ (case terminationReason of None \<Rightarrow> ''''
          | Some reason \<Rightarrow> '' termination_reason='' @ TerminationReason_text reason)\<rparr>"

definition claimTaskLogDraft :: "ClaimResult \<Rightarrow> QueueCandidate \<Rightarrow> taskLogDraft option" where
  "claimTaskLogDraft result candidate =
    (case result of
       ClaimResultClaimed claim \<Rightarrow>
         Some \<lparr>Draft_taskID = Claim_TaskID claim, Draft_runID = Claim_RunID claim,
           Draft_executionVersion = Claim_ExecutionVersion claim, Draft_level = TaskLogLevelInfo,
           Draft_event = ''ExecutionClaimed'', Draft_message = ''execution claimed''\<rparr>
     | ClaimResultConfigMismatchInterrupted \<Rightarrow>
         Some \<lparr>Draft_taskID = QC_TaskID candidate, Draft_runID = QC_RunID candidate,
           Draft_executionVersion = QC_ExecutionVersion candidate, Draft_level = TaskLogLevelError,
           Draft_event = ''ExecutionInterrupted'',
           Draft_message = ''execution interrupted: error_code='' @ ErrorCode_text ErrorCodeConfigVersionMismatch\<rparr>
     | ClaimResultCheckpointInvalidTerminalized \<Rightarrow>
         Some (terminalTaskLogDraft candidate ErrorCodeCheckpointInvalid None)
     | ClaimResultDataInconsistentTerminalized \<Rightarrow>
         Some (terminalTaskLogDraft candidate ErrorCodeDataInconsistent None)
     | ClaimResultExpiredTerminalized \<Rightarrow>
         Some (terminalTaskLogDraft candidate ErrorCodeTaskTimeout (Some TerminationReasonTimedOut))
     | ClaimResultNoWork \<Rightarrow> None)"

definition checkpointRestoredTaskLogDraft ::
    "TaskID \<Rightarrow> RunID \<Rightarrow> ExecutionVersion \<Rightarrow> ExecutionVersion \<Rightarrow> taskLogDraft" where
  "checkpointRestoredTaskLogDraft taskID runID sourceExecutionVersion newExecutionVersion =
    \<lparr>Draft_taskID = taskID, Draft_runID = runID, Draft_executionVersion = newExecutionVersion,
     Draft_level = TaskLogLevelInfo, Draft_event = ''CheckpointRestored'',
     Draft_message = ''checkpoint restored: source_execution_version='' @ decimal sourceExecutionVersion
       @ '' new_execution_version='' @ decimal newExecutionVersion\<rparr>"

subsection \<open>Logging changes nothing else\<close>

text \<open>The core of a database: everything but the logs.\<close>

definition without_logs :: "'x db \<Rightarrow> 'x db" where
  "without_logs s = s\<lparr>db_logs := []\<rparr>"

lemma log_append_cases:
  obtains (nothing) "appendTaskLogBestEffort out draft s = s"
    | (appended) l where "TaskLogRepository_Append l s = Inr (appendTaskLogBestEffort out draft s)"
      and "deferred_ok (appendTaskLogBestEffort out draft s)"
      and "appendTaskLogBestEffort out draft s = s\<lparr>db_logs := db_logs s @ [l]\<rparr>"
      and "Log_Message l = Draft_message draft"
proof (cases "appendTaskLogBestEffort out draft s = s")
  case False
  then obtain l where "TaskLogRepository_Append l s = Inr (appendTaskLogBestEffort out draft s)"
      "deferred_ok (appendTaskLogBestEffort out draft s)" "Log_Message l = Draft_message draft"
    by (auto simp: appendTaskLogBestEffort_def TryExecute_def Execute_def attempt_def
        split: if_splits sum.splits option.splits prod.splits)
  moreover from this(1) have "appendTaskLogBestEffort out draft s = s\<lparr>db_logs := db_logs s @ [l]\<rparr>"
    by (auto simp: TaskLogRepository_Append_def split: if_splits)
  ultimately show ?thesis using appended by blast
qed (rule nothing)

lemma log_append_statements: "statement\<^sup>*\<^sup>* s (appendTaskLogBestEffort out draft s)"
proof (cases rule: log_append_cases [of out draft s])
  case (appended l)
  then show ?thesis by (auto intro: append_log)
qed simp

lemma log_append_rows [simp]:
  "without_logs (appendTaskLogBestEffort out draft s) = without_logs s"
  "db_tasks (appendTaskLogBestEffort out draft s) = db_tasks s"
  "db_runs (appendTaskLogBestEffort out draft s) = db_runs s"
  "db_executions (appendTaskLogBestEffort out draft s) = db_executions s"
  "db_receipts (appendTaskLogBestEffort out draft s) = db_receipts s"
  "db_other (appendTaskLogBestEffort out draft s) = db_other s"
  "task_row k (appendTaskLogBestEffort out draft s) = task_row k s"
  "run_row k (appendTaskLogBestEffort out draft s) = run_row k s"
  "exec_row p (appendTaskLogBestEffort out draft s) = exec_row p s"
  "receipt_row c (appendTaskLogBestEffort out draft s) = receipt_row c s"
  by (cases rule: log_append_cases [of out draft s]; simp add: without_logs_def)+

lemma deferred_ok_cong:
  "db_tasks s' = db_tasks s \<Longrightarrow> (\<And>k. run_row k s' = run_row k s) \<Longrightarrow> (\<And>p. exec_row p s' = exec_row p s) \<Longrightarrow>
     deferred_ok s' = deferred_ok s"
  by (simp add: deferred_ok_def)

lemma log_append_deferred [simp]: "deferred_ok (appendTaskLogBestEffort out draft s) = deferred_ok s"
  by (rule deferred_ok_cong) simp_all

end
