(* ===== verification/Commands.thy ===== *)
theory Commands
  imports TaskLogs
begin

section \<open>Commands with receipts\<close>

text \<open>
  The contract CreateTask, CancelTask and RecoverTask share: a command that finds the receipt of its
  identifier answers from the receipt alone and changes nothing, the first call that stores a
  receipt gives the answer the receipt will replay, and nothing ever removes or changes a receipt.
  A command with that contract is idempotent.
\<close>

locale receipted_command =
  fixes call :: "'c \<Rightarrow> 'q \<Rightarrow> 's \<Rightarrow> 'res \<times> 's"
    and command :: "'q \<Rightarrow> 'k"
    and look :: "'k \<Rightarrow> 's \<Rightarrow> 'receipt option"
    and replay :: "'q \<Rightarrow> 'receipt \<Rightarrow> 'res"
    and ready :: "'c \<Rightarrow> 's \<Rightarrow> bool"
    and later :: "'s \<Rightarrow> 's \<Rightarrow> bool"
  assumes later_keeps: "later s s' \<Longrightarrow> look k s = Some rc \<Longrightarrow> look k s' = Some rc"
    and answer_from_receipt:
      "look (command q) s = Some rc \<Longrightarrow> ready c s \<Longrightarrow> call c q s = (replay q rc, s)"
    and first_answer:
      "ready c s \<Longrightarrow> call c q s = (res, s') \<Longrightarrow> look (command q) s = None \<Longrightarrow> look (command q) s' = Some rc \<Longrightarrow>
         replay q rc = res"
begin

lemma idempotent:
  assumes "call c q s = (res, s1)" and "ready c s" and "look (command q) s1 \<noteq> None"
    and "later s1 s2" and "ready c' s2"
  shows "call c' q s2 = (res, s2)"
proof (cases "look (command q) s")
  case None
  with assms obtain rc where "look (command q) s1 = Some rc" "replay q rc = res"
    using first_answer by blast
  then show ?thesis using answer_from_receipt later_keeps assms by metis
next
  case (Some rc)
  then have "s1 = s" "res = replay q rc" using answer_from_receipt [OF Some assms(2)] assms(1) by simp_all
  then show ?thesis using answer_from_receipt later_keeps [OF assms(4)] Some assms(5) by metis
qed

text \<open>Two requests whose replays differ on a stored receipt: the second is answered by its own.\<close>

lemma second_request:
  assumes "look (command q) s = Some rc" and "command q' = command q" and "ready c s"
  shows "call c q' s = (replay q' rc, s)"
  using answer_from_receipt [of q' s rc c] assms by simp

end

lemma receipt_kept:
  "history_kept s s' \<Longrightarrow> receipt_row k s = Some r \<Longrightarrow> receipt_row k s' = Some r"
  by (auto simp: history_kept_def receipt_row_def row_find_def find_append)

lemma receipt_later: "statement\<^sup>*\<^sup>* s s' \<Longrightarrow> receipt_row k s = Some r \<Longrightarrow> receipt_row k s' = Some r"
  by (rule receipt_kept [OF history_statements])

text \<open>A call is ready when no infrastructure failure hits it and the database is consistent.\<close>

definition call_ready :: "'x Ports \<times> Call \<Rightarrow> 'x db \<Rightarrow> bool" where
  "call_ready pc s \<longleftrightarrow> call_fault (snd pc) = None \<and> deferred_ok s"

subsection \<open>Replaying a receipt\<close>

text \<open>
  How CancelTask and RecoverTask start their transaction: a stored receipt must belong to the same
  command type, target and fingerprint, and holds the response; without one the work goes on. What
  the commit is followed by (\<open>'a\<close>) is nothing for a replay.
\<close>

definition replay_or ::
    "CommandType \<Rightarrow> CommandID \<Rightarrow> string \<Rightarrow> string \<Rightarrow> (json \<Rightarrow> 'r option) \<Rightarrow> ('r \<Rightarrow> GoError + unit) \<Rightarrow> 'a \<Rightarrow>
     ('x db \<Rightarrow> GoError + ('r \<times> 'a) \<times> 'x db) \<Rightarrow> 'x db \<Rightarrow> GoError + ('r \<times> 'a) \<times> 'x db" where
  "replay_or commandType commandID target fingerprint decode validate nothing fresh s =
    (case CommandReceiptRepository_Lock commandID s of
       Inr stored \<Rightarrow>
         if Receipt_CommandType stored \<noteq> commandType \<or> Receipt_TargetID stored \<noteq> target
            \<or> Receipt_RequestFingerprint stored \<noteq> fingerprint
         then Inl ErrCommandConflict
         else (case decode (Receipt_Response stored) of
                 None \<Rightarrow> Inl ErrPersistenceInvariantViolation
               | Some response \<Rightarrow> attempt (validate response) (\<lambda>_. Inr ((response, nothing), s)))
     | Inl lockErr \<Rightarrow> if lockErr \<noteq> ErrRepositoryNotFound then Inl lockErr else fresh s)"

lemma replay_or_fresh [simp]:
  "receipt_row k s = None \<Longrightarrow> replay_or ct k target fp decode validate nothing fresh s = fresh s"
  by (simp add: replay_or_def CommandReceiptRepository_Lock_def)

lemma replay_or_ok:
  assumes "replay_or ct k target fp decode validate nothing fresh s = Inr ((response, out), s')"
  obtains (replayed) stored where "receipt_row k s = Some stored" "Receipt_CommandType stored = ct"
      "Receipt_TargetID stored = target" "Receipt_RequestFingerprint stored = fp"
      "decode (Receipt_Response stored) = Some response" "validate response = Inr ()" "out = nothing" "s' = s"
  | (fresh) "receipt_row k s = None" "fresh s = Inr ((response, out), s')"
  using assms
  by (cases "receipt_row k s")
    (auto simp: replay_or_def CommandReceiptRepository_Lock_def split: if_splits option.splits)

text \<open>The answer a stored receipt gives, \<open>result\<close> reading it from a valid response.\<close>

definition receipt_answer ::
    "CommandType \<Rightarrow> string \<Rightarrow> (json \<Rightarrow> 'r option) \<Rightarrow> ('r \<Rightarrow> GoError + 'b) \<Rightarrow> string \<Rightarrow> CommandReceipt \<Rightarrow> GoError + 'b" where
  "receipt_answer commandType target decode result fingerprint stored =
    (if Receipt_CommandType stored \<noteq> commandType \<or> Receipt_TargetID stored \<noteq> target
        \<or> Receipt_RequestFingerprint stored \<noteq> fingerprint
     then Inl ErrCommandConflict
     else (case decode (Receipt_Response stored) of
             None \<Rightarrow> Inl ErrPersistenceInvariantViolation | Some response \<Rightarrow> result response))"

lemma replay_or_answer:
  assumes "receipt_row k s = Some stored" and "deferred_ok s"
    and "\<And>r e. validate r = Inl e \<Longrightarrow> result r = Inl e"
  shows "(case Execute None (replay_or ct k target fp decode validate nothing fresh) s of
      (Inl e, s') \<Rightarrow> (Inl e, None, s') | (Inr (response, out), s') \<Rightarrow> (result response, Some out, s')) =
    (receipt_answer ct target decode result fp stored,
     case receipt_answer ct target decode validate fp stored of Inl _ \<Rightarrow> None | Inr _ \<Rightarrow> Some nothing, s)"
  using assms
  by (auto simp: replay_or_def CommandReceiptRepository_Lock_def receipt_answer_def Execute_def
      split: option.splits sum.splits)

end
