(* ===== verification/CreateTask.thy ===== *)
theory CreateTask
  imports Commands
begin

section \<open>CreateTask\<close>

text \<open>
  \<open>internal/taskruntime/create.go\<close>: one transaction that replays the receipt of a known command or
  stores a pending Task with its Run, first execution, initialization checkpoint and receipt; then a
  log attempt. Business rejections are stored as receipts too.
\<close>

record CreateTaskRequest =
  CTR_CommandID :: CommandID
  CTR_AgentID :: AgentID
  CTR_TaskInput :: string
  CTR_OperatorID :: string

record TaskCreated =
  TC_TaskID :: TaskID
  TC_RunID :: RunID
  TC_Status :: TaskStatus
  TC_CurrentExecutionVersion :: ExecutionVersion
  TC_DeadlineAt :: time
  TC_QueuedAt :: time

record createReceiptResponse =
  CR_Outcome :: string
  CR_TaskID :: TaskID
  CR_RunID :: RunID
  CR_Status :: TaskStatus
  CR_CurrentExecutionVersion :: ExecutionVersion
  CR_DeadlineAt :: time
  CR_QueuedAt :: time
  CR_ErrorCode :: string
  CR_ErrorSummary :: string

subsection \<open>The receipt\<close>

text \<open>\<open>json.Marshal\<close> and \<open>json.Unmarshal\<close> of the response struct.\<close>

definition encode_create_response :: "createReceiptResponse \<Rightarrow> json" where
  "encode_create_response r = JObj (
     jmember ''outcome'' (JStr (CR_Outcome r)) @ jstr_omitempty ''task_id'' (CR_TaskID r) @
     jstr_omitempty ''run_id'' (CR_RunID r) @ jstr_omitempty ''status'' (TaskStatus_text (CR_Status r)) @
     jnum_omitempty ''current_execution_version'' (CR_CurrentExecutionVersion r) @
     jmember ''deadline_at'' (JTime (CR_DeadlineAt r)) @ jmember ''queued_at'' (JTime (CR_QueuedAt r)) @
     jstr_omitempty ''error_code'' (CR_ErrorCode r) @ jstr_omitempty ''error_summary'' (CR_ErrorSummary r))"

definition decode_create_response :: "json \<Rightarrow> createReceiptResponse option" where
  "decode_create_response j =
    (case j of
       JObj ms \<Rightarrow>
         (case (jget_str ms ''outcome'', jget_str ms ''task_id'', jget_str ms ''run_id'', jget_str ms ''status'',
                jget_int64 ms ''current_execution_version'', jget_time ms ''deadline_at'',
                jget_time ms ''queued_at'', jget_str ms ''error_code'', jget_str ms ''error_summary'') of
            (Some a, Some b, Some c, Some d, Some e, Some f, Some g, Some h, Some i) \<Rightarrow>
              Some \<lparr>CR_Outcome = a, CR_TaskID = b, CR_RunID = c, CR_Status = TaskStatus_of d,
                CR_CurrentExecutionVersion = e, CR_DeadlineAt = f, CR_QueuedAt = g, CR_ErrorCode = h,
                CR_ErrorSummary = i\<rparr>
          | _ \<Rightarrow> None)
     | JNull \<Rightarrow>
         Some \<lparr>CR_Outcome = '''', CR_TaskID = '''', CR_RunID = '''', CR_Status = TaskStatusOther '''',
           CR_CurrentExecutionVersion = 0, CR_DeadlineAt = 0, CR_QueuedAt = 0, CR_ErrorCode = '''',
           CR_ErrorSummary = ''''\<rparr>
     | _ \<Rightarrow> None)"

definition rejectedCreateReceipt :: "string \<Rightarrow> createReceiptResponse" where
  "rejectedCreateReceipt errorCode =
    \<lparr>CR_Outcome = ''Rejected'', CR_TaskID = '''', CR_RunID = '''', CR_Status = TaskStatusOther '''',
     CR_CurrentExecutionVersion = 0, CR_DeadlineAt = 0, CR_QueuedAt = 0, CR_ErrorCode = errorCode,
     CR_ErrorSummary =
       (if errorCode = ''AgentUnavailable'' then ''Agent is unavailable''
        else if errorCode = ''InvalidArgument'' then ''Task input exceeds the configured limit''
        else ''Create request was rejected'')\<rparr>"

definition validateCreateReceiptResponse :: "createReceiptResponse \<Rightarrow> GoError + unit" where
  "validateCreateReceiptResponse r =
    (if CR_Outcome r = ''Created'' then
       (if CR_TaskID r = '''' \<or> CR_RunID r = '''' \<or> CR_Status r \<noteq> TaskStatusPending
           \<or> \<not> ExecutionVersion_Valid (CR_CurrentExecutionVersion r)
           \<or> IsZero (CR_DeadlineAt r) \<or> IsZero (CR_QueuedAt r)
        then Inl ErrPersistenceInvariantViolation else Inr ())
     else if CR_Outcome r = ''Rejected'' then
       (if CR_ErrorCode r \<noteq> ''AgentUnavailable'' \<and> CR_ErrorCode r \<noteq> ''InvalidArgument''
        then Inl ErrPersistenceInvariantViolation
        else if CR_ErrorSummary r = '''' then Inl ErrPersistenceInvariantViolation
        else Inr ())
     else Inl ErrPersistenceInvariantViolation)"

definition create_result :: "createReceiptResponse \<Rightarrow> GoError + TaskCreated" where
  "create_result r =
    attempt (validateCreateReceiptResponse r) (\<lambda>_.
      if CR_Outcome r = ''Created'' then
        Inr \<lparr>TC_TaskID = CR_TaskID r, TC_RunID = CR_RunID r, TC_Status = CR_Status r,
             TC_CurrentExecutionVersion = CR_CurrentExecutionVersion r,
             TC_DeadlineAt = CR_DeadlineAt r, TC_QueuedAt = CR_QueuedAt r\<rparr>
      else if CR_Outcome r = ''Rejected'' then
        (if CR_ErrorCode r = ''AgentUnavailable'' then Inl ErrAgentUnavailable else Inl ErrInvalidArgument)
      else Inl ErrPersistenceInvariantViolation)"

subsection \<open>The request\<close>

definition create_request_json :: "CreateTaskRequest \<Rightarrow> json" where
  "create_request_json request = JObj
     [(''agent_id'', JStr (CTR_AgentID request)), (''task_input'', JStr (CTR_TaskInput request)),
      (''operator_id'', JStr (CTR_OperatorID request))]"

definition createRequestFingerprint :: "(json \<Rightarrow> string) \<Rightarrow> CreateTaskRequest \<Rightarrow> GoError + string" where
  "createRequestFingerprint digest request =
    (if CTR_CommandID request = '''' \<or> CTR_AgentID request = '''' \<or> blank (CTR_TaskInput request)
        \<or> blank (CTR_OperatorID request) \<or> \<not> utf8_valid (CTR_CommandID request)
        \<or> \<not> utf8_valid (CTR_AgentID request) \<or> \<not> utf8_valid (CTR_TaskInput request)
        \<or> \<not> utf8_valid (CTR_OperatorID request)
     then Inl ErrInvalidArgument
     else Inr (digest (create_request_json request)))"

definition createIDs :: "(string \<Rightarrow> GoError + string) \<Rightarrow> GoError + (TaskID \<times> RunID \<times> TaskExecutionID)" where
  "createIDs newID =
    attempt (newID ''task'') (\<lambda>taskID.
    attempt (newID ''run'') (\<lambda>runID.
    attempt (newID ''execution'') (\<lambda>executionID.
      Inr (taskID, runID, executionID))))"

definition insertCreateReceipt ::
    "Call \<Rightarrow> CreateTaskRequest \<Rightarrow> string \<Rightarrow> createReceiptResponse \<Rightarrow> 'x db \<Rightarrow> GoError + 'x db" where
  "insertCreateReceipt c request fingerprint response s =
    CommandReceiptRepository_Insert
      \<lparr>Receipt_CommandID = CTR_CommandID request, Receipt_CommandType = CommandTypeCreate,
       Receipt_TargetID = CTR_AgentID request, Receipt_RequestFingerprint = fingerprint,
       Receipt_Response = encode_create_response response, Receipt_CreatedAt = call_receipt_now c\<rparr> s"

subsection \<open>The transaction\<close>

text \<open>The rows of a new task.\<close>

definition created_task :: "CreateTaskRequest \<Rightarrow> TaskID \<Rightarrow> RunID \<Rightarrow> time \<Rightarrow> duration \<Rightarrow> Task" where
  "created_task request taskID runID now timeout =
    \<lparr>Task_TaskID = taskID, Task_AgentID = CTR_AgentID request, Task_CreatedBy = CTR_OperatorID request,
     Task_Input = CTR_TaskInput request, Task_Status = TaskStatusPending, Task_CurrentRunID = runID,
     Task_CurrentExecutionVersion = 1, Task_ResultSummary = None, Task_ErrorCode = None,
     Task_DeadlineAt = now + timeout, Task_QueuedAt = Some now, Task_CreatedAt = now,
     Task_StartedAt = None, Task_EndedAt = None\<rparr>"

definition created_run :: "TaskID \<Rightarrow> RunID \<Rightarrow> Run" where
  "created_run taskID runID =
    \<lparr>Run_RunID = runID, Run_TaskID = taskID, Run_Status = RunStatusPending, Run_PlanID = None,
     Run_CurrentStepID = None, Run_Context = Some (JObj []), Run_ErrorCode = None, Run_StartedAt = None,
     Run_EndedAt = None\<rparr>"

definition created_execution ::
    "TaskID \<Rightarrow> TaskExecutionID \<Rightarrow> ExecutionVersion \<Rightarrow> ExecutionConfigHash \<Rightarrow> time \<Rightarrow> TaskExecution" where
  "created_execution taskID executionID version hash now =
    \<lparr>Exec_TaskExecutionID = executionID, Exec_TaskID = taskID, Exec_ExecutionVersion = version,
     Exec_WorkerID = None, Exec_Status = TaskExecutionStatusQueued, Exec_ExecutionConfigHash = hash,
     Exec_ObservedConfigHash = None, Exec_ErrorCode = None, Exec_InvariantCode = None,
     Exec_TerminationReason = None, Exec_CreatedAt = now, Exec_StartedAt = None, Exec_EndedAt = None\<rparr>"

definition created_response :: "TaskID \<Rightarrow> RunID \<Rightarrow> time \<Rightarrow> duration \<Rightarrow> createReceiptResponse" where
  "created_response taskID runID now timeout =
    \<lparr>CR_Outcome = ''Created'', CR_TaskID = taskID, CR_RunID = runID, CR_Status = TaskStatusPending,
     CR_CurrentExecutionVersion = 1, CR_DeadlineAt = now + timeout, CR_QueuedAt = now,
     CR_ErrorCode = '''', CR_ErrorSummary = ''''\<rparr>"

definition create_new ::
    "'x Ports \<Rightarrow> Call \<Rightarrow> CreateTaskRequest \<Rightarrow> string \<Rightarrow> 'x db \<Rightarrow> GoError + (createReceiptResponse \<times> bool) \<times> 'x db" where
  "create_new ports c request fingerprint s =
    (case LookupAgent ports (CTR_AgentID request) of
       None \<Rightarrow>
         (let outcome = rejectedCreateReceipt ''AgentUnavailable''
          in attempt (insertCreateReceipt c request fingerprint outcome s) (\<lambda>s. Inr ((outcome, False), s)))
     | Some agent \<Rightarrow>
         if \<not> agent_enabled agent then
           (let outcome = rejectedCreateReceipt ''AgentUnavailable''
            in attempt (insertCreateReceipt c request fingerprint outcome s) (\<lambda>s. Inr ((outcome, False), s)))
         else if PL_MaxTaskInputBytes (Planner_Limits (EC_Planner (ARC_ExecutionConfig agent)))
                 < length (CTR_TaskInput request) then
           (let outcome = rejectedCreateReceipt ''InvalidArgument''
            in attempt (insertCreateReceipt c request fingerprint outcome s) (\<lambda>s. Inr ((outcome, False), s)))
         else
           attempt (HashExecutionConfigV1 ports (ARC_ExecutionConfig agent)) (\<lambda>configHash.
           attempt (require (0 < ARC_TaskTimeout agent)
             (ErrText ''create Task: validated Agent task timeout is invalid'')) (\<lambda>_.
           let decision = CanCreateTask TaskStatusPending RunStatusPending TaskExecutionStatusQueued;
               now = call_now c
           in
           attempt (require (Allowed decision) (ErrLifecycle ''validate Create lifecycle'' (Reason decision))) (\<lambda>_.
           attempt (createIDs (call_newID c)) (\<lambda>(taskID, runID, executionID).
           attempt (TaskRepository_Insert (created_task request taskID runID now (ARC_TaskTimeout agent)) s) (\<lambda>s.
           attempt (RunRepository_Insert (created_run taskID runID) s) (\<lambda>s.
           attempt (TaskExecutionRepository_Insert (created_execution taskID executionID 1 configHash now) s) (\<lambda>s.
           attempt (save_port (SaveInitializationCheckpoint ports
             \<lparr>Save_TaskID = taskID, Save_RunID = runID, Save_ExecutionVersion = 1,
              Save_ExecutionConfigHash = configHash\<rparr> s) s) (\<lambda>s.
           let outcome = created_response taskID runID now (ARC_TaskTimeout agent)
           in attempt (insertCreateReceipt c request fingerprint outcome s) (\<lambda>s.
             Inr ((outcome, True), s)))))))))))"

definition create_work ::
    "'x Ports \<Rightarrow> Call \<Rightarrow> CreateTaskRequest \<Rightarrow> string \<Rightarrow> 'x db \<Rightarrow> GoError + (createReceiptResponse \<times> bool) \<times> 'x db" where
  "create_work ports c request fingerprint s =
    (case CommandReceiptRepository_Lock (CTR_CommandID request) s of
       Inr stored \<Rightarrow>
         if Receipt_CommandType stored \<noteq> CommandTypeCreate \<or> Receipt_TargetID stored \<noteq> CTR_AgentID request
            \<or> Receipt_RequestFingerprint stored \<noteq> fingerprint
         then Inl ErrCommandConflict
         else
           (case decode_create_response (Receipt_Response stored) of
              None \<Rightarrow> Inl ErrPersistenceInvariantViolation
            | Some outcome \<Rightarrow> attempt (validateCreateReceiptResponse outcome) (\<lambda>_. Inr ((outcome, False), s)))
     | Inl lockErr \<Rightarrow>
         if lockErr \<noteq> ErrRepositoryNotFound then Inl lockErr
         else create_new ports c request fingerprint s)"

definition CreateTask ::
    "'x Ports \<Rightarrow> Call \<Rightarrow> CreateTaskRequest \<Rightarrow> 'x db \<Rightarrow> (GoError + TaskCreated) \<times> 'x db" where
  "CreateTask ports c request s =
    (case createRequestFingerprint (json_digest ports) request of
       Inl e \<Rightarrow> (Inl e, s)
     | Inr fingerprint \<Rightarrow>
         (case Execute (call_fault c) (create_work ports c request fingerprint) s of
            (Inl e, s') \<Rightarrow> (Inl e, s')
          | (Inr (outcome, createdInTransaction), s') \<Rightarrow>
              (case create_result outcome of
                 Inl e \<Rightarrow> (Inl e, s')
               | Inr result \<Rightarrow>
                   (Inr result,
                    if createdInTransaction then
                      appendTaskLogBestEffort (call_log c)
                        \<lparr>Draft_taskID = TC_TaskID result, Draft_runID = TC_RunID result,
                         Draft_executionVersion = TC_CurrentExecutionVersion result,
                         Draft_level = TaskLogLevelInfo, Draft_event = ''TaskCreated'',
                         Draft_message = ''task created''\<rparr> s'
                    else s'))))"

subsection \<open>The receipt round trip\<close>

text \<open>The responses the service stores.\<close>

definition create_response_ok :: "createReceiptResponse \<Rightarrow> bool" where
  "create_response_ok r \<longleftrightarrow> TaskStatus_of (TaskStatus_text (CR_Status r)) = CR_Status r \<and>
     - (2 ^ 63) \<le> CR_CurrentExecutionVersion r \<and> CR_CurrentExecutionVersion r < 2 ^ 63"

lemma create_response_roundtrip:
  "create_response_ok r \<Longrightarrow> decode_create_response (encode_create_response r) = Some r"
  by (cases r) (auto simp: create_response_ok_def decode_create_response_def encode_create_response_def)

lemma create_responses_ok [simp]:
  "create_response_ok (rejectedCreateReceipt e)" "create_response_ok (created_response t r now d)"
  by (simp_all add: create_response_ok_def rejectedCreateReceipt_def created_response_def TaskStatus_of_def)

lemma create_result_created [simp]:
  "create_result (created_response t r now d) =
     (if t = '''' \<or> r = '''' \<or> now + d = 0 \<or> now = 0 then Inl ErrPersistenceInvariantViolation
      else Inr \<lparr>TC_TaskID = t, TC_RunID = r, TC_Status = TaskStatusPending, TC_CurrentExecutionVersion = 1,
             TC_DeadlineAt = now + d, TC_QueuedAt = now\<rparr>)"
  by (simp add: create_result_def created_response_def validateCreateReceiptResponse_def)

lemma create_result_rejected [simp]:
  "create_result (rejectedCreateReceipt ''AgentUnavailable'') = Inl ErrAgentUnavailable"
  "create_result (rejectedCreateReceipt ''InvalidArgument'') = Inl ErrInvalidArgument"
  by (simp_all add: create_result_def rejectedCreateReceipt_def validateCreateReceiptResponse_def)

lemma create_result_valid:
  "create_result r = Inr x \<Longrightarrow> validateCreateReceiptResponse r = Inr ()"
  by (auto simp: create_result_def)

lemma rejected_valid [simp]:
  "validateCreateReceiptResponse (rejectedCreateReceipt ''AgentUnavailable'') = Inr ()"
  "validateCreateReceiptResponse (rejectedCreateReceipt ''InvalidArgument'') = Inr ()"
  by (simp_all add: rejectedCreateReceipt_def validateCreateReceiptResponse_def)

subsection \<open>What the transaction can do\<close>

definition create_receipt :: "Call \<Rightarrow> CreateTaskRequest \<Rightarrow> string \<Rightarrow> createReceiptResponse \<Rightarrow> CommandReceipt" where
  "create_receipt c request fingerprint response =
    \<lparr>Receipt_CommandID = CTR_CommandID request, Receipt_CommandType = CommandTypeCreate,
     Receipt_TargetID = CTR_AgentID request, Receipt_RequestFingerprint = fingerprint,
     Receipt_Response = encode_create_response response, Receipt_CreatedAt = call_receipt_now c\<rparr>"

lemma insertCreateReceipt_iff:
  "insertCreateReceipt c request fingerprint response s = Inr s' \<longleftrightarrow>
     CommandReceipt_check (create_receipt c request fingerprint response) \<and>
     receipt_row (CTR_CommandID request) s = None \<and>
     s' = s\<lparr>db_receipts := db_receipts s @ [create_receipt c request fingerprint response]\<rparr>"
  by (simp add: insertCreateReceipt_def receipt_insert_iff create_receipt_def)

text \<open>
  The three outcomes of a transaction that commits: a replay that changes nothing, a stored
  rejection, and a new task.
\<close>

definition created_db ::
    "CreateTaskRequest \<Rightarrow> string \<Rightarrow> Call \<Rightarrow> AgentRuntimeConfig \<Rightarrow> TaskID \<times> RunID \<times> TaskExecutionID \<Rightarrow>
     ExecutionConfigHash \<Rightarrow> 'x \<Rightarrow> 'x db \<Rightarrow> 'x db" where
  "created_db request fingerprint c agent ids hash x s =
    (case ids of (taskID, runID, executionID) \<Rightarrow>
      s\<lparr>db_tasks := db_tasks s @ [created_task request taskID runID (call_now c) (ARC_TaskTimeout agent)],
        db_runs := db_runs s @ [created_run taskID runID],
        db_executions := db_executions s @ [created_execution taskID executionID 1 hash (call_now c)],
        db_receipts := db_receipts s @ [create_receipt c request fingerprint
          (created_response taskID runID (call_now c) (ARC_TaskTimeout agent))],
        db_other := x\<rparr>)"

lemma create_work_cases:
  assumes "create_work ports c request fingerprint s = Inr ((outcome, created), s')"
  obtains (replayed) stored where "receipt_row (CTR_CommandID request) s = Some stored"
      "Receipt_CommandType stored = CommandTypeCreate" "Receipt_TargetID stored = CTR_AgentID request"
      "Receipt_RequestFingerprint stored = fingerprint"
      "decode_create_response (Receipt_Response stored) = Some outcome"
      "validateCreateReceiptResponse outcome = Inr ()" "\<not> created" "s' = s"
  | (rejected) code where "receipt_row (CTR_CommandID request) s = None"
      "code = ''AgentUnavailable'' \<or> code = ''InvalidArgument''"
      "outcome = rejectedCreateReceipt code" "\<not> created"
      "CommandReceipt_check (create_receipt c request fingerprint outcome)"
      "s' = s\<lparr>db_receipts := db_receipts s @ [create_receipt c request fingerprint outcome]\<rparr>"
  | (created) agent taskID runID executionID hash x s3 where "receipt_row (CTR_CommandID request) s = None"
      "LookupAgent ports (CTR_AgentID request) = Some agent" "agent_enabled agent" "0 < ARC_TaskTimeout agent"
      "length (CTR_TaskInput request) \<le> PL_MaxTaskInputBytes (Planner_Limits (EC_Planner (ARC_ExecutionConfig agent)))"
      "HashExecutionConfigV1 ports (ARC_ExecutionConfig agent) = Inr hash"
      "createIDs (call_newID c) = Inr (taskID, runID, executionID)"
      "statement\<^sup>*\<^sup>* s s3"
      "SaveInitializationCheckpoint ports \<lparr>Save_TaskID = taskID, Save_RunID = runID, Save_ExecutionVersion = 1,
         Save_ExecutionConfigHash = hash\<rparr> s3 = Inr x"
      "statement\<^sup>*\<^sup>* s3 s'"
      "outcome = created_response taskID runID (call_now c) (ARC_TaskTimeout agent)" "created"
      "CommandReceipt_check (create_receipt c request fingerprint outcome)"
      "task_row taskID s = None" "run_row taskID s = None" "exec_row (taskID, 1) s = None"
      "s' = created_db request fingerprint c agent (taskID, runID, executionID) hash x s"
      "s3 = s'\<lparr>db_receipts := db_receipts s, db_other := db_other s\<rparr>"
proof (cases "receipt_row (CTR_CommandID request) s")
  case (Some stored)
  then show ?thesis
    using assms replayed
    by (auto simp: create_work_def CommandReceiptRepository_Lock_def split: if_splits option.splits)
next
  case None
  then have new: "create_new ports c request fingerprint s = Inr ((outcome, created), s')"
    using assms by (simp add: create_work_def CommandReceiptRepository_Lock_def)
  show ?thesis
  proof (cases "created")
    case False
    then show ?thesis
      using new None rejected
      by (auto simp: create_new_def insertCreateReceipt_iff Let_def split: option.splits if_splits)
  next
    case True
    then obtain agent hash taskID runID executionID s1 s2 s3 s4 x where
      agent: "LookupAgent ports (CTR_AgentID request) = Some agent" "agent_enabled agent"
        "length (CTR_TaskInput request) \<le> PL_MaxTaskInputBytes (Planner_Limits (EC_Planner (ARC_ExecutionConfig agent)))"
        "HashExecutionConfigV1 ports (ARC_ExecutionConfig agent) = Inr hash" "0 < ARC_TaskTimeout agent"
        "createIDs (call_newID c) = Inr (taskID, runID, executionID)"
      and steps: "TaskRepository_Insert (created_task request taskID runID (call_now c) (ARC_TaskTimeout agent)) s = Inr s1"
        "RunRepository_Insert (created_run taskID runID) s1 = Inr s2"
        "TaskExecutionRepository_Insert (created_execution taskID executionID 1 hash (call_now c)) s2 = Inr s3"
        "SaveInitializationCheckpoint ports \<lparr>Save_TaskID = taskID, Save_RunID = runID,
           Save_ExecutionVersion = 1, Save_ExecutionConfigHash = hash\<rparr> s3 = Inr x"
        "s4 = s3\<lparr>db_other := x\<rparr>"
        "insertCreateReceipt c request fingerprint (created_response taskID runID (call_now c) (ARC_TaskTimeout agent)) s4 = Inr s'"
        "outcome = created_response taskID runID (call_now c) (ARC_TaskTimeout agent)"
      using new by (auto simp: create_new_def Let_def split: option.splits if_splits)
    have "statement\<^sup>*\<^sup>* s s3"
      using insert_task [OF steps(1)] insert_run [OF steps(2)] insert_execution [OF steps(3)]
      by (meson r_into_rtranclp rtranclp_trans)
    moreover have "statement s3 s4" using steps(5) other_module by simp
    then have "statement\<^sup>*\<^sup>* s3 s'"
      using insert_receipt steps(6) unfolding insertCreateReceipt_def
      by (meson r_into_rtranclp rtranclp_trans)
    moreover have "s' = created_db request fingerprint c agent (taskID, runID, executionID) hash x s"
        "s3 = s'\<lparr>db_receipts := db_receipts s, db_other := db_other s\<rparr>"
        "CommandReceipt_check (create_receipt c request fingerprint outcome)"
        "task_row taskID s = None" "run_row taskID s = None" "exec_row (taskID, 1) s = None"
      using steps by (auto simp: task_insert_iff run_insert_iff exec_insert_iff insertCreateReceipt_iff
          created_db_def created_task_def created_run_def created_execution_def Exec_key_def)
    ultimately show ?thesis
      by (intro created [OF None agent(1,2,5,3,4,6)]) (use True steps in simp_all)
  qed
qed

subsection \<open>Replays\<close>

text \<open>The answer of a command whose receipt is stored, as a function of the receipt alone.\<close>

definition create_replay :: "(json \<Rightarrow> string) \<Rightarrow> CreateTaskRequest \<Rightarrow> CommandReceipt \<Rightarrow> GoError + TaskCreated" where
  "create_replay digest request stored =
    attempt (createRequestFingerprint digest request) (\<lambda>fingerprint.
      if Receipt_CommandType stored \<noteq> CommandTypeCreate \<or> Receipt_TargetID stored \<noteq> CTR_AgentID request
         \<or> Receipt_RequestFingerprint stored \<noteq> fingerprint
      then Inl ErrCommandConflict
      else (case decode_create_response (Receipt_Response stored) of
              None \<Rightarrow> Inl ErrPersistenceInvariantViolation
            | Some outcome \<Rightarrow> create_result outcome))"

lemma CreateTask_replay:
  assumes "receipt_row (CTR_CommandID request) s = Some stored" and "call_fault c = None" and "deferred_ok s"
  shows "CreateTask ports c request s = (create_replay (json_digest ports) request stored, s)"
proof (cases "createRequestFingerprint (json_digest ports) request")
  case (Inl e)
  then show ?thesis by (simp add: CreateTask_def create_replay_def)
next
  case (Inr fp)
  show ?thesis
  proof (cases "decode_create_response (Receipt_Response stored)")
    case None
    with assms Inr show ?thesis
      by (simp add: CreateTask_def create_replay_def Execute_def create_work_def CommandReceiptRepository_Lock_def)
  next
    case (Some outcome)
    show ?thesis
    proof (cases "validateCreateReceiptResponse outcome")
      case (Inl e)
      with assms Inr Some show ?thesis
        by (simp add: CreateTask_def create_replay_def Execute_def create_work_def
            CommandReceiptRepository_Lock_def create_result_def)
    next
      case (Inr u)
      with assms \<open>createRequestFingerprint _ _ = _\<close> Some show ?thesis
        by (simp add: CreateTask_def create_replay_def Execute_def create_work_def
            CommandReceiptRepository_Lock_def split: sum.splits)
    qed
  qed
qed

text \<open>What a call that found no receipt did, when it changed the receipts at all.\<close>

lemma CreateTask_first:
  assumes "CreateTask ports c request s = (res, s')" and "receipt_row (CTR_CommandID request) s = None"
    and "receipt_row (CTR_CommandID request) s' \<noteq> None"
  obtains fingerprint outcome created s1 where
    "createRequestFingerprint (json_digest ports) request = Inr fingerprint"
    "create_work ports c request fingerprint s = Inr ((outcome, created), s1)" "deferred_ok s1"
    "res = create_result outcome" "create_response_ok outcome"
    "receipt_row (CTR_CommandID request) s' = Some (create_receipt c request fingerprint outcome)"
    "call_fault c = None" "without_logs s' = without_logs s1"
proof -
  from assms obtain fp where fp: "createRequestFingerprint (json_digest ports) request = Inr fp"
    by (auto simp: CreateTask_def split: sum.splits)
  obtain out s1 where ex: "Execute (call_fault c) (create_work ports c request fp) s = (Inr out, s1)"
    using assms fp
    by (auto simp: CreateTask_def split: sum.splits prod.splits dest: Execute_error_unchanged)
  obtain outcome created where out: "out = (outcome, created)" by (cases out)
  with ex have work: "create_work ports c request fp s = Inr ((outcome, created), s1)"
      and ok: "deferred_ok s1" "call_fault c = None"
    by (auto simp: Execute_ok_iff)
  have res: "res = create_result outcome" and rows: "receipt_row (CTR_CommandID request) s' = receipt_row (CTR_CommandID request) s1"
    and logs: "without_logs s' = without_logs s1"
    using assms(1) fp ex out by (auto simp: CreateTask_def split: sum.splits)
  have "receipt_row (CTR_CommandID request) s1 = Some (create_receipt c request fp outcome) \<and> create_response_ok outcome"
    using work
  proof (cases rule: create_work_cases)
    case (replayed stored)
    with assms(2) show ?thesis by simp
  next
    case (rejected code)
    then show ?thesis
      using row_appends(4) [of "create_receipt c request fp outcome" s "CTR_CommandID request"]
      by (simp add: create_receipt_def)
  next
    case (created agent taskID runID executionID hash x s3)
    then have "receipt_row (CTR_CommandID request) s1 = receipt_row (CTR_CommandID request)
        (s\<lparr>db_receipts := db_receipts s @ [create_receipt c request fp outcome]\<rparr>)"
      by (simp add: created_db_def receipt_row_def)
    with created(1,11) show ?thesis
      using row_appends(4) [of "create_receipt c request fp outcome" s "CTR_CommandID request"]
      by (simp add: create_receipt_def)
  qed
  then show ?thesis using that fp work ok res rows logs by metis
qed

lemma create_replay_own:
  assumes "createRequestFingerprint digest request = Inr fingerprint" and "create_response_ok outcome"
  shows "create_replay digest request (create_receipt c request fingerprint outcome) = create_result outcome"
  using assms by (simp add: create_replay_def create_receipt_def create_response_roundtrip)

interpretation create_command: receipted_command
  "\<lambda>pc. CreateTask ((fst pc)\<lparr>json_digest := digest\<rparr>) (snd pc)" CTR_CommandID receipt_row "create_replay digest"
  call_ready "statement\<^sup>*\<^sup>*" for digest :: "json \<Rightarrow> string"
proof unfold_locales
  fix q c and s s' :: "'x db" and res rc
  show "receipt_row (CTR_CommandID q) s = Some rc \<Longrightarrow> call_ready c s \<Longrightarrow>
      CreateTask ((fst c)\<lparr>json_digest := digest\<rparr>) (snd c) q s = (create_replay digest q rc, s)"
    using CreateTask_replay [of q s rc "snd c" "(fst c)\<lparr>json_digest := digest\<rparr>"] by (simp add: call_ready_def)
  assume call: "CreateTask ((fst c)\<lparr>json_digest := digest\<rparr>) (snd c) q s = (res, s')"
    and none: "receipt_row (CTR_CommandID q) s = None" and rc: "receipt_row (CTR_CommandID q) s' = Some rc"
  obtain fp outcome where "createRequestFingerprint digest q = Inr fp" "res = create_result outcome"
      "create_response_ok outcome" "rc = create_receipt (snd c) q fp outcome"
    by (rule CreateTask_first [OF call none]) (use rc in auto)
  then show "create_replay digest q rc = res" by (simp add: create_replay_own)
qed (rule receipt_later)

text \<open>
  C7: CreateTask is idempotent. Once a call has left a receipt for its command, the same request
  gives the same answer and changes nothing, however often it is repeated, after any further
  statements, and whatever the clock, the identifier source and the Agent configuration have become.
\<close>

theorem create_task_is_idempotent:
  assumes "CreateTask ports c request s = (res, s1)" and "call_fault c = None" and "deferred_ok s"
    and "receipt_row (CTR_CommandID request) s1 \<noteq> None"
    and "statement\<^sup>*\<^sup>* s1 s2" and "deferred_ok s2"
    and "json_digest ports' = json_digest ports" and "call_fault c' = None"
  shows "CreateTask ports' c' request s2 = (res, s2)"
proof -
  have "ports\<lparr>json_digest := json_digest ports\<rparr> = ports" "ports'\<lparr>json_digest := json_digest ports\<rparr> = ports'"
    using assms(7) by (cases ports; cases ports'; simp)+
  then show ?thesis
    using create_command.idempotent [of "json_digest ports" "(ports, c)" request s res s1 s2 "(ports', c')"]
      assms(1-6,8) by (simp add: call_ready_def)
qed

text \<open>
  C8: A successful CreateTask of a new command stores exactly one new task: pending, with the
  requested owner and input, a deadline one Agent timeout after the database's clock, queued at that
  clock, with a pending Run and a QUEUED first execution without worker that freezes the
  configuration hash, and a receipt. Its initialization checkpoint is stored with it: the checkpoint
  module was asked once, in the database that already held the three new rows, to save one for this task, run,
  version and hash, and what the module answered is what the database now holds for it. The Agent
  exists, is enabled and allows the input's size; the task identifier was unused; every other task is
  untouched and the foreign keys hold.
\<close>

theorem create_task_stores_one_queued_task:
  assumes "CreateTask ports c request s = (Inr r, s')" and "receipt_row (CTR_CommandID request) s = None"
  shows "\<exists>agent hash e. LookupAgent ports (CTR_AgentID request) = Some agent \<and> agent_enabled agent \<and>
      length (CTR_TaskInput request) \<le> PL_MaxTaskInputBytes (Planner_Limits (EC_Planner (ARC_ExecutionConfig agent))) \<and>
      HashExecutionConfigV1 ports (ARC_ExecutionConfig agent) = Inr hash \<and>
      task_row (TC_TaskID r) s = None \<and>
      task_row (TC_TaskID r) s' =
        Some (created_task request (TC_TaskID r) (TC_RunID r) (call_now c) (ARC_TaskTimeout agent)) \<and>
      run_row (TC_TaskID r) s' = Some (created_run (TC_TaskID r) (TC_RunID r)) \<and>
      exec_row (TC_TaskID r, 1) s' = Some (created_execution (TC_TaskID r) e 1 hash (call_now c)) \<and>
      receipt_row (CTR_CommandID request) s' \<noteq> None \<and>
      SaveInitializationCheckpoint ports
        \<lparr>Save_TaskID = TC_TaskID r, Save_RunID = TC_RunID r, Save_ExecutionVersion = 1, Save_ExecutionConfigHash = hash\<rparr>
        (s'\<lparr>db_receipts := db_receipts s, db_logs := db_logs s, db_other := db_other s\<rparr>) = Inr (db_other s') \<and>
      TC_DeadlineAt r = call_now c + ARC_TaskTimeout agent \<and> call_now c < TC_DeadlineAt r \<and>
      TC_QueuedAt r = call_now c \<and>
      (\<forall>k v. k \<noteq> TC_TaskID r \<longrightarrow> task_row k s' = task_row k s \<and> run_row k s' = run_row k s \<and>
         exec_row (k, v) s' = exec_row (k, v) s) \<and>
      deferred_ok s'"
proof -
  obtain fp out s1 where work: "Execute (call_fault c) (create_work ports c request fp) s = (Inr out, s1)"
    and res: "create_result (fst out) = Inr r"
    and s': "\<And>k. task_row k s' = task_row k s1" "\<And>k. run_row k s' = run_row k s1"
      "\<And>p. exec_row p s' = exec_row p s1" "\<And>k. receipt_row k s' = receipt_row k s1"
      "deferred_ok s' = deferred_ok s1" and logs: "without_logs s' = without_logs s1"
    using assms(1) by (auto simp: CreateTask_def split: sum.splits prod.splits if_splits)
  from work have work: "create_work ports c request fp s = Inr ((fst out, snd out), s1)" and ok: "deferred_ok s1"
    by (simp_all add: Execute_ok_iff)
  from work show ?thesis
  proof (cases rule: create_work_cases)
    case (replayed stored)
    with assms(2) show ?thesis by simp
  next
    case (rejected code)
    with res show ?thesis by auto
  next
    case (created agent taskID runID executionID hash x s3)
    let ?now = "call_now c" and ?d = "ARC_TaskTimeout agent"
    have r: "TC_TaskID r = taskID" "TC_RunID r = runID" "TC_DeadlineAt r = ?now + ?d" "TC_QueuedAt r = ?now"
      using res created(11) by (auto split: if_splits)
    have rows: "\<And>k. task_row k s1 = (if k = taskID then Some (created_task request taskID runID ?now ?d) else task_row k s)"
      "\<And>k. run_row k s1 = (if k = taskID then Some (created_run taskID runID) else run_row k s)"
      "\<And>p. exec_row p s1 = (if p = (taskID, 1) then Some (created_execution taskID executionID 1 hash ?now) else exec_row p s)"
      "receipt_row (CTR_CommandID request) s1 = Some (create_receipt c request fp (fst out))"
      using created(1,11,14,15,16,17)
        row_appends(1) [of "created_task request taskID runID ?now ?d" s]
        row_appends(2) [of "created_run taskID runID" s]
        row_appends(3) [of "created_execution taskID executionID 1 hash ?now" s]
        row_appends(4) [of "create_receipt c request fp (fst out)" s]
      by (simp_all add: created_db_def task_row_def run_row_def exec_row_def receipt_row_def created_task_def
          created_run_def created_execution_def create_receipt_def Exec_key_def)
    have "db_logs s1 = db_logs s" "db_other s1 = x"
      using created(17) by (simp_all add: created_db_def)
    then have "s3 = s'\<lparr>db_receipts := db_receipts s, db_logs := db_logs s, db_other := db_other s\<rparr>" "x = db_other s'"
      using created(18) logs by (cases s'; cases s1; simp add: without_logs_def)+
    with created(9) r have saved: "SaveInitializationCheckpoint ports
        \<lparr>Save_TaskID = TC_TaskID r, Save_RunID = TC_RunID r, Save_ExecutionVersion = 1, Save_ExecutionConfigHash = hash\<rparr>
        (s'\<lparr>db_receipts := db_receipts s, db_logs := db_logs s, db_other := db_other s\<rparr>) = Inr (db_other s')"
      by simp
    show ?thesis
      using created(2-6,14-16) ok rows s' r saved
      by (intro exI [of _ agent] exI [of _ hash] exI [of _ executionID]) simp
  qed
qed

lemma deferred_ok_without_logs: "without_logs s = without_logs s' \<Longrightarrow> deferred_ok s = deferred_ok s'"
  by (rule deferred_ok_cong; cases s; cases s'; simp add: without_logs_def run_row_def exec_row_def)

lemma create_fingerprints_differ:
  assumes "CreateTask ports c request s = (res, s1)" and "receipt_row (CTR_CommandID request) s = None"
    and "receipt_row (CTR_CommandID request) s1 = Some stored"
    and "CTR_CommandID other = CTR_CommandID request" and "other \<noteq> request"
    and "json_digest ports (create_request_json other) = json_digest ports (create_request_json request) \<longrightarrow>
      create_request_json other = create_request_json request"
    and "createRequestFingerprint (json_digest ports) other = Inr fp"
  shows "Receipt_RequestFingerprint stored \<noteq> fp"
proof -
  obtain fp0 outcome where first: "createRequestFingerprint (json_digest ports) request = Inr fp0"
      "receipt_row (CTR_CommandID request) s1 = Some (create_receipt c request fp0 outcome)"
    by (rule CreateTask_first [OF assms(1,2)]) (use assms(3) in simp_all)
  have "create_request_json other \<noteq> create_request_json request"
    using assms(4,5) by (cases other, cases request) (simp add: create_request_json_def)
  then have "fp \<noteq> fp0"
    using assms(6,7) first(1) by (auto simp: createRequestFingerprint_def split: if_splits)
  with first(2) assms(3) show ?thesis by (simp add: create_receipt_def)
qed

text \<open>
  C9: A command identifier belongs to one request of one type. When a receipt with the identifier of a
  well-formed CreateTask request is stored, and it is the receipt of another type of command, or it was left
  by a CreateTask for another agent, input or operator whose fingerprint the digest tells apart, the call is
  answered with CommandConflict and changes nothing.
\<close>

theorem create_task_conflict:
  assumes "receipt_row (CTR_CommandID request) s = Some stored" and "deferred_ok s" and "call_fault c = None"
    and "createRequestFingerprint (json_digest ports) request = Inr fp"
    and "Receipt_CommandType stored \<noteq> CommandTypeCreate \<or>
      (\<exists>c0 earlier s0 res s1. CreateTask ports c0 earlier s0 = (res, s1) \<and> receipt_row (CTR_CommandID earlier) s0 = None \<and>
         receipt_row (CTR_CommandID earlier) s1 = Some stored \<and>
         CTR_CommandID request = CTR_CommandID earlier \<and> request \<noteq> earlier \<and>
         (json_digest ports (create_request_json request) = json_digest ports (create_request_json earlier) \<longrightarrow>
            create_request_json request = create_request_json earlier))"
  shows "CreateTask ports c request s = (Inl ErrCommandConflict, s)"
proof -
  have "Receipt_CommandType stored \<noteq> CommandTypeCreate \<or> Receipt_RequestFingerprint stored \<noteq> fp"
    using assms(5) create_fingerprints_differ [OF _ _ _ _ _ _ assms(4)] by blast
  then have "create_replay (json_digest ports) request stored = Inl ErrCommandConflict"
    using assms(4) by (auto simp: create_replay_def)
  then show ?thesis using CreateTask_replay [OF assms(1,3,2)] by simp
qed

subsection \<open>Concrete calls\<close>

definition sample_create :: CreateTaskRequest where
  "sample_create = \<lparr>CTR_CommandID = ''cmd'', CTR_AgentID = ''ops'', CTR_TaskInput = ''look'',
     CTR_OperatorID = ''alice''\<rparr>"

text \<open>A digest that tells requests apart by the length of the task input.\<close>

definition input_digest :: "json \<Rightarrow> string" where
  "input_digest j =
    (case j of JObj [_, (_, JStr input), _] \<Rightarrow> replicate 64 (if length input = 4 then CHR ''a'' else CHR ''b'') | _ \<Rightarrow> '''')"

lemma input_digest_valid: "validSHA256 (input_digest (create_request_json q))"
  by (simp add: input_digest_def create_request_json_def validSHA256_def hex_digit_def)

lemma sample_create_fingerprint [simp]:
  "createRequestFingerprint d sample_create = Inr (d (create_request_json sample_create))"
  by (simp add: createRequestFingerprint_def sample_create_def blank_def utf8_valid_def)

lemma empty_db_rows [simp]:
  "task_row k (empty_db x) = None" "run_row k (empty_db x) = None" "exec_row p (empty_db x) = None"
  "receipt_row c (empty_db x) = None"
  by (simp_all add: empty_db_def task_row_def run_row_def exec_row_def receipt_row_def)

lemma sample_create_work:
  assumes "validSHA256 (d (create_request_json sample_create))"
  shows "\<exists>s'. CreateTask (sample_ports\<lparr>json_digest := d\<rparr>) sample_call sample_create (empty_db ()) =
      (Inr \<lparr>TC_TaskID = ''task-1'', TC_RunID = ''run-1'', TC_Status = TaskStatusPending,
         TC_CurrentExecutionVersion = 1, TC_DeadlineAt = 6000, TC_QueuedAt = 2000\<rparr>, s') \<and>
     receipt_row ''cmd'' s' \<noteq> None \<and> deferred_ok s'"
proof -
  let ?ports = "sample_ports\<lparr>json_digest := d\<rparr>"
  let ?s' = "created_db sample_create (d (create_request_json sample_create)) sample_call sample_agent
      (''task-1'', ''run-1'', ''execution-1'') sample_hash () (empty_db ())"
  have checks: "Task_check (created_task sample_create ''task-1'' ''run-1'' 2000 4000)"
      "Run_check (created_run ''task-1'' ''run-1'')"
      "TaskExecution_check (created_execution ''task-1'' ''execution-1'' 1 sample_hash 2000)"
      "CommandReceipt_check (create_receipt sample_call sample_create (d (create_request_json sample_create))
         (created_response ''task-1'' ''run-1'' 2000 4000))"
    using assms by (simp_all add: Task_check_def Run_check_def TaskExecution_check_def CommandReceipt_check_def
        created_task_def created_run_def created_execution_def create_receipt_def sample_create_def valid_simps
        error_code_column_def is_object_def encode_create_response_def)
  have agent: "LookupAgent sample_ports ''ops'' = Some sample_agent"
    by (simp add: port_simps sample_agents_def)
  have "create_work ?ports sample_call sample_create (d (create_request_json sample_create)) (empty_db ()) =
      Inr ((created_response ''task-1'' ''run-1'' 2000 4000, True), ?s')"
    using checks
    by (simp add: create_work_def CommandReceiptRepository_Lock_def create_new_def port_simps sample_agents_def
        sample_create_def sample_agent_def sample_config_def sample_planner_limits_def sample_hasher_def
        CanCreateTask_def createIDs_def TaskRepository_Insert_def RunRepository_Insert_def
        TaskExecutionRepository_Insert_def save_port_def insertCreateReceipt_def CommandReceiptRepository_Insert_def
        created_db_def created_task_def created_run_def created_execution_def create_receipt_def
        empty_db_def task_row_def run_row_def exec_row_def receipt_row_def row_find_Cons Exec_key_def Let_def)
  moreover have "deferred_ok ?s'"
    by (simp add: deferred_ok_def created_db_def empty_db_def run_row_def exec_row_def row_find_Cons
        created_task_def created_run_def created_execution_def Exec_key_def)
  moreover have "receipt_row ''cmd'' ?s' \<noteq> None"
    by (simp add: created_db_def empty_db_def receipt_row_def row_find_Cons create_receipt_def sample_create_def)
  ultimately show ?thesis
    by (simp add: CreateTask_def Execute_def port_simps)
qed

theorem create_task_stores_one_queued_task_witness:
  "\<exists>s' r. CreateTask sample_ports sample_call sample_create (empty_db ()) = (Inr r, s') \<and>
     (\<exists>t. task_row (TC_TaskID r) s' = Some t \<and> Task_Status t = TaskStatusPending \<and> Task_QueuedAt t = Some 2000 \<and>
        Task_DeadlineAt t = 6000)"
proof -
  have eq: "sample_ports\<lparr>json_digest := (\<lambda>j. sample_hash)\<rparr> = sample_ports" by (simp add: sample_ports_def)
  obtain s' where s': "CreateTask sample_ports sample_call sample_create (empty_db ()) =
      (Inr \<lparr>TC_TaskID = ''task-1'', TC_RunID = ''run-1'', TC_Status = TaskStatusPending,
         TC_CurrentExecutionVersion = 1, TC_DeadlineAt = 6000, TC_QueuedAt = 2000\<rparr>, s')"
    using sample_create_work [of "\<lambda>j. sample_hash"] unfolding eq by auto
  show ?thesis
    using create_task_stores_one_queued_task [OF s'] s'
    by (auto simp: created_task_def port_simps)
qed

theorem create_task_is_idempotent_witness:
  "\<exists>s' r. CreateTask sample_ports sample_call sample_create (empty_db ()) = (Inr r, s') \<and>
     CreateTask (sample_ports\<lparr>LookupAgent := (\<lambda>a. None)\<rparr>) (sample_call\<lparr>call_now := 9000\<rparr>) sample_create s' = (Inr r, s')"
proof -
  have eq: "sample_ports\<lparr>json_digest := (\<lambda>j. sample_hash)\<rparr> = sample_ports" by (simp add: sample_ports_def)
  obtain s' r where s': "CreateTask sample_ports sample_call sample_create (empty_db ()) = (Inr r, s')"
      "receipt_row ''cmd'' s' \<noteq> None" "deferred_ok s'"
    using sample_create_work [of "\<lambda>j. sample_hash"] unfolding eq by auto
  have "CreateTask (sample_ports\<lparr>LookupAgent := (\<lambda>a. None)\<rparr>) (sample_call\<lparr>call_now := 9000\<rparr>) sample_create s' =
      (Inr r, s')"
    by (rule create_task_is_idempotent [OF s'(1) _ _ _ _ s'(3)])
      (use s' in \<open>simp_all add: port_simps sample_create_def deferred_ok_def empty_db_def\<close>)
  with s' show ?thesis by blast
qed

text \<open>A database with the receipt of a cancellation.\<close>

definition foreign_receipt :: CommandReceipt where
  "foreign_receipt = (create_receipt sample_call sample_create sample_hash (rejectedCreateReceipt ''InvalidArgument''))
     \<lparr>Receipt_CommandType := CommandTypeCancel\<rparr>"

definition foreign_receipt_db :: "unit db" where
  "foreign_receipt_db = (empty_db ())\<lparr>db_receipts := [foreign_receipt]\<rparr>"

lemma foreign_receipt_simps:
  "Receipt_CommandType foreign_receipt = CommandTypeCancel" "Receipt_CommandID foreign_receipt = CTR_CommandID sample_create"
  by (simp_all add: foreign_receipt_def create_receipt_def)

theorem create_task_conflict_witness:
  "CreateTask sample_ports sample_call sample_create foreign_receipt_db = (Inl ErrCommandConflict, foreign_receipt_db) \<and>
   (\<exists>s' r. CreateTask (sample_ports\<lparr>json_digest := input_digest\<rparr>) sample_call sample_create (empty_db ()) = (Inr r, s') \<and>
     CreateTask (sample_ports\<lparr>json_digest := input_digest\<rparr>) sample_call (sample_create\<lparr>CTR_TaskInput := ''other''\<rparr>) s' =
       (Inl ErrCommandConflict, s'))"
proof
  show "CreateTask sample_ports sample_call sample_create foreign_receipt_db = (Inl ErrCommandConflict, foreign_receipt_db)"
    by (rule create_task_conflict [of _ _ foreign_receipt])
      (simp_all add: foreign_receipt_db_def receipt_row_def row_find_Cons foreign_receipt_simps port_simps deferred_ok_def empty_db_def)
  let ?other = "sample_create\<lparr>CTR_TaskInput := ''other''\<rparr>"
  obtain s' r where s': "CreateTask (sample_ports\<lparr>json_digest := input_digest\<rparr>) sample_call sample_create (empty_db ()) = (Inr r, s')"
      "receipt_row ''cmd'' s' \<noteq> None" "deferred_ok s'"
    using sample_create_work [of input_digest] input_digest_valid by blast
  then obtain stored where stored: "receipt_row ''cmd'' s' = Some stored" by blast
  have fp: "createRequestFingerprint input_digest ?other = Inr (input_digest (create_request_json ?other))"
    by (simp add: createRequestFingerprint_def sample_create_def blank_def utf8_valid_def)
  have "input_digest (create_request_json ?other) \<noteq> input_digest (create_request_json sample_create)" "?other \<noteq> sample_create"
    by (simp_all add: sample_create_def input_digest_def create_request_json_def replicate_eq_replicate)
  then have "CreateTask (sample_ports\<lparr>json_digest := input_digest\<rparr>) sample_call ?other s' = (Inl ErrCommandConflict, s')"
    using stored fp s' by (intro create_task_conflict [of ?other s' stored]) (auto simp: port_simps sample_create_def intro!: exI)
  with s' show "\<exists>s' r. CreateTask (sample_ports\<lparr>json_digest := input_digest\<rparr>) sample_call sample_create (empty_db ()) = (Inr r, s') \<and>
     CreateTask (sample_ports\<lparr>json_digest := input_digest\<rparr>) sample_call (sample_create\<lparr>CTR_TaskInput := ''other''\<rparr>) s' =
       (Inl ErrCommandConflict, s')" by blast
qed

end
