(* ===== verification/Scenes.thy ===== *)
theory Scenes
  imports TaskLogs
begin

section \<open>Scenes: a Task with its Run and current execution\<close>

text \<open>
  The state machine the services of the Task Runtime drive together is not one of the four of the
  lifecycle policy but their product: a Task, its only Run, and its current TaskExecution, with the
  queue slot and the worker. \<open>scene_ok\<close> lists the combinations the program lets exist; the service
  theories show that each operation leads from such a scene to such a scene and touches no other
  task.
\<close>

definition scene :: "TaskID \<Rightarrow> 'x db \<Rightarrow> Task \<Rightarrow> Run \<Rightarrow> TaskExecution \<Rightarrow> bool" where
  "scene k s t r e \<longleftrightarrow> task_row k s = Some t \<and> run_row k s = Some r \<and>
     exec_row (k, Task_CurrentExecutionVersion t) s = Some e"

definition scene_ok :: "Task \<Rightarrow> Run \<Rightarrow> TaskExecution \<Rightarrow> bool" where
  "scene_ok t r e \<longleftrightarrow>
     Run_RunID r = Task_CurrentRunID t \<and> Task_QueuedAt t \<noteq> Some 0 \<and>
     (Task_QueuedAt t \<noteq> None \<longleftrightarrow> Exec_Status e = TaskExecutionStatusQueued) \<and>
     (case Exec_Status e of
        TaskExecutionStatusQueued \<Rightarrow> Exec_WorkerID e = None \<and>
          (Task_Status t = TaskStatusPending \<and> Run_Status r = RunStatusPending \<or>
           Task_Status t = TaskStatusRunning \<and> Run_Status r = RunStatusRunning)
      | TaskExecutionStatusRunning \<Rightarrow> Exec_WorkerID e \<noteq> None \<and>
          Task_Status t = TaskStatusRunning \<and> Run_Status r = RunStatusRunning
      | TaskExecutionStatusWaitingApproval \<Rightarrow> Exec_WorkerID e = None \<and>
          Task_Status t = TaskStatusWaitingApproval \<and> Run_Status r = RunStatusWaitingApproval
      | TaskExecutionStatusInterrupted \<Rightarrow>
          (Task_Status t = TaskStatusInterrupted \<or> Task_Status t = TaskStatusRunning) \<and>
          (Run_Status r = RunStatusPending \<or> Run_Status r = RunStatusRunning)
      | TaskExecutionStatusCompleted \<Rightarrow>
          Task_Status t = TaskStatusCompleted \<and> Run_Status r = RunStatusCompleted
      | TaskExecutionStatusFailed \<Rightarrow>
          (Task_Status t = TaskStatusFailed \<or> Task_Status t = TaskStatusCancelled) \<and> Run_Status r = RunStatusFailed
      | TaskExecutionStatusOther _ \<Rightarrow> False)"

definition scenes_ok :: "'x db \<Rightarrow> bool" where
  "scenes_ok s \<longleftrightarrow> (\<forall>k t. task_row k s = Some t \<longrightarrow> (\<exists>r e. scene k s t r e \<and> scene_ok t r e))"

text \<open>Everything that does not belong to task \<open>k\<close>, and the receipts, are as before.\<close>

definition elsewhere_same :: "TaskID \<Rightarrow> 'x db \<Rightarrow> 'x db \<Rightarrow> bool" where
  "elsewhere_same k s s' \<longleftrightarrow>
     (\<forall>k'. k' \<noteq> k \<longrightarrow> task_row k' s' = task_row k' s \<and> run_row k' s' = run_row k' s \<and>
        (\<forall>v. exec_row (k', v) s' = exec_row (k', v) s)) \<and>
     db_receipts s' = db_receipts s"

lemma elsewhere_same_refl [simp]: "elsewhere_same k s s"
  by (simp add: elsewhere_same_def)

lemma elsewhere_same_trans: "elsewhere_same k s s' \<Longrightarrow> elsewhere_same k s' s'' \<Longrightarrow> elsewhere_same k s s''"
  by (simp add: elsewhere_same_def)

lemma elsewhere_same_other [simp]: "elsewhere_same k s (s'\<lparr>db_other := x\<rparr>) = elsewhere_same k s s'"
  by (simp add: elsewhere_same_def)

lemma scene_other [simp]: "scene k (s\<lparr>db_other := x\<rparr>) t r e = scene k s t r e"
  by (simp add: scene_def)

lemma elsewhere_same_log [simp]:
  "elsewhere_same k s (appendTaskLogBestEffort out draft s') = elsewhere_same k s s'"
  by (simp add: elsewhere_same_def)

lemma scene_log [simp]: "scene k (appendTaskLogBestEffort out draft s) t r e = scene k s t r e"
  by (simp add: scene_def)

lemma scenes_ok_log [simp]: "scenes_ok (appendTaskLogBestEffort out draft s) = scenes_ok s"
  by (simp add: scenes_ok_def)

lemma scene_unique: "scene k s t r e \<Longrightarrow> scene k s t' r' e' \<Longrightarrow> t' = t \<and> r' = r \<and> e' = e"
  by (auto simp: scene_def)

lemma scene_keys:
  assumes "scene k s t r e"
  shows "Task_TaskID t = k" "Run_TaskID r = k" "Exec_TaskID e = k"
    "Exec_ExecutionVersion e = Task_CurrentExecutionVersion t"
  using assms row_keys(1) [of k s t] row_keys(2) [of k s r]
    row_keys(3) [of "(k, Task_CurrentExecutionVersion t)" s e]
  by (auto simp: scene_def Exec_key_def)

lemma scenes_okD: "scenes_ok s \<Longrightarrow> scene k s t r e \<Longrightarrow> scene_ok t r e"
  unfolding scenes_ok_def by (metis scene_def scene_unique)

lemma scenes_ok_step:
  assumes "scenes_ok s" and "elsewhere_same k s s'" and "scene k s' t r e" and "scene_ok t r e"
  shows "scenes_ok s'"
  unfolding scenes_ok_def
proof (intro allI impI)
  fix k' t'
  assume t': "task_row k' s' = Some t'"
  show "\<exists>r e. scene k' s' t' r e \<and> scene_ok t' r e"
  proof (cases "k' = k")
    case True
    with t' assms(3,4) show ?thesis by (auto simp: scene_def)
  next
    case False
    with t' assms(1,2) show ?thesis by (auto simp: scenes_ok_def scene_def elsewhere_same_def)
  qed
qed

lemma scenes_ok_cong:
  "(\<And>k. task_row k s' = task_row k s) \<Longrightarrow> (\<And>k. run_row k s' = run_row k s) \<Longrightarrow>
     (\<And>p. exec_row p s' = exec_row p s) \<Longrightarrow> scenes_ok s' = scenes_ok s"
  by (simp add: scenes_ok_def scene_def)

subsection \<open>The sample scenes\<close>

lemma sample_scene [simp]:
  "scene ''t1'' (sample_db ts rs es w q x) (sample_task ts q) (sample_run rs) (sample_execution es w)"
  by (simp add: scene_def) (simp add: sample_task_def)

lemma sample_scenes_ok:
  "scenes_ok (sample_db ts rs es w q x) = scene_ok (sample_task ts q) (sample_run rs) (sample_execution es w)"
  by (simp add: scenes_ok_def) (simp add: scene_def sample_task_def)

lemma queued_db_scenes [simp]: "scenes_ok queued_db"
  by (simp add: queued_db_def sample_scenes_ok) (simp add: scene_ok_def sample_defs)

lemma running_db_scenes [simp]: "scenes_ok running_db"
  by (simp add: running_db_def sample_scenes_ok) (simp add: scene_ok_def sample_defs)

text \<open>The invariant of the database between transactions.\<close>

definition runtime_inv :: "'x db \<Rightarrow> bool" where
  "runtime_inv s \<longleftrightarrow> schema_ok s \<and> deferred_ok s \<and> scenes_ok s"

lemma deferred_ok_scenes: "schema_ok s \<Longrightarrow> scenes_ok s \<Longrightarrow> deferred_ok s"
  unfolding deferred_ok_def
proof
  fix t
  assume "schema_ok s" and ok: "scenes_ok s" and t: "t \<in> set (db_tasks s)"
  then have "task_row (Task_TaskID t) s = Some t"
    using row_find_distinct [of Task_TaskID "db_tasks s" t] by (simp add: schema_ok_def task_row_def)
  with ok obtain r e where "scene (Task_TaskID t) s t r e" "scene_ok t r e" unfolding scenes_ok_def by blast
  then show "(case run_row (Task_TaskID t) s of None \<Rightarrow> False | Some r \<Rightarrow> Run_RunID r = Task_CurrentRunID t) \<and>
      exec_row (Task_TaskID t, Task_CurrentExecutionVersion t) s \<noteq> None"
    by (simp add: scene_def scene_ok_def)
qed

lemma runtime_invI: "schema_ok s \<Longrightarrow> scenes_ok s \<Longrightarrow> runtime_inv s"
  by (simp add: runtime_inv_def deferred_ok_scenes)

lemma runtime_inv_log: "runtime_inv s \<Longrightarrow> runtime_inv (appendTaskLogBestEffort out draft s)"
  using schema_statements [OF log_append_statements] by (auto simp: runtime_inv_def)

lemma runtime_inv_queued_db [simp]: "runtime_inv queued_db"
  using queued_db_schema by (simp add: runtime_inv_def queued_db_scenes) (simp add: queued_db_def)

lemma runtime_inv_running_db [simp]: "runtime_inv running_db"
proof (rule runtime_invI)
  show "schema_ok running_db"
    by (simp add: schema_ok_def sample_defs Task_check_def Run_check_def TaskExecution_check_def
        TaskExecution_check_def valid_simps is_object_def error_code_column_def)
qed (rule running_db_scenes)

subsection \<open>Updates of a scene\<close>

text \<open>An update that expects the scene it meets, and leaves a legal row, hits.\<close>

lemma exec_update_ok:
  assumes "scene k s t r e" and "EU_key u = (k, Task_CurrentExecutionVersion t)"
    and "EU_ExpectedStatus u = Exec_Status e" and "EU_ExpectedWorkerID u = Exec_WorkerID e"
    and "EU_ObservedConfigHash u = None \<or> Exec_ObservedConfigHash e = None \<and>
      EU_Status u = TaskExecutionStatusInterrupted \<and> EU_ErrorCode u = Some ErrorCodeConfigVersionMismatch"
    and "TaskExecution_check (TaskExecutionUpdate_patch u e)"
  shows "\<exists>s'. TaskExecutionRepository_Update u s = Inr (True, s')"
  using assms by (auto simp: exec_update_True_iff scene_def TaskExecutionUpdate_hits_def EU_key_def)

lemma run_update_ok:
  assumes "scene k s t r e" and "RU_TaskID u = k" and "RU_RunID u = Run_RunID r"
    and "Run_RunID r = Task_CurrentRunID t" and "RU_ExecutionVersion u = Task_CurrentExecutionVersion t"
    and "RU_ExpectedStatus u = Run_Status r" and "Run_check (RunUpdate_patch u r)"
  shows "\<exists>s'. RunRepository_Update u s = Inr (True, s')"
  using assms by (auto simp: run_update_True_iff scene_def RunUpdate_hits_def)

lemma task_update_ok:
  assumes "scene k s t r e" and "TU_TaskID u = k" and "TU_ExpectedStatus u = Task_Status t"
    and "TU_ExpectedCurrentExecutionVersion u = Task_CurrentExecutionVersion t"
    and "Task_check (TaskUpdate_patch u t)"
  shows "\<exists>s'. TaskRepository_Update u s = Inr (True, s')"
  using assms by (auto simp: task_update_True_iff scene_def TaskUpdate_hits_def)

lemma exec_patch_keeping:
  "EU_ObservedConfigHash u = None \<Longrightarrow> TaskExecutionUpdate_patch u e = e\<lparr>Exec_Status := EU_Status u,
     Exec_WorkerID := EU_WorkerID u, Exec_ErrorCode := EU_ErrorCode u, Exec_InvariantCode := EU_InvariantCode u,
     Exec_TerminationReason := EU_TerminationReason u, Exec_StartedAt := EU_StartedAt u,
     Exec_EndedAt := EU_EndedAt u\<rparr>"
  by (cases e) (simp add: TaskExecutionUpdate_patch_def split: option.splits)

lemma exec_update_scene:
  assumes "TaskExecutionRepository_Update u s = Inr (True, s')" and "scene k s t r e"
    and "EU_key u = (k, Task_CurrentExecutionVersion t)"
  shows "scene k s' t r (TaskExecutionUpdate_patch u e) \<and> elsewhere_same k s s' \<and>
    TaskExecutionUpdate_hits u s e \<and> TaskExecution_check (TaskExecutionUpdate_patch u e)"
  using assms exec_update_rows [OF assms(1)] update_frames(3) [OF assms(1)]
  by (auto simp: scene_def elsewhere_same_def task_row_def run_row_def exec_update_True_iff
      simp del: split_paired_All)

lemma run_update_scene:
  assumes "RunRepository_Update u s = Inr (True, s')" and "scene k s t r e" and "RU_TaskID u = k"
  shows "scene k s' t (RunUpdate_patch u r) e \<and> elsewhere_same k s s' \<and>
    RunUpdate_hits u s r \<and> Run_check (RunUpdate_patch u r)"
  using assms run_update_rows [OF assms(1)] update_frames(2) [OF assms(1)]
  by (auto simp: scene_def elsewhere_same_def task_row_def exec_row_def run_update_True_iff)

lemma task_update_scene:
  assumes "TaskRepository_Update u s = Inr (True, s')" and "scene k s t r e" and "TU_TaskID u = k"
    and "TU_CurrentExecutionVersion u = Task_CurrentExecutionVersion t"
  shows "scene k s' (TaskUpdate_patch u t) r e \<and> elsewhere_same k s s' \<and>
    TaskUpdate_hits u t \<and> Task_check (TaskUpdate_patch u t)"
  using assms task_update_rows [OF assms(1)] update_frames(1) [OF assms(1)]
  by (auto simp: scene_def elsewhere_same_def run_row_def exec_row_def task_update_True_iff TaskUpdate_patch_def)

lemma report_scene:
  assumes "ensurePendingReport ports k' rid now s = Inr s'"
  shows "scene k s' = scene k s \<and> elsewhere_same k s s' \<and> statement\<^sup>*\<^sup>* s s'"
  using ensurePendingReport_frame [OF assms] by (auto simp: fun_eq_iff intro: other_module)

lemma scene_checks:
  assumes "schema_ok s" and "scene k s t r e"
  shows "Task_check t" "Run_check r" "TaskExecution_check e"
  using assms row_find_SomeD [of Task_TaskID k "db_tasks s" t] row_find_SomeD [of Run_TaskID k "db_runs s" r]
    row_find_SomeD [of Exec_key "(k, Task_CurrentExecutionVersion t)" "db_executions s" e]
  by (auto simp: schema_ok_def scene_def task_row_def run_row_def exec_row_def list_all_iff)

text \<open>A clock reading that is not before any instant the scene already records.\<close>

definition clock_after :: "time \<Rightarrow> Task \<Rightarrow> TaskExecution \<Rightarrow> bool" where
  "clock_after now t e \<longleftrightarrow> Task_CreatedAt t \<le> now \<and> not_before (Some now) (Exec_CreatedAt e) \<and>
     (case Task_StartedAt t of None \<Rightarrow> True | Some x \<Rightarrow> x \<le> now) \<and>
     (case Exec_StartedAt e of None \<Rightarrow> True | Some x \<Rightarrow> x \<le> now)"

subsection \<open>Receipts beside a scene\<close>

text \<open>Everything that belongs to other tasks is as before; receipts may have been added.\<close>

definition others_same :: "TaskID \<Rightarrow> 'x db \<Rightarrow> 'x db \<Rightarrow> bool" where
  "others_same k s s' \<longleftrightarrow> (\<forall>k'. k' \<noteq> k \<longrightarrow> task_row k' s' = task_row k' s \<and> run_row k' s' = run_row k' s \<and>
     (\<forall>v. exec_row (k', v) s' = exec_row (k', v) s))"

lemma others_same_refl [simp]: "others_same k s s"
  by (simp add: others_same_def)

lemma elsewhere_others: "elsewhere_same k s s' \<Longrightarrow> others_same k s s'"
  by (simp add: elsewhere_same_def others_same_def)

lemma others_same_trans: "others_same k s s' \<Longrightarrow> others_same k s' s'' \<Longrightarrow> others_same k s s''"
  by (simp add: others_same_def)

lemma others_same_log [simp]: "others_same k s (appendTaskLogBestEffort out draft s') = others_same k s s'"
  by (simp add: others_same_def)

lemma receipt_scene:
  assumes "CommandReceiptRepository_Insert rc s = Inr s'"
  shows "scene k s' = scene k s" "others_same k s s'" "statement\<^sup>*\<^sup>* s s'" "scenes_ok s' = scenes_ok s"
    "receipt_row (Receipt_CommandID rc) s' = Some rc" "receipt_row (Receipt_CommandID rc) s = None"
proof -
  have s': "s' = s\<lparr>db_receipts := db_receipts s @ [rc]\<rparr>" and none: "receipt_row (Receipt_CommandID rc) s = None"
    using assms by (simp_all add: receipt_insert_iff)
  show "receipt_row (Receipt_CommandID rc) s' = Some rc" using row_appends(4) [OF none] s' by simp
  show "scene k s' = scene k s" "others_same k s s'" "scenes_ok s' = scenes_ok s"
    by (simp_all add: s' fun_eq_iff scene_def others_same_def scenes_ok_def task_row_def run_row_def exec_row_def)
  show "statement\<^sup>*\<^sup>* s s'" using insert_receipt [OF assms] by blast
qed (use assms in \<open>simp add: receipt_insert_iff\<close>)

lemma receipt_inv: "CommandReceiptRepository_Insert rc s = Inr s' \<Longrightarrow> runtime_inv s \<Longrightarrow> runtime_inv s'"
  using receipt_scene(3,4) [of rc s s'] schema_statements [of s s']
  by (auto simp: runtime_inv_def deferred_ok_scenes)

end
