(* ===== verification/ClaimTask.thy ===== *)
theory ClaimTask
  imports Scenes
begin

section \<open>ClaimNextExecution\<close>

text \<open>
  \<open>internal/taskruntime/claim.go\<close>: one transaction that takes the head of the queue and, in this
  order, fails an inconsistent scene, fails an expired one, fails a broken checkpoint, interrupts on
  a configuration mismatch, or hands the execution to the worker. When a conditional update of that
  transaction misses, a second transaction finds out why.
\<close>

record claimFacts =
  CF_task :: Task
  CF_run :: Run
  CF_execution :: TaskExecution

definition persistenceTargetError :: "GoError \<Rightarrow> GoError" where
  "persistenceTargetError err = (if err = ErrRepositoryNotFound then ErrPersistenceInvariantViolation else err)"

definition target :: "GoError + 'a \<Rightarrow> GoError + 'a" where
  "target m = (case m of Inl err \<Rightarrow> Inl (persistenceTargetError err) | Inr a \<Rightarrow> Inr a)"

lemma target_iff [simp]: "target m = Inr a \<longleftrightarrow> m = Inr a"
  by (cases m) (simp_all add: target_def)

lemma target_Inr [simp]: "target (Inr a) = Inr a"
  by (simp add: target_def)

definition lockClaimFacts :: "QueueCandidate \<Rightarrow> 'x db \<Rightarrow> GoError + claimFacts" where
  "lockClaimFacts candidate s =
    attempt (target (TaskRepository_Lock (QC_TaskID candidate) s)) (\<lambda>task.
    attempt (target (RunRepository_LockByTask (QC_TaskID candidate) s)) (\<lambda>run.
    attempt (target (TaskExecutionRepository_LockByTaskVersion (QC_TaskID candidate)
      (Task_CurrentExecutionVersion task) s)) (\<lambda>execution.
      Inr \<lparr>CF_task = task, CF_run = run, CF_execution = execution\<rparr>)))"

text \<open>The empty invariant code is \<open>None\<close>; a zero candidate queue time is \<open>IsZero\<close>.\<close>

definition validateClaimFacts :: "QueueCandidate \<Rightarrow> claimFacts \<Rightarrow> InvariantCode option" where
  "validateClaimFacts candidate facts =
    (let task = CF_task facts; run = CF_run facts; execution = CF_execution facts in
     if Task_TaskID task \<noteq> QC_TaskID candidate \<or> Task_CurrentRunID task \<noteq> QC_RunID candidate
        \<or> Run_TaskID run \<noteq> Task_TaskID task \<or> Run_RunID run \<noteq> Task_CurrentRunID task
        \<or> Exec_TaskID execution \<noteq> Task_TaskID task
        \<or> Exec_ExecutionVersion execution \<noteq> Task_CurrentExecutionVersion task
        \<or> QC_ExecutionVersion candidate \<noteq> Task_CurrentExecutionVersion task
     then Some InvariantCodeCurrentExecutionInvalid
     else if Task_QueuedAt task = None \<or> IsZero (QC_QueuedAt candidate)
        \<or> Exec_Status execution \<noteq> TaskExecutionStatusQueued \<or> Exec_WorkerID execution \<noteq> None
        \<or> QC_ExecutionStatus candidate \<noteq> TaskExecutionStatusQueued
     then Some InvariantCodeQueueStateInvalid
     else if QC_TaskStatus candidate \<noteq> Task_Status task then Some InvariantCodeQueueStateInvalid
     else
       (case Task_Status task of
          TaskStatusPending \<Rightarrow>
            if Run_Status run \<noteq> RunStatusPending then Some InvariantCodeCrossObjectStateInvalid else None
        | TaskStatusRunning \<Rightarrow>
            if Run_Status run \<noteq> RunStatusRunning then Some InvariantCodeCrossObjectStateInvalid else None
        | _ \<Rightarrow> Some InvariantCodeQueueStateInvalid))"

definition classifyClaimSource :: "claimFacts \<Rightarrow> InvariantCode + ClaimCheckpointSource" where
  "classifyClaimSource facts =
    (let task = CF_task facts; run = CF_run facts; execution = CF_execution facts in
     if Run_CurrentStepID run \<noteq> None \<and> Run_PlanID run = None then Inl InvariantCodeCrossObjectStateInvalid
     else if Exec_ExecutionVersion execution = 1 \<and> Exec_StartedAt execution = None
        \<and> Task_StartedAt task = None \<and> Run_StartedAt run = None
        \<and> Run_PlanID run = None \<and> Run_CurrentStepID run = None
     then Inr ClaimCheckpointSourceInitial
     else if Run_PlanID run \<noteq> None \<and> Run_CurrentStepID run = None
     then Inl InvariantCodeClaimSourceAmbiguous
     else Inr ClaimCheckpointSourceContinuation)"

text \<open>A valid checkpoint, or \<open>None\<close> where the code reports it invalid.\<close>

definition validatedClaimCheckpoint ::
    "ClaimCheckpointResult \<Rightarrow> claimFacts \<Rightarrow> GoError + RuntimeCheckpoint option" where
  "validatedClaimCheckpoint result facts =
    (case result of
       ClaimCheckpointValid checkpoint \<Rightarrow>
         if RC_CheckpointID checkpoint = '''' \<or> RC_CheckpointSequence checkpoint \<le> 0
            \<or> RC_TaskID checkpoint \<noteq> Task_TaskID (CF_task facts)
            \<or> RC_RunID checkpoint \<noteq> Run_RunID (CF_run facts)
            \<or> RC_ExecutionVersion checkpoint \<noteq> Exec_ExecutionVersion (CF_execution facts)
            \<or> \<not> ExecutionConfigHash_Valid (RC_ExecutionConfigHash checkpoint)
            \<or> \<not> CheckpointNextAction_Valid (RC_NextAction checkpoint)
         then Inr None else Inr (Some checkpoint)
     | ClaimCheckpointInvalid reason \<Rightarrow>
         if \<not> ReasonCode_ValidForCheckpointInvalid reason then Inl ErrPersistenceInvariantViolation
         else Inr None)"

subsection \<open>The writes\<close>

text \<open>A conditional update must hit, otherwise the claim condition was missed.\<close>

definition must_hit :: "GoError \<Rightarrow> GoError + bool \<times> 'x db \<Rightarrow> GoError + 'x db" where
  "must_hit miss m = attempt m (\<lambda>(updated, s). if \<not> updated then Inl miss else Inr s)"

lemma must_hit_iff [simp]: "must_hit miss m = Inr s \<longleftrightarrow> m = Inr (True, s)"
  by (auto simp: must_hit_def split: prod.splits if_splits)

definition lifecycle_ok :: "string \<Rightarrow> Decision \<Rightarrow> GoError + unit" where
  "lifecycle_ok what decision = require (Allowed decision) (ErrLifecycle what (Reason decision))"

lemma lifecycle_ok_iff [simp]: "lifecycle_ok what d = Inr u \<longleftrightarrow> Allowed d"
  by (simp add: lifecycle_ok_def)

definition or_now :: "time option \<Rightarrow> time \<Rightarrow> time option" where
  "or_now t now = (case t of None \<Rightarrow> Some now | Some u \<Rightarrow> Some u)"

definition nonNilJSONObject :: "json option \<Rightarrow> json option" where
  "nonNilJSONObject j = (case j of None \<Rightarrow> Some (JObj []) | Some v \<Rightarrow> Some v)"

text \<open>The conditional updates, field by field.\<close>

definition commit_execution_update :: "claimFacts \<Rightarrow> time \<Rightarrow> WorkerID \<Rightarrow> TaskExecutionUpdate" where
  "commit_execution_update facts now workerID =
    (let task = CF_task facts; run = CF_run facts; execution = CF_execution facts in
     \<lparr>EU_TaskID = Task_TaskID task, EU_ExecutionVersion = Exec_ExecutionVersion execution,
      EU_ExpectedStatus = Exec_Status execution, EU_ExpectedWorkerID = Exec_WorkerID execution,
      EU_Status = TaskExecutionStatusRunning, EU_WorkerID = Some workerID, EU_ObservedConfigHash = None,
      EU_ErrorCode = None, EU_InvariantCode = None, EU_TerminationReason = None,
      EU_StartedAt = or_now (Exec_StartedAt execution) now, EU_EndedAt = None\<rparr>)"

definition commit_run_update :: "claimFacts \<Rightarrow> time \<Rightarrow> RunUpdate" where
  "commit_run_update facts now =
    (let task = CF_task facts; run = CF_run facts; execution = CF_execution facts in
     \<lparr>RU_TaskID = Task_TaskID task, RU_RunID = Run_RunID run,
      RU_ExecutionVersion = Exec_ExecutionVersion execution, RU_ExpectedStatus = Run_Status run,
      RU_Status = RunStatusRunning, RU_PlanID = Run_PlanID run,
      RU_CurrentStepID = Run_CurrentStepID run, RU_Context = Run_Context run,
      RU_ErrorCode = Run_ErrorCode run, RU_StartedAt = or_now (Run_StartedAt run) now,
      RU_EndedAt = Run_EndedAt run\<rparr>)"

definition commit_task_update :: "claimFacts \<Rightarrow> time \<Rightarrow> TaskStatus \<Rightarrow> TaskUpdate" where
  "commit_task_update facts now taskStatus =
    (let task = CF_task facts; run = CF_run facts; execution = CF_execution facts in
     \<lparr>TU_TaskID = Task_TaskID task, TU_ExpectedStatus = Task_Status task,
      TU_ExpectedCurrentExecutionVersion = Task_CurrentExecutionVersion task,
      TU_Status = taskStatus, TU_CurrentExecutionVersion = Task_CurrentExecutionVersion task,
      TU_ResultSummary = Task_ResultSummary task, TU_ErrorCode = Task_ErrorCode task, TU_QueuedAt = None,
      TU_StartedAt =
      (if Task_Status task = TaskStatusPending then or_now (Task_StartedAt task) now else Task_StartedAt task),
      TU_EndedAt = Task_EndedAt task\<rparr>)"

definition mismatch_execution_update :: "claimFacts \<Rightarrow> time \<Rightarrow> ExecutionConfigHash \<Rightarrow> TaskExecutionUpdate" where
  "mismatch_execution_update facts now observedHash =
    (let task = CF_task facts; run = CF_run facts; execution = CF_execution facts in
     \<lparr>EU_TaskID = Task_TaskID task, EU_ExecutionVersion = Exec_ExecutionVersion execution,
      EU_ExpectedStatus = Exec_Status execution, EU_ExpectedWorkerID = Exec_WorkerID execution,
      EU_Status = TaskExecutionStatusInterrupted, EU_WorkerID = None,
      EU_ObservedConfigHash = Some observedHash, EU_ErrorCode = Some ErrorCodeConfigVersionMismatch,
      EU_InvariantCode = None, EU_TerminationReason = None,
      EU_StartedAt = Exec_StartedAt execution, EU_EndedAt = Some now\<rparr>)"

definition mismatch_task_update :: "claimFacts \<Rightarrow> TaskUpdate" where
  "mismatch_task_update facts =
    (let task = CF_task facts; run = CF_run facts; execution = CF_execution facts in
     \<lparr>TU_TaskID = Task_TaskID task, TU_ExpectedStatus = Task_Status task,
      TU_ExpectedCurrentExecutionVersion = Task_CurrentExecutionVersion task,
      TU_Status = TaskStatusInterrupted, TU_CurrentExecutionVersion = Task_CurrentExecutionVersion task,
      TU_ResultSummary = Task_ResultSummary task, TU_ErrorCode = Some ErrorCodeConfigVersionMismatch,
      TU_QueuedAt = None, TU_StartedAt = Task_StartedAt task, TU_EndedAt = Task_EndedAt task\<rparr>)"

definition terminal_execution_update :: "claimFacts \<Rightarrow> time \<Rightarrow> ErrorCode \<Rightarrow> InvariantCode option \<Rightarrow> TerminationReason option \<Rightarrow> TaskExecutionUpdate" where
  "terminal_execution_update facts now errorCode invariantCode terminationReason =
    (let task = CF_task facts; run = CF_run facts; execution = CF_execution facts in
     \<lparr>EU_TaskID = Task_TaskID task, EU_ExecutionVersion = Exec_ExecutionVersion execution,
      EU_ExpectedStatus = Exec_Status execution, EU_ExpectedWorkerID = Exec_WorkerID execution,
      EU_Status = TaskExecutionStatusFailed, EU_WorkerID = None, EU_ObservedConfigHash = None,
      EU_ErrorCode = Some errorCode, EU_InvariantCode = invariantCode,
      EU_TerminationReason = terminationReason, EU_StartedAt = Exec_StartedAt execution,
      EU_EndedAt = Some now\<rparr>)"

definition terminal_run_update :: "claimFacts \<Rightarrow> time \<Rightarrow> ErrorCode \<Rightarrow> RunUpdate" where
  "terminal_run_update facts now errorCode =
    (let task = CF_task facts; run = CF_run facts; execution = CF_execution facts in
     \<lparr>RU_TaskID = Task_TaskID task, RU_RunID = Run_RunID run,
      RU_ExecutionVersion = Exec_ExecutionVersion execution, RU_ExpectedStatus = Run_Status run,
      RU_Status = RunStatusFailed, RU_PlanID = Run_PlanID run, RU_CurrentStepID = Run_CurrentStepID run,
      RU_Context = nonNilJSONObject (Run_Context run), RU_ErrorCode = Some errorCode,
      RU_StartedAt = Run_StartedAt run, RU_EndedAt = Some now\<rparr>)"

definition terminal_task_update :: "claimFacts \<Rightarrow> time \<Rightarrow> ErrorCode \<Rightarrow> TaskUpdate" where
  "terminal_task_update facts now errorCode =
    (let task = CF_task facts; run = CF_run facts; execution = CF_execution facts in
     \<lparr>TU_TaskID = Task_TaskID task, TU_ExpectedStatus = Task_Status task,
      TU_ExpectedCurrentExecutionVersion = Task_CurrentExecutionVersion task,
      TU_Status = TaskStatusFailed, TU_CurrentExecutionVersion = Task_CurrentExecutionVersion task,
      TU_ResultSummary = Task_ResultSummary task, TU_ErrorCode = Some errorCode, TU_QueuedAt = None,
      TU_StartedAt = Task_StartedAt task, TU_EndedAt = Some now\<rparr>)"

lemmas claim_updates = commit_execution_update_def commit_run_update_def commit_task_update_def
  mismatch_execution_update_def mismatch_task_update_def terminal_execution_update_def
  terminal_run_update_def terminal_task_update_def

definition commitClaim :: "claimFacts \<Rightarrow> time \<Rightarrow> WorkerID \<Rightarrow> 'x db \<Rightarrow> GoError + 'x db" where
  "commitClaim facts now workerID s =
    (let task = CF_task facts; run = CF_run facts; execution = CF_execution facts in
     attempt (lifecycle_ok ''validate Claim Execution lifecycle''
       (CanExecutionTransition (Exec_Status execution) TaskExecutionStatusRunning)) (\<lambda>_.
     attempt (must_hit errClaimConditionMiss (TaskExecutionRepository_Update
       (commit_execution_update facts now workerID) s)) (\<lambda>s.
     attempt
       (if Run_Status run = RunStatusPending then
          attempt (lifecycle_ok ''validate Claim Run lifecycle''
            (CanRunTransition (Run_Status run) RunStatusRunning)) (\<lambda>_.
          must_hit errClaimConditionMiss (RunRepository_Update
            (commit_run_update facts now) s))
        else Inr s) (\<lambda>s.
     attempt
       (if Task_Status task = TaskStatusPending then
          attempt (lifecycle_ok ''validate Claim Task lifecycle''
            (CanTaskTransition (Task_Status task) TaskStatusRunning)) (\<lambda>_. Inr TaskStatusRunning)
        else Inr (Task_Status task)) (\<lambda>taskStatus.
     must_hit errClaimConditionMiss (TaskRepository_Update
       (commit_task_update facts now taskStatus) s))))))"

definition claim_report :: "'x Ports \<Rightarrow> claimFacts \<Rightarrow> time \<Rightarrow> 'x db \<Rightarrow> GoError + 'x db" where
  "claim_report ports facts now s =
    ensurePendingReport ports (Task_TaskID (CF_task facts)) (Run_RunID (CF_run facts)) now s"

definition interruptConfigMismatch ::
    "'x Ports \<Rightarrow> claimFacts \<Rightarrow> time \<Rightarrow> ExecutionConfigHash \<Rightarrow> 'x db \<Rightarrow> GoError + 'x db" where
  "interruptConfigMismatch ports facts now observedHash s =
    (let task = CF_task facts; run = CF_run facts; execution = CF_execution facts in
     attempt (lifecycle_ok ''validate config mismatch Execution lifecycle''
       (CanExecutionTransition (Exec_Status execution) TaskExecutionStatusInterrupted)) (\<lambda>_.
     attempt (must_hit errClaimConditionMiss (TaskExecutionRepository_Update
       (mismatch_execution_update facts now observedHash) s)) (\<lambda>s.
     attempt (lifecycle_ok ''validate config mismatch Task lifecycle''
       (CanTaskTransition (Task_Status task) TaskStatusInterrupted)) (\<lambda>_.
     attempt (must_hit errClaimConditionMiss (TaskRepository_Update
       (mismatch_task_update facts) s)) (\<lambda>s.
     claim_report ports facts now s)))))"

definition terminalizeClaim ::
    "'x Ports \<Rightarrow> claimFacts \<Rightarrow> time \<Rightarrow> ErrorCode \<Rightarrow> InvariantCode option \<Rightarrow> TerminationReason option \<Rightarrow>
     'x db \<Rightarrow> GoError + 'x db" where
  "terminalizeClaim ports facts now errorCode invariantCode terminationReason s =
    (let task = CF_task facts; run = CF_run facts; execution = CF_execution facts in
     attempt (lifecycle_ok ''validate terminal Claim Execution lifecycle''
       (CanExecutionTransition (Exec_Status execution) TaskExecutionStatusFailed)) (\<lambda>_.
     attempt (must_hit errClaimConditionMiss (TaskExecutionRepository_Update
       (terminal_execution_update facts now errorCode invariantCode terminationReason) s)) (\<lambda>s.
     attempt (lifecycle_ok ''validate terminal Claim Run lifecycle''
       (CanRunTransition (Run_Status run) RunStatusFailed)) (\<lambda>_.
     attempt (must_hit errClaimConditionMiss (RunRepository_Update
       (terminal_run_update facts now errorCode) s)) (\<lambda>s.
     attempt (lifecycle_ok ''validate terminal Claim Task lifecycle''
       (CanTaskTransition (Task_Status task) TaskStatusFailed)) (\<lambda>_.
     attempt (must_hit errClaimConditionMiss (TaskRepository_Update
       (terminal_task_update facts now errorCode) s)) (\<lambda>s.
     claim_report ports facts now s)))))))"

subsection \<open>The claim transaction\<close>

definition config_source ::
    "string \<Rightarrow> 'x Ports \<Rightarrow> claimFacts \<Rightarrow> GoError + ExecutionConfigHash" where
  "config_source what ports facts =
    (case LookupAgent ports (Task_AgentID (CF_task facts)) of
       None \<Rightarrow> Inl (ErrText what)
     | Some agent \<Rightarrow>
         if \<not> agent_enabled agent \<or> agent_id_of agent \<noteq> Task_AgentID (CF_task facts) then Inl (ErrText what)
         else
           attempt (HashExecutionConfigV1 ports (ARC_ExecutionConfig agent)) (\<lambda>currentHash.
             if \<not> ExecutionConfigHash_Valid (Exec_ExecutionConfigHash (CF_execution facts))
             then Inl ErrPersistenceInvariantViolation else Inr currentHash))"

definition claim_facts_work ::
    "'x Ports \<Rightarrow> time \<Rightarrow> WorkerID \<Rightarrow> QueueCandidate \<Rightarrow> claimFacts \<Rightarrow> 'x db \<Rightarrow> GoError + ClaimResult \<times> 'x db" where
  "claim_facts_work ports now workerID candidate facts s =
    (let task = CF_task facts; run = CF_run facts; execution = CF_execution facts;
         inconsistent = (\<lambda>invariant.
           attempt (terminalizeClaim ports facts now ErrorCodeDataInconsistent (Some invariant) None s) (\<lambda>s.
             Inr (ClaimResultDataInconsistentTerminalized, s)))
     in
     case validateClaimFacts candidate facts of
       Some invariant \<Rightarrow> inconsistent invariant
     | None \<Rightarrow>
         if \<not> now < Task_DeadlineAt task then
           attempt (terminalizeClaim ports facts now ErrorCodeTaskTimeout None (Some TerminationReasonTimedOut) s)
             (\<lambda>s. Inr (ClaimResultExpiredTerminalized, s))
         else
           (case classifyClaimSource facts of
              Inl invariant \<Rightarrow> inconsistent invariant
            | Inr source \<Rightarrow>
                attempt (LoadLatestForClaim ports (Task_TaskID task) (Run_RunID run)
                  (Exec_ExecutionVersion execution) source s) (\<lambda>checkpointResult.
                attempt (validatedClaimCheckpoint checkpointResult facts) (\<lambda>validated.
                case validated of
                  None \<Rightarrow>
                    attempt (terminalizeClaim ports facts now ErrorCodeCheckpointInvalid None None s)
                      (\<lambda>s. Inr (ClaimResultCheckpointInvalidTerminalized, s))
                | Some checkpoint \<Rightarrow>
                    attempt (config_source
                      ''claim next execution: validated runtime Agent configuration is unavailable'' ports facts)
                      (\<lambda>currentHash.
                    if Exec_ExecutionConfigHash execution \<noteq> RC_ExecutionConfigHash checkpoint
                       \<or> Exec_ExecutionConfigHash execution \<noteq> currentHash
                    then attempt (interruptConfigMismatch ports facts now currentHash s)
                           (\<lambda>s. Inr (ClaimResultConfigMismatchInterrupted, s))
                    else
                      attempt (commitClaim facts now workerID s) (\<lambda>s.
                      attempt
                        (if Run_PlanID run = None
                            \<and> (source = ClaimCheckpointSourceInitial \<or> RC_SourceExecutionVersion checkpoint \<noteq> None)
                         then save_port (SaveGeneratePlanExecutionCheckpoint ports
                                \<lparr>Save_TaskID = Task_TaskID task, Save_RunID = Run_RunID run,
                                 Save_ExecutionVersion = Exec_ExecutionVersion execution,
                                 Save_ExecutionConfigHash = Exec_ExecutionConfigHash execution\<rparr> s) s
                         else Inr s) (\<lambda>s.
                      Inr (ClaimResultClaimed
                        \<lparr>Claim_TaskID = Task_TaskID task, Claim_RunID = Run_RunID run,
                         Claim_ExecutionVersion = Exec_ExecutionVersion execution, Claim_WorkerID = workerID,
                         Claim_ClaimedAt = now\<rparr>, s))))))))"

definition claim_work :: "'x Ports \<Rightarrow> time \<Rightarrow> WorkerID \<Rightarrow> 'x db \<Rightarrow> GoError + ClaimResult \<times> 'x db" where
  "claim_work ports now workerID s =
    (case TaskRepository_LockNextQueueCandidate s of
       Inl err \<Rightarrow> if err = ErrRepositoryNotFound then Inr (ClaimResultNoWork, s) else Inl err
     | Inr candidate \<Rightarrow>
         attempt (lockClaimFacts candidate s) (\<lambda>facts.
           claim_facts_work ports now workerID candidate facts s))"

subsection \<open>After a missed condition\<close>

definition claimCandidateLegallyRemoved :: "claimFacts \<Rightarrow> bool" where
  "claimCandidateLegallyRemoved facts =
    (let task = CF_task facts; run = CF_run facts; execution = CF_execution facts in
     case Exec_Status execution of
       TaskExecutionStatusRunning \<Rightarrow>
         Exec_WorkerID execution \<noteq> None \<and> Task_Status task = TaskStatusRunning \<and> Run_Status run = RunStatusRunning
     | TaskExecutionStatusWaitingApproval \<Rightarrow>
         Exec_WorkerID execution = None \<and> Task_Status task = TaskStatusWaitingApproval
         \<and> Run_Status run = RunStatusWaitingApproval
     | TaskExecutionStatusInterrupted \<Rightarrow>
         Exec_WorkerID execution = None
         \<and> (Task_Status task = TaskStatusInterrupted \<or> Task_Status task = TaskStatusRunning)
         \<and> (Run_Status run = RunStatusPending \<or> Run_Status run = RunStatusRunning)
     | TaskExecutionStatusCompleted \<Rightarrow>
         Task_Status task = TaskStatusCompleted \<and> Run_Status run = RunStatusCompleted
     | TaskExecutionStatusFailed \<Rightarrow>
         (Task_Status task = TaskStatusFailed \<or> Task_Status task = TaskStatusCancelled)
         \<and> Run_Status run = RunStatusFailed
     | _ \<Rightarrow> False)"

definition confirmSupersededClaimCandidate :: "Task \<Rightarrow> QueueCandidate \<Rightarrow> 'x db \<Rightarrow> GoError + bool" where
  "confirmSupersededClaimCandidate task candidate s =
    (if Task_CurrentExecutionVersion task \<le> QC_ExecutionVersion candidate \<or> Task_QueuedAt task = None
     then Inr False
     else
       attempt (target (RunRepository_LockByTask (Task_TaskID task) s)) (\<lambda>run.
       attempt (target (TaskExecutionRepository_LockByTaskVersion (Task_TaskID task)
         (QC_ExecutionVersion candidate) s)) (\<lambda>previous.
       attempt (target (TaskExecutionRepository_LockByTaskVersion (Task_TaskID task)
         (Task_CurrentExecutionVersion task) s)) (\<lambda>current.
       if Exec_Status previous \<noteq> TaskExecutionStatusInterrupted \<or> Exec_WorkerID previous \<noteq> None
          \<or> Exec_Status current \<noteq> TaskExecutionStatusQueued \<or> Exec_WorkerID current \<noteq> None
       then Inr False
       else
         (case Task_Status task of
            TaskStatusPending \<Rightarrow> Inr (Run_Status run = RunStatusPending)
          | TaskStatusRunning \<Rightarrow> Inr (Run_Status run = RunStatusRunning)
          | _ \<Rightarrow> Inr False)))))"

definition reconcileClaimWriteError :: "GoError + 'a \<Rightarrow> GoError + 'a" where
  "reconcileClaimWriteError m =
    (case m of
       Inl err \<Rightarrow> Inl (if err = errClaimConditionMiss then ErrPersistenceInvariantViolation else err)
     | Inr a \<Rightarrow> Inr a)"

lemma reconcileClaimWriteError_iff [simp]: "reconcileClaimWriteError m = Inr a \<longleftrightarrow> m = Inr a"
  by (cases m) (simp_all add: reconcileClaimWriteError_def)

definition reconcile_facts_work ::
    "'x Ports \<Rightarrow> time \<Rightarrow> claimFacts \<Rightarrow> 'x db \<Rightarrow> GoError + ClaimResult \<times> 'x db" where
  "reconcile_facts_work ports now facts s =
    (let task = CF_task facts; run = CF_run facts; execution = CF_execution facts;
         currentCandidate =
           \<lparr>QC_TaskID = Task_TaskID task, QC_RunID = Task_CurrentRunID task,
            QC_ExecutionVersion = Task_CurrentExecutionVersion task, QC_TaskStatus = Task_Status task,
            QC_ExecutionStatus = Exec_Status execution,
            QC_QueuedAt = (case Task_QueuedAt task of None \<Rightarrow> 0 | Some q \<Rightarrow> q),
            QC_CreatedAt = Task_CreatedAt task\<rparr>;
         inconsistent = (\<lambda>invariant.
           attempt (reconcileClaimWriteError
             (terminalizeClaim ports facts now ErrorCodeDataInconsistent (Some invariant) None s)) (\<lambda>s.
             Inr (ClaimResultDataInconsistentTerminalized, s)))
     in
     case validateClaimFacts currentCandidate facts of
       Some invariant \<Rightarrow> inconsistent invariant
     | None \<Rightarrow>
         if \<not> now < Task_DeadlineAt task then
           attempt (reconcileClaimWriteError
             (terminalizeClaim ports facts now ErrorCodeTaskTimeout None (Some TerminationReasonTimedOut) s))
             (\<lambda>s. Inr (ClaimResultExpiredTerminalized, s))
         else
           (case classifyClaimSource facts of
              Inl invariant \<Rightarrow> inconsistent invariant
            | Inr source \<Rightarrow>
                attempt (LoadLatestForClaim ports (Task_TaskID task) (Run_RunID run)
                  (Exec_ExecutionVersion execution) source s) (\<lambda>checkpointResult.
                attempt (validatedClaimCheckpoint checkpointResult facts) (\<lambda>validated.
                case validated of
                  None \<Rightarrow>
                    attempt (reconcileClaimWriteError
                      (terminalizeClaim ports facts now ErrorCodeCheckpointInvalid None None s))
                      (\<lambda>s. Inr (ClaimResultCheckpointInvalidTerminalized, s))
                | Some checkpoint \<Rightarrow>
                    attempt (config_source
                      ''reconcile Claim condition miss: validated runtime Agent configuration is unavailable''
                      ports facts) (\<lambda>currentHash.
                    if Exec_ExecutionConfigHash execution \<noteq> RC_ExecutionConfigHash checkpoint
                       \<or> Exec_ExecutionConfigHash execution \<noteq> currentHash
                    then attempt (reconcileClaimWriteError (interruptConfigMismatch ports facts now currentHash s))
                           (\<lambda>s. Inr (ClaimResultConfigMismatchInterrupted, s))
                    else Inl ErrPersistenceInvariantViolation)))))"

definition reconcile_work :: "'x Ports \<Rightarrow> time \<Rightarrow> QueueCandidate \<Rightarrow> 'x db \<Rightarrow> GoError + ClaimResult \<times> 'x db" where
  "reconcile_work ports now candidate s =
    attempt (target (TaskRepository_Lock (QC_TaskID candidate) s)) (\<lambda>task.
    if Task_CurrentRunID task \<noteq> QC_RunID candidate then Inl ErrPersistenceInvariantViolation
    else if Task_CurrentExecutionVersion task \<noteq> QC_ExecutionVersion candidate then
      attempt (confirmSupersededClaimCandidate task candidate s) (\<lambda>removed.
        if \<not> removed then Inl ErrPersistenceInvariantViolation else Inr (ClaimResultNoWork, s))
    else
      attempt (target (RunRepository_LockByTask (Task_TaskID task) s)) (\<lambda>run.
      attempt (target (TaskExecutionRepository_LockByTaskVersion (Task_TaskID task)
        (Task_CurrentExecutionVersion task) s)) (\<lambda>execution.
      let facts = \<lparr>CF_task = task, CF_run = run, CF_execution = execution\<rparr> in
      if Task_QueuedAt task = None \<and> claimCandidateLegallyRemoved facts then Inr (ClaimResultNoWork, s)
      else reconcile_facts_work ports now facts s)))"

definition reconcileClaimConditionMiss ::
    "'x Ports \<Rightarrow> Call \<Rightarrow> QueueCandidate \<Rightarrow> 'x db \<Rightarrow> (GoError + ClaimResult) \<times> 'x db" where
  "reconcileClaimConditionMiss ports c candidate s =
    (if QC_TaskID candidate = '''' \<or> \<not> ExecutionVersion_Valid (QC_ExecutionVersion candidate)
     then (Inl ErrPersistenceInvariantViolation, s)
     else Execute (call_fault c) (reconcile_work ports (call_now c) candidate) s)"

subsection \<open>The operation\<close>

text \<open>The zero candidate that stays when the queue was empty.\<close>

definition no_candidate :: QueueCandidate where
  "no_candidate = \<lparr>QC_TaskID = '''', QC_RunID = '''', QC_ExecutionVersion = 0,
     QC_TaskStatus = TaskStatusOther '''', QC_ExecutionStatus = TaskExecutionStatusOther '''',
     QC_QueuedAt = 0, QC_CreatedAt = 0\<rparr>"

definition missed_candidate :: "'x db \<Rightarrow> QueueCandidate" where
  "missed_candidate s =
    (case TaskRepository_LockNextQueueCandidate s of Inl _ \<Rightarrow> no_candidate | Inr candidate \<Rightarrow> candidate)"

definition appendClaimTaskLog :: "Call \<Rightarrow> ClaimResult \<Rightarrow> QueueCandidate \<Rightarrow> 'x db \<Rightarrow> 'x db" where
  "appendClaimTaskLog c result candidate s =
    (case claimTaskLogDraft result candidate of
       None \<Rightarrow> s | Some draft \<Rightarrow> appendTaskLogBestEffort (call_log c) draft s)"

text \<open>
  \<open>c\<close> belongs to the claim transaction and the log, \<open>c'\<close> to the reconciliation, and \<open>between\<close> is
  what other writers do between the two transactions.
\<close>

definition ClaimNextExecution ::
    "'x Ports \<Rightarrow> WorkerID \<Rightarrow> Call \<Rightarrow> ('x db \<Rightarrow> 'x db) \<Rightarrow> Call \<Rightarrow> WorkerID \<Rightarrow> 'x db \<Rightarrow>
     (GoError + ClaimResult) \<times> 'x db" where
  "ClaimNextExecution ports runtimeWorker c between c' workerID s =
    (if workerID = '''' \<or> workerID \<noteq> runtimeWorker then (Inl ErrInvalidArgument, s)
     else
       (case Execute (call_fault c) (claim_work ports (call_now c) workerID) s of
          (Inr result, s') \<Rightarrow> (Inr result, appendClaimTaskLog c result (missed_candidate s) s')
        | (Inl err, s') \<Rightarrow>
            if err \<noteq> errClaimConditionMiss then (Inl err, s')
            else
              (case reconcileClaimConditionMiss ports c' (missed_candidate s) (between s') of
                 (Inl reconcileErr, s'') \<Rightarrow> (Inl reconcileErr, s'')
               | (Inr reconciled, s'') \<Rightarrow>
                   (Inr reconciled, appendClaimTaskLog c' reconciled (missed_candidate s) s''))))"

section \<open>What a claim does to the scene\<close>

definition claimed_task :: "time \<Rightarrow> Task \<Rightarrow> Task" where
  "claimed_task now t = t\<lparr>Task_Status := (if Task_Status t = TaskStatusPending then TaskStatusRunning else Task_Status t),
     Task_QueuedAt := None,
     Task_StartedAt := (if Task_Status t = TaskStatusPending then or_now (Task_StartedAt t) now else Task_StartedAt t)\<rparr>"

definition claimed_run :: "time \<Rightarrow> Run \<Rightarrow> Run" where
  "claimed_run now r = (if Run_Status r = RunStatusPending
     then r\<lparr>Run_Status := RunStatusRunning, Run_StartedAt := or_now (Run_StartedAt r) now\<rparr> else r)"

definition claimed_execution :: "time \<Rightarrow> WorkerID \<Rightarrow> TaskExecution \<Rightarrow> TaskExecution" where
  "claimed_execution now w e = e\<lparr>Exec_Status := TaskExecutionStatusRunning, Exec_WorkerID := Some w,
     Exec_ErrorCode := None, Exec_InvariantCode := None, Exec_TerminationReason := None,
     Exec_StartedAt := or_now (Exec_StartedAt e) now, Exec_EndedAt := None\<rparr>"

definition failed_task :: "time \<Rightarrow> ErrorCode \<Rightarrow> Task \<Rightarrow> Task" where
  "failed_task now code t = t\<lparr>Task_Status := TaskStatusFailed, Task_ErrorCode := Some code,
     Task_QueuedAt := None, Task_EndedAt := Some now\<rparr>"

definition failed_run :: "time \<Rightarrow> ErrorCode \<Rightarrow> Run \<Rightarrow> Run" where
  "failed_run now code r = r\<lparr>Run_Status := RunStatusFailed, Run_Context := nonNilJSONObject (Run_Context r),
     Run_ErrorCode := Some code, Run_EndedAt := Some now\<rparr>"

definition failed_execution ::
    "time \<Rightarrow> ErrorCode \<Rightarrow> InvariantCode option \<Rightarrow> TerminationReason option \<Rightarrow> TaskExecution \<Rightarrow> TaskExecution" where
  "failed_execution now code invariant reason e = e\<lparr>Exec_Status := TaskExecutionStatusFailed, Exec_WorkerID := None,
     Exec_ErrorCode := Some code, Exec_InvariantCode := invariant, Exec_TerminationReason := reason,
     Exec_EndedAt := Some now\<rparr>"

definition interrupted_task :: "ErrorCode \<Rightarrow> Task \<Rightarrow> Task" where
  "interrupted_task code t = t\<lparr>Task_Status := TaskStatusInterrupted, Task_ErrorCode := Some code, Task_QueuedAt := None\<rparr>"

definition mismatched_execution :: "time \<Rightarrow> ExecutionConfigHash \<Rightarrow> TaskExecution \<Rightarrow> TaskExecution" where
  "mismatched_execution now h e = e\<lparr>Exec_Status := TaskExecutionStatusInterrupted, Exec_WorkerID := None,
     Exec_ObservedConfigHash := Some h, Exec_ErrorCode := Some ErrorCodeConfigVersionMismatch,
     Exec_InvariantCode := None, Exec_TerminationReason := None, Exec_EndedAt := Some now\<rparr>"

text \<open>\<open>leads_to k s s' t r e\<close>: the scene of task \<open>k\<close> becomes \<open>t r e\<close> by statements that touch no other task.\<close>

definition leads_to :: "TaskID \<Rightarrow> 'x db \<Rightarrow> 'x db \<Rightarrow> Task \<Rightarrow> Run \<Rightarrow> TaskExecution \<Rightarrow> bool" where
  "leads_to k s s' t r e \<longleftrightarrow> scene k s' t r e \<and> elsewhere_same k s s' \<and> statement\<^sup>*\<^sup>* s s'"

lemma leads_to_refl: "scene k s t r e \<Longrightarrow> leads_to k s s t r e"
  by (simp add: leads_to_def)

lemma leads_to_trans:
  "leads_to k s s' t r e \<Longrightarrow> leads_to k s' s'' t' r' e' \<Longrightarrow> leads_to k s s'' t' r' e'"
  by (auto simp: leads_to_def intro: elsewhere_same_trans rtranclp_trans)

lemma leads_to_report:
  "leads_to k s s' t r e \<Longrightarrow> ensurePendingReport ports k' rid now s' = Inr s'' \<Longrightarrow> leads_to k s s'' t r e"
  using report_scene [of ports k' rid now s' s'']
  by (auto simp: leads_to_def intro: elsewhere_same_trans rtranclp_trans)

lemma leads_to_other: "leads_to k s s' t r e \<Longrightarrow> leads_to k s (s'\<lparr>db_other := x\<rparr>) t r e"
  by (auto simp: leads_to_def intro: other_module rtranclp.rtrancl_into_rtrancl)

lemma leads_to_exec:
  assumes "TaskExecutionRepository_Update u s' = Inr (True, s'')" and "leads_to k s s' t r e"
    and "EU_key u = (k, Task_CurrentExecutionVersion t)"
  shows "leads_to k s s'' t r (TaskExecutionUpdate_patch u e)" and "TaskExecutionUpdate_hits u s' e"
    and "TaskExecution_check (TaskExecutionUpdate_patch u e)"
  using exec_update_scene [OF assms(1) _ assms(3), of r e] assms(2) update_execution [OF assms(1)]
  by (auto simp: leads_to_def intro: elsewhere_same_trans rtranclp.rtrancl_into_rtrancl)

lemma leads_to_run:
  assumes "RunRepository_Update u s' = Inr (True, s'')" and "leads_to k s s' t r e" and "RU_TaskID u = k"
  shows "leads_to k s s'' t (RunUpdate_patch u r) e" and "RunUpdate_hits u s' r"
    and "Run_check (RunUpdate_patch u r)"
  using run_update_scene [OF assms(1) _ assms(3), of t r e] assms(2) update_run [OF assms(1)]
  by (auto simp: leads_to_def intro: elsewhere_same_trans rtranclp.rtrancl_into_rtrancl)

lemma leads_to_task:
  assumes "TaskRepository_Update u s' = Inr (True, s'')" and "leads_to k s s' t r e" and "TU_TaskID u = k"
    and "TU_CurrentExecutionVersion u = Task_CurrentExecutionVersion t"
  shows "leads_to k s s'' (TaskUpdate_patch u t) r e" and "TaskUpdate_hits u t"
    and "Task_check (TaskUpdate_patch u t)"
  using task_update_scene [OF assms(1) _ assms(3,4), of r e] assms(2) update_task [OF assms(1)]
  by (auto simp: leads_to_def intro: elsewhere_same_trans rtranclp.rtrancl_into_rtrancl)

lemma leads_to_scenes_ok:
  "scenes_ok s \<Longrightarrow> leads_to k s s' t r e \<Longrightarrow> scene_ok t r e \<Longrightarrow> scenes_ok s'"
  by (auto simp: leads_to_def intro: scenes_ok_step)

abbreviation claim_scene :: "Task \<Rightarrow> Run \<Rightarrow> TaskExecution \<Rightarrow> claimFacts" where
  "claim_scene t r e \<equiv> \<lparr>CF_task = t, CF_run = r, CF_execution = e\<rparr>"

text \<open>What each update writes.\<close>

lemma claim_patches:
  "TaskExecutionUpdate_patch (commit_execution_update (claim_scene t r e) now w) e = claimed_execution now w e"
  "Run_Status r = RunStatusPending \<Longrightarrow> RunUpdate_patch (commit_run_update (claim_scene t r e) now) r = claimed_run now r"
  "TaskUpdate_patch (commit_task_update (claim_scene t r e) now
     (if Task_Status t = TaskStatusPending then TaskStatusRunning else Task_Status t)) t = claimed_task now t"
  "TaskUpdate_patch (mismatch_task_update (claim_scene t r e)) t = interrupted_task ErrorCodeConfigVersionMismatch t"
  "TaskExecutionUpdate_patch (terminal_execution_update (claim_scene t r e) now code i reason) e =
     failed_execution now code i reason e"
  "RunUpdate_patch (terminal_run_update (claim_scene t r e) now code) r = failed_run now code r"
  "TaskUpdate_patch (terminal_task_update (claim_scene t r e) now code) t = failed_task now code t"
  by (simp_all add: claim_updates exec_patch_keeping claimed_execution_def RunUpdate_patch_def claimed_run_def
      TaskUpdate_patch_def claimed_task_def interrupted_task_def failed_execution_def failed_run_def
      failed_task_def)

lemma mismatch_patch:
  "Exec_ObservedConfigHash e = None \<Longrightarrow>
     TaskExecutionUpdate_patch (mismatch_execution_update (claim_scene t r e) now h) e = mismatched_execution now h e"
  by (simp add: claim_updates mismatched_execution_def TaskExecutionUpdate_patch_def)

lemma claim_targets:
  assumes "scene k s t r e"
  shows "EU_key (commit_execution_update (claim_scene t r e) now w) = (k, Task_CurrentExecutionVersion t)"
    "RU_TaskID (commit_run_update (claim_scene t r e) now) = k"
    "TU_TaskID (commit_task_update (claim_scene t r e) now st) = k"
    "EU_key (mismatch_execution_update (claim_scene t r e) now h) = (k, Task_CurrentExecutionVersion t)"
    "TU_TaskID (mismatch_task_update (claim_scene t r e)) = k"
    "EU_key (terminal_execution_update (claim_scene t r e) now code i reason) = (k, Task_CurrentExecutionVersion t)"
    "RU_TaskID (terminal_run_update (claim_scene t r e) now code) = k"
    "TU_TaskID (terminal_task_update (claim_scene t r e) now code) = k"
    "TU_CurrentExecutionVersion (commit_task_update (claim_scene t r e) now st) = Task_CurrentExecutionVersion t"
    "TU_CurrentExecutionVersion (mismatch_task_update (claim_scene t r e)) = Task_CurrentExecutionVersion t"
    "TU_CurrentExecutionVersion (terminal_task_update (claim_scene t r e) now code) = Task_CurrentExecutionVersion t"
  using scene_keys [OF assms] by (simp_all add: claim_updates EU_key_def)

lemma commitClaim_iff:
  "commitClaim (claim_scene t r e) now w s = Inr s' \<longleftrightarrow>
     Allowed (CanExecutionTransition (Exec_Status e) TaskExecutionStatusRunning) \<and>
     (\<exists>s1 s2. TaskExecutionRepository_Update (commit_execution_update (claim_scene t r e) now w) s = Inr (True, s1) \<and>
        (if Run_Status r = RunStatusPending
         then RunRepository_Update (commit_run_update (claim_scene t r e) now) s1 = Inr (True, s2) else s2 = s1) \<and>
        TaskRepository_Update (commit_task_update (claim_scene t r e) now
          (if Task_Status t = TaskStatusPending then TaskStatusRunning else Task_Status t)) s2 = Inr (True, s'))"
  by (cases "Run_Status r = RunStatusPending"; cases "Task_Status t = TaskStatusPending")
    (simp_all add: commitClaim_def)

lemma commitClaim_leads_to:
  assumes "commitClaim (claim_scene t r e) now w s = Inr s'" and "scene k s t r e"
  shows "leads_to k s s' (claimed_task now t) (claimed_run now r) (claimed_execution now w e)"
proof -
  obtain s1 s2 where exec: "TaskExecutionRepository_Update (commit_execution_update (claim_scene t r e) now w) s = Inr (True, s1)"
    and run: "if Run_Status r = RunStatusPending
         then RunRepository_Update (commit_run_update (claim_scene t r e) now) s1 = Inr (True, s2) else s2 = s1"
    and task: "TaskRepository_Update (commit_task_update (claim_scene t r e) now
          (if Task_Status t = TaskStatusPending then TaskStatusRunning else Task_Status t)) s2 = Inr (True, s')"
    using assms(1) unfolding commitClaim_iff by blast
  note targets = claim_targets [OF assms(2)]
  have 1: "leads_to k s s1 t r (claimed_execution now w e)"
    using leads_to_exec(1) [OF exec leads_to_refl [OF assms(2)] targets(1)] by (simp add: claim_patches)
  have 2: "leads_to k s s2 t (claimed_run now r) (claimed_execution now w e)"
  proof (cases "Run_Status r = RunStatusPending")
    case True
    then show ?thesis
      using leads_to_run(1) [OF _ 1 targets(2)] run by (simp add: claim_patches)
  next
    case False
    with run 1 show ?thesis by (simp add: claimed_run_def)
  qed
  show ?thesis
    using leads_to_task(1) [OF task 2 targets(3,9)] by (simp only: claim_patches)
qed

lemma terminalizeClaim_iff:
  "terminalizeClaim ports (claim_scene t r e) now code i reason s = Inr s' \<longleftrightarrow>
     Allowed (CanExecutionTransition (Exec_Status e) TaskExecutionStatusFailed) \<and>
     Allowed (CanRunTransition (Run_Status r) RunStatusFailed) \<and>
     Allowed (CanTaskTransition (Task_Status t) TaskStatusFailed) \<and>
     (\<exists>s1 s2 s3.
        TaskExecutionRepository_Update (terminal_execution_update (claim_scene t r e) now code i reason) s = Inr (True, s1) \<and>
        RunRepository_Update (terminal_run_update (claim_scene t r e) now code) s1 = Inr (True, s2) \<and>
        TaskRepository_Update (terminal_task_update (claim_scene t r e) now code) s2 = Inr (True, s3) \<and>
        claim_report ports (claim_scene t r e) now s3 = Inr s')"
  by (auto simp: terminalizeClaim_def simp del: fail_transitions)

lemma terminalizeClaim_leads_to:
  assumes "terminalizeClaim ports (claim_scene t r e) now code i reason s = Inr s'" and "scene k s t r e"
  shows "leads_to k s s' (failed_task now code t) (failed_run now code r) (failed_execution now code i reason e)"
proof -
  obtain s1 s2 s3 where
      exec: "TaskExecutionRepository_Update (terminal_execution_update (claim_scene t r e) now code i reason) s = Inr (True, s1)"
    and run: "RunRepository_Update (terminal_run_update (claim_scene t r e) now code) s1 = Inr (True, s2)"
    and task: "TaskRepository_Update (terminal_task_update (claim_scene t r e) now code) s2 = Inr (True, s3)"
    and report: "claim_report ports (claim_scene t r e) now s3 = Inr s'"
    using assms(1) unfolding terminalizeClaim_iff by blast
  note targets = claim_targets [OF assms(2)]
  have "leads_to k s s1 t r (failed_execution now code i reason e)"
    using leads_to_exec(1) [OF exec leads_to_refl [OF assms(2)] targets(6)] by (simp add: claim_patches)
  from leads_to_run(1) [OF run this targets(7)]
  have "leads_to k s s2 t (failed_run now code r) (failed_execution now code i reason e)"
    by (simp add: claim_patches)
  from leads_to_task(1) [OF task this targets(8,11)] report
  show ?thesis by (simp add: claim_patches claim_report_def leads_to_report)
qed

lemma interruptConfigMismatch_iff:
  "interruptConfigMismatch ports (claim_scene t r e) now h s = Inr s' \<longleftrightarrow>
     Allowed (CanExecutionTransition (Exec_Status e) TaskExecutionStatusInterrupted) \<and>
     Allowed (CanTaskTransition (Task_Status t) TaskStatusInterrupted) \<and>
     (\<exists>s1 s2.
        TaskExecutionRepository_Update (mismatch_execution_update (claim_scene t r e) now h) s = Inr (True, s1) \<and>
        TaskRepository_Update (mismatch_task_update (claim_scene t r e)) s1 = Inr (True, s2) \<and>
        claim_report ports (claim_scene t r e) now s2 = Inr s')"
  by (auto simp: interruptConfigMismatch_def)

lemma interruptConfigMismatch_leads_to:
  assumes "interruptConfigMismatch ports (claim_scene t r e) now h s = Inr s'" and "scene k s t r e"
  shows "leads_to k s s' (interrupted_task ErrorCodeConfigVersionMismatch t) r (mismatched_execution now h e)"
    and "Exec_ObservedConfigHash e = None"
proof -
  obtain s1 s2 where
      exec: "TaskExecutionRepository_Update (mismatch_execution_update (claim_scene t r e) now h) s = Inr (True, s1)"
    and task: "TaskRepository_Update (mismatch_task_update (claim_scene t r e)) s1 = Inr (True, s2)"
    and report: "claim_report ports (claim_scene t r e) now s2 = Inr s'"
    using assms(1) unfolding interruptConfigMismatch_iff by blast
  note targets = claim_targets [OF assms(2)]
  show none: "Exec_ObservedConfigHash e = None"
    using leads_to_exec(2) [OF exec leads_to_refl [OF assms(2)] targets(4)]
    by (simp add: claim_updates TaskExecutionUpdate_hits_def)
  have "leads_to k s s1 t r (mismatched_execution now h e)"
    using leads_to_exec(1) [OF exec leads_to_refl [OF assms(2)] targets(4)] none by (simp add: mismatch_patch)
  from leads_to_task(1) [OF task this targets(5,10)] report
  show "leads_to k s s' (interrupted_task ErrorCodeConfigVersionMismatch t) r (mismatched_execution now h e)"
    by (simp add: claim_patches claim_report_def leads_to_report)
qed

lemma lockClaimFacts_scene:
  "lockClaimFacts c s = Inr facts \<longleftrightarrow>
     scene (QC_TaskID c) s (CF_task facts) (CF_run facts) (CF_execution facts) \<and>
     0 < Task_CurrentExecutionVersion (CF_task facts) \<and> 0 < Exec_ExecutionVersion (CF_execution facts)"
  by (cases facts) (auto simp: lockClaimFacts_def scene_def TaskRepository_Lock_def scanTask_def
      RunRepository_LockByTask_def TaskExecutionRepository_LockByTaskVersion_def scanTaskExecution_def
      split: option.splits if_splits)

text \<open>The candidate of a scene, as the queue query reads it.\<close>

lemma candidate_of_scene:
  assumes "candidate_of s t = Some c" and "t \<in> set (db_tasks s)" and "distinct (map Task_TaskID (db_tasks s))"
  shows "task_row (QC_TaskID c) s = Some t \<and> QC_TaskID c = Task_TaskID t \<and> QC_RunID c = Task_CurrentRunID t \<and>
    QC_ExecutionVersion c = Task_CurrentExecutionVersion t \<and> QC_TaskStatus c = Task_Status t \<and>
    Task_QueuedAt t = Some (QC_QueuedAt c) \<and> QC_CreatedAt c = Task_CreatedAt t \<and>
    (\<exists>e. exec_row (Task_TaskID t, Task_CurrentExecutionVersion t) s = Some e \<and> QC_ExecutionStatus c = Exec_Status e)"
  using assms row_find_distinct [of Task_TaskID "db_tasks s" t]
  by (auto simp: candidate_of_def task_row_def split: option.splits)

lemma locked_candidate:
  assumes "TaskRepository_LockNextQueueCandidate s = Inr c"
  shows "c \<in> set (queue_candidates s) \<and> 0 < QC_ExecutionVersion c"
  using assms arg_min_list_in [of "queue_candidates s" candidate_key]
  by (auto simp: TaskRepository_LockNextQueueCandidate_def Let_def split: if_splits)

lemma candidate_scene:
  assumes "TaskRepository_LockNextQueueCandidate s = Inr c" and "schema_ok s"
  obtains t e where "task_row (QC_TaskID c) s = Some t" "exec_row (QC_TaskID c, Task_CurrentExecutionVersion t) s = Some e"
    "QC_RunID c = Task_CurrentRunID t" "QC_ExecutionVersion c = Task_CurrentExecutionVersion t"
    "QC_TaskStatus c = Task_Status t" "Task_QueuedAt t = Some (QC_QueuedAt c)" "QC_ExecutionStatus c = Exec_Status e"
    "t \<in> set (db_tasks s)" "candidate_of s t = Some c"
proof -
  obtain t where t: "t \<in> set (db_tasks s)" "candidate_of s t = Some c"
    using locked_candidate [OF assms(1)] queue_candidates_set [of c s] by blast
  have "distinct (map Task_TaskID (db_tasks s))" using assms(2) by (simp add: schema_ok_def)
  from candidate_of_scene [OF t(2,1) this] t that show ?thesis by auto
qed

text \<open>In a database of sound scenes the head of the queue passes the first check of the claim.\<close>

lemma validateClaimFacts_ok:
  assumes "TaskRepository_LockNextQueueCandidate s = Inr c" and "schema_ok s" and "scenes_ok s"
    and "scene (QC_TaskID c) s t r e"
  shows "validateClaimFacts c \<lparr>CF_task = t, CF_run = r, CF_execution = e\<rparr> = None"
    and "scene_ok t r e" and "Task_QueuedAt t = Some (QC_QueuedAt c)" and "Exec_Status e = TaskExecutionStatusQueued"
proof -
  obtain t' e' where c: "task_row (QC_TaskID c) s = Some t'" "exec_row (QC_TaskID c, Task_CurrentExecutionVersion t') s = Some e'"
    "QC_RunID c = Task_CurrentRunID t'" "QC_ExecutionVersion c = Task_CurrentExecutionVersion t'"
    "QC_TaskStatus c = Task_Status t'" "Task_QueuedAt t' = Some (QC_QueuedAt c)" "QC_ExecutionStatus c = Exec_Status e'"
    using candidate_scene [OF assms(1,2)] by metis
  then have eq: "t' = t" "e' = e" using assms(4) by (auto simp: scene_def)
  show ok: "scene_ok t r e" using scenes_okD assms(3,4) by blast
  show q: "Task_QueuedAt t = Some (QC_QueuedAt c)" using c eq by simp
  then show st: "Exec_Status e = TaskExecutionStatusQueued" using ok by (simp add: scene_ok_def)
  show "validateClaimFacts c \<lparr>CF_task = t, CF_run = r, CF_execution = e\<rparr> = None"
    using scene_keys [OF assms(4)] ok q st c eq
    by (auto simp: validateClaimFacts_def scene_ok_def Let_def)
qed

text \<open>What a claim transaction that commits did, by its result.\<close>

fun claim_outcome ::
    "'x Ports \<Rightarrow> time \<Rightarrow> WorkerID \<Rightarrow> TaskID \<Rightarrow> 'x db \<Rightarrow> Task \<Rightarrow> Run \<Rightarrow> TaskExecution \<Rightarrow> ClaimResult \<Rightarrow> 'x db \<Rightarrow> bool" where
  "claim_outcome ports now w k s t r e (ClaimResultClaimed claim) s' \<longleftrightarrow>
     leads_to k s s' (claimed_task now t) (claimed_run now r) (claimed_execution now w e) \<and>
     now < Task_DeadlineAt t \<and>
     claim = \<lparr>Claim_TaskID = k, Claim_RunID = Run_RunID r,
       Claim_ExecutionVersion = Task_CurrentExecutionVersion t, Claim_WorkerID = w, Claim_ClaimedAt = now\<rparr> \<and>
     (\<exists>agent. LookupAgent ports (Task_AgentID t) = Some agent \<and> agent_enabled agent \<and>
        HashExecutionConfigV1 ports (ARC_ExecutionConfig agent) = Inr (Exec_ExecutionConfigHash e))"
| "claim_outcome ports now w k s t r e ClaimResultNoWork s' \<longleftrightarrow> False"
| "claim_outcome ports now w k s t r e ClaimResultConfigMismatchInterrupted s' \<longleftrightarrow>
     (\<exists>h. leads_to k s s' (interrupted_task ErrorCodeConfigVersionMismatch t) r (mismatched_execution now h e)) \<and>
     now < Task_DeadlineAt t"
| "claim_outcome ports now w k s t r e ClaimResultCheckpointInvalidTerminalized s' \<longleftrightarrow>
     leads_to k s s' (failed_task now ErrorCodeCheckpointInvalid t) (failed_run now ErrorCodeCheckpointInvalid r)
       (failed_execution now ErrorCodeCheckpointInvalid None None e) \<and> now < Task_DeadlineAt t"
| "claim_outcome ports now w k s t r e ClaimResultDataInconsistentTerminalized s' \<longleftrightarrow>
     (\<exists>i. leads_to k s s' (failed_task now ErrorCodeDataInconsistent t) (failed_run now ErrorCodeDataInconsistent r)
       (failed_execution now ErrorCodeDataInconsistent (Some i) None e))"
| "claim_outcome ports now w k s t r e ClaimResultExpiredTerminalized s' \<longleftrightarrow>
     leads_to k s s' (failed_task now ErrorCodeTaskTimeout t) (failed_run now ErrorCodeTaskTimeout r)
       (failed_execution now ErrorCodeTaskTimeout None (Some TerminationReasonTimedOut) e) \<and>
     Task_DeadlineAt t \<le> now"

lemma config_source_iff:
  "config_source what ports facts = Inr h \<longleftrightarrow>
     (\<exists>agent. LookupAgent ports (Task_AgentID (CF_task facts)) = Some agent \<and> agent_enabled agent \<and>
        agent_id_of agent = Task_AgentID (CF_task facts) \<and>
        HashExecutionConfigV1 ports (ARC_ExecutionConfig agent) = Inr h) \<and>
     ExecutionConfigHash_Valid (Exec_ExecutionConfigHash (CF_execution facts))"
  by (auto simp: config_source_def split: option.splits if_splits)

lemma claim_facts_work_outcome:
  assumes "claim_facts_work ports now w c \<lparr>CF_task = t, CF_run = r, CF_execution = e\<rparr> s = Inr (res, s')"
    and "scene k s t r e"
  shows "claim_outcome ports now w k s t r e res s'"
proof -
  note keys = scene_keys [OF assms(2)]
  note closed = terminalizeClaim_leads_to [OF _ assms(2)] interruptConfigMismatch_leads_to(1) [OF _ assms(2)]
    commitClaim_leads_to(1) [OF _ assms(2)]
  show ?thesis
    using assms(1) keys
    by (auto simp: claim_facts_work_def Let_def config_source_iff split: option.splits sum.splits if_splits
        dest!: closed) (blast intro: leads_to_other)+
qed

lemma reconcile_facts_work_outcome:
  assumes "reconcile_facts_work ports now \<lparr>CF_task = t, CF_run = r, CF_execution = e\<rparr> s = Inr (res, s')"
    and "scene k s t r e"
  shows "claim_outcome ports now w k s t r e res s' \<and> (\<forall>claim. res \<noteq> ClaimResultClaimed claim)"
proof -
  note keys = scene_keys [OF assms(2)]
  note closed = terminalizeClaim_leads_to [OF _ assms(2)] interruptConfigMismatch_leads_to(1) [OF _ assms(2)]
  show ?thesis
    using assms(1) keys
    by (auto simp: reconcile_facts_work_def Let_def split: option.splits sum.splits if_splits dest!: closed) blast+
qed

lemma claim_work_cases:
  assumes "claim_work ports now w s = Inr (res, s')"
  obtains (no_work) "res = ClaimResultNoWork" "s' = s" "TaskRepository_LockNextQueueCandidate s = Inl ErrRepositoryNotFound"
  | (candidate) c t r e where "TaskRepository_LockNextQueueCandidate s = Inr c" "scene (QC_TaskID c) s t r e"
      "claim_outcome ports now w (QC_TaskID c) s t r e res s'"
proof (cases "TaskRepository_LockNextQueueCandidate s")
  case (Inl err)
  with assms no_work show ?thesis by (auto simp: claim_work_def split: if_splits)
next
  case (Inr c)
  then obtain t r e where facts: "lockClaimFacts c s = Inr \<lparr>CF_task = t, CF_run = r, CF_execution = e\<rparr>"
      "claim_facts_work ports now w c \<lparr>CF_task = t, CF_run = r, CF_execution = e\<rparr> s = Inr (res, s')"
    using assms by (auto simp: claim_work_def) (metis claimFacts.cases)
  then have "scene (QC_TaskID c) s t r e" by (simp add: lockClaimFacts_scene)
  then show ?thesis using candidate [OF Inr] claim_facts_work_outcome [OF facts(2)] by blast
qed

lemma reconcile_work_cases:
  assumes "reconcile_work ports now c s = Inr (res, s')"
  obtains (no_work) "res = ClaimResultNoWork" "s' = s"
  | (closed) t r e where "scene (QC_TaskID c) s t r e" "\<And>w. claim_outcome ports now w (QC_TaskID c) s t r e res s'"
      "\<And>claim. res \<noteq> ClaimResultClaimed claim"
proof -
  obtain task where task: "TaskRepository_Lock (QC_TaskID c) s = Inr task"
    using assms by (auto simp: reconcile_work_def)
  then have key: "Task_TaskID task = QC_TaskID c" "task_row (QC_TaskID c) s = Some task"
    using row_keys(1) [of "QC_TaskID c" s task]
    by (auto simp: TaskRepository_Lock_def scanTask_def split: option.splits if_splits)
  show ?thesis
  proof (cases "res = ClaimResultNoWork \<and> s' = s")
    case True
    then show ?thesis using no_work by blast
  next
    case False
    then obtain run execution where rows: "RunRepository_LockByTask (QC_TaskID c) s = Inr run"
        "TaskExecutionRepository_LockByTaskVersion (QC_TaskID c) (Task_CurrentExecutionVersion task) s = Inr execution"
      and work: "reconcile_facts_work ports now \<lparr>CF_task = task, CF_run = run, CF_execution = execution\<rparr> s = Inr (res, s')"
      using assms task key by (auto simp: reconcile_work_def Let_def split: if_splits)
    have "scene (QC_TaskID c) s task run execution"
      using rows key by (auto simp: scene_def RunRepository_LockByTask_def
          TaskExecutionRepository_LockByTaskVersion_def scanTaskExecution_def split: option.splits if_splits)
    then show ?thesis using closed reconcile_facts_work_outcome [OF work] by blast
  qed
qed

lemma failed_scene_ok:
  "scene_ok t r e \<Longrightarrow> scene_ok (failed_task now code t) (failed_run now code r) (failed_execution now code i reason e)"
  by (simp add: scene_ok_def failed_task_def failed_run_def failed_execution_def)

lemma closed_not_queued [simp]:
  "Task_QueuedAt (failed_task now code t) = None" "Task_QueuedAt (interrupted_task code t) = None"
  "Task_QueuedAt (claimed_task now t) = None"
  by (simp_all add: failed_task_def interrupted_task_def claimed_task_def)

lemma failed_leads:
  "scene_ok t r e \<Longrightarrow>
     leads_to k s s' (failed_task now code t) (failed_run now code r) (failed_execution now code i reason e) \<Longrightarrow>
     \<exists>t' r' e'. leads_to k s s' t' r' e' \<and> scene_ok t' r' e' \<and> Task_QueuedAt t' = None"
  using failed_scene_ok closed_not_queued(1) by blast

lemma claim_outcome_scene:
  assumes "claim_outcome ports now w k s t r e res s'" and "scene_ok t r e" 
    and "res = ClaimResultConfigMismatchInterrupted \<longrightarrow> Run_Status r = RunStatusPending \<or> Run_Status r = RunStatusRunning"
    and "case res of ClaimResultClaimed _ \<Rightarrow> Exec_Status e = TaskExecutionStatusQueued | _ \<Rightarrow> True"
  shows "\<exists>t' r' e'. leads_to k s s' t' r' e' \<and> scene_ok t' r' e' \<and> Task_QueuedAt t' = None"
proof (cases res)
  case (ClaimResultClaimed claim)
  with assms have "scene_ok (claimed_task now t) (claimed_run now r) (claimed_execution now w e)"
    by (auto simp: scene_ok_def claimed_task_def claimed_run_def claimed_execution_def)
  moreover have "leads_to k s s' (claimed_task now t) (claimed_run now r) (claimed_execution now w e)"
    using assms(1) ClaimResultClaimed by simp
  ultimately show ?thesis using closed_not_queued by blast
next
  case ClaimResultConfigMismatchInterrupted
  then obtain h where "leads_to k s s' (interrupted_task ErrorCodeConfigVersionMismatch t) r (mismatched_execution now h e)"
    using assms(1) by auto
  moreover have "scene_ok (interrupted_task ErrorCodeConfigVersionMismatch t) r (mismatched_execution now h e)"
    using assms ClaimResultConfigMismatchInterrupted
    by (simp add: scene_ok_def interrupted_task_def mismatched_execution_def)
  ultimately show ?thesis using closed_not_queued by blast
next
  case ClaimResultNoWork
  with assms show ?thesis by simp
next
  case ClaimResultCheckpointInvalidTerminalized
  with assms(1) show ?thesis by (auto intro: failed_leads [OF assms(2)])
next
  case ClaimResultDataInconsistentTerminalized
  with assms(1) obtain i where "leads_to k s s' (failed_task now ErrorCodeDataInconsistent t)
      (failed_run now ErrorCodeDataInconsistent r)
      (failed_execution now ErrorCodeDataInconsistent (Some i) None e)" by auto
  then show ?thesis by (rule failed_leads [OF assms(2)])
next
  case ClaimResultExpiredTerminalized
  with assms(1) show ?thesis by (auto intro: failed_leads [OF assms(2)])
qed

subsection \<open>The claim never gets stuck on a sound head\<close>

lemma or_now_simps [simp]: "or_now None now = Some now" "or_now (Some u) now = Some u"
  by (simp_all add: or_now_def)

lemma queued_scene_checks:
  assumes "Task_check t" "Run_check r" "TaskExecution_check e" "scene_ok t r e"
    and "Exec_Status e = TaskExecutionStatusQueued" and "clock_after now t e"
  shows "w \<noteq> '''' \<Longrightarrow> TaskExecution_check (claimed_execution now w e)"
    "Run_check (claimed_run now r)" "Task_check (claimed_task now t)"
    "code \<in> set sharedErrorCodeCheck \<Longrightarrow> i = None \<or> code = ErrorCodeDataInconsistent \<and> InvariantCode_Valid (the i) \<Longrightarrow>
       reason = None \<or> TerminationReason_Valid (the reason) \<Longrightarrow>
       TaskExecution_check (failed_execution now code i reason e)"
    "code \<in> set sharedErrorCodeCheck \<Longrightarrow> Run_check (failed_run now code r)"
    "code \<in> set sharedErrorCodeCheck \<Longrightarrow> Task_check (failed_task now code t)"
    "validSHA256 h \<Longrightarrow> TaskExecution_check (mismatched_execution now h e)"
    "Task_check (interrupted_task ErrorCodeConfigVersionMismatch t)"
proof -
  have statuses: "Task_Status t = TaskStatusPending \<and> Run_Status r = RunStatusPending \<or>
       Task_Status t = TaskStatusRunning \<and> Run_Status r = RunStatusRunning"
    using assms(4,5) by (simp add: scene_ok_def)
  have task: "Task_EndedAt t = None" "Task_ErrorCode t = None"
    using assms(1) statuses by (auto simp: Task_check_def valid_simps)
  have run: "Run_EndedAt r = None" "Run_ErrorCode r = None"
    using assms(2) statuses by (auto simp: Run_check_def valid_simps)
  have exec: "Exec_WorkerID e = None" "Exec_EndedAt e = None" "Exec_ObservedConfigHash e = None"
    using assms(3,5) by (auto simp: TaskExecution_check_def valid_simps)
  note facts = statuses task run exec
  show "w \<noteq> '''' \<Longrightarrow> TaskExecution_check (claimed_execution now w e)"
    using assms facts
    by (cases "Exec_StartedAt e")
      (auto simp: TaskExecution_check_def claimed_execution_def clock_after_def valid_simps error_code_column_def)
  show "Run_check (claimed_run now r)"
    using assms facts by (auto simp: Run_check_def claimed_run_def valid_simps)
  show "Task_check (claimed_task now t)"
    using assms facts
    by (cases "Task_StartedAt t") (auto simp: Task_check_def claimed_task_def clock_after_def valid_simps)
  show "code \<in> set sharedErrorCodeCheck \<Longrightarrow> i = None \<or> code = ErrorCodeDataInconsistent \<and> InvariantCode_Valid (the i) \<Longrightarrow>
       reason = None \<or> TerminationReason_Valid (the reason) \<Longrightarrow>
       TaskExecution_check (failed_execution now code i reason e)"
    using assms facts
    by (cases "Exec_StartedAt e"; cases i; cases reason)
      (simp_all add: TaskExecution_check_def failed_execution_def clock_after_def valid_simps error_code_column_def)
  show "code \<in> set sharedErrorCodeCheck \<Longrightarrow> Run_check (failed_run now code r)"
    using assms facts
    by (auto simp: Run_check_def failed_run_def valid_simps error_code_column_def nonNilJSONObject_def is_object_def
        split: option.splits)
  show "code \<in> set sharedErrorCodeCheck \<Longrightarrow> Task_check (failed_task now code t)"
    using assms facts
    by (cases "Task_StartedAt t") (auto simp: Task_check_def failed_task_def clock_after_def valid_simps error_code_column_def)
  show "validSHA256 h \<Longrightarrow> TaskExecution_check (mismatched_execution now h e)"
    using assms facts
    by (cases "Exec_StartedAt e")
      (auto simp: TaskExecution_check_def mismatched_execution_def clock_after_def valid_simps error_code_column_def
        sharedErrorCodeCheck_def)
  show "Task_check (interrupted_task ErrorCodeConfigVersionMismatch t)"
    using assms facts
    by (cases "Task_StartedAt t")
      (auto simp: Task_check_def interrupted_task_def valid_simps error_code_column_def sharedErrorCodeCheck_def)
qed

text \<open>
  What one claim of the scene \<open>t\<close>, \<open>r\<close>, \<open>e\<close> needs from its ports: the checkpoint of this execution is found
  or reported invalid for a known reason, a report of this Run is created or exists after the statements of this claim, a checkpoint of this execution can be
  saved once it is committed as running, and the configuration of the task's Agent is available and hashes
  to a SHA-256 text. Nothing is asked about other identifiers or other databases.
\<close>

definition claim_report_request :: "Task \<Rightarrow> Run \<Rightarrow> time \<Rightarrow> EnsurePendingReportRequest" where
  "claim_report_request t r now = \<lparr>EPR_TaskID = Task_TaskID t, EPR_RunID = Run_RunID r, EPR_CreatedAt = now\<rparr>"

definition claim_save_request :: "Task \<Rightarrow> Run \<Rightarrow> TaskExecution \<Rightarrow> SaveRuntimeCheckpointRequest" where
  "claim_save_request t r e = \<lparr>Save_TaskID = Task_TaskID t, Save_RunID = Run_RunID r,
     Save_ExecutionVersion = Exec_ExecutionVersion e, Save_ExecutionConfigHash = Exec_ExecutionConfigHash e\<rparr>"

definition claim_ports_work ::
    "'x Ports \<Rightarrow> time \<Rightarrow> WorkerID \<Rightarrow> Task \<Rightarrow> Run \<Rightarrow> TaskExecution \<Rightarrow> 'x db \<Rightarrow> bool" where
  "claim_ports_work ports now w t r e s \<longleftrightarrow>
     (\<forall>source. classifyClaimSource (claim_scene t r e) = Inr source \<longrightarrow>
        (\<exists>res. LoadLatestForClaim ports (Task_TaskID t) (Run_RunID r) (Exec_ExecutionVersion e) source s = Inr res \<and>
           (\<forall>reason. res = ClaimCheckpointInvalid reason \<longrightarrow> ReasonCode_ValidForCheckpointInvalid reason))) \<and>
     (\<forall>s' t' r' e'. leads_to (Task_TaskID t) s s' t' r' e' \<longrightarrow>
        (\<exists>x. EnsurePending ports (claim_report_request t r now) s' = Inr (EnsurePendingReportCreated, x) \<or>
           EnsurePending ports (claim_report_request t r now) s' = Inr (EnsurePendingReportExisting, x))) \<and>
     (\<forall>s'. commitClaim (claim_scene t r e) now w s = Inr s' \<longrightarrow>
        (\<exists>x. SaveGeneratePlanExecutionCheckpoint ports (claim_save_request t r e) s' = Inr x)) \<and>
     (\<exists>agent h. LookupAgent ports (Task_AgentID t) = Some agent \<and> agent_enabled agent \<and>
        agent_id_of agent = Task_AgentID t \<and>
        HashExecutionConfigV1 ports (ARC_ExecutionConfig agent) = Inr h \<and> validSHA256 h)"

lemma report_works:
  assumes "claim_ports_work ports now w t r e s" and "leads_to (Task_TaskID t) s s' t' r' e'"
  shows "\<exists>s''. claim_report ports (claim_scene t r e) now s' = Inr s''"
proof -
  obtain x where "EnsurePending ports (claim_report_request t r now) s' = Inr (EnsurePendingReportCreated, x) \<or>
    EnsurePending ports (claim_report_request t r now) s' = Inr (EnsurePendingReportExisting, x)"
    using assms unfolding claim_ports_work_def by blast
  then show ?thesis by (auto simp: claim_report_def ensurePendingReport_def claim_report_request_def)
qed

text \<open>The head of the queue in a sound database, at a clock reading after its last change.\<close>

definition sound_head :: "'x db \<Rightarrow> TaskID \<Rightarrow> Task \<Rightarrow> Run \<Rightarrow> TaskExecution \<Rightarrow> time \<Rightarrow> bool" where
  "sound_head s k t r e now \<longleftrightarrow> scene k s t r e \<and> scene_ok t r e \<and>
     Exec_Status e = TaskExecutionStatusQueued \<and> schema_ok s \<and> clock_after now t e"

lemma sound_headD:
  assumes "sound_head s k t r e now"
  shows "scene k s t r e" "Exec_Status e = TaskExecutionStatusQueued" "Run_RunID r = Task_CurrentRunID t"
    "Task_Status t = TaskStatusPending \<and> Run_Status r = RunStatusPending \<or>
     Task_Status t = TaskStatusRunning \<and> Run_Status r = RunStatusRunning"
    "Exec_ObservedConfigHash e = None"
  using assms scene_checks(3) [of s k t r e]
  by (auto simp: sound_head_def scene_ok_def TaskExecution_check_def)

lemma sound_head_checks:
  assumes "sound_head s k t r e now"
  shows "w \<noteq> '''' \<Longrightarrow> TaskExecution_check (claimed_execution now w e)"
    "Run_check (claimed_run now r)" "Task_check (claimed_task now t)"
    "code \<in> set sharedErrorCodeCheck \<Longrightarrow> i = None \<or> code = ErrorCodeDataInconsistent \<and> InvariantCode_Valid (the i) \<Longrightarrow>
       reason = None \<or> TerminationReason_Valid (the reason) \<Longrightarrow>
       TaskExecution_check (failed_execution now code i reason e)"
    "code \<in> set sharedErrorCodeCheck \<Longrightarrow> Run_check (failed_run now code r)"
    "code \<in> set sharedErrorCodeCheck \<Longrightarrow> Task_check (failed_task now code t)"
    "validSHA256 h \<Longrightarrow> TaskExecution_check (mismatched_execution now h e)"
    "Task_check (interrupted_task ErrorCodeConfigVersionMismatch t)"
  using queued_scene_checks [of t r e now] scene_checks [of s k t r e] assms
  unfolding sound_head_def by blast+

lemma claim_update_fields [simp]:
  "EU_ExpectedStatus (commit_execution_update (claim_scene t r e) now w) = Exec_Status e"
  "EU_ExpectedWorkerID (commit_execution_update (claim_scene t r e) now w) = Exec_WorkerID e"
  "EU_ObservedConfigHash (commit_execution_update (claim_scene t r e) now w) = None"
  "EU_ExpectedStatus (terminal_execution_update (claim_scene t r e) now code i reason) = Exec_Status e"
  "EU_ExpectedWorkerID (terminal_execution_update (claim_scene t r e) now code i reason) = Exec_WorkerID e"
  "EU_ObservedConfigHash (terminal_execution_update (claim_scene t r e) now code i reason) = None"
  "EU_ExpectedStatus (mismatch_execution_update (claim_scene t r e) now h) = Exec_Status e"
  "EU_ExpectedWorkerID (mismatch_execution_update (claim_scene t r e) now h) = Exec_WorkerID e"
  "EU_Status (mismatch_execution_update (claim_scene t r e) now h) = TaskExecutionStatusInterrupted"
  "EU_ErrorCode (mismatch_execution_update (claim_scene t r e) now h) = Some ErrorCodeConfigVersionMismatch"
  "RU_RunID (commit_run_update (claim_scene t r e) now) = Run_RunID r"
  "RU_ExecutionVersion (commit_run_update (claim_scene t r e) now) = Exec_ExecutionVersion e"
  "RU_ExpectedStatus (commit_run_update (claim_scene t r e) now) = Run_Status r"
  "RU_RunID (terminal_run_update (claim_scene t r e) now code) = Run_RunID r"
  "RU_ExecutionVersion (terminal_run_update (claim_scene t r e) now code) = Exec_ExecutionVersion e"
  "RU_ExpectedStatus (terminal_run_update (claim_scene t r e) now code) = Run_Status r"
  "TU_ExpectedStatus (commit_task_update (claim_scene t r e) now st) = Task_Status t"
  "TU_ExpectedCurrentExecutionVersion (commit_task_update (claim_scene t r e) now st) = Task_CurrentExecutionVersion t"
  "TU_ExpectedStatus (terminal_task_update (claim_scene t r e) now code) = Task_Status t"
  "TU_ExpectedCurrentExecutionVersion (terminal_task_update (claim_scene t r e) now code) = Task_CurrentExecutionVersion t"
  "TU_ExpectedStatus (mismatch_task_update (claim_scene t r e)) = Task_Status t"
  "TU_ExpectedCurrentExecutionVersion (mismatch_task_update (claim_scene t r e)) = Task_CurrentExecutionVersion t"
  by (simp_all add: claim_updates)

lemma commitClaim_works:
  assumes head: "sound_head s k t r e now" and "w \<noteq> ''''"
  shows "\<exists>s'. commitClaim (claim_scene t r e) now w s = Inr s'"
proof -
  note sc = sound_headD(1) [OF head] and checks = sound_head_checks [OF head]
  note targets = claim_targets [OF sc] and keys = scene_keys [OF sc]
  obtain s1 where s1: "TaskExecutionRepository_Update (commit_execution_update (claim_scene t r e) now w) s = Inr (True, s1)"
    using exec_update_ok [OF sc targets(1)] checks(1) [OF assms(2)] by (auto simp: claim_patches)
  from leads_to_exec(1) [OF s1 leads_to_refl [OF sc] targets(1)]
  have sc1: "scene k s1 t r (claimed_execution now w e)" by (simp add: leads_to_def claim_patches)
  have "\<exists>s2. (if Run_Status r = RunStatusPending
       then RunRepository_Update (commit_run_update (claim_scene t r e) now) s1 = Inr (True, s2) else s2 = s1) \<and>
     scene k s2 t (claimed_run now r) (claimed_execution now w e)"
  proof (cases "Run_Status r = RunStatusPending")
    case True
    then obtain s2 where s2: "RunRepository_Update (commit_run_update (claim_scene t r e) now) s1 = Inr (True, s2)"
      using run_update_ok [OF sc1 targets(2)] checks(2) sound_headD(3) [OF head] keys by (auto simp: claim_patches)
    from leads_to_run(1) [OF this leads_to_refl [OF sc1] targets(2)] True s2
    show ?thesis by (auto simp: leads_to_def claim_patches)
  next
    case False
    with sc1 show ?thesis by (simp add: claimed_run_def)
  qed
  then obtain s2 where s2: "if Run_Status r = RunStatusPending
       then RunRepository_Update (commit_run_update (claim_scene t r e) now) s1 = Inr (True, s2) else s2 = s1"
      "scene k s2 t (claimed_run now r) (claimed_execution now w e)" by blast
  obtain s3 where s3: "TaskRepository_Update (commit_task_update (claim_scene t r e) now
      (if Task_Status t = TaskStatusPending then TaskStatusRunning else Task_Status t)) s2 = Inr (True, s3)"
    using task_update_ok [OF s2(2) targets(3)] checks(3) by (fastforce simp: claim_patches(3))
  have "Allowed (CanExecutionTransition (Exec_Status e) TaskExecutionStatusRunning)"
    using sound_headD(2) [OF head] by simp
  with s1 s2(1) s3 show ?thesis unfolding commitClaim_iff by blast
qed

lemma terminalizeClaim_works:
  assumes head: "sound_head s k t r e now" and "claim_ports_work ports now w t r e s"
    and code: "code \<in> set sharedErrorCodeCheck"
      "i = None \<or> code = ErrorCodeDataInconsistent \<and> InvariantCode_Valid (the i)"
      "reason = None \<or> TerminationReason_Valid (the reason)"
  shows "\<exists>s'. terminalizeClaim ports (claim_scene t r e) now code i reason s = Inr s'"
proof -
  note sc = sound_headD(1) [OF head] and checks = sound_head_checks [OF head]
  note targets = claim_targets [OF sc] and keys = scene_keys [OF sc]
  obtain s1 where s1: "TaskExecutionRepository_Update
      (terminal_execution_update (claim_scene t r e) now code i reason) s = Inr (True, s1)"
    using exec_update_ok [OF sc targets(6) [of now code i reason]] checks(4) [OF code] by (auto simp: claim_patches)
  from leads_to_exec(1) [OF s1 leads_to_refl [OF sc] targets(6)]
  have sc1: "scene k s1 t r (failed_execution now code i reason e)" by (simp add: leads_to_def claim_patches)
  obtain s2 where s2: "RunRepository_Update (terminal_run_update (claim_scene t r e) now code) s1 = Inr (True, s2)"
    using run_update_ok [OF sc1 targets(7) [of now code]] checks(5) [OF code(1)] sound_headD(3) [OF head] keys
    by (auto simp: claim_patches)
  from leads_to_run(1) [OF s2 leads_to_refl [OF sc1] targets(7)]
  have sc2: "scene k s2 t (failed_run now code r) (failed_execution now code i reason e)"
    by (simp add: leads_to_def claim_patches)
  obtain s3 where s3: "TaskRepository_Update (terminal_task_update (claim_scene t r e) now code) s2 = Inr (True, s3)"
    using task_update_ok [OF sc2 targets(8) [of now code]] checks(6) [OF code(1)] by (auto simp: claim_patches)
  have "leads_to k s s1 t r (failed_execution now code i reason e)"
    using leads_to_exec(1) [OF s1 leads_to_refl [OF sc] targets(6)] by (simp add: claim_patches)
  from leads_to_task(1) [OF s3 leads_to_run(1) [OF s2 this targets(7)] targets(8,11)]
  have moved: "leads_to k s s3 (failed_task now code t) (failed_run now code r) (failed_execution now code i reason e)"
    by (simp add: claim_patches)
  obtain s4 where "claim_report ports (claim_scene t r e) now s3 = Inr s4"
    using report_works [OF assms(2)] moved keys by metis
  moreover have "Allowed (CanExecutionTransition (Exec_Status e) TaskExecutionStatusFailed) \<and>
      Allowed (CanRunTransition (Run_Status r) RunStatusFailed) \<and>
      Allowed (CanTaskTransition (Task_Status t) TaskStatusFailed)"
    using sound_headD(2,4) [OF head] by (auto simp: valid_simps)
  ultimately show ?thesis
    using s1 s2 s3 unfolding terminalizeClaim_iff by blast
qed

lemma interruptConfigMismatch_works:
  assumes head: "sound_head s k t r e now" and "claim_ports_work ports now w t r e s" and "validSHA256 h"
  shows "\<exists>s'. interruptConfigMismatch ports (claim_scene t r e) now h s = Inr s'"
proof -
  note sc = sound_headD(1) [OF head] and checks = sound_head_checks [OF head] and none = sound_headD(5) [OF head]
  note targets = claim_targets [OF sc]
  obtain s1 where s1: "TaskExecutionRepository_Update (mismatch_execution_update (claim_scene t r e) now h) s = Inr (True, s1)"
    using exec_update_ok [OF sc targets(4) [of now h]] checks(7) [OF assms(3)] none by (auto simp: mismatch_patch)
  from leads_to_exec(1) [OF s1 leads_to_refl [OF sc] targets(4)]
  have sc1: "scene k s1 t r (mismatched_execution now h e)" by (simp add: leads_to_def mismatch_patch none)
  obtain s2 where s2: "TaskRepository_Update (mismatch_task_update (claim_scene t r e)) s1 = Inr (True, s2)"
    using task_update_ok [OF sc1 targets(5)] checks(8) by (auto simp: claim_patches)
  have "leads_to k s s1 t r (mismatched_execution now h e)"
    using leads_to_exec(1) [OF s1 leads_to_refl [OF sc] targets(4)] by (simp add: mismatch_patch none)
  from leads_to_task(1) [OF s2 this targets(5,10)]
  have moved: "leads_to k s s2 (interrupted_task ErrorCodeConfigVersionMismatch t) r (mismatched_execution now h e)"
    by (simp add: claim_patches)
  obtain s3 where "claim_report ports (claim_scene t r e) now s2 = Inr s3"
    using report_works [OF assms(2)] moved scene_keys [OF sc] by metis
  moreover have "Allowed (CanExecutionTransition (Exec_Status e) TaskExecutionStatusInterrupted) \<and>
      Allowed (CanTaskTransition (Task_Status t) TaskStatusInterrupted)"
    using sound_headD(2,4) [OF head] by auto
  ultimately show ?thesis
    using s1 s2 unfolding interruptConfigMismatch_iff by blast
qed

lemma leads_to_inv: "runtime_inv s \<Longrightarrow> leads_to k s s' t r e \<Longrightarrow> scene_ok t r e \<Longrightarrow> runtime_inv s'"
  unfolding runtime_inv_def leads_to_def using deferred_ok_scenes schema_statements scenes_ok_step by blast

lemma claim_facts_work_works:
  assumes head: "sound_head s k t r e now" and ports: "claim_ports_work ports now w t r e s" and "w \<noteq> ''''"
    and valid: "validateClaimFacts c (claim_scene t r e) = None"
  shows "\<exists>res s'. claim_facts_work ports now w c (claim_scene t r e) s = Inr (res, s')"
proof -
  have terminal: "\<exists>s'. terminalizeClaim ports (claim_scene t r e) now code i reason s = Inr s'"
    if "code \<in> set sharedErrorCodeCheck" "i = None \<or> code = ErrorCodeDataInconsistent \<and> InvariantCode_Valid (the i)"
      "reason = None \<or> TerminationReason_Valid (the reason)" for code i reason
    using terminalizeClaim_works [OF head ports that] .
  have codes: "ErrorCodeTaskTimeout \<in> set sharedErrorCodeCheck" "ErrorCodeDataInconsistent \<in> set sharedErrorCodeCheck"
      "ErrorCodeCheckpointInvalid \<in> set sharedErrorCodeCheck" "TerminationReason_Valid TerminationReasonTimedOut"
    by (simp_all add: all_error_codes TerminationReason_Valid_def)
  show ?thesis
  proof (cases "now < Task_DeadlineAt t")
    case False
    then show ?thesis
      using terminal [of ErrorCodeTaskTimeout None "Some TerminationReasonTimedOut"] codes valid
      by (auto simp: claim_facts_work_def Let_def)
  next
    case alive: True
    show ?thesis
    proof (cases "classifyClaimSource (claim_scene t r e)")
      case (Inl i)
      then have "InvariantCode_Valid i" by (auto simp: classifyClaimSource_def Let_def split: if_splits)
      then show ?thesis
        using terminal [of ErrorCodeDataInconsistent "Some i" None] codes valid alive Inl
        by (auto simp: claim_facts_work_def Let_def)
    next
      case src: (Inr source)
      obtain result where load: "LoadLatestForClaim ports (Task_TaskID t) (Run_RunID r) (Exec_ExecutionVersion e) source s = Inr result"
          "\<And>reason. result = ClaimCheckpointInvalid reason \<Longrightarrow> ReasonCode_ValidForCheckpointInvalid reason"
        using ports src unfolding claim_ports_work_def by blast
      then have "\<exists>v. validatedClaimCheckpoint result (claim_scene t r e) = Inr v"
        by (cases result) (auto simp: validatedClaimCheckpoint_def)
      then obtain v where v: "validatedClaimCheckpoint result (claim_scene t r e) = Inr v" by blast
      show ?thesis
      proof (cases v)
        case None
        then show ?thesis
          using terminal [of ErrorCodeCheckpointInvalid None None] codes valid alive src load v
          by (auto simp: claim_facts_work_def Let_def)
      next
        case (Some ckpt)
        obtain h where h: "\<And>what. config_source what ports (claim_scene t r e) = Inr h" "validSHA256 h"
          using ports scene_checks(3) [of s k t r e] head
          by (auto simp: claim_ports_work_def config_source_iff sound_head_def TaskExecution_check_def
              ExecutionConfigHash_Valid_def)
        show ?thesis
        proof (cases "Exec_ExecutionConfigHash e \<noteq> RC_ExecutionConfigHash ckpt \<or> Exec_ExecutionConfigHash e \<noteq> h")
          case True
          then show ?thesis
            using interruptConfigMismatch_works [OF head ports h(2)] valid alive src load v Some h(1)
            by (auto simp: claim_facts_work_def Let_def)
        next
          case False
          obtain s1 where s1: "commitClaim (claim_scene t r e) now w s = Inr s1"
            using commitClaim_works [OF head assms(3)] by blast
          obtain x where "SaveGeneratePlanExecutionCheckpoint ports
              \<lparr>Save_TaskID = Task_TaskID t, Save_RunID = Run_RunID r,
               Save_ExecutionVersion = Exec_ExecutionVersion e,
               Save_ExecutionConfigHash = Exec_ExecutionConfigHash e\<rparr> s1 = Inr x"
            using ports s1 unfolding claim_ports_work_def claim_save_request_def by blast
          with False s1 show ?thesis
            using valid alive src load(1) v Some h(1)
            by (auto simp: claim_facts_work_def Let_def save_port_def)
        qed
      qed
    qed
  qed
qed

text \<open>The effect of a claim transaction on a sound database.\<close>

lemma claim_work_scene:
  assumes "claim_work ports now w s = Inr (res, s')" and "runtime_inv s"
  shows "runtime_inv s' \<and> statement\<^sup>*\<^sup>* s s' \<and>
    (\<forall>c. TaskRepository_LockNextQueueCandidate s = Inr c \<longrightarrow> res \<noteq> ClaimResultNoWork \<and>
       (\<exists>t r e t'. scene (QC_TaskID c) s t r e \<and> Exec_Status e = TaskExecutionStatusQueued \<and>
          claim_outcome ports now w (QC_TaskID c) s t r e res s' \<and>
          task_row (QC_TaskID c) s' = Some t' \<and> Task_QueuedAt t' = None))"
  using assms(1)
proof (cases rule: claim_work_cases)
  case no_work
  with assms(2) show ?thesis by simp
next
  case (candidate c t r e)
  have inv: "schema_ok s" "scenes_ok s" using assms(2) by (simp_all add: runtime_inv_def)
  note ok = validateClaimFacts_ok [OF candidate(1) inv candidate(2)]
  have st: "Run_Status r = RunStatusPending \<or> Run_Status r = RunStatusRunning"
    using ok(2,4) by (auto simp: scene_ok_def)
  obtain t' r' e' where after: "leads_to (QC_TaskID c) s s' t' r' e'" "scene_ok t' r' e'" "Task_QueuedAt t' = None"
    using claim_outcome_scene [OF candidate(3) ok(2)] st ok(4) by (cases res) auto
  then have "runtime_inv s'" "statement\<^sup>*\<^sup>* s s'" "task_row (QC_TaskID c) s' = Some t'"
    using leads_to_inv [OF assms(2) after(1,2)] by (auto simp: leads_to_def scene_def)
  moreover have "res \<noteq> ClaimResultNoWork" using candidate(3) by (cases res) auto
  ultimately show ?thesis using candidate ok(4) after(3) by auto
qed

end
