(* ===== verification/ClaimSafety.thy ===== *)
theory ClaimSafety
  imports ClaimTask
begin

section \<open>Properties of the claim\<close>

text \<open>
  What \<open>ClaimNextExecution\<close> promises its caller and the other services: which execution it hands
  out, that two workers never hold the same one, that it keeps every scene sound, and that a sound
  head of the queue always leaves the queue.
\<close>

lemma ClaimNextExecution_claimed:
  assumes "ClaimNextExecution ports rw c between c' w s = (Inr (ClaimResultClaimed claim), s')"
    and "runtime_inv s"
  obtains q t r e s1 where "claim_work ports (call_now c) w s = Inr (ClaimResultClaimed claim, s1)" "w = rw" "w \<noteq> ''''"
    "TaskRepository_LockNextQueueCandidate s = Inr q" "scene (QC_TaskID q) s t r e"
    "Exec_Status e = TaskExecutionStatusQueued" "runtime_inv s1"
    "claim_outcome ports (call_now c) w (QC_TaskID q) s t r e (ClaimResultClaimed claim) s1"
    "s' = appendClaimTaskLog c (ClaimResultClaimed claim) q s1"
proof -
  have w: "w = rw" "w \<noteq> ''''"
    using assms(1) by (auto simp: ClaimNextExecution_def split: if_splits)
  have no_reconcile: "reconcileClaimConditionMiss ports c' q x \<noteq> (Inr (ClaimResultClaimed claim), y)" for q x y
    by (auto simp: reconcileClaimConditionMiss_def Execute_ok_iff elim: reconcile_work_cases split: if_splits)
  obtain s1 where work: "Execute (call_fault c) (claim_work ports (call_now c) w) s = (Inr (ClaimResultClaimed claim), s1)"
    and s': "s' = appendClaimTaskLog c (ClaimResultClaimed claim) (missed_candidate s) s1"
    using assms(1) no_reconcile
    by (auto simp: ClaimNextExecution_def split: if_splits sum.splits prod.splits)
  then have work: "claim_work ports (call_now c) w s = Inr (ClaimResultClaimed claim, s1)"
    by (simp add: Execute_ok_iff)
  note eff = claim_work_scene [OF this assms(2)]
  from work show ?thesis
  proof (cases rule: claim_work_cases)
    case no_work
    then show ?thesis by simp
  next
    case (candidate q t r e)
    with eff obtain t' r' e' where "scene (QC_TaskID q) s t' r' e'" "Exec_Status e' = TaskExecutionStatusQueued" by blast
    with candidate(2) have "Exec_Status e = TaskExecutionStatusQueued" by (auto dest: scene_unique)
    then show ?thesis
      using that [OF work w candidate(1,2)] candidate(1,3) eff s' by (simp add: missed_candidate_def)
  qed
qed

lemma appendClaimTaskLog_rows [simp]:
  "task_row k (appendClaimTaskLog c res q s) = task_row k s"
  "run_row k (appendClaimTaskLog c res q s) = run_row k s"
  "exec_row p (appendClaimTaskLog c res q s) = exec_row p s"
  "scene k (appendClaimTaskLog c res q s) t r e = scene k s t r e"
  "elsewhere_same k s0 (appendClaimTaskLog c res q s) = elsewhere_same k s0 s"
  by (simp_all add: appendClaimTaskLog_def split: option.splits)

lemma appendClaimTaskLog_inv: "runtime_inv s \<Longrightarrow> runtime_inv (appendClaimTaskLog c res q s)"
  by (simp add: appendClaimTaskLog_def runtime_inv_log split: option.splits)

text \<open>
  C3: In a database of sound scenes a successful claim takes the head of the queue and nothing else.
  The task was queued with a QUEUED execution, its deadline lies ahead of the database clock, and its
  frozen configuration hash is the hash of the Agent's present configuration. Afterwards Task, Run
  and execution are Running, the execution belongs to the claiming worker, the queue slot is gone,
  started times are set once and never moved, and no other task or receipt has changed.
\<close>

theorem claim_hands_out_queue_head:
  assumes "ClaimNextExecution ports rw c between c' w s = (Inr (ClaimResultClaimed claim), s')"
    and "runtime_inv s"
  shows "\<exists>q t r e agent. TaskRepository_LockNextQueueCandidate s = Inr q \<and> QC_TaskID q = Claim_TaskID claim \<and>
    scene (Claim_TaskID claim) s t r e \<and> Task_QueuedAt t \<noteq> None \<and>
    Exec_Status e = TaskExecutionStatusQueued \<and> call_now c < Task_DeadlineAt t \<and>
    LookupAgent ports (Task_AgentID t) = Some agent \<and> agent_enabled agent \<and>
    HashExecutionConfigV1 ports (ARC_ExecutionConfig agent) = Inr (Exec_ExecutionConfigHash e) \<and>
    claim = \<lparr>Claim_TaskID = QC_TaskID q, Claim_RunID = Run_RunID r,
      Claim_ExecutionVersion = Task_CurrentExecutionVersion t, Claim_WorkerID = w, Claim_ClaimedAt = call_now c\<rparr> \<and>
    w = rw \<and> w \<noteq> '''' \<and>
    scene (Claim_TaskID claim) s' (claimed_task (call_now c) t) (claimed_run (call_now c) r)
      (claimed_execution (call_now c) w e) \<and>
    Task_Status (claimed_task (call_now c) t) = TaskStatusRunning \<and>
    Run_Status (claimed_run (call_now c) r) = RunStatusRunning \<and>
    elsewhere_same (Claim_TaskID claim) s s'"
proof -
  obtain q t r e s1 where c: "w = rw" "w \<noteq> ''''" "TaskRepository_LockNextQueueCandidate s = Inr q"
    "scene (QC_TaskID q) s t r e" "Exec_Status e = TaskExecutionStatusQueued"
    "claim_outcome ports (call_now c) w (QC_TaskID q) s t r e (ClaimResultClaimed claim) s1"
    "s' = appendClaimTaskLog c (ClaimResultClaimed claim) q s1"
    by (rule ClaimNextExecution_claimed [OF assms])
  have "scene_ok t r e" using assms(2) c(4) by (auto simp: runtime_inv_def intro: scenes_okD)
  with c(5) have "Task_QueuedAt t \<noteq> None" "Task_Status (claimed_task (call_now c) t) = TaskStatusRunning"
      "Run_Status (claimed_run (call_now c) r) = RunStatusRunning"
    by (auto simp: scene_ok_def claimed_task_def claimed_run_def)
  then show ?thesis using c by (auto simp: leads_to_def)
qed

lemma reconcile_work_inv:
  assumes "reconcile_work ports now q s = Inr (res, s')" and "runtime_inv s"
  shows "runtime_inv s'"
  using assms(1)
proof (cases rule: reconcile_work_cases)
  case no_work
  with assms(2) show ?thesis by simp
next
  case (closed t r e)
  have ok: "scene_ok t r e" using assms(2) closed(1) by (auto simp: runtime_inv_def intro: scenes_okD)
  have mismatch: "Run_Status r = RunStatusPending \<or> Run_Status r = RunStatusRunning"
    if "res = ClaimResultConfigMismatchInterrupted"
  proof -
    from assms(1) that have "reconcile_work ports now q s = Inr (ClaimResultConfigMismatchInterrupted, s')" by simp
    then show ?thesis
      using ok closed(1)
      by (auto simp: reconcile_work_def scene_def reconcile_facts_work_def Let_def TaskRepository_Lock_def scanTask_def
          RunRepository_LockByTask_def TaskExecutionRepository_LockByTaskVersion_def scanTaskExecution_def
          validateClaimFacts_def dest!: row_keys(1) split: if_splits option.splits sum.splits TaskStatus.splits)
  qed
  obtain t' r' e' where "leads_to (QC_TaskID q) s s' t' r' e'" "scene_ok t' r' e'"
    using claim_outcome_scene [OF closed(2) ok] mismatch closed(3) by (cases res) auto
  then show ?thesis using leads_to_inv [OF assms(2)] by blast
qed

lemma claim_keeps_runtime_invariant_both:
  assumes "ClaimNextExecution ports rw c between c' w s = (res, s')" and "runtime_inv s"
    and "\<And>x. runtime_inv x \<Longrightarrow> runtime_inv (between x)"
  shows "runtime_inv s' \<and>
    (fst (Execute (call_fault c) (claim_work ports (call_now c) w) s) \<noteq> Inl errClaimConditionMiss \<longrightarrow>
       (\<exists>err. res = Inl err) \<longrightarrow> s' = s)"
proof -
  obtain m s1 where ex: "Execute (call_fault c) (claim_work ports (call_now c) w) s = (m, s1)" by fastforce
  have inv1: "runtime_inv s1"
    using ex
  proof (cases rule: Execute_cases)
    case (rolled_back e)
    with assms(2) show ?thesis by simp
  next
    case (committed a)
    then show ?thesis using claim_work_scene [OF _ assms(2)] by (cases a) auto
  qed
  have inv2: "runtime_inv s2" if "reconcileClaimConditionMiss ports c' q (between s1) = (m2, s2)" for q m2 s2
  proof (cases "QC_TaskID q = '''' \<or> \<not> ExecutionVersion_Valid (QC_ExecutionVersion q)")
    case True
    with that assms(3) [OF inv1] show ?thesis by (auto simp: reconcileClaimConditionMiss_def)
  next
    case False
    with that have "Execute (call_fault c') (reconcile_work ports (call_now c') q) (between s1) = (m2, s2)"
      by (simp add: reconcileClaimConditionMiss_def)
    then show ?thesis
    proof (cases rule: Execute_cases)
      case (rolled_back e)
      with assms(3) [OF inv1] show ?thesis by simp
    next
      case (committed a)
      then show ?thesis using reconcile_work_inv [OF _ assms(3) [OF inv1]] by (cases a) auto
    qed
  qed
  show ?thesis
    using assms(1,2) ex inv1 inv2 Execute_error_unchanged [of "call_fault c" "claim_work ports (call_now c) w" s]
    by (auto simp: ClaimNextExecution_def split: if_splits sum.splits prod.splits intro: appendClaimTaskLog_inv)
qed

lemmas claim_keeps_runtime_invariant_core = claim_keeps_runtime_invariant_both [THEN conjunct1]

text \<open>
  C4: Every call of ClaimNextExecution, whatever its result, leaves a sound database sound, even when
  other writers act between its two transactions, as long as they leave it sound themselves; and a
  call that fails in its first transaction for any reason but a missed condition changes nothing.
\<close>

theorem claim_keeps_runtime_invariant:
  assumes "ClaimNextExecution ports rw c between c' w s = (res, s')" and "runtime_inv s"
    and "\<And>x. runtime_inv x \<Longrightarrow> runtime_inv (between x)"
  shows "runtime_inv s' \<and>
    (fst (Execute (call_fault c) (claim_work ports (call_now c) w) s) \<noteq> Inl errClaimConditionMiss \<longrightarrow>
       (\<exists>err. res = Inl err) \<longrightarrow> s' = s)"
  by (rule claim_keeps_runtime_invariant_both [OF assms])

text \<open>
  C5: Two workers never hold the same execution. After a successful claim in a sound database, the
  next successful claim by any worker hands out another task, and the first worker's execution is
  still Running under its name and version.
\<close>

theorem claim_is_exclusive:
  assumes "ClaimNextExecution ports rw c between c' w s = (Inr (ClaimResultClaimed claim), s1)" and "runtime_inv s"
    and "\<And>x. runtime_inv x \<Longrightarrow> runtime_inv (between x)"
    and "ClaimNextExecution ports2 rw2 d between2 d' w2 s1 = (Inr (ClaimResultClaimed claim2), s2)"
  shows "Claim_TaskID claim2 \<noteq> Claim_TaskID claim \<and>
    (\<exists>e. exec_row (Claim_TaskID claim, Claim_ExecutionVersion claim) s2 = Some e \<and>
       Exec_Status e = TaskExecutionStatusRunning \<and> Exec_WorkerID e = Some w)"
proof -
  obtain q t r e s0 where q: "claim_outcome ports (call_now c) w (QC_TaskID q) s t r e (ClaimResultClaimed claim) s0"
      "s1 = appendClaimTaskLog c (ClaimResultClaimed claim) q s0"
    by (rule ClaimNextExecution_claimed [OF assms(1,2)])
  then have k: "Claim_TaskID claim = QC_TaskID q" "Claim_ExecutionVersion claim = Task_CurrentExecutionVersion t"
    and sc: "scene (QC_TaskID q) s1 (claimed_task (call_now c) t) (claimed_run (call_now c) r) (claimed_execution (call_now c) w e)"
    by (auto simp: leads_to_def)
  have inv1: "runtime_inv s1" using claim_keeps_runtime_invariant_core [OF assms(1,2,3)] .
  obtain q2 t2 r2 e2 s3 where q2: "scene (QC_TaskID q2) s1 t2 r2 e2" "Exec_Status e2 = TaskExecutionStatusQueued"
      "claim_outcome ports2 (call_now d) w2 (QC_TaskID q2) s1 t2 r2 e2 (ClaimResultClaimed claim2) s3"
      "s2 = appendClaimTaskLog d (ClaimResultClaimed claim2) q2 s3"
    by (rule ClaimNextExecution_claimed [OF assms(4) inv1])
  have "QC_TaskID q2 \<noteq> QC_TaskID q"
  proof
    assume "QC_TaskID q2 = QC_TaskID q"
    with sc q2(1) have "e2 = claimed_execution (call_now c) w e" by (auto dest: scene_unique)
    with q2(2) show False by (simp add: claimed_execution_def)
  qed
  then show ?thesis
    using q2(3,4) sc k by (auto simp: leads_to_def elsewhere_same_def scene_def claimed_task_def claimed_execution_def)
qed

text \<open>
  The queue makes progress. When the ports answer for the task at the head of the queue, whose Agent is
  configured, and the clock has not run backwards, a claim on a sound database succeeds: it never
  reports that there is no work, and the task at the head has left the queue.
\<close>

lemma claim_makes_progress:
  assumes "runtime_inv s" and "TaskRepository_LockNextQueueCandidate s = Inr q"
    and "scene (QC_TaskID q) s t r e" and "clock_after (call_now c) t e"
    and "claim_ports_work ports (call_now c) w t r e s" and "w \<noteq> ''''" and "call_fault c = None"
  shows "\<exists>res s' t'. ClaimNextExecution ports w c between c' w s = (Inr res, s') \<and> res \<noteq> ClaimResultNoWork \<and>
    task_row (QC_TaskID q) s' = Some t' \<and> Task_QueuedAt t' = None"
proof -
  have inv: "schema_ok s" "scenes_ok s" using assms(1) by (simp_all add: runtime_inv_def)
  note ok = validateClaimFacts_ok [OF assms(2) inv assms(3)]
  have head: "sound_head s (QC_TaskID q) t r e (call_now c)"
    using assms(3,4) ok inv by (simp add: sound_head_def)
  obtain res s1 where facts: "claim_facts_work ports (call_now c) w q (claim_scene t r e) s = Inr (res, s1)"
    using claim_facts_work_works [OF head assms(5,6) ok(1)] by blast
  have "lockClaimFacts q s = Inr (claim_scene t r e)"
    using assms(3) scene_checks [OF inv(1) assms(3)]
    by (simp add: lockClaimFacts_scene Task_check_def TaskExecution_check_def)
  then have work: "claim_work ports (call_now c) w s = Inr (res, s1)"
    using assms(2) facts by (simp add: claim_work_def)
  note eff = claim_work_scene [OF this assms(1)]
  then have "ClaimNextExecution ports w c between c' w s = (Inr res, appendClaimTaskLog c res q s1)"
    using work assms(2,6,7) by (simp add: ClaimNextExecution_def Execute_def runtime_inv_def missed_candidate_def)
  then show ?thesis using eff assms(2) by auto
qed

subsection \<open>Concrete claims\<close>

lemma queued_candidate:
  "\<exists>q. TaskRepository_LockNextQueueCandidate queued_db = Inr q \<and> QC_TaskID q = ''t1''"
  by (simp add: TaskRepository_LockNextQueueCandidate_def queue_candidates_def List.map_filter_def sample_defs
      candidate_of_def exec_row_def row_find_Cons Exec_key_def Let_def)

lemma queued_db_scene:
  "scene ''t1'' queued_db (sample_task TaskStatusPending (Some 1000)) (sample_run RunStatusPending)
     (sample_execution TaskExecutionStatusQueued None)"
  by (simp add: queued_db_def)

lemma sample_clock: "clock_after 2000 (sample_task TaskStatusPending (Some 1000)) (sample_execution TaskExecutionStatusQueued None)"
  by (simp add: clock_after_def sample_defs)

lemma queue_not_empty:
  assumes "schema_ok s" and "scene k s t r e" and "Task_QueuedAt t \<noteq> None"
  shows "\<exists>q. TaskRepository_LockNextQueueCandidate s = Inr q"
proof -
  have row: "task_row k s = Some t" "Task_TaskID t = k" using assms(2) scene_keys [OF assms(2)] by (auto simp: scene_def)
  then have t: "t \<in> set (db_tasks s)" by (auto simp: task_row_def dest: row_find_SomeD)
  obtain c where "candidate_of s t = Some c"
    using assms(2,3) row by (auto simp: candidate_of_def scene_def)
  with t have ne: "queue_candidates s \<noteq> []" using queue_candidates_set [of c s] by (metis empty_iff list.set(1))
  let ?c = "arg_min_list candidate_key (queue_candidates s)"
  have "?c \<in> set (queue_candidates s)" using ne by (rule arg_min_list_in)
  then obtain t' where t': "t' \<in> set (db_tasks s)" "candidate_of s t' = Some ?c"
    using queue_candidates_set [of ?c s] by blast
  have "QC_ExecutionVersion ?c = Task_CurrentExecutionVersion t'" "0 < Task_CurrentExecutionVersion t'"
    using candidate_of_scene [OF t'(2,1)] assms(1) t'(1)
    by (simp_all add: schema_ok_def Task_check_def list_all_iff)
  with ne show ?thesis by (simp add: TaskRepository_LockNextQueueCandidate_def Let_def)
qed

text \<open>A never started task of the sample Agent at the head of the queue is claimed.\<close>

lemma sample_claim:
  assumes inv: "runtime_inv s" and q: "TaskRepository_LockNextQueueCandidate s = Inr q"
    and sc: "scene (QC_TaskID q) s t r e" and "Task_AgentID t = ''ops''" "2000 < Task_DeadlineAt t"
    "clock_after 2000 t e" "Exec_ExecutionConfigHash e = sample_hash" "Run_PlanID r = None" "Run_CurrentStepID r = None"
    "Exec_ExecutionVersion e = 1" "Exec_StartedAt e = None" "Task_StartedAt t = None" "Run_StartedAt r = None"
  shows "\<exists>s' claim. ClaimNextExecution sample_ports ''w1'' sample_call id sample_call ''w1'' s =
      (Inr (ClaimResultClaimed claim), s') \<and> Claim_TaskID claim = QC_TaskID q \<and> Claim_ExecutionVersion claim = 1"
proof -
  have i: "schema_ok s" "scenes_ok s" using inv by (simp_all add: runtime_inv_def)
  note ok = validateClaimFacts_ok [OF q i sc]
  have head: "sound_head s (QC_TaskID q) t r e 2000" using sc ok i assms(6) by (simp add: sound_head_def)
  obtain s1 where s1: "commitClaim (claim_scene t r e) 2000 ''w1'' s = Inr s1"
    using commitClaim_works [OF head, of "''w1''"] by auto
  let ?claim = "\<lparr>Claim_TaskID = QC_TaskID q, Claim_RunID = Run_RunID r, Claim_ExecutionVersion = 1,
    Claim_WorkerID = ''w1'', Claim_ClaimedAt = 2000\<rparr>"
  have "classifyClaimSource (claim_scene t r e) = Inr ClaimCheckpointSourceInitial"
    using assms by (simp add: classifyClaimSource_def)
  moreover have "validatedClaimCheckpoint (ClaimCheckpointValid
      (sample_checkpoint_of (Task_TaskID t) (Run_RunID r) 1)) (claim_scene t r e) =
      Inr (Some (sample_checkpoint_of (Task_TaskID t) (Run_RunID r) 1))"
    using assms(10) by (simp add: validatedClaimCheckpoint_def sample_checkpoint_of_def sample_checkpoint_def
        ExecutionConfigHash_Valid_def)
  moreover have "config_source what sample_ports (claim_scene t r e) = Inr sample_hash" for what
    using assms by (simp add: config_source_iff port_simps sample_agents_def sample_agent_def sample_config_def
        sample_hasher_def ExecutionConfigHash_Valid_def)
  ultimately have "claim_facts_work sample_ports 2000 ''w1'' q (claim_scene t r e) s = Inr (ClaimResultClaimed ?claim, s1\<lparr>db_other := ()\<rparr>)"
    using ok(1) assms s1 scene_keys [OF sc]
    by (simp add: claim_facts_work_def Let_def port_simps save_port_def)
      (simp add: sample_checkpoint_of_def sample_checkpoint_def)
  moreover have "lockClaimFacts q s = Inr (claim_scene t r e)"
    using sc scene_checks [OF i(1) sc] by (simp add: lockClaimFacts_scene Task_check_def TaskExecution_check_def)
  ultimately have work: "claim_work sample_ports 2000 ''w1'' s = Inr (ClaimResultClaimed ?claim, s1\<lparr>db_other := ()\<rparr>)"
    using q by (simp add: claim_work_def)
  then have "runtime_inv (s1\<lparr>db_other := ()\<rparr>)" using claim_work_scene [OF _ inv] by blast
  with work show ?thesis
    by (simp add: ClaimNextExecution_def Execute_def runtime_inv_def port_simps)
qed

lemma queued_db_claim:
  "\<exists>s' claim. ClaimNextExecution sample_ports ''w1'' sample_call id sample_call ''w1'' queued_db =
      (Inr (ClaimResultClaimed claim), s') \<and> Claim_TaskID claim = ''t1'' \<and> Claim_ExecutionVersion claim = 1"
proof -
  obtain q where q: "TaskRepository_LockNextQueueCandidate queued_db = Inr q" "QC_TaskID q = ''t1''"
    using queued_candidate by blast
  show ?thesis
    using sample_claim [OF runtime_inv_queued_db q(1), of "sample_task TaskStatusPending (Some 1000)"
        "sample_run RunStatusPending" "sample_execution TaskExecutionStatusQueued None"] q(2) queued_db_scene sample_clock
    by (simp add: sample_task_def sample_run_def sample_execution_def)
qed

theorem claim_hands_out_queue_head_witness:
  "\<exists>s' claim e. ClaimNextExecution sample_ports ''w1'' sample_call id sample_call ''w1'' queued_db =
      (Inr (ClaimResultClaimed claim), s') \<and> exec_row (''t1'', 1) s' = Some e \<and> Exec_WorkerID e = Some ''w1''"
proof -
  obtain s' claim where s': "ClaimNextExecution sample_ports ''w1'' sample_call id sample_call ''w1'' queued_db =
      (Inr (ClaimResultClaimed claim), s')" "Claim_TaskID claim = ''t1''" "Claim_ExecutionVersion claim = 1"
    using queued_db_claim by blast
  show ?thesis
    using claim_hands_out_queue_head [OF s'(1) runtime_inv_queued_db] s'
    by (auto simp: scene_def claimed_task_def claimed_execution_def)
qed

theorem claim_keeps_runtime_invariant_witness:
  "\<exists>s' claim. ClaimNextExecution sample_ports ''w1'' sample_call id sample_call ''w1'' queued_db =
      (Inr (ClaimResultClaimed claim), s') \<and> runtime_inv s'"
proof -
  obtain s' claim where s': "ClaimNextExecution sample_ports ''w1'' sample_call id sample_call ''w1'' queued_db =
      (Inr (ClaimResultClaimed claim), s')"
    using queued_db_claim by blast
  then show ?thesis
    using claim_keeps_runtime_invariant [OF s' runtime_inv_queued_db] by auto
qed

text \<open>Two tasks in the queue, one second apart.\<close>

definition two_tasks_db :: "unit db" where
  "two_tasks_db = \<lparr>
     db_tasks = [sample_task TaskStatusPending (Some 1000),
       (sample_task TaskStatusPending (Some 1001))\<lparr>Task_TaskID := ''t2'', Task_CurrentRunID := ''r2''\<rparr>],
     db_runs = [sample_run RunStatusPending, (sample_run RunStatusPending)\<lparr>Run_TaskID := ''t2'', Run_RunID := ''r2''\<rparr>],
     db_executions = [sample_execution TaskExecutionStatusQueued None,
       (sample_execution TaskExecutionStatusQueued None)\<lparr>Exec_TaskID := ''t2'', Exec_TaskExecutionID := ''e2''\<rparr>],
     db_receipts = [], db_logs = [], db_other = ()\<rparr>"

lemma two_tasks_scenes:
  "scene ''t1'' two_tasks_db (sample_task TaskStatusPending (Some 1000)) (sample_run RunStatusPending)
     (sample_execution TaskExecutionStatusQueued None)"
  "scene ''t2'' two_tasks_db
     ((sample_task TaskStatusPending (Some 1001))\<lparr>Task_TaskID := ''t2'', Task_CurrentRunID := ''r2''\<rparr>)
     ((sample_run RunStatusPending)\<lparr>Run_TaskID := ''t2'', Run_RunID := ''r2''\<rparr>)
     ((sample_execution TaskExecutionStatusQueued None)\<lparr>Exec_TaskID := ''t2'', Exec_TaskExecutionID := ''e2''\<rparr>)"
  by (simp_all add: scene_def two_tasks_db_def task_row_def run_row_def exec_row_def row_find_Cons sample_defs Exec_key_def)

lemma two_tasks_inv: "runtime_inv two_tasks_db"
proof (rule runtime_invI)
  show "schema_ok two_tasks_db"
    by (simp add: schema_ok_def two_tasks_db_def sample_defs Exec_key_def Task_check_def Run_check_def
        TaskExecution_check_def valid_simps is_object_def error_code_column_def)
  have "k = ''t1'' \<or> k = ''t2''" if "task_row k two_tasks_db = Some t" for k t
    using that by (auto simp: task_row_def two_tasks_db_def row_find_Cons sample_task_def split: if_splits)
  then show "scenes_ok two_tasks_db"
    unfolding scenes_ok_def using two_tasks_scenes
    by (force simp: scene_def scene_ok_def sample_task_def sample_run_def sample_execution_def)
qed

theorem claim_is_exclusive_witness:
  "\<exists>s1 s2 claim claim2. ClaimNextExecution sample_ports ''w1'' sample_call id sample_call ''w1'' two_tasks_db =
      (Inr (ClaimResultClaimed claim), s1) \<and>
     ClaimNextExecution sample_ports ''w1'' sample_call id sample_call ''w1'' s1 = (Inr (ClaimResultClaimed claim2), s2) \<and>
     Claim_TaskID claim2 \<noteq> Claim_TaskID claim"
proof -
  obtain q where q: "TaskRepository_LockNextQueueCandidate two_tasks_db = Inr q" "QC_TaskID q = ''t1''"
    by (simp add: TaskRepository_LockNextQueueCandidate_def queue_candidates_def List.map_filter_def two_tasks_db_def
        sample_defs candidate_of_def exec_row_def row_find_Cons Exec_key_def Let_def)
  obtain s1 claim where s1: "ClaimNextExecution sample_ports ''w1'' sample_call id sample_call ''w1'' two_tasks_db =
      (Inr (ClaimResultClaimed claim), s1)" "Claim_TaskID claim = ''t1''"
    using sample_claim [OF two_tasks_inv q(1), of "sample_task TaskStatusPending (Some 1000)"
        "sample_run RunStatusPending" "sample_execution TaskExecutionStatusQueued None"] q(2) two_tasks_scenes(1) sample_clock
    by (auto simp: sample_task_def sample_run_def sample_execution_def)
  have inv1: "runtime_inv s1"
    using claim_keeps_runtime_invariant_core [OF s1(1) two_tasks_inv] by simp
  obtain q0 t0 r0 e0 x where first: "TaskRepository_LockNextQueueCandidate two_tasks_db = Inr q0"
      "claim_outcome sample_ports (call_now sample_call) ''w1'' (QC_TaskID q0) two_tasks_db t0 r0 e0 (ClaimResultClaimed claim) x"
      "s1 = appendClaimTaskLog sample_call (ClaimResultClaimed claim) q0 x"
    by (rule ClaimNextExecution_claimed [OF s1(1) two_tasks_inv])
  then have sc2: "scene ''t2'' s1
     ((sample_task TaskStatusPending (Some 1001))\<lparr>Task_TaskID := ''t2'', Task_CurrentRunID := ''r2''\<rparr>)
     ((sample_run RunStatusPending)\<lparr>Run_TaskID := ''t2'', Run_RunID := ''r2''\<rparr>)
     ((sample_execution TaskExecutionStatusQueued None)\<lparr>Exec_TaskID := ''t2'', Exec_TaskExecutionID := ''e2''\<rparr>)"
    using two_tasks_scenes(2) q by (auto simp: leads_to_def elsewhere_same_def scene_def)
  obtain q2 where q2: "TaskRepository_LockNextQueueCandidate s1 = Inr q2"
    using queue_not_empty [OF _ sc2] inv1 by (auto simp: runtime_inv_def sample_task_def)
  obtain x where x: "task_row (QC_TaskID q2) s1 = Some x" "Task_QueuedAt x \<noteq> None"
  proof (rule candidate_scene [OF q2])
    show "schema_ok s1" using inv1 by (simp add: runtime_inv_def)
  qed auto
  have "QC_TaskID q2 \<noteq> ''t1''"
    using x first q by (auto simp: leads_to_def scene_def claimed_task_def)
  moreover have "task_row k s1 = task_row k two_tasks_db" if "k \<noteq> ''t1''" for k
    using that first q by (auto simp: leads_to_def elsewhere_same_def)
  moreover have "task_row k two_tasks_db = None" if "k \<noteq> ''t1''" "k \<noteq> ''t2''" for k
    using that by (simp add: task_row_def two_tasks_db_def row_find_Cons sample_task_def)
  ultimately have "QC_TaskID q2 = ''t2''" using x(1) by force
  then have "\<exists>s' claim. ClaimNextExecution sample_ports ''w1'' sample_call id sample_call ''w1'' s1 =
      (Inr (ClaimResultClaimed claim), s') \<and> Claim_TaskID claim = QC_TaskID q2 \<and> Claim_ExecutionVersion claim = 1"
    by (intro sample_claim [OF inv1 q2 sc2 [folded \<open>QC_TaskID q2 = ''t2''\<close>]])
      (simp_all add: sample_task_def sample_run_def sample_execution_def clock_after_def)
  then obtain s2 claim2 where "ClaimNextExecution sample_ports ''w1'' sample_call id sample_call ''w1'' s1 =
      (Inr (ClaimResultClaimed claim2), s2)" by blast
  then show ?thesis
    using claim_is_exclusive [OF s1(1) two_tasks_inv, of sample_ports "''w1''" sample_call id sample_call "''w1''" claim2 s2] s1
    by auto
qed

end
