(* ===== verification/ActiveCall.thy ===== *)
theory ActiveCall
  imports Entities
begin

section \<open>The registry of active calls\<close>

text \<open>
  \<open>internal/taskruntime/activecall/registry.go\<close>: the handles of the external calls one process is
  preparing or running, one per execution and worker, each with a context that can be cancelled
  once with a cause. Entries are pointers in Go: here they live in a heap, allocated in order, and a
  pointer is an index of it. A handle is the pointer of its entry; its \<open>sync.Once\<close> is a flag of the
  entry. The mutex makes the reads and writes of the map atomic, but Cancel, CancelAll and
  Unregister call the cancel function after they released it, so they are two atomic steps:
  \<open>registry_step\<close> has them apart, and what is proved of it holds for every interleaving.
\<close>

datatype CallState =
    StatePrepared
  | StateActive

record Key =
  Key_TaskID :: TaskID
  Key_ExecutionVersion :: ExecutionVersion
  Key_WorkerID :: WorkerID

record Metadata =
  Meta_ActionKind :: CheckpointNextAction
  Meta_StepID :: StepID
  Meta_ToolExecutionID :: string

text \<open>The cause a context is cancelled with: \<open>context.Canceled\<close>, or one of the frozen causes.\<close>

datatype CancelCause =
    CauseCanceled
  | CauseExecution ExecutionCancellationCause

record entry =
  entry_key :: Key
  entry_metadata :: Metadata
  entry_state :: CallState
  entry_cause :: "CancelCause option"
  entry_once :: bool

record Registry =
  reg_heap :: "entry list"
  reg_entries :: "Key \<Rightarrow> nat option"

definition NewRegistry :: Registry where
  "NewRegistry = \<lparr>reg_heap = [], reg_entries = Map.empty\<rparr>"

definition validate_call :: "Key \<Rightarrow> Metadata \<Rightarrow> GoError + unit" where
  "validate_call key metadata =
    (if Key_TaskID key = '''' \<or> \<not> ExecutionVersion_Valid (Key_ExecutionVersion key) \<or> Key_WorkerID key = ''''
     then Inl (ErrText ''prepare Active Call: task ID, execution version and worker ID are required'')
     else if \<not> CheckpointNextAction_Valid (Meta_ActionKind metadata)
        \<or> Meta_ActionKind metadata = CheckpointNextActionFinalizeRun
     then Inl (ErrText ''prepare Active Call: action kind must be an external action'')
     else if Meta_ActionKind metadata \<noteq> CheckpointNextActionGeneratePlan \<and> Meta_StepID metadata = ''''
     then Inl (ErrText ''prepare Active Call: step ID is required for a Step action'')
     else Inr ())"

text \<open>
  A derived context starts cancelled when its parent is. The entry of a refused duplicate is dropped
  at once and never seen, so it is not allocated here.
\<close>

definition Prepare :: "CancelCause option \<Rightarrow> Key \<Rightarrow> Metadata \<Rightarrow> Registry \<Rightarrow> (GoError + nat) \<times> Registry" where
  "Prepare parent key metadata r =
    (case validate_call key metadata of
       Inl e \<Rightarrow> (Inl e, r)
     | Inr _ \<Rightarrow>
         if reg_entries r key \<noteq> None then (Inl ErrDuplicateActiveCall, r)
         else
           (let candidate = \<lparr>entry_key = key, entry_metadata = metadata, entry_state = StatePrepared,
                  entry_cause = parent, entry_once = False\<rparr>;
                h = length (reg_heap r)
            in (Inr h, \<lparr>reg_heap = reg_heap r @ [candidate], reg_entries = (reg_entries r)(key \<mapsto> h)\<rparr>)))"

definition handle_cancelled :: "nat \<Rightarrow> Registry \<Rightarrow> bool" where
  "handle_cancelled h r \<longleftrightarrow> entry_cause (reg_heap r ! h) \<noteq> None"

definition Activate :: "nat \<Rightarrow> Registry \<Rightarrow> (GoError + unit) \<times> Registry" where
  "Activate h r =
    (if reg_entries r (entry_key (reg_heap r ! h)) \<noteq> Some h \<or> entry_state (reg_heap r ! h) \<noteq> StatePrepared
     then (Inl ErrActiveCallNotPrepared, r)
     else (Inr (), r\<lparr>reg_heap := (reg_heap r)[h := (reg_heap r ! h)\<lparr>entry_state := StateActive\<rparr>]\<rparr>))"

text \<open>Calling the cancel function of an entry: only the first cause counts.\<close>

definition cancel_entry :: "nat \<Rightarrow> CancelCause \<Rightarrow> Registry \<Rightarrow> Registry" where
  "cancel_entry a cause r =
    (case entry_cause (reg_heap r ! a) of
       Some _ \<Rightarrow> r
     | None \<Rightarrow> r\<lparr>reg_heap := (reg_heap r)[a := (reg_heap r ! a)\<lparr>entry_cause := Some cause\<rparr>]\<rparr>)"

text \<open>The locked part of Unregister, inside \<open>once.Do\<close>.\<close>

definition forget_handle :: "nat \<Rightarrow> Registry \<Rightarrow> Registry" where
  "forget_handle h r =
    r\<lparr>reg_heap := (reg_heap r)[h := (reg_heap r ! h)\<lparr>entry_once := True\<rparr>],
      reg_entries := (if reg_entries r (entry_key (reg_heap r ! h)) = Some h
        then (reg_entries r)(entry_key (reg_heap r ! h) := None) else reg_entries r)\<rparr>"

definition Unregister :: "nat \<Rightarrow> Registry \<Rightarrow> Registry" where
  "Unregister h r =
    (if entry_once (reg_heap r ! h) then r else cancel_entry h CauseCanceled (forget_handle h r))"

definition Cancel :: "Key \<Rightarrow> ExecutionCancellationCause \<Rightarrow> Registry \<Rightarrow> (GoError + bool) \<times> Registry" where
  "Cancel key cause r =
    (if \<not> ExecutionCancellationCause_Valid cause then (Inl ErrInvalidCancellationCause, r)
     else (case reg_entries r key of
             None \<Rightarrow> (Inr False, r)
           | Some current \<Rightarrow> (Inr True, cancel_entry current (CauseExecution cause) r)))"

text \<open>
  The entries of the snapshot, in the order of the heap: the cancel functions touch different
  entries, so the order of the Go map does not matter.
\<close>

definition registered_entries :: "Registry \<Rightarrow> nat list" where
  "registered_entries r =
    [a. a \<leftarrow> [0..<length (reg_heap r)], reg_entries r (entry_key (reg_heap r ! a)) = Some a]"

definition CancelAll :: "ExecutionCancellationCause \<Rightarrow> Registry \<Rightarrow> (GoError + unit) \<times> Registry" where
  "CancelAll cause r =
    (if \<not> ExecutionCancellationCause_Valid cause then (Inl ErrInvalidCancellationCause, r)
     else (Inr (), fold (\<lambda>a. cancel_entry a (CauseExecution cause)) (registered_entries r) r))"

definition State_of :: "Key \<Rightarrow> Registry \<Rightarrow> CallState option" where
  "State_of key r = map_option (\<lambda>a. entry_state (reg_heap r ! a)) (reg_entries r key)"

subsection \<open>Atomic steps\<close>

inductive registry_step :: "Registry \<Rightarrow> Registry \<Rightarrow> bool" where
  prepare: "Prepare parent key metadata r = (Inr h, r') \<Longrightarrow> registry_step r r'"
| activate: "h < length (reg_heap r) \<Longrightarrow> Activate h r = (Inr (), r') \<Longrightarrow> registry_step r r'"
| forget: "h < length (reg_heap r) \<Longrightarrow> \<not> entry_once (reg_heap r ! h) \<Longrightarrow> registry_step r (forget_handle h r)"
| cancelling: "a < length (reg_heap r) \<Longrightarrow> registry_step r (cancel_entry a cause r)"

inductive_cases registry_stepE: "registry_step r r'"

text \<open>What is registered is a live handle of its key.\<close>

definition registry_ok :: "Registry \<Rightarrow> bool" where
  "registry_ok r \<longleftrightarrow> (\<forall>key a. reg_entries r key = Some a \<longrightarrow>
     a < length (reg_heap r) \<and> entry_key (reg_heap r ! a) = key \<and> \<not> entry_once (reg_heap r ! a))"

lemma NewRegistry_ok [simp]: "registry_ok NewRegistry"
  by (simp add: registry_ok_def NewRegistry_def)

lemma Prepare_ok_iff:
  "Prepare parent key metadata r = (Inr h, r') \<longleftrightarrow>
     validate_call key metadata = Inr () \<and> reg_entries r key = None \<and> h = length (reg_heap r) \<and>
     r' = \<lparr>reg_heap = reg_heap r @ [\<lparr>entry_key = key, entry_metadata = metadata, entry_state = StatePrepared,
        entry_cause = parent, entry_once = False\<rparr>], reg_entries = (reg_entries r)(key \<mapsto> h)\<rparr>"
  by (auto simp: Prepare_def Let_def split: sum.splits if_splits)

lemma Activate_ok_iff:
  "Activate h r = (Inr (), r') \<longleftrightarrow>
     reg_entries r (entry_key (reg_heap r ! h)) = Some h \<and> entry_state (reg_heap r ! h) = StatePrepared \<and>
     r' = r\<lparr>reg_heap := (reg_heap r)[h := (reg_heap r ! h)\<lparr>entry_state := StateActive\<rparr>]\<rparr>"
  by (auto simp: Activate_def)

lemma nth_heap_update: "xs[a := x] ! b = (if b = a \<and> a < length xs then x else xs ! b)"
  by (cases "a < length xs") (auto simp: nth_list_update list_update_beyond)

lemma cancel_entry_simps [simp]:
  "reg_entries (cancel_entry a cause r) = reg_entries r"
  "length (reg_heap (cancel_entry a cause r)) = length (reg_heap r)"
  "entry_key (reg_heap (cancel_entry a cause r) ! b) = entry_key (reg_heap r ! b)"
  "entry_metadata (reg_heap (cancel_entry a cause r) ! b) = entry_metadata (reg_heap r ! b)"
  "entry_state (reg_heap (cancel_entry a cause r) ! b) = entry_state (reg_heap r ! b)"
  "entry_once (reg_heap (cancel_entry a cause r) ! b) = entry_once (reg_heap r ! b)"
  by (simp_all add: cancel_entry_def nth_heap_update split: option.splits)

lemma cancel_entry_cause:
  "a < length (reg_heap r) \<Longrightarrow> entry_cause (reg_heap (cancel_entry a cause r) ! b) =
     (if b = a \<and> entry_cause (reg_heap r ! a) = None then Some cause else entry_cause (reg_heap r ! b))"
  by (simp add: cancel_entry_def nth_heap_update split: option.splits)

lemma forget_handle_simps [simp]:
  "length (reg_heap (forget_handle h r)) = length (reg_heap r)"
  "entry_key (reg_heap (forget_handle h r) ! b) = entry_key (reg_heap r ! b)"
  "entry_metadata (reg_heap (forget_handle h r) ! b) = entry_metadata (reg_heap r ! b)"
  "entry_state (reg_heap (forget_handle h r) ! b) = entry_state (reg_heap r ! b)"
  "entry_cause (reg_heap (forget_handle h r) ! b) = entry_cause (reg_heap r ! b)"
  by (simp_all add: forget_handle_def nth_heap_update)

lemma forget_handle_once:
  "h < length (reg_heap r) \<Longrightarrow>
     entry_once (reg_heap (forget_handle h r) ! b) = (b = h \<or> entry_once (reg_heap r ! b))"
  by (simp add: forget_handle_def nth_heap_update)

lemma forget_handle_entries:
  "reg_entries (forget_handle h r) key =
     (if key = entry_key (reg_heap r ! h) \<and> reg_entries r key = Some h then None else reg_entries r key)"
  by (auto simp: forget_handle_def)

lemma registry_step_ok: "registry_step r r' \<Longrightarrow> registry_ok r \<Longrightarrow> registry_ok r'"
proof (induction rule: registry_step.induct)
  case (prepare parent key metadata r h r')
  then show ?case
    by (simp add: Prepare_ok_iff registry_ok_def nth_append) (meson less_SucI)
next
  case (activate h r r')
  then show ?case by (auto simp: Activate_ok_iff registry_ok_def nth_heap_update)
next
  case (forget h r)
  then show ?case
    by (auto simp: registry_ok_def forget_handle_entries forget_handle_once split: if_splits)
next
  case (cancelling a r cause)
  then show ?case by (simp add: registry_ok_def)
qed

text \<open>What no step ever undoes in an allocated entry.\<close>

lemma registry_step_entry:
  assumes "registry_step r r'" and "a < length (reg_heap r)"
  shows "a < length (reg_heap r') \<and> entry_key (reg_heap r' ! a) = entry_key (reg_heap r ! a) \<and>
    entry_metadata (reg_heap r' ! a) = entry_metadata (reg_heap r ! a) \<and>
    (entry_once (reg_heap r ! a) \<longrightarrow> entry_once (reg_heap r' ! a)) \<and>
    (entry_cause (reg_heap r ! a) \<noteq> None \<longrightarrow> entry_cause (reg_heap r' ! a) = entry_cause (reg_heap r ! a)) \<and>
    (entry_state (reg_heap r ! a) = StateActive \<longrightarrow> entry_state (reg_heap r' ! a) = StateActive) \<and>
    (reg_entries r (entry_key (reg_heap r ! a)) = Some a \<longrightarrow> \<not> entry_once (reg_heap r' ! a) \<longrightarrow>
       reg_entries r' (entry_key (reg_heap r ! a)) = Some a) \<and>
    (reg_entries r (entry_key (reg_heap r ! a)) \<noteq> Some a \<longrightarrow> reg_entries r' (entry_key (reg_heap r ! a)) \<noteq> Some a)"
  using assms
proof (induction rule: registry_step.induct)
  case (prepare parent key metadata r h r')
  then show ?case by (auto simp: Prepare_ok_iff nth_append)
next
  case (activate h r r')
  then show ?case by (auto simp: Activate_ok_iff nth_heap_update)
next
  case (forget h r)
  then show ?case by (auto simp: forget_handle_entries forget_handle_once)
next
  case (cancelling b r cause)
  then show ?case by (auto simp: cancel_entry_cause)
qed

lemma registry_steps_entry:
  assumes "registry_step\<^sup>*\<^sup>* r r'" and "a < length (reg_heap r)"
  shows "a < length (reg_heap r') \<and> entry_key (reg_heap r' ! a) = entry_key (reg_heap r ! a) \<and>
    entry_metadata (reg_heap r' ! a) = entry_metadata (reg_heap r ! a) \<and>
    (entry_once (reg_heap r ! a) \<longrightarrow> entry_once (reg_heap r' ! a)) \<and>
    (entry_cause (reg_heap r ! a) \<noteq> None \<longrightarrow> entry_cause (reg_heap r' ! a) = entry_cause (reg_heap r ! a)) \<and>
    (reg_entries r (entry_key (reg_heap r ! a)) = Some a \<longrightarrow> \<not> entry_once (reg_heap r' ! a) \<longrightarrow>
       reg_entries r' (entry_key (reg_heap r ! a)) = Some a) \<and>
    (reg_entries r (entry_key (reg_heap r ! a)) \<noteq> Some a \<longrightarrow> reg_entries r' (entry_key (reg_heap r ! a)) \<noteq> Some a)"
  using assms(1)
proof (induction rule: rtranclp_induct)
  case base
  with assms(2) show ?case by simp
next
  case (step y z)
  then have y: "a < length (reg_heap y)" by blast
  note z = registry_step_entry [OF step(2) y]
  show ?case using step.IH z by metis
qed

lemma registry_steps_ok: "registry_step\<^sup>*\<^sup>* r r' \<Longrightarrow> registry_ok r \<Longrightarrow> registry_ok r'"
  by (induction rule: rtranclp_induct) (auto intro: registry_step_ok)

text \<open>Every operation is a sequence of atomic steps.\<close>

lemma Unregister_steps: "h < length (reg_heap r) \<Longrightarrow> registry_step\<^sup>*\<^sup>* r (Unregister h r)"
  using registry_step.forget [of h r] registry_step.cancelling [of h "forget_handle h r" CauseCanceled]
  by (auto simp: Unregister_def)

lemma Cancel_steps: "registry_ok r \<Longrightarrow> Cancel key cause r = (res, r') \<Longrightarrow> registry_step\<^sup>*\<^sup>* r r'"
  using registry_step.cancelling
  by (auto simp: Cancel_def registry_ok_def split: if_splits option.splits intro!: r_into_rtranclp)

lemma fold_cancel_steps:
  "\<forall>a \<in> set as. a < length (reg_heap r) \<Longrightarrow> registry_step\<^sup>*\<^sup>* r (fold (\<lambda>a. cancel_entry a c) as r)"
proof (induction as arbitrary: r)
  case (Cons a as)
  then have "registry_step r (cancel_entry a c r)" by (auto intro: registry_step.cancelling)
  moreover have "registry_step\<^sup>*\<^sup>* (cancel_entry a c r) (fold (\<lambda>a. cancel_entry a c) as (cancel_entry a c r))"
    using Cons by simp
  ultimately show ?case by (simp add: converse_rtranclp_into_rtranclp)
qed simp

lemma CancelAll_steps: "CancelAll cause r = (res, r') \<Longrightarrow> registry_step\<^sup>*\<^sup>* r r'"
  by (auto simp: CancelAll_def registered_entries_def split: if_splits intro!: fold_cancel_steps)

lemma Activate_steps: "h < length (reg_heap r) \<Longrightarrow> Activate h r = (res, r') \<Longrightarrow> registry_step\<^sup>*\<^sup>* r r'"
  using registry_step.activate [of h r r'] by (auto simp: Activate_def split: if_splits)

lemma Prepare_steps: "Prepare parent key metadata r = (res, r') \<Longrightarrow> registry_step\<^sup>*\<^sup>* r r'"
proof (cases res)
  case (Inr h)
  moreover assume "Prepare parent key metadata r = (res, r')"
  ultimately show ?thesis using registry_step.prepare [of parent key metadata r h r'] by blast
qed (auto simp: Prepare_def Let_def split: sum.splits if_splits)

subsection \<open>Properties\<close>

text \<open>
  C16: A cancellation is never lost between the preparation and the end of a call. Take a handle that
  was just prepared, any atomic steps of other callers, a Cancel of its key with a valid cause, and
  any steps after it: as long as the handle was not unregistered before the Cancel, the context of
  the call is cancelled, and its cause is the one it carried before or the one of this Cancel.
\<close>

theorem cancellation_is_not_lost:
  assumes "registry_ok r" and "Prepare parent key metadata r = (Inr h, r1)"
    and "registry_step\<^sup>*\<^sup>* r1 r2" and "\<not> entry_once (reg_heap r2 ! h)"
    and "Cancel key cause r2 = (Inr found, r3)" and "registry_step\<^sup>*\<^sup>* r3 r4"
  shows "found \<and> handle_cancelled h r4 \<and>
    entry_cause (reg_heap r4 ! h) =
      (case entry_cause (reg_heap r2 ! h) of None \<Rightarrow> Some (CauseExecution cause) | Some c \<Rightarrow> Some c)"
proof -
  have r1: "h < length (reg_heap r1)" "entry_key (reg_heap r1 ! h) = key" "reg_entries r1 key = Some h"
    using assms(2) by (auto simp: Prepare_ok_iff)
  with registry_steps_entry [OF assms(3) r1(1)] assms(4)
  have r2: "h < length (reg_heap r2)" "reg_entries r2 key = Some h" by simp_all
  then have "found" "r3 = cancel_entry h (CauseExecution cause) r2"
    using assms(5) by (auto simp: Cancel_def split: if_splits)
  with r2 have "h < length (reg_heap r3)" "entry_cause (reg_heap r3 ! h) =
      (case entry_cause (reg_heap r2 ! h) of None \<Rightarrow> Some (CauseExecution cause) | Some c \<Rightarrow> Some c)"
    by (auto simp: cancel_entry_cause split: option.splits)
  with registry_steps_entry [OF assms(6)] \<open>found\<close> show ?thesis
    by (auto simp: handle_cancelled_def split: option.splits)
qed

lemma prepared_handle:
  assumes "Prepare parent key metadata r = (Inr h, r1)" and "registry_step\<^sup>*\<^sup>* r1 r2"
  shows "h < length (reg_heap r2) \<and> entry_key (reg_heap r2 ! h) = key \<and>
    (\<not> entry_once (reg_heap r2 ! h) \<longrightarrow> reg_entries r2 key = Some h)"
proof -
  have "h < length (reg_heap r1)" "entry_key (reg_heap r1 ! h) = key" "reg_entries r1 key = Some h"
    using assms(1) by (auto simp: Prepare_ok_iff)
  with registry_steps_entry [OF assms(2)] show ?thesis by metis
qed

text \<open>
  One external call per execution and worker. From the moment a handle is prepared until it is
  unregistered, whatever other callers do, a second Prepare of its key is refused and changes
  nothing; Unregister then frees the key and leaves the context of the call cancelled.
\<close>

lemma one_call_per_execution:
  assumes "Prepare parent key metadata r = (Inr h, r1)" and "registry_step\<^sup>*\<^sup>* r1 r2"
    and "\<not> entry_once (reg_heap r2 ! h)"
  shows "(\<exists>e. Prepare parent' key metadata' r2 = (Inl e, r2)) \<and>
    reg_entries (Unregister h r2) key = None \<and> handle_cancelled h (Unregister h r2)"
  using prepared_handle [OF assms(1,2)] assms(3)
  by (auto simp: Prepare_def Unregister_def forget_handle_entries handle_cancelled_def cancel_entry_cause split: sum.splits)

text \<open>
  C17: An old handle is harmless. Once a handle was unregistered, it can never be activated again, and
  repeating its Unregister changes nothing, however often its key was prepared again in between.
\<close>

theorem old_handle_is_harmless:
  assumes "registry_ok r" and "Prepare parent key metadata r = (Inr h, r1)" and "registry_step\<^sup>*\<^sup>* r1 r2"
    and "registry_step\<^sup>*\<^sup>* (Unregister h r2) r3"
  shows "Unregister h r3 = r3 \<and> Activate h r3 = (Inl ErrActiveCallNotPrepared, r3) \<and> reg_entries r3 key \<noteq> Some h"
proof -
  have h: "h < length (reg_heap r2)" using prepared_handle [OF assms(2,3)] by simp
  then have u: "h < length (reg_heap (Unregister h r2))" "entry_once (reg_heap (Unregister h r2) ! h)"
    by (simp_all add: Unregister_def forget_handle_once)
  have "registry_step\<^sup>*\<^sup>* r r3"
    using Prepare_steps [OF assms(2)] assms(3) Unregister_steps [OF h] assms(4) by (meson rtranclp_trans)
  then have ok: "registry_ok r3" using registry_steps_ok assms(1) by blast
  have once: "entry_once (reg_heap r3 ! h)" using registry_steps_entry [OF assms(4) u(1)] u(2) by blast
  then have "reg_entries r3 k \<noteq> Some h" for k using ok by (auto simp: registry_ok_def)
  with once show ?thesis by (simp add: Unregister_def Activate_def)
qed

subsection \<open>A concrete call\<close>

definition sample_key :: Key where
  "sample_key = \<lparr>Key_TaskID = ''t1'', Key_ExecutionVersion = 1, Key_WorkerID = ''w1''\<rparr>"

definition sample_metadata :: Metadata where
  "sample_metadata = \<lparr>Meta_ActionKind = CheckpointNextActionGeneratePlan, Meta_StepID = '''', Meta_ToolExecutionID = ''''\<rparr>"

definition sample_registry :: Registry where
  "sample_registry = snd (Prepare None sample_key sample_metadata NewRegistry)"

lemma sample_prepare: "Prepare None sample_key sample_metadata NewRegistry = (Inr 0, sample_registry)"
  by (simp add: sample_registry_def Prepare_def validate_call_def sample_key_def sample_metadata_def
      NewRegistry_def Let_def)

lemma sample_registry_entry:
  "\<not> entry_once (reg_heap sample_registry ! 0) \<and> reg_entries sample_registry sample_key = Some 0"
  by (simp add: sample_registry_def Prepare_def validate_call_def sample_key_def sample_metadata_def
      NewRegistry_def Let_def)

theorem cancellation_is_not_lost_witness:
  "handle_cancelled 0 (snd (Cancel sample_key ExecutionCancellationCauseTaskCancelled sample_registry))"
  using cancellation_is_not_lost [OF NewRegistry_ok sample_prepare rtranclp.rtrancl_refl, of
      ExecutionCancellationCauseTaskCancelled True
      "snd (Cancel sample_key ExecutionCancellationCauseTaskCancelled sample_registry)"] sample_registry_entry
  by (simp add: Cancel_def)

theorem old_handle_is_harmless_witness:
  "Activate 0 (Unregister 0 sample_registry) = (Inl ErrActiveCallNotPrepared, Unregister 0 sample_registry)"
  using old_handle_is_harmless [OF NewRegistry_ok sample_prepare rtranclp.rtrancl_refl rtranclp.rtrancl_refl] by blast

end
