(* ===== verification/Terminations.thy ===== *)
theory Terminations
  imports Scenes ActiveCall
begin

section \<open>Closing a scene\<close>

text \<open>
  CancelTask, ExpireTask and RecoverTask end a Task, its Run and its execution in one guarded
  statement of a repository. \<open>closing_repository\<close> is what they rely on: the facts they lock are the
  stored scene, a statement that reports a hit closed a scene with the expected statuses and touched
  no other task, and one that reports a miss did nothing. The recovery repository of the PostgreSQL
  adapter is shown to keep that contract; \<open>TerminationRepository\<close> has no implementation in the
  repository, so it is a record of two functions and the contract is what is assumed of it.
\<close>

locale closing_statement =
  fixes target :: "'q \<Rightarrow> TaskID"
    and expects :: "'q \<Rightarrow> Task \<Rightarrow> Run \<Rightarrow> TaskExecution \<Rightarrow> bool"
    and close_task :: "'q \<Rightarrow> Task \<Rightarrow> Task"
    and close_run :: "'q \<Rightarrow> Run \<Rightarrow> Run"
    and close_execution :: "'q \<Rightarrow> TaskExecution \<Rightarrow> TaskExecution"
    and apply_close :: "'q \<Rightarrow> 'x db \<Rightarrow> GoError + bool \<times> 'x db"
  assumes close_hit:
      "apply_close q s = Inr (True, s') \<Longrightarrow> \<exists>t r e. scene (target q) s t r e \<and> expects q t r e \<and>
         scene (target q) s' (close_task q t) (close_run q r) (close_execution q e) \<and>
         elsewhere_same (target q) s s' \<and> db_logs s' = db_logs s"
    and close_miss: "apply_close q s = Inr (False, s') \<Longrightarrow> s' = s"
    and close_statements: "apply_close q s = Inr (b, s') \<Longrightarrow> statement\<^sup>*\<^sup>* s s'"
begin

text \<open>A hit on a scene that is known.\<close>

lemma close_scene:
  assumes "scene (target q) s t r e" and "apply_close q s = Inr (True, s')"
  shows "expects q t r e \<and> scene (target q) s' (close_task q t) (close_run q r) (close_execution q e) \<and>
    elsewhere_same (target q) s s' \<and> db_logs s' = db_logs s \<and> statement\<^sup>*\<^sup>* s s'"
  using close_hit [OF assms(2)] close_statements [OF assms(2)] scene_unique [OF assms(1)] by metis

lemma close_keeps_inv:
  assumes "runtime_inv s" and "apply_close q s = Inr (b, s')"
    and "\<And>t r e. scene (target q) s t r e \<Longrightarrow> expects q t r e \<Longrightarrow>
      scene_ok (close_task q t) (close_run q r) (close_execution q e)"
  shows "runtime_inv s'"
proof (cases b)
  case True
  with assms(2) obtain t r e where hit: "scene (target q) s t r e" "expects q t r e"
      "scene (target q) s' (close_task q t) (close_run q r) (close_execution q e)" "elsewhere_same (target q) s s'"
    using close_hit [of q s s'] by auto
  have "schema_ok s'" using assms(1) schema_statements [OF close_statements [OF assms(2)]] by (simp add: runtime_inv_def)
  moreover have "scenes_ok s'"
    using assms(1) hit(4,3) assms(3) [OF hit(1,2)] by (auto simp: runtime_inv_def intro: scenes_ok_step)
  ultimately show ?thesis by (rule runtime_invI)
next
  case False
  with assms(1,2) close_miss show ?thesis by fastforce
qed

end

locale closing_repository = closing_statement target expects close_task close_run close_execution apply_close
  for target :: "'q \<Rightarrow> TaskID" and expects close_task close_run close_execution
    and apply_close :: "'q \<Rightarrow> 'x db \<Rightarrow> GoError + bool \<times> 'x db" +
  fixes lock_facts :: "TaskID \<Rightarrow> 'x db \<Rightarrow> GoError + TerminationFacts"
  assumes lock_scene:
      "lock_facts k s = Inr f \<Longrightarrow> scene k s (Facts_Task f) (Facts_Run f) (Facts_Execution f)"
begin

text \<open>A hit on the scene that was locked in the same transaction.\<close>

lemma close_locked:
  assumes "lock_facts (target q) s = Inr f" and "apply_close q s = Inr (True, s')"
  shows "scene (target q) s (Facts_Task f) (Facts_Run f) (Facts_Execution f) \<and>
    expects q (Facts_Task f) (Facts_Run f) (Facts_Execution f) \<and>
    scene (target q) s' (close_task q (Facts_Task f)) (close_run q (Facts_Run f))
      (close_execution q (Facts_Execution f)) \<and>
    elsewhere_same (target q) s s' \<and> db_logs s' = db_logs s \<and> statement\<^sup>*\<^sup>* s s'"
  using lock_scene [OF assms(1)] close_scene [OF lock_scene [OF assms(1)] assms(2)] by blast

end

subsection \<open>The recovery repository\<close>

definition recovery_expects :: "ApplyRecoveryFailureRequest \<Rightarrow> Task \<Rightarrow> Run \<Rightarrow> TaskExecution \<Rightarrow> bool" where
  "recovery_expects q t r e \<longleftrightarrow>
     Run_RunID r = Task_CurrentRunID t \<and> Task_CurrentExecutionVersion t = ARF_ExpectedExecutionVersion q \<and>
     Task_Status t = ARF_ExpectedTaskStatus q \<and> Run_Status r = ARF_ExpectedRunStatus q \<and>
     Exec_Status e = ARF_ExpectedExecutionStatus q"

lemma LockRecoveryFacts_scene:
  "LockRecoveryFacts k s = Inr f \<Longrightarrow>
     scene k s (Facts_Task f) (Facts_Run f) (Facts_Execution f) \<and> Facts_Step f = None \<and> Facts_ToolExecution f = None"
  by (auto simp: LockRecoveryFacts_def scanTask_def RunRepository_LockByTask_def scanTaskExecution_def scene_def
      split: option.splits if_splits)

interpretation recovery_repository: closing_repository ARF_TaskID recovery_expects recovery_failed_task
  recovery_failed_run recovery_failed_execution ApplyRecoveryFailure LockRecoveryFacts
proof unfold_locales
  fix q and s s' :: "'x db"
  assume hit: "ApplyRecoveryFailure q s = Inr (True, s')"
  show "\<exists>t r e. scene (ARF_TaskID q) s t r e \<and> recovery_expects q t r e \<and>
      scene (ARF_TaskID q) s' (recovery_failed_task q t) (recovery_failed_run q r) (recovery_failed_execution q e) \<and>
      elsewhere_same (ARF_TaskID q) s s' \<and> db_logs s' = db_logs s"
  proof (rule ApplyRecoveryFailure_rows [OF hit])
    fix t r e
    assume h: "recovery_failure_hits q s = Some (t, r, e)"
      and rows: "\<And>k. task_row k s' = (if k = ARF_TaskID q then Some (recovery_failed_task q t) else task_row k s)"
        "\<And>k. run_row k s' = (if k = ARF_TaskID q then Some (recovery_failed_run q r) else run_row k s)"
        "\<And>p. exec_row p s' = (if p = (ARF_TaskID q, Task_CurrentExecutionVersion t)
          then Some (recovery_failed_execution q e) else exec_row p s)"
    have "db_receipts s' = db_receipts s \<and> db_logs s' = db_logs s"
      using hit by (auto simp: ApplyRecoveryFailure_def split: option.splits if_splits)
    then have "scene (ARF_TaskID q) s t r e \<and> recovery_expects q t r e \<and>
      scene (ARF_TaskID q) s' (recovery_failed_task q t) (recovery_failed_run q r) (recovery_failed_execution q e) \<and>
      elsewhere_same (ARF_TaskID q) s s' \<and> db_logs s' = db_logs s"
      using h rows
      by (auto simp: recovery_failure_hits_def scene_def recovery_expects_def elsewhere_same_def recovery_failed_task_def
          split: option.splits if_splits)
    then show ?thesis by blast
  qed
qed (auto simp: LockRecoveryFacts_scene ApplyRecoveryFailure_statements ApplyRecoveryFailure_def
    split: option.splits if_splits)

subsection \<open>The termination repository\<close>

record 'x TerminationRepository =
  LockTerminationFacts :: "TaskID \<Rightarrow> 'x db \<Rightarrow> GoError + TerminationFacts"
  ApplyTermination :: "ApplyTerminationRequest \<Rightarrow> 'x db \<Rightarrow> GoError + bool \<times> 'x db"

text \<open>
  What a termination request asks for: the statuses it expects, and the row it writes for each of the
  three objects.
\<close>

definition termination_expects :: "ApplyTerminationRequest \<Rightarrow> Task \<Rightarrow> Run \<Rightarrow> TaskExecution \<Rightarrow> bool" where
  "termination_expects q t r e \<longleftrightarrow>
     Task_CurrentExecutionVersion t = AT_ExpectedExecutionVersion q \<and> Task_Status t = AT_ExpectedTaskStatus q \<and>
     Run_Status r = AT_ExpectedRunStatus q \<and> Exec_Status e = AT_ExpectedExecutionStatus q"

definition terminated_task :: "ApplyTerminationRequest \<Rightarrow> Task \<Rightarrow> Task" where
  "terminated_task q t = t\<lparr>Task_Status := AT_TaskStatus q, Task_ErrorCode := Some (AT_TaskErrorCode q),
     Task_QueuedAt := None, Task_EndedAt := Some (AT_EndedAt q)\<rparr>"

definition terminated_run :: "ApplyTerminationRequest \<Rightarrow> Run \<Rightarrow> Run" where
  "terminated_run q r = r\<lparr>Run_Status := RunStatusFailed, Run_ErrorCode := Some (AT_RunErrorCode q),
     Run_EndedAt := Some (AT_EndedAt q)\<rparr>"

definition terminated_execution :: "ApplyTerminationRequest \<Rightarrow> TaskExecution \<Rightarrow> TaskExecution" where
  "terminated_execution q e = e\<lparr>Exec_Status := TaskExecutionStatusFailed, Exec_ErrorCode := AT_ExecutionErrorCode q,
     Exec_TerminationReason := Some (AT_TerminationReason q),
     Exec_EndedAt := (if AT_PreserveExecutionEndedAt q then Exec_EndedAt e else Some (AT_EndedAt q))\<rparr>"

definition termination_contract :: "'x TerminationRepository \<Rightarrow> bool" where
  "termination_contract repo \<longleftrightarrow>
     closing_repository AT_TaskID termination_expects terminated_task terminated_run terminated_execution
       (ApplyTermination repo) (LockTerminationFacts repo)"

text \<open>
  The contract can be kept: for scenes without step and tool, three guarded updates of the
  PostgreSQL adapter in one transaction keep it. The witnesses of the services use this one.
\<close>

definition termination_execution_update :: "ApplyTerminationRequest \<Rightarrow> TerminationFacts \<Rightarrow> TaskExecutionUpdate" where
  "termination_execution_update q f = (let e = Facts_Execution f in
    \<lparr>EU_TaskID = AT_TaskID q, EU_ExecutionVersion = Exec_ExecutionVersion e,
     EU_ExpectedStatus = Exec_Status e, EU_ExpectedWorkerID = Exec_WorkerID e,
     EU_Status = TaskExecutionStatusFailed, EU_WorkerID = Exec_WorkerID e, EU_ObservedConfigHash = None,
     EU_ErrorCode = AT_ExecutionErrorCode q, EU_InvariantCode = Exec_InvariantCode e,
     EU_TerminationReason = Some (AT_TerminationReason q), EU_StartedAt = Exec_StartedAt e,
     EU_EndedAt = Exec_EndedAt (terminated_execution q e)\<rparr>)"

definition termination_run_update :: "ApplyTerminationRequest \<Rightarrow> TerminationFacts \<Rightarrow> RunUpdate" where
  "termination_run_update q f = (let r = Facts_Run f in
    \<lparr>RU_TaskID = AT_TaskID q, RU_RunID = Run_RunID r,
     RU_ExecutionVersion = Task_CurrentExecutionVersion (Facts_Task f), RU_ExpectedStatus = Run_Status r,
     RU_Status = RunStatusFailed, RU_PlanID = Run_PlanID r, RU_CurrentStepID = Run_CurrentStepID r,
     RU_Context = Run_Context r, RU_ErrorCode = Some (AT_RunErrorCode q), RU_StartedAt = Run_StartedAt r,
     RU_EndedAt = Some (AT_EndedAt q)\<rparr>)"

definition termination_task_update :: "ApplyTerminationRequest \<Rightarrow> TerminationFacts \<Rightarrow> TaskUpdate" where
  "termination_task_update q f = (let t = Facts_Task f in
    \<lparr>TU_TaskID = AT_TaskID q, TU_ExpectedStatus = Task_Status t,
     TU_ExpectedCurrentExecutionVersion = Task_CurrentExecutionVersion t, TU_Status = AT_TaskStatus q,
     TU_CurrentExecutionVersion = Task_CurrentExecutionVersion t, TU_ResultSummary = Task_ResultSummary t,
     TU_ErrorCode = Some (AT_TaskErrorCode q), TU_QueuedAt = None, TU_StartedAt = Task_StartedAt t,
     TU_EndedAt = Some (AT_EndedAt q)\<rparr>)"

definition stored_termination :: "ApplyTerminationRequest \<Rightarrow> 'x db \<Rightarrow> GoError + bool \<times> 'x db" where
  "stored_termination q s =
    attempt (LockRecoveryFacts (AT_TaskID q) s) (\<lambda>f.
      if \<not> termination_expects q (Facts_Task f) (Facts_Run f) (Facts_Execution f) then Inr (False, s)
      else
        attempt (TaskExecutionRepository_Update (termination_execution_update q f) s) (\<lambda>(hit1, s1).
        attempt (RunRepository_Update (termination_run_update q f) s1) (\<lambda>(hit2, s2).
        attempt (TaskRepository_Update (termination_task_update q f) s2) (\<lambda>(hit3, s3).
          if hit1 \<and> hit2 \<and> hit3 then Inr (True, s3) else Inl ErrPersistenceInvariantViolation))))"

definition stored_terminations :: "'x TerminationRepository" where
  "stored_terminations = \<lparr>LockTerminationFacts = LockRecoveryFacts, ApplyTermination = stored_termination\<rparr>"

lemma termination_patches:
  "TaskUpdate_patch (termination_task_update q f) (Facts_Task f) = terminated_task q (Facts_Task f)"
  "RunUpdate_patch (termination_run_update q f) (Facts_Run f) = terminated_run q (Facts_Run f)"
  "TaskExecutionUpdate_patch (termination_execution_update q f) (Facts_Execution f) =
     terminated_execution q (Facts_Execution f)"
  by (simp_all add: termination_task_update_def termination_run_update_def termination_execution_update_def
      TaskUpdate_patch_def RunUpdate_patch_def exec_patch_keeping terminated_task_def terminated_run_def
      terminated_execution_def Let_def)

text \<open>Three updates of one scene, in the order of its keys.\<close>

lemma three_updates:
  assumes "scene k s t r e"
    and u: "TaskExecutionRepository_Update eu s = Inr (True, s1)" "RunRepository_Update ru s1 = Inr (True, s2)"
      "TaskRepository_Update tu s2 = Inr (True, s')"
    and k: "EU_key eu = (k, Task_CurrentExecutionVersion t)" "RU_TaskID ru = k" "TU_TaskID tu = k"
      "TU_CurrentExecutionVersion tu = Task_CurrentExecutionVersion t"
    and p: "TaskExecutionUpdate_patch eu e = e'" "RunUpdate_patch ru r = r'" "TaskUpdate_patch tu t = t'"
  shows "scene k s' t' r' e' \<and> elsewhere_same k s s' \<and> db_logs s' = db_logs s \<and> statement\<^sup>*\<^sup>* s s'"
proof -
  have e: "scene k s1 t r e'" "elsewhere_same k s s1" using exec_update_scene [OF u(1) assms(1) k(1)] p(1) by auto
  have r: "scene k s2 t r' e'" "elsewhere_same k s1 s2" using run_update_scene [OF u(2) e(1) k(2)] p(2) by auto
  have t: "scene k s' t' r' e'" "elsewhere_same k s2 s'" using task_update_scene [OF u(3) r(1) k(3,4)] p(3) by auto
  have "statement\<^sup>*\<^sup>* s s'"
    using update_execution [OF u(1)] update_run [OF u(2)] update_task [OF u(3)]
    by (meson r_into_rtranclp rtranclp_trans)
  moreover have "db_logs s' = db_logs s"
    using update_frames(3) [OF u(1)] update_frames(2) [OF u(2)] update_frames(1) [OF u(3)] by simp
  ultimately show ?thesis using e r t elsewhere_same_trans by blast
qed

lemma stored_termination_hit:
  assumes "stored_termination q s = Inr (True, s')"
  shows "\<exists>t r e. scene (AT_TaskID q) s t r e \<and> termination_expects q t r e \<and>
    scene (AT_TaskID q) s' (terminated_task q t) (terminated_run q r) (terminated_execution q e) \<and>
    elsewhere_same (AT_TaskID q) s s' \<and> db_logs s' = db_logs s \<and> statement\<^sup>*\<^sup>* s s'"
proof -
  obtain f s1 s2 where f: "LockRecoveryFacts (AT_TaskID q) s = Inr f"
      "termination_expects q (Facts_Task f) (Facts_Run f) (Facts_Execution f)"
    and u: "TaskExecutionRepository_Update (termination_execution_update q f) s = Inr (True, s1)"
      "RunRepository_Update (termination_run_update q f) s1 = Inr (True, s2)"
      "TaskRepository_Update (termination_task_update q f) s2 = Inr (True, s')"
    using assms by (auto simp: stored_termination_def split: if_splits)
  have sc: "scene (AT_TaskID q) s (Facts_Task f) (Facts_Run f) (Facts_Execution f)"
    using LockRecoveryFacts_scene [OF f(1)] by simp
  have keys: "EU_key (termination_execution_update q f) = (AT_TaskID q, Task_CurrentExecutionVersion (Facts_Task f))"
    "RU_TaskID (termination_run_update q f) = AT_TaskID q" "TU_TaskID (termination_task_update q f) = AT_TaskID q"
    "TU_CurrentExecutionVersion (termination_task_update q f) = Task_CurrentExecutionVersion (Facts_Task f)"
    using scene_keys [OF sc]
    by (simp_all add: termination_execution_update_def termination_run_update_def termination_task_update_def
        EU_key_def Let_def)
  show ?thesis
    using sc f(2) three_updates [OF sc u keys termination_patches(3,2,1)] by blast
qed

interpretation stored_terminations: closing_repository AT_TaskID termination_expects terminated_task
  terminated_run terminated_execution stored_termination LockRecoveryFacts
proof unfold_locales
  fix q b and s s' :: "'x db"
  show miss: "stored_termination q s = Inr (False, s') \<Longrightarrow> s' = s"
    by (auto simp: stored_termination_def split: if_splits)
  show "stored_termination q s = Inr (True, s') \<Longrightarrow> \<exists>t r e. scene (AT_TaskID q) s t r e \<and> termination_expects q t r e \<and>
      scene (AT_TaskID q) s' (terminated_task q t) (terminated_run q r) (terminated_execution q e) \<and>
      elsewhere_same (AT_TaskID q) s s' \<and> db_logs s' = db_logs s"
    using stored_termination_hit by blast
  show "stored_termination q s = Inr (b, s') \<Longrightarrow> statement\<^sup>*\<^sup>* s s'"
    using stored_termination_hit [of q s s'] miss by (cases b) auto
qed (simp add: LockRecoveryFacts_scene)

lemma stored_terminations_contract [simp]: "termination_contract stored_terminations"
  by (simp add: termination_contract_def stored_terminations_def stored_terminations.closing_repository_axioms)

end
