(* ===== verification/RecoverTask.thy ===== *)
theory RecoverTask
  imports Terminations Commands
begin

section \<open>RecoverTask\<close>

text \<open>
  \<open>internal/taskruntime/recover.go\<close>: one transaction that replays the receipt of a known command, or
  locks the scene of an interrupted execution, has its checkpoint validated and puts the next
  execution version in the queue; a deadline that has passed and an invalid checkpoint close the task
  instead. The registry of active calls is a field of the service, so the model passes it through.
\<close>

record RecoverTaskRequest =
  RTR_CommandID :: CommandID
  RTR_TaskID :: TaskID
  RTR_OperatorID :: string

record TaskRecovered =
  TRV_TaskID :: TaskID
  TRV_RunID :: RunID
  TRV_SourceExecutionVersion :: ExecutionVersion
  TRV_NewExecutionVersion :: ExecutionVersion
  TRV_TaskStatus :: TaskStatus
  TRV_RunStatus :: RunStatus
  TRV_ExecutionStatus :: TaskExecutionStatus
  TRV_QueuedAt :: time
  TRV_RecoveryCheckpointID :: CheckpointID

subsection \<open>The scene\<close>

definition recoveryPhase :: "TerminationFacts \<Rightarrow> GoError + RecoverySourcePhase" where
  "recoveryPhase facts =
    (let t = Facts_Task facts; r = Facts_Run facts; e = Facts_Execution facts in
     if Task_CurrentExecutionVersion t \<noteq> Exec_ExecutionVersion e \<or> Task_CurrentRunID t \<noteq> Run_RunID r
        \<or> Run_TaskID r \<noteq> Task_TaskID t \<or> Exec_TaskID e \<noteq> Task_TaskID t \<or> Task_QueuedAt t \<noteq> None
        \<or> Exec_Status e \<noteq> TaskExecutionStatusInterrupted \<or> TaskStatus_Terminal (Task_Status t)
     then Inl ErrRecoverStateConflict
     else
       (case Exec_ErrorCode e of
          None \<Rightarrow> Inl ErrRecoverStateConflict
        | Some code \<Rightarrow>
            if Task_Status t = TaskStatusInterrupted \<and> Run_Status r = RunStatusPending
               \<and> code = ErrorCodeConfigVersionMismatch \<and> Exec_StartedAt e = None
               \<and> Run_PlanID r = None \<and> Run_CurrentStepID r = None
               \<and> Facts_Step facts = None \<and> Facts_ToolExecution facts = None
            then Inr RecoverySourceBeforeFirstExecution
            else if Run_Status r = RunStatusRunning
                    \<and> (Task_Status t = TaskStatusRunning \<or> Task_Status t = TaskStatusInterrupted)
                    \<and> (code = ErrorCodeWorkerInterrupted \<or> code = ErrorCodeResultPersistenceFailed
                       \<or> code = ErrorCodeConfigVersionMismatch)
            then Inr RecoverySourceStartedExecution
            else Inl ErrRecoverStateConflict))"

definition recoveryTargetStates :: "CheckpointNextAction \<Rightarrow> TaskStatus \<times> RunStatus" where
  "recoveryTargetStates action =
    (if action = CheckpointNextActionGeneratePlan then (TaskStatusPending, RunStatusPending)
     else (TaskStatusRunning, RunStatusRunning))"

text \<open>\<open>conditionalRecoverError\<close>: the error of an update that failed or did not hit.\<close>

definition conditional_recover :: "GoError + bool \<times> 'x db \<Rightarrow> GoError + 'x db" where
  "conditional_recover result =
    attempt result (\<lambda>(updated, s). if updated then Inr s else Inl ErrPersistenceInvariantViolation)"

subsection \<open>The receipt\<close>

record recoverReceiptResponse =
  VRR_Outcome :: string
  VRR_TaskID :: TaskID
  VRR_RunID :: RunID
  VRR_SourceExecutionVersion :: ExecutionVersion
  VRR_NewExecutionVersion :: ExecutionVersion
  VRR_TaskStatus :: TaskStatus
  VRR_RunStatus :: RunStatus
  VRR_ExecutionStatus :: TaskExecutionStatus
  VRR_QueuedAt :: time
  VRR_RecoveryCheckpointID :: CheckpointID
  VRR_ErrorCode :: string
  VRR_ReasonCode :: ReasonCode
  VRR_CurrentConfigHash :: ExecutionConfigHash
  VRR_TaskExecutionConfigHash :: ExecutionConfigHash
  VRR_CheckpointConfigHash :: ExecutionConfigHash
  VRR_SourceCheckpointID :: CheckpointID

definition encode_recover_response :: "recoverReceiptResponse \<Rightarrow> json" where
  "encode_recover_response r = JObj (
     jmember ''outcome'' (JStr (VRR_Outcome r)) @ jmember ''task_id'' (JStr (VRR_TaskID r)) @
     jmember ''run_id'' (JStr (VRR_RunID r)) @
     jmember ''source_execution_version'' (JNum (VRR_SourceExecutionVersion r)) @
     jnum_omitempty ''new_execution_version'' (VRR_NewExecutionVersion r) @
     jmember ''task_status'' (JStr (TaskStatus_text (VRR_TaskStatus r))) @
     jmember ''run_status'' (JStr (RunStatus_text (VRR_RunStatus r))) @
     jmember ''execution_status'' (JStr (TaskExecutionStatus_text (VRR_ExecutionStatus r))) @
     jmember ''queued_at'' (JTime (VRR_QueuedAt r)) @
     jstr_omitempty ''recovery_checkpoint_id'' (VRR_RecoveryCheckpointID r) @
     jstr_omitempty ''error_code'' (VRR_ErrorCode r) @
     jstr_omitempty ''reason_code'' (ReasonCode_text (VRR_ReasonCode r)) @
     jstr_omitempty ''current_config_hash'' (VRR_CurrentConfigHash r) @
     jstr_omitempty ''task_execution_config_hash'' (VRR_TaskExecutionConfigHash r) @
     jstr_omitempty ''checkpoint_config_hash'' (VRR_CheckpointConfigHash r) @
     jstr_omitempty ''source_checkpoint_id'' (VRR_SourceCheckpointID r))"

text \<open>The response before anything is decoded into it, and one read member after the other.\<close>

definition empty_recover_response :: recoverReceiptResponse where
  "empty_recover_response =
    \<lparr>VRR_Outcome = '''', VRR_TaskID = '''', VRR_RunID = '''', VRR_SourceExecutionVersion = 0,
     VRR_NewExecutionVersion = 0, VRR_TaskStatus = TaskStatusOther '''', VRR_RunStatus = RunStatusOther '''',
     VRR_ExecutionStatus = TaskExecutionStatusOther '''', VRR_QueuedAt = 0, VRR_RecoveryCheckpointID = '''',
     VRR_ErrorCode = '''', VRR_ReasonCode = ReasonCodeOther '''', VRR_CurrentConfigHash = '''',
     VRR_TaskExecutionConfigHash = '''', VRR_CheckpointConfigHash = '''', VRR_SourceCheckpointID = ''''\<rparr>"

definition decode_recover_members :: "(string \<times> json) list \<Rightarrow> recoverReceiptResponse option" where
  "decode_recover_members ms =
    Option.bind (jget_str ms ''outcome'') (\<lambda>outcome.
    Option.bind (jget_str ms ''task_id'') (\<lambda>taskID.
    Option.bind (jget_str ms ''run_id'') (\<lambda>runID.
    Option.bind (jget_int64 ms ''source_execution_version'') (\<lambda>source.
    Option.bind (jget_int64 ms ''new_execution_version'') (\<lambda>new.
    Option.bind (jget_str ms ''task_status'') (\<lambda>task.
    Option.bind (jget_str ms ''run_status'') (\<lambda>run.
    Option.bind (jget_str ms ''execution_status'') (\<lambda>execution.
    Option.bind (jget_time ms ''queued_at'') (\<lambda>queued.
    Option.bind (jget_str ms ''recovery_checkpoint_id'') (\<lambda>checkpoint.
    Option.bind (jget_str ms ''error_code'') (\<lambda>code.
    Option.bind (jget_str ms ''reason_code'') (\<lambda>reason.
    Option.bind (jget_str ms ''current_config_hash'') (\<lambda>current.
    Option.bind (jget_str ms ''task_execution_config_hash'') (\<lambda>frozen.
    Option.bind (jget_str ms ''checkpoint_config_hash'') (\<lambda>checkpointHash.
    Option.bind (jget_str ms ''source_checkpoint_id'') (\<lambda>sourceCheckpoint.
      Some \<lparr>VRR_Outcome = outcome, VRR_TaskID = taskID, VRR_RunID = runID, VRR_SourceExecutionVersion = source,
        VRR_NewExecutionVersion = new, VRR_TaskStatus = TaskStatus_of task, VRR_RunStatus = RunStatus_of run,
        VRR_ExecutionStatus = TaskExecutionStatus_of execution, VRR_QueuedAt = queued,
        VRR_RecoveryCheckpointID = checkpoint, VRR_ErrorCode = code, VRR_ReasonCode = ReasonCode_of reason,
        VRR_CurrentConfigHash = current, VRR_TaskExecutionConfigHash = frozen,
        VRR_CheckpointConfigHash = checkpointHash, VRR_SourceCheckpointID = sourceCheckpoint\<rparr>))))))))))))))))"

definition decode_recover_response :: "json \<Rightarrow> recoverReceiptResponse option" where
  "decode_recover_response j =
    (case j of JObj ms \<Rightarrow> decode_recover_members ms | JNull \<Rightarrow> Some empty_recover_response | _ \<Rightarrow> None)"

definition recoverSucceeded ::
    "TerminationFacts \<Rightarrow> ExecutionVersion \<Rightarrow> TaskStatus \<Rightarrow> RunStatus \<Rightarrow> time \<Rightarrow> CheckpointID \<Rightarrow> recoverReceiptResponse" where
  "recoverSucceeded facts newVersion taskStatus runStatus queuedAt checkpointID =
    empty_recover_response
      \<lparr>VRR_Outcome := ''Recovered'', VRR_TaskID := Task_TaskID (Facts_Task facts),
       VRR_RunID := Run_RunID (Facts_Run facts),
       VRR_SourceExecutionVersion := Exec_ExecutionVersion (Facts_Execution facts),
       VRR_NewExecutionVersion := newVersion, VRR_TaskStatus := taskStatus, VRR_RunStatus := runStatus,
       VRR_ExecutionStatus := TaskExecutionStatusQueued, VRR_QueuedAt := queuedAt,
       VRR_RecoveryCheckpointID := checkpointID\<rparr>"

definition recoverRejected :: "TerminationFacts \<Rightarrow> string \<Rightarrow> ReasonCode \<Rightarrow> recoverReceiptResponse" where
  "recoverRejected facts code reason =
    empty_recover_response
      \<lparr>VRR_Outcome := ''Rejected'', VRR_TaskID := Task_TaskID (Facts_Task facts),
       VRR_RunID := Run_RunID (Facts_Run facts),
       VRR_SourceExecutionVersion := Exec_ExecutionVersion (Facts_Execution facts),
       VRR_TaskStatus := Task_Status (Facts_Task facts), VRR_RunStatus := Run_Status (Facts_Run facts),
       VRR_ExecutionStatus := Exec_Status (Facts_Execution facts), VRR_ErrorCode := code,
       VRR_ReasonCode := reason\<rparr>"

definition recoverConfigMismatch ::
    "TerminationFacts \<Rightarrow> CheckpointID \<Rightarrow> ExecutionConfigHash \<Rightarrow> ExecutionConfigHash \<Rightarrow> recoverReceiptResponse" where
  "recoverConfigMismatch facts sourceCheckpointID sourceHash current =
    (recoverRejected facts ''CONFIG_VERSION_MISMATCH'' (ReasonCodeOther ''''))
      \<lparr>VRR_CurrentConfigHash := current,
       VRR_TaskExecutionConfigHash := Exec_ExecutionConfigHash (Facts_Execution facts),
       VRR_CheckpointConfigHash := sourceHash, VRR_SourceCheckpointID := sourceCheckpointID\<rparr>"

definition validateRecoverReceipt :: "recoverReceiptResponse \<Rightarrow> GoError + unit" where
  "validateRecoverReceipt r =
    (if VRR_TaskID r = '''' \<or> VRR_RunID r = '''' \<or> \<not> ExecutionVersion_Valid (VRR_SourceExecutionVersion r)
     then Inl ErrPersistenceInvariantViolation
     else if VRR_Outcome r = ''Recovered'' then
       (if VRR_NewExecutionVersion r \<noteq> next_version (VRR_SourceExecutionVersion r)
           \<or> VRR_ExecutionStatus r \<noteq> TaskExecutionStatusQueued \<or> IsZero (VRR_QueuedAt r)
           \<or> VRR_RecoveryCheckpointID r = ''''
        then Inl ErrPersistenceInvariantViolation else Inr ())
     else if VRR_Outcome r \<noteq> ''Rejected'' then Inl ErrPersistenceInvariantViolation
     else if VRR_ErrorCode r = ''RecoverStateConflict'' \<or> VRR_ErrorCode r = ''TaskTimeout'' then Inr ()
     else if VRR_ErrorCode r = ''CheckpointInvalid'' then
       (if \<not> ReasonCode_ValidForCheckpointInvalid (VRR_ReasonCode r)
        then Inl ErrPersistenceInvariantViolation else Inr ())
     else if VRR_ErrorCode r = ''CONFIG_VERSION_MISMATCH'' then
       (if \<not> ExecutionConfigHash_Valid (VRR_CurrentConfigHash r)
           \<or> \<not> ExecutionConfigHash_Valid (VRR_TaskExecutionConfigHash r)
           \<or> \<not> ExecutionConfigHash_Valid (VRR_CheckpointConfigHash r) \<or> VRR_SourceCheckpointID r = ''''
        then Inl ErrPersistenceInvariantViolation else Inr ())
     else Inl ErrPersistenceInvariantViolation)"

definition recover_result :: "recoverReceiptResponse \<Rightarrow> GoError + TaskRecovered" where
  "recover_result r =
    attempt (validateRecoverReceipt r) (\<lambda>_.
      if VRR_Outcome r = ''Recovered'' then
        Inr \<lparr>TRV_TaskID = VRR_TaskID r, TRV_RunID = VRR_RunID r,
          TRV_SourceExecutionVersion = VRR_SourceExecutionVersion r,
          TRV_NewExecutionVersion = VRR_NewExecutionVersion r, TRV_TaskStatus = VRR_TaskStatus r,
          TRV_RunStatus = VRR_RunStatus r, TRV_ExecutionStatus = VRR_ExecutionStatus r,
          TRV_QueuedAt = VRR_QueuedAt r, TRV_RecoveryCheckpointID = VRR_RecoveryCheckpointID r\<rparr>
      else if VRR_ErrorCode r = ''RecoverStateConflict'' then Inl ErrRecoverStateConflict
      else if VRR_ErrorCode r = ''CONFIG_VERSION_MISMATCH'' then Inl ErrRecoverConfigMismatch
      else if VRR_ErrorCode r = ''CheckpointInvalid'' then Inl ErrRecoverCheckpointInvalid
      else if VRR_ErrorCode r = ''TaskTimeout'' then Inl ErrTaskTimedOut
      else Inl ErrPersistenceInvariantViolation)"

definition recover_request_json :: "RecoverTaskRequest \<Rightarrow> json" where
  "recover_request_json request = JObj
     [(''task_id'', JStr (RTR_TaskID request)), (''operator_id'', JStr (RTR_OperatorID request))]"

definition recoverRequestFingerprint :: "(json \<Rightarrow> string) \<Rightarrow> RecoverTaskRequest \<Rightarrow> GoError + string" where
  "recoverRequestFingerprint digest request =
    (if RTR_CommandID request = '''' \<or> RTR_TaskID request = '''' \<or> blank (RTR_OperatorID request)
        \<or> \<not> utf8_valid (RTR_CommandID request) \<or> \<not> utf8_valid (RTR_TaskID request)
        \<or> \<not> utf8_valid (RTR_OperatorID request)
     then Inl ErrInvalidArgument
     else Inr (digest (recover_request_json request)))"

definition recover_receipt :: "RecoverTaskRequest \<Rightarrow> string \<Rightarrow> recoverReceiptResponse \<Rightarrow> time \<Rightarrow> CommandReceipt" where
  "recover_receipt request fingerprint response now =
    \<lparr>Receipt_CommandID = RTR_CommandID request, Receipt_CommandType = CommandTypeRecover,
     Receipt_TargetID = RTR_TaskID request, Receipt_RequestFingerprint = fingerprint,
     Receipt_Response = encode_recover_response response, Receipt_CreatedAt = now\<rparr>"

definition insertRecoverReceipt ::
    "RecoverTaskRequest \<Rightarrow> string \<Rightarrow> recoverReceiptResponse \<Rightarrow> time \<Rightarrow> 'x db \<Rightarrow> GoError + 'x db" where
  "insertRecoverReceipt request fingerprint response now s =
    CommandReceiptRepository_Insert (recover_receipt request fingerprint response now) s"

subsection \<open>Closing instead of recovering\<close>

definition recovery_failure :: "TerminationFacts \<Rightarrow> time \<Rightarrow> ErrorCode \<Rightarrow> ApplyRecoveryFailureRequest" where
  "recovery_failure facts now errorCode =
    \<lparr>ARF_TaskID = Task_TaskID (Facts_Task facts),
     ARF_ExpectedExecutionVersion = Exec_ExecutionVersion (Facts_Execution facts),
     ARF_ExpectedTaskStatus = Task_Status (Facts_Task facts), ARF_ExpectedRunStatus = Run_Status (Facts_Run facts),
     ARF_ExpectedExecutionStatus = Exec_Status (Facts_Execution facts), ARF_ErrorCode = errorCode,
     ARF_TerminationReason =
       (if errorCode = ErrorCodeTaskTimeout then Some TerminationReasonTimedOut else None),
     ARF_EndedAt = now\<rparr>"

definition failure_response :: "TerminationFacts \<Rightarrow> string \<Rightarrow> ReasonCode \<Rightarrow> recoverReceiptResponse" where
  "failure_response facts responseCode reason =
    (recoverRejected facts responseCode reason)
      \<lparr>VRR_TaskStatus := TaskStatusFailed, VRR_RunStatus := RunStatusFailed,
       VRR_ExecutionStatus := TaskExecutionStatusFailed\<rparr>"

definition terminalizeFailure ::
    "'x Ports \<Rightarrow> RecoverTaskRequest \<Rightarrow> string \<Rightarrow> TerminationFacts \<Rightarrow> time \<Rightarrow> ErrorCode \<Rightarrow> ReasonCode \<Rightarrow> string \<Rightarrow>
     'x db \<Rightarrow> GoError + recoverReceiptResponse \<times> 'x db" where
  "terminalizeFailure ports request fingerprint facts now errorCode reason responseCode s =
    (if Facts_Step facts \<noteq> None \<or> Facts_ToolExecution facts \<noteq> None then Inl ErrPersistenceInvariantViolation
     else
       let task = CanTaskTransition (Task_Status (Facts_Task facts)) TaskStatusFailed;
           run = CanRunTransition (Run_Status (Facts_Run facts)) RunStatusFailed;
           execution = CanExecutionTransition (Exec_Status (Facts_Execution facts)) TaskExecutionStatusFailed
       in
       attempt (require (Allowed task) (ErrLifecycle ''validate Recover failure Task lifecycle'' (Reason task))) (\<lambda>_.
       attempt (require (Allowed run) (ErrLifecycle ''validate Recover failure Run lifecycle'' (Reason run))) (\<lambda>_.
       attempt (require (Allowed execution)
         (ErrLifecycle ''validate Recover failure Execution lifecycle'' (Reason execution))) (\<lambda>_.
       attempt (conditional_recover (ApplyRecoveryFailure (recovery_failure facts now errorCode) s)) (\<lambda>s.
       attempt (ensurePendingReport ports (Task_TaskID (Facts_Task facts)) (Run_RunID (Facts_Run facts)) now s) (\<lambda>s.
       let response = failure_response facts responseCode reason
       in attempt (insertRecoverReceipt request fingerprint response now s) (\<lambda>s. Inr (response, s))))))))"

subsection \<open>The next version\<close>

definition recovered_execution ::
    "TerminationFacts \<Rightarrow> TaskExecutionID \<Rightarrow> ExecutionVersion \<Rightarrow> ExecutionConfigHash \<Rightarrow> time \<Rightarrow> TaskExecution" where
  "recovered_execution facts executionID newVersion hash now =
    \<lparr>Exec_TaskExecutionID = executionID, Exec_TaskID = Task_TaskID (Facts_Task facts),
     Exec_ExecutionVersion = newVersion, Exec_WorkerID = None, Exec_Status = TaskExecutionStatusQueued,
     Exec_ExecutionConfigHash = hash, Exec_ObservedConfigHash = None, Exec_ErrorCode = None,
     Exec_InvariantCode = None, Exec_TerminationReason = None, Exec_CreatedAt = now, Exec_StartedAt = None,
     Exec_EndedAt = None\<rparr>"

definition recover_task_update :: "TerminationFacts \<Rightarrow> TaskStatus \<Rightarrow> ExecutionVersion \<Rightarrow> time \<Rightarrow> TaskUpdate" where
  "recover_task_update facts taskStatus newVersion now =
    \<lparr>TU_TaskID = Task_TaskID (Facts_Task facts), TU_ExpectedStatus = Task_Status (Facts_Task facts),
     TU_ExpectedCurrentExecutionVersion = Exec_ExecutionVersion (Facts_Execution facts), TU_Status = taskStatus,
     TU_CurrentExecutionVersion = newVersion, TU_ResultSummary = Task_ResultSummary (Facts_Task facts),
     TU_ErrorCode = None, TU_QueuedAt = Some now, TU_StartedAt = Task_StartedAt (Facts_Task facts),
     TU_EndedAt = None\<rparr>"

definition recover_run_update :: "TerminationFacts \<Rightarrow> RunStatus \<Rightarrow> ExecutionVersion \<Rightarrow> RunUpdate" where
  "recover_run_update facts runStatus newVersion =
    \<lparr>RU_TaskID = Task_TaskID (Facts_Task facts), RU_RunID = Run_RunID (Facts_Run facts),
     RU_ExecutionVersion = newVersion, RU_ExpectedStatus = Run_Status (Facts_Run facts), RU_Status = runStatus,
     RU_PlanID = Run_PlanID (Facts_Run facts), RU_CurrentStepID = Run_CurrentStepID (Facts_Run facts),
     RU_Context = Run_Context (Facts_Run facts), RU_ErrorCode = None,
     RU_StartedAt = Run_StartedAt (Facts_Run facts), RU_EndedAt = None\<rparr>"

text \<open>The new execution, the Task and the Run that point at it, its first checkpoint and the receipt.\<close>

definition recover_version ::
    "'x Ports \<Rightarrow> Call \<Rightarrow> RecoverTaskRequest \<Rightarrow> string \<Rightarrow> TerminationFacts \<Rightarrow> CheckpointNextAction \<Rightarrow>
     string option \<Rightarrow> ExecutionConfigHash \<Rightarrow> 'x db \<Rightarrow>
     GoError + (recoverReceiptResponse \<times> taskLogDraft option) \<times> 'x db" where
  "recover_version ports c request fingerprint facts nextAction source hash s =
    (let now = call_now c; version = Exec_ExecutionVersion (Facts_Execution facts);
         newVersion = next_version version in
     attempt (require (ExecutionVersion_Valid newVersion) ErrPersistenceInvariantViolation) (\<lambda>_.
     attempt (call_newID c ''execution'') (\<lambda>executionID.
     attempt (TaskExecutionRepository_Insert (recovered_execution facts executionID newVersion hash now) s) (\<lambda>s.
     case recoveryTargetStates nextAction of (taskStatus, runStatus) \<Rightarrow>
     let decision = CanTaskTransition (Task_Status (Facts_Task facts)) taskStatus in
     attempt (require (Task_Status (Facts_Task facts) = taskStatus \<or> Allowed decision)
       (ErrLifecycle ''validate Recover Task lifecycle'' (Reason decision))) (\<lambda>_.
     attempt (conditional_recover (TaskRepository_Update (recover_task_update facts taskStatus newVersion now) s)) (\<lambda>s.
     attempt (conditional_recover (RunRepository_Update (recover_run_update facts runStatus newVersion) s)) (\<lambda>s.
     attempt (CreateRecoveryStart ports
       \<lparr>RS_TaskID = Task_TaskID (Facts_Task facts), RS_RunID = Run_RunID (Facts_Run facts),
        RS_NewExecutionVersion = newVersion, RS_ExecutionConfigHash = hash, RS_ValidatedSource = source\<rparr> s)
       (\<lambda>(checkpointID, x).
     let s = s\<lparr>db_other := x\<rparr>;
         response = recoverSucceeded facts newVersion taskStatus runStatus now checkpointID
     in attempt (insertRecoverReceipt request fingerprint response now s) (\<lambda>s.
          Inr ((response, Some (checkpointRestoredTaskLogDraft (Task_TaskID (Facts_Task facts))
            (Run_RunID (Facts_Run facts)) version newVersion)), s))))))))))"

text \<open>What follows a valid checkpoint: the configuration must be the one it was written under.\<close>

definition recover_source ::
    "'x Ports \<Rightarrow> Call \<Rightarrow> RecoverTaskRequest \<Rightarrow> string \<Rightarrow> TerminationFacts \<Rightarrow> CheckpointID \<Rightarrow>
     ExecutionConfigHash \<Rightarrow> CheckpointNextAction \<Rightarrow> string option \<Rightarrow> 'x db \<Rightarrow>
     GoError + (recoverReceiptResponse \<times> taskLogDraft option) \<times> 'x db" where
  "recover_source ports c request fingerprint facts checkpointID sourceHash nextAction source s =
    (if source = None \<or> checkpointID = '''' \<or> \<not> ExecutionConfigHash_Valid sourceHash
        \<or> \<not> CheckpointNextAction_Valid nextAction
     then Inl ErrPersistenceInvariantViolation
     else if nextAction \<noteq> CheckpointNextActionGeneratePlan then Inl ErrPersistenceInvariantViolation
     else
       (case LookupAgent ports (Task_AgentID (Facts_Task facts)) of
          None \<Rightarrow> Inl (ErrText ''recover Task: validated Agent configuration is unavailable'')
        | Some agent \<Rightarrow>
            if \<not> agent_enabled agent
            then Inl (ErrText ''recover Task: validated Agent configuration is unavailable'')
            else
              attempt (HashExecutionConfigV1 ports (ARC_ExecutionConfig agent)) (\<lambda>currentHash.
                if currentHash \<noteq> Exec_ExecutionConfigHash (Facts_Execution facts) \<or> currentHash \<noteq> sourceHash then
                  (let response = recoverConfigMismatch facts checkpointID sourceHash currentHash
                   in attempt (insertRecoverReceipt request fingerprint response (call_now c) s) (\<lambda>s.
                        Inr ((response, None), s)))
                else recover_version ports c request fingerprint facts nextAction source currentHash s)))"

text \<open>The switch on the checkpoint result.\<close>

definition recover_validated ::
    "'x Ports \<Rightarrow> Call \<Rightarrow> RecoverTaskRequest \<Rightarrow> string \<Rightarrow> TerminationFacts \<Rightarrow> RecoveryCheckpointResult \<Rightarrow> 'x db \<Rightarrow>
     GoError + (recoverReceiptResponse \<times> taskLogDraft option) \<times> 'x db" where
  "recover_validated ports c request fingerprint facts validated s =
    (case validated of
       RecoveryCheckpointValid checkpointID sourceHash nextAction source \<Rightarrow>
         recover_source ports c request fingerprint facts checkpointID sourceHash nextAction source s
     | RecoveryCheckpointInvalid reason \<Rightarrow>
         if \<not> ReasonCode_ValidForCheckpointInvalid reason then Inl ErrPersistenceInvariantViolation
         else attempt (terminalizeFailure ports request fingerprint facts (call_now c) ErrorCodeCheckpointInvalid
           reason ''CheckpointInvalid'' s) (\<lambda>(response, s). Inr ((response, None), s))
     | RecoveryCheckpointInvariantViolation _ \<Rightarrow> Inl ErrPersistenceInvariantViolation)"

definition recover_new ::
    "'x Ports \<Rightarrow> Call \<Rightarrow> RecoverTaskRequest \<Rightarrow> string \<Rightarrow> 'x db \<Rightarrow>
     GoError + (recoverReceiptResponse \<times> taskLogDraft option) \<times> 'x db" where
  "recover_new ports c request fingerprint s =
    attempt (LockRecoveryFacts (RTR_TaskID request) s) (\<lambda>facts.
    let now = call_now c;
        reject = (\<lambda>response. attempt (insertRecoverReceipt request fingerprint response now s)
          (\<lambda>s. Inr ((response, None), s)));
        conflict = recoverRejected facts ''RecoverStateConflict'' (ReasonCodeOther '''')
    in
    if TaskStatus_Terminal (Task_Status (Facts_Task facts)) then reject conflict
    else if \<not> now < Task_DeadlineAt (Facts_Task facts) then
      attempt (terminalizeFailure ports request fingerprint facts now ErrorCodeTaskTimeout (ReasonCodeOther '''')
        ''TaskTimeout'' s) (\<lambda>(response, s). Inr ((response, None), s))
    else
      (case recoveryPhase facts of
         Inl _ \<Rightarrow> reject conflict
       | Inr phase \<Rightarrow>
           attempt (ValidateRecoverySource ports
             \<lparr>VR_TaskID = Task_TaskID (Facts_Task facts), VR_RunID = Run_RunID (Facts_Run facts),
              VR_SourceExecutionVersion = Exec_ExecutionVersion (Facts_Execution facts), VR_Phase = phase\<rparr> s)
             (\<lambda>validated. recover_validated ports c request fingerprint facts validated s)))"

definition recover_work ::
    "'x Ports \<Rightarrow> Call \<Rightarrow> RecoverTaskRequest \<Rightarrow> string \<Rightarrow> 'x db \<Rightarrow>
     GoError + (recoverReceiptResponse \<times> taskLogDraft option) \<times> 'x db" where
  "recover_work ports c request fingerprint =
    replay_or CommandTypeRecover (RTR_CommandID request) (RTR_TaskID request) fingerprint
      decode_recover_response validateRecoverReceipt None (recover_new ports c request fingerprint)"

definition RecoverTask ::
    "'x Ports \<Rightarrow> Call \<Rightarrow> RecoverTaskRequest \<Rightarrow> 'x db \<times> Registry \<Rightarrow> (GoError + TaskRecovered) \<times> ('x db \<times> Registry)" where
  "RecoverTask ports c request sr =
    (case sr of (s, activeCalls) \<Rightarrow>
      (case recoverRequestFingerprint (json_digest ports) request of
         Inl e \<Rightarrow> (Inl e, (s, activeCalls))
       | Inr fingerprint \<Rightarrow>
           (case Execute (call_fault c) (recover_work ports c request fingerprint) s of
              (Inl e, s') \<Rightarrow> (Inl e, (s', activeCalls))
            | (Inr (response, None), s') \<Rightarrow> (recover_result response, (s', activeCalls))
            | (Inr (response, Some restoredLog), s') \<Rightarrow>
                (recover_result response, (appendTaskLogBestEffort (call_log c) restoredLog s', activeCalls)))))"

end
