(* ===== verification/CancelTask.thy ===== *)
theory CancelTask
  imports Terminations Commands
begin

section \<open>CancelTask and ExpireTask\<close>

text \<open>
  \<open>internal/taskruntime/cancel.go\<close> and \<open>timeout.go\<close>: one transaction that ends a Task for a user's
  command or a passed deadline, with its Run, execution, step and tool call, a pending report and,
  for the command, a receipt; after the commit the active call of the execution is cancelled and a
  log attempted. The services act on the database and on the process's registry of active calls.
\<close>

record CancelTaskRequest =
  CXR_CommandID :: CommandID
  CXR_TaskID :: TaskID
  CXR_OperatorID :: string

record TaskCancelled =
  TX_TaskID :: TaskID
  TX_TaskStatus :: TaskStatus
  TX_RunStatus :: RunStatus
  TX_ExecutionStatus :: TaskExecutionStatus
  TX_ExecutionVersion :: ExecutionVersion
  TX_TerminationReason :: TerminationReason

subsection \<open>The termination request\<close>

text \<open>The first enabled tool of that name decides.\<close>

definition toolReadOnly :: "'x Ports \<Rightarrow> AgentID \<Rightarrow> ToolName \<Rightarrow> GoError + bool" where
  "toolReadOnly ports agentID toolName =
    (case LookupAgent ports agentID of
       None \<Rightarrow> Inl (ErrText ''termination validated Agent configuration is unavailable'')
     | Some config \<Rightarrow>
         if \<not> agent_enabled config then Inl (ErrText ''termination validated Agent configuration is unavailable'')
         else (case find (\<lambda>tool. Tool_Enabled tool \<and> Tool_Name tool = toolName) (config_tools (ARC_ExecutionConfig config)) of
                 None \<Rightarrow> Inl ErrPersistenceInvariantViolation
               | Some tool \<Rightarrow>
                   if Tool_RiskLevel tool = RiskLevelLow \<and> Tool_ReadOnly tool then Inr True
                   else if Tool_RiskLevel tool = RiskLevelHigh \<and> \<not> Tool_ReadOnly tool then Inr False
                   else Inl ErrPersistenceInvariantViolation))"

definition base_termination ::
    "TerminationFacts \<Rightarrow> time \<Rightarrow> TaskStatus \<Rightarrow> ErrorCode \<Rightarrow> TerminationReason \<Rightarrow> ApplyTerminationRequest" where
  "base_termination facts now taskStatus errorCode reason =
    (let task = Facts_Task facts; execution = Facts_Execution facts in
     \<lparr>AT_TaskID = Task_TaskID task, AT_ExpectedExecutionVersion = Exec_ExecutionVersion execution,
      AT_ExpectedTaskStatus = Task_Status task, AT_ExpectedRunStatus = Run_Status (Facts_Run facts),
      AT_ExpectedExecutionStatus = Exec_Status execution, AT_ExpectedStepStatus = None,
      AT_ExpectedToolStatus = None, AT_TaskStatus = taskStatus, AT_TaskErrorCode = errorCode,
      AT_RunErrorCode = errorCode, AT_StepErrorCode = errorCode,
      AT_ExecutionErrorCode =
        (if Exec_ErrorCode execution = Some ErrorCodeConfigVersionMismatch
         then Some ErrorCodeConfigVersionMismatch else None),
      AT_TerminationReason = reason, AT_ToolStatus = None, AT_ToolErrorCode = None,
      AT_ToolSideEffectUnknown = False, AT_EndedAt = now,
      AT_PreserveExecutionEndedAt = (Exec_Status execution = TaskExecutionStatusInterrupted)\<rparr>)"

text \<open>An active step is expected in its status, and a running tool call is closed by its kind.\<close>

definition step_termination ::
    "TerminationFacts \<Rightarrow> ApplyTerminationRequest \<Rightarrow> GoError + ApplyTerminationRequest" where
  "step_termination facts request =
    (case Facts_Step facts of
       None \<Rightarrow> Inr request
     | Some step \<Rightarrow>
         if StepStatus_Terminal (TS_Status step) then Inr request
         else attempt (require (Allowed (CanStepTransition (TS_Status step) StepStatusFailed))
             (ErrLifecycle ''validate termination Step lifecycle''
               (Reason (CanStepTransition (TS_Status step) StepStatusFailed)))) (\<lambda>_.
           Inr (request\<lparr>AT_ExpectedStepStatus := Some (TS_Status step)\<rparr>)))"

definition tool_termination ::
    "'x Ports \<Rightarrow> TerminationFacts \<Rightarrow> ErrorCode \<Rightarrow> ApplyTerminationRequest \<Rightarrow> GoError + ApplyTerminationRequest" where
  "tool_termination ports facts errorCode request =
    (case Facts_ToolExecution facts of
       None \<Rightarrow> Inr request
     | Some tool \<Rightarrow>
         if TT_Status tool \<noteq> ToolExecutionStatusRunning then Inr request
         else
           attempt (toolReadOnly ports (Task_AgentID (Facts_Task facts)) (TT_ToolName tool)) (\<lambda>readOnly.
             if readOnly then
               Inr (request\<lparr>AT_ExpectedToolStatus := Some (TT_Status tool),
                 AT_ToolStatus := Some ToolExecutionStatusFailed, AT_ToolErrorCode := Some errorCode\<rparr>)
             else
               Inr (request\<lparr>AT_ExpectedToolStatus := Some (TT_Status tool),
                 AT_ToolStatus := Some ToolExecutionStatusUnknown, AT_ToolSideEffectUnknown := True,
                 AT_ExecutionErrorCode :=
                   (case AT_ExecutionErrorCode request of
                      None \<Rightarrow> Some ErrorCodeWriteToolInterrupted | Some c \<Rightarrow> Some c)\<rparr>)))"

definition terminationRequest ::
    "'x Ports \<Rightarrow> TerminationFacts \<Rightarrow> time \<Rightarrow> TaskStatus \<Rightarrow> ErrorCode \<Rightarrow> TerminationReason \<Rightarrow>
     GoError + ApplyTerminationRequest" where
  "terminationRequest ports facts now taskStatus errorCode reason =
    (let task = Facts_Task facts; run = Facts_Run facts; execution = Facts_Execution facts in
     if Task_CurrentExecutionVersion task \<noteq> Exec_ExecutionVersion execution \<or> Run_TaskID run \<noteq> Task_TaskID task
        \<or> Run_RunID run \<noteq> Task_CurrentRunID task \<or> Exec_TaskID execution \<noteq> Task_TaskID task
     then Inl ErrPersistenceInvariantViolation
     else
       attempt (require (Allowed (CanTaskTransition (Task_Status task) taskStatus))
         (ErrLifecycle ''validate termination Task lifecycle'' (Reason (CanTaskTransition (Task_Status task) taskStatus)))) (\<lambda>_.
       attempt (require (Allowed (CanRunTransition (Run_Status run) RunStatusFailed))
         (ErrLifecycle ''validate termination Run lifecycle'' (Reason (CanRunTransition (Run_Status run) RunStatusFailed)))) (\<lambda>_.
       attempt (require (Allowed (CanExecutionTransition (Exec_Status execution) TaskExecutionStatusFailed))
         (ErrLifecycle ''validate termination Execution lifecycle''
           (Reason (CanExecutionTransition (Exec_Status execution) TaskExecutionStatusFailed)))) (\<lambda>_.
       attempt (step_termination facts (base_termination facts now taskStatus errorCode reason)) (\<lambda>request.
         tool_termination ports facts errorCode request)))))"

text \<open>
  What both services do in their transaction once the target state is decided: apply the request,
  refuse a miss, and make sure a report is pending.
\<close>

definition terminate ::
    "'x Ports \<Rightarrow> 'x TerminationRepository \<Rightarrow> TerminationFacts \<Rightarrow> time \<Rightarrow> TaskStatus \<Rightarrow> ErrorCode \<Rightarrow> TerminationReason \<Rightarrow>
     'x db \<Rightarrow> GoError + 'x db" where
  "terminate ports repo facts now taskStatus errorCode reason s =
    attempt (terminationRequest ports facts now taskStatus errorCode reason) (\<lambda>request.
    attempt (ApplyTermination repo request s) (\<lambda>(applied, s).
      if \<not> applied then Inl ErrPersistenceInvariantViolation
      else ensurePendingReport ports (Task_TaskID (Facts_Task facts)) (Run_RunID (Facts_Run facts)) now s))"

text \<open>The active call of the execution, when a worker holds it, and the log line.\<close>

definition active_key :: "TerminationFacts \<Rightarrow> Key option" where
  "active_key facts =
    (case Exec_WorkerID (Facts_Execution facts) of
       None \<Rightarrow> None
     | Some worker \<Rightarrow>
         Some \<lparr>Key_TaskID = Task_TaskID (Facts_Task facts),
           Key_ExecutionVersion = Exec_ExecutionVersion (Facts_Execution facts), Key_WorkerID = worker\<rparr>)"

definition termination_log :: "TerminationFacts \<Rightarrow> ErrorCode \<Rightarrow> TerminationReason \<Rightarrow> taskLogDraft" where
  "termination_log facts errorCode reason =
    terminalTaskLogDraft
      \<lparr>QC_TaskID = Task_TaskID (Facts_Task facts), QC_RunID = Run_RunID (Facts_Run facts),
       QC_ExecutionVersion = Exec_ExecutionVersion (Facts_Execution facts),
       QC_TaskStatus = TaskStatusOther '''', QC_ExecutionStatus = TaskExecutionStatusOther '''',
       QC_QueuedAt = 0, QC_CreatedAt = 0\<rparr> errorCode (Some reason)"

definition cancel_call :: "Key option \<Rightarrow> ExecutionCancellationCause \<Rightarrow> Registry \<Rightarrow> Registry" where
  "cancel_call key cause reg = (case key of None \<Rightarrow> reg | Some k \<Rightarrow> snd (Cancel k cause reg))"

subsection \<open>The receipt\<close>

record cancelReceiptResponse =
  XR_Outcome :: string
  XR_TaskID :: TaskID
  XR_TaskStatus :: TaskStatus
  XR_RunStatus :: RunStatus
  XR_ExecutionStatus :: TaskExecutionStatus
  XR_ExecutionVersion :: ExecutionVersion
  XR_TerminationReason :: TerminationReason
  XR_ErrorCode :: string

definition encode_cancel_response :: "cancelReceiptResponse \<Rightarrow> json" where
  "encode_cancel_response r = JObj (
     jmember ''outcome'' (JStr (XR_Outcome r)) @ jmember ''task_id'' (JStr (XR_TaskID r)) @
     jmember ''task_status'' (JStr (TaskStatus_text (XR_TaskStatus r))) @
     jmember ''run_status'' (JStr (RunStatus_text (XR_RunStatus r))) @
     jmember ''execution_status'' (JStr (TaskExecutionStatus_text (XR_ExecutionStatus r))) @
     jmember ''execution_version'' (JNum (XR_ExecutionVersion r)) @
     jstr_omitempty ''termination_reason'' (TerminationReason_text (XR_TerminationReason r)) @
     jstr_omitempty ''error_code'' (XR_ErrorCode r))"

definition decode_cancel_response :: "json \<Rightarrow> cancelReceiptResponse option" where
  "decode_cancel_response j =
    (case j of
       JObj ms \<Rightarrow>
         (case (jget_str ms ''outcome'', jget_str ms ''task_id'', jget_str ms ''task_status'', jget_str ms ''run_status'',
                jget_str ms ''execution_status'', jget_int64 ms ''execution_version'',
                jget_str ms ''termination_reason'', jget_str ms ''error_code'') of
            (Some a, Some b, Some c, Some d, Some e, Some f, Some g, Some h) \<Rightarrow>
              Some \<lparr>XR_Outcome = a, XR_TaskID = b, XR_TaskStatus = TaskStatus_of c, XR_RunStatus = RunStatus_of d,
                XR_ExecutionStatus = TaskExecutionStatus_of e, XR_ExecutionVersion = f,
                XR_TerminationReason = TerminationReason_of g, XR_ErrorCode = h\<rparr>
          | _ \<Rightarrow> None)
     | JNull \<Rightarrow>
         Some \<lparr>XR_Outcome = '''', XR_TaskID = '''', XR_TaskStatus = TaskStatusOther '''',
           XR_RunStatus = RunStatusOther '''', XR_ExecutionStatus = TaskExecutionStatusOther '''',
           XR_ExecutionVersion = 0, XR_TerminationReason = TerminationReasonOther '''', XR_ErrorCode = ''''\<rparr>
     | _ \<Rightarrow> None)"

definition cancelledReceipt :: "TerminationFacts \<Rightarrow> TerminationReason \<Rightarrow> cancelReceiptResponse" where
  "cancelledReceipt facts reason =
    \<lparr>XR_Outcome = ''Cancelled'', XR_TaskID = Task_TaskID (Facts_Task facts),
     XR_TaskStatus = TaskStatusCancelled, XR_RunStatus = RunStatusFailed,
     XR_ExecutionStatus = TaskExecutionStatusFailed,
     XR_ExecutionVersion = Exec_ExecutionVersion (Facts_Execution facts),
     XR_TerminationReason = reason, XR_ErrorCode = ''''\<rparr>"

definition rejectedCancelReceipt :: "TerminationFacts \<Rightarrow> string \<Rightarrow> cancelReceiptResponse" where
  "rejectedCancelReceipt facts code =
    \<lparr>XR_Outcome = ''Rejected'', XR_TaskID = Task_TaskID (Facts_Task facts),
     XR_TaskStatus = Task_Status (Facts_Task facts), XR_RunStatus = Run_Status (Facts_Run facts),
     XR_ExecutionStatus = Exec_Status (Facts_Execution facts),
     XR_ExecutionVersion = Exec_ExecutionVersion (Facts_Execution facts),
     XR_TerminationReason = TerminationReasonOther '''', XR_ErrorCode = code\<rparr>"

definition validateCancelReceipt :: "cancelReceiptResponse \<Rightarrow> GoError + unit" where
  "validateCancelReceipt r =
    (if XR_TaskID r = '''' \<or> \<not> ExecutionVersion_Valid (XR_ExecutionVersion r) then Inl ErrPersistenceInvariantViolation
     else if XR_Outcome r = ''Cancelled'' then
       (if XR_TaskStatus r \<noteq> TaskStatusCancelled \<or> XR_RunStatus r \<noteq> RunStatusFailed
           \<or> XR_ExecutionStatus r \<noteq> TaskExecutionStatusFailed
           \<or> XR_TerminationReason r \<noteq> TerminationReasonCancelled
        then Inl ErrPersistenceInvariantViolation else Inr ())
     else if XR_Outcome r = ''Rejected'' then
       (if XR_ErrorCode r \<noteq> ''TaskAlreadyTerminal'' \<and> XR_ErrorCode r \<noteq> ''TaskTimeout''
        then Inl ErrPersistenceInvariantViolation else Inr ())
     else Inl ErrPersistenceInvariantViolation)"

definition cancel_result :: "cancelReceiptResponse \<Rightarrow> GoError + TaskCancelled" where
  "cancel_result r =
    attempt (validateCancelReceipt r) (\<lambda>_.
      if XR_Outcome r = ''Cancelled'' then
        Inr \<lparr>TX_TaskID = XR_TaskID r, TX_TaskStatus = XR_TaskStatus r, TX_RunStatus = XR_RunStatus r,
             TX_ExecutionStatus = XR_ExecutionStatus r, TX_ExecutionVersion = XR_ExecutionVersion r,
             TX_TerminationReason = XR_TerminationReason r\<rparr>
      else if XR_ErrorCode r = ''TaskTimeout'' then Inl ErrTaskTimedOut
      else Inl ErrTaskAlreadyTerminal)"

definition cancel_request_json :: "CancelTaskRequest \<Rightarrow> json" where
  "cancel_request_json request = JObj
     [(''task_id'', JStr (CXR_TaskID request)), (''operator_id'', JStr (CXR_OperatorID request))]"

definition cancelRequestFingerprint :: "(json \<Rightarrow> string) \<Rightarrow> CancelTaskRequest \<Rightarrow> GoError + string" where
  "cancelRequestFingerprint digest request =
    (if CXR_CommandID request = '''' \<or> CXR_TaskID request = '''' \<or> blank (CXR_OperatorID request)
        \<or> \<not> utf8_valid (CXR_CommandID request) \<or> \<not> utf8_valid (CXR_TaskID request)
        \<or> \<not> utf8_valid (CXR_OperatorID request)
     then Inl ErrInvalidArgument
     else Inr (digest (cancel_request_json request)))"

definition cancel_receipt :: "CancelTaskRequest \<Rightarrow> string \<Rightarrow> cancelReceiptResponse \<Rightarrow> time \<Rightarrow> CommandReceipt" where
  "cancel_receipt request fingerprint response now =
    \<lparr>Receipt_CommandID = CXR_CommandID request, Receipt_CommandType = CommandTypeCancel,
     Receipt_TargetID = CXR_TaskID request, Receipt_RequestFingerprint = fingerprint,
     Receipt_Response = encode_cancel_response response, Receipt_CreatedAt = now\<rparr>"

definition insertCancelReceipt ::
    "CancelTaskRequest \<Rightarrow> string \<Rightarrow> cancelReceiptResponse \<Rightarrow> time \<Rightarrow> 'x db \<Rightarrow> GoError + 'x db" where
  "insertCancelReceipt request fingerprint response now s =
    CommandReceiptRepository_Insert (cancel_receipt request fingerprint response now) s"

subsection \<open>CancelTask\<close>

text \<open>What the commit is followed by: the active call to cancel with its cause, and the log line.\<close>

type_synonym after_commit = "(Key option \<times> taskLogDraft) option"

definition cancel_new ::
    "'x Ports \<Rightarrow> 'x TerminationRepository \<Rightarrow> time \<Rightarrow> CancelTaskRequest \<Rightarrow> string \<Rightarrow> 'x db \<Rightarrow>
     GoError + (cancelReceiptResponse \<times> after_commit) \<times> 'x db" where
  "cancel_new ports repo now request fingerprint s =
    attempt (LockTerminationFacts repo (CXR_TaskID request) s) (\<lambda>facts.
      if TaskStatus_Terminal (Task_Status (Facts_Task facts)) then
        (let response = rejectedCancelReceipt facts ''TaskAlreadyTerminal''
         in attempt (insertCancelReceipt request fingerprint response now s) (\<lambda>s. Inr ((response, None), s)))
      else if now < Task_DeadlineAt (Facts_Task facts) then
        attempt (terminate ports repo facts now TaskStatusCancelled ErrorCodeTaskCancelled TerminationReasonCancelled s) (\<lambda>s.
        let response = cancelledReceipt facts TerminationReasonCancelled
        in attempt (insertCancelReceipt request fingerprint response now s) (\<lambda>s.
             Inr ((response, Some (active_key facts,
               termination_log facts ErrorCodeTaskCancelled TerminationReasonCancelled)), s)))
      else
        attempt (terminate ports repo facts now TaskStatusFailed ErrorCodeTaskTimeout TerminationReasonTimedOut s) (\<lambda>s.
        let response = (rejectedCancelReceipt facts ''TaskTimeout'')
              \<lparr>XR_TaskStatus := TaskStatusFailed, XR_RunStatus := RunStatusFailed,
               XR_ExecutionStatus := TaskExecutionStatusFailed, XR_TerminationReason := TerminationReasonTimedOut\<rparr>
        in attempt (insertCancelReceipt request fingerprint response now s) (\<lambda>s.
             Inr ((response, Some (active_key facts,
               termination_log facts ErrorCodeTaskTimeout TerminationReasonTimedOut)), s))))"

definition cancel_work ::
    "'x Ports \<Rightarrow> 'x TerminationRepository \<Rightarrow> time \<Rightarrow> CancelTaskRequest \<Rightarrow> string \<Rightarrow> 'x db \<Rightarrow>
     GoError + (cancelReceiptResponse \<times> after_commit) \<times> 'x db" where
  "cancel_work ports repo now request fingerprint =
    replay_or CommandTypeCancel (CXR_CommandID request) (CXR_TaskID request) fingerprint
      decode_cancel_response validateCancelReceipt None (cancel_new ports repo now request fingerprint)"

definition CancelTask ::
    "'x Ports \<Rightarrow> 'x TerminationRepository \<Rightarrow> Call \<Rightarrow> CancelTaskRequest \<Rightarrow> 'x db \<times> Registry \<Rightarrow>
     (GoError + TaskCancelled) \<times> ('x db \<times> Registry)" where
  "CancelTask ports repo c request sr =
    (case sr of (s, reg) \<Rightarrow>
      (case cancelRequestFingerprint (json_digest ports) request of
         Inl e \<Rightarrow> (Inl e, (s, reg))
       | Inr fingerprint \<Rightarrow>
           (case Execute (call_fault c) (cancel_work ports repo (call_now c) request fingerprint) s of
              (Inl e, s') \<Rightarrow> (Inl e, (s', reg))
            | (Inr (response, None), s') \<Rightarrow> (cancel_result response, (s', reg))
            | (Inr (response, Some (key, draft)), s') \<Rightarrow>
                (let cause = (if XR_TerminationReason response = TerminationReasonTimedOut
                   then ExecutionCancellationCauseTaskTimedOut else ExecutionCancellationCauseTaskCancelled)
                 in (cancel_result response,
                     (appendTaskLogBestEffort (call_log c) draft s', cancel_call key cause reg))))))"

subsection \<open>ExpireTask\<close>

record ExpireTaskRequest =
  XPR_TaskID :: TaskID
  XPR_ObservedExecutionVersion :: ExecutionVersion

datatype ExpireTaskResult =
    ExpireTaskExpired
  | ExpireTaskSkipped
  | ExpireTaskAlreadyTerminal

definition expire_work ::
    "'x Ports \<Rightarrow> 'x TerminationRepository \<Rightarrow> time \<Rightarrow> ExpireTaskRequest \<Rightarrow> 'x db \<Rightarrow>
     GoError + (ExpireTaskResult \<times> after_commit) \<times> 'x db" where
  "expire_work ports repo now request s =
    attempt (LockTerminationFacts repo (XPR_TaskID request) s) (\<lambda>facts.
      if TaskStatus_Terminal (Task_Status (Facts_Task facts)) then Inr ((ExpireTaskAlreadyTerminal, None), s)
      else if Task_CurrentExecutionVersion (Facts_Task facts) \<noteq> XPR_ObservedExecutionVersion request
         \<or> Exec_ExecutionVersion (Facts_Execution facts) \<noteq> XPR_ObservedExecutionVersion request
      then Inr ((ExpireTaskSkipped, None), s)
      else if now < Task_DeadlineAt (Facts_Task facts) then Inr ((ExpireTaskSkipped, None), s)
      else
        attempt (terminate ports repo facts now TaskStatusFailed ErrorCodeTaskTimeout TerminationReasonTimedOut s) (\<lambda>s.
          Inr ((ExpireTaskExpired, Some (active_key facts,
            termination_log facts ErrorCodeTaskTimeout TerminationReasonTimedOut)), s)))"

definition ExpireTask ::
    "'x Ports \<Rightarrow> 'x TerminationRepository \<Rightarrow> Call \<Rightarrow> ExpireTaskRequest \<Rightarrow> 'x db \<times> Registry \<Rightarrow>
     (GoError + ExpireTaskResult) \<times> ('x db \<times> Registry)" where
  "ExpireTask ports repo c request sr =
    (case sr of (s, reg) \<Rightarrow>
      if XPR_TaskID request = '''' \<or> \<not> ExecutionVersion_Valid (XPR_ObservedExecutionVersion request)
      then (Inl ErrInvalidArgument, (s, reg))
      else
        (case Execute (call_fault c) (expire_work ports repo (call_now c) request) s of
           (Inl e, s') \<Rightarrow> (Inl e, (s', reg))
         | (Inr (result, None), s') \<Rightarrow> (Inr result, (s', reg))
         | (Inr (result, Some (key, draft)), s') \<Rightarrow>
             (Inr result, (appendTaskLogBestEffort (call_log c) draft s',
                cancel_call key ExecutionCancellationCauseTaskTimedOut reg))))"

end
