(* ===== verification/CancelSafety.thy ===== *)
theory CancelSafety
  imports CancelTask
begin

section \<open>Properties of CancelTask and ExpireTask\<close>

subsection \<open>What a termination does to the scene\<close>

text \<open>
  The rows after a termination. The execution keeps a configuration mismatch it was interrupted
  with, and its end when it had ended; a running write tool leaves \<open>WriteToolInterrupted\<close>.
\<close>

definition closed_task :: "time \<Rightarrow> TaskStatus \<Rightarrow> ErrorCode \<Rightarrow> Task \<Rightarrow> Task" where
  "closed_task now status code t = t\<lparr>Task_Status := status, Task_ErrorCode := Some code,
     Task_QueuedAt := None, Task_EndedAt := Some now\<rparr>"

definition closed_run :: "time \<Rightarrow> ErrorCode \<Rightarrow> Run \<Rightarrow> Run" where
  "closed_run now code r = r\<lparr>Run_Status := RunStatusFailed, Run_ErrorCode := Some code, Run_EndedAt := Some now\<rparr>"

definition closed_execution :: "time \<Rightarrow> TerminationReason \<Rightarrow> ErrorCode option \<Rightarrow> TaskExecution \<Rightarrow> TaskExecution" where
  "closed_execution now reason code e = e\<lparr>Exec_Status := TaskExecutionStatusFailed, Exec_ErrorCode := code,
     Exec_TerminationReason := Some reason,
     Exec_EndedAt := (if Exec_Status e = TaskExecutionStatusInterrupted then Exec_EndedAt e else Some now)\<rparr>"

definition closing_code :: "ErrorCode option \<Rightarrow> TaskExecution \<Rightarrow> bool" where
  "closing_code code e \<longleftrightarrow>
     (if Exec_ErrorCode e = Some ErrorCodeConfigVersionMismatch then code = Exec_ErrorCode e
      else code = None \<or> code = Some ErrorCodeWriteToolInterrupted)"

lemma step_termination_frame:
  "step_termination facts q = Inr q' \<Longrightarrow> \<exists>x. q' = q\<lparr>AT_ExpectedStepStatus := x\<rparr>"
  by (cases q) (auto simp: step_termination_def split: option.splits if_splits)

lemma tool_termination_frame:
  "tool_termination ports facts code q = Inr q' \<Longrightarrow>
     (\<exists>a b c d. q' = q\<lparr>AT_ExpectedToolStatus := a, AT_ToolStatus := b, AT_ToolErrorCode := c,
        AT_ToolSideEffectUnknown := d, AT_ExecutionErrorCode := AT_ExecutionErrorCode q'\<rparr>) \<and>
     (AT_ExecutionErrorCode q' = AT_ExecutionErrorCode q \<or>
      AT_ExecutionErrorCode q = None \<and> AT_ExecutionErrorCode q' = Some ErrorCodeWriteToolInterrupted)"
  by (cases q) (auto simp: tool_termination_def split: option.splits if_splits)

lemma terminationRequest_ok:
  assumes "terminationRequest ports facts now status code reason = Inr q"
  shows "AT_TaskID q = Task_TaskID (Facts_Task facts)"
    "terminated_task q = closed_task now status code" "terminated_run q = closed_run now code"
    "terminated_execution q (Facts_Execution facts) = closed_execution now reason (AT_ExecutionErrorCode q) (Facts_Execution facts)"
    "closing_code (AT_ExecutionErrorCode q) (Facts_Execution facts)"
    "Allowed (CanTaskTransition (Task_Status (Facts_Task facts)) status)"
proof -
  let ?base = "base_termination facts now status code reason"
  obtain q1 where q1: "step_termination facts ?base = Inr q1" "tool_termination ports facts code q1 = Inr q"
    and "Allowed (CanTaskTransition (Task_Status (Facts_Task facts)) status)"
    using assms by (auto simp: terminationRequest_def Let_def split: if_splits)
  then show "Allowed (CanTaskTransition (Task_Status (Facts_Task facts)) status)" by blast
  obtain x a b c d where eq: "q1 = ?base\<lparr>AT_ExpectedStepStatus := x\<rparr>"
      "q = q1\<lparr>AT_ExpectedToolStatus := a, AT_ToolStatus := b, AT_ToolErrorCode := c,
        AT_ToolSideEffectUnknown := d, AT_ExecutionErrorCode := AT_ExecutionErrorCode q\<rparr>"
    and code: "AT_ExecutionErrorCode q = AT_ExecutionErrorCode q1 \<or>
      AT_ExecutionErrorCode q1 = None \<and> AT_ExecutionErrorCode q = Some ErrorCodeWriteToolInterrupted"
    using step_termination_frame [OF q1(1)] tool_termination_frame [OF q1(2)] by blast
  have fields: "AT_TaskID q = Task_TaskID (Facts_Task facts)" "AT_TaskStatus q = status" "AT_TaskErrorCode q = code"
      "AT_RunErrorCode q = code" "AT_TerminationReason q = reason" "AT_EndedAt q = now"
      "AT_PreserveExecutionEndedAt q = (Exec_Status (Facts_Execution facts) = TaskExecutionStatusInterrupted)"
    by (subst eq(2), subst eq(1), simp add: base_termination_def Let_def)+
  show "AT_TaskID q = Task_TaskID (Facts_Task facts)" "terminated_task q = closed_task now status code"
      "terminated_run q = closed_run now code"
    "terminated_execution q (Facts_Execution facts) = closed_execution now reason (AT_ExecutionErrorCode q) (Facts_Execution facts)"
    by (simp_all add: fun_eq_iff fields terminated_task_def closed_task_def terminated_run_def closed_run_def
        terminated_execution_def closed_execution_def)
  have "AT_ExecutionErrorCode q1 = AT_ExecutionErrorCode ?base" by (simp add: eq(1))
  with code show "closing_code (AT_ExecutionErrorCode q) (Facts_Execution facts)"
    by (auto simp: closing_code_def base_termination_def Let_def split: if_splits)
qed

lemma terminate_ok:
  assumes "termination_contract repo" and "LockTerminationFacts repo k s = Inr facts"
    and "terminate ports repo facts now status code reason s = Inr s'"
  obtains x where "scene k s (Facts_Task facts) (Facts_Run facts) (Facts_Execution facts)"
    "scene k s' (closed_task now status code (Facts_Task facts)) (closed_run now code (Facts_Run facts))
      (closed_execution now reason x (Facts_Execution facts))"
    "closing_code x (Facts_Execution facts)" "elsewhere_same k s s'" "statement\<^sup>*\<^sup>* s s'"
    "Allowed (CanTaskTransition (Task_Status (Facts_Task facts)) status)" "db_logs s' = db_logs s"
proof -
  let ?C = "closing_repository AT_TaskID termination_expects terminated_task terminated_run terminated_execution
       (ApplyTermination repo) (LockTerminationFacts repo)"
  have C: ?C using assms(1) by (simp add: termination_contract_def)
  obtain q s1 where q: "terminationRequest ports facts now status code reason = Inr q"
      "ApplyTermination repo q s = Inr (True, s1)"
      "ensurePendingReport ports (Task_TaskID (Facts_Task facts)) (Run_RunID (Facts_Run facts)) now s1 = Inr s'"
    using assms(3) by (auto simp: terminate_def split: if_splits)
  note r = terminationRequest_ok [OF q(1)]
  have sc: "scene k s (Facts_Task facts) (Facts_Run facts) (Facts_Execution facts)"
    using closing_repository.lock_scene [OF C assms(2)] .
  then have k: "AT_TaskID q = k" using r(1) scene_keys by simp
  note closed = closing_repository.close_locked [OF C assms(2) [folded k] q(2), unfolded r k]
  note report = report_scene [OF q(3), of k] ensurePendingReport_frame [OF q(3)]
  show ?thesis
    by (rule that [OF sc]) (use closed report r(5,6) scene_keys(1) [OF sc] in \<open>auto intro: elsewhere_same_trans rtranclp_trans\<close>)
qed

text \<open>A closed scene is sound.\<close>

lemma closed_scene_ok:
  "scene_ok t r e \<Longrightarrow> status = TaskStatusFailed \<or> status = TaskStatusCancelled \<Longrightarrow>
     scene_ok (closed_task now status code t) (closed_run now code r) (closed_execution now reason x e)"
  by (auto simp: scene_ok_def closed_task_def closed_run_def closed_execution_def)

lemma closed_scene_inv:
  assumes "runtime_inv s" and "scene k s t r e"
    and "scene k s' (closed_task now status code t) (closed_run now code r) (closed_execution now reason x e)"
    and "elsewhere_same k s s'" and "statement\<^sup>*\<^sup>* s s'" and "status = TaskStatusFailed \<or> status = TaskStatusCancelled"
  shows "runtime_inv s'"
proof (rule runtime_invI)
  show "schema_ok s'" using assms(1,5) schema_statements by (auto simp: runtime_inv_def)
  have "scene_ok t r e" using assms(1,2) by (auto simp: runtime_inv_def intro: scenes_okD)
  then show "scenes_ok s'"
    using scenes_ok_step [OF _ assms(4,3) closed_scene_ok] assms(1,6) by (auto simp: runtime_inv_def)
qed

subsection \<open>The transaction of CancelTask\<close>

lemma cancel_new_cases:
  assumes "cancel_new ports repo now request fp s = Inr ((response, out), s')" and "termination_contract repo"
  obtains (terminal) facts where
      "scene (CXR_TaskID request) s (Facts_Task facts) (Facts_Run facts) (Facts_Execution facts)"
      "TaskStatus_Terminal (Task_Status (Facts_Task facts))" "response = rejectedCancelReceipt facts ''TaskAlreadyTerminal''"
      "out = None" "insertCancelReceipt request fp response now s = Inr s'"
  | (cancelled) facts x s1 where
      "scene (CXR_TaskID request) s (Facts_Task facts) (Facts_Run facts) (Facts_Execution facts)"
      "\<not> TaskStatus_Terminal (Task_Status (Facts_Task facts))" "now < Task_DeadlineAt (Facts_Task facts)"
      "scene (CXR_TaskID request) s1 (closed_task now TaskStatusCancelled ErrorCodeTaskCancelled (Facts_Task facts))
        (closed_run now ErrorCodeTaskCancelled (Facts_Run facts))
        (closed_execution now TerminationReasonCancelled x (Facts_Execution facts))"
      "closing_code x (Facts_Execution facts)" "elsewhere_same (CXR_TaskID request) s s1" "statement\<^sup>*\<^sup>* s s1"
      "db_logs s1 = db_logs s"
      "response = cancelledReceipt facts TerminationReasonCancelled"
      "out = Some (active_key facts, termination_log facts ErrorCodeTaskCancelled TerminationReasonCancelled)"
      "insertCancelReceipt request fp response now s1 = Inr s'"
  | (timed_out) facts x s1 where
      "scene (CXR_TaskID request) s (Facts_Task facts) (Facts_Run facts) (Facts_Execution facts)"
      "\<not> TaskStatus_Terminal (Task_Status (Facts_Task facts))" "Task_DeadlineAt (Facts_Task facts) \<le> now"
      "scene (CXR_TaskID request) s1 (closed_task now TaskStatusFailed ErrorCodeTaskTimeout (Facts_Task facts))
        (closed_run now ErrorCodeTaskTimeout (Facts_Run facts))
        (closed_execution now TerminationReasonTimedOut x (Facts_Execution facts))"
      "closing_code x (Facts_Execution facts)" "elsewhere_same (CXR_TaskID request) s s1" "statement\<^sup>*\<^sup>* s s1"
      "db_logs s1 = db_logs s"
      "response = (rejectedCancelReceipt facts ''TaskTimeout'')\<lparr>XR_TaskStatus := TaskStatusFailed,
         XR_RunStatus := RunStatusFailed, XR_ExecutionStatus := TaskExecutionStatusFailed,
         XR_TerminationReason := TerminationReasonTimedOut\<rparr>"
      "out = Some (active_key facts, termination_log facts ErrorCodeTaskTimeout TerminationReasonTimedOut)"
      "insertCancelReceipt request fp response now s1 = Inr s'"
proof -
  obtain facts where f: "LockTerminationFacts repo (CXR_TaskID request) s = Inr facts"
    using assms(1) by (auto simp: cancel_new_def)
  have sc: "scene (CXR_TaskID request) s (Facts_Task facts) (Facts_Run facts) (Facts_Execution facts)"
    using assms(2) closing_repository.lock_scene f unfolding termination_contract_def by blast
  show ?thesis
  proof (cases "TaskStatus_Terminal (Task_Status (Facts_Task facts))")
    case True
    with assms(1) f show ?thesis by (intro terminal [OF sc]) (auto simp: cancel_new_def Let_def)
  next
    case live: False
    show ?thesis
    proof (cases "now < Task_DeadlineAt (Facts_Task facts)")
      case True
      with assms(1) f live obtain s1 where
        s1: "terminate ports repo facts now TaskStatusCancelled ErrorCodeTaskCancelled TerminationReasonCancelled s = Inr s1"
        and out: "response = cancelledReceipt facts TerminationReasonCancelled"
          "out = Some (active_key facts, termination_log facts ErrorCodeTaskCancelled TerminationReasonCancelled)"
          "insertCancelReceipt request fp response now s1 = Inr s'"
        by (simp add: cancel_new_def Let_def) blast
      show ?thesis by (rule terminate_ok [OF assms(2) f s1]) (rule cancelled [OF sc live True _ _ _ _ _ out])
    next
      case False
      with assms(1) f live obtain s1 where
        s1: "terminate ports repo facts now TaskStatusFailed ErrorCodeTaskTimeout TerminationReasonTimedOut s = Inr s1"
        and out: "response = (rejectedCancelReceipt facts ''TaskTimeout'')\<lparr>XR_TaskStatus := TaskStatusFailed,
            XR_RunStatus := RunStatusFailed, XR_ExecutionStatus := TaskExecutionStatusFailed,
            XR_TerminationReason := TerminationReasonTimedOut\<rparr>"
          "out = Some (active_key facts, termination_log facts ErrorCodeTaskTimeout TerminationReasonTimedOut)"
          "insertCancelReceipt request fp response now s1 = Inr s'"
        by (simp add: cancel_new_def Let_def) blast
      have late: "Task_DeadlineAt (Facts_Task facts) \<le> now" using False by simp
      show ?thesis by (rule terminate_ok [OF assms(2) f s1]) (rule timed_out [OF sc live late _ _ _ _ _ out])
    qed
  qed
qed

lemma insertCancelReceipt_scene:
  assumes "insertCancelReceipt request fp response now s = Inr s'"
  shows "scene k s' = scene k s" "others_same k s s'" "statement\<^sup>*\<^sup>* s s'"
    "receipt_row (CXR_CommandID request) s' = Some (cancel_receipt request fp response now)"
    "runtime_inv s \<Longrightarrow> runtime_inv s'"
  using assms receipt_scene [of "cancel_receipt request fp response now" s s'] receipt_inv
  by (auto simp: insertCancelReceipt_def cancel_receipt_def)

text \<open>What follows the commit.\<close>

definition after_cancel ::
    "Call \<Rightarrow> cancelReceiptResponse \<Rightarrow> after_commit \<Rightarrow> 'x db \<Rightarrow> Registry \<Rightarrow> 'x db \<times> Registry" where
  "after_cancel c response out s reg =
    (case out of
       None \<Rightarrow> (s, reg)
     | Some (key, draft) \<Rightarrow>
         (appendTaskLogBestEffort (call_log c) draft s,
          cancel_call key (if XR_TerminationReason response = TerminationReasonTimedOut
            then ExecutionCancellationCauseTaskTimedOut else ExecutionCancellationCauseTaskCancelled) reg))"

lemma after_cancel_db [simp]:
  "task_row k (fst (after_cancel c response out s reg)) = task_row k s"
  "run_row k (fst (after_cancel c response out s reg)) = run_row k s"
  "exec_row p (fst (after_cancel c response out s reg)) = exec_row p s"
  "receipt_row q (fst (after_cancel c response out s reg)) = receipt_row q s"
  "scene k (fst (after_cancel c response out s reg)) t r e = scene k s t r e"
  "others_same k s0 (fst (after_cancel c response out s reg)) = others_same k s0 s"
  by (simp_all add: after_cancel_def split: option.splits prod.splits)

lemma after_cancel_inv: "runtime_inv s \<Longrightarrow> runtime_inv (fst (after_cancel c response out s reg))"
  by (simp add: after_cancel_def runtime_inv_log split: option.splits prod.splits)

lemma CancelTask_cases:
  assumes "CancelTask ports repo c request (s, reg) = (res, sr)"
  obtains (failed) err where "res = Inl err" "sr = (s, reg)"
  | (finished) fp response out s1 where "cancelRequestFingerprint (json_digest ports) request = Inr fp"
      "call_fault c = None" "deferred_ok s1"
      "cancel_work ports repo (call_now c) request fp s = Inr ((response, out), s1)"
      "res = cancel_result response" "sr = after_cancel c response out s1 reg"
proof (cases "cancelRequestFingerprint (json_digest ports) request")
  case (Inl e)
  with assms show ?thesis by (intro failed) (auto simp: CancelTask_def)
next
  case (Inr fp)
  obtain m s1 where ex: "Execute (call_fault c) (cancel_work ports repo (call_now c) request fp) s = (m, s1)" by fastforce
  then show ?thesis
  proof (cases rule: Execute_cases)
    case (rolled_back e)
    with assms Inr ex show ?thesis by (intro failed) (auto simp: CancelTask_def)
  next
    case (committed a)
    obtain response out where a: "a = (response, out)" by (cases a)
    show ?thesis
      using assms Inr ex committed
      by (intro finished [OF Inr, of s1 response out])
        (auto simp: CancelTask_def a after_cancel_def Let_def split: option.splits prod.splits)
  qed
qed

text \<open>A stored response answers like the one that was stored.\<close>

lemma cancel_response_read:
  assumes "- (2 ^ 63) \<le> XR_ExecutionVersion r" and "XR_ExecutionVersion r < 2 ^ 63"
  shows "decode_cancel_response (encode_cancel_response r) =
    Some (r\<lparr>XR_TaskStatus := TaskStatus_of (TaskStatus_text (XR_TaskStatus r)),
      XR_RunStatus := RunStatus_of (RunStatus_text (XR_RunStatus r)),
      XR_ExecutionStatus := TaskExecutionStatus_of (TaskExecutionStatus_text (XR_ExecutionStatus r)),
      XR_TerminationReason := TerminationReason_of (TerminationReason_text (XR_TerminationReason r))\<rparr>)"
  using assms by (cases r) (simp add: decode_cancel_response_def encode_cancel_response_def)

definition reread :: "cancelReceiptResponse \<Rightarrow> cancelReceiptResponse" where
  "reread r = r\<lparr>XR_TaskStatus := TaskStatus_of (TaskStatus_text (XR_TaskStatus r)),
     XR_RunStatus := RunStatus_of (RunStatus_text (XR_RunStatus r)),
     XR_ExecutionStatus := TaskExecutionStatus_of (TaskExecutionStatus_text (XR_ExecutionStatus r)),
     XR_TerminationReason := TerminationReason_of (TerminationReason_text (XR_TerminationReason r))\<rparr>"

lemma reread_results [simp]:
  "cancel_result (reread (rejectedCancelReceipt facts code)) = cancel_result (rejectedCancelReceipt facts code)"
  "cancel_result (reread ((rejectedCancelReceipt facts code)\<lparr>XR_TaskStatus := a, XR_RunStatus := b,
     XR_ExecutionStatus := c, XR_TerminationReason := d\<rparr>)) =
   cancel_result ((rejectedCancelReceipt facts code)\<lparr>XR_TaskStatus := a, XR_RunStatus := b,
     XR_ExecutionStatus := c, XR_TerminationReason := d\<rparr>)"
  "reread (cancelledReceipt facts TerminationReasonCancelled) = cancelledReceipt facts TerminationReasonCancelled"
  using TaskStatus_text_of [of TaskStatusCancelled] RunStatus_text_of [of RunStatusFailed]
    TaskExecutionStatus_text_of [of TaskExecutionStatusFailed] TerminationReason_text_of [of TerminationReasonCancelled]
  by (simp_all add: reread_def cancel_result_def validateCancelReceipt_def rejectedCancelReceipt_def cancelledReceipt_def
      valid_simps)

lemma scene_version: "schema_ok s \<Longrightarrow> scene k s t r e \<Longrightarrow> 0 < Exec_ExecutionVersion e \<and> Exec_ExecutionVersion e < 2 ^ 63 \<and> k \<noteq> ''''"
  using scene_checks [of s k t r e] scene_keys [of k s t r e]
  by (auto simp: TaskExecution_check_def bigint_def)

lemma cancel_new_stored:
  assumes "cancel_new ports repo now request fp s = Inr ((response, out), s')" and "termination_contract repo"
    and "schema_ok s"
  shows "receipt_row (CXR_CommandID request) s' = Some (cancel_receipt request fp response now)"
    "decode_cancel_response (encode_cancel_response response) = Some (reread response)"
    "cancel_result (reread response) = cancel_result response"
proof -
  have read: "decode_cancel_response (encode_cancel_response response) = Some (reread response)"
    if "scene (CXR_TaskID request) s (Facts_Task facts) (Facts_Run facts) (Facts_Execution facts)"
      "XR_ExecutionVersion response = Exec_ExecutionVersion (Facts_Execution facts)" for facts
    using scene_version [OF assms(3) that(1)] that(2) by (simp add: cancel_response_read reread_def)
  show "receipt_row (CXR_CommandID request) s' = Some (cancel_receipt request fp response now)"
    "decode_cancel_response (encode_cancel_response response) = Some (reread response)"
    by (rule cancel_new_cases [OF assms(1,2)];
        use read insertCancelReceipt_scene(4) in \<open>force simp: cancelledReceipt_def rejectedCancelReceipt_def\<close>)+
  show "cancel_result (reread response) = cancel_result response"
    by (rule cancel_new_cases [OF assms(1,2)]) simp_all
qed

lemma cancel_new_inv:
  assumes "cancel_new ports repo now request fp s = Inr ((response, out), s')" and "termination_contract repo"
    and "runtime_inv s"
  shows "runtime_inv s'"
  by (rule cancel_new_cases [OF assms(1,2)])
    (use assms(3) insertCancelReceipt_scene(5) closed_scene_inv in \<open>metis\<close>)+

subsection \<open>CancelTask is a command with receipts\<close>

definition cancel_replay :: "(json \<Rightarrow> string) \<Rightarrow> CancelTaskRequest \<Rightarrow> CommandReceipt \<Rightarrow> GoError + TaskCancelled" where
  "cancel_replay digest request stored =
    attempt (cancelRequestFingerprint digest request) (\<lambda>fp.
      receipt_answer CommandTypeCancel (CXR_TaskID request) decode_cancel_response cancel_result fp stored)"

lemma CancelTask_replay:
  assumes "receipt_row (CXR_CommandID request) s = Some stored" and "call_fault c = None" and "deferred_ok s"
  shows "CancelTask ports repo c request (s, reg) = (cancel_replay (json_digest ports) request stored, (s, reg))"
proof (cases "cancelRequestFingerprint (json_digest ports) request")
  case (Inl e)
  then show ?thesis by (simp add: CancelTask_def cancel_replay_def)
next
  case (Inr fp)
  have answer: "(case Execute None (cancel_work ports repo (call_now c) request fp) s of
      (Inl e, s') \<Rightarrow> (Inl e, None, s') | (Inr (response, out), s') \<Rightarrow> (cancel_result response, Some out, s')) =
    (receipt_answer CommandTypeCancel (CXR_TaskID request) decode_cancel_response cancel_result fp stored,
     case receipt_answer CommandTypeCancel (CXR_TaskID request) decode_cancel_response validateCancelReceipt fp stored of
       Inl _ \<Rightarrow> None | Inr _ \<Rightarrow> Some None, s)"
    unfolding cancel_work_def
    by (rule replay_or_answer [OF assms(1,3)]) (simp add: cancel_result_def)
  show ?thesis
  proof (cases "Execute None (cancel_work ports repo (call_now c) request fp) s")
    case (Pair m s1)
    show ?thesis
    proof (cases m)
      case (Inl e)
      with Pair answer \<open>cancelRequestFingerprint _ _ = _\<close> assms(2) show ?thesis
        by (simp add: CancelTask_def cancel_replay_def)
    next
      case (Inr a)
      then obtain response out where "m = Inr (response, out)" by (cases a) auto
      with Pair answer \<open>cancelRequestFingerprint _ _ = _\<close> assms(2) show ?thesis
        by (auto simp: CancelTask_def cancel_replay_def split: sum.splits)
    qed
  qed
qed

type_synonym 'x cancel_context = "('x Ports \<times> 'x TerminationRepository) \<times> Call"

definition cancel_ready :: "'x cancel_context \<Rightarrow> 'x db \<times> Registry \<Rightarrow> bool" where
  "cancel_ready c sr \<longleftrightarrow> call_fault (snd c) = None \<and> deferred_ok (fst sr) \<and> schema_ok (fst sr) \<and>
     termination_contract (snd (fst c))"

definition CancelTask_in :: "(json \<Rightarrow> string) \<Rightarrow> 'x cancel_context \<Rightarrow> CancelTaskRequest \<Rightarrow> 'x db \<times> Registry \<Rightarrow>
    (GoError + TaskCancelled) \<times> ('x db \<times> Registry)" where
  "CancelTask_in digest c request sr =
    CancelTask ((fst (fst c))\<lparr>json_digest := digest\<rparr>) (snd (fst c)) (snd c) request sr"

interpretation cancel_command: receipted_command "CancelTask_in digest" CXR_CommandID
  "\<lambda>k sr. receipt_row k (fst sr)" "cancel_replay digest" cancel_ready "\<lambda>sr sr'. statement\<^sup>*\<^sup>* (fst sr) (fst sr')"
  for digest :: "json \<Rightarrow> string"
proof unfold_locales
  fix q and c :: "'x cancel_context" and sr sr' :: "'x db \<times> Registry" and res rc
  obtain s reg s' reg' where sr: "sr = (s, reg)" "sr' = (s', reg')" by (cases sr, cases sr')
  show "receipt_row (CXR_CommandID q) (fst sr) = Some rc \<Longrightarrow> cancel_ready c sr \<Longrightarrow>
      CancelTask_in digest c q sr = (cancel_replay digest q rc, sr)"
    using CancelTask_replay [of q s rc "snd c" "(fst (fst c))\<lparr>json_digest := digest\<rparr>" "snd (fst c)" reg]
    by (simp add: cancel_ready_def CancelTask_in_def sr)
  assume ready: "cancel_ready c sr" and call: "CancelTask_in digest c q sr = (res, sr')"
    and none: "receipt_row (CXR_CommandID q) (fst sr) = None" and rc: "receipt_row (CXR_CommandID q) (fst sr') = Some rc"
  from call [unfolded CancelTask_in_def sr] show "cancel_replay digest q rc = res"
  proof (cases rule: CancelTask_cases)
    case (failed err)
    with none rc sr show ?thesis by simp
  next
    case (finished fp response out s1)
    then have new: "cancel_new ((fst (fst c))\<lparr>json_digest := digest\<rparr>) (snd (fst c)) (call_now (snd c)) q fp s =
        Inr ((response, out), s1)"
      using none by (simp add: cancel_work_def sr)
    have "termination_contract (snd (fst c))" "schema_ok s" using ready by (simp_all add: cancel_ready_def sr)
    note stored = cancel_new_stored [OF new this]
    have "fst sr' = fst (after_cancel (snd c) response out s1 reg)" using finished sr by simp
    then have "rc = cancel_receipt q fp response (call_now (snd c))" using rc stored(1) by simp
    then show ?thesis
      using finished(1,5) stored(2,3)
      by (simp add: cancel_replay_def receipt_answer_def cancel_receipt_def)
  qed
qed (rule receipt_later)

text \<open>
  C13: CancelTask is idempotent. Once a call on a sound database has left a receipt for its command,
  the same request gives the same answer, closes nothing again and cancels no call, after any further
  statements and whatever the clock and the configuration have become.
\<close>

theorem cancel_task_is_idempotent:
  assumes "CancelTask ports repo c request sr = (res, sr1)" and "call_fault c = None" and "runtime_inv (fst sr)"
    and "receipt_row (CXR_CommandID request) (fst sr1) \<noteq> None" and "termination_contract repo"
    and "statement\<^sup>*\<^sup>* (fst sr1) (fst sr2)" and "runtime_inv (fst sr2)"
    and "json_digest ports' = json_digest ports" and "call_fault c' = None" and "termination_contract repo'"
  shows "CancelTask ports' repo' c' request sr2 = (res, sr2)"
proof -
  have "ports\<lparr>json_digest := json_digest ports\<rparr> = ports" "ports'\<lparr>json_digest := json_digest ports\<rparr> = ports'"
    using assms(8) by (cases ports; cases ports'; simp)+
  note eq = this
  show ?thesis
    using cancel_command.idempotent [of "json_digest ports" "((ports, repo), c)" request sr res sr1 sr2 "((ports', repo'), c')",
        unfolded CancelTask_in_def fst_conv snd_conv eq] assms
    by (simp add: cancel_ready_def runtime_inv_def)
qed

subsection \<open>What CancelTask and ExpireTask do\<close>

lemma closed_call:
  assumes "registry_ok reg" and "ExecutionCancellationCause_Valid cause"
    and "Exec_WorkerID (Facts_Execution facts) = Some w"
    and "reg_entries reg \<lparr>Key_TaskID = Task_TaskID (Facts_Task facts),
      Key_ExecutionVersion = Exec_ExecutionVersion (Facts_Execution facts), Key_WorkerID = w\<rparr> = Some h"
  shows "handle_cancelled h (cancel_call (active_key facts) cause reg)"
  using assms
  by (auto simp: cancel_call_def active_key_def Cancel_def handle_cancelled_def registry_ok_def cancel_entry_cause)

text \<open>
  C12: What a CancelTask command does to its task. The command finds a closed task, a live one before
  its deadline, or a live one at or after it. A closed task stays as it is and the caller is told;
  before the deadline Task, Run and execution become Cancelled, Failed and FAILED with reason
  CANCELLED, after it Failed, Failed and FAILED with reason TIMED_OUT and the caller is told so. The
  queue slot is given up, the end of an interrupted execution and its configuration mismatch are
  kept, no other task changes, the database stays sound, and the active call of the execution, if
  there is one in this process, has a cancelled context.
\<close>

theorem cancel_task_outcome:
  assumes "CancelTask ports repo c request (s, reg) = (res, (s', reg'))"
    and "receipt_row (CXR_CommandID request) s = None" and "receipt_row (CXR_CommandID request) s' \<noteq> None"
    and "termination_contract repo" and "runtime_inv s" and "registry_ok reg"
  shows "\<exists>t r e x. scene (CXR_TaskID request) s t r e \<and> closing_code x e \<and>
    others_same (CXR_TaskID request) s s' \<and> runtime_inv s' \<and>
    (if TaskStatus_Terminal (Task_Status t) then
       res = Inl ErrTaskAlreadyTerminal \<and> scene (CXR_TaskID request) s' t r e \<and> reg' = reg
     else
       (if call_now c < Task_DeadlineAt t then
          res = Inr \<lparr>TX_TaskID = CXR_TaskID request, TX_TaskStatus = TaskStatusCancelled,
            TX_RunStatus = RunStatusFailed, TX_ExecutionStatus = TaskExecutionStatusFailed,
            TX_ExecutionVersion = Exec_ExecutionVersion e, TX_TerminationReason = TerminationReasonCancelled\<rparr> \<and>
          scene (CXR_TaskID request) s' (closed_task (call_now c) TaskStatusCancelled ErrorCodeTaskCancelled t)
            (closed_run (call_now c) ErrorCodeTaskCancelled r)
            (closed_execution (call_now c) TerminationReasonCancelled x e)
        else
          res = Inl ErrTaskTimedOut \<and>
          scene (CXR_TaskID request) s' (closed_task (call_now c) TaskStatusFailed ErrorCodeTaskTimeout t)
            (closed_run (call_now c) ErrorCodeTaskTimeout r)
            (closed_execution (call_now c) TerminationReasonTimedOut x e)) \<and>
       (\<forall>w h. Exec_WorkerID e = Some w \<and> reg_entries reg \<lparr>Key_TaskID = CXR_TaskID request,
          Key_ExecutionVersion = Exec_ExecutionVersion e, Key_WorkerID = w\<rparr> = Some h \<longrightarrow> handle_cancelled h reg'))"
  using assms(1)
proof (cases rule: CancelTask_cases)
  case (failed err)
  with assms(2,3) show ?thesis by simp
next
  case (finished fp response out s1)
  let ?k = "CXR_TaskID request"
  have new: "cancel_new ports repo (call_now c) request fp s = Inr ((response, out), s1)"
    using finished(4) assms(2) by (simp add: cancel_work_def)
  have inv: "schema_ok s" "runtime_inv s1" using assms(4,5) cancel_new_inv [OF new] by (simp_all add: runtime_inv_def)
  have s': "s' = fst (after_cancel c response out s1 reg)" "reg' = snd (after_cancel c response out s1 reg)"
    using finished(6) by (metis fst_conv, metis snd_conv)
  have inv': "runtime_inv s'" using inv(2) s'(1) by (simp add: after_cancel_inv)
  have closing: "\<exists>x. closing_code x e" for e by (auto simp: closing_code_def)
  from new assms(4) show ?thesis
  proof (cases rule: cancel_new_cases)
    case (terminal facts)
    have v: "0 < Exec_ExecutionVersion (Facts_Execution facts)" "?k \<noteq> ''''"
      using scene_version [OF inv(1) terminal(1)] by simp_all
    obtain x where "closing_code x (Facts_Execution facts)" using closing by blast
    then show ?thesis
      using terminal v finished(5) inv' s' insertCancelReceipt_scene(1,2) [OF terminal(5)] scene_keys [OF terminal(1)]
      by (intro exI [of _ "Facts_Task facts"] exI [of _ "Facts_Run facts"] exI [of _ "Facts_Execution facts"] exI [of _ x])
        (simp add: cancel_result_def validateCancelReceipt_def rejectedCancelReceipt_def after_cancel_def)
  next
    case (cancelled facts x s2)
    note keys = scene_keys [OF cancelled(1)] and v = scene_version [OF inv(1) cancelled(1)]
    have "others_same ?k s s1"
      using elsewhere_others [OF cancelled(6)] insertCancelReceipt_scene(2) [OF cancelled(11)] others_same_trans by blast
    moreover have "handle_cancelled h reg'" if "Exec_WorkerID (Facts_Execution facts) = Some w"
        "reg_entries reg \<lparr>Key_TaskID = ?k, Key_ExecutionVersion = Exec_ExecutionVersion (Facts_Execution facts),
          Key_WorkerID = w\<rparr> = Some h" for w h
      using closed_call [OF assms(6) _ that(1)] that(2) s'(2) cancelled(9,10) keys(1)
      by (simp add: after_cancel_def cancelledReceipt_def)
    ultimately show ?thesis
      using cancelled v finished(5) inv' s'(1) insertCancelReceipt_scene(1) [OF cancelled(11)] keys
      by (intro exI [of _ "Facts_Task facts"] exI [of _ "Facts_Run facts"] exI [of _ "Facts_Execution facts"] exI [of _ x])
        (simp add: cancel_result_def validateCancelReceipt_def cancelledReceipt_def)
  next
    case (timed_out facts x s2)
    note keys = scene_keys [OF timed_out(1)] and v = scene_version [OF inv(1) timed_out(1)]
    have "others_same ?k s s1"
      using elsewhere_others [OF timed_out(6)] insertCancelReceipt_scene(2) [OF timed_out(11)] others_same_trans by blast
    moreover have "handle_cancelled h reg'" if "Exec_WorkerID (Facts_Execution facts) = Some w"
        "reg_entries reg \<lparr>Key_TaskID = ?k, Key_ExecutionVersion = Exec_ExecutionVersion (Facts_Execution facts),
          Key_WorkerID = w\<rparr> = Some h" for w h
      using closed_call [OF assms(6) _ that(1)] that(2) s'(2) timed_out(9,10) keys(1)
      by (simp add: after_cancel_def)
    ultimately show ?thesis
      using timed_out v finished(5) inv' s'(1) insertCancelReceipt_scene(1) [OF timed_out(11)] keys
      by (intro exI [of _ "Facts_Task facts"] exI [of _ "Facts_Run facts"] exI [of _ "Facts_Execution facts"] exI [of _ x])
        (simp add: cancel_result_def validateCancelReceipt_def rejectedCancelReceipt_def)
  qed
qed

text \<open>
  C14: What ExpireTask does. It ends only a live task whose deadline has passed and whose current
  version is the one that was observed: then the task fails as timed out with its Run and execution,
  no other task and no receipt changes, and the active call of the execution is cancelled. Every
  other answer, errors included, changes nothing, and says whether the task had ended before.
\<close>

theorem expire_task_outcome:
  assumes "ExpireTask ports repo c request (s, reg) = (res, (s', reg'))"
    and "termination_contract repo" and "runtime_inv s" and "registry_ok reg"
  shows "case res of
      Inr ExpireTaskExpired \<Rightarrow> \<exists>t r e x. scene (XPR_TaskID request) s t r e \<and>
        \<not> TaskStatus_Terminal (Task_Status t) \<and> Task_DeadlineAt t \<le> call_now c \<and>
        Task_CurrentExecutionVersion t = XPR_ObservedExecutionVersion request \<and> closing_code x e \<and>
        scene (XPR_TaskID request) s' (closed_task (call_now c) TaskStatusFailed ErrorCodeTaskTimeout t)
          (closed_run (call_now c) ErrorCodeTaskTimeout r)
          (closed_execution (call_now c) TerminationReasonTimedOut x e) \<and>
        elsewhere_same (XPR_TaskID request) s s' \<and> runtime_inv s' \<and>
        (\<forall>w h. Exec_WorkerID e = Some w \<and> reg_entries reg \<lparr>Key_TaskID = XPR_TaskID request,
          Key_ExecutionVersion = Exec_ExecutionVersion e, Key_WorkerID = w\<rparr> = Some h \<longrightarrow> handle_cancelled h reg')
    | Inr ExpireTaskSkipped \<Rightarrow> s' = s \<and> reg' = reg \<and>
        (\<exists>t. task_row (XPR_TaskID request) s = Some t \<and> \<not> TaskStatus_Terminal (Task_Status t) \<and>
          (call_now c < Task_DeadlineAt t \<or> Task_CurrentExecutionVersion t \<noteq> XPR_ObservedExecutionVersion request))
    | Inr ExpireTaskAlreadyTerminal \<Rightarrow> s' = s \<and> reg' = reg \<and>
        (\<exists>t. task_row (XPR_TaskID request) s = Some t \<and> TaskStatus_Terminal (Task_Status t))
    | Inl _ \<Rightarrow> s' = s \<and> reg' = reg"
proof (cases "XPR_TaskID request = '''' \<or> \<not> ExecutionVersion_Valid (XPR_ObservedExecutionVersion request)")
  case True
  with assms(1) show ?thesis by (auto simp: ExpireTask_def)
next
  case valid: False
  let ?k = "XPR_TaskID request"
  obtain m s1 where ex: "Execute (call_fault c) (expire_work ports repo (call_now c) request) s = (m, s1)" by fastforce
  then show ?thesis
  proof (cases rule: Execute_cases)
    case (rolled_back err)
    with assms(1) valid ex show ?thesis by (auto simp: ExpireTask_def)
  next
    case (committed a)
    obtain result out where a: "a = (result, out)" by (cases a)
    obtain facts where f: "LockTerminationFacts repo ?k s = Inr facts"
      using committed by (auto simp: expire_work_def)
    have sc: "scene ?k s (Facts_Task facts) (Facts_Run facts) (Facts_Execution facts)"
      using assms(2) closing_repository.lock_scene f unfolding termination_contract_def by blast
    note keys = scene_keys [OF sc]
    show ?thesis
    proof (cases "result = ExpireTaskExpired")
      case False
      with committed f a have "out = None" "s1 = s" by (auto simp: expire_work_def split: if_splits)
      with False assms(1) valid ex committed f a sc keys show ?thesis
        by (auto simp: ExpireTask_def expire_work_def scene_def split: if_splits)
    next
      case True
      with committed f a have live: "\<not> TaskStatus_Terminal (Task_Status (Facts_Task facts))"
          "Task_CurrentExecutionVersion (Facts_Task facts) = XPR_ObservedExecutionVersion request"
          "Task_DeadlineAt (Facts_Task facts) \<le> call_now c"
        and t: "terminate ports repo facts (call_now c) TaskStatusFailed ErrorCodeTaskTimeout TerminationReasonTimedOut s = Inr s1"
        and out: "out = Some (active_key facts, termination_log facts ErrorCodeTaskTimeout TerminationReasonTimedOut)"
        by (auto simp: expire_work_def split: if_splits)
      have res: "res = Inr ExpireTaskExpired" "s' = appendTaskLogBestEffort (call_log c)
            (termination_log facts ErrorCodeTaskTimeout TerminationReasonTimedOut) s1"
          "reg' = cancel_call (active_key facts) ExecutionCancellationCauseTaskTimedOut reg"
        using assms(1) valid ex committed a out True by (auto simp: ExpireTask_def)
      show ?thesis
      proof (rule terminate_ok [OF assms(2) f t])
        fix x
        assume x: "scene ?k s1 (closed_task (call_now c) TaskStatusFailed ErrorCodeTaskTimeout (Facts_Task facts))
            (closed_run (call_now c) ErrorCodeTaskTimeout (Facts_Run facts))
            (closed_execution (call_now c) TerminationReasonTimedOut x (Facts_Execution facts))"
          and rest: "closing_code x (Facts_Execution facts)" "elsewhere_same ?k s s1" "statement\<^sup>*\<^sup>* s s1"
        have "runtime_inv s'" using closed_scene_inv [OF assms(3) sc x rest(2,3)] res(2) by (simp add: runtime_inv_log)
        moreover have "handle_cancelled h reg'" if "Exec_WorkerID (Facts_Execution facts) = Some w"
          "reg_entries reg \<lparr>Key_TaskID = ?k, Key_ExecutionVersion = Exec_ExecutionVersion (Facts_Execution facts),
            Key_WorkerID = w\<rparr> = Some h" for w h
          using closed_call [OF assms(4) _ that(1)] that(2) res(3) keys(1) by simp
        ultimately show ?thesis using sc live x rest res keys by (auto intro!: exI)
      qed
    qed
  qed
qed

text \<open>Both keep a sound database sound, whatever they answer.\<close>

lemma CancelTask_inv:
  assumes "runtime_inv (fst sr)" and "termination_contract repo"
  shows "runtime_inv (fst (snd (CancelTask ports repo c request sr)))"
proof -
  obtain s reg res sr' where sr: "sr = (s, reg)" "CancelTask ports repo c request (s, reg) = (res, sr')"
    by (cases sr, cases "CancelTask ports repo c request sr") auto
  from sr(2) show ?thesis
  proof (cases rule: CancelTask_cases)
    case (failed err)
    with sr assms show ?thesis by simp
  next
    case (finished fp response out s1)
    from finished(4)[unfolded cancel_work_def] have "runtime_inv s1"
      by (rule replay_or_ok) (use assms sr cancel_new_inv in auto)
    with finished sr show ?thesis by (simp add: after_cancel_inv)
  qed
qed

lemma expire_work_inv:
  assumes "expire_work ports repo now request s = Inr ((result, out), s')" and "termination_contract repo"
    and "runtime_inv s"
  shows "runtime_inv s'"
proof -
  obtain facts where f: "LockTerminationFacts repo (XPR_TaskID request) s = Inr facts"
    using assms(1) by (auto simp: expire_work_def)
  show ?thesis
  proof (cases "s' = s")
    case False
    with assms(1) f have
      t: "terminate ports repo facts now TaskStatusFailed ErrorCodeTaskTimeout TerminationReasonTimedOut s = Inr s'"
      by (auto simp: expire_work_def split: if_splits)
    show ?thesis
      by (rule terminate_ok [OF assms(2) f t]) (use closed_scene_inv [OF assms(3)] in blast)
  qed (use assms in simp)
qed

lemma ExpireTask_inv:
  assumes "runtime_inv (fst sr)" and "termination_contract repo"
  shows "runtime_inv (fst (snd (ExpireTask ports repo c request sr)))"
proof -
  obtain s reg where sr: "sr = (s, reg)" by (cases sr)
  obtain m s1 where ex: "Execute (call_fault c) (expire_work ports repo (call_now c) request) s = (m, s1)" by fastforce
  then have "runtime_inv s1"
  proof (cases rule: Execute_cases)
    case (committed a)
    then show ?thesis using expire_work_inv [OF _ assms(2)] assms(1) sr by (cases a) auto
  qed (use assms sr in simp)
  with assms(1) sr ex show ?thesis
    by (auto simp: ExpireTask_def runtime_inv_log split: sum.splits option.splits prod.splits)
qed

text \<open>A command that answers with success closed a live task before its deadline.\<close>

lemma rejected_never_ok: "XR_Outcome r \<noteq> ''Cancelled'' \<Longrightarrow> cancel_result r \<noteq> Inr x"
  by (simp add: cancel_result_def)

lemma CancelTask_success:
  assumes "CancelTask ports repo c request (s, reg) = (Inr result, (s', reg'))"
    and "receipt_row (CXR_CommandID request) s = None" and "termination_contract repo"
  obtains facts x out s1 where "db_logs s1 = db_logs s"
    "s' = fst (after_cancel c (cancelledReceipt facts TerminationReasonCancelled) out s1 reg)"
    "out = Some (active_key facts, termination_log facts ErrorCodeTaskCancelled TerminationReasonCancelled)"
    "TX_ExecutionVersion result = Exec_ExecutionVersion (Facts_Execution facts)"
    "scene (CXR_TaskID request) s' (closed_task (call_now c) TaskStatusCancelled ErrorCodeTaskCancelled (Facts_Task facts))
        (closed_run (call_now c) ErrorCodeTaskCancelled (Facts_Run facts))
        (closed_execution (call_now c) TerminationReasonCancelled x (Facts_Execution facts))"
  using assms(1)
proof (cases rule: CancelTask_cases)
  case (failed err)
  then show ?thesis by simp
next
  case (finished fp response out s1)
  then have new: "cancel_new ports repo (call_now c) request fp s = Inr ((response, out), s1)"
    using assms(2) by (simp add: cancel_work_def)
  have s': "s' = fst (after_cancel c response out s1 reg)" using finished(6) by (metis fst_conv)
  have ok: "XR_Outcome response = ''Cancelled''" using rejected_never_ok finished(5) by metis
  from new assms(3) show ?thesis
  proof (cases rule: cancel_new_cases)
    case (terminal facts)
    with ok show ?thesis by (simp add: rejectedCancelReceipt_def)
  next
    case (cancelled facts x s2)
    show ?thesis
    proof (rule that)
      show "db_logs s1 = db_logs s" using cancelled(8,11) by (auto simp: insertCancelReceipt_def receipt_insert_iff)
      show "TX_ExecutionVersion result = Exec_ExecutionVersion (Facts_Execution facts)"
        using finished(5) [symmetric] cancelled(9) by (auto simp: cancel_result_def cancelledReceipt_def)
      show "scene (CXR_TaskID request) s' (closed_task (call_now c) TaskStatusCancelled ErrorCodeTaskCancelled (Facts_Task facts))
        (closed_run (call_now c) ErrorCodeTaskCancelled (Facts_Run facts))
        (closed_execution (call_now c) TerminationReasonCancelled x (Facts_Execution facts))"
        using cancelled(4) s' insertCancelReceipt_scene(1) [OF cancelled(11)] by simp
    qed (use s' cancelled in simp_all)
  next
    case (timed_out facts x s2)
    with ok show ?thesis by (simp add: rejectedCancelReceipt_def)
  qed
qed

text \<open>
  C15: Late results are dropped. After a CancelTask command that closed its task, every conditional
  update of the store that still expects one of the live statuses of that task, its Run or its current
  execution misses and changes nothing, whoever sends it.
\<close>

theorem late_results_are_dropped:
  assumes "CancelTask ports repo c request (s, reg) = (Inr result, (s', reg'))"
    and "receipt_row (CXR_CommandID request) s = None" and "termination_contract repo"
    and "TU_TaskID u = CXR_TaskID request" and "\<not> TaskStatus_Terminal (TU_ExpectedStatus u)"
    and "RU_TaskID v = CXR_TaskID request" and "RU_ExpectedStatus v \<noteq> RunStatusFailed"
    and "EU_TaskID w = CXR_TaskID request" and "EU_ExecutionVersion w = TX_ExecutionVersion result"
    and "EU_ExpectedStatus w \<noteq> TaskExecutionStatusFailed"
  shows "TaskRepository_Update u s' = Inr (False, s') \<and> RunRepository_Update v s' = Inr (False, s') \<and>
    TaskExecutionRepository_Update w s' = Inr (False, s')"
proof -
  let ?k = "CXR_TaskID request"
  obtain t r e where sc: "scene ?k s' t r e" "Task_Status t = TaskStatusCancelled" "Run_Status r = RunStatusFailed"
      "Exec_Status e = TaskExecutionStatusFailed" "Exec_ExecutionVersion e = TX_ExecutionVersion result"
    by (rule CancelTask_success [OF assms(1-3)]) (auto simp: closed_task_def closed_run_def closed_execution_def)
  have "\<not> TaskUpdate_hits u t" "\<not> RunUpdate_hits v s' r" "EU_key w = (?k, Task_CurrentExecutionVersion t)"
      "\<not> TaskExecutionUpdate_hits w s' e"
    using sc assms(4-10) scene_keys [OF sc(1)]
    by (auto simp: TaskUpdate_hits_def RunUpdate_hits_def TaskExecutionUpdate_hits_def EU_key_def valid_simps)
  then show ?thesis
    using sc(1) assms(4,6)
    by (simp add: TaskRepository_Update_def RunRepository_Update_def TaskExecutionRepository_Update_def scene_def)
qed

text \<open>
  C18: The log line of a cancelled task contradicts its row. When CancelTask ends a task as Cancelled,
  the only log line it can add says that the task was terminalized with status Failed.
\<close>

theorem cancel_log_says_failed:
  assumes "CancelTask ports repo c request (s, reg) = (Inr result, (s', reg'))"
    and "receipt_row (CXR_CommandID request) s = None" and "termination_contract repo"
  shows "(\<exists>t. task_row (CXR_TaskID request) s' = Some t \<and> Task_Status t = TaskStatusCancelled) \<and>
    (\<forall>l \<in> set (db_logs s') - set (db_logs s).
       Log_Message l = ''task terminalized: status=Failed error_code=TaskCancelled termination_reason=CANCELLED'')"
proof -
  obtain facts x out s1 where ok: "db_logs s1 = db_logs s"
    "s' = fst (after_cancel c (cancelledReceipt facts TerminationReasonCancelled) out s1 reg)"
    "out = Some (active_key facts, termination_log facts ErrorCodeTaskCancelled TerminationReasonCancelled)"
    "scene (CXR_TaskID request) s' (closed_task (call_now c) TaskStatusCancelled ErrorCodeTaskCancelled (Facts_Task facts))
        (closed_run (call_now c) ErrorCodeTaskCancelled (Facts_Run facts))
        (closed_execution (call_now c) TerminationReasonCancelled x (Facts_Execution facts))"
    by (rule CancelTask_success [OF assms])
  have "\<forall>l \<in> set (db_logs s') - set (db_logs s1).
      Log_Message l = Draft_message (termination_log facts ErrorCodeTaskCancelled TerminationReasonCancelled)"
    using ok(2,3)
    by (cases rule: log_append_cases [of "call_log c" "termination_log facts ErrorCodeTaskCancelled TerminationReasonCancelled" s1])
      (auto simp: after_cancel_def)
  then show ?thesis
    using ok(1,4) by (auto simp: scene_def closed_task_def termination_log_def terminalTaskLogDraft_def)
qed

lemma LockRecoveryFacts_ok:
  assumes "schema_ok s" and "scene k s t r e"
  shows "LockRecoveryFacts k s = Inr \<lparr>Facts_Task = t, Facts_Run = r, Facts_Execution = e, Facts_Step = None,
     Facts_ToolExecution = None\<rparr>"
  using scene_checks [OF assms] assms(2)
  by (simp add: LockRecoveryFacts_def scanTask_def RunRepository_LockByTask_def scanTaskExecution_def scene_def
      Task_check_def TaskExecution_check_def)

subsection \<open>The properties at work\<close>

text \<open>
  A running task whose planning call is registered: it is cancelled in time, and its deadline passes.
\<close>

definition sample_cancel :: CancelTaskRequest where
  "sample_cancel = \<lparr>CXR_CommandID = ''x1'', CXR_TaskID = ''t1'', CXR_OperatorID = ''bob''\<rparr>"

definition cancelled_sample :: "unit db \<times> Registry" where
  "cancelled_sample =
     snd (CancelTask sample_ports stored_terminations sample_call sample_cancel (running_db, sample_registry))"

definition sample_cancelled :: TaskCancelled where
  "sample_cancelled = \<lparr>TX_TaskID = ''t1'', TX_TaskStatus = TaskStatusCancelled, TX_RunStatus = RunStatusFailed,
     TX_ExecutionStatus = TaskExecutionStatusFailed, TX_ExecutionVersion = 1,
     TX_TerminationReason = TerminationReasonCancelled\<rparr>"

definition late_call :: Call where
  "late_call = sample_call\<lparr>call_now := 5000\<rparr>"

definition sample_expire :: ExpireTaskRequest where
  "sample_expire = \<lparr>XPR_TaskID = ''t1'', XPR_ObservedExecutionVersion = 1\<rparr>"

definition expired_sample :: "unit db \<times> Registry" where
  "expired_sample =
     snd (ExpireTask sample_ports stored_terminations late_call sample_expire (running_db, sample_registry))"

lemma sample_cancel_answer:
  "fst (CancelTask sample_ports stored_terminations sample_call sample_cancel (running_db, sample_registry)) =
     Inr sample_cancelled"
  by code_simp

lemma sample_cancel_call:
  "CancelTask sample_ports stored_terminations sample_call sample_cancel (running_db, sample_registry) =
     (Inr sample_cancelled, (fst cancelled_sample, snd cancelled_sample))"
  unfolding cancelled_sample_def prod.collapse sample_cancel_answer [symmetric] ..

lemma sample_expire_answer:
  "fst (ExpireTask sample_ports stored_terminations late_call sample_expire (running_db, sample_registry)) =
     Inr ExpireTaskExpired"
  by code_simp

lemma sample_expire_call:
  "ExpireTask sample_ports stored_terminations late_call sample_expire (running_db, sample_registry) =
     (Inr ExpireTaskExpired, (fst expired_sample, snd expired_sample))"
  unfolding expired_sample_def prod.collapse sample_expire_answer [symmetric] ..

lemma cancelled_sample_receipt: "receipt_row ''x1'' (fst cancelled_sample) \<noteq> None"
  by code_simp

lemma cancelled_sample_logs:
  "map Log_Message (db_logs (fst cancelled_sample)) =
     [''task terminalized: status=Failed error_code=TaskCancelled termination_reason=CANCELLED'']"
  by code_simp

lemma sample_cancel_id: "CXR_CommandID sample_cancel = ''x1''" "CXR_TaskID sample_cancel = ''t1''"
  by (simp_all add: sample_cancel_def)

lemma sample_cancelled_version: "TX_ExecutionVersion sample_cancelled = 1"
  by (simp add: sample_cancelled_def)

lemma running_db_rows:
  "receipt_row k running_db = None" "db_logs running_db = []"
  "scene ''t1'' running_db (sample_task TaskStatusRunning None) (sample_run RunStatusRunning)
     (sample_execution TaskExecutionStatusRunning (Some ''w1''))"
  by (simp_all add: running_db_def) (simp add: sample_defs)

lemma sample_columns:
  "Task_DeadlineAt (sample_task st q) = 5000" "Exec_ExecutionVersion (sample_execution es w) = 1"
  "Exec_InvariantCode (sample_execution es w) = None"
  by (simp_all add: sample_task_def sample_execution_def)

lemma sample_registry_ok: "registry_ok sample_registry"
  by (rule registry_step_ok [OF registry_step.intros(1) [OF sample_prepare] NewRegistry_ok])

text \<open>What the worker of the cancelled call would store, had it not been cancelled.\<close>

definition late_task_update :: TaskUpdate where
  "late_task_update = \<lparr>TU_TaskID = ''t1'', TU_ExpectedStatus = TaskStatusRunning, TU_ExpectedCurrentExecutionVersion = 1,
     TU_Status = TaskStatusCompleted, TU_CurrentExecutionVersion = 1, TU_ResultSummary = None, TU_ErrorCode = None,
     TU_QueuedAt = None, TU_StartedAt = None, TU_EndedAt = Some 2100\<rparr>"

definition late_run_update :: RunUpdate where
  "late_run_update = \<lparr>RU_TaskID = ''t1'', RU_RunID = ''r1'', RU_ExecutionVersion = 1,
     RU_ExpectedStatus = RunStatusRunning, RU_Status = RunStatusCompleted, RU_PlanID = None,
     RU_CurrentStepID = None, RU_Context = None, RU_ErrorCode = None, RU_StartedAt = None, RU_EndedAt = Some 2100\<rparr>"

definition late_execution_update :: TaskExecutionUpdate where
  "late_execution_update = \<lparr>EU_TaskID = ''t1'', EU_ExecutionVersion = 1, EU_ExpectedStatus = TaskExecutionStatusRunning,
     EU_ExpectedWorkerID = Some ''w1'', EU_Status = TaskExecutionStatusCompleted, EU_WorkerID = Some ''w1'',
     EU_ObservedConfigHash = None, EU_ErrorCode = None,
     EU_InvariantCode = None, EU_TerminationReason = None, EU_StartedAt = None, EU_EndedAt = Some 2100\<rparr>"

theorem cancel_task_is_idempotent_witness:
  "CancelTask sample_ports stored_terminations sample_call sample_cancel cancelled_sample =
     (Inr sample_cancelled, cancelled_sample)"
proof -
  have "runtime_inv (fst cancelled_sample)"
    using CancelTask_inv [of "(running_db, sample_registry)" stored_terminations sample_ports sample_call sample_cancel]
    by (simp add: cancelled_sample_def)
  then show ?thesis
    using cancel_task_is_idempotent [OF sample_cancel_call] cancelled_sample_receipt
    by (simp add: sample_cancel_id port_simps)
qed

theorem cancel_task_outcome_witness:
  "\<exists>t. task_row ''t1'' (fst cancelled_sample) = Some t \<and> Task_Status t = TaskStatusCancelled \<and> Task_EndedAt t = Some 2000"
proof -
  obtain t where "task_row ''t1'' (fst cancelled_sample) = Some (closed_task 2000 TaskStatusCancelled ErrorCodeTaskCancelled t)"
    using cancel_task_outcome [OF sample_cancel_call] cancelled_sample_receipt
    unfolding sample_cancel_id by (auto simp: running_db_rows sample_registry_ok port_simps scene_def split: if_splits)
  then show ?thesis by (simp add: closed_task_def)
qed

theorem expire_task_outcome_witness:
  "\<exists>t. task_row ''t1'' (fst expired_sample) = Some t \<and> Task_Status t = TaskStatusFailed \<and> Task_EndedAt t = Some 5000"
  using expire_task_outcome [OF sample_expire_call]
  by (auto simp: sample_registry_ok sample_expire_def late_call_def port_simps scene_def closed_task_def)

theorem late_results_are_dropped_witness:
  "TaskRepository_Update late_task_update (fst cancelled_sample) = Inr (False, fst cancelled_sample) \<and>
   RunRepository_Update late_run_update (fst cancelled_sample) = Inr (False, fst cancelled_sample) \<and>
   TaskExecutionRepository_Update late_execution_update (fst cancelled_sample) = Inr (False, fst cancelled_sample)"
  by (rule late_results_are_dropped [OF sample_cancel_call])
    (simp_all add: late_task_update_def late_run_update_def late_execution_update_def sample_cancel_id
      running_db_rows sample_cancelled_version valid_simps)

theorem cancel_log_says_failed_witness:
  "\<exists>l \<in> set (db_logs (fst cancelled_sample)).
     Log_Message l = ''task terminalized: status=Failed error_code=TaskCancelled termination_reason=CANCELLED''"
  using cancel_log_says_failed [OF sample_cancel_call] arg_cong [OF cancelled_sample_logs, of length]
  by (cases "db_logs (fst cancelled_sample)") (auto simp: running_db_rows)

end
