(* ===== verification/RecoverSafety.thy ===== *)
theory RecoverSafety
  imports RecoverTask CancelSafety
begin

section \<open>Properties of RecoverTask\<close>

subsection \<open>Switching to a new execution\<close>

text \<open>
  A new execution is stored and the Task pointed at it: the scene has the new execution, the old one
  stays as it was.
\<close>

lemma switch_execution:
  assumes "scene k s t r e" and "TaskExecutionRepository_Insert e' s = Inr s1" and "Exec_TaskID e' = k"
    and "TaskRepository_Update u s1 = Inr (True, s2)" and "TU_TaskID u = k"
    and "TU_CurrentExecutionVersion u = Exec_ExecutionVersion e'"
  shows "scene k s2 (TaskUpdate_patch u t) r e'" "elsewhere_same k s s2" "statement\<^sup>*\<^sup>* s s2"
    "Task_check (TaskUpdate_patch u t)" "TaskExecution_check e'"
    "exec_row (k, Task_CurrentExecutionVersion t) s2 = Some e" "exec_row (Exec_key e') s = None"
    "db_logs s2 = db_logs s"
proof -
  note ins = assms(2) [unfolded exec_insert_iff]
  have key: "Exec_key e' = (k, Exec_ExecutionVersion e')" using assms(3) by (simp add: Exec_key_def)
  have rows: "task_row x s1 = task_row x s" "run_row x s1 = run_row x s"
      "exec_row p s1 = (if p = Exec_key e' then Some e' else exec_row p s)" for x p
    using ins row_appends(3) [of e' s] by (auto simp: task_row_def run_row_def)
  note upd = task_update_rows [OF assms(4)] update_frames(1) [OF assms(4)]
  have t: "task_row k s1 = Some t" using assms(1) rows by (simp add: scene_def)
  have after: "run_row x s2 = run_row x s1" "exec_row p s2 = exec_row p s1" for x p
    using upd(2) by (simp_all add: run_row_def exec_row_def)
  obtain t' where t': "task_row k s1 = Some t'" "task_row x s2 = (if x = k then Some (TaskUpdate_patch u t') else task_row x s1)"
      "Task_check (TaskUpdate_patch u t')" for x
    using upd(1) assms(4,5) by (auto simp: task_update_True_iff)
  show "scene k s2 (TaskUpdate_patch u t) r e'"
    using t t' after rows assms(1,6) key by (auto simp: scene_def TaskUpdate_patch_def)
  show "elsewhere_same k s s2"
    using t'(2) after rows upd(2) insert_frames(3) [OF assms(2)] key by (auto simp: elsewhere_same_def)
  show "statement\<^sup>*\<^sup>* s s2"
    using insert_execution [OF assms(2)] update_task [OF assms(4)] by (meson rtranclp.simps r_into_rtranclp)
  show "Task_check (TaskUpdate_patch u t)" using t t' by simp
  show "TaskExecution_check e'" "exec_row (Exec_key e') s = None" using ins by simp_all
  show "exec_row (k, Task_CurrentExecutionVersion t) s2 = Some e"
    using after rows assms(1) ins by (auto simp: scene_def)
  show "db_logs s2 = db_logs s" using upd(2) insert_frames(3) [OF assms(2)] by simp
qed

subsection \<open>What the transaction of RecoverTask can do\<close>

text \<open>The rows of a recovered task: the Task and the Run wait again, the queue slot is taken now.\<close>

definition recovered_task :: "time \<Rightarrow> ExecutionVersion \<Rightarrow> Task \<Rightarrow> Task" where
  "recovered_task now v t = t\<lparr>Task_Status := TaskStatusPending, Task_CurrentExecutionVersion := v,
     Task_ErrorCode := None, Task_QueuedAt := Some now, Task_EndedAt := None\<rparr>"

definition recovered_run :: "Run \<Rightarrow> Run" where
  "recovered_run r = r\<lparr>Run_Status := RunStatusPending, Run_ErrorCode := None, Run_EndedAt := None\<rparr>"

lemma recover_patches:
  "TaskUpdate_patch (recover_task_update facts TaskStatusPending v now) (Facts_Task facts) =
     recovered_task now v (Facts_Task facts)"
  "RunUpdate_patch (recover_run_update facts RunStatusPending v) (Facts_Run facts) = recovered_run (Facts_Run facts)"
  by (simp_all add: TaskUpdate_patch_def recover_task_update_def recovered_task_def RunUpdate_patch_def
      recover_run_update_def recovered_run_def)

lemma recover_update_targets [simp]:
  "TU_TaskID (recover_task_update facts st v now) = Task_TaskID (Facts_Task facts)"
  "TU_CurrentExecutionVersion (recover_task_update facts st v now) = v"
  "RU_TaskID (recover_run_update facts st' v) = Task_TaskID (Facts_Task facts)"
  by (simp_all add: recover_task_update_def recover_run_update_def)

lemma insertRecoverReceipt_scene:
  assumes "insertRecoverReceipt request fp response now s = Inr s'"
  shows "scene k s' = scene k s" "others_same k s s'" "statement\<^sup>*\<^sup>* s s'"
    "receipt_row (RTR_CommandID request) s' = Some (recover_receipt request fp response now)"
    "runtime_inv s \<Longrightarrow> runtime_inv s'" "exec_row p s' = exec_row p s"
  using assms receipt_scene [of "recover_receipt request fp response now" s s'] receipt_inv
    insert_frames(4) [of "recover_receipt request fp response now" s s']
  by (auto simp: insertRecoverReceipt_def recover_receipt_def exec_row_def)

lemma recover_version_ok:
  assumes "recover_version ports c request fp facts CheckpointNextActionGeneratePlan source hash s = Inr ((response, out), s')"
    and "scene k s (Facts_Task facts) (Facts_Run facts) (Facts_Execution facts)" and "schema_ok s"
  obtains eid cid s1 where
    "scene k s1 (recovered_task (call_now c) (Exec_ExecutionVersion (Facts_Execution facts) + 1) (Facts_Task facts))
       (recovered_run (Facts_Run facts))
       (recovered_execution facts eid (Exec_ExecutionVersion (Facts_Execution facts) + 1) hash (call_now c))"
    "Exec_ExecutionVersion (Facts_Execution facts) + 1 < 2 ^ 63"
    "elsewhere_same k s s1" "statement\<^sup>*\<^sup>* s s1" "db_logs s1 = db_logs s"
    "exec_row (k, Exec_ExecutionVersion (Facts_Execution facts)) s1 = Some (Facts_Execution facts)"
    "Task_Status (Facts_Task facts) = TaskStatusPending \<or>
      Allowed (CanTaskTransition (Task_Status (Facts_Task facts)) TaskStatusPending)"
    "response = recoverSucceeded facts (Exec_ExecutionVersion (Facts_Execution facts) + 1) TaskStatusPending
       RunStatusPending (call_now c) cid"
    "out = Some (checkpointRestoredTaskLogDraft (Task_TaskID (Facts_Task facts)) (Run_RunID (Facts_Run facts))
       (Exec_ExecutionVersion (Facts_Execution facts)) (Exec_ExecutionVersion (Facts_Execution facts) + 1))"
    "insertRecoverReceipt request fp response (call_now c) s1 = Inr s'"
proof -
  define v where "v = Exec_ExecutionVersion (Facts_Execution facts)"
  define new where "new = next_version v"
  note keys = scene_keys [OF assms(2)]
  have v: "0 < v" "v < 2 ^ 63" using scene_version [OF assms(3,2)] by (simp_all add: v_def)
  obtain eid s1 s2 s3 cid x where
    valid: "ExecutionVersion_Valid new"
    and ins: "TaskExecutionRepository_Insert (recovered_execution facts eid new hash (call_now c)) s = Inr s1"
    and allowed: "Task_Status (Facts_Task facts) = TaskStatusPending \<or>
      Allowed (CanTaskTransition (Task_Status (Facts_Task facts)) TaskStatusPending)"
    and task: "TaskRepository_Update (recover_task_update facts TaskStatusPending new (call_now c)) s1 = Inr (True, s2)"
    and run: "RunRepository_Update (recover_run_update facts RunStatusPending new) s2 = Inr (True, s3)"
    and out: "response = recoverSucceeded facts new TaskStatusPending RunStatusPending (call_now c) cid"
      "out = Some (checkpointRestoredTaskLogDraft (Task_TaskID (Facts_Task facts)) (Run_RunID (Facts_Run facts)) v new)"
      "insertRecoverReceipt request fp response (call_now c) (s3\<lparr>db_other := x\<rparr>) = Inr s'"
    using assms(1)
    by (auto simp: recover_version_def Let_def recoveryTargetStates_def conditional_recover_def v_def new_def
        split: if_splits)
  have new: "new = v + 1" "v + 1 < 2 ^ 63" using next_version_valid [OF v] valid by (simp_all add: new_def)
  note sw = switch_execution [OF assms(2) ins _ task, unfolded recover_patches]
  have sc: "scene k s2 (recovered_task (call_now c) new (Facts_Task facts)) (Facts_Run facts)
      (recovered_execution facts eid new hash (call_now c))" and rest: "elsewhere_same k s s2" "statement\<^sup>*\<^sup>* s s2"
      "exec_row (k, v) s2 = Some (Facts_Execution facts)" "db_logs s2 = db_logs s"
    using sw keys by (simp_all add: recovered_execution_def v_def)
  have "scene k s3 (recovered_task (call_now c) new (Facts_Task facts)) (recovered_run (Facts_Run facts))
      (recovered_execution facts eid new hash (call_now c))" and "elsewhere_same k s2 s3"
    using run_update_scene [OF run sc] keys by (simp_all add: recover_patches)
  then show ?thesis
    using rest new out allowed update_run [OF run] update_frames(2) [OF run] other_module [of s3 x]
    by (intro that [where eid = eid and cid = cid and ?s1.0 = "s3\<lparr>db_other := x\<rparr>"])
      (auto simp: v_def exec_row_def intro: elsewhere_same_trans rtranclp.rtrancl_into_rtrancl)
qed

definition recovery_closed :: "TaskID \<Rightarrow> time \<Rightarrow> ErrorCode \<Rightarrow> TerminationFacts \<Rightarrow> 'x db \<Rightarrow> bool" where
  "recovery_closed k now code facts s \<longleftrightarrow>
     scene k s (recovery_failed_task (recovery_failure facts now code) (Facts_Task facts))
       (recovery_failed_run (recovery_failure facts now code) (Facts_Run facts))
       (recovery_failed_execution (recovery_failure facts now code) (Facts_Execution facts))"

lemma terminalizeFailure_ok:
  assumes "terminalizeFailure ports request fp facts now code reason responseCode s = Inr (response, s')"
    and "LockRecoveryFacts k s = Inr facts"
  obtains s1 where "recovery_closed k now code facts s1" "elsewhere_same k s s1" "statement\<^sup>*\<^sup>* s s1"
    "db_logs s1 = db_logs s" "\<not> TaskStatus_Terminal (Task_Status (Facts_Task facts))"
    "response = failure_response facts responseCode reason"
    "insertRecoverReceipt request fp response now s1 = Inr s'"
proof -
  let ?q = "recovery_failure facts now code"
  obtain s0 s1 where hit: "ApplyRecoveryFailure ?q s = Inr (True, s0)"
    and report: "ensurePendingReport ports (Task_TaskID (Facts_Task facts)) (Run_RunID (Facts_Run facts)) now s0 = Inr s1"
    and allowed: "Allowed (CanTaskTransition (Task_Status (Facts_Task facts)) TaskStatusFailed)"
    and out: "response = failure_response facts responseCode reason" "insertRecoverReceipt request fp response now s1 = Inr s'"
    using assms(1) by (auto simp: terminalizeFailure_def conditional_recover_def Let_def split: if_splits)
  have k: "ARF_TaskID ?q = k"
    using LockRecoveryFacts_scene [OF assms(2)] scene_keys(1) by (auto simp: recovery_failure_def)
  note closed = recovery_repository.close_locked [OF assms(2) [folded k] hit, unfolded k]
  show ?thesis
  proof (rule that [OF _ _ _ _ _ out])
    show "recovery_closed k now code facts s1" "elsewhere_same k s s1" "statement\<^sup>*\<^sup>* s s1" "db_logs s1 = db_logs s"
      using closed report_scene [OF report, of k] ensurePendingReport_frame [OF report]
      by (auto simp: recovery_closed_def intro: elsewhere_same_trans rtranclp_trans)
    show "\<not> TaskStatus_Terminal (Task_Status (Facts_Task facts))"
      using allowed by (auto simp: CanTaskTransition_def valid_simps Let_def split: if_splits)
  qed
qed

lemma recover_source_cases:
  assumes "recover_source ports c request fp facts cid h action source s = Inr ((response, out), s')"
  obtains (mismatch) current where "response = recoverConfigMismatch facts cid h current" "out = None" "cid \<noteq> ''''"
      "ExecutionConfigHash_Valid h" "current \<noteq> Exec_ExecutionConfigHash (Facts_Execution facts) \<or> current \<noteq> h"
      "insertRecoverReceipt request fp response (call_now c) s = Inr s'"
  | (recovered) "h = Exec_ExecutionConfigHash (Facts_Execution facts)"
      "recover_version ports c request fp facts CheckpointNextActionGeneratePlan source h s = Inr ((response, out), s')"
  using assms
  by (auto simp: recover_source_def Let_def split: if_splits option.splits)

lemma recover_validated_cases:
  assumes "recover_validated ports c request fp facts validated s = Inr ((response, out), s')"
    and "LockRecoveryFacts k s = Inr facts"
  obtains (other_config) cid h current where "response = recoverConfigMismatch facts cid h current" "out = None"
      "cid \<noteq> ''''" "current \<noteq> Exec_ExecutionConfigHash (Facts_Execution facts) \<or> current \<noteq> h"
      "insertRecoverReceipt request fp response (call_now c) s = Inr s'"
  | (invalid) reason s1 where "\<not> TaskStatus_Terminal (Task_Status (Facts_Task facts))"
      "ReasonCode_ValidForCheckpointInvalid reason" "recovery_closed k (call_now c) ErrorCodeCheckpointInvalid facts s1"
      "elsewhere_same k s s1" "statement\<^sup>*\<^sup>* s s1" "db_logs s1 = db_logs s"
      "response = failure_response facts ''CheckpointInvalid'' reason" "out = None"
      "insertRecoverReceipt request fp response (call_now c) s1 = Inr s'"
  | (valid) source where "recover_version ports c request fp facts CheckpointNextActionGeneratePlan source
        (Exec_ExecutionConfigHash (Facts_Execution facts)) s = Inr ((response, out), s')"
proof (cases validated)
  case (RecoveryCheckpointValid cid h action source)
  then have "recover_source ports c request fp facts cid h action source s = Inr ((response, out), s')"
    using assms(1) by (simp add: recover_validated_def)
  then show ?thesis by (cases rule: recover_source_cases) (auto intro: other_config valid)
next
  case (RecoveryCheckpointInvalid reason)
  then have r: "ReasonCode_ValidForCheckpointInvalid reason" "out = None"
      "terminalizeFailure ports request fp facts (call_now c) ErrorCodeCheckpointInvalid reason ''CheckpointInvalid'' s =
        Inr (response, s')"
    using assms(1) by (auto simp: recover_validated_def split: if_splits)
  show ?thesis
    by (rule terminalizeFailure_ok [OF r(3) assms(2)]) (rule invalid [OF _ r(1) _ _ _ _ _ r(2)])
next
  case (RecoveryCheckpointInvariantViolation cause)
  with assms(1) show ?thesis by (simp add: recover_validated_def)
qed

lemma recover_new_cases:
  assumes "recover_new ports c request fp s = Inr ((response, out), s')" and "schema_ok s"
  obtains (rejected) facts where "LockRecoveryFacts (RTR_TaskID request) s = Inr facts"
      "response = recoverRejected facts ''RecoverStateConflict'' (ReasonCodeOther '''')" "out = None"
      "TaskStatus_Terminal (Task_Status (Facts_Task facts)) \<or> call_now c < Task_DeadlineAt (Facts_Task facts) \<and>
        recoveryPhase facts = Inl ErrRecoverStateConflict"
      "insertRecoverReceipt request fp response (call_now c) s = Inr s'"
  | (mismatch) facts cid h current where "LockRecoveryFacts (RTR_TaskID request) s = Inr facts"
      "response = recoverConfigMismatch facts cid h current" "out = None" "cid \<noteq> ''''"
      "current \<noteq> Exec_ExecutionConfigHash (Facts_Execution facts) \<or> current \<noteq> h"
      "insertRecoverReceipt request fp response (call_now c) s = Inr s'"
  | (closed) facts code label reason s1 where "LockRecoveryFacts (RTR_TaskID request) s = Inr facts"
      "\<not> TaskStatus_Terminal (Task_Status (Facts_Task facts))"
      "code = ErrorCodeTaskTimeout \<and> label = ''TaskTimeout'' \<and> reason = ReasonCodeOther '''' \<and>
         Task_DeadlineAt (Facts_Task facts) \<le> call_now c \<or>
       code = ErrorCodeCheckpointInvalid \<and> label = ''CheckpointInvalid'' \<and>
         ReasonCode_ValidForCheckpointInvalid reason \<and> call_now c < Task_DeadlineAt (Facts_Task facts)"
      "recovery_closed (RTR_TaskID request) (call_now c) code facts s1" "elsewhere_same (RTR_TaskID request) s s1"
      "statement\<^sup>*\<^sup>* s s1" "db_logs s1 = db_logs s" "response = failure_response facts label reason" "out = None"
      "insertRecoverReceipt request fp response (call_now c) s1 = Inr s'"
  | (recovered) facts phase source where "LockRecoveryFacts (RTR_TaskID request) s = Inr facts"
      "call_now c < Task_DeadlineAt (Facts_Task facts)" "recoveryPhase facts = Inr phase"
      "recover_version ports c request fp facts CheckpointNextActionGeneratePlan source
        (Exec_ExecutionConfigHash (Facts_Execution facts)) s = Inr ((response, out), s')"
proof -
  obtain facts where f: "LockRecoveryFacts (RTR_TaskID request) s = Inr facts"
    using assms(1) by (auto simp: recover_new_def)
  note work = assms(1) [unfolded recover_new_def f attempt_Inr Let_def]
  show ?thesis
  proof (cases "TaskStatus_Terminal (Task_Status (Facts_Task facts))")
    case True
    with work show ?thesis by (intro rejected [OF f]) auto
  next
    case live: False
    show ?thesis
    proof (cases "call_now c < Task_DeadlineAt (Facts_Task facts)")
      case False
      with work live have "terminalizeFailure ports request fp facts (call_now c) ErrorCodeTaskTimeout (ReasonCodeOther '''')
          ''TaskTimeout'' s = Inr (response, s')" and "out = None" by auto
      from this(1) f show ?thesis
      proof (rule terminalizeFailure_ok)
        fix s1
        assume s1: "recovery_closed (RTR_TaskID request) (call_now c) ErrorCodeTaskTimeout facts s1"
          "elsewhere_same (RTR_TaskID request) s s1" "statement\<^sup>*\<^sup>* s s1" "db_logs s1 = db_logs s"
          "response = failure_response facts ''TaskTimeout'' (ReasonCodeOther '''')"
          "insertRecoverReceipt request fp response (call_now c) s1 = Inr s'"
        show ?thesis by (rule closed [OF f live _ s1(1-5) \<open>out = None\<close> s1(6)]) (use False in simp)
      qed
    next
      case early: True
      show ?thesis
      proof (cases "recoveryPhase facts")
        case (Inl err)
        moreover from this have "err = ErrRecoverStateConflict"
          by (auto simp: recoveryPhase_def Let_def split: if_splits option.splits)
        ultimately show ?thesis using work live early by (intro rejected [OF f]) auto
      next
        case (Inr phase)
        with work live early obtain validated
          where "recover_validated ports c request fp facts validated s = Inr ((response, out), s')" by auto
        from this f show ?thesis
        proof (cases rule: recover_validated_cases)
          case (other_config cid h current)
          then show ?thesis by (rule mismatch [OF f])
        next
          case (invalid reason s1)
          show ?thesis by (rule closed [OF f live _ invalid(3-9)]) (use early invalid(2) in simp)
        next
          case (valid source)
          then show ?thesis by (rule recovered [OF f early Inr])
        qed
      qed
    qed
  qed
qed

subsection \<open>The receipt round trip\<close>

definition reread_recover :: "recoverReceiptResponse \<Rightarrow> recoverReceiptResponse" where
  "reread_recover r = r\<lparr>VRR_TaskStatus := TaskStatus_of (TaskStatus_text (VRR_TaskStatus r)),
     VRR_RunStatus := RunStatus_of (RunStatus_text (VRR_RunStatus r)),
     VRR_ExecutionStatus := TaskExecutionStatus_of (TaskExecutionStatus_text (VRR_ExecutionStatus r)),
     VRR_ReasonCode := ReasonCode_of (ReasonCode_text (VRR_ReasonCode r))\<rparr>"

definition int64 :: "int \<Rightarrow> bool" where
  "int64 v \<longleftrightarrow> - (2 ^ 63) \<le> v \<and> v < 2 ^ 63"

lemma recover_response_read:
  assumes "int64 (VRR_SourceExecutionVersion r)" and "int64 (VRR_NewExecutionVersion r)"
  shows "decode_recover_response (encode_recover_response r) = Some (reread_recover r)"
  using assms
  by (cases r) (simp add: decode_recover_response_def decode_recover_members_def encode_recover_response_def
      reread_recover_def int64_def)

lemma reread_rejected:
  assumes "VRR_Outcome r \<noteq> ''Recovered''"
    and "ReasonCode_ValidForCheckpointInvalid (VRR_ReasonCode r) \<or> VRR_ErrorCode r \<noteq> ''CheckpointInvalid''"
  shows "recover_result (reread_recover r) = recover_result r"
  using assms by (simp add: reread_recover_def recover_result_def validateRecoverReceipt_def) auto

lemma reread_recover_results:
  "recover_result (reread_recover (recoverRejected facts ''RecoverStateConflict'' reason)) =
     recover_result (recoverRejected facts ''RecoverStateConflict'' reason)"
  "recover_result (reread_recover (recoverConfigMismatch facts cid h current)) =
     recover_result (recoverConfigMismatch facts cid h current)"
  "ReasonCode_ValidForCheckpointInvalid reason \<or> label = ''TaskTimeout'' \<Longrightarrow>
   recover_result (reread_recover (failure_response facts label reason)) =
     recover_result (failure_response facts label reason)"
  by (rule reread_rejected, auto simp: recoverRejected_def recoverConfigMismatch_def failure_response_def)+

lemma reread_recover_succeeded:
  "reread_recover (recoverSucceeded facts v TaskStatusPending RunStatusPending now cid) =
     recoverSucceeded facts v TaskStatusPending RunStatusPending now cid"
  using TaskStatus_text_of [of TaskStatusPending] RunStatus_text_of [of RunStatusPending]
    TaskExecutionStatus_text_of [of TaskExecutionStatusQueued]
  by (simp add: reread_recover_def recoverSucceeded_def empty_recover_response_def valid_simps ReasonCode_of_def)

lemma LockRecoveryFacts_sceneD:
  "LockRecoveryFacts k s = Inr f \<Longrightarrow> scene k s (Facts_Task f) (Facts_Run f) (Facts_Execution f)"
  using LockRecoveryFacts_scene by blast

lemma recover_new_stored:
  assumes "recover_new ports c request fp s = Inr ((response, out), s')" and "schema_ok s"
  shows "receipt_row (RTR_CommandID request) s' = Some (recover_receipt request fp response (call_now c))"
    and "decode_recover_response (encode_recover_response response) = Some (reread_recover response)"
    and "recover_result (reread_recover response) = recover_result response"
proof -
  have v: "int64 (Exec_ExecutionVersion (Facts_Execution facts))" if "LockRecoveryFacts (RTR_TaskID request) s = Inr facts" for facts
    using scene_version [OF assms(2) LockRecoveryFacts_sceneD [OF that]] by (simp add: int64_def)
  have "receipt_row (RTR_CommandID request) s' = Some (recover_receipt request fp response (call_now c)) \<and>
    decode_recover_response (encode_recover_response response) = Some (reread_recover response) \<and>
    recover_result (reread_recover response) = recover_result response"
    using assms
  proof (cases rule: recover_new_cases)
    case (rejected facts)
    show ?thesis
      unfolding rejected(2) reread_recover_results insertRecoverReceipt_scene(4) [OF rejected(5), unfolded rejected(2)]
      using v [OF rejected(1)]
      by (simp add: recover_response_read recoverRejected_def empty_recover_response_def int64_def)
  next
    case (mismatch facts cid h current)
    show ?thesis
      unfolding mismatch(2) reread_recover_results insertRecoverReceipt_scene(4) [OF mismatch(6), unfolded mismatch(2)]
      using v [OF mismatch(1)]
      by (simp add: recover_response_read recoverConfigMismatch_def recoverRejected_def empty_recover_response_def int64_def)
  next
    case (closed facts code label reason s1)
    have "recover_result (reread_recover response) = recover_result response"
      unfolding closed(8) by (rule reread_recover_results) (use closed(3) in blast)
    moreover have "decode_recover_response (encode_recover_response response) = Some (reread_recover response)"
      using v [OF closed(1)] unfolding closed(8)
      by (simp add: recover_response_read failure_response_def recoverRejected_def empty_recover_response_def int64_def)
    ultimately show ?thesis using insertRecoverReceipt_scene(4) [OF closed(10)] by blast
  next
    case (recovered facts phase source)
    have sc: "scene (RTR_TaskID request) s (Facts_Task facts) (Facts_Run facts) (Facts_Execution facts)"
      by (rule LockRecoveryFacts_sceneD [OF recovered(1)])
    from recovered(4) sc assms(2) show ?thesis
    proof (rule recover_version_ok)
      fix cid s1
      assume b: "Exec_ExecutionVersion (Facts_Execution facts) + 1 < 2 ^ 63"
        and r: "response = recoverSucceeded facts (Exec_ExecutionVersion (Facts_Execution facts) + 1) TaskStatusPending
          RunStatusPending (call_now c) cid"
        and i: "insertRecoverReceipt request fp response (call_now c) s1 = Inr s'"
      have "decode_recover_response (encode_recover_response response) = Some (reread_recover response)"
        using v [OF recovered(1)] b unfolding r
        by (simp add: recover_response_read recoverSucceeded_def empty_recover_response_def int64_def)
      moreover have "reread_recover response = response" unfolding r by (rule reread_recover_succeeded)
      ultimately show ?thesis using insertRecoverReceipt_scene(4) [OF i] by simp
    qed
  qed
  then show "receipt_row (RTR_CommandID request) s' = Some (recover_receipt request fp response (call_now c))"
    "decode_recover_response (encode_recover_response response) = Some (reread_recover response)"
    "recover_result (reread_recover response) = recover_result response" by blast+
qed

subsection \<open>The database stays sound\<close>

lemma recovery_failed_scene_ok:
  "scene_ok t r e \<Longrightarrow> scene_ok (recovery_failed_task q t) (recovery_failed_run q r) (recovery_failed_execution q e)"
  by (auto simp: scene_ok_def recovery_failed_task_def recovery_failed_run_def recovery_failed_execution_def)

lemma recovered_scene_ok:
  "scene_ok t r e \<Longrightarrow> now \<noteq> 0 \<Longrightarrow> scene_ok (recovered_task now v t) (recovered_run r) (recovered_execution facts eid v h now)"
  by (auto simp: scene_ok_def recovered_task_def recovered_run_def recovered_execution_def)

lemma scene_step_inv:
  assumes "runtime_inv s" and "scene k s t r e" and "scene k s' t' r' e'" and "elsewhere_same k s s'"
    and "statement\<^sup>*\<^sup>* s s'" and "scene_ok t r e \<Longrightarrow> scene_ok t' r' e'"
  shows "runtime_inv s'"
proof (rule runtime_invI)
  show "schema_ok s'" using assms(1,5) schema_statements by (auto simp: runtime_inv_def)
  have "scene_ok t r e" using assms(1,2) by (auto simp: runtime_inv_def intro: scenes_okD)
  then show "scenes_ok s'" using scenes_ok_step [OF _ assms(4,3)] assms(1,6) by (auto simp: runtime_inv_def)
qed

lemma recover_new_inv:
  assumes "recover_new ports c request fp s = Inr ((response, out), s')" and "runtime_inv s" and "call_now c \<noteq> 0"
  shows "runtime_inv s'"
proof -
  have schema: "schema_ok s" using assms(2) by (simp add: runtime_inv_def)
  from assms(1) schema show ?thesis
  proof (cases rule: recover_new_cases)
    case (closed facts code label reason s1)
    have "runtime_inv s1"
      by (rule scene_step_inv [OF assms(2) LockRecoveryFacts_sceneD [OF closed(1)] closed(4) [unfolded recovery_closed_def]
            closed(5,6) recovery_failed_scene_ok])
    then show ?thesis using insertRecoverReceipt_scene(5) [OF closed(10)] by blast
  next
    case (recovered facts phase source)
    note sc = LockRecoveryFacts_sceneD [OF recovered(1)]
    from recovered(4) sc schema show ?thesis
    proof (rule recover_version_ok)
      fix eid s1
      assume st: "scene (RTR_TaskID request) s1
          (recovered_task (call_now c) (Exec_ExecutionVersion (Facts_Execution facts) + 1) (Facts_Task facts))
          (recovered_run (Facts_Run facts)) (recovered_execution facts eid (Exec_ExecutionVersion (Facts_Execution facts) + 1)
            (Exec_ExecutionConfigHash (Facts_Execution facts)) (call_now c))"
        "elsewhere_same (RTR_TaskID request) s s1" "statement\<^sup>*\<^sup>* s s1"
        and i: "insertRecoverReceipt request fp response (call_now c) s1 = Inr s'"
      have "runtime_inv s1"
        by (rule scene_step_inv [OF assms(2) sc st]) (rule recovered_scene_ok [OF _ assms(3)])
      then show ?thesis using insertRecoverReceipt_scene(5) [OF i] by blast
    qed
  qed (use assms(2) insertRecoverReceipt_scene(5) in blast)+
qed

subsection \<open>RecoverTask is a command with receipts\<close>

definition after_recover :: "Call \<Rightarrow> taskLogDraft option \<Rightarrow> 'x db \<Rightarrow> 'x db" where
  "after_recover c out s = (case out of None \<Rightarrow> s | Some draft \<Rightarrow> appendTaskLogBestEffort (call_log c) draft s)"

lemma after_recover_db [simp]:
  "scene k (after_recover c out s) t r e = scene k s t r e" "receipt_row q (after_recover c out s) = receipt_row q s"
  "others_same k s0 (after_recover c out s) = others_same k s0 s" "exec_row p (after_recover c out s) = exec_row p s"
  "runtime_inv s \<Longrightarrow> runtime_inv (after_recover c out s)"
  by (simp_all add: after_recover_def others_same_def runtime_inv_log split: option.splits)

lemma RecoverTask_cases:
  assumes "RecoverTask ports c request (s, reg) = (res, sr)"
  obtains (failed) err where "res = Inl err" "sr = (s, reg)"
  | (finished) fp response out s1 where "recoverRequestFingerprint (json_digest ports) request = Inr fp"
      "call_fault c = None" "deferred_ok s1" "recover_work ports c request fp s = Inr ((response, out), s1)"
      "res = recover_result response" "sr = (after_recover c out s1, reg)"
proof (cases "recoverRequestFingerprint (json_digest ports) request")
  case (Inl e)
  with assms show ?thesis by (intro failed) (auto simp: RecoverTask_def)
next
  case (Inr fp)
  obtain m s1 where ex: "Execute (call_fault c) (recover_work ports c request fp) s = (m, s1)" by fastforce
  then show ?thesis
  proof (cases rule: Execute_cases)
    case (rolled_back err)
    with assms Inr ex show ?thesis by (intro failed) (auto simp: RecoverTask_def)
  next
    case (committed a)
    obtain response out where a: "a = (response, out)" by (cases a)
    from committed assms Inr ex show ?thesis
      by (intro finished [OF Inr, of s1 response out])
        (auto simp: RecoverTask_def a after_recover_def split: option.splits)
  qed
qed

lemma RecoverTask_inv:
  assumes "runtime_inv (fst sr)" and "call_now c \<noteq> 0"
  shows "runtime_inv (fst (snd (RecoverTask ports c request sr)))"
proof -
  obtain s reg res sr' where sr: "sr = (s, reg)" "RecoverTask ports c request (s, reg) = (res, sr')"
    by (cases sr, cases "RecoverTask ports c request sr") auto
  from sr(2) show ?thesis
  proof (cases rule: RecoverTask_cases)
    case (failed err)
    with sr assms show ?thesis by simp
  next
    case (finished fp response out s1)
    from finished(4) [unfolded recover_work_def] have "runtime_inv s1"
      by (rule replay_or_ok) (use assms sr recover_new_inv in auto)
    with finished sr show ?thesis by simp
  qed
qed

definition recover_replay :: "(json \<Rightarrow> string) \<Rightarrow> RecoverTaskRequest \<Rightarrow> CommandReceipt \<Rightarrow> GoError + TaskRecovered" where
  "recover_replay digest request stored =
    attempt (recoverRequestFingerprint digest request) (\<lambda>fp.
      receipt_answer CommandTypeRecover (RTR_TaskID request) decode_recover_response recover_result fp stored)"

lemma RecoverTask_replay:
  assumes "receipt_row (RTR_CommandID request) s = Some stored" and "call_fault c = None" and "deferred_ok s"
  shows "RecoverTask ports c request (s, reg) = (recover_replay (json_digest ports) request stored, (s, reg))"
proof (cases "recoverRequestFingerprint (json_digest ports) request")
  case (Inl e)
  then show ?thesis by (simp add: RecoverTask_def recover_replay_def)
next
  case (Inr fp)
  have answer: "(case Execute None (recover_work ports c request fp) s of
      (Inl e, s') \<Rightarrow> (Inl e, None, s') | (Inr (response, out), s') \<Rightarrow> (recover_result response, Some out, s')) =
    (receipt_answer CommandTypeRecover (RTR_TaskID request) decode_recover_response recover_result fp stored,
     case receipt_answer CommandTypeRecover (RTR_TaskID request) decode_recover_response validateRecoverReceipt fp stored of
       Inl _ \<Rightarrow> None | Inr _ \<Rightarrow> Some None, s)"
    unfolding recover_work_def
    by (rule replay_or_answer [OF assms(1,3)]) (simp add: recover_result_def)
  obtain m s1 where ex: "Execute None (recover_work ports c request fp) s = (m, s1)" by fastforce
  show ?thesis
  proof (cases m)
    case (Inl e)
    with ex answer \<open>recoverRequestFingerprint _ _ = _\<close> assms(2) show ?thesis
      by (simp add: RecoverTask_def recover_replay_def)
  next
    case (Inr a)
    then obtain response out where "m = Inr (response, out)" by (cases a) auto
    with ex answer \<open>recoverRequestFingerprint _ _ = _\<close> assms(2) show ?thesis
      by (auto simp: RecoverTask_def recover_replay_def split: sum.splits)
  qed
qed

definition recover_ready :: "'x Ports \<times> Call \<Rightarrow> 'x db \<times> Registry \<Rightarrow> bool" where
  "recover_ready c sr \<longleftrightarrow> call_fault (snd c) = None \<and> deferred_ok (fst sr) \<and> schema_ok (fst sr)"

definition RecoverTask_in :: "(json \<Rightarrow> string) \<Rightarrow> 'x Ports \<times> Call \<Rightarrow> RecoverTaskRequest \<Rightarrow> 'x db \<times> Registry \<Rightarrow>
    (GoError + TaskRecovered) \<times> ('x db \<times> Registry)" where
  "RecoverTask_in digest c request sr = RecoverTask ((fst c)\<lparr>json_digest := digest\<rparr>) (snd c) request sr"

interpretation recover_command: receipted_command "RecoverTask_in digest" RTR_CommandID
  "\<lambda>k sr. receipt_row k (fst sr)" "recover_replay digest" recover_ready "\<lambda>sr sr'. statement\<^sup>*\<^sup>* (fst sr) (fst sr')"
  for digest :: "json \<Rightarrow> string"
proof unfold_locales
  fix q and c :: "'x Ports \<times> Call" and sr sr' :: "'x db \<times> Registry" and res rc
  obtain s reg s' reg' where sr: "sr = (s, reg)" "sr' = (s', reg')" by (cases sr, cases sr')
  show "receipt_row (RTR_CommandID q) (fst sr) = Some rc \<Longrightarrow> recover_ready c sr \<Longrightarrow>
      RecoverTask_in digest c q sr = (recover_replay digest q rc, sr)"
    using RecoverTask_replay [of q s rc "snd c" "(fst c)\<lparr>json_digest := digest\<rparr>" reg]
    by (simp add: recover_ready_def RecoverTask_in_def sr)
  assume ready: "recover_ready c sr" and call: "RecoverTask_in digest c q sr = (res, sr')"
    and none: "receipt_row (RTR_CommandID q) (fst sr) = None" and rc: "receipt_row (RTR_CommandID q) (fst sr') = Some rc"
  from call [unfolded RecoverTask_in_def sr] show "recover_replay digest q rc = res"
  proof (cases rule: RecoverTask_cases)
    case (failed err)
    with none rc sr show ?thesis by simp
  next
    case (finished fp response out s1)
    then have new: "recover_new ((fst c)\<lparr>json_digest := digest\<rparr>) (snd c) q fp s = Inr ((response, out), s1)"
      using none by (simp add: recover_work_def sr)
    have "schema_ok s" using ready by (simp add: recover_ready_def sr)
    note stored = recover_new_stored [OF new this]
    have "rc = recover_receipt q fp response (call_now (snd c))" using rc stored(1) finished(6) sr by simp
    then show ?thesis
      using finished(1,5) stored(2,3)
      by (simp add: recover_replay_def receipt_answer_def recover_receipt_def)
  qed
qed (rule receipt_later)

subsection \<open>What RecoverTask does\<close>

text \<open>An interrupted scene in which recovery is possible at all.\<close>

lemma recoveryPhase_ok:
  assumes "recoveryPhase facts = Inr phase"
  shows "Exec_Status (Facts_Execution facts) = TaskExecutionStatusInterrupted"
    "Task_Status (Facts_Task facts) \<in> {TaskStatusRunning, TaskStatusInterrupted}"
    "Run_Status (Facts_Run facts) \<in> {RunStatusPending, RunStatusRunning}"
  using assms by (auto simp: recoveryPhase_def Let_def split: if_splits option.splits)

lemma pending_only_from_interrupted:
  "Task_Status t \<in> {TaskStatusRunning, TaskStatusInterrupted} \<Longrightarrow>
   Task_Status t = TaskStatusPending \<or> Allowed (CanTaskTransition (Task_Status t) TaskStatusPending) \<Longrightarrow>
   Task_Status t = TaskStatusInterrupted"
  by (auto simp: CanTaskTransition_def valid_simps Let_def split: if_splits)

lemma recover_results:
  "recover_result (recoverRejected facts ''RecoverStateConflict'' reason) = Inl ErrRecoverStateConflict \<or>
   recover_result (recoverRejected facts ''RecoverStateConflict'' reason) = Inl ErrPersistenceInvariantViolation"
  "recover_result (recoverConfigMismatch facts cid h current) = Inl ErrRecoverConfigMismatch \<or>
   recover_result (recoverConfigMismatch facts cid h current) = Inl ErrPersistenceInvariantViolation"
  "recover_result (failure_response facts ''TaskTimeout'' reason) = Inl ErrTaskTimedOut \<or>
   recover_result (failure_response facts ''TaskTimeout'' reason) = Inl ErrPersistenceInvariantViolation"
  "recover_result (failure_response facts ''CheckpointInvalid'' reason) = Inl ErrRecoverCheckpointInvalid \<or>
   recover_result (failure_response facts ''CheckpointInvalid'' reason) = Inl ErrPersistenceInvariantViolation"
  by (auto simp: recover_result_def validateRecoverReceipt_def recoverRejected_def failure_response_def
      recoverConfigMismatch_def empty_recover_response_def)

lemma recover_succeeded_result:
  "recover_result (recoverSucceeded facts v st rst now cid) = Inl ErrPersistenceInvariantViolation \<or>
   recover_result (recoverSucceeded facts v st rst now cid) =
     Inr \<lparr>TRV_TaskID = Task_TaskID (Facts_Task facts), TRV_RunID = Run_RunID (Facts_Run facts),
       TRV_SourceExecutionVersion = Exec_ExecutionVersion (Facts_Execution facts), TRV_NewExecutionVersion = v,
       TRV_TaskStatus = st, TRV_RunStatus = rst, TRV_ExecutionStatus = TaskExecutionStatusQueued,
       TRV_QueuedAt = now, TRV_RecoveryCheckpointID = cid\<rparr>"
  by (auto simp: recover_result_def validateRecoverReceipt_def recoverSucceeded_def empty_recover_response_def)

text \<open>
  C19: What a RecoverTask command does to its task, by its answer. Recovered: the task was Interrupted
  with an interrupted execution and time left; the next version, one higher and still an \<open>int64\<close>, is
  queued now under the hash of the old one, Task and Run are Pending again, and the old execution is
  kept as it was. Timed out and checkpoint invalid: the scene is closed as Failed. State conflict and
  configuration mismatch: the scene is as before. No other task changes and the database stays sound.
\<close>

theorem recover_task_outcome:
  assumes "RecoverTask ports c request (s, reg) = (res, (s', reg'))"
    and "receipt_row (RTR_CommandID request) s = None" and "receipt_row (RTR_CommandID request) s' \<noteq> None"
    and "runtime_inv s" and "call_now c \<noteq> 0"
  shows "\<exists>facts. let k = RTR_TaskID request; t = Facts_Task facts; r = Facts_Run facts; e = Facts_Execution facts;
      v = Exec_ExecutionVersion e; now = call_now c in
    scene k s t r e \<and> others_same k s s' \<and> runtime_inv s' \<and>
    (case res of
       Inr a \<Rightarrow> now < Task_DeadlineAt t \<and> Task_Status t = TaskStatusInterrupted \<and>
         Exec_Status e = TaskExecutionStatusInterrupted \<and> TRV_SourceExecutionVersion a = v \<and>
         TRV_NewExecutionVersion a = v + 1 \<and> v + 1 < 2 ^ 63 \<and> TRV_QueuedAt a = now \<and>
         exec_row (k, v) s' = Some e \<and>
         (\<exists>eid. scene k s' (recovered_task now (v + 1) t) (recovered_run r)
            (recovered_execution facts eid (v + 1) (Exec_ExecutionConfigHash e) now))
     | Inl ErrTaskTimedOut \<Rightarrow> Task_DeadlineAt t \<le> now \<and> recovery_closed k now ErrorCodeTaskTimeout facts s'
     | Inl ErrRecoverCheckpointInvalid \<Rightarrow>
         now < Task_DeadlineAt t \<and> recovery_closed k now ErrorCodeCheckpointInvalid facts s'
     | Inl ErrRecoverStateConflict \<Rightarrow> scene k s' t r e
     | Inl ErrRecoverConfigMismatch \<Rightarrow> scene k s' t r e
     | Inl _ \<Rightarrow> True)"
proof -
  let ?k = "RTR_TaskID request" and ?now = "call_now c"
  have schema: "schema_ok s" using assms(4) by (simp add: runtime_inv_def)
  from assms(1) obtain fp response out s1 where fin: "recover_work ports c request fp s = Inr ((response, out), s1)"
      "res = recover_result response" "s' = after_recover c out s1"
    using assms(2,3) by (cases rule: RecoverTask_cases) auto
  have new: "recover_new ports c request fp s = Inr ((response, out), s1)"
    using fin(1) assms(2) by (simp add: recover_work_def)
  have inv: "runtime_inv s'" using recover_new_inv [OF new assms(4,5)] fin(3) by simp
  from new schema show ?thesis
  proof (cases rule: recover_new_cases)
    case (rejected facts)
    note i = insertRecoverReceipt_scene(1,2) [OF rejected(5)]
    from recover_results(1) [of facts "ReasonCodeOther ''''"] show ?thesis
      unfolding rejected(2) [symmetric] fin(2) [symmetric]
      using LockRecoveryFacts_sceneD [OF rejected(1)] i inv fin(3)
      by (elim disjE; intro exI [of _ facts]) (simp_all add: Let_def)
  next
    case (mismatch facts cid h current)
    note i = insertRecoverReceipt_scene(1,2) [OF mismatch(6)]
    from recover_results(2) [of facts cid h current] show ?thesis
      unfolding mismatch(2) [symmetric] fin(2) [symmetric]
      using LockRecoveryFacts_sceneD [OF mismatch(1)] i inv fin(3)
      by (elim disjE; intro exI [of _ facts]) (simp_all add: Let_def)
  next
    case (closed facts code label reason s2)
    note i = insertRecoverReceipt_scene(1,2) [OF closed(10)]
    have "others_same ?k s s1" using elsewhere_others [OF closed(5)] i(2) others_same_trans by blast
    moreover have "recovery_closed ?k ?now code facts s'"
      using closed(4) i(1) fin(3) by (simp add: recovery_closed_def)
    moreover have "res = Inl ErrPersistenceInvariantViolation \<or>
        res = Inl ErrTaskTimedOut \<and> code = ErrorCodeTaskTimeout \<and> Task_DeadlineAt (Facts_Task facts) \<le> ?now \<or>
        res = Inl ErrRecoverCheckpointInvalid \<and> code = ErrorCodeCheckpointInvalid \<and> ?now < Task_DeadlineAt (Facts_Task facts)"
      using closed(3,8) fin(2) recover_results(3,4) [of facts reason] by auto
    ultimately show ?thesis
      using LockRecoveryFacts_sceneD [OF closed(1)] inv fin(3)
      by (elim disjE; intro exI [of _ facts]) (simp_all add: Let_def)
  next
    case (recovered facts phase source)
    note sc = LockRecoveryFacts_sceneD [OF recovered(1)]
    from recovered(4) sc schema show ?thesis
    proof (rule recover_version_ok)
      fix eid cid s2
      let ?v = "Exec_ExecutionVersion (Facts_Execution facts)"
      assume n: "scene ?k s2 (recovered_task ?now (?v + 1) (Facts_Task facts)) (recovered_run (Facts_Run facts))
            (recovered_execution facts eid (?v + 1) (Exec_ExecutionConfigHash (Facts_Execution facts)) ?now)"
          "?v + 1 < 2 ^ 63" "elsewhere_same ?k s s2" "exec_row (?k, ?v) s2 = Some (Facts_Execution facts)"
          "Task_Status (Facts_Task facts) = TaskStatusPending \<or>
            Allowed (CanTaskTransition (Task_Status (Facts_Task facts)) TaskStatusPending)"
          "response = recoverSucceeded facts (?v + 1) TaskStatusPending RunStatusPending ?now cid"
        and i: "insertRecoverReceipt request fp response ?now s2 = Inr s1"
      note j = insertRecoverReceipt_scene(1,2,6) [OF i]
      have "others_same ?k s s1" using elsewhere_others [OF n(3)] j(2) others_same_trans by blast
      moreover have "Task_Status (Facts_Task facts) = TaskStatusInterrupted"
        by (rule pending_only_from_interrupted [OF recoveryPhase_ok(2) [OF recovered(3)] n(5)])
      ultimately show ?thesis
        using sc inv fin(3) n(1,2,4) j(1,3) recovered(2) recoveryPhase_ok(1) [OF recovered(3)]
          recover_succeeded_result [of facts "?v + 1" TaskStatusPending RunStatusPending ?now cid, folded n(6) fin(2)]
        by (elim disjE; intro exI [of _ facts]) (auto simp: Let_def)
    qed
  qed
qed

text \<open>
  C20: RecoverTask is idempotent. Once a call on a sound database has left a receipt for its command,
  the same request gives the same answer and queues nothing again, after any further statements and
  whatever the clock, the configuration and the checkpoints have become.
\<close>

theorem recover_task_is_idempotent:
  assumes "RecoverTask ports c request sr = (res, sr1)" and "call_fault c = None" and "runtime_inv (fst sr)"
    and "receipt_row (RTR_CommandID request) (fst sr1) \<noteq> None"
    and "statement\<^sup>*\<^sup>* (fst sr1) (fst sr2)" and "runtime_inv (fst sr2)"
    and "json_digest ports' = json_digest ports" and "call_fault c' = None"
  shows "RecoverTask ports' c' request sr2 = (res, sr2)"
proof -
  have "ports\<lparr>json_digest := json_digest ports\<rparr> = ports" "ports'\<lparr>json_digest := json_digest ports\<rparr> = ports'"
    using assms(7) by (cases ports; cases ports'; simp)+
  note eq = this
  show ?thesis
    using recover_command.idempotent [of "json_digest ports" "(ports, c)" request sr res sr1 sr2 "(ports', c')",
        unfolded RecoverTask_in_def fst_conv snd_conv eq] assms
    by (simp add: recover_ready_def runtime_inv_def)
qed

text \<open>
  A task whose execution was interrupted by the death of its worker while the Task itself is still Running, in time,
  under an unchanged configuration and with a valid checkpoint that asks for a plan: the recovery ends at the lifecycle
  check.
\<close>

definition recovery_request :: "Task \<Rightarrow> Run \<Rightarrow> TaskExecution \<Rightarrow> ValidateRecoveryCheckpointRequest" where
  "recovery_request t r e =
    \<lparr>VR_TaskID = Task_TaskID t, VR_RunID = Run_RunID r, VR_SourceExecutionVersion = Exec_ExecutionVersion e,
     VR_Phase = RecoverySourceStartedExecution\<rparr>"

definition plain_facts :: "Task \<Rightarrow> Run \<Rightarrow> TaskExecution \<Rightarrow> TerminationFacts" where
  "plain_facts t r e =
    \<lparr>Facts_Task = t, Facts_Run = r, Facts_Execution = e, Facts_Step = None, Facts_ToolExecution = None\<rparr>"

lemma running_recover_new:
  assumes "runtime_inv s" and "scene (RTR_TaskID request) s t r e"
    and "Task_Status t = TaskStatusRunning" and "Run_Status r = RunStatusRunning"
    and "Exec_Status e = TaskExecutionStatusInterrupted" and "Exec_ErrorCode e = Some ErrorCodeWorkerInterrupted"
    and "call_now c < Task_DeadlineAt t"
    and "LookupAgent ports (Task_AgentID t) = Some agent" and "agent_enabled agent"
    and "HashExecutionConfigV1 ports (ARC_ExecutionConfig agent) = Inr (Exec_ExecutionConfigHash e)"
    and "ValidateRecoverySource ports (recovery_request t r e) s =
      Inr (RecoveryCheckpointValid cid (Exec_ExecutionConfigHash e) CheckpointNextActionGeneratePlan (Some source))"
    and "cid \<noteq> ''''"
  shows "recover_new ports c request fp s = recover_version ports c request fp (plain_facts t r e)
    CheckpointNextActionGeneratePlan (Some source) (Exec_ExecutionConfigHash e) s"
proof -
  let ?f = "plain_facts t r e"
  have schema: "schema_ok s" and ok: "scene_ok t r e"
    using assms(1,2) by (auto simp: runtime_inv_def intro: scenes_okD)
  have lock: "LockRecoveryFacts (RTR_TaskID request) s = Inr ?f"
    unfolding plain_facts_def by (rule LockRecoveryFacts_ok [OF schema assms(2)])
  have phase: "recoveryPhase ?f = Inr RecoverySourceStartedExecution"
    using ok assms(3-6) scene_keys [OF assms(2)]
    by (auto simp: recoveryPhase_def plain_facts_def Let_def scene_ok_def valid_simps)
  have "ExecutionConfigHash_Valid (Exec_ExecutionConfigHash e)"
    using scene_checks(3) [OF schema assms(2)] by (simp add: TaskExecution_check_def ExecutionConfigHash_Valid_def)
  then have "recover_source ports c request fp ?f cid (Exec_ExecutionConfigHash e) CheckpointNextActionGeneratePlan
      (Some source) s = recover_version ports c request fp ?f CheckpointNextActionGeneratePlan (Some source)
      (Exec_ExecutionConfigHash e) s"
    using assms(8-10,12) by (simp add: recover_source_def plain_facts_def valid_simps)
  then show ?thesis
    using assms(3,7,11) phase lock
    by (simp add: recover_new_def recover_validated_def Let_def recovery_request_def plain_facts_def valid_simps)
qed

lemma running_recover_version:
  assumes "Task_Status t = TaskStatusRunning"
    and "ExecutionVersion_Valid (next_version (Exec_ExecutionVersion e))" and "call_newID c ''execution'' = Inr eid"
    and "TaskExecutionRepository_Insert (recovered_execution (plain_facts t r e) eid
      (next_version (Exec_ExecutionVersion e)) h (call_now c)) s = Inr s1"
  shows "recover_version ports c request fp (plain_facts t r e) CheckpointNextActionGeneratePlan source h s =
    Inl (ErrLifecycle ''validate Recover Task lifecycle'' (Reason (CanTaskTransition TaskStatusRunning TaskStatusPending)))"
proof -
  have "\<not> Allowed (CanTaskTransition TaskStatusRunning TaskStatusPending)" by code_simp
  then show ?thesis
    using assms by (simp add: recover_version_def recoveryTargetStates_def plain_facts_def Let_def)
qed

lemma running_task_recovery:
  assumes "runtime_inv s" and "scene (RTR_TaskID request) s t r e"
    and "Task_Status t = TaskStatusRunning" and "Run_Status r = RunStatusRunning"
    and "Exec_Status e = TaskExecutionStatusInterrupted" and "Exec_ErrorCode e = Some ErrorCodeWorkerInterrupted"
    and "call_now c < Task_DeadlineAt t" and "receipt_row (RTR_CommandID request) s = None"
    and "LookupAgent ports (Task_AgentID t) = Some agent" and "agent_enabled agent"
    and "HashExecutionConfigV1 ports (ARC_ExecutionConfig agent) = Inr (Exec_ExecutionConfigHash e)"
    and "ValidateRecoverySource ports (recovery_request t r e) s =
      Inr (RecoveryCheckpointValid cid (Exec_ExecutionConfigHash e) CheckpointNextActionGeneratePlan (Some source))"
    and "cid \<noteq> ''''"
  shows "\<exists>err. RecoverTask ports c request (s, reg) = (Inl err, (s, reg))"
    and "recoverRequestFingerprint (json_digest ports) request = Inr fp \<Longrightarrow> call_fault c = None \<Longrightarrow>
      ExecutionVersion_Valid (next_version (Exec_ExecutionVersion e)) \<Longrightarrow> call_newID c ''execution'' = Inr eid \<Longrightarrow>
      TaskExecutionRepository_Insert (recovered_execution (plain_facts t r e) eid (next_version (Exec_ExecutionVersion e))
        (Exec_ExecutionConfigHash e) (call_now c)) s = Inr s1 \<Longrightarrow>
      RecoverTask ports c request (s, reg) =
        (Inl (ErrLifecycle ''validate Recover Task lifecycle''
          (Reason (CanTaskTransition TaskStatusRunning TaskStatusPending))), (s, reg))"
proof -
  note new = running_recover_new [OF assms(1-7,9-13)]
  have schema: "schema_ok s" using assms(1) by (simp add: runtime_inv_def)
  obtain res sr where call: "RecoverTask ports c request (s, reg) = (res, sr)" by (rule prod.exhaust)
  then show "\<exists>err. RecoverTask ports c request (s, reg) = (Inl err, (s, reg))"
  proof (cases rule: RecoverTask_cases)
    case (failed err)
    with call show ?thesis by simp
  next
    case (finished fp response out s1)
    then have "recover_version ports c request fp (plain_facts t r e) CheckpointNextActionGeneratePlan (Some source)
        (Exec_ExecutionConfigHash (Facts_Execution (plain_facts t r e))) s = Inr ((response, out), s1)"
      using new assms(8) by (simp add: recover_work_def plain_facts_def)
    from this _ schema have False
      by (rule recover_version_ok)
        (use assms(2,3) pending_only_from_interrupted [of t] in \<open>auto simp: plain_facts_def\<close>)
    then show ?thesis ..
  qed
  assume prems: "recoverRequestFingerprint (json_digest ports) request = Inr fp" "call_fault c = None"
    "ExecutionVersion_Valid (next_version (Exec_ExecutionVersion e))" "call_newID c ''execution'' = Inr eid"
    "TaskExecutionRepository_Insert (recovered_execution (plain_facts t r e) eid (next_version (Exec_ExecutionVersion e))
      (Exec_ExecutionConfigHash e) (call_now c)) s = Inr s1"
  show "RecoverTask ports c request (s, reg) =
      (Inl (ErrLifecycle ''validate Recover Task lifecycle''
        (Reason (CanTaskTransition TaskStatusRunning TaskStatusPending))), (s, reg))"
    using prems(1,2) new [of fp] running_recover_version [OF assms(3) prems(3-5), of ports request fp "Some source"] assms(8)
    by (simp add: RecoverTask_def Execute_def recover_work_def)
qed

text \<open>
  A recovery that finds the deadline passed closes the task and leaves the registry of active calls
  alone, where ExpireTask and CancelTask cancel the call of the execution they close.
\<close>

theorem recover_timeout_keeps_active_call:
  assumes "RecoverTask ports c request (s, reg) = (Inl ErrTaskTimedOut, (s', reg'))"
    and "receipt_row (RTR_CommandID request) s = None" and "receipt_row (RTR_CommandID request) s' \<noteq> None"
    and "runtime_inv s" and "call_now c \<noteq> 0"
  shows "reg' = reg \<and> (\<exists>t. task_row (RTR_TaskID request) s' = Some t \<and> Task_Status t = TaskStatusFailed)"
proof -
  have schema: "schema_ok s" using assms(4) by (simp add: runtime_inv_def)
  from assms(1) obtain fp response out s1 where fin: "recover_work ports c request fp s = Inr ((response, out), s1)"
      "recover_result response = Inl ErrTaskTimedOut" "s' = after_recover c out s1" "reg' = reg"
    using assms(2,3) by (cases rule: RecoverTask_cases) auto
  have new: "recover_new ports c request fp s = Inr ((response, out), s1)"
    using fin(1) assms(2) by (simp add: recover_work_def)
  from new schema show ?thesis
  proof (cases rule: recover_new_cases)
    case (closed facts code label reason s2)
    have "recovery_closed (RTR_TaskID request) (call_now c) code facts s'"
      using closed(4) insertRecoverReceipt_scene(1) [OF closed(10)] fin(3) by (simp add: recovery_closed_def)
    then show ?thesis using fin(4) by (auto simp: recovery_closed_def scene_def recovery_failed_task_def)
  next
    case (rejected facts)
    then show ?thesis using fin(2) recover_results(1) [of facts "ReasonCodeOther ''''"] by auto
  next
    case (mismatch facts cid h current)
    then show ?thesis using fin(2) recover_results(2) [of facts cid h current] by auto
  next
    case (recovered facts phase source)
    from recovered(4) LockRecoveryFacts_sceneD [OF recovered(1)] schema have False
    proof (rule recover_version_ok)
      fix cid
      assume "response = recoverSucceeded facts (Exec_ExecutionVersion (Facts_Execution facts) + 1) TaskStatusPending
        RunStatusPending (call_now c) cid"
      then show False
        using fin(2) recover_succeeded_result [of facts "Exec_ExecutionVersion (Facts_Execution facts) + 1"
            TaskStatusPending RunStatusPending "call_now c" cid] by auto
    qed
    then show ?thesis ..
  qed
qed

subsection \<open>The properties at work\<close>

text \<open>
  A task interrupted with its worker, whose recovery succeeds; the same task left Running, whose
  recovery never does.
\<close>

definition interrupted_db :: "unit db" where
  "interrupted_db = sample_db TaskStatusInterrupted RunStatusRunning TaskExecutionStatusInterrupted None None ()"

definition sample_recover :: RecoverTaskRequest where
  "sample_recover = \<lparr>RTR_CommandID = ''v1'', RTR_TaskID = ''t1'', RTR_OperatorID = ''bob''\<rparr>"

definition recovered_sample :: "unit db \<times> Registry" where
  "recovered_sample = snd (RecoverTask sample_ports sample_call sample_recover (interrupted_db, NewRegistry))"

definition sample_recovered :: TaskRecovered where
  "sample_recovered = \<lparr>TRV_TaskID = ''t1'', TRV_RunID = ''r1'', TRV_SourceExecutionVersion = 1,
     TRV_NewExecutionVersion = 2, TRV_TaskStatus = TaskStatusPending, TRV_RunStatus = RunStatusPending,
     TRV_ExecutionStatus = TaskExecutionStatusQueued, TRV_QueuedAt = 2000, TRV_RecoveryCheckpointID = ''c2''\<rparr>"

lemma sample_recover_ids: "RTR_CommandID sample_recover = ''v1''" "RTR_TaskID sample_recover = ''t1''"
  by (simp_all add: sample_recover_def)

lemma interrupted_checks:
  "Task_check (sample_task TaskStatusInterrupted None)" "Task_check (sample_task TaskStatusRunning None)"
  "Run_check (sample_run RunStatusRunning)" "TaskExecution_check (sample_execution TaskExecutionStatusInterrupted None)"
  by (simp_all add: sample_defs Task_check_def Run_check_def TaskExecution_check_def valid_simps is_object_def
      error_code_column_def sharedErrorCodeCheck_def)

lemma interrupted_inv: "runtime_inv interrupted_db"
proof -
  have "schema_ok interrupted_db"
    using interrupted_checks
    by (simp_all add: schema_ok_def interrupted_db_def sample_db_def) (simp_all add: sample_defs)
  moreover have "scenes_ok interrupted_db"
    by (simp_all add: interrupted_db_def sample_scenes_ok) (simp_all add: scene_ok_def sample_defs)
  ultimately show "runtime_inv interrupted_db" by (simp_all add: runtime_invI)
qed

lemma interrupted_rows:
  "receipt_row q interrupted_db = None"
  by (simp_all add: interrupted_db_def)

lemma sample_recover_new:
  "case recover_new sample_ports sample_call sample_recover sample_hash interrupted_db of
     Inr ((response, out), s) \<Rightarrow> recover_result response = Inr sample_recovered | Inl _ \<Rightarrow> False"
  by code_simp

lemma sample_recover_call:
  "RecoverTask sample_ports sample_call sample_recover (interrupted_db, NewRegistry) =
     (Inr sample_recovered, (fst recovered_sample, snd recovered_sample))"
  "receipt_row ''v1'' (fst recovered_sample) \<noteq> None"
proof -
  obtain response out s1 where new: "recover_new sample_ports sample_call sample_recover sample_hash interrupted_db =
      Inr ((response, out), s1)" and result: "recover_result response = Inr sample_recovered"
    using sample_recover_new by (auto split: sum.splits prod.splits)
  have s1: "deferred_ok s1"
    using recover_new_inv [OF new interrupted_inv(1)] by (simp add: port_simps runtime_inv_def)
  have "recoverRequestFingerprint (json_digest sample_ports) sample_recover = Inr sample_hash" by code_simp
  then have call: "RecoverTask sample_ports sample_call sample_recover (interrupted_db, NewRegistry) =
      (Inr sample_recovered, (after_recover sample_call out s1, NewRegistry))"
    using new result s1 by (simp add: RecoverTask_def recover_work_def Execute_def interrupted_rows port_simps
        after_recover_def split: option.splits)
  then show "RecoverTask sample_ports sample_call sample_recover (interrupted_db, NewRegistry) =
     (Inr sample_recovered, (fst recovered_sample, snd recovered_sample))"
    by (simp add: recovered_sample_def)
  show "receipt_row ''v1'' (fst recovered_sample) \<noteq> None"
    using recover_new_stored(1) [OF new] interrupted_inv(1) call
    by (simp add: recovered_sample_def sample_recover_ids runtime_inv_def)
qed

theorem recover_task_outcome_witness:
  "\<exists>t. task_row ''t1'' (fst recovered_sample) = Some t \<and> Task_CurrentExecutionVersion t = 2 \<and>
     Task_Status t = TaskStatusPending \<and> Task_QueuedAt t = Some 2000"
proof -
  have "call_now sample_call \<noteq> 0" by (simp add: port_simps)
  from recover_task_outcome [OF sample_recover_call(1) interrupted_rows(1) _ interrupted_inv(1) this] sample_recover_call(2)
  show ?thesis
    unfolding sample_recover_ids by (auto simp: port_simps Let_def sample_recovered_def scene_def recovered_task_def)
qed

theorem recover_task_is_idempotent_witness:
  "RecoverTask sample_ports sample_call sample_recover recovered_sample = (Inr sample_recovered, recovered_sample)"
proof -
  have inv: "runtime_inv (fst recovered_sample)"
    using RecoverTask_inv [of "(interrupted_db, NewRegistry)" sample_call sample_ports sample_recover] interrupted_inv(1)
    by (simp add: recovered_sample_def port_simps)
  show ?thesis
    using recover_task_is_idempotent [OF sample_recover_call(1)] sample_recover_call(2) inv interrupted_inv(1)
    by (simp add: sample_recover_ids port_simps)
qed

end
