(* ===== verification/Dispatch.thy ===== *)
theory Dispatch
  imports Lifecycle Ports
begin

section \<open>Dispatching a claimed execution\<close>

text \<open>
  The messages of \<open>internal/taskruntime/execute_port.go\<close> and the checks of \<open>execute.go\<close> that need no
  database: whether a claim owns the locked facts, whether the checkpoint belongs to them, whether
  its frozen action fits the plan, and which action a plan step freezes.
\<close>

subsection \<open>Messages\<close>

record ExecutionPlan =
  Plan_PlanID :: PlanID

record ExecutionStep =
  Step_StepID :: StepID
  Step_Sequence :: "32 word"
  Step_Type :: StepType
  Step_Status :: StepStatus
  Step_Input :: "json option"
  Step_ToolName :: ToolName

record ExecutionDispatchFacts =
  Disp_Task :: Task
  Disp_Run :: Run
  Disp_Execution :: TaskExecution
  Disp_Plan :: "ExecutionPlan option"
  Disp_Step :: "ExecutionStep option"

record PlanStepDraft =
  PSD_StepID :: StepID
  PSD_Sequence :: "32 word"
  PSD_Type :: StepType
  PSD_Input :: "json option"
  PSD_ToolName :: ToolName

record ValidatedPlanDraft =
  VPD_PlanID :: PlanID
  VPD_Goal :: string
  VPD_Steps :: "PlanStepDraft list"

record PlannerRequest =
  PQ_TaskID :: TaskID
  PQ_RunID :: RunID
  PQ_ExecutionVersion :: ExecutionVersion
  PQ_WorkerID :: WorkerID
  PQ_TaskInput :: string
  PQ_DeadlineAt :: time
  PQ_ExecutionConfigHash :: ExecutionConfigHash
  PQ_ExecutionConfig :: ExecutionConfigV1
  PQ_ToolCatalogSelector :: PlanningToolCatalogSelector

text \<open>The last constructor of an outcome is any other value of the Go interface.\<close>

datatype PlannerOutcome =
    PlannerOutcomeCompleted ValidatedPlanDraft
  | PlannerOutcomeFailed ErrorCode
  | PlannerOutcomeUnknown

record ExecutionScope =
  Scope_TaskID :: TaskID
  Scope_RunID :: RunID
  Scope_ExecutionVersion :: ExecutionVersion
  Scope_ExecutionConfigHash :: ExecutionConfigHash
  Scope_WorkerID :: WorkerID
  Scope_StepID :: StepID
  Scope_DeadlineAt :: time

record StepExecutionRequest =
  SQ_Scope :: ExecutionScope
  SQ_NextAction :: CheckpointNextAction
  SQ_Step :: ExecutionStep
  SQ_ResolvedReferences :: "ResolvedReference list"
  SQ_ApprovalContext :: "ApprovalContext option"
  SQ_ExecutionConfig :: ExecutionConfigV1

record StepCompletion =
  SC_Output :: "json option"
  SC_RunContext :: "json option"
  SC_Continuation :: StepContinuationKind
  SC_NextStepID :: StepID

datatype StepOutcome =
    StepOutcomeCompleted StepCompletion
  | StepOutcomeWaitingApproval
  | StepOutcomeTerminalized
  | StepOutcomeFailed ErrorCode
  | StepOutcomeStale
  | StepOutcomeUnknown

record ExecutionActionGuard =
  Guard_Claim :: ExecutionClaim
  Guard_CheckpointID :: CheckpointID
  Guard_NextAction :: CheckpointNextAction
  Guard_StepID :: StepID

record ApplyPlannerCompletedRequest =
  APC_Guard :: ExecutionActionGuard
  APC_Draft :: ValidatedPlanDraft
  APC_NextAction :: CheckpointNextAction

record ApplyStepCompletedRequest =
  ASC_Guard :: ExecutionActionGuard
  ASC_Outcome :: StepCompletion
  ASC_NextAction :: CheckpointNextAction

record TerminalizeCheckpointInvalidRequest =
  TCI_Claim :: ExecutionClaim
  TCI_ActiveStepID :: "StepID option"
  TCI_ReasonCode :: ReasonCode

text \<open>The repository interface has no implementation in the repository: a record of functions.\<close>

record 'x ExecutionDispatchRepository =
  LockExecutionDispatch :: "ExecutionClaim \<Rightarrow> 'x db \<Rightarrow> GoError + ExecutionDispatchFacts"
  LockStep :: "ExecutionClaim \<Rightarrow> StepID \<Rightarrow> 'x db \<Rightarrow> GoError + ExecutionStep"
  StartExecutionAction :: "ExecutionActionGuard \<Rightarrow> 'x db \<Rightarrow> GoError + bool \<times> 'x db"
  ApplyPlannerCompleted :: "ApplyPlannerCompletedRequest \<Rightarrow> 'x db \<Rightarrow> GoError + bool \<times> 'x db"
  ApplyStepCompleted :: "ApplyStepCompletedRequest \<Rightarrow> 'x db \<Rightarrow> GoError + bool \<times> 'x db"
  TerminalizeCheckpointInvalid :: "TerminalizeCheckpointInvalidRequest \<Rightarrow> 'x db \<Rightarrow> GoError + bool \<times> 'x db"
  TerminalizeExecution :: "ExecutionActionGuard \<Rightarrow> ErrorCode \<Rightarrow> 'x db \<Rightarrow> GoError + bool \<times> 'x db"
  FinalizeExecution :: "ExecutionActionGuard \<Rightarrow> 'x db \<Rightarrow> GoError + bool \<times> 'x db"
  ConfirmExecutionWaitingApproval :: "ExecutionClaim \<Rightarrow> StepID \<Rightarrow> 'x db \<Rightarrow> GoError + bool \<times> 'x db"
  ConfirmExecutionTerminal :: "ExecutionClaim \<Rightarrow> 'x db \<Rightarrow> GoError + bool \<times> 'x db"

subsection \<open>Ownership\<close>

definition validateExecutionClaim :: "ExecutionClaim \<Rightarrow> GoError + unit" where
  "validateExecutionClaim claim =
    (if Claim_TaskID claim = '''' \<or> Claim_RunID claim = '''' \<or> \<not> ExecutionVersion_Valid (Claim_ExecutionVersion claim)
        \<or> Claim_WorkerID claim = ''''
     then Inl ErrInvalidArgument else Inr ())"

definition executionClaimOwnsFacts :: "ExecutionClaim \<Rightarrow> ExecutionDispatchFacts \<Rightarrow> time \<Rightarrow> bool" where
  "executionClaimOwnsFacts claim facts now \<longleftrightarrow>
     Task_TaskID (Disp_Task facts) = Claim_TaskID claim \<and> Task_CurrentRunID (Disp_Task facts) = Claim_RunID claim \<and>
     Run_TaskID (Disp_Run facts) = Claim_TaskID claim \<and> Run_RunID (Disp_Run facts) = Claim_RunID claim \<and>
     Exec_TaskID (Disp_Execution facts) = Claim_TaskID claim \<and>
     Exec_ExecutionVersion (Disp_Execution facts) = Claim_ExecutionVersion claim \<and>
     Task_QueuedAt (Disp_Task facts) = None \<and> Task_Status (Disp_Task facts) = TaskStatusRunning \<and>
     Run_Status (Disp_Run facts) = RunStatusRunning \<and>
     Exec_Status (Disp_Execution facts) = TaskExecutionStatusRunning \<and>
     Allowed (CheckGuard
       \<lparr>GF_CurrentExecutionVersion = Task_CurrentExecutionVersion (Disp_Task facts),
        GF_RequestExecutionVersion = Claim_ExecutionVersion claim,
        GF_ExecutionWorkerID = Exec_WorkerID (Disp_Execution facts),
        GF_RequestWorkerID = Some (Claim_WorkerID claim),
        GF_DeadlineAt = Task_DeadlineAt (Disp_Task facts), GF_DatabaseNow = now\<rparr>)"

definition validateCheckpointAttribution ::
    "ExecutionClaim \<Rightarrow> ExecutionDispatchFacts \<Rightarrow> RuntimeCheckpoint \<Rightarrow> GoError + unit" where
  "validateCheckpointAttribution claim facts checkpoint =
    (if RC_CheckpointID checkpoint = '''' \<or> RC_TaskID checkpoint \<noteq> Claim_TaskID claim
        \<or> RC_RunID checkpoint \<noteq> Claim_RunID claim
        \<or> RC_ExecutionVersion checkpoint \<noteq> Claim_ExecutionVersion claim
        \<or> RC_CheckpointSequence checkpoint \<le> 0 \<or> \<not> CheckpointNextAction_Valid (RC_NextAction checkpoint)
        \<or> RC_ExecutionConfigHash checkpoint \<noteq> Exec_ExecutionConfigHash (Disp_Execution facts)
     then Inl ErrPersistenceInvariantViolation else Inr ())"

subsection \<open>Approval contexts\<close>

definition validApprovalContext :: "ApprovalContext option \<Rightarrow> ToolName \<Rightarrow> ExecutionVersion \<Rightarrow> bool" where
  "validApprovalContext approval toolName executionVersion =
    (case approval of
       None \<Rightarrow> False
     | Some a \<Rightarrow> APX_ApprovalID a \<noteq> '''' \<and> ExecutionVersion_Valid (APX_ApprovalExecutionVersion a) \<and>
         APX_ApprovalExecutionVersion a \<le> executionVersion \<and> APX_ToolName a = toolName \<and>
         APX_ResourceVersion a \<noteq> '''' \<and> validSHA256 (APX_FrozenInputHash a) \<and>
         json_Valid (APX_FrozenToolInput a) \<and> json_Valid (APX_ObservedValues a))"

definition validCheckpointApprovalContext :: "RuntimeCheckpoint \<Rightarrow> ToolName \<Rightarrow> bool" where
  "validCheckpointApprovalContext checkpoint toolName \<longleftrightarrow>
     validApprovalContext (RC_ApprovalContext checkpoint) toolName (RC_ExecutionVersion checkpoint) \<and>
     (let approved = APX_ApprovalExecutionVersion (the (RC_ApprovalContext checkpoint)) in
      case (RC_SourceExecutionVersion checkpoint, RC_SourceCheckpointID checkpoint) of
        (None, None) \<Rightarrow> approved = RC_ExecutionVersion checkpoint
      | (Some v, Some cid) \<Rightarrow> ExecutionVersion_Valid v \<and> cid \<noteq> '''' \<and> next_version v = RC_ExecutionVersion checkpoint \<and>
          approved \<le> v
      | _ \<Rightarrow> False)"

subsection \<open>The frozen action\<close>

text \<open>\<open>Inr None\<close> accepts the dispatch, \<open>Inr (Some reason)\<close> closes it as an invalid checkpoint.\<close>

definition enabled_tools :: "ExecutionConfigV1 \<Rightarrow> ToolName \<Rightarrow> ToolDefinitionV1 list" where
  "enabled_tools config name =
    filter (\<lambda>tool. Tool_Name tool = name \<and> Tool_Enabled tool) (TF_Tools (EC_ToolFramework config))"

definition read_tool :: "ToolDefinitionV1 \<Rightarrow> bool" where
  "read_tool tool \<longleftrightarrow> Tool_RiskLevel tool = RiskLevelLow \<and> Tool_ReadOnly tool"

definition write_tool :: "ToolDefinitionV1 \<Rightarrow> bool" where
  "write_tool tool \<longleftrightarrow> Tool_RiskLevel tool = RiskLevelHigh \<and> \<not> Tool_ReadOnly tool"

definition validate_frozen_tool ::
    "RuntimeCheckpoint \<Rightarrow> ToolName \<Rightarrow> ToolDefinitionV1 \<Rightarrow> GoError + ReasonCode option" where
  "validate_frozen_tool checkpoint toolName tool =
    (if read_tool tool then
       (if RC_NextAction checkpoint \<noteq> CheckpointNextActionExecuteStep
        then Inr (Some ReasonCodeCheckpointFrozenActionMismatch)
        else if RC_ApprovalContext checkpoint \<noteq> None then Inr (Some ReasonCodeCheckpointApprovalReferenceInvalid)
        else Inr None)
     else if write_tool tool then
       (if RC_NextAction checkpoint = CheckpointNextActionRequestApproval then
          (if RC_ApprovalContext checkpoint \<noteq> None then Inr (Some ReasonCodeCheckpointApprovalReferenceInvalid)
           else Inr None)
        else if RC_NextAction checkpoint = CheckpointNextActionExecuteApprovedTool then
          (if \<not> validCheckpointApprovalContext checkpoint toolName
           then Inr (Some ReasonCodeCheckpointApprovalReferenceInvalid) else Inr None)
        else Inr (Some ReasonCodeCheckpointFrozenActionMismatch))
     else Inl ErrPersistenceInvariantViolation)"

definition validate_frozen_step ::
    "ExecutionStep \<Rightarrow> RuntimeCheckpoint \<Rightarrow> ExecutionConfigV1 \<Rightarrow> GoError + ReasonCode option" where
  "validate_frozen_step step checkpoint config =
    (if Step_Type step \<noteq> StepTypeToolCall then
       (if RC_NextAction checkpoint \<noteq> CheckpointNextActionExecuteStep \<or> Step_ToolName step \<noteq> ''''
        then Inr (Some ReasonCodeCheckpointFrozenActionMismatch)
        else if RC_ApprovalContext checkpoint \<noteq> None then Inr (Some ReasonCodeCheckpointApprovalReferenceInvalid)
        else Inr None)
     else
       (case enabled_tools config (Step_ToolName step) of
          [] \<Rightarrow> Inr (Some ReasonCodeCheckpointFrozenActionMismatch)
        | [tool] \<Rightarrow> validate_frozen_tool checkpoint (Step_ToolName step) tool
        | _ \<Rightarrow> Inl ErrPersistenceInvariantViolation))"

definition validateFrozenDispatch ::
    "ExecutionDispatchFacts \<Rightarrow> RuntimeCheckpoint \<Rightarrow> ExecutionConfigV1 \<Rightarrow> GoError + ReasonCode option" where
  "validateFrozenDispatch facts checkpoint config =
    (case Disp_Plan facts of
       None \<Rightarrow>
         if RC_NextAction checkpoint \<noteq> CheckpointNextActionGeneratePlan \<or> Disp_Step facts \<noteq> None
            \<or> RC_ApprovalContext checkpoint \<noteq> None
         then Inr (Some ReasonCodeCheckpointFrozenActionMismatch) else Inr None
     | Some plan \<Rightarrow>
         if Run_PlanID (Disp_Run facts) \<noteq> Some (Plan_PlanID plan)
            \<or> RC_NextAction checkpoint = CheckpointNextActionGeneratePlan
         then Inr (Some ReasonCodeCheckpointFrozenActionMismatch)
         else if RC_NextAction checkpoint = CheckpointNextActionFinalizeRun then
           (if RC_ApprovalContext checkpoint \<noteq> None
            then Inr (Some ReasonCodeCheckpointApprovalReferenceInvalid) else Inr None)
         else
           (case Disp_Step facts of
              None \<Rightarrow> Inr (Some ReasonCodeCheckpointStepReferenceInvalid)
            | Some step \<Rightarrow>
                if Run_CurrentStepID (Disp_Run facts) \<noteq> Some (Step_StepID step)
                then Inr (Some ReasonCodeCheckpointStepReferenceInvalid)
                else validate_frozen_step step checkpoint config))"

fun next_action_of_tools :: "ToolName \<Rightarrow> ToolDefinitionV1 list \<Rightarrow> GoError + CheckpointNextAction" where
  "next_action_of_tools name [] = Inl ErrPersistenceInvariantViolation"
| "next_action_of_tools name (tool # tools) =
    (if Tool_Name tool \<noteq> name \<or> \<not> Tool_Enabled tool then next_action_of_tools name tools
     else if read_tool tool then Inr CheckpointNextActionExecuteStep
     else if write_tool tool then Inr CheckpointNextActionRequestApproval
     else Inl ErrPersistenceInvariantViolation)"

definition nextActionForStep :: "PlanStepDraft \<Rightarrow> ExecutionConfigV1 \<Rightarrow> GoError + CheckpointNextAction" where
  "nextActionForStep step config =
    (if PSD_Type step \<noteq> StepTypeToolCall then Inr CheckpointNextActionExecuteStep
     else next_action_of_tools (PSD_ToolName step) (TF_Tools (EC_ToolFramework config)))"

subsection \<open>Checks of what the ports return\<close>

definition validateStepOutcome :: "CheckpointNextAction \<Rightarrow> StepOutcome \<Rightarrow> GoError + unit" where
  "validateStepOutcome action outcome =
    (if action = CheckpointNextActionExecuteStep \<or> action = CheckpointNextActionExecuteApprovedTool then
       (case outcome of
          StepOutcomeCompleted _ \<Rightarrow> Inr () | StepOutcomeFailed _ \<Rightarrow> Inr () | StepOutcomeStale \<Rightarrow> Inr ()
        | _ \<Rightarrow> Inl ErrPersistenceInvariantViolation)
     else if action = CheckpointNextActionRequestApproval then
       (case outcome of
          StepOutcomeWaitingApproval \<Rightarrow> Inr () | StepOutcomeTerminalized \<Rightarrow> Inr ()
        | StepOutcomeFailed _ \<Rightarrow> Inr () | StepOutcomeStale \<Rightarrow> Inr ()
        | _ \<Rightarrow> Inl ErrPersistenceInvariantViolation)
     else Inl ErrPersistenceInvariantViolation)"

definition validatePlanDraft :: "ValidatedPlanDraft \<Rightarrow> GoError + unit" where
  "validatePlanDraft draft =
    (if VPD_PlanID draft = '''' \<or> VPD_Steps draft = [] then Inl ErrPersistenceInvariantViolation
     else if \<forall>(index, step) \<in> set (List.enumerate 0 (VPD_Steps draft)).
       PSD_StepID step \<noteq> '''' \<and> PSD_Sequence step = of_nat (index + 1) \<and> StepType_Valid (PSD_Type step)
     then Inr () else Inl ErrPersistenceInvariantViolation)"

definition validatePlanningToolCatalogSelector :: "AgentRuntimeConfig \<Rightarrow> GoError + unit" where
  "validatePlanningToolCatalogSelector config =
    (let selector = ARC_PlanningToolCatalogSelector config;
         allowed = Agent_AllowedTools (EC_Agent (ARC_ExecutionConfig config)) in
     if Selector_CatalogID selector = '''' \<or> Selector_ExpectedRegistryVersion selector = ''''
        \<or> \<not> validSHA256 (Selector_ExpectedSnapshotHash selector) \<or> Selector_AllowedTools selector = None
        \<or> length (the (Selector_AllowedTools selector)) \<noteq> length allowed
        \<or> the (Selector_AllowedTools selector) \<noteq> allowed
     then Inl ErrPersistenceInvariantViolation else Inr ())"

definition newExecutionScope :: "ExecutionClaim \<Rightarrow> ExecutionDispatchFacts \<Rightarrow> GoError + ExecutionScope" where
  "newExecutionScope claim facts =
    (case Disp_Step facts of
       None \<Rightarrow> Inl ErrPersistenceInvariantViolation
     | Some step \<Rightarrow>
         if Step_StepID step = '''' \<or> \<not> ExecutionConfigHash_Valid (Exec_ExecutionConfigHash (Disp_Execution facts))
            \<or> IsZero (Task_DeadlineAt (Disp_Task facts)) \<or> Task_TaskID (Disp_Task facts) \<noteq> Claim_TaskID claim
            \<or> Run_RunID (Disp_Run facts) \<noteq> Claim_RunID claim
            \<or> Exec_ExecutionVersion (Disp_Execution facts) \<noteq> Claim_ExecutionVersion claim
            \<or> Exec_WorkerID (Disp_Execution facts) \<noteq> Some (Claim_WorkerID claim)
         then Inl ErrPersistenceInvariantViolation
         else Inr \<lparr>Scope_TaskID = Claim_TaskID claim, Scope_RunID = Claim_RunID claim,
           Scope_ExecutionVersion = Claim_ExecutionVersion claim,
           Scope_ExecutionConfigHash = Exec_ExecutionConfigHash (Disp_Execution facts),
           Scope_WorkerID = Claim_WorkerID claim, Scope_StepID = Step_StepID step,
           Scope_DeadlineAt = Task_DeadlineAt (Disp_Task facts)\<rparr>)"

definition checkpointInvalidRequest ::
    "ExecutionClaim \<Rightarrow> ExecutionDispatchFacts \<Rightarrow> ReasonCode \<Rightarrow> GoError + TerminalizeCheckpointInvalidRequest" where
  "checkpointInvalidRequest claim facts reasonCode =
    (let request = \<lparr>TCI_Claim = claim, TCI_ActiveStepID = None, TCI_ReasonCode = reasonCode\<rparr> in
     case Run_CurrentStepID (Disp_Run facts) of
       None \<Rightarrow> if Disp_Step facts \<noteq> None then Inl ErrPersistenceInvariantViolation else Inr request
     | Some current \<Rightarrow>
         (case Disp_Step facts of
            None \<Rightarrow> Inl ErrPersistenceInvariantViolation
          | Some step \<Rightarrow>
              if Step_StepID step \<noteq> current then Inl ErrPersistenceInvariantViolation
              else if Step_Status step = StepStatusRunning
              then Inr (request\<lparr>TCI_ActiveStepID := Some (Step_StepID step)\<rparr>) else Inr request))"

end
