(* ===== verification/ExecuteTask.thy ===== *)
theory ExecuteTask
  imports Dispatch ActiveCall
begin

section \<open>ExecuteTask\<close>

text \<open>
  \<open>internal/taskruntime/execute.go\<close>: the loop that reloads the facts of a claimed execution, runs the
  action its latest checkpoint froze, and commits the result. It runs beside every other service of the
  process, so the model threads the database and the registry through an environment: before each
  transaction, each access of the registry and the return of each port call, other services may have
  moved on (\<open>env_moves\<close>), and each transaction has its own clock reading and failure (\<open>env_call\<close>). The
  counter says how far the call has come; everything the environment does depends on it.
\<close>

type_synonym 'x world = "'x db \<times> Registry"

record 'x Environment =
  env_call :: "nat \<Rightarrow> Call"
  env_moves :: "nat \<Rightarrow> 'x world \<Rightarrow> 'x world"
  env_parent :: "nat \<Rightarrow> CancelCause option"
  env_planner :: "nat \<Rightarrow> PlannerRequest \<Rightarrow> 'x world \<Rightarrow> GoError + PlannerOutcome"
  env_steps :: "nat \<Rightarrow> StepExecutionRequest \<Rightarrow> 'x world \<Rightarrow> GoError + StepOutcome"

record 'x ExecuteTaskService =
  svc_ports :: "'x Ports"
  svc_dispatch :: "'x ExecutionDispatchRepository"
  svc_env :: "'x Environment"

type_synonym 'x progress = "nat \<times> 'x world"

text \<open>
  One transaction, one access of the registry, and one call of a port, each after the others moved.
\<close>

definition transact ::
    "'x ExecuteTaskService \<Rightarrow> (time \<Rightarrow> 'x db \<Rightarrow> GoError + 'a \<times> 'x db) \<Rightarrow> 'x progress \<Rightarrow> (GoError + 'a) \<times> 'x progress" where
  "transact svc work p =
    (case p of (n, w) \<Rightarrow>
     case env_moves (svc_env svc) n w of (s, reg) \<Rightarrow>
     let c = env_call (svc_env svc) n in
     case Execute (call_fault c) (work (call_now c)) s of (r, s') \<Rightarrow> (r, (Suc n, (s', reg))))"

definition on_registry ::
    "'x ExecuteTaskService \<Rightarrow> (Registry \<Rightarrow> 'a \<times> Registry) \<Rightarrow> 'x progress \<Rightarrow> 'a \<times> 'x progress" where
  "on_registry svc f p =
    (case p of (n, w) \<Rightarrow>
     case env_moves (svc_env svc) n w of (s, reg) \<Rightarrow>
     case f reg of (a, reg') \<Rightarrow> (a, (Suc n, (s, reg'))))"

definition call_port :: "'x ExecuteTaskService \<Rightarrow> (nat \<Rightarrow> 'x world \<Rightarrow> 'a) \<Rightarrow> 'x progress \<Rightarrow> 'a \<times> 'x progress" where
  "call_port svc port p = (case p of (n, w) \<Rightarrow> (port n w, (Suc n, env_moves (svc_env svc) n w)))"

subsection \<open>Loading a dispatch\<close>

record executionDispatch =
  ED_facts :: ExecutionDispatchFacts
  ED_checkpoint :: RuntimeCheckpoint
  ED_config :: AgentRuntimeConfig

definition actionGuard :: "ExecutionClaim \<Rightarrow> ExecutionDispatchFacts \<Rightarrow> RuntimeCheckpoint \<Rightarrow> ExecutionActionGuard" where
  "actionGuard claim facts checkpoint =
    \<lparr>Guard_Claim = claim, Guard_CheckpointID = RC_CheckpointID checkpoint, Guard_NextAction = RC_NextAction checkpoint,
     Guard_StepID = (case Disp_Step facts of None \<Rightarrow> '''' | Some step \<Rightarrow> Step_StepID step)\<rparr>"

definition activeCallKey :: "ExecutionClaim \<Rightarrow> Key" where
  "activeCallKey claim = \<lparr>Key_TaskID = Claim_TaskID claim, Key_ExecutionVersion = Claim_ExecutionVersion claim,
     Key_WorkerID = Claim_WorkerID claim\<rparr>"

text \<open>Closing a scene whose checkpoint is invalid: Stale when the guard of the update missed.\<close>

definition close_invalid ::
    "'x ExecuteTaskService \<Rightarrow> ExecutionClaim \<Rightarrow> ExecutionDispatchFacts \<Rightarrow> ReasonCode \<Rightarrow> 'x db \<Rightarrow>
     GoError + ExecuteResult \<times> 'x db" where
  "close_invalid svc claim facts reason s =
    attempt (checkpointInvalidRequest claim facts reason) (\<lambda>request.
    attempt (TerminalizeCheckpointInvalid (svc_dispatch svc) request s) (\<lambda>(applied, s).
      Inr (if applied then ExecuteResultTerminal else ExecuteResultStale, s)))"

text \<open>The configuration the dispatch runs under.\<close>

definition dispatch_config ::
    "'x ExecuteTaskService \<Rightarrow> ExecutionDispatchFacts \<Rightarrow> RuntimeCheckpoint \<Rightarrow> GoError + AgentRuntimeConfig" where
  "dispatch_config svc facts checkpoint =
    (let unavailable = ErrText ''execute claimed execution: validated runtime Agent configuration is unavailable'' in
     case LookupAgent (svc_ports svc) (Task_AgentID (Disp_Task facts)) of
       None \<Rightarrow> Inl unavailable
     | Some config \<Rightarrow>
         attempt (require (agent_enabled config
           \<and> Agent_AgentID (EC_Agent (ARC_ExecutionConfig config)) = Task_AgentID (Disp_Task facts)) unavailable) (\<lambda>_.
         attempt (validatePlanningToolCatalogSelector config) (\<lambda>_.
         attempt (HashExecutionConfigV1 (svc_ports svc) (ARC_ExecutionConfig config)) (\<lambda>currentHash.
         let frozen = Exec_ExecutionConfigHash (Disp_Execution facts) in
         attempt (require (ExecutionConfigHash_Valid frozen \<and> frozen = currentHash
           \<and> RC_ExecutionConfigHash checkpoint = currentHash) ErrPersistenceInvariantViolation) (\<lambda>_.
         Inr config)))))"

text \<open>\<open>Inr (Inl result)\<close> ends the call, \<open>Inr (Inr dispatch)\<close> goes on.\<close>

definition load_work ::
    "'x ExecuteTaskService \<Rightarrow> ExecutionClaim \<Rightarrow> time \<Rightarrow> 'x db \<Rightarrow> GoError + (ExecuteResult + executionDispatch) \<times> 'x db" where
  "load_work svc claim now s =
    attempt (LockExecutionDispatch (svc_dispatch svc) claim s) (\<lambda>facts.
    if \<not> executionClaimOwnsFacts claim facts now then Inr (Inl ExecuteResultStale, s)
    else
      attempt (LoadLatestForExecutionDispatch (svc_ports svc) (Claim_TaskID claim) (Claim_RunID claim)
        (Claim_ExecutionVersion claim) s) (\<lambda>result.
      case result of
        ExecutionCheckpointInvalid reason \<Rightarrow>
          if \<not> ReasonCode_ValidForCheckpointInvalid reason then Inl ErrPersistenceInvariantViolation
          else attempt (close_invalid svc claim facts reason s) (\<lambda>(result, s). Inr (Inl result, s))
      | ExecutionCheckpointValid checkpoint \<Rightarrow>
          attempt (validateCheckpointAttribution claim facts checkpoint) (\<lambda>_.
          attempt (dispatch_config svc facts checkpoint) (\<lambda>config.
          attempt (validateFrozenDispatch facts checkpoint (ARC_ExecutionConfig config)) (\<lambda>reason.
          case reason of
            Some reason \<Rightarrow> attempt (close_invalid svc claim facts reason s) (\<lambda>(result, s). Inr (Inl result, s))
          | None \<Rightarrow> Inr (Inr \<lparr>ED_facts = facts, ED_checkpoint = checkpoint, ED_config = config\<rparr>, s))))))"

definition loadDispatch ::
    "'x ExecuteTaskService \<Rightarrow> ExecutionClaim \<Rightarrow> 'x progress \<Rightarrow> (GoError + (ExecuteResult + executionDispatch)) \<times> 'x progress" where
  "loadDispatch svc claim = transact svc (load_work svc claim)"

text \<open>\<open>reloadDispatchInTransaction\<close>: the facts and the checkpoint again, in the commit's transaction.\<close>

definition reload_work ::
    "'x ExecuteTaskService \<Rightarrow> ExecutionClaim \<Rightarrow> time \<Rightarrow> 'x db \<Rightarrow>
     GoError + (ExecuteResult + ExecutionDispatchFacts \<times> RuntimeCheckpoint) \<times> 'x db" where
  "reload_work svc claim now s =
    attempt (LockExecutionDispatch (svc_dispatch svc) claim s) (\<lambda>facts.
    if \<not> executionClaimOwnsFacts claim facts now then Inr (Inl ExecuteResultStale, s)
    else
      attempt (LoadLatestForExecutionDispatch (svc_ports svc) (Claim_TaskID claim) (Claim_RunID claim)
        (Claim_ExecutionVersion claim) s) (\<lambda>result.
      case result of
        ExecutionCheckpointValid checkpoint \<Rightarrow>
          attempt (validateCheckpointAttribution claim facts checkpoint) (\<lambda>_. Inr (Inr (facts, checkpoint), s))
      | ExecutionCheckpointInvalid reason \<Rightarrow>
          if \<not> ReasonCode_ValidForCheckpointInvalid reason then Inl ErrPersistenceInvariantViolation
          else attempt (close_invalid svc claim facts reason s) (\<lambda>(result, s). Inr (Inl result, s))))"

subsection \<open>Committing a result\<close>

text \<open>
  How a commit answers: a result of the reload, Stale when the update did not apply, and otherwise
  \<open>after\<close> (\<open>None\<close> goes on with the loop). \<open>errExecutionStale\<close> rolls the transaction back and is Stale.
\<close>

definition commit_answer ::
    "ExecuteResult option \<Rightarrow> GoError + (ExecuteResult + bool) \<Rightarrow> GoError + ExecuteResult option" where
  "commit_answer after outcome =
    (case outcome of
       Inl err \<Rightarrow> if err = errExecutionStale then Inr (Some ExecuteResultStale) else Inl err
     | Inr (Inl result) \<Rightarrow> Inr (Some result)
     | Inr (Inr applied) \<Rightarrow> if applied then Inr after else Inr (Some ExecuteResultStale))"

definition planner_commit_work ::
    "'x ExecuteTaskService \<Rightarrow> ExecutionClaim \<Rightarrow> ExecutionActionGuard \<Rightarrow> ValidatedPlanDraft \<Rightarrow> CheckpointNextAction \<Rightarrow>
     time \<Rightarrow> 'x db \<Rightarrow> GoError + (ExecuteResult + bool) \<times> 'x db" where
  "planner_commit_work svc claim guard draft nextAction now s =
    attempt (reload_work svc claim now s) (\<lambda>(current, s).
    case current of
      Inl result \<Rightarrow> Inr (Inl result, s)
    | Inr (facts, checkpoint) \<Rightarrow>
        if actionGuard claim facts checkpoint \<noteq> guard then Inl errExecutionStale
        else
          attempt (ApplyPlannerCompleted (svc_dispatch svc)
            \<lparr>APC_Guard = guard, APC_Draft = draft, APC_NextAction = nextAction\<rparr> s) (\<lambda>(applied, s).
          Inr (Inr applied, s)))"

definition applyPlanner ::
    "'x ExecuteTaskService \<Rightarrow> ExecutionClaim \<Rightarrow> ExecutionActionGuard \<Rightarrow> ValidatedPlanDraft \<Rightarrow> CheckpointNextAction \<Rightarrow>
     'x progress \<Rightarrow> (GoError + ExecuteResult option) \<times> 'x progress" where
  "applyPlanner svc claim guard draft nextAction p =
    (case transact svc (planner_commit_work svc claim guard draft nextAction) p of
       (outcome, p) \<Rightarrow> (commit_answer None outcome, p))"

text \<open>The action that follows a completed step.\<close>

definition following_action ::
    "'x ExecuteTaskService \<Rightarrow> ExecutionClaim \<Rightarrow> StepCompletion \<Rightarrow> ExecutionConfigV1 \<Rightarrow> 'x db \<Rightarrow> GoError + CheckpointNextAction" where
  "following_action svc claim outcome config s =
    (if SC_Continuation outcome = StepContinuationNextStep then
       (if SC_NextStepID outcome = '''' then Inl ErrPersistenceInvariantViolation
        else
          attempt (LockStep (svc_dispatch svc) claim (SC_NextStepID outcome) s) (\<lambda>nextStep.
          nextActionForStep \<lparr>PSD_StepID = Step_StepID nextStep, PSD_Sequence = Step_Sequence nextStep,
            PSD_Type = Step_Type nextStep, PSD_Input = Step_Input nextStep,
            PSD_ToolName = Step_ToolName nextStep\<rparr> config))
     else if SC_NextStepID outcome \<noteq> '''' then Inl ErrPersistenceInvariantViolation
     else Inr CheckpointNextActionFinalizeRun)"

definition step_commit_work ::
    "'x ExecuteTaskService \<Rightarrow> ExecutionClaim \<Rightarrow> ExecutionActionGuard \<Rightarrow> StepCompletion \<Rightarrow> ExecutionConfigV1 \<Rightarrow>
     time \<Rightarrow> 'x db \<Rightarrow> GoError + (ExecuteResult + bool) \<times> 'x db" where
  "step_commit_work svc claim guard outcome config now s =
    attempt (reload_work svc claim now s) (\<lambda>(current, s).
    case current of
      Inl result \<Rightarrow> Inr (Inl result, s)
    | Inr (facts, checkpoint) \<Rightarrow>
        if actionGuard claim facts checkpoint \<noteq> guard then Inl errExecutionStale
        else
          attempt (following_action svc claim outcome config s) (\<lambda>nextAction.
          attempt (ApplyStepCompleted (svc_dispatch svc)
            \<lparr>ASC_Guard = actionGuard claim facts checkpoint, ASC_Outcome = outcome, ASC_NextAction = nextAction\<rparr> s)
            (\<lambda>(applied, s). Inr (Inr applied, s))))"

definition commitCompletedStep ::
    "'x ExecuteTaskService \<Rightarrow> ExecutionClaim \<Rightarrow> ExecutionActionGuard \<Rightarrow> StepCompletion \<Rightarrow> ExecutionConfigV1 \<Rightarrow>
     'x progress \<Rightarrow> (GoError + ExecuteResult option) \<times> 'x progress" where
  "commitCompletedStep svc claim guard outcome config p =
    (if \<not> StepContinuationKind_Valid (SC_Continuation outcome) then (Inl ErrPersistenceInvariantViolation, p)
     else
       (case transact svc (step_commit_work svc claim guard outcome config) p of
          (outcome, p) \<Rightarrow> (commit_answer None outcome, p)))"

definition terminalize ::
    "'x ExecuteTaskService \<Rightarrow> ExecutionActionGuard \<Rightarrow> ErrorCode \<Rightarrow> 'x progress \<Rightarrow>
     (GoError + ExecuteResult option) \<times> 'x progress" where
  "terminalize svc guard errorCode p =
    (case transact svc (\<lambda>_. TerminalizeExecution (svc_dispatch svc) guard errorCode) p of
       (Inl err, p) \<Rightarrow> (Inl err, p)
     | (Inr applied, p) \<Rightarrow> (Inr (Some (if applied then ExecuteResultTerminal else ExecuteResultStale)), p))"

definition finalize_work ::
    "'x ExecuteTaskService \<Rightarrow> ExecutionClaim \<Rightarrow> time \<Rightarrow> 'x db \<Rightarrow> GoError + (ExecuteResult + bool) \<times> 'x db" where
  "finalize_work svc claim now s =
    attempt (reload_work svc claim now s) (\<lambda>(current, s).
    case current of
      Inl result \<Rightarrow> Inr (Inl result, s)
    | Inr (facts, checkpoint) \<Rightarrow>
        attempt (FinalizeExecution (svc_dispatch svc) (actionGuard claim facts checkpoint) s) (\<lambda>(applied, s).
        Inr (Inr applied, s)))"

definition finalize ::
    "'x ExecuteTaskService \<Rightarrow> ExecutionClaim \<Rightarrow> 'x progress \<Rightarrow> (GoError + ExecuteResult option) \<times> 'x progress" where
  "finalize svc claim p =
    (case transact svc (finalize_work svc claim) p of
       (outcome, p) \<Rightarrow> (commit_answer (Some ExecuteResultTerminal) outcome, p))"

subsection \<open>Running an action\<close>

text \<open>
  The frame both actions share: register the call, store its start, activate the call, run the port
  unless the call was cancelled in between, unregister, and handle what the port answered. The
  deferred Unregister runs on every path; after the explicit one it does nothing.
\<close>

definition unregister :: "'x ExecuteTaskService \<Rightarrow> nat \<Rightarrow> 'x progress \<Rightarrow> 'x progress" where
  "unregister svc h p = snd (on_registry svc (\<lambda>reg. ((), Unregister h reg)) p)"

definition startAction ::
    "'x ExecuteTaskService \<Rightarrow> ExecutionActionGuard \<Rightarrow> 'x progress \<Rightarrow> (GoError + bool) \<times> 'x progress" where
  "startAction svc guard = transact svc (\<lambda>_. StartExecutionAction (svc_dispatch svc) guard)"

definition admitted_call ::
    "'x ExecuteTaskService \<Rightarrow> nat \<Rightarrow> (GoError + (nat \<Rightarrow> 'x world \<Rightarrow> GoError + 'o)) \<Rightarrow>
     ('o \<Rightarrow> 'x progress \<Rightarrow> (GoError + ExecuteResult option) \<times> 'x progress) \<Rightarrow>
     'x progress \<Rightarrow> (GoError + ExecuteResult option) \<times> 'x progress" where
  "admitted_call svc h port handle p =
    (case on_registry svc (Activate h) p of
       (Inl err, p) \<Rightarrow> (Inl err, p)
     | (Inr _, p) \<Rightarrow>
         (case on_registry svc (\<lambda>reg. (handle_cancelled h reg, reg)) p of
            (True, p) \<Rightarrow> (Inr (Some ExecuteResultStale), p)
          | (False, p) \<Rightarrow>
              (case port of
                 Inl err \<Rightarrow> (Inl err, p)
               | Inr call \<Rightarrow>
                   (case call_port svc call p of
                      (outcome, p) \<Rightarrow>
                        (case on_registry svc (\<lambda>reg. (handle_cancelled h reg, reg)) p of
                           (callCanceled, p) \<Rightarrow>
                             (case (outcome, unregister svc h p) of
                                (Inl err, p) \<Rightarrow> (if callCanceled then Inr (Some ExecuteResultStale) else Inl err, p)
                              | (Inr result, p) \<Rightarrow> handle result p))))))"

definition run_action ::
    "'x ExecuteTaskService \<Rightarrow> ExecutionClaim \<Rightarrow> Metadata \<Rightarrow> ExecutionActionGuard \<Rightarrow>
     (GoError + (nat \<Rightarrow> 'x world \<Rightarrow> GoError + 'o)) \<Rightarrow>
     ('o \<Rightarrow> 'x progress \<Rightarrow> (GoError + ExecuteResult option) \<times> 'x progress) \<Rightarrow>
     'x progress \<Rightarrow> (GoError + ExecuteResult option) \<times> 'x progress" where
  "run_action svc claim metadata guard port handle p =
    (case on_registry svc (Prepare (env_parent (svc_env svc) (fst p)) (activeCallKey claim) metadata) p of
       (Inl err, p) \<Rightarrow> (Inl err, p)
     | (Inr h, p) \<Rightarrow>
         (case (case startAction svc guard p of
                  (Inl err, p) \<Rightarrow> (Inl err, p)
                | (Inr admitted, p) \<Rightarrow>
                    if \<not> admitted then (Inr (Some ExecuteResultStale), p)
                    else admitted_call svc h port handle p) of
            (result, p) \<Rightarrow> (result, unregister svc h p)))"

definition planner_request :: "ExecutionClaim \<Rightarrow> executionDispatch \<Rightarrow> PlannerRequest" where
  "planner_request claim dispatch =
    \<lparr>PQ_TaskID = Claim_TaskID claim, PQ_RunID = Claim_RunID claim,
     PQ_ExecutionVersion = Claim_ExecutionVersion claim, PQ_WorkerID = Claim_WorkerID claim,
     PQ_TaskInput = Task_Input (Disp_Task (ED_facts dispatch)),
     PQ_DeadlineAt = Task_DeadlineAt (Disp_Task (ED_facts dispatch)),
     PQ_ExecutionConfigHash = Exec_ExecutionConfigHash (Disp_Execution (ED_facts dispatch)),
     PQ_ExecutionConfig = ARC_ExecutionConfig (ED_config dispatch),
     PQ_ToolCatalogSelector = ARC_PlanningToolCatalogSelector (ED_config dispatch)\<rparr>"

definition planner_outcome ::
    "'x ExecuteTaskService \<Rightarrow> ExecutionClaim \<Rightarrow> executionDispatch \<Rightarrow> ExecutionActionGuard \<Rightarrow> PlannerOutcome \<Rightarrow>
     'x progress \<Rightarrow> (GoError + ExecuteResult option) \<times> 'x progress" where
  "planner_outcome svc claim dispatch guard outcome p =
    (case outcome of
       PlannerOutcomeCompleted draft \<Rightarrow>
         (case attempt (validatePlanDraft draft) (\<lambda>_.
             nextActionForStep (hd (VPD_Steps draft)) (ARC_ExecutionConfig (ED_config dispatch))) of
            Inl err \<Rightarrow> (Inl err, p)
          | Inr nextAction \<Rightarrow> applyPlanner svc claim guard draft nextAction p)
     | PlannerOutcomeFailed errorCode \<Rightarrow>
         if \<not> ErrorCode_Valid errorCode then (Inl ErrPersistenceInvariantViolation, p)
         else terminalize svc guard errorCode p
     | PlannerOutcomeUnknown \<Rightarrow> (Inl ErrPersistenceInvariantViolation, p))"

definition executePlanner ::
    "'x ExecuteTaskService \<Rightarrow> ExecutionClaim \<Rightarrow> executionDispatch \<Rightarrow> 'x progress \<Rightarrow>
     (GoError + ExecuteResult option) \<times> 'x progress" where
  "executePlanner svc claim dispatch =
    (let guard = actionGuard claim (ED_facts dispatch) (ED_checkpoint dispatch) in
     run_action svc claim
       \<lparr>Meta_ActionKind = CheckpointNextActionGeneratePlan, Meta_StepID = '''', Meta_ToolExecutionID = ''''\<rparr> guard
       (Inr (\<lambda>n w. env_planner (svc_env svc) n (planner_request claim dispatch) w))
       (planner_outcome svc claim dispatch guard))"

definition step_request :: "ExecutionScope \<Rightarrow> executionDispatch \<Rightarrow> ExecutionStep \<Rightarrow> StepExecutionRequest" where
  "step_request scope dispatch step =
    \<lparr>SQ_Scope = scope, SQ_NextAction = RC_NextAction (ED_checkpoint dispatch), SQ_Step = step,
     SQ_ResolvedReferences = RC_ResolvedReferences (ED_checkpoint dispatch),
     SQ_ApprovalContext = RC_ApprovalContext (ED_checkpoint dispatch),
     SQ_ExecutionConfig = ARC_ExecutionConfig (ED_config dispatch)\<rparr>"

text \<open>Confirming that the Step Executor left the facts it reports.\<close>

definition confirm ::
    "'x ExecuteTaskService \<Rightarrow> ('x db \<Rightarrow> GoError + bool \<times> 'x db) \<Rightarrow> ExecuteResult \<Rightarrow> 'x progress \<Rightarrow>
     (GoError + ExecuteResult option) \<times> 'x progress" where
  "confirm svc check result p =
    (case transact svc (\<lambda>_. check) p of
       (Inl err, p) \<Rightarrow> (Inl err, p)
     | (Inr confirmed, p) \<Rightarrow>
         (if confirmed then Inr (Some result) else Inl ErrPersistenceInvariantViolation, p))"

definition step_outcome ::
    "'x ExecuteTaskService \<Rightarrow> ExecutionClaim \<Rightarrow> executionDispatch \<Rightarrow> ExecutionActionGuard \<Rightarrow> StepID \<Rightarrow> StepOutcome \<Rightarrow>
     'x progress \<Rightarrow> (GoError + ExecuteResult option) \<times> 'x progress" where
  "step_outcome svc claim dispatch guard stepID outcome p =
    (case validateStepOutcome (RC_NextAction (ED_checkpoint dispatch)) outcome of
       Inl err \<Rightarrow> (Inl err, p)
     | Inr _ \<Rightarrow>
         (case outcome of
            StepOutcomeCompleted completion \<Rightarrow>
              commitCompletedStep svc claim guard completion (ARC_ExecutionConfig (ED_config dispatch)) p
          | StepOutcomeWaitingApproval \<Rightarrow>
              confirm svc (ConfirmExecutionWaitingApproval (svc_dispatch svc) claim stepID) ExecuteResultWaitingApproval p
          | StepOutcomeTerminalized \<Rightarrow>
              confirm svc (ConfirmExecutionTerminal (svc_dispatch svc) claim) ExecuteResultTerminal p
          | StepOutcomeFailed errorCode \<Rightarrow>
              if \<not> ErrorCode_Valid errorCode then (Inl ErrPersistenceInvariantViolation, p)
              else terminalize svc guard errorCode p
          | StepOutcomeStale \<Rightarrow> (Inr (Some ExecuteResultStale), p)
          | StepOutcomeUnknown \<Rightarrow> (Inl ErrPersistenceInvariantViolation, p)))"

text \<open>The dispatch of a step action always has its step: \<open>validateFrozenDispatch\<close> has seen to it.\<close>

definition executeStep ::
    "'x ExecuteTaskService \<Rightarrow> ExecutionClaim \<Rightarrow> executionDispatch \<Rightarrow> 'x progress \<Rightarrow>
     (GoError + ExecuteResult option) \<times> 'x progress" where
  "executeStep svc claim dispatch =
    (let step = the (Disp_Step (ED_facts dispatch));
         guard = actionGuard claim (ED_facts dispatch) (ED_checkpoint dispatch) in
     run_action svc claim
       \<lparr>Meta_ActionKind = RC_NextAction (ED_checkpoint dispatch), Meta_StepID = Step_StepID step,
        Meta_ToolExecutionID = ''''\<rparr> guard
       (attempt (newExecutionScope claim (ED_facts dispatch)) (\<lambda>scope.
         Inr (\<lambda>n w. env_steps (svc_env svc) n (step_request scope dispatch step) w)))
       (step_outcome svc claim dispatch guard (Step_StepID step)))"

subsection \<open>The loop\<close>

definition dispatch_round ::
    "'x ExecuteTaskService \<Rightarrow> ExecutionClaim \<Rightarrow> 'x progress \<Rightarrow> (GoError + ExecuteResult option) \<times> 'x progress" where
  "dispatch_round svc claim p =
    (case loadDispatch svc claim p of
       (Inl err, p) \<Rightarrow> (Inl err, p)
     | (Inr (Inl result), p) \<Rightarrow> (Inr (Some result), p)
     | (Inr (Inr dispatch), p) \<Rightarrow>
         (case RC_NextAction (ED_checkpoint dispatch) of
            CheckpointNextActionGeneratePlan \<Rightarrow> executePlanner svc claim dispatch p
          | CheckpointNextActionExecuteStep \<Rightarrow> executeStep svc claim dispatch p
          | CheckpointNextActionRequestApproval \<Rightarrow> executeStep svc claim dispatch p
          | CheckpointNextActionExecuteApprovedTool \<Rightarrow> executeStep svc claim dispatch p
          | CheckpointNextActionFinalizeRun \<Rightarrow> finalize svc claim p
          | CheckpointNextActionOther _ \<Rightarrow> (Inl ErrPersistenceInvariantViolation, p)))"

text \<open>The loop may run forever when every round succeeds: \<open>None\<close> is a loop that has not returned.\<close>

fun dispatch_loop ::
    "nat \<Rightarrow> 'x ExecuteTaskService \<Rightarrow> ExecutionClaim \<Rightarrow> 'x progress \<Rightarrow> ((GoError + ExecuteResult) \<times> 'x progress) option" where
  "dispatch_loop 0 svc claim p = None"
| "dispatch_loop (Suc fuel) svc claim p =
    (case dispatch_round svc claim p of
       (Inl err, p) \<Rightarrow> Some (Inl err, p)
     | (Inr (Some result), p) \<Rightarrow> Some (Inr result, p)
     | (Inr None, p) \<Rightarrow> dispatch_loop fuel svc claim p)"

definition ExecuteClaimedExecution ::
    "nat \<Rightarrow> 'x ExecuteTaskService \<Rightarrow> ExecutionClaim \<Rightarrow> 'x world \<Rightarrow> ((GoError + ExecuteResult) \<times> 'x progress) option" where
  "ExecuteClaimedExecution fuel svc claim w =
    (case validateExecutionClaim claim of
       Inl err \<Rightarrow> Some (Inl err, (0, w))
     | Inr _ \<Rightarrow> dispatch_loop fuel svc claim (0, w))"

end
