(* ===== verification/ExecuteSafety.thy ===== *)
theory ExecuteSafety
  imports ExecuteTask
begin

section \<open>Properties of ExecuteTask\<close>

subsection \<open>Frozen actions\<close>

lemma next_action_of_tools_filter:
  "next_action_of_tools name tools =
    (case filter (\<lambda>tool. Tool_Name tool = name \<and> Tool_Enabled tool) tools of
       [] \<Rightarrow> Inl ErrPersistenceInvariantViolation
     | tool # _ \<Rightarrow> if read_tool tool then Inr CheckpointNextActionExecuteStep
         else if write_tool tool then Inr CheckpointNextActionRequestApproval
         else Inl ErrPersistenceInvariantViolation)"
  by (induction name tools rule: next_action_of_tools.induct) auto

text \<open>
  C22: The action a commit freezes for a step is one the next dispatch accepts. A checkpoint that
  carries no approval and the action \<open>nextActionForStep\<close> computes for the current step of the plan
  passes \<open>validateFrozenDispatch\<close>, when the tool names are unique and only tool steps name one; so the
  loop does not close its own work as an invalid checkpoint.
\<close>

theorem frozen_action_is_accepted:
  assumes "nextActionForStep draft config = Inr action"
    and "PSD_Type draft = Step_Type step" and "PSD_ToolName draft = Step_ToolName step"
    and "Step_Type step \<noteq> StepTypeToolCall \<longrightarrow> Step_ToolName step = ''''"
    and "distinct (map Tool_Name (filter Tool_Enabled (TF_Tools (EC_ToolFramework config))))"
    and "Disp_Plan facts = Some plan" and "Disp_Step facts = Some step"
    and "Run_PlanID (Disp_Run facts) = Some (Plan_PlanID plan)"
    and "Run_CurrentStepID (Disp_Run facts) = Some (Step_StepID step)"
    and "RC_NextAction checkpoint = action" and "RC_ApprovalContext checkpoint = None"
  shows "validateFrozenDispatch facts checkpoint config = Inr None"
proof (cases "Step_Type step = StepTypeToolCall")
  case False
  with assms show ?thesis
    by (auto simp: nextActionForStep_def validateFrozenDispatch_def validate_frozen_step_def)
next
  case True
  let ?tools = "enabled_tools config (Step_ToolName step)"
  obtain tool rest where tools: "?tools = tool # rest"
    and action: "read_tool tool \<and> action = CheckpointNextActionExecuteStep \<or>
      \<not> read_tool tool \<and> write_tool tool \<and> action = CheckpointNextActionRequestApproval"
    using assms(1-3) True
    by (auto simp: nextActionForStep_def next_action_of_tools_filter enabled_tools_def split: list.splits if_splits)
  have "?tools = filter (\<lambda>t. Tool_Name t = Step_ToolName step) (filter Tool_Enabled (TF_Tools (EC_ToolFramework config)))"
    by (simp add: enabled_tools_def conj_commute)
  moreover have "length (filter (\<lambda>t. Tool_Name t = k) ts) \<le> 1" if "distinct (map Tool_Name ts)" for k ts
    using that by (induction ts) (auto simp: filter_empty_conv image_iff)
  ultimately have "rest = []" using assms(5) tools by (metis One_nat_def Suc_le_mono le_zero_eq length_0_conv length_Cons)
  then show ?thesis
    using assms(6-11) tools action True
    by (auto simp: validateFrozenDispatch_def validate_frozen_step_def validate_frozen_tool_def)
qed

text \<open>
  C21: A write tool is never run without an approval. When the dispatch of a tool step accepts the
  checkpoint and the tool is not a read tool, the action is a request for an approval, or it is the
  approved tool and the checkpoint carries an approval of exactly this tool, with a frozen input, given
  for this execution version or for the source version this execution was recovered from, or earlier.
\<close>

theorem write_tool_needs_approval:
  assumes "validateFrozenDispatch facts checkpoint config = Inr None"
    and "Disp_Step facts = Some step" and "Step_Type step = StepTypeToolCall"
    and "RC_NextAction checkpoint \<noteq> CheckpointNextActionFinalizeRun"
    and "\<forall>tool \<in> set (enabled_tools config (Step_ToolName step)). \<not> read_tool tool"
  shows "RC_NextAction checkpoint = CheckpointNextActionRequestApproval \<or>
    RC_NextAction checkpoint = CheckpointNextActionExecuteApprovedTool \<and>
    (\<exists>a. RC_ApprovalContext checkpoint = Some a \<and> APX_ToolName a = Step_ToolName step \<and>
       json_Valid (APX_FrozenToolInput a) \<and> APX_ApprovalID a \<noteq> '''' \<and>
       0 < APX_ApprovalExecutionVersion a \<and> APX_ApprovalExecutionVersion a \<le> RC_ExecutionVersion checkpoint \<and>
       (APX_ApprovalExecutionVersion a = RC_ExecutionVersion checkpoint \<or>
        (\<exists>v. RC_SourceExecutionVersion checkpoint = Some v \<and> APX_ApprovalExecutionVersion a \<le> v \<and>
           next_version v = RC_ExecutionVersion checkpoint)))"
proof -
  obtain plan where plan: "Disp_Plan facts = Some plan"
    using assms(1,2) by (cases "Disp_Plan facts") (auto simp: validateFrozenDispatch_def)
  then have "validate_frozen_step step checkpoint config = Inr None"
    using assms(1,2,4) by (auto simp: validateFrozenDispatch_def split: if_splits)
  then obtain tool where tool: "enabled_tools config (Step_ToolName step) = [tool]"
      "validate_frozen_tool checkpoint (Step_ToolName step) tool = Inr None"
    using assms(3) by (auto simp: validate_frozen_step_def split: list.splits)
  with assms(5) have "RC_NextAction checkpoint = CheckpointNextActionRequestApproval \<or>
      RC_NextAction checkpoint = CheckpointNextActionExecuteApprovedTool \<and>
      validCheckpointApprovalContext checkpoint (Step_ToolName step)"
    by (auto simp: validate_frozen_tool_def split: if_splits)
  then show ?thesis
    by (auto simp: validCheckpointApprovalContext_def validApprovalContext_def Let_def ExecutionVersion_Valid_def
        split: option.splits)
qed

text \<open>A dispatch of a step action has its step, so \<open>*dispatch.facts.Step\<close> never meets a nil pointer.\<close>

lemma frozen_dispatch_step:
  assumes "validateFrozenDispatch facts checkpoint config = Inr None"
    and "RC_NextAction checkpoint \<noteq> CheckpointNextActionGeneratePlan"
    and "RC_NextAction checkpoint \<noteq> CheckpointNextActionFinalizeRun"
  shows "\<exists>step. Disp_Step facts = Some step \<and> Run_CurrentStepID (Disp_Run facts) = Some (Step_StepID step)"
  using assms by (auto simp: validateFrozenDispatch_def split: option.splits if_splits)

subsection \<open>Loading\<close>

lemma dispatch_config_ok:
  assumes "dispatch_config svc facts checkpoint = Inr config"
  shows "HashExecutionConfigV1 (svc_ports svc) (ARC_ExecutionConfig config) =
      Inr (Exec_ExecutionConfigHash (Disp_Execution facts))"
    "RC_ExecutionConfigHash checkpoint = Exec_ExecutionConfigHash (Disp_Execution facts)"
  using assms by (auto simp: dispatch_config_def Let_def split: option.splits if_splits)

lemma close_invalid_no_dispatch [simp]:
  "attempt (close_invalid svc claim facts reason s) (\<lambda>(result, s). Inr (Inl result, s)) \<noteq> Inr (Inr dispatch, s')"
  by (cases "close_invalid svc claim facts reason s") auto

lemma load_work_dispatch:
  assumes "load_work svc claim now s = Inr (Inr dispatch, s')"
  shows "LockExecutionDispatch (svc_dispatch svc) claim s = Inr (ED_facts dispatch)" "s' = s"
    "executionClaimOwnsFacts claim (ED_facts dispatch) now"
    "validateFrozenDispatch (ED_facts dispatch) (ED_checkpoint dispatch) (ARC_ExecutionConfig (ED_config dispatch)) = Inr None"
    "dispatch_config svc (ED_facts dispatch) (ED_checkpoint dispatch) = Inr (ED_config dispatch)"
proof -
  obtain facts where f: "LockExecutionDispatch (svc_dispatch svc) claim s = Inr facts"
    using assms by (auto simp: load_work_def)
  then have owns: "executionClaimOwnsFacts claim facts now"
    using assms by (auto simp: load_work_def split: if_splits)
  with f assms obtain result where r: "LoadLatestForExecutionDispatch (svc_ports svc) (Claim_TaskID claim)
      (Claim_RunID claim) (Claim_ExecutionVersion claim) s = Inr result"
    by (auto simp: load_work_def)
  obtain checkpoint where c: "result = ExecutionCheckpointValid checkpoint"
    using assms f owns r by (cases result) (auto simp: load_work_def split: if_splits)
  have "dispatch = \<lparr>ED_facts = facts, ED_checkpoint = checkpoint, ED_config = ED_config dispatch\<rparr> \<and> s' = s \<and>
      validateFrozenDispatch facts checkpoint (ARC_ExecutionConfig (ED_config dispatch)) = Inr None \<and>
      dispatch_config svc facts checkpoint = Inr (ED_config dispatch)"
    using assms f owns r c by (auto simp: load_work_def split: option.splits)
  then show "LockExecutionDispatch (svc_dispatch svc) claim s = Inr (ED_facts dispatch)" "s' = s"
    "executionClaimOwnsFacts claim (ED_facts dispatch) now"
    "validateFrozenDispatch (ED_facts dispatch) (ED_checkpoint dispatch) (ARC_ExecutionConfig (ED_config dispatch)) = Inr None"
    "dispatch_config svc (ED_facts dispatch) (ED_checkpoint dispatch) = Inr (ED_config dispatch)"
    using f owns by (metis executionDispatch.select_convs(1,2))+
qed

lemma owns_in_time:
  "executionClaimOwnsFacts claim facts now \<Longrightarrow> now < Task_DeadlineAt (Disp_Task facts)"
  by (auto simp: executionClaimOwnsFacts_def CheckGuard_def split: if_splits option.splits)

subsection \<open>The counter\<close>

lemma transact_counter [simp]: "fst (snd (transact svc work p)) = Suc (fst p)"
  by (simp add: transact_def Let_def case_prod_beta)

lemma on_registry_counter [simp]: "fst (snd (on_registry svc f p)) = Suc (fst p)"
  by (simp add: on_registry_def case_prod_beta)

lemma call_port_counter [simp]: "fst (snd (call_port svc port p)) = Suc (fst p)"
  by (simp add: call_port_def case_prod_beta)

lemma unregister_counter [simp]: "fst (unregister svc h p) = Suc (fst p)"
  by (simp add: unregister_def)

lemma startAction_counter [simp]: "fst (snd (startAction svc guard p)) = Suc (fst p)"
  by (simp add: startAction_def)

lemma loadDispatch_counter [simp]: "fst (snd (loadDispatch svc claim p)) = Suc (fst p)"
  by (simp add: loadDispatch_def)

text \<open>Every part of a round moves the counter on, a round by at least one.\<close>

lemma commits_advance:
  "fst p \<le> fst (snd (applyPlanner svc claim guard draft action p))"
  "fst p \<le> fst (snd (commitCompletedStep svc claim guard completion config p))"
  "fst p \<le> fst (snd (terminalize svc guard code p))"
  "fst p \<le> fst (snd (confirm svc check result p))"
  by (simp_all add: applyPlanner_def commitCompletedStep_def terminalize_def confirm_def case_prod_beta split: sum.split)

lemma outcomes_advance:
  "fst p \<le> fst (snd (planner_outcome svc claim dispatch guard outcome p))"
  "fst p \<le> fst (snd (step_outcome svc claim dispatch guard stepID outcome' p))"
proof -
  show "fst p \<le> fst (snd (planner_outcome svc claim dispatch guard outcome p))"
    by (cases outcome) (simp_all add: planner_outcome_def commits_advance split: sum.split)
  show "fst p \<le> fst (snd (step_outcome svc claim dispatch guard stepID outcome' p))"
    by (cases outcome') (simp_all add: step_outcome_def commits_advance split: sum.split)
qed

lemma admitted_call_advances:
  assumes "\<And>o' q. fst q \<le> fst (snd (handle o' q))"
  shows "fst p \<le> fst (snd (admitted_call svc h port handle p))"
proof -
  have k: "fst p \<le> fst (snd (handle o' (unregister svc h q)))" if "fst p \<le> fst q" for o' q
    using assms [of "unregister svc h q" o'] that by simp
  show ?thesis
    by (simp add: admitted_call_def case_prod_beta k split: sum.split bool.split)
qed

lemma run_action_counter:
  assumes "\<And>o' q. fst q \<le> fst (snd (handle o' q))"
  shows "fst p < fst (snd (run_action svc claim metadata guard port handle p))"
proof -
  have k: "fst p < Suc (fst (snd (admitted_call svc h port handle q)))" if "fst p \<le> fst q" for h q
  proof -
    have "fst q \<le> fst (snd (admitted_call svc h port handle q))"
      by (rule admitted_call_advances) (rule assms)
    then show ?thesis using that by simp
  qed
  show ?thesis
    by (simp add: run_action_def case_prod_beta k split: sum.split)
qed

lemma dispatch_round_counter: "fst p < fst (snd (dispatch_round svc claim p))"
proof -
  have "fst q < fst (snd (executePlanner svc claim dispatch q))" "fst q < fst (snd (executeStep svc claim dispatch q))"
    for dispatch q
    by (simp_all add: executePlanner_def executeStep_def Let_def run_action_counter outcomes_advance)
  moreover have "fst q < fst (snd (finalize svc claim q))" for q
    by (simp add: finalize_def case_prod_beta)
  ultimately have "fst p < fst (snd (executePlanner svc claim dispatch (snd (loadDispatch svc claim p))))"
    "fst p < fst (snd (executeStep svc claim dispatch (snd (loadDispatch svc claim p))))"
    "fst p < fst (snd (finalize svc claim (snd (loadDispatch svc claim p))))" for dispatch
    by (metis Suc_lessD loadDispatch_counter)+
  then show ?thesis
    by (simp add: dispatch_round_def case_prod_beta split: sum.split CheckpointNextAction.split)
qed

subsection \<open>The loop ends\<close>

definition deadline_bound :: "'x ExecuteTaskService \<Rightarrow> ExecutionClaim \<Rightarrow> time \<Rightarrow> bool" where
  "deadline_bound svc claim d \<longleftrightarrow>
     (\<forall>s facts. LockExecutionDispatch (svc_dispatch svc) claim s = Inr facts \<longrightarrow> Task_DeadlineAt (Disp_Task facts) \<le> d)"

definition clock_passes :: "'x ExecuteTaskService \<Rightarrow> nat \<Rightarrow> time \<Rightarrow> bool" where
  "clock_passes svc m d \<longleftrightarrow> (\<forall>n\<ge>m. d \<le> call_now (env_call (svc_env svc) n))"

lemma load_late:
  assumes "load_work svc claim now s = Inr (Inr dispatch, s')" and "deadline_bound svc claim d"
  shows "now < d"
  using load_work_dispatch(1,3) [OF assms(1)] owns_in_time assms(2) by (fastforce simp: deadline_bound_def)

text \<open>What a transaction returned, its work returned.\<close>

lemma transact_returned:
  assumes "fst (transact svc work p) = Inr a"
  shows "\<exists>s s'. work (call_now (env_call (svc_env svc) (fst p))) s = Inr (a, s')"
proof -
  let ?c = "env_call (svc_env svc) (fst p)"
  let ?s = "fst (env_moves (svc_env svc) (fst p) (snd p))"
  have "fst (Execute (call_fault ?c) (work (call_now ?c)) ?s) = Inr a"
    using assms by (simp add: transact_def Let_def case_prod_beta)
  then have "\<exists>s'. work (call_now ?c) ?s = Inr (a, s')"
    by (auto simp: Execute_def split: option.splits sum.splits if_splits)
  then show ?thesis by blast
qed

lemma late_round:
  assumes "deadline_bound svc claim d" and "clock_passes svc m d" and "m \<le> fst p"
  shows "fst (dispatch_round svc claim p) \<noteq> Inr None"
proof -
  have "fst (loadDispatch svc claim p) \<noteq> Inr (Inr dispatch)" for dispatch
  proof
    assume "fst (loadDispatch svc claim p) = Inr (Inr dispatch)"
    from transact_returned [OF this [unfolded loadDispatch_def]] obtain s s' where
      "load_work svc claim (call_now (env_call (svc_env svc) (fst p))) s = Inr (Inr dispatch, s')" by blast
    from load_late [OF this assms(1)] show False using assms(2,3) by (fastforce simp: clock_passes_def)
  qed
  then show ?thesis by (simp add: dispatch_round_def case_prod_beta split: sum.split)
qed

lemma dispatch_loop_returns:
  assumes "deadline_bound svc claim d" and "clock_passes svc m d"
  shows "m \<le> fst p + fuel \<Longrightarrow> dispatch_loop (Suc fuel) svc claim p \<noteq> None"
proof (induction fuel arbitrary: p)
  case 0
  then show ?case using late_round [OF assms, of p] by (auto split: sum.split option.split prod.split)
next
  case (Suc fuel)
  obtain r p1 where r: "dispatch_round svc claim p = (r, p1)" by (rule prod.exhaust)
  have "fst p < fst p1" using dispatch_round_counter [of p svc claim] r by simp
  then have "m \<le> fst p1 + fuel" using Suc.prems by simp
  then have "dispatch_loop (Suc fuel) svc claim p1 \<noteq> None" by (rule Suc.IH)
  then have "\<exists>y. dispatch_loop (Suc fuel) svc claim p1 = Some y" by blast
  then show ?case
    by (cases p1) (simp add: r del: dispatch_loop.simps add: dispatch_loop.simps(2) [of "Suc fuel"] split: sum.split option.split)
qed

text \<open>
  C23: The execution loop ends. Whatever the planner, the steps and the other services do, once the
  database clock has passed the deadline, which is frozen when the task is created, no further round
  begins: with a clock that has passed it by the \<open>m\<close>-th transaction the loop returns within \<open>m + 1\<close>
  rounds.
\<close>

theorem execution_loop_ends:
  assumes "deadline_bound svc claim d" and "clock_passes svc m d"
  shows "\<exists>result. ExecuteClaimedExecution (Suc m) svc claim w = Some result"
  using dispatch_loop_returns [OF assms, of "(0, w)" m]
  by (auto simp: ExecuteClaimedExecution_def simp del: dispatch_loop.simps split: sum.split)

subsection \<open>A claim that is lost\<close>

subsection \<open>The slot of the execution\<close>

text \<open>
  A property of the registry that the other services keep, and \<open>f\<close> keeps, is kept by the parts of a round.
\<close>

definition moves_keep :: "(Registry \<Rightarrow> bool) \<Rightarrow> 'x ExecuteTaskService \<Rightarrow> bool" where
  "moves_keep P svc \<longleftrightarrow> (\<forall>n w. P (snd w) \<longrightarrow> P (snd (env_moves (svc_env svc) n w)))"

lemma moves_keepD: "moves_keep P svc \<Longrightarrow> P (snd w) \<Longrightarrow> P (snd (env_moves (svc_env svc) n w))"
  unfolding moves_keep_def by blast

lemma transact_keeps: "moves_keep P svc \<Longrightarrow> P (snd (snd p)) \<Longrightarrow> P (snd (snd (snd (transact svc work p))))"
  by (simp add: moves_keepD transact_def Let_def case_prod_beta)

lemma on_registry_keeps:
  "moves_keep P svc \<Longrightarrow> (\<And>reg. P reg \<Longrightarrow> Q (snd (f reg))) \<Longrightarrow> P (snd (snd p)) \<Longrightarrow>
     Q (snd (snd (snd (on_registry svc f p))))"
  by (simp add: moves_keepD on_registry_def case_prod_beta)

lemma call_port_keeps: "moves_keep P svc \<Longrightarrow> P (snd (snd p)) \<Longrightarrow> P (snd (snd (snd (call_port svc port p))))"
  by (simp add: moves_keepD call_port_def case_prod_beta)

lemma commits_keep:
  assumes "moves_keep P svc" and "P (snd (snd p))"
  shows "P (snd (snd (snd (applyPlanner svc claim guard draft action p))))"
    "P (snd (snd (snd (commitCompletedStep svc claim guard completion config p))))"
    "P (snd (snd (snd (terminalize svc guard code p))))"
    "P (snd (snd (snd (confirm svc check result p))))"
    "P (snd (snd (snd (startAction svc guard p))))"
    "P (snd (snd (snd (finalize svc claim p))))"
    "P (snd (snd (snd (loadDispatch svc claim p))))"
  by (simp_all add: applyPlanner_def commitCompletedStep_def terminalize_def confirm_def startAction_def finalize_def
      loadDispatch_def case_prod_beta transact_keeps [OF assms] assms(2) split: sum.split)

lemma planner_outcome_keeps:
  assumes "moves_keep P svc" and "P (snd (snd p))"
  shows "P (snd (snd (snd (planner_outcome svc claim dispatch guard outcome p))))"
proof (cases outcome)
  case (PlannerOutcomeCompleted draft)
  then show ?thesis
    by (cases "attempt (validatePlanDraft draft) (\<lambda>_.
          nextActionForStep (hd (VPD_Steps draft)) (ARC_ExecutionConfig (ED_config dispatch)))")
      (simp_all only: planner_outcome_def PlannerOutcome.case sum.case snd_conv assms(2) commits_keep [OF assms])
next
  case (PlannerOutcomeFailed code)
  then show ?thesis
    by (cases "ErrorCode_Valid code")
      (simp_all only: planner_outcome_def PlannerOutcome.case simp_thms if_True if_False snd_conv assms(2)
        commits_keep [OF assms])
next
  case PlannerOutcomeUnknown
  then show ?thesis by (simp only: planner_outcome_def PlannerOutcome.case snd_conv assms(2))
qed

lemma step_outcome_keeps:
  assumes "moves_keep P svc" and "P (snd (snd p))"
  shows "P (snd (snd (snd (step_outcome svc claim dispatch guard stepID outcome p))))"
proof (cases "validateStepOutcome (RC_NextAction (ED_checkpoint dispatch)) outcome")
  case (Inl err)
  then show ?thesis by (simp only: step_outcome_def sum.case snd_conv assms(2))
next
  case (Inr u)
  note step = step_outcome_def Inr sum.case StepOutcome.case snd_conv assms(2) commits_keep [OF assms]
  show ?thesis
  proof (cases outcome)
    case (StepOutcomeFailed code)
    then show ?thesis
      using Inr by (cases "ErrorCode_Valid code") (simp_all only: step simp_thms if_True if_False)
  qed (use Inr in \<open>simp_all only: step\<close>)
qed

text \<open>While an action runs, its handle is the only one its key may lead to; afterwards the key is free.\<close>

definition slot_of :: "nat \<Rightarrow> Key \<Rightarrow> Registry \<Rightarrow> bool" where
  "slot_of h key reg \<longleftrightarrow> registry_ok reg \<and> h < length (reg_heap reg) \<and> entry_key (reg_heap reg ! h) = key \<and>
     (\<forall>a. reg_entries reg key = Some a \<longrightarrow> a = h)"

definition slot_free :: "Key \<Rightarrow> Registry \<Rightarrow> bool" where
  "slot_free key reg \<longleftrightarrow> registry_ok reg \<and> reg_entries reg key = None"

lemma slot_of_step:
  assumes "slot_of h key reg" and "registry_step\<^sup>*\<^sup>* reg reg'"
    and "\<And>a. reg_entries reg' key = Some a \<Longrightarrow> reg_entries reg key = Some a"
  shows "slot_of h key reg'"
proof -
  have h: "registry_ok reg" "h < length (reg_heap reg)" "entry_key (reg_heap reg ! h) = key"
    "\<And>a. reg_entries reg key = Some a \<Longrightarrow> a = h"
    using assms(1) by (simp_all add: slot_of_def)
  have "h < length (reg_heap reg') \<and> entry_key (reg_heap reg' ! h) = key"
    using registry_steps_entry [OF assms(2) h(2)] h(3) by metis
  then show ?thesis
    unfolding slot_of_def using registry_steps_ok [OF assms(2) h(1)] h(4) assms(3) by blast
qed

lemma Activate_slot:
  assumes "slot_of h key reg"
  shows "slot_of h key (snd (Activate h reg))"
proof (rule slot_of_step [OF assms])
  show "registry_step\<^sup>*\<^sup>* reg (snd (Activate h reg))"
  proof -
    have "h < length (reg_heap reg)" using assms by (simp add: slot_of_def)
    then show ?thesis by (rule Activate_steps) (rule prod.collapse [symmetric])
  qed
  show "reg_entries reg key = Some a" if "reg_entries (snd (Activate h reg)) key = Some a" for a
    using that by (simp add: Activate_def split: if_splits)
qed

lemma Unregister_slot:
  assumes "slot_of h key reg"
  shows "slot_of h key (Unregister h reg)" "slot_free key (Unregister h reg)"
proof -
  have h: "registry_ok reg" "h < length (reg_heap reg)" "entry_key (reg_heap reg ! h) = key"
    "\<And>a. reg_entries reg key = Some a \<Longrightarrow> a = h"
    using assms by (simp_all add: slot_of_def)
  have steps: "registry_step\<^sup>*\<^sup>* reg (Unregister h reg)" using h(2) by (rule Unregister_steps)
  have "reg_entries reg key = None" if "entry_once (reg_heap reg ! h)"
    using that h by (metis not_Some_eq registry_ok_def)
  moreover have "reg_entries reg key = None \<or> reg_entries reg key = Some h" using h(4) by (metis not_Some_eq)
  ultimately have none: "reg_entries (Unregister h reg) key = None"
    using h(3) by (auto simp: Unregister_def forget_handle_entries)
  then show "slot_free key (Unregister h reg)"
    using registry_steps_ok [OF steps h(1)] by (simp add: slot_free_def)
  show "slot_of h key (Unregister h reg)"
    by (rule slot_of_step [OF assms steps]) (simp add: none)
qed

lemma Prepare_slot:
  assumes "slot_free key reg"
  shows "case fst (Prepare parent key metadata reg) of
      Inl e \<Rightarrow> slot_free key (snd (Prepare parent key metadata reg))
    | Inr h \<Rightarrow> slot_of h key (snd (Prepare parent key metadata reg))"
proof (cases "fst (Prepare parent key metadata reg)")
  case (Inl e)
  then show ?thesis using assms by (auto simp: Prepare_def Let_def slot_free_def split: sum.splits)
next
  case (Inr h)
  then obtain reg' where r: "Prepare parent key metadata reg = (Inr h, reg')" by (metis prod.collapse)
  then have "registry_ok reg'"
    using assms registry_step_ok [OF registry_step.prepare [OF r]] by (simp add: slot_free_def)
  then have "slot_of h key reg'" using r assms by (auto simp: Prepare_ok_iff slot_of_def)
  then show ?thesis by (simp add: r)
qed

text \<open>The other services may do anything to the registry but register this key.\<close>

definition quiet :: "Key \<Rightarrow> 'x ExecuteTaskService \<Rightarrow> bool" where
  "quiet key svc \<longleftrightarrow> (\<forall>n w. registry_step\<^sup>*\<^sup>* (snd w) (snd (env_moves (svc_env svc) n w)) \<and>
     (\<forall>a. reg_entries (snd (env_moves (svc_env svc) n w)) key = Some a \<longrightarrow> reg_entries (snd w) key = Some a))"

lemma quiet_keeps:
  assumes "quiet key svc"
  shows "moves_keep (slot_of h key) svc" "moves_keep (slot_free key) svc"
proof -
  have steps: "registry_step\<^sup>*\<^sup>* (snd w) (snd (env_moves (svc_env svc) n w))"
    and same: "reg_entries (snd (env_moves (svc_env svc) n w)) key = Some a \<Longrightarrow> reg_entries (snd w) key = Some a" for n w a
    using assms unfolding quiet_def by blast+
  show "moves_keep (slot_of h key) svc"
    unfolding moves_keep_def by (intro allI impI) (rule slot_of_step [OF _ steps], assumption, erule same)
  show "moves_keep (slot_free key) svc"
    unfolding moves_keep_def slot_free_def using registry_steps_ok [OF steps] same by (metis not_None_eq)
qed

lemma admitted_call_slot:
  assumes "quiet key svc" and "slot_of h key (snd (snd p))"
    and "\<And>outcome q. slot_of h key (snd (snd q)) \<Longrightarrow> slot_of h key (snd (snd (snd (handle outcome q))))"
  shows "slot_of h key (snd (snd (snd (admitted_call svc h port handle p))))"
proof -
  note keep = quiet_keeps(1) [OF assms(1), of h]
  have activate: "slot_of h key (snd (snd (snd (on_registry svc (Activate h) q))))" if "slot_of h key (snd (snd q))" for q
    by (rule on_registry_keeps [OF keep _ that]) (rule Activate_slot)
  have look: "slot_of h key (snd (snd (snd (on_registry svc (\<lambda>reg. (handle_cancelled h reg, reg)) q))))"
    if "slot_of h key (snd (snd q))" for q
    by (rule on_registry_keeps [OF keep _ that]) simp
  have call: "slot_of h key (snd (snd (snd (call_port svc port q))))" if "slot_of h key (snd (snd q))" for port q
    using call_port_keeps [OF keep that] .
  have leave: "slot_of h key (snd (snd (unregister svc h q)))" if "slot_of h key (snd (snd q))" for q
    unfolding unregister_def by (rule on_registry_keeps [OF keep _ that]) (simp add: Unregister_slot(1))
  show ?thesis
    using assms(2) by (simp add: admitted_call_def case_prod_beta activate look call leave assms(3) split: sum.split bool.split)
qed

lemma run_action_slot:
  assumes "quiet (activeCallKey claim) svc" and "slot_free (activeCallKey claim) (snd (snd p))"
    and "\<And>h outcome q. slot_of h (activeCallKey claim) (snd (snd q)) \<Longrightarrow>
      slot_of h (activeCallKey claim) (snd (snd (snd (handle outcome q))))"
  shows "slot_free (activeCallKey claim) (snd (snd (snd (run_action svc claim metadata guard port handle p))))"
proof -
  let ?key = "activeCallKey claim"
  let ?prepare = "on_registry svc (Prepare (env_parent (svc_env svc) (fst p)) ?key metadata) p"
  have prepared: "case fst ?prepare of Inl e \<Rightarrow> slot_free ?key (snd (snd (snd ?prepare)))
      | Inr h \<Rightarrow> slot_of h ?key (snd (snd (snd ?prepare)))"
    unfolding on_registry_def case_prod_beta fst_conv snd_conv
    by (rule Prepare_slot [OF moves_keepD [OF quiet_keeps(2) [OF assms(1)] assms(2)]])
  have leave: "slot_free ?key (snd (snd (unregister svc h q)))" if "slot_of h ?key (snd (snd q))" for h q
    unfolding unregister_def
    by (rule on_registry_keeps [OF quiet_keeps(1) [OF assms(1)] _ that]) (simp add: Unregister_slot(2))
  have inside: "slot_of h ?key (snd (snd (snd (startAction svc guard q))))"
    "slot_of h ?key (snd (snd (snd (admitted_call svc h port handle q))))" if "slot_of h ?key (snd (snd q))" for h q
    by (rule commits_keep(5) [OF quiet_keeps(1) [OF assms(1)] that]) (rule admitted_call_slot [OF assms(1) that assms(3)])
  show ?thesis
    using prepared by (simp add: run_action_def case_prod_beta leave inside split: sum.split_asm sum.split)
qed

lemma dispatch_round_slot:
  assumes "quiet (activeCallKey claim) svc" and "slot_free (activeCallKey claim) (snd (snd p))"
  shows "slot_free (activeCallKey claim) (snd (snd (snd (dispatch_round svc claim p))))"
proof -
  note free = commits_keep [OF quiet_keeps(2) [OF assms(1)]]
  have loaded: "slot_free (activeCallKey claim) (snd (snd (snd (loadDispatch svc claim p))))"
    using free(7) assms(2) by blast
  have actions: "slot_free (activeCallKey claim) (snd (snd (snd (executePlanner svc claim dispatch q))))"
    "slot_free (activeCallKey claim) (snd (snd (snd (executeStep svc claim dispatch q))))"
    if "slot_free (activeCallKey claim) (snd (snd q))" for dispatch q
    using that planner_outcome_keeps [OF quiet_keeps(1) [OF assms(1)]] step_outcome_keeps [OF quiet_keeps(1) [OF assms(1)]]
    by (auto simp: executePlanner_def executeStep_def Let_def intro!: run_action_slot [OF assms(1)])
  show ?thesis
    using loaded by (simp add: dispatch_round_def case_prod_beta actions free(6) split: sum.split CheckpointNextAction.split)
qed

lemma dispatch_loop_slot:
  "dispatch_loop fuel svc claim p = Some (result, p') \<Longrightarrow> quiet (activeCallKey claim) svc \<Longrightarrow>
     slot_free (activeCallKey claim) (snd (snd p)) \<Longrightarrow> slot_free (activeCallKey claim) (snd (snd p'))"
proof (induction fuel arbitrary: p)
  case 0
  then show ?case by simp
next
  case (Suc fuel)
  obtain r q where r: "dispatch_round svc claim p = (r, q)" by (rule prod.exhaust)
  have "slot_free (activeCallKey claim) (snd (snd q))"
    using dispatch_round_slot [OF Suc.prems(2,3)] r by simp
  then show ?case
    using Suc.prems Suc.IH [of q] r by (auto split: sum.splits option.splits)
qed

text \<open>
  C24: An execution leaves no active call behind. However the call ends (a result, an error of a port or
  of a commit, a cancellation in between) and whatever cancellations the other services send meanwhile,
  the slot of this execution and worker is free again when it returns, so a later dispatch of the same
  execution is not refused as a duplicate.
\<close>

theorem execution_frees_its_slot:
  assumes "ExecuteClaimedExecution fuel svc claim w = Some (result, (n, (s', reg')))"
    and "registry_ok (snd w)" and "reg_entries (snd w) (activeCallKey claim) = None"
    and "quiet (activeCallKey claim) svc"
  shows "registry_ok reg' \<and> reg_entries reg' (activeCallKey claim) = None"
proof -
  have "slot_free (activeCallKey claim) (snd w)" using assms(2,3) by (simp add: slot_free_def)
  then have "slot_free (activeCallKey claim) reg'"
    using assms(1) dispatch_loop_slot [of fuel svc claim "(0, w)" result "(n, s', reg')", OF _ assms(4)]
    by (auto simp: ExecuteClaimedExecution_def split: sum.splits)
  then show ?thesis by (simp add: slot_free_def)
qed

subsection \<open>The properties at work\<close>

text \<open>
  A running task whose planner fails, over a repository that reads the rows and closes nothing: the
  clock passes the deadline at the fifth transaction.
\<close>

definition dispatch_agent :: AgentRuntimeConfig where
  "dispatch_agent = sample_agent\<lparr>ARC_PlanningToolCatalogSelector := sample_selector\<lparr>
     Selector_AllowedTools := Some [''get_pod'', ''patch_deployment''], Selector_ExpectedSnapshotHash := sample_hash\<rparr>\<rparr>"

definition sample_claim :: ExecutionClaim where
  "sample_claim = \<lparr>Claim_TaskID = ''t1'', Claim_RunID = ''r1'', Claim_ExecutionVersion = 1, Claim_WorkerID = ''w1'',
     Claim_ClaimedAt = 1100\<rparr>"

definition sample_facts :: ExecutionDispatchFacts where
  "sample_facts = \<lparr>Disp_Task = sample_task TaskStatusRunning None, Disp_Run = sample_run RunStatusRunning,
     Disp_Execution = sample_execution TaskExecutionStatusRunning (Some ''w1''), Disp_Plan = None, Disp_Step = None\<rparr>"

definition sample_step :: ExecutionStep where
  "sample_step = \<lparr>Step_StepID = ''s1'', Step_Sequence = 1, Step_Type = StepTypeToolCall, Step_Status = StepStatusPending,
     Step_Input = None, Step_ToolName = ''patch_deployment''\<rparr>"

definition sample_raw :: RawMessage where
  "sample_raw = \<lparr>Raw_Bytes = ''{}'', Raw_Value = Some (JObj [])\<rparr>"

definition sample_repository :: "unit ExecutionDispatchRepository" where
  "sample_repository =
    \<lparr>LockExecutionDispatch = (\<lambda>claim s. Inr sample_facts), LockStep = (\<lambda>claim k s. Inr sample_step),
     StartExecutionAction = (\<lambda>g s. Inr (True, s)), ApplyPlannerCompleted = (\<lambda>q s. Inr (True, s)),
     ApplyStepCompleted = (\<lambda>q s. Inr (True, s)), TerminalizeCheckpointInvalid = (\<lambda>q s. Inr (True, s)),
     TerminalizeExecution = (\<lambda>g code s. Inr (True, s)), FinalizeExecution = (\<lambda>g s. Inr (True, s)),
     ConfirmExecutionWaitingApproval = (\<lambda>claim k s. Inr (True, s)), ConfirmExecutionTerminal = (\<lambda>claim s. Inr (True, s))\<rparr>"

definition sample_service :: "unit ExecuteTaskService" where
  "sample_service =
    \<lparr>svc_ports = sample_ports\<lparr>LookupAgent := \<lambda>k. Some dispatch_agent\<rparr>, svc_dispatch = sample_repository,
     svc_env = \<lparr>env_call = (\<lambda>n. sample_call\<lparr>call_now := 2000 + 1000 * int n\<rparr>), env_moves = (\<lambda>n w. w),
       env_parent = (\<lambda>n. None), env_planner = (\<lambda>n q w. Inr (PlannerOutcomeFailed ErrorCodeModelCallFailed)),
       env_steps = (\<lambda>n q w. Inl (ErrText ''unused''))\<rparr>\<rparr>"

lemmas sample_service_defs = sample_service_def sample_repository_def sample_facts_def sample_claim_def

lemma sample_service_quiet: "quiet key sample_service"
  by (simp add: quiet_def sample_service_def)

lemma sample_service_fields:
  "env_moves (svc_env sample_service) n w = w"
  "env_call (svc_env sample_service) n = sample_call\<lparr>call_now := 2000 + 1000 * int n\<rparr>"
  "LockExecutionDispatch (svc_dispatch sample_service) claim s = Inr sample_facts"
  by (simp_all add: sample_service_def sample_repository_def)

lemma sample_service_bound: "deadline_bound sample_service claim 5000" "clock_passes sample_service 3 5000"
  by (simp_all add: deadline_bound_def clock_passes_def sample_service_fields sample_facts_def sample_task_def)

lemma sample_claim_valid: "validateExecutionClaim sample_claim = Inr ()"
  by (simp add: validateExecutionClaim_def sample_claim_def ExecutionVersion_Valid_def)

theorem frozen_action_is_accepted_witness:
  "validateFrozenDispatch
     (sample_facts\<lparr>Disp_Plan := Some \<lparr>Plan_PlanID = ''p1''\<rparr>, Disp_Step := Some sample_step,
        Disp_Run := (sample_run RunStatusRunning)\<lparr>Run_PlanID := Some ''p1'', Run_CurrentStepID := Some ''s1''\<rparr>\<rparr>)
     (sample_checkpoint\<lparr>RC_NextAction := CheckpointNextActionRequestApproval\<rparr>) sample_config = Inr None"
proof (rule frozen_action_is_accepted
    [where draft = "\<lparr>PSD_StepID = ''s1'', PSD_Sequence = 1, PSD_Type = StepTypeToolCall, PSD_Input = None,
        PSD_ToolName = ''patch_deployment''\<rparr>" and step = sample_step and plan = "\<lparr>Plan_PlanID = ''p1''\<rparr>"
      and action = CheckpointNextActionRequestApproval])
  show "nextActionForStep \<lparr>PSD_StepID = ''s1'', PSD_Sequence = 1, PSD_Type = StepTypeToolCall, PSD_Input = None,
      PSD_ToolName = ''patch_deployment''\<rparr> sample_config = Inr CheckpointNextActionRequestApproval"
    by (simp add: nextActionForStep_def sample_config_def sample_tools_def read_tool_def write_tool_def)
  show "distinct (map Tool_Name (filter Tool_Enabled (TF_Tools (EC_ToolFramework sample_config))))"
    by (simp add: sample_config_def sample_tools_def)
qed (simp_all add: sample_step_def sample_facts_def sample_run_def sample_checkpoint_def)

theorem write_tool_needs_approval_witness:
  "let checkpoint = sample_checkpoint\<lparr>RC_NextAction := CheckpointNextActionExecuteApprovedTool,
       RC_ApprovalContext := Some \<lparr>APX_ApprovalID = ''a1'', APX_ApprovalExecutionVersion = 1,
         APX_ToolName = ''patch_deployment'', APX_FrozenToolInput = sample_raw, APX_ObservedValues = sample_raw,
         APX_ResourceVersion = ''7'', APX_FrozenInputHash = sample_hash\<rparr>\<rparr>
   in RC_NextAction checkpoint = CheckpointNextActionRequestApproval \<or>
     RC_NextAction checkpoint = CheckpointNextActionExecuteApprovedTool \<and>
     (\<exists>a. RC_ApprovalContext checkpoint = Some a \<and> APX_ToolName a = Step_ToolName sample_step \<and>
        json_Valid (APX_FrozenToolInput a) \<and> APX_ApprovalID a \<noteq> '''' \<and>
        0 < APX_ApprovalExecutionVersion a \<and> APX_ApprovalExecutionVersion a \<le> RC_ExecutionVersion checkpoint \<and>
        (APX_ApprovalExecutionVersion a = RC_ExecutionVersion checkpoint \<or>
         (\<exists>v. RC_SourceExecutionVersion checkpoint = Some v \<and> APX_ApprovalExecutionVersion a \<le> v \<and>
            next_version v = RC_ExecutionVersion checkpoint)))"
  unfolding Let_def
proof (rule write_tool_needs_approval [where config = sample_config and
      facts = "sample_facts\<lparr>Disp_Plan := Some \<lparr>Plan_PlanID = ''p1''\<rparr>, Disp_Step := Some sample_step,
        Disp_Run := (sample_run RunStatusRunning)\<lparr>Run_PlanID := Some ''p1'', Run_CurrentStepID := Some ''s1''\<rparr>\<rparr>"])
  have tools: "enabled_tools sample_config ''patch_deployment'' = [sample_tools ! 1]"
    by (simp add: enabled_tools_def sample_config_def sample_tools_def)
  show "\<forall>tool\<in>set (enabled_tools sample_config (Step_ToolName sample_step)). \<not> read_tool tool"
    by (simp add: sample_step_def tools) (simp add: sample_tools_def read_tool_def)
  show "validateFrozenDispatch (sample_facts\<lparr>Disp_Plan := Some \<lparr>Plan_PlanID = ''p1''\<rparr>, Disp_Step := Some sample_step,
      Disp_Run := (sample_run RunStatusRunning)\<lparr>Run_PlanID := Some ''p1'', Run_CurrentStepID := Some ''s1''\<rparr>\<rparr>)
    (sample_checkpoint\<lparr>RC_NextAction := CheckpointNextActionExecuteApprovedTool,
       RC_ApprovalContext := Some \<lparr>APX_ApprovalID = ''a1'', APX_ApprovalExecutionVersion = 1,
         APX_ToolName = ''patch_deployment'', APX_FrozenToolInput = sample_raw, APX_ObservedValues = sample_raw,
         APX_ResourceVersion = ''7'', APX_FrozenInputHash = sample_hash\<rparr>\<rparr>) sample_config = Inr None"
    by (simp add: validateFrozenDispatch_def validate_frozen_step_def sample_step_def tools)
      (simp add: sample_tools_def validate_frozen_tool_def read_tool_def write_tool_def sample_checkpoint_def
        validCheckpointApprovalContext_def validApprovalContext_def ExecutionVersion_Valid_def json_Valid_def sample_raw_def)
qed (simp_all add: sample_step_def sample_checkpoint_def)

theorem execution_loop_ends_witness:
  "\<exists>result. ExecuteClaimedExecution 4 sample_service sample_claim (running_db, NewRegistry) = Some result"
proof -
  have "\<exists>result. ExecuteClaimedExecution (Suc 3) sample_service sample_claim (running_db, NewRegistry) = Some result"
    using sample_service_bound by (rule execution_loop_ends)
  then show ?thesis by simp
qed

theorem execution_frees_its_slot_witness:
  "\<exists>result n s' reg'. ExecuteClaimedExecution 4 sample_service sample_claim (running_db, NewRegistry) =
       Some (result, (n, (s', reg'))) \<and> registry_ok reg' \<and> reg_entries reg' (activeCallKey sample_claim) = None"
proof -
  let ?run = "ExecuteClaimedExecution 4 sample_service sample_claim (running_db, NewRegistry)"
  have "dispatch_loop (Suc 3) sample_service sample_claim (0, running_db, NewRegistry) \<noteq> None"
    by (rule dispatch_loop_returns [OF sample_service_bound]) simp
  then obtain y where "?run = Some y"
    by (auto simp: ExecuteClaimedExecution_def sample_claim_valid simp del: dispatch_loop.simps)
  then obtain result n s' reg' where r: "?run = Some (result, (n, (s', reg')))" by (metis prod.collapse)
  then show ?thesis
    using execution_frees_its_slot [OF r _ _ sample_service_quiet, simplified snd_conv, OF NewRegistry_ok]
    by (simp add: NewRegistry_def)
qed

end
