(* ===== verification/StartupCleanup.thy ===== *)
theory StartupCleanup
  imports Dispatch Terminations
begin

section \<open>StartupCleanup\<close>

text \<open>
  \<open>internal/taskruntime/startup_cleanup.go\<close>: before anything else of a new process runs, the executions
  an older worker left Running are classified and either interrupted, so that RecoverTask can continue
  them, or closed. All of it is one transaction. \<open>StartupCleanupRepository\<close> has no implementation in
  the repository and is a record of two functions.
\<close>

subsection \<open>Facts and requests\<close>

record StartupCleanupStep =
  SCS_StepID :: StepID
  SCS_Type :: StepType
  SCS_Status :: StepStatus
  SCS_ToolName :: ToolName
  SCS_ErrorCode :: "ErrorCode option"
  SCS_EndedAt :: "time option"

record StartupCleanupToolExecution =
  SCT_ToolExecutionID :: string
  SCT_TaskID :: TaskID
  SCT_StepID :: StepID
  SCT_ExecutionVersion :: ExecutionVersion
  SCT_ToolName :: ToolName
  SCT_Status :: ToolExecutionStatus
  SCT_ErrorCode :: "ErrorCode option"
  SCT_SideEffectUnknown :: bool
  SCT_EndedAt :: "time option"

record StartupCleanupApprovedRecovery =
  SCA_ApprovalID :: string
  SCA_TaskID :: TaskID
  SCA_Status :: ApprovalStatus
  SCA_ApprovalExecutionVersion :: ExecutionVersion
  SCA_ApprovalConfigHash :: ExecutionConfigHash
  SCA_SourceExecutionConfigHash :: ExecutionConfigHash
  SCA_ToolName :: ToolName
  SCA_FrozenToolInput :: RawMessage
  SCA_ObservedValues :: RawMessage
  SCA_ResourceVersion :: string
  SCA_FrozenInputHash :: string

record StartupCleanupFacts =
  SCF_Task :: Task
  SCF_Run :: Run
  SCF_Execution :: TaskExecution
  SCF_Step :: "StartupCleanupStep option"
  SCF_ToolExecution :: "StartupCleanupToolExecution option"
  SCF_ApprovedRecovery :: "StartupCleanupApprovedRecovery option"

datatype StartupCleanupDisposition =
    StartupCleanupInterrupt
  | StartupCleanupTerminal
  | StartupCleanupDispositionOther string

record ApplyStartupCleanupRequest =
  ASR_TaskID :: TaskID
  ASR_ExecutionVersion :: ExecutionVersion
  ASR_ExpectedWorkerID :: WorkerID
  ASR_ExpectedTaskStatus :: TaskStatus
  ASR_ExpectedRunStatus :: RunStatus
  ASR_ExpectedExecutionStatus :: TaskExecutionStatus
  ASR_ExpectedStepStatus :: "StepStatus option"
  ASR_ExpectedToolStatus :: "ToolExecutionStatus option"
  ASR_Disposition :: StartupCleanupDisposition
  ASR_TaskErrorCode :: "ErrorCode option"
  ASR_ExecutionErrorCode :: "ErrorCode option"
  ASR_TerminationReason :: "TerminationReason option"
  ASR_StepErrorCode :: "ErrorCode option"
  ASR_ToolStatus :: "ToolExecutionStatus option"
  ASR_ToolErrorCode :: "ErrorCode option"
  ASR_ToolSideEffectUnknown :: bool
  ASR_EndedAt :: time
  ASR_CheckpointReasonCode :: "ReasonCode option"

text \<open>
  The zero value of the Go struct's \<open>ExecutionErrorCode\<close> (the empty string, which a timeout without a
  running write tool leaves there) is \<open>None\<close> here.
\<close>

record 'x StartupCleanupRepository =
  LockLegacyRunningExecutions :: "WorkerID \<Rightarrow> 'x db \<Rightarrow> GoError + StartupCleanupFacts list"
  ApplyStartupCleanup :: "ApplyStartupCleanupRequest \<Rightarrow> 'x db \<Rightarrow> GoError + bool \<times> 'x db"

record StartupCleanupSummary =
  Sum_Inspected :: int
  Sum_Interrupted :: int
  Sum_Terminalized :: int

subsection \<open>Checks of the facts\<close>

definition validateStartupFacts :: "StartupCleanupFacts \<Rightarrow> WorkerID \<Rightarrow> GoError + unit" where
  "validateStartupFacts facts currentWorkerID =
    (let task = SCF_Task facts; run = SCF_Run facts; execution = SCF_Execution facts in
     if Exec_Status execution \<noteq> TaskExecutionStatusRunning \<or> Exec_WorkerID execution = None
        \<or> Exec_WorkerID execution = Some '''' \<or> Exec_WorkerID execution = Some currentWorkerID
        \<or> Task_TaskID task = '''' \<or> Task_CurrentExecutionVersion task \<noteq> Exec_ExecutionVersion execution
        \<or> Exec_TaskID execution \<noteq> Task_TaskID task \<or> Run_TaskID run \<noteq> Task_TaskID task
        \<or> Run_RunID run \<noteq> Task_CurrentRunID task \<or> Task_Status task \<noteq> TaskStatusRunning
        \<or> Task_QueuedAt task \<noteq> None \<or> Run_Status run \<noteq> RunStatusRunning \<or> IsZero (Task_DeadlineAt task)
     then Inl ErrPersistenceInvariantViolation
     else
       (case SCF_Step facts of
          Some step \<Rightarrow>
            if SCS_StepID step = '''' \<or> SCS_Status step \<noteq> StepStatusRunning
               \<or> Run_CurrentStepID run \<noteq> Some (SCS_StepID step)
            then Inl ErrPersistenceInvariantViolation else Inr ()
        | None \<Rightarrow>
            if Run_CurrentStepID run \<noteq> None then Inl ErrPersistenceInvariantViolation else Inr ()))"

definition validateStartupCheckpoint :: "StartupCleanupFacts \<Rightarrow> RuntimeCheckpoint \<Rightarrow> GoError + unit" where
  "validateStartupCheckpoint facts checkpoint =
    (if RC_CheckpointID checkpoint = '''' \<or> RC_TaskID checkpoint \<noteq> Task_TaskID (SCF_Task facts)
        \<or> RC_RunID checkpoint \<noteq> Run_RunID (SCF_Run facts)
        \<or> RC_ExecutionVersion checkpoint \<noteq> Exec_ExecutionVersion (SCF_Execution facts)
        \<or> RC_CheckpointSequence checkpoint \<le> 0
        \<or> RC_ExecutionConfigHash checkpoint \<noteq> Exec_ExecutionConfigHash (SCF_Execution facts)
        \<or> \<not> CheckpointNextAction_Valid (RC_NextAction checkpoint)
     then Inl ErrPersistenceInvariantViolation else Inr ())"

subsection \<open>The kind of tool call\<close>

datatype startupToolClassification =
    startupToolNone
  | startupToolReadBoundaryBeforeExecution
  | startupToolWriteBoundaryBeforeExecution
  | startupToolReadRunning
  | startupToolWriteRunning

definition startupToolDefinition :: "ExecutionConfigV1 \<Rightarrow> ToolName \<Rightarrow> GoError + ToolDefinitionV1" where
  "startupToolDefinition config toolName =
    (case filter (\<lambda>tool. Tool_Enabled tool \<and> Tool_Name tool = toolName) (TF_Tools (EC_ToolFramework config)) of
       [tool] \<Rightarrow> Inr tool
     | _ \<Rightarrow> Inl ErrPersistenceInvariantViolation)"

definition tool_facts_ok :: "StartupCleanupFacts \<Rightarrow> StartupCleanupStep \<Rightarrow> StartupCleanupToolExecution \<Rightarrow> bool" where
  "tool_facts_ok facts step tool \<longleftrightarrow>
     SCT_TaskID tool = Task_TaskID (SCF_Task facts) \<and> SCT_StepID tool = SCS_StepID step \<and>
     SCT_ExecutionVersion tool = Exec_ExecutionVersion (SCF_Execution facts) \<and>
     SCT_ToolName tool = SCS_ToolName step \<and> SCT_Status tool = ToolExecutionStatusRunning \<and>
     \<not> SCT_SideEffectUnknown tool \<and> SCT_EndedAt tool = None"

definition startupToolKind :: "StartupCleanupFacts \<Rightarrow> ExecutionConfigV1 \<Rightarrow> GoError + startupToolClassification" where
  "startupToolKind facts config =
    (let no_tool_step =
       (if SCF_ToolExecution facts \<noteq> None then Inl ErrPersistenceInvariantViolation else Inr startupToolNone) in
     case SCF_Step facts of
       None \<Rightarrow> no_tool_step
     | Some step \<Rightarrow>
         if SCS_Type step \<noteq> StepTypeToolCall then no_tool_step
         else if SCS_ToolName step = '''' then Inl ErrPersistenceInvariantViolation
         else
           attempt (startupToolDefinition config (SCS_ToolName step)) (\<lambda>definition.
           attempt (require (read_tool definition \<or> write_tool definition) ErrPersistenceInvariantViolation) (\<lambda>_.
           case SCF_ToolExecution facts of
             None \<Rightarrow> Inr (if read_tool definition then startupToolReadBoundaryBeforeExecution
                          else startupToolWriteBoundaryBeforeExecution)
           | Some tool \<Rightarrow>
               if \<not> tool_facts_ok facts step tool then Inl ErrPersistenceInvariantViolation
               else Inr (if read_tool definition then startupToolReadRunning else startupToolWriteRunning))))"

subsection \<open>The scene against its checkpoint\<close>

definition actual_context :: "StartupCleanupApprovedRecovery \<Rightarrow> ApprovalContext" where
  "actual_context approval =
    \<lparr>APX_ApprovalID = SCA_ApprovalID approval, APX_ApprovalExecutionVersion = SCA_ApprovalExecutionVersion approval,
     APX_ToolName = SCA_ToolName approval, APX_FrozenToolInput = SCA_FrozenToolInput approval,
     APX_ObservedValues = SCA_ObservedValues approval, APX_ResourceVersion = SCA_ResourceVersion approval,
     APX_FrozenInputHash = SCA_FrozenInputHash approval\<rparr>"

text \<open>\<open>Inr None\<close> accepts the scene, \<open>Inr (Some reason)\<close> closes it as an invalid checkpoint.\<close>

definition approved_scene ::
    "StartupCleanupFacts \<Rightarrow> RuntimeCheckpoint \<Rightarrow> StartupCleanupStep \<Rightarrow> ApprovalContext \<Rightarrow> StartupCleanupApprovedRecovery \<Rightarrow>
     GoError + ReasonCode option" where
  "approved_scene facts checkpoint step context approval =
    (if SCA_TaskID approval \<noteq> Task_TaskID (SCF_Task facts) then Inl ErrPersistenceInvariantViolation
     else if \<not> validApprovalContext (Some (actual_context approval)) (SCS_ToolName step)
         (Exec_ExecutionVersion (SCF_Execution facts))
     then Inl ErrPersistenceInvariantViolation
     else if SCA_Status approval \<noteq> ApprovalStatusApproved then Inr (Some ReasonCodeCheckpointApprovalReferenceInvalid)
     else if \<not> validCheckpointApprovalContext checkpoint (SCS_ToolName step)
     then Inr (Some ReasonCodeCheckpointApprovalReferenceInvalid)
     else if APX_ApprovalID context \<noteq> SCA_ApprovalID approval
        \<or> APX_ApprovalExecutionVersion context \<noteq> SCA_ApprovalExecutionVersion approval
        \<or> APX_ToolName context \<noteq> SCA_ToolName approval \<or> SCS_ToolName step \<noteq> SCA_ToolName approval
     then Inr (Some ReasonCodeCheckpointApprovalReferenceInvalid)
     else if APX_FrozenInputHash context \<noteq> SCA_FrozenInputHash approval
     then Inr (Some ReasonCodeCheckpointFrozenInputHashMismatch)
     else if APX_ResourceVersion context \<noteq> SCA_ResourceVersion approval
        \<or> Raw_Bytes (APX_FrozenToolInput context) \<noteq> Raw_Bytes (SCA_FrozenToolInput approval)
        \<or> Raw_Bytes (APX_ObservedValues context) \<noteq> Raw_Bytes (SCA_ObservedValues approval)
     then Inr (Some ReasonCodeCheckpointApprovalReferenceInvalid)
     else if SCA_ApprovalConfigHash approval \<noteq> SCA_SourceExecutionConfigHash approval
        \<or> SCA_SourceExecutionConfigHash approval \<noteq> Exec_ExecutionConfigHash (SCF_Execution facts)
     then Inl ErrPersistenceInvariantViolation
     else Inr None)"

definition action_scene ::
    "StartupCleanupFacts \<Rightarrow> RuntimeCheckpoint \<Rightarrow> startupToolClassification \<Rightarrow> GoError + ReasonCode option" where
  "action_scene facts checkpoint toolKind =
    (case RC_NextAction checkpoint of
       CheckpointNextActionGeneratePlan \<Rightarrow>
         if SCF_Step facts \<noteq> None \<or> SCF_ToolExecution facts \<noteq> None \<or> SCF_ApprovedRecovery facts \<noteq> None
         then Inr (Some ReasonCodeCheckpointFrozenActionMismatch) else Inr None
     | CheckpointNextActionExecuteStep \<Rightarrow>
         (case SCF_Step facts of
            None \<Rightarrow> Inl ErrPersistenceInvariantViolation
          | Some step \<Rightarrow>
              if RC_ApprovalContext checkpoint \<noteq> None \<or> SCF_ApprovedRecovery facts \<noteq> None
                 \<or> (SCS_Type step = StepTypeToolCall \<and> toolKind \<noteq> startupToolReadBoundaryBeforeExecution
                    \<and> toolKind \<noteq> startupToolReadRunning)
              then Inr (Some ReasonCodeCheckpointFrozenActionMismatch) else Inr None)
     | CheckpointNextActionRequestApproval \<Rightarrow>
         (case SCF_Step facts of
            None \<Rightarrow> Inl ErrPersistenceInvariantViolation
          | Some step \<Rightarrow>
              if SCS_Type step \<noteq> StepTypeToolCall \<or> toolKind \<noteq> startupToolWriteBoundaryBeforeExecution
                 \<or> SCF_ToolExecution facts \<noteq> None \<or> RC_ApprovalContext checkpoint \<noteq> None
                 \<or> SCF_ApprovedRecovery facts \<noteq> None
              then Inr (Some ReasonCodeCheckpointFrozenActionMismatch) else Inr None)
     | CheckpointNextActionExecuteApprovedTool \<Rightarrow>
         (case SCF_Step facts of
            None \<Rightarrow> Inl ErrPersistenceInvariantViolation
          | Some step \<Rightarrow>
              if SCS_Type step \<noteq> StepTypeToolCall
                 \<or> (toolKind \<noteq> startupToolWriteBoundaryBeforeExecution \<and> toolKind \<noteq> startupToolWriteRunning)
              then Inr (Some ReasonCodeCheckpointFrozenActionMismatch)
              else
                (case (RC_ApprovalContext checkpoint, SCF_ApprovedRecovery facts) of
                   (Some context, Some approval) \<Rightarrow> approved_scene facts checkpoint step context approval
                 | _ \<Rightarrow> Inr (Some ReasonCodeCheckpointApprovalReferenceInvalid)))
     | CheckpointNextActionFinalizeRun \<Rightarrow> Inr (Some ReasonCodeCheckpointFrozenActionMismatch)
     | CheckpointNextActionOther _ \<Rightarrow> Inl ErrPersistenceInvariantViolation)"

definition validateStartupScene ::
    "StartupCleanupFacts \<Rightarrow> RuntimeCheckpoint \<Rightarrow> startupToolClassification \<Rightarrow> GoError + ReasonCode option" where
  "validateStartupScene facts checkpoint toolKind =
    attempt (action_scene facts checkpoint toolKind) (\<lambda>reason.
      if reason \<noteq> None then Inr reason
      else
        (case SCF_Step facts of
           None \<Rightarrow> Inr None
         | Some step \<Rightarrow>
             if SCS_Type step \<noteq> StepTypeToolCall \<and> toolKind \<noteq> startupToolNone
             then Inl ErrPersistenceInvariantViolation else Inr None))"

subsection \<open>The requests\<close>

definition base_request :: "StartupCleanupFacts \<Rightarrow> time \<Rightarrow> ApplyStartupCleanupRequest" where
  "base_request facts now =
    \<lparr>ASR_TaskID = Task_TaskID (SCF_Task facts), ASR_ExecutionVersion = Exec_ExecutionVersion (SCF_Execution facts),
     ASR_ExpectedWorkerID = the (Exec_WorkerID (SCF_Execution facts)),
     ASR_ExpectedTaskStatus = Task_Status (SCF_Task facts), ASR_ExpectedRunStatus = Run_Status (SCF_Run facts),
     ASR_ExpectedExecutionStatus = Exec_Status (SCF_Execution facts),
     ASR_ExpectedStepStatus = map_option SCS_Status (SCF_Step facts),
     ASR_ExpectedToolStatus = map_option SCT_Status (SCF_ToolExecution facts),
     ASR_Disposition = StartupCleanupDispositionOther '''', ASR_TaskErrorCode = None, ASR_ExecutionErrorCode = None,
     ASR_TerminationReason = None, ASR_StepErrorCode = None, ASR_ToolStatus = None, ASR_ToolErrorCode = None,
     ASR_ToolSideEffectUnknown = False, ASR_EndedAt = now, ASR_CheckpointReasonCode = None\<rparr>"

definition interruptStartupRequest ::
    "ApplyStartupCleanupRequest \<Rightarrow> startupToolClassification \<Rightarrow> ApplyStartupCleanupRequest" where
  "interruptStartupRequest base toolKind =
    (let base = base\<lparr>ASR_Disposition := StartupCleanupInterrupt,
           ASR_ExecutionErrorCode := Some ErrorCodeWorkerInterrupted\<rparr> in
     if toolKind = startupToolReadRunning
     then base\<lparr>ASR_ToolStatus := Some ToolExecutionStatusFailed, ASR_ToolErrorCode := Some ErrorCodeWorkerInterrupted\<rparr>
     else base)"

definition writeToolStartupRequest :: "ApplyStartupCleanupRequest \<Rightarrow> ApplyStartupCleanupRequest" where
  "writeToolStartupRequest base =
    base\<lparr>ASR_Disposition := StartupCleanupTerminal, ASR_TaskErrorCode := Some ErrorCodeWriteToolInterrupted,
      ASR_StepErrorCode := Some ErrorCodeWriteToolInterrupted,
      ASR_ExecutionErrorCode := Some ErrorCodeWriteToolInterrupted,
      ASR_ToolStatus := Some ToolExecutionStatusUnknown, ASR_ToolSideEffectUnknown := True\<rparr>"

definition timeoutStartupRequest ::
    "ApplyStartupCleanupRequest \<Rightarrow> StartupCleanupFacts \<Rightarrow> startupToolClassification \<Rightarrow> ApplyStartupCleanupRequest" where
  "timeoutStartupRequest base facts toolKind =
    (let base = base\<lparr>ASR_Disposition := StartupCleanupTerminal, ASR_TaskErrorCode := Some ErrorCodeTaskTimeout,
           ASR_StepErrorCode := Some ErrorCodeTaskTimeout, ASR_TerminationReason := Some TerminationReasonTimedOut\<rparr> in
     if toolKind = startupToolWriteRunning
     then base\<lparr>ASR_ExecutionErrorCode := Some ErrorCodeWriteToolInterrupted,
       ASR_ToolStatus := Some ToolExecutionStatusUnknown, ASR_ToolSideEffectUnknown := True\<rparr>
     else if SCF_ToolExecution facts \<noteq> None \<and> toolKind = startupToolReadRunning
     then base\<lparr>ASR_ToolStatus := Some ToolExecutionStatusFailed, ASR_ToolErrorCode := Some ErrorCodeTaskTimeout\<rparr>
     else base)"

definition checkpointInvalidStartupRequest ::
    "ApplyStartupCleanupRequest \<Rightarrow> ReasonCode \<Rightarrow> ApplyStartupCleanupRequest" where
  "checkpointInvalidStartupRequest base reason =
    base\<lparr>ASR_Disposition := StartupCleanupTerminal, ASR_TaskErrorCode := Some ErrorCodeCheckpointInvalid,
      ASR_StepErrorCode := Some ErrorCodeCheckpointInvalid, ASR_ExecutionErrorCode := Some ErrorCodeCheckpointInvalid,
      ASR_CheckpointReasonCode := Some reason\<rparr>"

subsection \<open>Classifying one execution\<close>

definition startup_config :: "'x Ports \<Rightarrow> StartupCleanupFacts \<Rightarrow> GoError + ExecutionConfigV1" where
  "startup_config ports facts =
    (let agentID = Task_AgentID (SCF_Task facts);
         unavailable = ErrText ''StartupCleanup validated Agent configuration is unavailable'' in
     case LookupAgent ports agentID of
       None \<Rightarrow> Inl unavailable
     | Some config \<Rightarrow>
         attempt (require (agent_enabled config \<and> Agent_AgentID (EC_Agent (ARC_ExecutionConfig config)) = agentID)
           unavailable) (\<lambda>_.
         attempt (HashExecutionConfigV1 ports (ARC_ExecutionConfig config)) (\<lambda>currentHash.
         attempt (require (currentHash = Exec_ExecutionConfigHash (SCF_Execution facts))
           ErrPersistenceInvariantViolation) (\<lambda>_.
         Inr (ARC_ExecutionConfig config)))))"

text \<open>What a checkpoint in time leads to.\<close>

definition classify_checkpoint ::
    "StartupCleanupFacts \<Rightarrow> startupToolClassification \<Rightarrow> ApplyStartupCleanupRequest \<Rightarrow> StartupCleanupCheckpointResult \<Rightarrow>
     GoError + ApplyStartupCleanupRequest \<times> bool" where
  "classify_checkpoint facts toolKind base result =
    (case result of
       StartupCleanupCheckpointInvalid reason \<Rightarrow>
         if \<not> ReasonCode_ValidForCheckpointInvalid reason then Inl ErrPersistenceInvariantViolation
         else Inr (checkpointInvalidStartupRequest base reason, True)
     | StartupCleanupCheckpointValid checkpoint \<Rightarrow>
         attempt (validateStartupCheckpoint facts checkpoint) (\<lambda>_.
         attempt (validateStartupScene facts checkpoint toolKind) (\<lambda>reason.
         case reason of
           Some reason \<Rightarrow> Inr (checkpointInvalidStartupRequest base reason, True)
         | None \<Rightarrow>
             if toolKind = startupToolWriteRunning then Inr (writeToolStartupRequest base, True)
             else Inr (interruptStartupRequest base toolKind, False))))"

definition classify ::
    "'x Ports \<Rightarrow> StartupCleanupFacts \<Rightarrow> WorkerID \<Rightarrow> time \<Rightarrow> 'x db \<Rightarrow> GoError + ApplyStartupCleanupRequest \<times> bool" where
  "classify ports facts currentWorkerID now s =
    attempt (validateStartupFacts facts currentWorkerID) (\<lambda>_.
    attempt (startup_config ports facts) (\<lambda>config.
    attempt (startupToolKind facts config) (\<lambda>toolKind.
    let base = base_request facts now in
    if \<not> now < Task_DeadlineAt (SCF_Task facts) then Inr (timeoutStartupRequest base facts toolKind, True)
    else
      attempt (LoadLatestForStartupCleanup ports (Task_TaskID (SCF_Task facts)) (Run_RunID (SCF_Run facts))
        (Exec_ExecutionVersion (SCF_Execution facts)) s) (\<lambda>result.
      classify_checkpoint facts toolKind base result))))"

definition validateTransitions :: "StartupCleanupFacts \<Rightarrow> ApplyStartupCleanupRequest \<Rightarrow> GoError + unit" where
  "validateTransitions facts request =
    (case ASR_Disposition request of
       StartupCleanupInterrupt \<Rightarrow>
         require (Allowed (CanExecutionTransition (Exec_Status (SCF_Execution facts)) TaskExecutionStatusInterrupted))
           (ErrText ''validate StartupCleanup Execution interrupt'')
     | StartupCleanupTerminal \<Rightarrow>
         attempt (require (Allowed (CanTaskTransition (Task_Status (SCF_Task facts)) TaskStatusFailed))
           (ErrText ''validate StartupCleanup Task terminal'')) (\<lambda>_.
         attempt (require (Allowed (CanRunTransition (Run_Status (SCF_Run facts)) RunStatusFailed))
           (ErrText ''validate StartupCleanup Run terminal'')) (\<lambda>_.
         attempt (require (Allowed (CanExecutionTransition (Exec_Status (SCF_Execution facts)) TaskExecutionStatusFailed))
           (ErrText ''validate StartupCleanup Execution terminal'')) (\<lambda>_.
         case SCF_Step facts of
           None \<Rightarrow> Inr ()
         | Some step \<Rightarrow>
             require (StepStatus_Terminal (SCS_Status step) \<or> Allowed (CanStepTransition (SCS_Status step) StepStatusFailed))
               (ErrText ''validate StartupCleanup Step terminal''))))
     | StartupCleanupDispositionOther _ \<Rightarrow> Inl ErrPersistenceInvariantViolation)"

subsection \<open>The transaction\<close>

definition cleanup_one ::
    "'x Ports \<Rightarrow> 'x StartupCleanupRepository \<Rightarrow> WorkerID \<Rightarrow> time \<Rightarrow> StartupCleanupFacts \<Rightarrow> 'x db \<Rightarrow> GoError + bool \<times> 'x db" where
  "cleanup_one ports repo currentWorkerID now facts s =
    attempt (classify ports facts currentWorkerID now s) (\<lambda>(request, terminal).
    attempt (validateTransitions facts request) (\<lambda>_.
    attempt (ApplyStartupCleanup repo request s) (\<lambda>(applied, s).
    attempt (require applied ErrPersistenceInvariantViolation) (\<lambda>_.
    if terminal then
      attempt (ensurePendingReport ports (Task_TaskID (SCF_Task facts)) (Run_RunID (SCF_Run facts)) now s) (\<lambda>s.
      Inr (True, s))
    else Inr (False, s)))))"

fun cleanup_all ::
    "'x Ports \<Rightarrow> 'x StartupCleanupRepository \<Rightarrow> WorkerID \<Rightarrow> time \<Rightarrow> StartupCleanupFacts list \<Rightarrow> StartupCleanupSummary \<Rightarrow> 'x db \<Rightarrow>
     GoError + StartupCleanupSummary \<times> 'x db" where
  "cleanup_all ports repo currentWorkerID now [] summary s = Inr (summary, s)"
| "cleanup_all ports repo currentWorkerID now (facts # candidates) summary s =
    attempt (cleanup_one ports repo currentWorkerID now facts s) (\<lambda>(terminal, s).
      cleanup_all ports repo currentWorkerID now candidates
        (if terminal
         then summary\<lparr>Sum_Inspected := Sum_Inspected summary + 1, Sum_Terminalized := Sum_Terminalized summary + 1\<rparr>
         else summary\<lparr>Sum_Inspected := Sum_Inspected summary + 1, Sum_Interrupted := Sum_Interrupted summary + 1\<rparr>) s)"

definition empty_summary :: StartupCleanupSummary where
  "empty_summary = \<lparr>Sum_Inspected = 0, Sum_Interrupted = 0, Sum_Terminalized = 0\<rparr>"

definition startup_work ::
    "'x Ports \<Rightarrow> 'x StartupCleanupRepository \<Rightarrow> WorkerID \<Rightarrow> time \<Rightarrow> 'x db \<Rightarrow> GoError + StartupCleanupSummary \<times> 'x db" where
  "startup_work ports repo currentWorkerID now s =
    attempt (LockLegacyRunningExecutions repo currentWorkerID s) (\<lambda>candidates.
    cleanup_all ports repo currentWorkerID now candidates empty_summary s)"

definition StartupCleanup ::
    "'x Ports \<Rightarrow> 'x StartupCleanupRepository \<Rightarrow> Call \<Rightarrow> WorkerID \<Rightarrow> 'x db \<Rightarrow> (GoError + StartupCleanupSummary) \<times> 'x db" where
  "StartupCleanup ports repo call currentWorkerID s =
    (if currentWorkerID = '''' then (Inl ErrInvalidArgument, s)
     else Execute (call_fault call) (startup_work ports repo currentWorkerID (call_now call)) s)"

end
