(* ===== verification/StartupSafety.thy ===== *)
theory StartupSafety
  imports StartupCleanup
begin

section \<open>Properties of StartupCleanup\<close>

subsection \<open>What the repository promises\<close>

text \<open>
  The row a cleanup request writes for each object. An interruption keeps the worker of the execution
  and leaves Task and Run as they are.
\<close>

definition interrupts :: "ApplyStartupCleanupRequest \<Rightarrow> bool" where
  "interrupts q \<longleftrightarrow> ASR_Disposition q = StartupCleanupInterrupt"

definition cleaned_task :: "ApplyStartupCleanupRequest \<Rightarrow> Task \<Rightarrow> Task" where
  "cleaned_task q t = (if interrupts q then t
     else t\<lparr>Task_Status := TaskStatusFailed, Task_ErrorCode := ASR_TaskErrorCode q, Task_QueuedAt := None,
       Task_EndedAt := Some (ASR_EndedAt q)\<rparr>)"

definition cleaned_run :: "ApplyStartupCleanupRequest \<Rightarrow> Run \<Rightarrow> Run" where
  "cleaned_run q r = (if interrupts q then r
     else r\<lparr>Run_Status := RunStatusFailed, Run_ErrorCode := ASR_TaskErrorCode q, Run_EndedAt := Some (ASR_EndedAt q)\<rparr>)"

definition cleaned_execution :: "ApplyStartupCleanupRequest \<Rightarrow> TaskExecution \<Rightarrow> TaskExecution" where
  "cleaned_execution q e =
     e\<lparr>Exec_Status := (if interrupts q then TaskExecutionStatusInterrupted else TaskExecutionStatusFailed),
       Exec_ErrorCode := ASR_ExecutionErrorCode q, Exec_TerminationReason := ASR_TerminationReason q,
       Exec_EndedAt := Some (ASR_EndedAt q)\<rparr>"

definition cleanup_expects :: "ApplyStartupCleanupRequest \<Rightarrow> Task \<Rightarrow> Run \<Rightarrow> TaskExecution \<Rightarrow> bool" where
  "cleanup_expects q t r e \<longleftrightarrow>
     Task_CurrentExecutionVersion t = ASR_ExecutionVersion q \<and> Task_Status t = ASR_ExpectedTaskStatus q \<and>
     Run_Status r = ASR_ExpectedRunStatus q \<and> Exec_Status e = ASR_ExpectedExecutionStatus q \<and>
     Exec_WorkerID e = Some (ASR_ExpectedWorkerID q)"

text \<open>
  The candidates are rows of the store, each once, and no execution is missing that is Running under another
  worker or under none. Nothing is promised about which version of a task a candidate has: that it is the
  current one is for the service to check.
\<close>

definition facts_id :: "StartupCleanupFacts \<Rightarrow> TaskID" where
  "facts_id f = Task_TaskID (SCF_Task f)"

definition facts_key :: "StartupCleanupFacts \<Rightarrow> TaskID \<times> ExecutionVersion" where
  "facts_key f = (facts_id f, Exec_ExecutionVersion (SCF_Execution f))"

definition facts_rows :: "'x db \<Rightarrow> StartupCleanupFacts \<Rightarrow> bool" where
  "facts_rows s f \<longleftrightarrow> task_row (facts_id f) s = Some (SCF_Task f) \<and> run_row (facts_id f) s = Some (SCF_Run f) \<and>
     exec_row (facts_key f) s = Some (SCF_Execution f)"

definition facts_scene :: "'x db \<Rightarrow> StartupCleanupFacts \<Rightarrow> bool" where
  "facts_scene s f \<longleftrightarrow> scene (facts_id f) s (SCF_Task f) (SCF_Run f) (SCF_Execution f)"

definition legacy :: "WorkerID \<Rightarrow> TaskExecution \<Rightarrow> bool" where
  "legacy w e \<longleftrightarrow> Exec_Status e = TaskExecutionStatusRunning \<and> Exec_WorkerID e \<noteq> Some w"

definition locks_legacy :: "(WorkerID \<Rightarrow> 'x db \<Rightarrow> GoError + StartupCleanupFacts list) \<Rightarrow> bool" where
  "locks_legacy lock \<longleftrightarrow> (\<forall>w s fs. lock w s = Inr fs \<longrightarrow>
     list_all (facts_rows s) fs \<and> distinct (map facts_key fs) \<and>
     (\<forall>k v e. exec_row (k, v) s = Some e \<and> task_row k s \<noteq> None \<and> run_row k s \<noteq> None \<and> legacy w e \<longrightarrow>
        (k, v) \<in> set (map facts_key fs)))"

definition startup_contract :: "'x StartupCleanupRepository \<Rightarrow> bool" where
  "startup_contract repo \<longleftrightarrow>
     closing_statement ASR_TaskID cleanup_expects cleaned_task cleaned_run cleaned_execution (ApplyStartupCleanup repo) \<and>
     locks_legacy (LockLegacyRunningExecutions repo)"

subsection \<open>Classification\<close>

lemma validateStartupFacts_ok:
  assumes "validateStartupFacts facts w = Inr ()"
  shows "Exec_Status (SCF_Execution facts) = TaskExecutionStatusRunning" "Exec_WorkerID (SCF_Execution facts) \<noteq> None"
    "Task_Status (SCF_Task facts) = TaskStatusRunning" "Run_Status (SCF_Run facts) = RunStatusRunning"
    "Task_QueuedAt (SCF_Task facts) = None" "Run_RunID (SCF_Run facts) = Task_CurrentRunID (SCF_Task facts)"
    "Task_CurrentExecutionVersion (SCF_Task facts) = Exec_ExecutionVersion (SCF_Execution facts)"
  using assms by (auto simp: validateStartupFacts_def Let_def split: if_splits)

lemma validateStartupFacts_legacy: "validateStartupFacts facts w = Inr () \<Longrightarrow> legacy w (SCF_Execution facts)"
  by (auto simp: validateStartupFacts_def legacy_def Let_def split: if_splits)

lemma base_request_fields [simp]:
  "ASR_TaskID (base_request facts now) = facts_id facts" "ASR_EndedAt (base_request facts now) = now"
  by (simp_all add: base_request_def facts_id_def)

text \<open>Every request is the base request, closed in one of the four ways or interrupted.\<close>

lemma classify_cases:
  assumes "classify ports facts w now s = Inr (request, terminal)"
  obtains (late) config kind where "validateStartupFacts facts w = Inr ()" "startup_config ports facts = Inr config"
      "startupToolKind facts config = Inr kind" "Task_DeadlineAt (SCF_Task facts) \<le> now" terminal
      "request = timeoutStartupRequest (base_request facts now) facts kind"
  | (invalid) config kind reason where "validateStartupFacts facts w = Inr ()" "startup_config ports facts = Inr config"
      "startupToolKind facts config = Inr kind" "now < Task_DeadlineAt (SCF_Task facts)" terminal
      "request = checkpointInvalidStartupRequest (base_request facts now) reason"
  | (write_tool) config checkpoint where "validateStartupFacts facts w = Inr ()" "startup_config ports facts = Inr config"
      "startupToolKind facts config = Inr startupToolWriteRunning" "now < Task_DeadlineAt (SCF_Task facts)" terminal
      "validateStartupScene facts checkpoint startupToolWriteRunning = Inr None"
      "request = writeToolStartupRequest (base_request facts now)"
  | (interrupt) config kind checkpoint where "validateStartupFacts facts w = Inr ()" "startup_config ports facts = Inr config"
      "startupToolKind facts config = Inr kind" "now < Task_DeadlineAt (SCF_Task facts)" "\<not> terminal"
      "kind \<noteq> startupToolWriteRunning" "validateStartupCheckpoint facts checkpoint = Inr ()"
      "validateStartupScene facts checkpoint kind = Inr None"
      "LoadLatestForStartupCleanup ports (Task_TaskID (SCF_Task facts)) (Run_RunID (SCF_Run facts))
         (Exec_ExecutionVersion (SCF_Execution facts)) s = Inr (StartupCleanupCheckpointValid checkpoint)"
      "request = interruptStartupRequest (base_request facts now) kind"
proof -
  obtain config kind where c: "validateStartupFacts facts w = Inr ()" "startup_config ports facts = Inr config"
      "startupToolKind facts config = Inr kind"
    using assms by (auto simp: classify_def)
  show ?thesis
  proof (cases "now < Task_DeadlineAt (SCF_Task facts)")
    case False
    then show ?thesis using assms c late by (simp add: classify_def Let_def)
  next
    case True
    then obtain result where l: "LoadLatestForStartupCleanup ports (Task_TaskID (SCF_Task facts)) (Run_RunID (SCF_Run facts))
         (Exec_ExecutionVersion (SCF_Execution facts)) s = Inr result"
        and r: "classify_checkpoint facts kind (base_request facts now) result = Inr (request, terminal)"
      using assms c by (auto simp: classify_def Let_def)
    show ?thesis
    proof (cases result)
      case (StartupCleanupCheckpointInvalid reason)
      then show ?thesis
        using r invalid [OF c True] by (auto simp: classify_checkpoint_def split: if_splits)
    next
      case (StartupCleanupCheckpointValid checkpoint)
      then obtain reason where v: "validateStartupCheckpoint facts checkpoint = Inr ()"
          "validateStartupScene facts checkpoint kind = Inr reason"
        using r by (auto simp: classify_checkpoint_def)
      show ?thesis
      proof (cases reason)
        case (Some why)
        then show ?thesis using r v StartupCleanupCheckpointValid invalid [OF c True] by (auto simp: classify_checkpoint_def)
      next
        case None
        show ?thesis
        proof (cases "kind = startupToolWriteRunning")
          case True
          show ?thesis
            by (rule write_tool) (use r v c True None StartupCleanupCheckpointValid \<open>now < _\<close> in \<open>auto simp: classify_checkpoint_def\<close>)
        next
          case False
          show ?thesis
            by (rule interrupt [OF c(1,2,3) True]) (use r v False None l StartupCleanupCheckpointValid in \<open>auto simp: classify_checkpoint_def\<close>)
        qed
      qed
    qed
  qed
qed

lemmas startup_request_defs = timeoutStartupRequest_def checkpointInvalidStartupRequest_def writeToolStartupRequest_def
  interruptStartupRequest_def base_request_def interrupts_def

lemma classified_request:
  assumes "classify ports facts w now s = Inr (request, terminal)"
  shows "ASR_TaskID request = facts_id facts" "interrupts request \<longleftrightarrow> \<not> terminal" "ASR_EndedAt request = now"
    "validateStartupFacts facts w = Inr ()"
  using assms by (cases rule: classify_cases; auto simp: startup_request_defs facts_id_def Let_def)+

subsection \<open>One candidate\<close>

lemma cleaned_scene_ok:
  assumes "validateStartupFacts facts w = Inr ()"
  shows "scene_ok (cleaned_task q (SCF_Task facts)) (cleaned_run q (SCF_Run facts)) (cleaned_execution q (SCF_Execution facts))"
  using validateStartupFacts_ok [OF assms]
  by (simp add: scene_ok_def cleaned_task_def cleaned_run_def cleaned_execution_def)

text \<open>What became of a candidate: the answer of the classification, stored.\<close>

definition cleaned :: "'x Ports \<Rightarrow> WorkerID \<Rightarrow> time \<Rightarrow> 'x db \<Rightarrow> StartupCleanupFacts \<Rightarrow> bool" where
  "cleaned ports w now s facts \<longleftrightarrow> (\<exists>request terminal s0.
     classify ports facts w now s0 = Inr (request, terminal) \<and>
     scene (facts_id facts) s (cleaned_task request (SCF_Task facts)) (cleaned_run request (SCF_Run facts))
       (cleaned_execution request (SCF_Execution facts)))"

definition ended_as :: "bool \<Rightarrow> 'x db \<Rightarrow> TaskID \<Rightarrow> bool" where
  "ended_as terminal s k \<longleftrightarrow> (\<exists>t r e. scene k s t r e \<and>
     (if terminal then Task_Status t = TaskStatusFailed \<and> Exec_Status e = TaskExecutionStatusFailed
      else Task_Status t = TaskStatusRunning \<and> Exec_Status e = TaskExecutionStatusInterrupted))"

lemma ended_as_scene: "scene k s' = scene k s \<Longrightarrow> ended_as terminal s' k = ended_as terminal s k"
  by (simp add: ended_as_def)

lemma ended_once: "ended_as True s k \<Longrightarrow> \<not> ended_as False s k"
  by (auto simp: ended_as_def dest: scene_unique)

lemma cleaned_ended:
  assumes "classify ports facts w now s0 = Inr (request, terminal)"
    and "scene (facts_id facts) s (cleaned_task request (SCF_Task facts)) (cleaned_run request (SCF_Run facts))
      (cleaned_execution request (SCF_Execution facts))"
  shows "ended_as terminal s (facts_id facts)"
proof -
  have "interrupts request = (\<not> terminal)" "Task_Status (SCF_Task facts) = TaskStatusRunning"
    using classified_request [OF assms(1)] validateStartupFacts_ok by simp_all
  then show ?thesis
    using assms(2) unfolding ended_as_def cleaned_task_def cleaned_execution_def
    by (intro exI [of _ "cleaned_task request (SCF_Task facts)"] exI [of _ "cleaned_run request (SCF_Run facts)"]
      exI [of _ "cleaned_execution request (SCF_Execution facts)"]) (simp add: cleaned_task_def cleaned_execution_def)
qed

lemma cleanup_one_ok:
  assumes "startup_contract repo" and "facts_scene s facts" and "runtime_inv s"
    and "cleanup_one ports repo w now facts s = Inr (terminal, s')"
  shows "runtime_inv s' \<and> elsewhere_same (facts_id facts) s s' \<and> cleaned ports w now s' facts \<and>
    ended_as terminal s' (facts_id facts)"
proof -
  let ?k = "facts_id facts"
  obtain request s1 where c: "classify ports facts w now s = Inr (request, terminal)"
      and a: "ApplyStartupCleanup repo request s = Inr (True, s1)"
      and r: "terminal \<and> ensurePendingReport ports (Task_TaskID (SCF_Task facts)) (Run_RunID (SCF_Run facts)) now s1 = Inr s' \<or>
        \<not> terminal \<and> s' = s1"
    using assms(4) by (auto simp: cleanup_one_def split: if_splits)
  have k: "ASR_TaskID request = ?k" and v: "validateStartupFacts facts w = Inr ()"
    using classified_request [OF c] by simp_all
  have C: "closing_statement ASR_TaskID cleanup_expects cleaned_task cleaned_run cleaned_execution (ApplyStartupCleanup repo)"
    using assms(1) by (simp add: startup_contract_def)
  have sc: "scene (ASR_TaskID request) s (SCF_Task facts) (SCF_Run facts) (SCF_Execution facts)"
    using assms(2) k by (simp add: facts_scene_def)
  note hit = closing_statement.close_scene [OF C sc a, unfolded k]
  have inv: "schema_ok s1"
    using hit assms(3) schema_statements by (auto simp: runtime_inv_def)
  moreover have "scenes_ok s1"
    using assms(3) hit cleaned_scene_ok [OF v] by (auto simp: runtime_inv_def intro: scenes_ok_step)
  ultimately have inv1: "runtime_inv s1" by (rule runtime_invI)
  show ?thesis
  proof (cases terminal)
    case False
    then show ?thesis using r hit inv1 c cleaned_ended [OF c] unfolding cleaned_def by blast
  next
    case True
    then have e: "ensurePendingReport ports (Task_TaskID (SCF_Task facts)) (Run_RunID (SCF_Run facts)) now s1 = Inr s'"
      using r by simp
    note rep = report_scene [OF e]
    have "schema_ok s'" using inv schema_statements rep [of ?k] by blast
    moreover have "scenes_ok s'"
      using inv1 ensurePendingReport_frame [OF e] by (auto simp: runtime_inv_def scenes_ok_def)
    ultimately have "runtime_inv s'" by (rule runtime_invI)
    moreover have "scene ?k s' (cleaned_task request (SCF_Task facts)) (cleaned_run request (SCF_Run facts))
        (cleaned_execution request (SCF_Execution facts))"
      using hit rep [of ?k] by simp
    ultimately show ?thesis
      using hit rep [of ?k] c elsewhere_same_trans cleaned_ended [OF c] unfolding cleaned_def by metis
  qed
qed

subsection \<open>All candidates\<close>

lemma elsewhere_scene: "elsewhere_same k s s' \<Longrightarrow> k' \<noteq> k \<Longrightarrow> scene k' s' = scene k' s"
  by (auto simp: scene_def elsewhere_same_def fun_eq_iff)

lemma cleaned_elsewhere:
  assumes "cleaned ports w now s facts" and "scene (facts_id facts) s' = scene (facts_id facts) s"
  shows "cleaned ports w now s' facts"
  using assms unfolding cleaned_def by metis

lemma cleanup_all_ok:
  assumes "startup_contract repo"
  shows "cleanup_all ports repo w now fs summary s = Inr (summary', s') \<Longrightarrow> list_all (facts_scene s) fs \<Longrightarrow>
     distinct (map facts_id fs) \<Longrightarrow> runtime_inv s \<Longrightarrow>
     runtime_inv s' \<and> (\<forall>k. k \<notin> set (map facts_id fs) \<longrightarrow> scene k s' = scene k s) \<and> list_all (cleaned ports w now s') fs \<and>
     list_all (\<lambda>f. ended_as True s' (facts_id f) \<or> ended_as False s' (facts_id f)) fs \<and>
     Sum_Inspected summary' = Sum_Inspected summary + int (length fs) \<and>
     Sum_Interrupted summary' = Sum_Interrupted summary + int (length (filter (\<lambda>f. ended_as False s' (facts_id f)) fs)) \<and>
     Sum_Terminalized summary' = Sum_Terminalized summary + int (length (filter (\<lambda>f. ended_as True s' (facts_id f)) fs))"
proof (induction fs arbitrary: summary s)
  case Nil
  then show ?case by simp
next
  case (Cons f fs)
  obtain terminal s1 where one: "cleanup_one ports repo w now f s = Inr (terminal, s1)"
    and rest: "cleanup_all ports repo w now fs
        (if terminal
         then summary\<lparr>Sum_Inspected := Sum_Inspected summary + 1, Sum_Terminalized := Sum_Terminalized summary + 1\<rparr>
         else summary\<lparr>Sum_Inspected := Sum_Inspected summary + 1, Sum_Interrupted := Sum_Interrupted summary + 1\<rparr>) s1 = Inr (summary', s')"
    using Cons.prems(1) by auto
  have ok: "runtime_inv s1" "elsewhere_same (facts_id f) s s1" "cleaned ports w now s1 f"
      "ended_as terminal s1 (facts_id f)"
    using cleanup_one_ok [OF assms _ Cons.prems(4) one] Cons.prems(2) by simp_all
  have fresh: "facts_id f \<notin> set (map facts_id fs)" using Cons.prems(3) by simp
  have same: "scene (facts_id g) s1 = scene (facts_id g) s" if "g \<in> set fs" for g
    using elsewhere_scene [OF ok(2)] fresh that by (metis image_eqI list.set_map)
  then have "list_all (facts_scene s1) fs" using Cons.prems(2) by (simp add: list_all_iff facts_scene_def)
  note ih = Cons.IH [OF rest this _ ok(1)]
  have dist: "distinct (map facts_id fs)" using Cons.prems(3) by simp
  have kept: "scene (facts_id f) s' = scene (facts_id f) s1" using ih [OF dist] fresh by blast
  have ended: "ended_as b s' (facts_id f) \<longleftrightarrow> b = terminal" for b
    using ended_as_scene [OF kept] ok(4) ended_once [of s1 "facts_id f"] by (cases b; cases terminal) auto
  have "cleaned ports w now s' f" using cleaned_elsewhere [OF ok(3) kept] .
  moreover have "scene k s' = scene k s" if "k \<notin> set (map facts_id (f # fs))" for k
    using ih [OF dist] elsewhere_scene [OF ok(2), of k] that by auto
  ultimately show ?case using ih [OF dist] ended by (cases terminal) auto
qed

lemma cleanup_one_validates:
  "cleanup_one ports repo w now f s = Inr (terminal, s') \<Longrightarrow> validateStartupFacts f w = Inr ()"
  by (auto simp: cleanup_one_def classify_def split: if_splits)

lemma cleanup_all_validates:
  "cleanup_all ports repo w now fs summary s = Inr (summary', s') \<Longrightarrow> f \<in> set fs \<Longrightarrow> validateStartupFacts f w = Inr ()"
  by (induction fs arbitrary: summary s) (auto dest: cleanup_one_validates)

text \<open>Candidates that pass the checks of the service are scenes, one for each task.\<close>

lemma validated_scenes:
  assumes "list_all (facts_rows s) fs" and "distinct (map facts_key fs)"
    and "\<And>f. f \<in> set fs \<Longrightarrow> validateStartupFacts f w = Inr ()"
  shows "list_all (facts_scene s) fs \<and> distinct (map facts_id fs)"
proof -
  have rows: "facts_rows s f" if "f \<in> set fs" for f using assms(1) that by (simp add: list_all_iff)
  have current: "Exec_ExecutionVersion (SCF_Execution f) = Task_CurrentExecutionVersion (SCF_Task f)" if "f \<in> set fs" for f
    using validateStartupFacts_ok(7) [OF assms(3) [OF that]] by simp
  have "facts_scene s f" if "f \<in> set fs" for f
    using rows [OF that] current [OF that] by (simp add: facts_scene_def facts_rows_def facts_key_def scene_def)
  moreover have "inj_on facts_id (set fs)"
  proof (rule inj_onI)
    fix f g
    assume fg: "f \<in> set fs" "g \<in> set fs" "facts_id f = facts_id g"
    then have "SCF_Task f = SCF_Task g" using rows unfolding facts_rows_def by (metis option.inject)
    then have "facts_key f = facts_key g" using fg current by (simp add: facts_key_def)
    then show "f = g" using assms(2) fg by (simp add: distinct_map inj_on_def)
  qed
  ultimately show ?thesis using assms(2) by (simp add: list_all_iff distinct_map)
qed

text \<open>The tasks a clean-up has to look at.\<close>

definition legacy_tasks :: "WorkerID \<Rightarrow> 'x db \<Rightarrow> TaskID set" where
  "legacy_tasks w s = {k. \<exists>t r e. scene k s t r e \<and> legacy w e}"

lemma count_tasks:
  assumes "distinct (map facts_id fs)" and "K = set (map facts_id fs)"
  shows "int (length (filter (\<lambda>f. P (facts_id f)) fs)) = int (card {k \<in> K. P k})"
proof -
  have "distinct (map facts_id (filter (\<lambda>f. P (facts_id f)) fs))"
    using assms(1) by (simp add: distinct_map inj_on_def)
  from distinct_card [OF this]
  have "length (filter (\<lambda>f. P (facts_id f)) fs) = card (facts_id ` {f \<in> set fs. P (facts_id f)})" by simp
  also have "facts_id ` {f \<in> set fs. P (facts_id f)} = {k \<in> K. P k}" using assms(2) by auto
  finally show ?thesis by simp
qed

lemma StartupCleanup_ok:
  assumes "StartupCleanup ports repo call w s = (Inr summary, s')"
  obtains fs where "LockLegacyRunningExecutions repo w s = Inr fs"
    "cleanup_all ports repo w (call_now call) fs empty_summary s = Inr (summary, s')"
  using assms
  by (auto simp: StartupCleanup_def startup_work_def Execute_def split: if_splits option.splits sum.splits)

text \<open>
  C25: After a successful StartupCleanup no execution of an older worker is left Running: an execution
  that is Running belongs to the worker that is about to start. The store is sound afterwards, every
  scene whose execution was not Running is untouched. The summary is the truth: as many inspected as there
  were tasks whose current execution was Running under another worker or none, as many interrupted as there are
  of them now with an interrupted execution and a task still Running, as many terminalized as there are of them now with task and
  execution Failed, and each is one of the two.
\<close>

theorem startup_leaves_no_legacy_execution:
  assumes "StartupCleanup ports repo call w s = (Inr summary, s')" and "startup_contract repo" and "runtime_inv s"
  shows "runtime_inv s' \<and>
    (\<forall>k t r e. scene k s' t r e \<longrightarrow> Exec_Status e = TaskExecutionStatusRunning \<longrightarrow> Exec_WorkerID e = Some w) \<and>
    (\<forall>k t r e. scene k s t r e \<longrightarrow> Exec_Status e \<noteq> TaskExecutionStatusRunning \<longrightarrow> scene k s' t r e) \<and>
    Sum_Inspected summary = int (card (legacy_tasks w s)) \<and>
    Sum_Interrupted summary = int (card {k \<in> legacy_tasks w s. ended_as False s' k}) \<and>
    Sum_Terminalized summary = int (card {k \<in> legacy_tasks w s. ended_as True s' k}) \<and>
    (\<forall>k \<in> legacy_tasks w s. ended_as True s' k \<noteq> ended_as False s' k)"
proof -
  obtain fs where lock: "LockLegacyRunningExecutions repo w s = Inr fs"
      and run: "cleanup_all ports repo w (call_now call) fs empty_summary s = Inr (summary, s')"
    using StartupCleanup_ok [OF assms(1)] by metis
  have rows: "list_all (facts_rows s) fs" "distinct (map facts_key fs)"
    "\<And>k v e. exec_row (k, v) s = Some e \<and> task_row k s \<noteq> None \<and> run_row k s \<noteq> None \<and> legacy w e \<Longrightarrow> (k, v) \<in> set (map facts_key fs)"
    using assms(2) lock unfolding startup_contract_def locks_legacy_def by blast+
  note valid = cleanup_all_validates [OF run]
  have fs: "list_all (facts_scene s) fs" "distinct (map facts_id fs)"
    using validated_scenes [OF rows(1,2) valid] by simp_all
  have running: "legacy w (SCF_Execution f)" if "f \<in> set fs" for f
    using validateStartupFacts_legacy [OF valid [OF that]] .
  have tasks: "legacy_tasks w s = set (map facts_id fs)"
  proof (rule set_eqI, rule iffI)
    fix k assume "k \<in> legacy_tasks w s"
    then obtain t r e where sc: "scene k s t r e" "legacy w e" by (auto simp: legacy_tasks_def)
    then have "(k, Task_CurrentExecutionVersion t) \<in> set (map facts_key fs)" by (intro rows(3) [of _ _ e]) (auto simp: scene_def)
    then show "k \<in> set (map facts_id fs)" by (auto simp: facts_key_def)
  next
    fix k assume "k \<in> set (map facts_id fs)"
    then obtain f where f: "f \<in> set fs" "k = facts_id f" by auto
    then have "scene k s (SCF_Task f) (SCF_Run f) (SCF_Execution f)" using fs(1) by (simp add: list_all_iff facts_scene_def)
    then show "k \<in> legacy_tasks w s" using running [OF f(1)] unfolding legacy_tasks_def by blast
  qed
  note ok = cleanup_all_ok [OF assms(2) run fs(1,2) assms(3)]
  have ended: "ended_as True s' k \<or> ended_as False s' k" if "k \<in> legacy_tasks w s" for k
    using ok that unfolding tasks by (auto simp: list_all_iff)
  have "Exec_WorkerID e = Some w" if sc: "scene k s' t r e" "Exec_Status e = TaskExecutionStatusRunning" for k t r e
  proof -
    have "\<not> ended_as True s' k" "\<not> ended_as False s' k"
      using sc by (auto simp: ended_as_def dest: scene_unique)
    then have "k \<notin> legacy_tasks w s" using ended by blast
    moreover from this have "scene k s t r e" using ok sc(1) unfolding tasks by metis
    ultimately show ?thesis using sc(2) unfolding legacy_tasks_def legacy_def by blast
  qed
  moreover have "scene k s' t r e" if sc: "scene k s t r e" "Exec_Status e \<noteq> TaskExecutionStatusRunning" for k t r e
  proof -
    have "k \<notin> legacy_tasks w s" using sc by (auto simp: legacy_tasks_def legacy_def dest: scene_unique)
    then show ?thesis using ok sc(1) unfolding tasks by metis
  qed
  moreover have "Sum_Inspected summary = int (card (legacy_tasks w s))"
    using ok fs(2) distinct_card [of "map facts_id fs"] by (simp add: tasks empty_summary_def)
  moreover have "Sum_Interrupted summary = int (card {k \<in> legacy_tasks w s. ended_as False s' k})"
    "Sum_Terminalized summary = int (card {k \<in> legacy_tasks w s. ended_as True s' k})"
    using ok count_tasks [OF fs(2) tasks] by (simp_all add: empty_summary_def)
  moreover have "\<forall>k \<in> legacy_tasks w s. ended_as True s' k \<noteq> ended_as False s' k"
    using ended ended_once by blast
  ultimately show ?thesis using ok by blast
qed

subsection \<open>Tools\<close>

text \<open>
  C26: A tool call of the old worker is only ever resumed when it is a read. When the current step has a
  tool execution and the classification interrupts instead of closing, the configured tool is a read
  tool, its execution is recorded as Failed by the interruption without an unknown side effect, and there
  is time left; a running write tool always ends the task.
\<close>

theorem only_read_tools_are_resumed:
  assumes "classify ports facts w now s = Inr (request, False)" and "startup_config ports facts = Inr config"
    and "SCF_Step facts = Some step" and "SCF_ToolExecution facts \<noteq> None"
  shows "\<exists>d. startupToolDefinition config (SCS_ToolName step) = Inr d \<and> read_tool d \<and>
    ASR_Disposition request = StartupCleanupInterrupt \<and> ASR_ToolStatus request = Some ToolExecutionStatusFailed \<and>
    ASR_ToolErrorCode request = Some ErrorCodeWorkerInterrupted \<and> \<not> ASR_ToolSideEffectUnknown request \<and>
    now < Task_DeadlineAt (SCF_Task facts)"
  using assms(1)
proof (cases rule: classify_cases)
  case (interrupt config' kind checkpoint)
  have kind: "startupToolKind facts config = Inr kind" using interrupt(2,3) assms(2) by simp
  obtain d where d: "startupToolDefinition config (SCS_ToolName step) = Inr d" "read_tool d" "kind = startupToolReadRunning"
    using kind interrupt(6) assms(3,4) by (auto simp: startupToolKind_def Let_def split: if_splits)
  then show ?thesis
    using interrupt(4,10) by (simp add: interruptStartupRequest_def base_request_def Let_def)
qed simp_all

subsection \<open>The contract can be kept\<close>

text \<open>
  For scenes without step and tool: the candidates are read from the rows, and three guarded updates of the
  PostgreSQL adapter store a request. The properties are applied to this repository.
\<close>

definition legacy_facts :: "WorkerID \<Rightarrow> 'x db \<Rightarrow> TaskID \<times> ExecutionVersion \<Rightarrow> StartupCleanupFacts option" where
  "legacy_facts w s p =
    (case (task_row (fst p) s, run_row (fst p) s, exec_row p s) of
       (Some t, Some r, Some e) \<Rightarrow>
         if legacy w e
         then Some \<lparr>SCF_Task = t, SCF_Run = r, SCF_Execution = e, SCF_Step = None, SCF_ToolExecution = None,
           SCF_ApprovedRecovery = None\<rparr> else None
     | _ \<Rightarrow> None)"

definition stored_legacy :: "WorkerID \<Rightarrow> 'x db \<Rightarrow> GoError + StartupCleanupFacts list" where
  "stored_legacy w s = Inr (List.map_filter (legacy_facts w s) (remdups (map Exec_key (db_executions s))))"

definition cleanup_execution_update :: "ApplyStartupCleanupRequest \<Rightarrow> TerminationFacts \<Rightarrow> TaskExecutionUpdate" where
  "cleanup_execution_update q f = (let e = Facts_Execution f; e' = cleaned_execution q e in
    \<lparr>EU_TaskID = ASR_TaskID q, EU_ExecutionVersion = Exec_ExecutionVersion e,
     EU_ExpectedStatus = Exec_Status e, EU_ExpectedWorkerID = Exec_WorkerID e,
     EU_Status = Exec_Status e', EU_WorkerID = Exec_WorkerID e', EU_ObservedConfigHash = None,
     EU_ErrorCode = Exec_ErrorCode e', EU_InvariantCode = Exec_InvariantCode e',
     EU_TerminationReason = Exec_TerminationReason e', EU_StartedAt = Exec_StartedAt e',
     EU_EndedAt = Exec_EndedAt e'\<rparr>)"

definition cleanup_run_update :: "ApplyStartupCleanupRequest \<Rightarrow> TerminationFacts \<Rightarrow> RunUpdate" where
  "cleanup_run_update q f = (let r = Facts_Run f; r' = cleaned_run q r in
    \<lparr>RU_TaskID = ASR_TaskID q, RU_RunID = Run_RunID r,
     RU_ExecutionVersion = Task_CurrentExecutionVersion (Facts_Task f), RU_ExpectedStatus = Run_Status r,
     RU_Status = Run_Status r', RU_PlanID = Run_PlanID r', RU_CurrentStepID = Run_CurrentStepID r',
     RU_Context = Run_Context r', RU_ErrorCode = Run_ErrorCode r', RU_StartedAt = Run_StartedAt r',
     RU_EndedAt = Run_EndedAt r'\<rparr>)"

definition cleanup_task_update :: "ApplyStartupCleanupRequest \<Rightarrow> TerminationFacts \<Rightarrow> TaskUpdate" where
  "cleanup_task_update q f = (let t = Facts_Task f; t' = cleaned_task q t in
    \<lparr>TU_TaskID = ASR_TaskID q, TU_ExpectedStatus = Task_Status t,
     TU_ExpectedCurrentExecutionVersion = Task_CurrentExecutionVersion t, TU_Status = Task_Status t',
     TU_CurrentExecutionVersion = Task_CurrentExecutionVersion t, TU_ResultSummary = Task_ResultSummary t',
     TU_ErrorCode = Task_ErrorCode t', TU_QueuedAt = Task_QueuedAt t', TU_StartedAt = Task_StartedAt t',
     TU_EndedAt = Task_EndedAt t'\<rparr>)"

definition stored_cleanup :: "ApplyStartupCleanupRequest \<Rightarrow> 'x db \<Rightarrow> GoError + bool \<times> 'x db" where
  "stored_cleanup q s =
    attempt (LockRecoveryFacts (ASR_TaskID q) s) (\<lambda>f.
      if \<not> cleanup_expects q (Facts_Task f) (Facts_Run f) (Facts_Execution f) then Inr (False, s)
      else
        attempt (TaskExecutionRepository_Update (cleanup_execution_update q f) s) (\<lambda>(hit1, s1).
        attempt (RunRepository_Update (cleanup_run_update q f) s1) (\<lambda>(hit2, s2).
        attempt (TaskRepository_Update (cleanup_task_update q f) s2) (\<lambda>(hit3, s3).
          if hit1 \<and> hit2 \<and> hit3 then Inr (True, s3) else Inl ErrPersistenceInvariantViolation))))"

definition stored_cleanups :: "'x StartupCleanupRepository" where
  "stored_cleanups = \<lparr>LockLegacyRunningExecutions = stored_legacy, ApplyStartupCleanup = stored_cleanup\<rparr>"

lemma cleanup_patches:
  "TaskUpdate_patch (cleanup_task_update q f) (Facts_Task f) = cleaned_task q (Facts_Task f)"
  "RunUpdate_patch (cleanup_run_update q f) (Facts_Run f) = cleaned_run q (Facts_Run f)"
  "TaskExecutionUpdate_patch (cleanup_execution_update q f) (Facts_Execution f) =
     cleaned_execution q (Facts_Execution f)"
  by (simp_all add: cleanup_task_update_def cleanup_run_update_def cleanup_execution_update_def
      TaskUpdate_patch_def RunUpdate_patch_def exec_patch_keeping cleaned_task_def cleaned_run_def
      cleaned_execution_def Let_def)

lemma stored_cleanup_hit:
  assumes "stored_cleanup q s = Inr (True, s')"
  shows "\<exists>t r e. scene (ASR_TaskID q) s t r e \<and> cleanup_expects q t r e \<and>
    scene (ASR_TaskID q) s' (cleaned_task q t) (cleaned_run q r) (cleaned_execution q e) \<and>
    elsewhere_same (ASR_TaskID q) s s' \<and> db_logs s' = db_logs s \<and> statement\<^sup>*\<^sup>* s s'"
proof -
  obtain f s1 s2 where f: "LockRecoveryFacts (ASR_TaskID q) s = Inr f"
      "cleanup_expects q (Facts_Task f) (Facts_Run f) (Facts_Execution f)"
    and u: "TaskExecutionRepository_Update (cleanup_execution_update q f) s = Inr (True, s1)"
      "RunRepository_Update (cleanup_run_update q f) s1 = Inr (True, s2)"
      "TaskRepository_Update (cleanup_task_update q f) s2 = Inr (True, s')"
    using assms by (auto simp: stored_cleanup_def split: if_splits)
  have sc: "scene (ASR_TaskID q) s (Facts_Task f) (Facts_Run f) (Facts_Execution f)"
    using LockRecoveryFacts_scene [OF f(1)] by simp
  have keys: "EU_key (cleanup_execution_update q f) = (ASR_TaskID q, Task_CurrentExecutionVersion (Facts_Task f))"
    "RU_TaskID (cleanup_run_update q f) = ASR_TaskID q" "TU_TaskID (cleanup_task_update q f) = ASR_TaskID q"
    "TU_CurrentExecutionVersion (cleanup_task_update q f) = Task_CurrentExecutionVersion (Facts_Task f)"
    using scene_keys [OF sc]
    by (simp_all add: cleanup_execution_update_def cleanup_run_update_def cleanup_task_update_def EU_key_def Let_def)
  show ?thesis
    using sc f(2) three_updates [OF sc u keys cleanup_patches(3,2,1)] by blast
qed

interpretation stored_cleanups: closing_statement ASR_TaskID cleanup_expects cleaned_task cleaned_run
  cleaned_execution stored_cleanup
proof unfold_locales
  fix q b and s s' :: "'x db"
  show miss: "stored_cleanup q s = Inr (False, s') \<Longrightarrow> s' = s"
    by (auto simp: stored_cleanup_def split: if_splits)
  show "stored_cleanup q s = Inr (True, s') \<Longrightarrow> \<exists>t r e. scene (ASR_TaskID q) s t r e \<and> cleanup_expects q t r e \<and>
      scene (ASR_TaskID q) s' (cleaned_task q t) (cleaned_run q r) (cleaned_execution q e) \<and>
      elsewhere_same (ASR_TaskID q) s s' \<and> db_logs s' = db_logs s"
    using stored_cleanup_hit by blast
  show "stored_cleanup q s = Inr (b, s') \<Longrightarrow> statement\<^sup>*\<^sup>* s s'"
    using stored_cleanup_hit [of q s s'] miss by (cases b) auto
qed

lemma legacy_facts_iff:
  "legacy_facts w s p = Some f \<longleftrightarrow> (\<exists>t r e. task_row (fst p) s = Some t \<and> run_row (fst p) s = Some r \<and>
     exec_row p s = Some e \<and> legacy w e \<and>
     f = \<lparr>SCF_Task = t, SCF_Run = r, SCF_Execution = e, SCF_Step = None, SCF_ToolExecution = None,
       SCF_ApprovedRecovery = None\<rparr>)"
  by (auto simp: legacy_facts_def split: option.splits)

lemma legacy_facts_rows: "legacy_facts w s p = Some f \<Longrightarrow> facts_rows s f \<and> facts_key f = p"
  using row_find_SomeD [of Task_TaskID "fst p" "db_tasks s"] row_find_SomeD [of Exec_key p "db_executions s"]
  by (cases p) (fastforce simp: legacy_facts_iff facts_rows_def facts_key_def facts_id_def task_row_def exec_row_def Exec_key_def)

lemma stored_legacy_locks: "locks_legacy stored_legacy"
  unfolding locks_legacy_def
proof (intro allI impI)
  fix w and s :: "'x db" and fs
  assume "stored_legacy w s = Inr fs"
  then have fs: "fs = List.map_filter (legacy_facts w s) (remdups (map Exec_key (db_executions s)))"
    by (simp add: stored_legacy_def)
  have ids: "map facts_key (List.map_filter (legacy_facts w s) ps) = filter (\<lambda>p. legacy_facts w s p \<noteq> None) ps" for ps
    using legacy_facts_rows [of w s] by (induction ps) (auto simp: List.map_filter_simps split: option.splits)
  have "(k, v) \<in> set (map facts_key fs)"
    if row: "exec_row (k, v) s = Some e \<and> task_row k s \<noteq> None \<and> run_row k s \<noteq> None \<and> legacy w e" for k v e
  proof -
    have "(k, v) \<in> set (map Exec_key (db_executions s))"
      using row row_find_SomeD [of Exec_key "(k, v)" "db_executions s" e] by (auto simp: exec_row_def rev_image_eqI)
    moreover have "legacy_facts w s (k, v) \<noteq> None" using row by (auto simp: legacy_facts_def)
    ultimately show ?thesis by (simp add: fs ids)
  qed
  moreover have "list_all (facts_rows s) (List.map_filter (legacy_facts w s) ps)" for ps
    using legacy_facts_rows [of w s] by (induction ps) (auto simp: List.map_filter_simps split: option.splits)
  moreover have "distinct (map facts_key fs)" by (simp add: fs ids)
  moreover have "list_all (facts_rows s) fs" unfolding fs by fact
  ultimately show "list_all (facts_rows s) fs \<and> distinct (map facts_key fs) \<and>
      (\<forall>k v e. exec_row (k, v) s = Some e \<and> task_row k s \<noteq> None \<and> run_row k s \<noteq> None \<and> legacy w e \<longrightarrow>
        (k, v) \<in> set (map facts_key fs))"
    by blast
qed

lemma stored_cleanups_contract: "startup_contract stored_cleanups"
  by (simp add: startup_contract_def stored_cleanups_def stored_legacy_locks stored_cleanups.closing_statement_axioms)

subsection \<open>The properties at work\<close>

definition sample_legacy :: StartupCleanupFacts where
  "sample_legacy = \<lparr>SCF_Task = sample_task TaskStatusRunning None, SCF_Run = sample_run RunStatusRunning,
     SCF_Execution = sample_execution TaskExecutionStatusRunning (Some ''w1''), SCF_Step = None,
     SCF_ToolExecution = None, SCF_ApprovedRecovery = None\<rparr>"

definition legacy_step :: StartupCleanupStep where
  "legacy_step = \<lparr>SCS_StepID = ''s1'', SCS_Type = StepTypeToolCall, SCS_Status = StepStatusRunning,
     SCS_ToolName = ''get_pod'', SCS_ErrorCode = None, SCS_EndedAt = None\<rparr>"

definition legacy_tool :: StartupCleanupToolExecution where
  "legacy_tool = \<lparr>SCT_ToolExecutionID = ''x1'', SCT_TaskID = ''t1'', SCT_StepID = ''s1'', SCT_ExecutionVersion = 1,
     SCT_ToolName = ''get_pod'', SCT_Status = ToolExecutionStatusRunning, SCT_ErrorCode = None,
     SCT_SideEffectUnknown = False, SCT_EndedAt = None\<rparr>"

definition reading_legacy :: StartupCleanupFacts where
  "reading_legacy = sample_legacy\<lparr>SCF_Run := (sample_run RunStatusRunning)\<lparr>Run_CurrentStepID := Some ''s1''\<rparr>,
     SCF_Step := Some legacy_step, SCF_ToolExecution := Some legacy_tool\<rparr>"

definition asks_for :: "CheckpointNextAction \<Rightarrow> unit Ports" where
  "asks_for action = sample_ports\<lparr>LoadLatestForStartupCleanup := \<lambda>k r v s.
     Inr (StartupCleanupCheckpointValid ((sample_checkpoint_of k r v)\<lparr>RC_NextAction := action\<rparr>))\<rparr>"

lemma sample_classify:
  "classify sample_ports sample_legacy ''w2'' 2000 s =
     Inr (interruptStartupRequest (base_request sample_legacy 2000) startupToolNone, False)"
  by (simp add: classify_def startup_config_def sample_legacy_def validateStartupFacts_def startupToolKind_def
      classify_checkpoint_def validateStartupCheckpoint_def validateStartupScene_def action_scene_def Let_def
      sample_port_fields sample_checkpoint_of_def sample_checkpoint_def sample_task_def sample_run_def
      sample_execution_def sample_agents_def sample_agent_def sample_config_def sample_hasher_def )

lemma sample_stored:
  "\<exists>s'. stored_cleanup (interruptStartupRequest (base_request sample_legacy 2000) startupToolNone) running_db = Inr (True, s')"
proof -
  have "case stored_cleanup (interruptStartupRequest (base_request sample_legacy 2000) startupToolNone) running_db of
      Inr (hit, _) \<Rightarrow> hit | Inl _ \<Rightarrow> False"
    by code_simp
  then show ?thesis by (auto split: sum.splits)
qed

lemma sample_lock: "stored_legacy ''w2'' running_db = Inr [sample_legacy]"
  by code_simp

lemma sample_cleanup:
  "\<exists>s'. StartupCleanup sample_ports stored_cleanups sample_call ''w2'' running_db =
     (Inr \<lparr>Sum_Inspected = 1, Sum_Interrupted = 1, Sum_Terminalized = 0\<rparr>, s')"
proof -
  let ?q = "interruptStartupRequest (base_request sample_legacy 2000) startupToolNone"
  have "case stored_cleanup ?q running_db of Inr (hit, s') \<Rightarrow> hit \<and> deferred_ok s' | Inl _ \<Rightarrow> False"
    by code_simp
  then obtain s' where s': "stored_cleanup ?q running_db = Inr (True, s')" "deferred_ok s'" by (auto split: sum.splits)
  have "validateTransitions sample_legacy ?q = Inr ()" by code_simp
  then have "cleanup_one sample_ports stored_cleanups ''w2'' 2000 sample_legacy running_db = Inr (False, s')"
    using s'(1) by (simp add: cleanup_one_def sample_classify stored_cleanups_def)
  then show ?thesis
    using s'(2) by (simp add: StartupCleanup_def startup_work_def stored_cleanups_def sample_lock
        Execute_def sample_port_fields empty_summary_def)
qed

theorem startup_leaves_no_legacy_execution_witness:
  "\<exists>s'. StartupCleanup sample_ports stored_cleanups sample_call ''w2'' running_db =
       (Inr \<lparr>Sum_Inspected = 1, Sum_Interrupted = 1, Sum_Terminalized = 0\<rparr>, s') \<and> runtime_inv s' \<and>
     card {k \<in> legacy_tasks ''w2'' running_db. ended_as False s' k} = 1 \<and>
     (\<forall>k t r e. scene k s' t r e \<longrightarrow> Exec_Status e = TaskExecutionStatusRunning \<longrightarrow> Exec_WorkerID e = Some ''w2'')"
proof -
  obtain s' where run: "StartupCleanup sample_ports stored_cleanups sample_call ''w2'' running_db =
      (Inr \<lparr>Sum_Inspected = 1, Sum_Interrupted = 1, Sum_Terminalized = 0\<rparr>, s')"
    using sample_cleanup by blast
  then show ?thesis
    using startup_leaves_no_legacy_execution [OF run stored_cleanups_contract runtime_inv_running_db] by simp
qed

theorem only_read_tools_are_resumed_witness:
  "\<exists>request d. classify (asks_for CheckpointNextActionExecuteStep) reading_legacy ''w2'' 2000 running_db = Inr (request, False) \<and>
     startupToolDefinition sample_config ''get_pod'' = Inr d \<and> read_tool d \<and>
     ASR_ToolStatus request = Some ToolExecutionStatusFailed"
proof -
  have config: "startup_config (asks_for CheckpointNextActionExecuteStep) reading_legacy = Inr sample_config"
    by (simp add: startup_config_def asks_for_def reading_legacy_def sample_legacy_def sample_port_fields
        sample_task_def sample_execution_def sample_agents_def sample_agent_def sample_hasher_def)
      (simp add: sample_config_def)
  have tool: "startupToolDefinition sample_config ''get_pod'' = Inr (hd sample_tools)"
    by (simp add: startupToolDefinition_def sample_config_def sample_tools_def)
  have kind: "startupToolKind reading_legacy sample_config = Inr startupToolReadRunning"
    by (simp add: startupToolKind_def reading_legacy_def legacy_step_def tool tool_facts_ok_def legacy_tool_def
        sample_legacy_def sample_task_def sample_execution_def)
      (simp add: sample_tools_def read_tool_def)
  obtain request where request: "classify (asks_for CheckpointNextActionExecuteStep) reading_legacy ''w2'' 2000 running_db =
      Inr (request, False)"
    by (simp add: classify_def config kind)
      (simp add: reading_legacy_def sample_legacy_def validateStartupFacts_def legacy_step_def
        classify_checkpoint_def validateStartupCheckpoint_def validateStartupScene_def action_scene_def Let_def
        asks_for_def sample_checkpoint_of_def sample_checkpoint_def sample_task_def sample_run_def sample_execution_def)
  show ?thesis
    using only_read_tools_are_resumed [OF request config, of legacy_step] request tool
    by (auto simp: reading_legacy_def legacy_step_def)
qed

end
