(* ===== verification/TaskQuery.thy ===== *)
theory TaskQuery
  imports Scenes "HOL-Library.Multiset"
begin

section \<open>Task queries\<close>

text \<open>
  \<open>internal/taskruntime/query.go\<close> and \<open>internal/adapter/postgres/taskruntime/query_snapshot.go\<close>: the
  read-only views of tasks. A REPEATABLE READ snapshot is the database itself, which no other
  transaction changes while the query runs. What the other modules know about a recovery is a port.
\<close>

record RecoverabilityEvidence =
  RE_DatabaseNow :: time
  RE_CheckpointValid :: bool
  RE_CheckpointExecutionConfigHash :: ExecutionConfigHash
  RE_HasRunningOrUnknownWriteTool :: bool

record TaskView =
  View_Task :: Task
  View_Run :: Run
  View_Execution :: TaskExecution
  View_Recoverable :: bool

record TaskQuerySnapshot =
  Snap_Task :: Task
  Snap_Run :: Run
  Snap_Execution :: TaskExecution
  Snap_Evidence :: RecoverabilityEvidence

type_synonym 'x evidence = "TaskID \<Rightarrow> RunID \<Rightarrow> ExecutionVersion \<Rightarrow> 'x db \<Rightarrow> GoError + RecoverabilityEvidence"

subsection \<open>Snapshots\<close>

definition loadSnapshot :: "'x evidence \<Rightarrow> Task \<Rightarrow> 'x db \<Rightarrow> GoError + TaskQuerySnapshot" where
  "loadSnapshot evidence task s =
    attempt (RunRepository_LockByTask (Task_TaskID task) s) (\<lambda>run.
    attempt (scanTaskExecution (exec_row (Task_TaskID task, Task_CurrentExecutionVersion task) s)) (\<lambda>execution.
    attempt (evidence (Task_TaskID task) (Run_RunID run) (Exec_ExecutionVersion execution) s) (\<lambda>known.
      Inr \<lparr>Snap_Task = task, Snap_Run = run, Snap_Execution = execution, Snap_Evidence = known\<rparr>)))"

definition FindSnapshot :: "'x evidence \<Rightarrow> TaskID \<Rightarrow> 'x db \<Rightarrow> GoError + TaskQuerySnapshot" where
  "FindSnapshot evidence k s = attempt (scanTask (task_row k s)) (\<lambda>task. loadSnapshot evidence task s)"

text \<open>
  \<open>ORDER BY created_at DESC, task_id ASC\<close>: the sort is stable, so the second key is sorted first.
\<close>

definition query_order :: "Task list \<Rightarrow> Task list" where
  "query_order ts = sort_key (\<lambda>t. - Task_CreatedAt t) (sort_key Task_TaskID ts)"

fun each :: "('a \<Rightarrow> GoError + 'b) \<Rightarrow> 'a list \<Rightarrow> GoError + 'b list" where
  "each f [] = Inr []"
| "each f (x # xs) = attempt (f x) (\<lambda>y. attempt (each f xs) (\<lambda>ys. Inr (y # ys)))"

definition ListSnapshots :: "'x evidence \<Rightarrow> TaskStatus option \<Rightarrow> 'x db \<Rightarrow> GoError + TaskQuerySnapshot list" where
  "ListSnapshots evidence status s =
    (let rows = filter (\<lambda>t. case status of None \<Rightarrow> True | Some st \<Rightarrow> Task_Status t = st) (db_tasks s) in
     attempt (each (\<lambda>t. scanTask (Some t)) (query_order rows)) (\<lambda>tasks.
     each (\<lambda>t. loadSnapshot evidence t s) tasks))"

subsection \<open>Views\<close>

definition loadView :: "'x Ports \<Rightarrow> TaskQuerySnapshot \<Rightarrow> GoError + TaskView" where
  "loadView ports snapshot =
    (let task = Snap_Task snapshot; execution = Snap_Execution snapshot; evidence = Snap_Evidence snapshot;
         view = \<lparr>View_Task = task, View_Run = Snap_Run snapshot, View_Execution = execution,
           View_Recoverable = False\<rparr> in
     if (Task_Status task \<noteq> TaskStatusRunning \<and> Task_Status task \<noteq> TaskStatusInterrupted)
        \<or> Exec_Status execution \<noteq> TaskExecutionStatusInterrupted \<or> Task_QueuedAt task \<noteq> None
     then Inr view
     else if IsZero (RE_DatabaseNow evidence) \<or> \<not> RE_DatabaseNow evidence < Task_DeadlineAt task
        \<or> \<not> RE_CheckpointValid evidence \<or> RE_HasRunningOrUnknownWriteTool evidence
     then Inr view
     else
       (case LookupAgent ports (Task_AgentID task) of
          None \<Rightarrow> Inr view
        | Some config \<Rightarrow>
            if \<not> agent_enabled config then Inr view
            else
              attempt (HashExecutionConfigV1 ports (ARC_ExecutionConfig config)) (\<lambda>currentHash.
              Inr (view\<lparr>View_Recoverable := currentHash = Exec_ExecutionConfigHash execution
                \<and> RE_CheckpointExecutionConfigHash evidence = Exec_ExecutionConfigHash execution\<rparr>))))"

definition GetTask :: "'x Ports \<Rightarrow> 'x evidence \<Rightarrow> TaskID \<Rightarrow> 'x db \<Rightarrow> GoError + TaskView" where
  "GetTask ports evidence k s =
    (if k = '''' then Inl ErrInvalidArgument
     else attempt (FindSnapshot evidence k s) (loadView ports))"

definition ListTasks :: "'x Ports \<Rightarrow> 'x evidence \<Rightarrow> TaskStatus option \<Rightarrow> 'x db \<Rightarrow> GoError + TaskView list" where
  "ListTasks ports evidence status s =
    (if (case status of None \<Rightarrow> False | Some st \<Rightarrow> \<not> TaskStatus_Valid st) then Inl ErrInvalidArgument
     else attempt (ListSnapshots evidence status s) (each (loadView ports)))"

subsection \<open>What the queries answer\<close>

lemma each_ok_iff: "each f xs = Inr ys \<longleftrightarrow> list_all2 (\<lambda>x y. f x = Inr y) xs ys"
  by (induction xs arbitrary: ys) (auto simp: list_all2_Cons1)

lemma each_total: "(\<And>x. x \<in> set xs \<Longrightarrow> \<exists>y. f x = Inr y) \<Longrightarrow> \<exists>ys. each f xs = Inr ys"
proof (induction xs)
  case Nil
  then show ?case by simp
next
  case (Cons x xs)
  then obtain y ys where "f x = Inr y" "each f xs = Inr ys" by fastforce
  then show ?case by simp
qed

text \<open>A stable sort by the second key and then by the first sorts lexicographically.\<close>

lemma sorted_both:
  "sorted (map f ys) \<Longrightarrow> (\<And>k. sorted (map g (filter (\<lambda>y. f y = k) ys))) \<Longrightarrow>
     sorted_wrt (\<lambda>a b. f a < f b \<or> f a = f b \<and> g a \<le> g b) ys"
proof (induction ys)
  case Nil
  then show ?case by simp
next
  case (Cons a ys)
  have "sorted (map g (filter (\<lambda>y. f y = k) ys))" for k
    using Cons.prems(2) [of k] by (cases "f a = k") auto
  then have "sorted_wrt (\<lambda>a b. f a < f b \<or> f a = f b \<and> g a \<le> g b) ys" using Cons.IH Cons.prems(1) by simp
  moreover have "f a < f b \<or> f a = f b \<and> g a \<le> g b" if "b \<in> set ys" for b
    using Cons.prems(1) Cons.prems(2) [of "f a"] that by (auto simp: less_le)
  ultimately show ?case by simp
qed

lemma query_order_sorted:
  "sorted_wrt (\<lambda>a b. Task_CreatedAt b < Task_CreatedAt a \<or>
     Task_CreatedAt a = Task_CreatedAt b \<and> Task_TaskID a \<le> Task_TaskID b) (query_order ts)"
proof -
  have "sorted (map Task_TaskID (filter (\<lambda>t. - Task_CreatedAt t = k) (query_order ts)))" for k
    by (simp add: query_order_def sort_key_stable sorted_filter)
  then have "sorted_wrt (\<lambda>a b. - Task_CreatedAt a < - Task_CreatedAt b \<or>
      - Task_CreatedAt a = - Task_CreatedAt b \<and> Task_TaskID a \<le> Task_TaskID b) (query_order ts)"
    by (intro sorted_both) (simp_all add: query_order_def)
  then show ?thesis by (rule sorted_wrt_mono_rel [rotated]) auto
qed

lemma mset_query_order [simp]: "mset (query_order ts) = mset ts"
  by (simp add: query_order_def)

lemma set_query_order [simp]: "set (query_order ts) = set ts"
  by (simp add: query_order_def)

lemma loadView_keeps:
  "loadView ports snapshot = Inr view \<Longrightarrow> View_Task view = Snap_Task snapshot \<and> View_Run view = Snap_Run snapshot \<and>
     View_Execution view = Snap_Execution snapshot"
  by (auto simp: loadView_def Let_def split: if_splits option.splits)

text \<open>The configuration of the Agent a task names can be hashed, when the Agent is there and enabled.\<close>

definition agent_hashes :: "'x Ports \<Rightarrow> Task \<Rightarrow> bool" where
  "agent_hashes ports t \<longleftrightarrow>
     (case LookupAgent ports (Task_AgentID t) of
        None \<Rightarrow> True
      | Some config \<Rightarrow> agent_enabled config \<longrightarrow> (\<exists>h. HashExecutionConfigV1 ports (ARC_ExecutionConfig config) = Inr h))"

lemma loadView_total: "agent_hashes ports (Snap_Task snapshot) \<Longrightarrow> \<exists>view. loadView ports snapshot = Inr view"
  by (auto simp: loadView_def agent_hashes_def Let_def split: option.splits)

lemma loadSnapshot_scene:
  assumes "loadSnapshot evidence t s = Inr snap" and "task_row (Task_TaskID t) s = Some t"
  shows "Snap_Task snap = t \<and> scene (Task_TaskID t) s t (Snap_Run snap) (Snap_Execution snap)"
  using assms by (auto simp: loadSnapshot_def RunRepository_LockByTask_def scanTaskExecution_def scene_def
      split: option.splits if_splits)

lemma sound_task_loads:
  assumes "runtime_inv s" and "t \<in> set (db_tasks s)" and "\<And>r e. scene (Task_TaskID t) s t r e \<Longrightarrow>
      \<exists>known. evidence (Task_TaskID t) (Run_RunID r) (Exec_ExecutionVersion e) s = Inr known"
  shows "task_row (Task_TaskID t) s = Some t \<and> scanTask (Some t) = Inr t \<and> (\<exists>snap. loadSnapshot evidence t s = Inr snap)"
proof -
  have schema: "schema_ok s" and scenes: "scenes_ok s" using assms(1) by (simp_all add: runtime_inv_def)
  have row: "task_row (Task_TaskID t) s = Some t"
    using row_find_distinct [of Task_TaskID "db_tasks s" t] schema assms(2) by (simp add: schema_ok_def task_row_def)
  then obtain r e where sc: "scene (Task_TaskID t) s t r e" using scenes unfolding scenes_ok_def by blast
  note checks = scene_checks [OF schema sc]
  have "ExecutionVersion_Valid (Exec_ExecutionVersion e)" "ExecutionVersion_Valid (Task_CurrentExecutionVersion t)"
    using checks scene_keys(4) [OF sc] by (simp_all add: Task_check_def TaskExecution_check_def ExecutionVersion_Valid_def bigint_def)
  then show ?thesis
    using row sc assms(3) [OF sc]
    by (auto simp: scanTask_def loadSnapshot_def RunRepository_LockByTask_def scanTaskExecution_def scene_def)
qed

text \<open>
  C29: ListTasks shows the table. On a sound store and with a valid status filter, when the evidence of the other modules
  can be read for the scene of every task the filter keeps and the configuration of its Agent, if enabled, can be
  hashed, the listing succeeds and contains every task with that status once, newest first and by identifier among tasks
  created at the same time, each with its run and its current execution. One bad row never hides the
  others, because a sound store has none.
\<close>

theorem list_tasks_shows_the_table:
  assumes "runtime_inv s" and "\<forall>st. status = Some st \<longrightarrow> TaskStatus_Valid st"
    and "\<And>t. t \<in> set (db_tasks s) \<Longrightarrow> \<forall>st. status = Some st \<longrightarrow> Task_Status t = st \<Longrightarrow> agent_hashes ports t \<and>
      (\<forall>r e. scene (Task_TaskID t) s t r e \<longrightarrow>
        (\<exists>known. evidence (Task_TaskID t) (Run_RunID r) (Exec_ExecutionVersion e) s = Inr known))"
  shows "\<exists>views. ListTasks ports evidence status s = Inr views \<and>
    mset (map View_Task views) = filter_mset (\<lambda>t. \<forall>st. status = Some st \<longrightarrow> Task_Status t = st) (mset (db_tasks s)) \<and>
    sorted_wrt (\<lambda>a b. Task_CreatedAt b < Task_CreatedAt a \<or>
      Task_CreatedAt a = Task_CreatedAt b \<and> Task_TaskID a \<le> Task_TaskID b) (map View_Task views) \<and>
    (\<forall>v\<in>set views. scene (Task_TaskID (View_Task v)) s (View_Task v) (View_Run v) (View_Execution v))"
proof -
  let ?keep = "\<lambda>t. case status of None \<Rightarrow> True | Some st \<Rightarrow> Task_Status t = st"
  let ?rows = "filter ?keep (db_tasks s)"
  have loads: "task_row (Task_TaskID t) s = Some t \<and> scanTask (Some t) = Inr t \<and> (\<exists>snap. loadSnapshot evidence t s = Inr snap)"
      and hashes: "agent_hashes ports t"
    if "t \<in> set ?rows" for t
  proof -
    have t: "t \<in> set (db_tasks s)" "\<forall>st. status = Some st \<longrightarrow> Task_Status t = st" using that by (auto split: option.splits)
    show "agent_hashes ports t" using assms(3) [OF t] by blast
    show "task_row (Task_TaskID t) s = Some t \<and> scanTask (Some t) = Inr t \<and> (\<exists>snap. loadSnapshot evidence t s = Inr snap)"
      by (rule sound_task_loads [OF assms(1) t(1)]) (use assms(3) [OF t] in blast)
  qed
  have rows: "each (\<lambda>t. scanTask (Some t)) (query_order ?rows) = Inr (query_order ?rows)"
    unfolding each_ok_iff by (rule list.rel_refl_strong) (use loads in simp)
  obtain snaps where snaps: "each (\<lambda>t. loadSnapshot evidence t s) (query_order ?rows) = Inr snaps"
    using each_total [of "query_order ?rows" "\<lambda>t. loadSnapshot evidence t s"] loads by auto
  have scene: "Snap_Task snap = t \<and> scene (Task_TaskID t) s t (Snap_Run snap) (Snap_Execution snap)"
    if "loadSnapshot evidence t s = Inr snap" "t \<in> set ?rows" for t snap
    using loadSnapshot_scene [OF that(1)] loads that(2) by auto
  have "\<exists>view. loadView ports snap = Inr view" if mem: "snap \<in> set snaps" for snap
  proof -
    obtain i where i: "i < length snaps" "snap = snaps ! i" using mem by (auto simp: in_set_conv_nth)
    have two: "list_all2 (\<lambda>t snap. loadSnapshot evidence t s = Inr snap) (query_order ?rows) snaps"
      using snaps by (simp only: each_ok_iff)
    define t where "t = query_order ?rows ! i"
    have t: "t \<in> set (query_order ?rows)" "loadSnapshot evidence t s = Inr snap"
      using i list_all2_lengthD [OF two] list_all2_nthD2 [OF two i(1)] unfolding t_def by (simp_all only: nth_mem)
    then have "t \<in> set ?rows" by simp
    then show ?thesis using loadView_total [of ports snap] hashes scene [OF t(2)] by metis
  qed
  then obtain views where views: "each (loadView ports) snaps = Inr views"
    using each_total [of snaps "loadView ports"] by blast
  have call: "ListTasks ports evidence status s = Inr views"
    using assms(2) by (simp add: ListTasks_def ListSnapshots_def Let_def rows snaps views split: option.split)
  have two: "list_all2 (\<lambda>t v. View_Task v = t \<and> scene (Task_TaskID t) s t (View_Run v) (View_Execution v))
      (query_order ?rows) views"
  proof (rule list_all2_trans)
    show "list_all2 (\<lambda>t snap. t \<in> set ?rows \<and> loadSnapshot evidence t s = Inr snap) (query_order ?rows) snaps"
      using snaps unfolding each_ok_iff by (rule list.rel_mono_strong) simp
    show "list_all2 (\<lambda>snap v. loadView ports snap = Inr v) snaps views" using views by (simp add: each_ok_iff)
    fix t snap v
    assume t: "t \<in> set ?rows \<and> loadSnapshot evidence t s = Inr snap" and v: "loadView ports snap = Inr v"
    then show "View_Task v = t \<and> scene (Task_TaskID t) s t (View_Run v) (View_Execution v)"
      using scene [of t snap] loadView_keeps [OF v] by simp
  qed
  then have tasks: "map View_Task views = query_order ?rows"
    by (auto simp: list_all2_conv_all_nth intro: nth_equalityI)
  have "\<forall>v\<in>set views. scene (Task_TaskID (View_Task v)) s (View_Task v) (View_Run v) (View_Execution v)"
    using two by (auto simp: list_all2_conv_all_nth in_set_conv_nth)
  moreover have "filter_mset (\<lambda>t. \<forall>st. status = Some st \<longrightarrow> Task_Status t = st) (mset (db_tasks s)) = mset ?rows"
    by (cases status) simp_all
  moreover have "mset (map View_Task views) = mset ?rows" by (simp only: tasks mset_query_order)
  ultimately show ?thesis
    by (intro exI [of _ views] conjI call) (simp_all only: query_order_sorted [of ?rows, folded tasks] simp_thms)
qed

theorem list_tasks_shows_the_table_witness:
  "\<exists>views. ListTasks sample_ports (\<lambda>k r v s. Inr \<lparr>RE_DatabaseNow = 2000, RE_CheckpointValid = True,
       RE_CheckpointExecutionConfigHash = sample_hash, RE_HasRunningOrUnknownWriteTool = False\<rparr>)
       (Some TaskStatusRunning) running_db = Inr views \<and>
     mset (map View_Task views) = filter_mset (\<lambda>t. Task_Status t = TaskStatusRunning) (mset (db_tasks running_db))"
proof -
  have agents: "agent_hashes sample_ports t" for t
    by (auto simp: agent_hashes_def sample_port_fields sample_hasher_def split: option.splits)
  show ?thesis
    using list_tasks_shows_the_table [OF runtime_inv_running_db, of "Some TaskStatusRunning" sample_ports "\<lambda>k r v s. Inr
        \<lparr>RE_DatabaseNow = 2000, RE_CheckpointValid = True, RE_CheckpointExecutionConfigHash = sample_hash,
         RE_HasRunningOrUnknownWriteTool = False\<rparr>"] agents
    by auto
qed

end
