(* ===== verification/Worker.thy ===== *)
theory Worker
  imports Entities
begin

section \<open>The worker\<close>

text \<open>
  \<open>internal/worker/worker.go\<close>: one execution slot that claims, executes, and waits when the queue is
  empty, until the process context is cancelled or a port fails. The two use cases it calls are ports
  over a state of their own; \<open>pc_context\<close> is the cause the process context was cancelled with at each
  point of the run, \<open>None\<close> while it is active, and \<open>pc_timer\<close> which of the two ready cases the
  \<open>select\<close> of a wait takes. The counter says how many port calls, waits and looks at the context
  the run has made.
\<close>

datatype StopCause =
    ErrRuntimeShutdown
  | ErrLockLost
  | StopCauseOther string

text \<open>What \<open>errors.Is\<close> finds in the error of a port.\<close>

datatype PortError =
    PortCanceled
  | PortDeadlineExceeded
  | PortFailed GoError

datatype WorkerError =
    ErrWorkerConstruction string
  | ErrAlreadyStarted
  | ErrPortContractViolation "PortError option"
  | ErrPort PortError

text \<open>An interface value the Go code does not know is the last constructor.\<close>

datatype 'a unknown_or =
    Known 'a
  | UnknownResult

record Worker =
  Worker_workerID :: WorkerID
  Worker_pollInterval :: duration
  Worker_started :: bool

record 's RuntimePort =
  rp_Claim :: "nat \<Rightarrow> WorkerID \<Rightarrow> 's \<Rightarrow> (ClaimResult unknown_or option \<times> PortError option) \<times> 's"
  rp_Execute :: "nat \<Rightarrow> ExecutionClaim \<Rightarrow> 's \<Rightarrow> (ExecuteResult unknown_or option \<times> PortError option) \<times> 's"

record ProcessContext =
  pc_context :: "nat \<Rightarrow> StopCause option"
  pc_timer :: "nat \<Rightarrow> bool"

definition maxPollInterval :: duration where
  "maxPollInterval = 5 * 10 ^ 9"

definition Worker_New :: "WorkerID \<Rightarrow> duration \<Rightarrow> WorkerError + Worker" where
  "Worker_New workerID pollInterval =
    (if workerID = '''' then Inl (ErrWorkerConstruction ''create Worker: worker ID is required'')
     else if pollInterval \<le> 0 \<or> maxPollInterval < pollInterval
     then Inl (ErrWorkerConstruction ''create Worker: poll interval must be within (0, 5s]'')
     else Inr \<lparr>Worker_workerID = workerID, Worker_pollInterval = pollInterval, Worker_started = False\<rparr>)"

definition cancellation :: "PortError \<Rightarrow> bool" where
  "cancellation err \<longleftrightarrow> err = PortCanceled \<or> err = PortDeadlineExceeded"

definition isNormalStop :: "StopCause option \<Rightarrow> PortError \<Rightarrow> bool" where
  "isNormalStop context err \<longleftrightarrow>
     context \<noteq> None \<and> cancellation err \<and> (context = Some ErrRuntimeShutdown \<or> context = Some ErrLockLost)"

text \<open>\<open>None\<close> is a nil error: the worker stops normally.\<close>

definition portError :: "StopCause option \<Rightarrow> bool \<Rightarrow> PortError \<Rightarrow> WorkerError option" where
  "portError context hasResult err =
    (if hasResult then Some (ErrPortContractViolation (Some err))
     else if isNormalStop context err then None
     else if context = None \<and> cancellation err then Some (ErrPortContractViolation (Some err))
     else Some (ErrPort err))"

text \<open>Executing a claim. \<open>Some\<close> ends the run, with an error or (a nil error on cancellation) without one.\<close>

definition valid_claim :: "WorkerID \<Rightarrow> ExecutionClaim \<Rightarrow> bool" where
  "valid_claim workerID claim \<longleftrightarrow>
     Claim_TaskID claim \<noteq> '''' \<and> Claim_RunID claim \<noteq> '''' \<and> ExecutionVersion_Valid (Claim_ExecutionVersion claim) \<and>
     Claim_WorkerID claim \<noteq> '''' \<and> Claim_WorkerID claim = workerID"

definition execute :: "'s RuntimePort \<Rightarrow> ProcessContext \<Rightarrow> WorkerID \<Rightarrow> ExecutionClaim \<Rightarrow> nat \<times> 's \<Rightarrow> WorkerError option \<times> nat \<times> 's" where
  "execute port process workerID claim p =
    (case p of (n, s) \<Rightarrow>
      if \<not> valid_claim workerID claim then (Some (ErrPortContractViolation None), (n, s))
      else
        (case rp_Execute port n claim s of
           ((result, Some err), s) \<Rightarrow> (portError (pc_context process (Suc n)) (result \<noteq> None) err, (Suc n, s))
         | ((None, None), s) \<Rightarrow> (Some (ErrPortContractViolation None), (Suc n, s))
         | ((Some UnknownResult, None), s) \<Rightarrow> (Some (ErrPortContractViolation None), (Suc n, s))
         | ((Some (Known _), None), s) \<Rightarrow> (None, (Suc n, s))))"

text \<open>A wait is over with True when the timer fired and with False when the context was cancelled.\<close>

definition wait :: "ProcessContext \<Rightarrow> nat \<Rightarrow> bool" where
  "wait process n \<longleftrightarrow> (if pc_context process n = None then True else pc_timer process n)"

text \<open>
  One turn of the loop: \<open>Inl\<close> ends the run (\<open>None\<close> is a nil error), \<open>Inr\<close> goes on. The claim that was
  executed in the turn is returned beside it.
\<close>

definition poll ::
    "'s RuntimePort \<Rightarrow> ProcessContext \<Rightarrow> WorkerID \<Rightarrow> nat \<times> 's \<Rightarrow> (WorkerError option + unit) \<times> (nat \<times> 's)" where
  "poll port process workerID p =
    (case p of (n, s) \<Rightarrow>
     case rp_Claim port n workerID s of
       ((result, Some err), s) \<Rightarrow> (Inl (portError (pc_context process (Suc n)) (result \<noteq> None) err), (Suc n, s))
     | ((None, None), s) \<Rightarrow> (Inl (Some (ErrPortContractViolation None)), (Suc n, s))
     | ((Some UnknownResult, None), s) \<Rightarrow> (Inl (Some (ErrPortContractViolation None)), (Suc n, s))
     | ((Some (Known result), None), s) \<Rightarrow>
         (let go_on = (\<lambda>(n, s). if pc_context process n \<noteq> None then (Inl None, (Suc n, s)) else (Inr (), (Suc n, s))) in
          case result of
            ClaimResultClaimed claim \<Rightarrow>
              (case execute port process workerID claim (Suc n, s) of
                 (Some err, p) \<Rightarrow> (Inl (Some err), p)
               | (None, p) \<Rightarrow> go_on p)
          | ClaimResultNoWork \<Rightarrow>
              if wait process (Suc n) then go_on (Suc (Suc n), s) else (Inl None, (Suc (Suc n), s))
          | _ \<Rightarrow> go_on (Suc n, s)))"

fun run_loop ::
    "nat \<Rightarrow> 's RuntimePort \<Rightarrow> ProcessContext \<Rightarrow> WorkerID \<Rightarrow> nat \<times> 's \<Rightarrow> (WorkerError option \<times> nat \<times> 's) option" where
  "run_loop 0 port process workerID p = None"
| "run_loop (Suc fuel) port process workerID p =
    (case poll port process workerID p of
       (Inl result, p) \<Rightarrow> Some (result, p)
     | (Inr _, p) \<Rightarrow> run_loop fuel port process workerID p)"

definition Worker_Run ::
    "nat \<Rightarrow> 's RuntimePort \<Rightarrow> ProcessContext \<Rightarrow> Worker \<Rightarrow> 's \<Rightarrow> (WorkerError option \<times> nat \<times> 's) option \<times> Worker" where
  "Worker_Run fuel port process w s =
    (if Worker_started w then (Some (Some ErrAlreadyStarted, (0, s)), w)
     else
       (let w = w\<lparr>Worker_started := True\<rparr> in
        if pc_context process 0 \<noteq> None then (Some (None, (0, s)), w)
        else (run_loop fuel port process (Worker_workerID w) (0, s), w)))"

subsection \<open>Stopping\<close>

lemma portError_None: "portError context hasResult err = None \<Longrightarrow> context \<noteq> None"
  by (auto simp: portError_def isNormalStop_def split: if_splits)

lemma execute_counter: "execute port process w claim (n, s) = (err, (n', s')) \<Longrightarrow> n \<le> n'"
  by (auto simp: execute_def split: if_splits prod.splits option.splits unknown_or.splits)

text \<open>A turn moves the counter on, and ends without an error only when the context is cancelled.\<close>

lemma poll_cases:
  assumes "poll port process w (n, s) = (r, (n', s'))"
  shows "n < n' \<and> (r = Inl None \<longrightarrow> pc_context process n' \<noteq> None \<or> pc_context process (n' - 1) \<noteq> None) \<and>
    (r = Inr () \<longrightarrow> pc_context process (n' - 1) = None)"
proof -
  obtain result err s1 where claim: "rp_Claim port n w s = ((result, err), s1)" by (metis prod.collapse)
  show ?thesis
  proof (cases "\<exists>c. result = Some (Known (ClaimResultClaimed c)) \<and> err = None")
    case False
    then show ?thesis
      using assms claim
      by (auto simp: poll_def wait_def Let_def dest!: portError_None split: option.splits unknown_or.splits
          ClaimResult.splits if_splits)
  next
    case True
    then obtain c where c: "result = Some (Known (ClaimResultClaimed c))" "err = None" by blast
    obtain e n1 s2 where e: "execute port process w c (Suc n, s1) = (e, (n1, s2))" by (metis prod.collapse)
    have "Suc n \<le> n1" by (rule execute_counter [OF e])
    then show ?thesis
      using assms claim c e
      by (auto simp: poll_def Let_def split: option.splits if_splits)
  qed
qed

lemma poll_stops: "poll port process w (n, s) = (Inl None, (n', s')) \<Longrightarrow> \<exists>k\<le>n'. pc_context process k \<noteq> None"
  by (metis diff_le_self order_refl poll_cases)

lemma run_loop_returns:
  assumes "\<forall>k\<ge>m. pc_context process k \<noteq> None"
  shows "m \<le> n + fuel \<Longrightarrow> \<exists>result n' s'. run_loop (Suc fuel) port process w (n, s) = Some (result, (n', s')) \<and>
    (result = None \<longrightarrow> (\<exists>k\<le>n'. pc_context process k \<noteq> None))"
proof (induction fuel arbitrary: n s)
  case 0
  obtain r n' s' where p: "poll port process w (n, s) = (r, (n', s'))" by (metis prod.collapse)
  have "n < n'" using poll_cases [OF p] by blast
  then have "m \<le> n' - 1" using 0 by simp
  then have "r \<noteq> Inr ()" using poll_cases [OF p] assms by auto
  then obtain result where "r = Inl result" by (cases r) auto
  then show ?case using p poll_stops [of port process w n s n' s'] by (cases result) auto
next
  case (Suc fuel)
  obtain r n' s' where p: "poll port process w (n, s) = (r, (n', s'))" by (metis prod.collapse)
  show ?case
  proof (cases r)
    case (Inl result)
    then show ?thesis using p poll_stops [of port process w n s n' s'] by (cases result) auto
  next
    case (Inr u)
    have "m \<le> n' + fuel" using poll_cases [OF p] Suc.prems by simp
    from Suc.IH [OF this, of s'] show ?thesis using p Inr by simp
  qed
qed

text \<open>
  C30: The worker runs until it is told to stop. Once the process context stays cancelled from the \<open>m\<close>-th
  point of the run on, the poll loop returns within \<open>m + 1\<close> turns whatever the ports answer, and it returns
  without an error only when the context was cancelled: a port failure, a contract violation or a
  cancellation that the process did not ask for is always reported.
\<close>

theorem worker_runs_until_stopped:
  assumes "\<forall>k\<ge>m. pc_context process k \<noteq> None" and "\<not> Worker_started w"
  shows "\<exists>result n s'. Worker_Run (Suc m) port process w s = (Some (result, (n, s')), w\<lparr>Worker_started := True\<rparr>) \<and>
    (result = None \<longrightarrow> (\<exists>k\<le>n. pc_context process k \<noteq> None))"
  using run_loop_returns [OF assms(1), of 0 m port "Worker_workerID w" s] assms(2)
  by (auto simp: Worker_Run_def Let_def)

definition idle_port :: "unit RuntimePort" where
  "idle_port = \<lparr>rp_Claim = (\<lambda>n w s. ((Some (Known ClaimResultNoWork), None), s)),
     rp_Execute = (\<lambda>n c s. ((Some (Known ExecuteResultStale), None), s))\<rparr>"

theorem worker_runs_until_stopped_witness:
  "\<exists>result n s'. Worker_Run 6 idle_port \<lparr>pc_context = (\<lambda>n. if n < 5 then None else Some ErrRuntimeShutdown), pc_timer = (\<lambda>n. True)\<rparr>
       \<lparr>Worker_workerID = ''w1'', Worker_pollInterval = 1, Worker_started = False\<rparr> () =
     (Some (result, (n, s')), \<lparr>Worker_workerID = ''w1'', Worker_pollInterval = 1, Worker_started = True\<rparr>)"
  using worker_runs_until_stopped [of 5 "\<lparr>pc_context = (\<lambda>n. if n < 5 then None else Some ErrRuntimeShutdown),
      pc_timer = (\<lambda>n. True)\<rparr>" "\<lparr>Worker_workerID = ''w1'', Worker_pollInterval = 1, Worker_started = False\<rparr>" idle_port "()"]
  by auto

end
