(* ===== verification/JsonText.thy ===== *)
theory JsonText
  imports Prelude "HOL-Library.List_Lexorder" "HOL-Library.Char_ord"
begin

section \<open>JSON texts\<close>

text \<open>
  What the code uses of \<open>encoding/json\<close>. A \<open>jtext\<close> is a JSON text up to the space between its
  tokens: members in the order of the text with their duplicates, numbers and string literals verbatim, a
  literal without its quotes. \<open>parse_json\<close> reads a text (\<open>json.Valid\<close> is that it succeeds),
  \<open>render\<close> is the compact text, \<open>unquote\<close> and \<open>quote\<close> read and write a literal, and
  \<open>decode_any\<close> is the value a decoder with \<open>UseNumber\<close> stores in an \<open>any\<close>. The
  nesting limit of 10000 that the scanner of the library has is not modelled.
\<close>

datatype jtext =
    TNull
  | TBool bool
  | TNumber string
  | TString string
  | TArray "jtext list"
  | TObject "(string \<times> jtext) list"

abbreviation (input) quote_char :: char where "quote_char \<equiv> CHR 0x22"
abbreviation (input) backslash :: char where "backslash \<equiv> CHR 0x5C"

subsection \<open>The scanner\<close>

definition json_space :: "char \<Rightarrow> bool" where
  "json_space c \<longleftrightarrow> c = CHR 0x20 \<or> c = CHR 0x09 \<or> c = CHR 0x0A \<or> c = CHR 0x0D"

definition skip :: "string \<Rightarrow> string" where
  "skip cs = dropWhile json_space cs"

definition digit :: "char \<Rightarrow> bool" where
  "digit c \<longleftrightarrow> 48 \<le> (of_char c :: nat) \<and> (of_char c :: nat) \<le> 57"

definition any_hex :: "char \<Rightarrow> bool" where
  "any_hex c \<longleftrightarrow> hex_digit c \<or> (65 \<le> (of_char c :: nat) \<and> (of_char c :: nat) \<le> 70)"

definition simple_escape :: "char \<Rightarrow> bool" where
  "simple_escape c \<longleftrightarrow> c \<in> set [quote_char, backslash, CHR ''/'', CHR ''b'', CHR ''f'', CHR ''n'', CHR ''r'', CHR ''t'']"

text \<open>The literal up to its closing quote, and what follows the quote.\<close>

function lex_string :: "string \<Rightarrow> (string \<times> string) option" where
  "lex_string [] = None"
| "lex_string (c # cs) =
    (if c = quote_char then Some ([], cs)
     else if (of_char c :: nat) < 32 then None
     else if c \<noteq> backslash then map_option (apfst (Cons c)) (lex_string cs)
     else
       (case cs of
          [] \<Rightarrow> None
        | e # ds \<Rightarrow>
            if simple_escape e then map_option (apfst (append [c, e])) (lex_string ds)
            else if e = CHR ''u'' \<and> 4 \<le> length ds \<and> list_all any_hex (take 4 ds)
            then map_option (apfst (append (c # e # take 4 ds))) (lex_string (drop 4 ds))
            else None))"
  by pat_completeness auto
termination by (relation "measure length") auto

definition lex_fraction :: "string \<Rightarrow> (string \<times> string) option" where
  "lex_fraction cs =
    (case cs of
       [] \<Rightarrow> Some ([], [])
     | c # ds \<Rightarrow>
         if c \<noteq> CHR ''.'' then Some ([], cs)
         else if takeWhile digit ds = [] then None
         else Some (c # takeWhile digit ds, dropWhile digit ds))"

definition exponent_sign :: "string \<Rightarrow> string" where
  "exponent_sign ds = (if ds \<noteq> [] \<and> (hd ds = CHR ''+'' \<or> hd ds = CHR ''-'') then [hd ds] else [])"

definition lex_exponent :: "string \<Rightarrow> (string \<times> string) option" where
  "lex_exponent cs =
    (case cs of
       [] \<Rightarrow> Some ([], [])
     | c # ds \<Rightarrow>
         if c \<noteq> CHR ''e'' \<and> c \<noteq> CHR ''E'' then Some ([], cs)
         else
           (let sign = exponent_sign ds; es = drop (length sign) ds in
            if takeWhile digit es = [] then None
            else Some (c # sign @ takeWhile digit es, dropWhile digit es)))"

definition lex_integer :: "string \<Rightarrow> (string \<times> string) option" where
  "lex_integer cs =
    (if takeWhile digit cs = [] then None
     else if hd cs = CHR ''0'' then Some (''0'', tl cs)
     else Some (takeWhile digit cs, dropWhile digit cs))"

definition lex_number :: "string \<Rightarrow> (string \<times> string) option" where
  "lex_number cs =
    (let sign = (if cs \<noteq> [] \<and> hd cs = CHR ''-'' then ''-'' else []) in
     case lex_integer (drop (length sign) cs) of
       None \<Rightarrow> None
     | Some (whole, cs) \<Rightarrow>
         (case lex_fraction cs of
            None \<Rightarrow> None
          | Some (fraction, cs) \<Rightarrow>
              (case lex_exponent cs of
                 None \<Rightarrow> None
               | Some (exponent, cs) \<Rightarrow> Some (sign @ whole @ fraction @ exponent, cs))))"

subsection \<open>The parser\<close>

text \<open>The fuel is one more than the length of the text: every call reads a character first.\<close>

fun json_value :: "nat \<Rightarrow> string \<Rightarrow> (jtext \<times> string) option"
  and json_elements :: "nat \<Rightarrow> string \<Rightarrow> (jtext list \<times> string) option"
  and json_members :: "nat \<Rightarrow> string \<Rightarrow> ((string \<times> jtext) list \<times> string) option" where
  "json_value 0 cs = None"
| "json_value (Suc n) cs =
    (case skip cs of
       [] \<Rightarrow> None
     | c # ds \<Rightarrow>
         if c = CHR 0x7B then
           (if skip ds \<noteq> [] \<and> hd (skip ds) = CHR 0x7D then Some (TObject [], tl (skip ds))
            else map_option (apfst TObject) (json_members n ds))
         else if c = CHR 0x5B then
           (if skip ds \<noteq> [] \<and> hd (skip ds) = CHR 0x5D then Some (TArray [], tl (skip ds))
            else map_option (apfst TArray) (json_elements n ds))
         else if c = quote_char then map_option (apfst TString) (lex_string ds)
         else if take 4 (c # ds) = ''null'' then Some (TNull, drop 4 (c # ds))
         else if take 4 (c # ds) = ''true'' then Some (TBool True, drop 4 (c # ds))
         else if take 5 (c # ds) = ''false'' then Some (TBool False, drop 5 (c # ds))
         else map_option (apfst TNumber) (lex_number (c # ds)))"
| "json_elements 0 cs = None"
| "json_elements (Suc n) cs =
    (case json_value n cs of
       None \<Rightarrow> None
     | Some (v, cs) \<Rightarrow>
         (case skip cs of
            [] \<Rightarrow> None
          | c # ds \<Rightarrow>
              if c = CHR 0x2C then map_option (apfst (Cons v)) (json_elements n ds)
              else if c = CHR 0x5D then Some ([v], ds)
              else None))"
| "json_members 0 cs = None"
| "json_members (Suc n) cs =
    (case skip cs of
       [] \<Rightarrow> None
     | c # ds \<Rightarrow>
         if c \<noteq> quote_char then None
         else
           (case lex_string ds of
              None \<Rightarrow> None
            | Some (k, es) \<Rightarrow>
                if skip es = [] \<or> hd (skip es) \<noteq> CHR 0x3A then None
                else
                  (case json_value n (tl (skip es)) of
                     None \<Rightarrow> None
                   | Some (v, cs) \<Rightarrow>
                       (case skip cs of
                          [] \<Rightarrow> None
                        | c # ds \<Rightarrow>
                            if c = CHR 0x2C then map_option (apfst (Cons (k, v))) (json_members n ds)
                            else if c = CHR 0x7D then Some ([(k, v)], ds)
                            else None))))"

definition parse_json :: "string \<Rightarrow> jtext option" where
  "parse_json cs =
    (case json_value (Suc (length cs)) cs of
       None \<Rightarrow> None
     | Some (t, rest) \<Rightarrow> if skip rest = [] then Some t else None)"

subsection \<open>The compact text\<close>

fun commas :: "string list \<Rightarrow> string" where
  "commas [] = []"
| "commas [x] = x"
| "commas (x # xs) = x @ CHR 0x2C # commas xs"

fun render :: "jtext \<Rightarrow> string" where
  "render TNull = ''null''"
| "render (TBool b) = (if b then ''true'' else ''false'')"
| "render (TNumber n) = n"
| "render (TString s) = quote_char # s @ [quote_char]"
| "render (TArray ts) = CHR 0x5B # commas (map render ts) @ [CHR 0x5D]"
| "render (TObject ms) =
    CHR 0x7B # commas (map (\<lambda>(k, t). quote_char # k @ quote_char # CHR 0x3A # render t) ms) @ [CHR 0x7D]"

text \<open>Texts the scanner accepts as they are.\<close>

definition literal :: "string \<Rightarrow> bool" where
  "literal s \<longleftrightarrow> lex_string (s @ [quote_char]) = Some (s, [])"

definition numeral_text :: "string \<Rightarrow> bool" where
  "numeral_text n \<longleftrightarrow> lex_number n = Some (n, [])"

fun well_formed :: "jtext \<Rightarrow> bool" where
  "well_formed (TNumber n) = numeral_text n"
| "well_formed (TString s) = literal s"
| "well_formed (TArray ts) = list_all well_formed ts"
| "well_formed (TObject ms) = list_all (\<lambda>(k, t). literal k \<and> well_formed t) ms"
| "well_formed _ = True"

subsection \<open>Reading back the compact text\<close>

lemma lex_string_append: "lex_string cs = Some (s, r) \<Longrightarrow> lex_string (cs @ rest) = Some (s, r @ rest)"
proof (induction cs arbitrary: s r rule: lex_string.induct)
  case 1
  then show ?case by simp
next
  case (2 c cs)
  show ?case
  proof (cases "c = quote_char \<or> (of_char c :: nat) < 32 \<or> c \<noteq> backslash")
    case True
    then show ?thesis using "2.prems" "2.IH"(1) by (auto split: if_splits)
  next
    case False
    then show ?thesis using "2.prems" "2.IH"(2,3) by (cases cs) (auto split: if_splits)
  qed
qed

lemma literal_append: "literal s \<Longrightarrow> lex_string (s @ quote_char # rest) = Some (s, rest)"
  unfolding literal_def by (drule lex_string_append [where rest = rest]) simp

text \<open>What may follow a value inside a text.\<close>

definition stop :: "string \<Rightarrow> bool" where
  "stop cs \<longleftrightarrow> cs = [] \<or> hd cs \<in> {CHR 0x2C, CHR 0x5D, CHR 0x7D}"

lemma stop_simps [simp]: "stop []" "stop (CHR 0x2C # cs)" "stop (CHR 0x5D # cs)" "stop (CHR 0x7D # cs)"
  by (simp_all add: stop_def)

lemma stop_no_digit: "stop (c # cs) \<Longrightarrow> \<not> digit c"
  by (auto simp: stop_def digit_def)

lemma digits_append [simp]:
  assumes "stop rest"
  shows "takeWhile digit (cs @ rest) = takeWhile digit cs" "dropWhile digit (cs @ rest) = dropWhile digit cs @ rest"
proof -
  have "takeWhile digit rest = []" "dropWhile digit rest = rest"
    using assms by (cases rest; simp add: stop_no_digit)+
  then show "takeWhile digit (cs @ rest) = takeWhile digit cs" "dropWhile digit (cs @ rest) = dropWhile digit cs @ rest"
    by (induction cs) auto
qed

lemma lex_fraction_append:
  "stop rest \<Longrightarrow> lex_fraction cs = Some (w, r) \<Longrightarrow> lex_fraction (cs @ rest) = Some (w, r @ rest)"
  by (cases cs; cases rest) (auto simp: lex_fraction_def stop_def split: if_splits)

lemma lex_exponent_append:
  assumes "stop rest" and "lex_exponent cs = Some (w, r)"
  shows "lex_exponent (cs @ rest) = Some (w, r @ rest)"
proof (cases cs)
  case Nil
  then show ?thesis using assms by (cases rest) (auto simp: lex_exponent_def stop_def)
next
  case (Cons c ds)
  show ?thesis
  proof (cases ds)
    case Nil
    then show ?thesis using assms Cons by (auto simp: lex_exponent_def exponent_sign_def Let_def split: if_splits)
  next
    case (Cons d es)
    then show ?thesis
      using assms \<open>cs = c # ds\<close> digits_append [OF assms(1), of es] digits_append [OF assms(1), of "d # es"]
      by (auto simp: lex_exponent_def exponent_sign_def Let_def simp del: digits_append split: if_splits)
  qed
qed

lemma lex_integer_append:
  "stop rest \<Longrightarrow> lex_integer cs = Some (w, r) \<Longrightarrow> lex_integer (cs @ rest) = Some (w, r @ rest)"
  by (cases cs) (auto simp: lex_integer_def split: if_splits)

lemma numeral_append:
  assumes "numeral_text n" and "stop rest"
  shows "lex_number (n @ rest) = Some (n, rest)"
proof -
  let ?sign = "if n \<noteq> [] \<and> hd n = CHR ''-'' then ''-'' else []"
  obtain w c1 f c2 e where steps: "lex_integer (drop (length ?sign) n) = Some (w, c1)" "lex_fraction c1 = Some (f, c2)"
      "lex_exponent c2 = Some (e, [])" "n = ?sign @ w @ f @ e"
    using assms(1) unfolding numeral_text_def lex_number_def Let_def by (auto split: option.splits)
  then have "n \<noteq> []" by (auto simp: lex_integer_def)
  then have "hd (n @ rest) = hd n" "drop (length ?sign) (n @ rest) = drop (length ?sign) n @ rest" by (cases n; simp)+
  then show ?thesis
    using lex_integer_append [OF assms(2) steps(1)] lex_fraction_append [OF assms(2) steps(2)]
      lex_exponent_append [OF assms(2) steps(3)] steps(4)[symmetric] \<open>n \<noteq> []\<close>
    unfolding lex_number_def Let_def by auto
qed

lemma numeral_head: "numeral_text n \<Longrightarrow> \<exists>c cs. n = c # cs \<and> (c = CHR ''-'' \<or> digit c)"
  unfolding numeral_text_def lex_number_def lex_integer_def Let_def
  by (cases n) (auto split: if_splits option.splits)

text \<open>How a value begins.\<close>

definition value_head :: "char \<Rightarrow> bool" where
  "value_head c \<longleftrightarrow> \<not> json_space c \<and> c \<noteq> CHR 0x5D \<and> c \<noteq> CHR 0x7D"

lemma render_head: "well_formed t \<Longrightarrow> \<exists>c cs. render t = c # cs \<and> value_head c"
proof (cases t)
  case (TNumber n)
  assume "well_formed t"
  then show ?thesis using TNumber numeral_head [of n] by (auto simp: value_head_def json_space_def digit_def)
qed (auto simp: value_head_def json_space_def)

lemma skip_value [simp]: "value_head c \<Longrightarrow> skip (c # cs) = c # cs"
  by (simp add: skip_def value_head_def)

lemma skip_token [simp]: "c \<in> {CHR 0x2C, CHR 0x5D, CHR 0x7D, CHR 0x3A, quote_char} \<Longrightarrow> skip (c # cs) = c # cs"
  by (auto simp: skip_def json_space_def)

lemma skip_commas:
  assumes "ts \<noteq> []" and "\<forall>t\<in>set ts. \<exists>c cs. t = c # cs \<and> value_head c"
  shows "\<exists>c cs. commas ts = c # cs \<and> value_head c"
proof (cases ts)
  case Nil
  then show ?thesis using assms(1) by simp
next
  case (Cons t us)
  then obtain c cs where "t = c # cs" "value_head c" using assms(2) by auto
  then show ?thesis using Cons by (cases us) auto
qed

lemma commas_Cons: "commas (x # xs) = x @ (if xs = [] then [] else CHR 0x2C # commas xs)"
  by (cases xs) simp_all

lemma json_elements_render:
  assumes "ts \<noteq> []" and "\<forall>t\<in>set ts. well_formed t"
    and "\<And>t n rest. t \<in> set ts \<Longrightarrow> stop rest \<Longrightarrow> length (render t) < n \<Longrightarrow> json_value n (render t @ rest) = Some (t, rest)"
    and "length (commas (map render ts)) + 1 < n"
  shows "json_elements n (commas (map render ts) @ CHR 0x5D # rest) = Some (ts, rest)"
  using assms
proof (induction ts arbitrary: n)
  case Nil
  then show ?case by simp
next
  case (Cons t ts)
  obtain m where n: "n = Suc m" using Cons.prems(4) by (cases n) auto
  have short: "length (render t) < m" using Cons.prems(4) n by (simp add: commas_Cons)
  show ?case
  proof (cases "ts = []")
    case True
    then show ?thesis using Cons.prems(3) [of t "CHR 0x5D # rest" m] short n by simp
  next
    case False
    have "json_elements m (commas (map render ts) @ CHR 0x5D # rest) = Some (ts, rest)"
      using Cons.prems n False by (intro Cons.IH) (auto simp: commas_Cons)
    then show ?thesis
      using Cons.prems(3) [of t "CHR 0x2C # commas (map render ts) @ CHR 0x5D # rest" m] short n False
      by (simp add: commas_Cons)
  qed
qed

abbreviation (input) render_member :: "string \<times> jtext \<Rightarrow> string" where
  "render_member \<equiv> \<lambda>(k, t). quote_char # k @ quote_char # CHR 0x3A # render t"

lemma json_members_render:
  assumes "ms \<noteq> []" and "\<forall>m\<in>set ms. literal (fst m) \<and> well_formed (snd m)"
    and "\<And>m n rest. m \<in> set ms \<Longrightarrow> stop rest \<Longrightarrow> length (render (snd m)) < n \<Longrightarrow>
      json_value n (render (snd m) @ rest) = Some (snd m, rest)"
    and "length (commas (map render_member ms)) + 1 < n"
  shows "json_members n (commas (map render_member ms) @ CHR 0x7D # rest) = Some (ms, rest)"
  using assms
proof (induction ms arbitrary: n)
  case Nil
  then show ?case by simp
next
  case (Cons m ms)
  obtain k t where m: "m = (k, t)" by (cases m)
  obtain n' where n: "n = Suc n'" using Cons.prems(4) by (cases n) auto
  have short: "length (render t) < n'" using Cons.prems(4) n m by (simp add: commas_Cons)
  have key: "literal k" using Cons.prems(2) m by simp
  show ?case
  proof (cases "ms = []")
    case True
    then show ?thesis
      using Cons.prems(3) [of m "CHR 0x7D # rest" n'] short n m literal_append [OF key] by simp
  next
    case False
    have "json_members n' (commas (map render_member ms) @ CHR 0x7D # rest) = Some (ms, rest)"
      using Cons.prems n m False by (intro Cons.IH) (auto simp: commas_Cons)
    then show ?thesis
      using Cons.prems(3) [of m "CHR 0x2C # commas (map render_member ms) @ CHR 0x7D # rest" n'] short n m False
        literal_append [OF key]
      by (simp add: commas_Cons)
  qed
qed

lemma json_value_render:
  "well_formed t \<Longrightarrow> stop rest \<Longrightarrow> length (render t) < n \<Longrightarrow> json_value n (render t @ rest) = Some (t, rest)"
proof (induction t arbitrary: n rest)
  case TNull
  then show ?case by (cases n) (auto simp: skip_def json_space_def)
next
  case (TBool b)
  then show ?case by (cases n; cases b) (auto simp: skip_def json_space_def)
next
  case (TNumber x)
  obtain m where n: "n = Suc m" using TNumber.prems(3) by (cases n) auto
  obtain c cs where x: "x = c # cs" "c = CHR ''-'' \<or> digit c" using numeral_head [of x] TNumber.prems(1) by auto
  then have c: "value_head c" "c \<notin> {CHR 0x7B, CHR 0x5B, quote_char, CHR ''n'', CHR ''t'', CHR ''f''}"
    by (auto simp: value_head_def json_space_def digit_def)
  show ?case
    using numeral_append [of x rest] TNumber.prems(1,2) x(1) c n by auto
next
  case (TString s)
  then obtain m where "n = Suc m" by (cases n) auto
  then show ?case using TString.prems(1) literal_append [of s rest] by simp
next
  case (TArray ts)
  obtain m where n: "n = Suc m" using TArray.prems(3) by (cases n) auto
  show ?case
  proof (cases "ts = []")
    case True
    then show ?thesis using n by (simp add: skip_def json_space_def)
  next
    case False
    have "\<forall>t\<in>set (map render ts). \<exists>c cs. t = c # cs \<and> value_head c"
      using TArray.prems(1) render_head by (auto simp: list_all_iff)
    with False obtain c cs where head: "commas (map render ts) = c # cs" "value_head c"
      using skip_commas [of "map render ts"] by auto
    have "json_elements m (commas (map render ts) @ CHR 0x5D # rest) = Some (ts, rest)"
      using TArray False n by (intro json_elements_render) (auto simp: list_all_iff)
    then show ?thesis using n head by (auto simp: skip_def json_space_def value_head_def)
  qed
next
  case (TObject ms)
  obtain m where n: "n = Suc m" using TObject.prems(3) by (cases n) auto
  show ?case
  proof (cases "ms = []")
    case True
    then show ?thesis using n by (simp add: skip_def json_space_def)
  next
    case False
    then obtain cs where head: "commas (map render_member ms) = quote_char # cs"
      by (cases ms) (auto simp: commas_Cons split: prod.splits)
    have "json_members m (commas (map render_member ms) @ CHR 0x7D # rest) = Some (ms, rest)"
    proof (rule json_members_render [OF False])
      show "\<forall>m\<in>set ms. literal (fst m) \<and> well_formed (snd m)" using TObject.prems(1) by (auto simp: list_all_iff)
      show "length (commas (map render_member ms)) + 1 < m" using TObject.prems(3) n by simp
      fix p k rest'
      assume "p \<in> set ms" "stop rest'" "length (render (snd p)) < k"
      then show "json_value k (render (snd p) @ rest') = Some (snd p, rest')"
        using TObject.IH [of p "snd p" rest' k] TObject.prems(1) by (cases p) (auto simp: list_all_iff)
    qed
    then show ?thesis using n head by (simp add: skip_def json_space_def)
  qed
qed

lemma parse_render [simp]: "well_formed t \<Longrightarrow> parse_json (render t) = Some t"
  using json_value_render [of t "[]" "Suc (length (render t))"]
  by (simp add: parse_json_def skip_def del: json_value.simps)

subsection \<open>What the scanner returns is well formed\<close>

lemma lex_string_literal: "lex_string cs = Some (s, r) \<Longrightarrow> literal s"
  unfolding literal_def
proof (induction cs arbitrary: s r rule: lex_string.induct)
  case 1
  then show ?case by simp
next
  case (2 c cs)
  show ?case
  proof (cases "c = quote_char \<or> (of_char c :: nat) < 32 \<or> c \<noteq> backslash")
    case True
    then show ?thesis using "2.prems" "2.IH"(1) by (auto split: if_splits)
  next
    case False
    then show ?thesis using "2.prems" "2.IH"(2,3) by (cases cs) (auto split: if_splits)
  qed
qed

lemma takeWhile_digit_idem:
  assumes "cs = [] \<or> \<not> digit (hd cs)"
  shows "takeWhile digit (takeWhile digit ds @ cs) = takeWhile digit ds" "dropWhile digit (takeWhile digit ds @ cs) = cs"
proof -
  have "takeWhile digit cs = []" "dropWhile digit cs = cs" using assms by (cases cs; simp)+
  then show "takeWhile digit (takeWhile digit ds @ cs) = takeWhile digit ds" "dropWhile digit (takeWhile digit ds @ cs) = cs"
    by (induction ds) auto
qed

lemma hd_digits: "takeWhile digit ds \<noteq> [] \<Longrightarrow> digit (hd (takeWhile digit ds))"
  by (cases ds) (auto split: if_splits)

lemma exponent_sign_idem:
  assumes "D \<noteq> []" and "digit (hd D)"
  shows "exponent_sign (exponent_sign ds @ D) = exponent_sign ds"
  using assms by (cases D) (auto simp: exponent_sign_def digit_def)

lemma lex_exponent_parts:
  assumes "lex_exponent cs = Some (e, r)"
  shows "lex_exponent e = Some (e, []) \<and> (e = [] \<or> hd e = CHR ''e'' \<or> hd e = CHR ''E'')"
proof (cases "e = []")
  case True
  then show ?thesis by (simp add: lex_exponent_def)
next
  case False
  then obtain c ds where cs: "cs = c # ds" "c = CHR ''e'' \<or> c = CHR ''E''"
    using assms by (auto simp: lex_exponent_def split: list.splits if_splits)
  let ?D = "takeWhile digit (drop (length (exponent_sign ds)) ds)"
  have e: "?D \<noteq> []" "e = c # exponent_sign ds @ ?D"
    using assms cs by (auto simp: lex_exponent_def exponent_sign_def Let_def split: if_splits)
  have "takeWhile digit ?D = ?D" "dropWhile digit ?D = []"
    using takeWhile_digit_idem [of "[]"] by simp_all
  then have "lex_exponent (c # exponent_sign ds @ ?D) = Some (c # exponent_sign ds @ ?D, [])"
    using cs(2) e(1) exponent_sign_idem [OF e(1) hd_digits [OF e(1)], of ds]
    by (auto simp: lex_exponent_def Let_def)
  then show ?thesis using e(2) cs(2) by simp
qed

lemma lex_fraction_parts: "lex_fraction cs = Some (f, r) \<Longrightarrow> e = [] \<or> hd e = CHR ''e'' \<or> hd e = CHR ''E'' \<Longrightarrow>
    lex_fraction (f @ e) = Some (f, e) \<and> (f = [] \<or> hd f = CHR ''.'')"
  using takeWhile_digit_idem [of e] by (cases cs; cases e) (auto simp: lex_fraction_def digit_def split: if_splits)

lemma lex_integer_parts: "lex_integer cs = Some (w, r) \<Longrightarrow> e = [] \<or> \<not> digit (hd e) \<Longrightarrow>
    lex_integer (w @ e) = Some (w, e) \<and> w \<noteq> [] \<and> hd w \<noteq> CHR ''-''"
  using takeWhile_digit_idem [of e] by (cases cs) (auto simp: lex_integer_def digit_def split: if_splits)

lemma lex_number_numeral:
  assumes "lex_number cs = Some (n, r)"
  shows "numeral_text n"
proof -
  let ?sign = "if cs \<noteq> [] \<and> hd cs = CHR ''-'' then ''-'' else []"
  obtain w c1 f c2 e where steps: "lex_integer (drop (length ?sign) cs) = Some (w, c1)" "lex_fraction c1 = Some (f, c2)"
      "lex_exponent c2 = Some (e, r)" "n = ?sign @ w @ f @ e"
    using assms unfolding lex_number_def Let_def by (auto split: option.splits)
  note e = lex_exponent_parts [OF steps(3)]
  then have f: "lex_fraction (f @ e) = Some (f, e)" "f = [] \<or> hd f = CHR ''.''"
    using lex_fraction_parts [OF steps(2)] by auto
  then have "f @ e = [] \<or> \<not> digit (hd (f @ e))" using e by (cases f; cases e) (auto simp: digit_def)
  then have w: "lex_integer (w @ f @ e) = Some (w, f @ e)" "w \<noteq> []" "hd w \<noteq> CHR ''-''"
    using lex_integer_parts [OF steps(1)] by auto
  show ?thesis
    unfolding numeral_text_def lex_number_def Let_def steps(4) using e f w by auto
qed

lemma json_value_well_formed:
  "json_value n cs = Some (t, r) \<Longrightarrow> well_formed t"
  "json_elements n cs = Some (ts, r) \<Longrightarrow> list_all well_formed ts"
  "json_members n cs = Some (ms, r) \<Longrightarrow> list_all (\<lambda>(k, t). literal k \<and> well_formed t) ms"
  by (induction n cs and n cs and n cs arbitrary: t r and ts r and ms r
      rule: json_value_json_elements_json_members.induct)
    (auto split: list.splits if_splits option.splits dest: lex_string_literal lex_number_numeral, (erule lex_string_literal)+)

lemma parse_well_formed: "parse_json cs = Some t \<Longrightarrow> well_formed t"
  by (auto simp: parse_json_def simp del: json_value.simps split: option.splits if_splits dest: json_value_well_formed(1))

subsection \<open>String literals\<close>

text \<open>The width of the UTF-8 sequence at the head of a string, 0 when there is none.\<close>

definition width_bytes :: "nat list \<Rightarrow> nat" where
  "width_bytes s =
    (case s of
       [] \<Rightarrow> 0
     | b # bs \<Rightarrow>
         if b < 128 then 1
         else if 194 \<le> b \<and> b \<le> 223 then (case bs of c # cs \<Rightarrow> if cont_byte c then 2 else 0 | [] \<Rightarrow> 0)
         else if 224 \<le> b \<and> b \<le> 239 then
           (case bs of
              c # d # cs \<Rightarrow>
                if (if b = 224 then 160 \<le> c \<and> c \<le> 191 else if b = 237 then 128 \<le> c \<and> c \<le> 159 else cont_byte c)
                   \<and> cont_byte d then 3 else 0
            | _ \<Rightarrow> 0)
         else if 240 \<le> b \<and> b \<le> 244 then
           (case bs of
              c # d # e # cs \<Rightarrow>
                if (if b = 240 then 144 \<le> c \<and> c \<le> 191 else if b = 244 then 128 \<le> c \<and> c \<le> 143 else cont_byte c)
                   \<and> cont_byte d \<and> cont_byte e then 4 else 0
            | _ \<Rightarrow> 0)
         else 0)"

definition rune_width :: "string \<Rightarrow> nat" where
  "rune_width s = width_bytes (map of_char s)"

definition encode_rune :: "nat \<Rightarrow> string" where
  "encode_rune r =
    (if r < 128 then [char_of r]
     else if r < 2048 then [char_of (192 + r div 64), char_of (128 + r mod 64)]
     else if r < 65536 then
       [char_of (224 + r div 4096), char_of (128 + r div 64 mod 64), char_of (128 + r mod 64)]
     else
       [char_of (240 + r div 262144), char_of (128 + r div 4096 mod 64), char_of (128 + r div 64 mod 64),
        char_of (128 + r mod 64)])"

definition replacement :: string where
  "replacement = [CHR 0xEF, CHR 0xBF, CHR 0xBD]"

definition hex_value :: "char \<Rightarrow> nat" where
  "hex_value c =
    (let b = of_char c :: nat in if b \<le> 57 then b - 48 else if b \<le> 70 then b - 55 else b - 87)"

definition hex_code :: "string \<Rightarrow> nat" where
  "hex_code ds = foldl (\<lambda>n d. 16 * n + hex_value d) 0 ds"

definition escaped_char :: "char \<Rightarrow> char" where
  "escaped_char e =
    (if e = CHR ''b'' then CHR 0x08 else if e = CHR ''f'' then CHR 0x0C else if e = CHR ''n'' then CHR 0x0A
     else if e = CHR ''r'' then CHR 0x0D else if e = CHR ''t'' then CHR 0x09 else e)"

text \<open>
  A \<open>\u\<close> escape and what it stands for: a surrogate needs its partner, else it becomes the
  replacement character. The number is how many characters after the \<open>u\<close> it takes.
\<close>

definition unicode_escape :: "string \<Rightarrow> string \<times> nat" where
  "unicode_escape ds =
    (let r = hex_code (take 4 ds); low = hex_code (take 4 (drop 6 ds)) in
     if r < 55296 \<or> 57344 \<le> r then (encode_rune r, 4)
     else if r < 56320 \<and> take 2 (drop 4 ds) = [backslash, CHR ''u''] \<and> 56320 \<le> low \<and> low < 57344
     then (encode_rune (65536 + (r - 55296) * 1024 + (low - 56320)), 10)
     else (replacement, 4))"

function unquote :: "string \<Rightarrow> string" where
  "unquote [] = []"
| "unquote (c # cs) =
    (if c \<noteq> backslash then
       (if rune_width (c # cs) = 0 then replacement @ unquote cs
        else take (rune_width (c # cs)) (c # cs) @ unquote (drop (rune_width (c # cs)) (c # cs)))
     else
       (case cs of
          [] \<Rightarrow> []
        | e # ds \<Rightarrow>
            if e = CHR ''u'' then fst (unicode_escape ds) @ unquote (drop (snd (unicode_escape ds)) ds)
            else escaped_char e # unquote ds))"
  by pat_completeness auto
termination by (relation "measure length") auto

definition hex_char :: "nat \<Rightarrow> char" where
  "hex_char n = (if n < 10 then char_of (48 + n) else char_of (87 + n))"

text \<open>How the encoder writes a single byte; \<open>html\<close> is its option \<open>SetEscapeHTML\<close>.\<close>

definition quote_byte :: "bool \<Rightarrow> char \<Rightarrow> string" where
  "quote_byte html c =
    (if c = quote_char \<or> c = backslash then [backslash, c]
     else if c = CHR 0x08 then [backslash, CHR ''b'']
     else if c = CHR 0x0C then [backslash, CHR ''f'']
     else if c = CHR 0x0A then [backslash, CHR ''n'']
     else if c = CHR 0x0D then [backslash, CHR ''r'']
     else if c = CHR 0x09 then [backslash, CHR ''t'']
     else if (of_char c :: nat) < 32 \<or> html \<and> (c = CHR ''<'' \<or> c = CHR ''>'' \<or> c = CHR ''&'')
     then backslash # ''u00'' @ [hex_char (of_char c div 16), hex_char (of_char c mod 16)]
     else [c])"

function quote :: "bool \<Rightarrow> string \<Rightarrow> string" where
  "quote html [] = []"
| "quote html (c # cs) =
    (let w = rune_width (c # cs); rune = take w (c # cs) in
     if w = 0 then backslash # ''ufffd'' @ quote html cs
     else if w = 1 then quote_byte html c @ quote html cs
     else if rune = [CHR 0xE2, CHR 0x80, CHR 0xA8] then backslash # ''u2028'' @ quote html (drop w (c # cs))
     else if rune = [CHR 0xE2, CHR 0x80, CHR 0xA9] then backslash # ''u2029'' @ quote html (drop w (c # cs))
     else rune @ quote html (drop w (c # cs)))"
  by pat_completeness auto
termination by (relation "measure (length \<circ> snd)") (auto simp: Let_def)

declare unquote.simps(2) [simp del] quote.simps(2) [simp del]

lemma width_bytes_le: "width_bytes bs \<le> length bs"
  by (cases bs) (auto simp: width_bytes_def split: list.split)

lemma width_bytes_range:
  assumes "0 < width_bytes bs"
  obtains b cs where "bs = b # cs" "b < 128" | b cs where "bs = b # cs" "\<not> b < 128" "194 \<le> b \<and> b \<le> 223"
  | b cs where "bs = b # cs" "\<not> b < 128" "\<not> b \<le> 223" "224 \<le> b \<and> b \<le> 239"
  | b cs where "bs = b # cs" "\<not> b < 128" "\<not> b \<le> 223" "\<not> b \<le> 239" "240 \<le> b \<and> b \<le> 244"
proof -
  obtain b cs where bs: "bs = b # cs" using assms by (cases bs) (simp_all add: width_bytes_def)
  have "b < 128 \<or> 194 \<le> b \<and> b \<le> 223 \<or> 224 \<le> b \<and> b \<le> 239 \<or> 240 \<le> b \<and> b \<le> 244"
    using assms unfolding bs by (simp add: width_bytes_def split: if_split_asm)
  then consider "b < 128" | "\<not> b < 128" "194 \<le> b \<and> b \<le> 223" | "\<not> b < 128" "\<not> b \<le> 223" "224 \<le> b \<and> b \<le> 239"
    | "\<not> b < 128" "\<not> b \<le> 223" "\<not> b \<le> 239" "240 \<le> b \<and> b \<le> 244"
    by linarith
  then show thesis by cases (use that bs in blast)+
qed

lemma width_bytes_take:
  assumes "0 < width_bytes bs"
  shows "width_bytes (take (width_bytes bs) bs @ rest) = width_bytes bs"
  using assms by (rule width_bytes_range) (use assms in \<open>simp_all add: width_bytes_def split: list.split_asm if_split_asm\<close>)

lemma width_bytes_high:
  assumes "1 < width_bytes bs" and "x \<in> set (take (width_bytes bs) bs)"
  shows "128 \<le> x"
proof -
  have "0 < width_bytes bs" using assms(1) by simp
  then show ?thesis
    by (rule width_bytes_range)
      (use assms in \<open>auto simp: width_bytes_def cont_byte_def split: list.split_asm if_split_asm\<close>)
qed

lemma width_bytes_ascii: "width_bytes (b # bs) = 1 \<longleftrightarrow> b < 128"
  by (auto simp: width_bytes_def split: list.splits)

lemma utf8_bytes_step:
  assumes "utf8_bytes (b # bs)"
  shows "0 < width_bytes (b # bs) \<and> utf8_bytes (drop (width_bytes (b # bs)) (b # bs))"
proof -
  consider "b < 128" | "194 \<le> b \<and> b \<le> 223" | "224 \<le> b \<and> b \<le> 239" | "240 \<le> b \<and> b \<le> 244"
    using assms by (auto split: if_splits)
  then show ?thesis
    by cases (use assms in \<open>simp_all add: width_bytes_def split: list.split_asm\<close>)
qed

lemma rune_width_le: "rune_width s \<le> length s"
  using width_bytes_le [of "map of_char s"] by (simp add: rune_width_def)

lemma rune_width_take: "0 < rune_width s \<Longrightarrow> rune_width (take (rune_width s) s @ rest) = rune_width s"
  using width_bytes_take [of "map of_char s" "map of_char rest"] by (simp add: rune_width_def take_map)

lemma rune_width_high: "1 < rune_width s \<Longrightarrow> c \<in> set (take (rune_width s) s) \<Longrightarrow> 128 \<le> (of_char c :: nat)"
  using width_bytes_high [of "map of_char s" "of_char c"] by (auto simp: rune_width_def take_map)

lemma rune_width_ascii: "rune_width (c # cs) = 1 \<longleftrightarrow> (of_char c :: nat) < 128"
  by (simp add: rune_width_def width_bytes_ascii del: One_nat_def)

lemma utf8_valid_Nil [simp]: "utf8_valid []"
  by (simp add: utf8_valid_def)

lemma utf8_valid_step: "utf8_valid (c # cs) \<Longrightarrow>
    0 < rune_width (c # cs) \<and> utf8_valid (drop (rune_width (c # cs)) (c # cs))"
  using utf8_bytes_step [of "of_char c" "map of_char cs"]
  unfolding utf8_valid_def rune_width_def list.map(2)[symmetric] drop_map .

text \<open>Reading back what the encoder wrote.\<close>

lemma hex_char_facts:
  assumes "n < 16"
  shows "any_hex (hex_char n)" "hex_value (hex_char n) = n"
  using assms by (auto simp: hex_char_def any_hex_def hex_digit_def hex_value_def)

lemma unquote_plain: "rune_width (c # cs) = 1 \<Longrightarrow> c \<noteq> backslash \<Longrightarrow> unquote (c # cs) = c # unquote cs"
  by (simp add: unquote.simps(2))

text \<open>The common case first, for the evaluation of samples.\<close>

lemma digit7_ascii: "\<not> digit7 c \<Longrightarrow> (of_char c :: nat) < 128"
  by (cases c) (simp add: of_char_Char horner_sum_simps)

lemma unquote_code [code]:
  "unquote [] = []"
  "unquote (c # cs) =
    (if \<not> digit7 c \<and> c \<noteq> backslash then c # unquote cs
     else if c \<noteq> backslash then
       (if rune_width (c # cs) = 0 then replacement @ unquote cs
        else take (rune_width (c # cs)) (c # cs) @ unquote (drop (rune_width (c # cs)) (c # cs)))
     else
       (case cs of
          [] \<Rightarrow> []
        | e # ds \<Rightarrow>
            if e = CHR ''u'' then fst (unicode_escape ds) @ unquote (drop (snd (unicode_escape ds)) ds)
            else escaped_char e # unquote ds))"
proof -
  show "unquote [] = []" by simp
  show "unquote (c # cs) =
    (if \<not> digit7 c \<and> c \<noteq> backslash then c # unquote cs
     else if c \<noteq> backslash then
       (if rune_width (c # cs) = 0 then replacement @ unquote cs
        else take (rune_width (c # cs)) (c # cs) @ unquote (drop (rune_width (c # cs)) (c # cs)))
     else
       (case cs of
          [] \<Rightarrow> []
        | e # ds \<Rightarrow>
            if e = CHR ''u'' then fst (unicode_escape ds) @ unquote (drop (snd (unicode_escape ds)) ds)
            else escaped_char e # unquote ds))"
  proof (cases "\<not> digit7 c \<and> c \<noteq> backslash")
    case True
    then have "unquote (c # cs) = c # unquote cs" using digit7_ascii rune_width_ascii by (blast intro: unquote_plain)
    then show ?thesis by (simp only: True if_True simp_thms)
  next
    case False
    show ?thesis by (subst unquote.simps(2)) (simp only: False if_False)
  qed
qed

lemma unquote_rune:
  assumes "1 < rune_width s"
  shows "unquote (take (rune_width s) s @ x) = take (rune_width s) s @ unquote x"
proof -
  obtain c cs where s: "s = c # cs" using assms by (cases s) (auto simp: rune_width_def width_bytes_def)
  let ?w = "rune_width s"
  have w: "rune_width (take ?w s @ x) = ?w" using rune_width_take [of s x] assms by simp
  obtain ds where ds: "take ?w s = c # ds" using assms s by (cases "rune_width s") auto
  have "128 \<le> (of_char c :: nat)" using rune_width_high [OF assms, of c] ds by simp
  then have "c \<noteq> backslash" by auto
  moreover have "length (c # ds) = ?w" using rune_width_le [of s] ds by (metis length_take min.absorb2)
  then have "take ?w ((c # ds) @ x) = c # ds" "drop ?w ((c # ds) @ x) = x"
    using append_eq_conv_conj [of "c # ds" x "(c # ds) @ x"] by (simp_all del: append_Cons)
  ultimately show ?thesis using w assms unfolding ds by (simp add: unquote.simps(2))
qed

lemma unquote_unicode:
  "unquote (backslash # CHR ''u'' # ds) = fst (unicode_escape ds) @ unquote (drop (snd (unicode_escape ds)) ds)"
  by (simp add: unquote.simps(2))

lemma code_of_byte:
  assumes "(of_char c :: nat) < 128"
  shows "unicode_escape (''00'' @ [hex_char (of_char c div 16), hex_char (of_char c mod 16)] @ x) = ([c], 4)"
proof -
  let ?n = "of_char c :: nat"
  have "?n div 16 < 16" using assms by simp
  then have "hex_code (take 4 (''00'' @ [hex_char (?n div 16), hex_char (?n mod 16)] @ x)) = ?n"
    using hex_char_facts(2) [of "?n div 16"] hex_char_facts(2) [of "?n mod 16"]
    by (simp add: hex_code_def hex_value_def)
  then show ?thesis using assms unfolding unicode_escape_def Let_def by (simp add: encode_rune_def)
qed

lemma unquote_byte:
  assumes "(of_char c :: nat) < 128"
  shows "unquote (quote_byte html c @ x) = c # unquote x"
proof -
  have plain: "unquote (c # x) = c # unquote x" if "c \<noteq> backslash"
    using unquote_plain [of c x] assms that by (simp add: rune_width_ascii del: One_nat_def)
  show ?thesis
    using plain code_of_byte [OF assms, of x]
    by (auto simp: quote_byte_def unquote.simps(2) escaped_char_def)
qed

lemma quote_step:
  "quote html (c # cs) =
    (let w = rune_width (c # cs); rune = take w (c # cs) in
     (if w = 0 then backslash # ''ufffd''
      else if w = 1 then quote_byte html c
      else if rune = [CHR 0xE2, CHR 0x80, CHR 0xA8] then backslash # ''u2028''
      else if rune = [CHR 0xE2, CHR 0x80, CHR 0xA9] then backslash # ''u2029''
      else rune) @ quote html (drop (max 1 w) (c # cs)))"
  by (auto simp: quote.simps(2) Let_def max_def)

lemma unquote_quote: "utf8_valid s \<Longrightarrow> unquote (quote html s) = s"
proof (induction "length s" arbitrary: s rule: less_induct)
  case less
  show ?case
  proof (cases s)
    case Nil
    then show ?thesis by simp
  next
    case (Cons c cs)
    let ?w = "rune_width (c # cs)"
    let ?x = "quote html (drop ?w (c # cs))"
    have w: "0 < ?w" "utf8_valid (drop ?w (c # cs))" using utf8_valid_step less.prems Cons by blast+
    then have x: "unquote ?x = drop ?w (c # cs)" using Cons by (intro less.hyps) auto
    have line: "unquote (backslash # ''u2028'' @ y) = [CHR 0xE2, CHR 0x80, CHR 0xA8] @ unquote y"
      "unquote (backslash # ''u2029'' @ y) = [CHR 0xE2, CHR 0x80, CHR 0xA9] @ unquote y" for y
      by (simp_all add: unquote_unicode unicode_escape_def hex_code_def hex_value_def encode_rune_def char_of_def bit_0)
    show ?thesis
    proof (cases "?w = 1")
      case True
      then have "(of_char c :: nat) < 128" by (simp add: rune_width_ascii del: One_nat_def)
      then show ?thesis using True x unquote_byte [of c html ?x] Cons by (simp add: quote_step Let_def)
    next
      case False
      then have more: "1 < ?w" using w(1) by simp
      let ?rune = "take ?w (c # cs)"
      have step: "quote html s = (if ?rune = [CHR 0xE2, CHR 0x80, CHR 0xA8] then backslash # ''u2028''
          else if ?rune = [CHR 0xE2, CHR 0x80, CHR 0xA9] then backslash # ''u2029'' else ?rune) @ ?x"
        unfolding Cons quote_step Let_def using False more by (simp add: max_def)
      have "unquote (quote html s) = ?rune @ unquote ?x"
        unfolding step using line [of ?x] unquote_rune [OF more, of ?x] by simp
      then show ?thesis unfolding x Cons by simp
    qed
  qed
qed

lemma lex_plain:
  "\<forall>c\<in>set p. 32 \<le> (of_char c :: nat) \<and> c \<noteq> quote_char \<and> c \<noteq> backslash \<Longrightarrow>
     lex_string (p @ x) = map_option (apfst (append p)) (lex_string x)"
proof (induction p)
  case Nil
  then show ?case by (cases "lex_string x") auto
next
  case (Cons c p)
  have c: "\<not> (of_char c :: nat) < 32" "c \<noteq> quote_char" "c \<noteq> backslash" using Cons.prems by (simp_all add: not_less)
  have "lex_string (p @ x) = map_option (apfst (append p)) (lex_string x)" using Cons.prems by (intro Cons.IH) simp
  then show ?case using c by (cases "lex_string x") (simp_all add: apfst_def map_prod_def split_beta)
qed

lemma lex_unicode:
  assumes "list_all any_hex p" and "length p = 4"
  shows "lex_string (backslash # CHR ''u'' # p @ x) = map_option (apfst (append (backslash # CHR ''u'' # p))) (lex_string x)"
  using assms by (simp add: simple_escape_def)

lemma lex_byte:
  assumes "(of_char c :: nat) < 128"
  shows "lex_string (quote_byte html c @ x) = map_option (apfst (append (quote_byte html c))) (lex_string x)"
proof -
  have digits: "list_all any_hex (''00'' @ [hex_char (of_char c div 16), hex_char (of_char c mod 16)])"
    using hex_char_facts(1) [of "of_char c div 16"] hex_char_facts(1) [of "of_char c mod 16"] assms
    by (simp add: any_hex_def hex_digit_def)
  show ?thesis
    using lex_unicode [OF digits] lex_plain [of "[c]" x]
    by (auto simp: quote_byte_def simple_escape_def not_less)
qed

lemma quote_literal: "literal (quote html s)"
  unfolding literal_def
proof (induction "length s" arbitrary: s rule: less_induct)
  case less
  show ?case
  proof (cases s)
    case Nil
    then show ?thesis by simp
  next
    case (Cons c cs)
    let ?w = "rune_width (c # cs)"
    let ?x = "quote html (drop (max 1 ?w) (c # cs))"
    have x: "lex_string (?x @ [quote_char]) = Some (?x, [])" using Cons by (intro less.hyps) auto
    have high: "\<forall>d\<in>set (take ?w (c # cs)). 32 \<le> (of_char d :: nat) \<and> d \<noteq> quote_char \<and> d \<noteq> backslash" if "1 < ?w"
    proof
      fix d
      assume "d \<in> set (take ?w (c # cs))"
      then have "128 \<le> (of_char d :: nat)" by (rule rune_width_high [OF that])
      then show "32 \<le> (of_char d :: nat) \<and> d \<noteq> quote_char \<and> d \<noteq> backslash" by auto
    qed
    have fixed: "lex_string (backslash # ''ufffd'' @ y) = map_option (apfst (append (backslash # ''ufffd''))) (lex_string y)"
      "lex_string (backslash # ''u2028'' @ y) = map_option (apfst (append (backslash # ''u2028''))) (lex_string y)"
      "lex_string (backslash # ''u2029'' @ y) = map_option (apfst (append (backslash # ''u2029''))) (lex_string y)" for y
      using lex_unicode [of "''fffd''" y] lex_unicode [of "''2028''" y] lex_unicode [of "''2029''" y]
      by (simp_all add: any_hex_def hex_digit_def)
    show ?thesis
      using x fixed [of "?x @ [quote_char]"] lex_plain [OF high, of "?x @ [quote_char]"]
        lex_byte [of c html "?x @ [quote_char]"] rune_width_ascii [of c cs]
      unfolding Cons quote_step Let_def by (auto simp del: One_nat_def lex_string.simps)
  qed
qed

subsection \<open>Values\<close>

text \<open>
  A Go map with string keys is the list of its entries in key order; storing under a key that is there
  replaces the value, so the last of two equal members of an object wins.
\<close>

datatype jvalue =
    JsonNull
  | JsonBool bool
  | JsonNumber string
  | JsonString string
  | JsonArray "jvalue list"
  | JsonObject "(string \<times> jvalue) list"

fun put :: "string \<Rightarrow> 'v \<Rightarrow> (string \<times> 'v) list \<Rightarrow> (string \<times> 'v) list" where
  "put k v [] = [(k, v)]"
| "put k v ((k', v') # ms) =
    (if k = k' then (k, v) # ms else if k < k' then (k, v) # (k', v') # ms else (k', v') # put k v ms)"

fun collect :: "(string \<times> 'v) list \<Rightarrow> (string \<times> 'v) list \<Rightarrow> (string \<times> 'v) list" where
  "collect [] acc = acc"
| "collect ((k, v) # ms) acc = collect ms (put k v acc)"

fun decode_any :: "jtext \<Rightarrow> jvalue" where
  "decode_any TNull = JsonNull"
| "decode_any (TBool b) = JsonBool b"
| "decode_any (TNumber n) = JsonNumber n"
| "decode_any (TString s) = JsonString (unquote s)"
| "decode_any (TArray ts) = JsonArray (map decode_any ts)"
| "decode_any (TObject ms) = JsonObject (collect (map (\<lambda>(k, t). (unquote k, decode_any t)) ms) [])"

text \<open>\<open>json.Marshal\<close> of such a value.\<close>

fun marshal_any :: "jvalue \<Rightarrow> jtext" where
  "marshal_any JsonNull = TNull"
| "marshal_any (JsonBool b) = TBool b"
| "marshal_any (JsonNumber n) = TNumber n"
| "marshal_any (JsonString s) = TString (quote True s)"
| "marshal_any (JsonArray vs) = TArray (map marshal_any vs)"
| "marshal_any (JsonObject ms) = TObject (map (\<lambda>(k, v). (quote True k, marshal_any v)) ms)"

text \<open>The raw members of an object, as unmarshalling into \<open>map[string]json.RawMessage\<close> leaves them.\<close>

fun object_fields :: "jtext \<Rightarrow> (string \<times> jtext) list option" where
  "object_fields (TObject ms) = Some (collect (map (\<lambda>(k, t). (unquote k, t)) ms) [])"
| "object_fields _ = None"

fun text_of :: "jtext \<Rightarrow> string option" where
  "text_of (TString s) = Some (unquote s)"
| "text_of _ = None"

text \<open>
  \<open>json.Unmarshal\<close> into a string variable leaves it empty for \<open>null\<close> and reports no error.
\<close>

fun unmarshal_string :: "jtext \<Rightarrow> string option" where
  "unmarshal_string TNull = Some []"
| "unmarshal_string (TString s) = Some (unquote s)"
| "unmarshal_string _ = None"

fun has_null :: "jtext \<Rightarrow> bool" where
  "has_null TNull = True"
| "has_null (TArray ts) = list_ex has_null ts"
| "has_null (TObject ms) = list_ex (\<lambda>(k, t). has_null t) ms"
| "has_null _ = False"

definition key_order :: "(string \<times> 'v) list \<Rightarrow> bool" where
  "key_order ms \<longleftrightarrow> sorted_wrt (<) (map fst ms)"

lemma put_keys: "fst ` set (put k v ms) = insert k (fst ` set ms)"
  by (induction ms rule: put.induct) auto

lemma put_entries: "set (put k v ms) \<subseteq> insert (k, v) (set ms)"
  by (induction k v ms rule: put.induct) auto

lemma key_order_put: "key_order ms \<Longrightarrow> key_order (put k v ms)"
proof (induction k v ms rule: put.induct)
  case (1 k v)
  then show ?case by (simp add: key_order_def)
next
  case (2 k v k' v' ms)
  have keys: "fst x = k \<or> fst x \<in> fst ` set ms" if "x \<in> set (put k v ms)" for x
    using put_keys [of k v ms] that by blast
  show ?case
    using 2 by (auto 0 3 simp: key_order_def dest: keys)
qed

lemma key_order_collect: "key_order acc \<Longrightarrow> key_order (collect ms acc)"
  by (induction ms acc rule: collect.induct) (auto intro: key_order_put)

lemma collect_entries: "set (collect ms acc) \<subseteq> set ms \<union> set acc"
  by (induction ms acc rule: collect.induct) (use put_entries in fastforce)+

lemma map_of_put: "map_of (put k v ms) = (map_of ms)(k \<mapsto> v)"
  by (induction k v ms rule: put.induct) (auto simp: fun_eq_iff)

lemma map_of_collect: "map_of (collect ms acc) = map_of acc ++ map_of (rev ms)"
  by (induction ms acc rule: collect.induct) (simp_all add: map_of_put fun_eq_iff map_add_def split: option.split)

lemma put_map: "map (\<lambda>(k, v). (k, f v)) (put k v ms) = put k (f v) (map (\<lambda>(k, v). (k, f v)) ms)"
  by (induction k v ms rule: put.induct) auto

lemma collect_map:
  "map (\<lambda>(k, v). (k, f v)) (collect ms acc) = collect (map (\<lambda>(k, v). (k, f v)) ms) (map (\<lambda>(k, v). (k, f v)) acc)"
  by (induction ms acc rule: collect.induct) (simp_all add: put_map)

lemma put_last: "key_order (ms @ [(k, v)]) \<Longrightarrow> put k v ms = ms @ [(k, v)]"
  by (induction k v ms rule: put.induct) (auto simp: key_order_def sorted_wrt_append)

lemma collect_sorted: "key_order (acc @ ms) \<Longrightarrow> collect ms acc = acc @ ms"
proof (induction ms acc rule: collect.induct)
  case (2 k v ms acc)
  then have "key_order (acc @ [(k, v)])" by (simp add: key_order_def sorted_wrt_append)
  then show ?case using 2 by (simp add: put_last)
qed simp

lemma key_order_distinct: "key_order ms \<Longrightarrow> distinct (map fst ms)"
  by (simp add: key_order_def strict_sorted_iff)

text \<open>Decoding the members of an object with the raw values first or at once is the same.\<close>

lemma decode_object:
  "object_fields t = Some fields \<Longrightarrow> decode_any t = JsonObject (map (\<lambda>(k, t). (k, decode_any t)) fields)"
proof (cases t)
  case (TObject ms)
  have "map (\<lambda>(k, t). (k, decode_any t)) (map (\<lambda>(k, t). (unquote k, t)) ms) = map (\<lambda>(k, t). (unquote k, decode_any t)) ms"
    by auto
  moreover assume "object_fields t = Some fields"
  ultimately show ?thesis using TObject collect_map [of decode_any "map (\<lambda>(k, t). (unquote k, t)) ms" "[]"]
    by (simp del: map_map)
qed simp_all

text \<open>Values that have a text: object keys in order, strings valid UTF-8, numbers as JSON writes them.\<close>

fun storable :: "jvalue \<Rightarrow> bool" where
  "storable (JsonNumber n) = numeral_text n"
| "storable (JsonString s) = utf8_valid s"
| "storable (JsonArray vs) = list_all storable vs"
| "storable (JsonObject ms) = (key_order ms \<and> list_all (\<lambda>(k, v). utf8_valid k \<and> storable v) ms)"
| "storable _ = True"

lemma marshal_well_formed: "storable v \<Longrightarrow> well_formed (marshal_any v)"
  by (induction v) (auto simp: quote_literal list_all_iff)

lemma decode_marshal: "storable v \<Longrightarrow> decode_any (marshal_any v) = v"
proof (induction v)
  case (JsonArray vs)
  then show ?case by (auto simp: list_all_iff intro: map_idI)
next
  case (JsonObject ms)
  then have "map (\<lambda>(k, t). (unquote k, decode_any t)) (map (\<lambda>(k, v). (quote True k, marshal_any v)) ms) = ms"
    by (fastforce simp: list_all_iff unquote_quote intro: map_idI)
  then show ?case using JsonObject.prems collect_sorted [of "[]" ms] by simp
qed (simp_all add: unquote_quote)

end
