(* ===== verification/JsonNumbers.thy ===== *)
theory JsonNumbers
  imports JsonText
begin

section \<open>Numbers, escapes and comparison of JSON values\<close>

text \<open>
  What \<open>encoding/json\<close> does beyond the plain values: escaping a raw value while it is written into another
  one, reading a number as a binary64 value, and the comparison of two decoded values with
  \<open>reflect.DeepEqual\<close>, which compares numbers as such values.
\<close>

subsection \<open>Raw values\<close>

text \<open>
  \<open>json.Marshal\<close> of a raw value compacts it and escapes the three characters of HTML and the two line
  separators, which a JSON text has only inside its literals.
\<close>

fun html_escape :: "string \<Rightarrow> string" where
  "html_escape [] = []"
| "html_escape (c # cs) =
    (if c = CHR ''<'' \<or> c = CHR ''>'' \<or> c = CHR ''&''
     then backslash # ''u00'' @ [hex_char (of_char c div 16), hex_char (of_char c mod 16)] @ html_escape cs
     else if take 3 (c # cs) = [CHR 0xE2, CHR 0x80, CHR 0xA8] then backslash # ''u2028'' @ html_escape (drop 2 cs)
     else if take 3 (c # cs) = [CHR 0xE2, CHR 0x80, CHR 0xA9] then backslash # ''u2029'' @ html_escape (drop 2 cs)
     else c # html_escape cs)"

fun escape_text :: "jtext \<Rightarrow> jtext" where
  "escape_text (TString s) = TString (html_escape s)"
| "escape_text (TArray ts) = TArray (map escape_text ts)"
| "escape_text (TObject ms) = TObject (map (\<lambda>(k, t). (html_escape k, escape_text t)) ms)"
| "escape_text t = t"

subsection \<open>Numbers\<close>

text \<open>
  A number is \<open>digits * 10 ^ scale\<close> with its sign. \<open>strconv\<close> stops reading an exponent once it has
  reached 10000.
\<close>

text \<open>\<open>strconv.ParseUint\<close> of a digit string.\<close>

definition digits_value :: "string \<Rightarrow> int" where
  "digits_value n = foldl (\<lambda>v c. 10 * v + (int (of_char c) - 48)) 0 n"

definition exponent_value :: "string \<Rightarrow> int" where
  "exponent_value ds = foldl (\<lambda>e d. if e < 10000 then 10 * e + (int (of_char d) - 48) else e) 0 ds"

definition number_parts :: "string \<Rightarrow> int \<times> int" where
  "number_parts n =
    (let unsigned = dropWhile (\<lambda>c. c = CHR ''-'') n;
         whole = takeWhile digit unsigned; rest = dropWhile digit unsigned;
         fraction = (if take 1 rest = ''.'' then takeWhile digit (drop 1 rest) else []);
         tail = (if take 1 rest = ''.'' then dropWhile digit (drop 1 rest) else rest);
         negative = take 1 (drop 1 tail) = ''-'';
         exponent = (if tail = [] then 0 else exponent_value (filter digit tail)) in
     (digits_value (whole @ fraction),
      (if negative then - exponent else exponent) - int (length fraction)))"

text \<open>
  Rounding to the nearest binary64 value is infinite, an error of \<open>strconv.ParseFloat\<close>, from half a unit
  in the last place above the largest finite number on.
\<close>

definition overflow_bound :: int where "overflow_bound = 2 ^ 1024 - 2 ^ 970"

text \<open>The number itself, for the evaluation of samples.\<close>

lemma overflow_bound_code [code]:
  "overflow_bound =
     179769313486231580793728971405303415079934132710037826936173778980444968292764750946649017977587207096330286416692887910946555547851940402630657488671505820681908902000708383676273854845817711531764475730270069855571366959622842914819860834936475292719074168444365510704342711559699508093042880177904174497792"
  by (simp add: overflow_bound_def)

definition finite_number :: "string \<Rightarrow> bool" where
  "finite_number n =
    (case number_parts n of (digits, scale) \<Rightarrow>
       if 0 \<le> scale then digits * 10 ^ nat scale < overflow_bound
       else digits < overflow_bound * 10 ^ nat (- scale))"

text \<open>
  The rounding itself, for a quotient of two positive integers: the significand of at most 53 bits and the
  exponent, ties to the even significand. The least exponent is the one of the subnormal numbers.
\<close>

function bit_length :: "int \<Rightarrow> int" where
  "bit_length n = (if n \<le> 0 then 0 else 1 + bit_length (n div 2))"
  by pat_completeness auto
termination by (relation "measure nat") auto

declare bit_length.simps [simp del]

definition scaled_quotient :: "int \<Rightarrow> int \<Rightarrow> int \<Rightarrow> int \<times> int" where
  "scaled_quotient num den k = (if 0 \<le> k then (num, den * 2 ^ nat k) else (num * 2 ^ nat (- k), den))"

definition float_exponent :: "int \<Rightarrow> int \<Rightarrow> int" where
  "float_exponent num den =
    (let b = bit_length num - bit_length den - 53;
         k = (case scaled_quotient num den b of (p, q) \<Rightarrow> if p div q < 2 ^ 53 then b else b + 1) in
     max (- 1074) k)"

definition round_quotient :: "int \<Rightarrow> int \<Rightarrow> int \<times> int" where
  "round_quotient num den =
    (let k = float_exponent num den in
     case scaled_quotient num den k of
       (p, q) \<Rightarrow>
         let low = p div q; twice = 2 * (p mod q);
             rounded = (if q < twice \<or> twice = q \<and> odd low then low + 1 else low) in
         if rounded = 2 ^ 53 then (2 ^ 52, k + 1) else (rounded, k))"

text \<open>The value of a number: its significand with the sign, and its exponent; both zeros are the same.\<close>

definition float64 :: "string \<Rightarrow> (int \<times> int) option" where
  "float64 n =
    (if \<not> finite_number n then None
     else
       (case number_parts n of (digits, scale) \<Rightarrow>
          if digits = 0 then Some (0, 0)
          else
            (case (if 0 \<le> scale then round_quotient (digits * 10 ^ nat scale) 1
                   else round_quotient digits (10 ^ nat (- scale))) of
               (significand, exponent) \<Rightarrow>
                 if significand = 0 then Some (0, 0)
                 else Some (if take 1 n = ''-'' then - significand else significand, exponent))))"

subsection \<open>Comparison\<close>

text \<open>
  Two texts unmarshalled into \<open>any\<close> are deeply equal. A number outside the binary64 range is an error of
  \<open>json.Unmarshal\<close>, so such a text equals none, not even itself.
\<close>

fun float_values :: "jvalue \<Rightarrow> bool" where
  "float_values (JsonNumber n) = (float64 n \<noteq> None)"
| "float_values (JsonArray vs) = list_all float_values vs"
| "float_values (JsonObject ms) = list_all (\<lambda>(k, v). float_values v) ms"
| "float_values _ = True"

fun same_any :: "jvalue \<Rightarrow> jvalue \<Rightarrow> bool" where
  "same_any (JsonNumber m) w = (case w of JsonNumber n \<Rightarrow> float64 m = float64 n | _ \<Rightarrow> False)"
| "same_any (JsonArray vs) w = (case w of JsonArray ws \<Rightarrow> list_all2 same_any vs ws | _ \<Rightarrow> False)"
| "same_any (JsonObject ms) w =
    (case w of JsonObject ns \<Rightarrow> list_all2 (\<lambda>(k, v) (k', v'). k = k' \<and> same_any v v') ms ns | _ \<Rightarrow> False)"
| "same_any v w = (v = w)"

lemma same_any_refl: "same_any v v"
  by (induction v) (auto simp: list_all2_same)

end
