(* ===== verification/Patterns.thy ===== *)
theory Patterns
  imports Prelude
begin

section \<open>Regular expressions and trimmed strings\<close>

text \<open>
  What the code uses of \<open>regexp\<close> and \<open>strings.TrimSpace\<close>. A pattern is matched by folding its
  derivative over the characters; \<open>search\<close> is a match anywhere in a text, which \<open>MatchString\<close>
  asks for when the pattern has no anchors. A dot under the flag \<open>s\<close> matches every character, so
  matching bytes or runes is the same for the patterns of the code.
\<close>

datatype rx =
    Never
  | Empty
  | Cls "char \<Rightarrow> bool"
  | Seq rx rx
  | Alt rx rx
  | Star rx

fun nullable :: "rx \<Rightarrow> bool" where
  "nullable Never = False"
| "nullable Empty = True"
| "nullable (Cls _) = False"
| "nullable (Seq r s) = (nullable r \<and> nullable s)"
| "nullable (Alt r s) = (nullable r \<or> nullable s)"
| "nullable (Star _) = True"

fun seq :: "rx \<Rightarrow> rx \<Rightarrow> rx" where
  "seq Never s = Never"
| "seq Empty s = s"
| "seq r s = Seq r s"

fun alt :: "rx \<Rightarrow> rx \<Rightarrow> rx" where
  "alt Never s = s"
| "alt r Never = r"
| "alt r s = Alt r s"

fun der :: "char \<Rightarrow> rx \<Rightarrow> rx" where
  "der c Never = Never"
| "der c Empty = Never"
| "der c (Cls P) = (if P c then Empty else Never)"
| "der c (Seq r s) = (if nullable r then alt (seq (der c r) s) (der c s) else seq (der c r) s)"
| "der c (Alt r s) = alt (der c r) (der c s)"
| "der c (Star r) = seq (der c r) (Star r)"

definition matches :: "rx \<Rightarrow> string \<Rightarrow> bool" where
  "matches r s \<longleftrightarrow> nullable (fold der s r)"

definition anything :: rx where "anything = Star (Cls (\<lambda>_. True))"
definition some_chars :: rx where "some_chars = Seq (Cls (\<lambda>_. True)) anything"
definition many1 :: "rx \<Rightarrow> rx" where "many1 r = Seq r (Star r)"
definition opt :: "rx \<Rightarrow> rx" where "opt r = Alt r Empty"
definition chars :: "string \<Rightarrow> rx" where "chars s = foldr (\<lambda>c. Seq (Cls ((=) c))) s Empty"
definition search :: "rx \<Rightarrow> rx" where "search r = Seq anything (Seq r anything)"

definition char_in :: "nat \<Rightarrow> nat \<Rightarrow> char \<Rightarrow> bool" where
  "char_in a b c \<longleftrightarrow> a \<le> of_char c \<and> of_char c \<le> b"

definition letter :: "char \<Rightarrow> bool" where
  "letter c \<longleftrightarrow> char_in 65 90 c \<or> char_in 97 122 c"

definition name_start :: "char \<Rightarrow> bool" where
  "name_start c \<longleftrightarrow> letter c \<or> c = CHR ''_''"

definition name_char :: "char \<Rightarrow> bool" where
  "name_char c \<longleftrightarrow> name_start c \<or> char_in 48 57 c"

text \<open>\<open>[A-Za-z_][A-Za-z0-9_]*\<close>\<close>

definition name_rx :: rx where
  "name_rx = Seq (Cls name_start) (Star (Cls name_char))"

subsection \<open>What the matcher accepts\<close>

inductive accepts :: "rx \<Rightarrow> string \<Rightarrow> bool" where
  accepts_Empty: "accepts Empty []"
| accepts_Cls: "P c \<Longrightarrow> accepts (Cls P) [c]"
| accepts_Seq: "accepts r u \<Longrightarrow> accepts s v \<Longrightarrow> accepts (Seq r s) (u @ v)"
| accepts_left: "accepts r u \<Longrightarrow> accepts (Alt r s) u"
| accepts_right: "accepts s u \<Longrightarrow> accepts (Alt r s) u"
| accepts_stop: "accepts (Star r) []"
| accepts_go: "accepts r (c # u) \<Longrightarrow> accepts (Star r) v \<Longrightarrow> accepts (Star r) (c # u @ v)"

inductive_cases accepts_NeverE: "accepts Never w"
inductive_cases accepts_SeqE: "accepts (Seq r s) w"
inductive_cases accepts_StarE: "accepts (Star r) (c # w)"

inductive_simps accepts_simps [simp]:
  "accepts Never w" "accepts Empty w" "accepts (Cls P) w" "accepts (Alt r s) w"

lemma nullable_accepts: "nullable r \<longleftrightarrow> accepts r []"
proof (induction r)
  case (Seq r s)
  then show ?case using accepts_Seq [of r "[]" s "[]"] by (auto elim: accepts_SeqE)
qed (auto intro: accepts.intros)

lemma accepts_seq [simp]: "accepts (seq r s) w \<longleftrightarrow> accepts (Seq r s) w"
proof (induction r s rule: seq.induct)
  case (1 s)
  then show ?case by (auto elim: accepts_SeqE)
next
  case (2 s)
  show ?case using accepts_Seq [OF accepts_Empty] by (auto elim!: accepts_SeqE)
qed simp_all

lemma accepts_alt [simp]: "accepts (alt r s) w \<longleftrightarrow> accepts (Alt r s) w"
  by (cases "(r, s)" rule: alt.cases) simp_all

lemma accepts_der: "accepts (der c r) w \<longleftrightarrow> accepts r (c # w)"
proof (induction r arbitrary: w)
  case (Seq r s)
  show ?case
  proof
    assume "accepts (der c (Seq r s)) w"
    then consider u v where "w = u @ v" "accepts r (c # u)" "accepts s v" | "nullable r" "accepts s (c # w)"
      using Seq by (auto split: if_splits elim!: accepts_SeqE)
    then show "accepts (Seq r s) (c # w)"
      by cases (metis accepts_Seq append_Cons, metis accepts_Seq append_Nil nullable_accepts)
  next
    assume "accepts (Seq r s) (c # w)"
    then obtain u v where "c # w = u @ v" "accepts r u" "accepts s v" by (auto elim: accepts_SeqE)
    then show "accepts (der c (Seq r s)) w"
      using Seq accepts_Seq [of "der c r" _ s v] by (cases u) (auto simp: nullable_accepts)
  qed
next
  case (Star r)
  show ?case
    using Star accepts_go [of r c] accepts_Seq [of "der c r" _ "Star r"]
    by (auto elim!: accepts_SeqE accepts_StarE)
qed auto

lemma matches_accepts: "matches r w \<longleftrightarrow> accepts r w"
proof -
  have "accepts (fold der w r) [] \<longleftrightarrow> accepts r w"
    by (induction w arbitrary: r) (simp_all add: accepts_der)
  then show ?thesis by (simp add: matches_def nullable_accepts)
qed

subsection \<open>Trimming\<close>

text \<open>
  \<open>strings.TrimSpace\<close>: the longest blank prefix goes, then the longest blank suffix.
\<close>

definition trim_left :: "string \<Rightarrow> string" where
  "trim_left s = drop (hd (filter (\<lambda>n. blank (take n s)) (rev [0..<Suc (length s)]))) s"

definition trim_right :: "string \<Rightarrow> string" where
  "trim_right s = take (hd (filter (\<lambda>n. blank (drop n s)) [0..<Suc (length s)])) s"

definition trim_space :: "string \<Rightarrow> string" where
  "trim_space s = trim_right (trim_left s)"

end
