(* ===== verification/References.thy ===== *)
theory References
  imports Ports JsonNumbers Patterns
begin

section \<open>Step references\<close>

text \<open>
  \<open>internal/contracts/references/extractor.go\<close>, with \<open>schema.go\<close> and
  \<open>non_tool_input.go\<close> of \<open>internal/contracts\<close>: the one traversal of a step input that finds the strings
  \<open>step.output.<field>\<close>, checks them against the preceding step and lists them in path order. Planner,
  Step Executor and Checkpoint share it. An input that is not a JSON text is refused as a whole, so the
  model does not say which of its errors the streaming decoder meets first; all callers pass JSON. The decoder reads
  numbers as \<open>float64\<close>, so it refuses one beyond that range.
\<close>

subsection \<open>Schemas\<close>

text \<open>\<open>OutputValueType\<close> has the values of \<open>JSONSchemaType\<close>, which the code converts it to.\<close>

type_synonym OutputValueType = JSONSchemaType
type_synonym OutputSchema = "(string \<times> OutputValueType) list"

record NonToolInputFieldContract =
  NTF_Name :: string
  NTF_Type :: JSONSchemaType
  NTF_Required :: bool
  NTF_ReferenceAllowed :: bool

definition non_tool_field :: "string \<Rightarrow> JSONSchemaType \<Rightarrow> bool \<Rightarrow> bool \<Rightarrow> NonToolInputFieldContract" where
  "non_tool_field name kind required reference =
    \<lparr>NTF_Name = name, NTF_Type = kind, NTF_Required = required, NTF_ReferenceAllowed = reference\<rparr>"

definition NonToolInputContract :: "StepType \<Rightarrow> NonToolInputFieldContract list option" where
  "NonToolInputContract stepType =
    (case stepType of
       StepTypeModelCall \<Rightarrow>
         Some [non_tool_field ''prompt'' JSONSchemaTypeString True True,
               non_tool_field ''context'' JSONSchemaTypeObject False True]
     | StepTypeAnalysis \<Rightarrow>
         Some [non_tool_field ''instruction'' JSONSchemaTypeString True True,
               non_tool_field ''evidence'' JSONSchemaTypeObject True True]
     | StepTypeVerification \<Rightarrow>
         Some [non_tool_field ''criteria'' JSONSchemaTypeString True False,
               non_tool_field ''evidence'' JSONSchemaTypeObject True True]
     | _ \<Rightarrow> None)"

subsection \<open>Requests, results and errors\<close>

datatype ReferenceActionMode =
    ReferenceActionModeTargetStepInput
  | ReferenceActionModeNoStepInput
  | ReferenceActionModeOther string

fun ReferenceActionMode_Valid :: "ReferenceActionMode \<Rightarrow> bool" where
  "ReferenceActionMode_Valid (ReferenceActionModeOther _) = False"
| "ReferenceActionMode_Valid _ = True"

datatype ExtractError =
    ErrInvalidActionMode
  | ErrInvalidStepInput
  | ErrReferenceSyntax
  | ErrExpressionNotSupported
  | ErrReferencePath
  | ErrDuplicateTarget
  | ErrSourceStep
  | ErrSourceOutput
  | IssueCountLimitExceeded

text \<open>\<open>errors.Is(err, ErrReferenceSyntax)\<close>: the unsupported expression wraps it.\<close>

definition is_syntax_error :: "ExtractError \<Rightarrow> bool" where
  "is_syntax_error err \<longleftrightarrow> err = ErrReferenceSyntax \<or> err = ErrExpressionNotSupported"

definition MaxResolvedReferencesPerStep :: nat where "MaxResolvedReferencesPerStep = 256"
definition MaxTargetPathDepth :: nat where "MaxTargetPathDepth = 16"

record SourceStep =
  Src_StepID :: StepID
  Src_Sequence :: "32 word"
  Src_Status :: StepStatus
  Src_OutputSchema :: OutputSchema
  Src_SafeOutput :: string

record ExtractRequest =
  XRq_ActionMode :: ReferenceActionMode
  XRq_StepInput :: string
  XRq_TargetStepSequence :: "32 word"
  XRq_SourceStep :: "SourceStep option"
  XRq_ValidatePersistedOutput :: bool

record StaticReference =
  SRef_TargetPath :: "ReferencePathSegment list"
  SRef_SourceOutputField :: string

text \<open>The branch that is not used stays nil.\<close>

record ExtractResult =
  XRs_StaticReferences :: "StaticReference list option"
  XRs_ResolvedReferences :: "ResolvedReference list option"

definition ActionModeForNextAction :: "CheckpointNextAction \<Rightarrow> ExtractError + ReferenceActionMode" where
  "ActionModeForNextAction action =
    (case action of
       CheckpointNextActionExecuteStep \<Rightarrow> Inr ReferenceActionModeTargetStepInput
     | CheckpointNextActionRequestApproval \<Rightarrow> Inr ReferenceActionModeTargetStepInput
     | CheckpointNextActionExecuteApprovedTool \<Rightarrow> Inr ReferenceActionModeTargetStepInput
     | CheckpointNextActionGeneratePlan \<Rightarrow> Inr ReferenceActionModeNoStepInput
     | CheckpointNextActionFinalizeRun \<Rightarrow> Inr ReferenceActionModeNoStepInput
     | CheckpointNextActionOther _ \<Rightarrow> Inl ErrInvalidActionMode)"

subsection \<open>Paths\<close>

definition pathWithKey :: "ReferencePathSegment list \<Rightarrow> string \<Rightarrow> ReferencePathSegment list" where
  "pathWithKey path key = path @ [\<lparr>Seg_Kind = ReferencePathSegmentKey, Seg_Key = Some key, Seg_Index = None\<rparr>]"

definition pathWithIndex :: "ReferencePathSegment list \<Rightarrow> 64 word \<Rightarrow> ReferencePathSegment list" where
  "pathWithIndex path index = path @ [\<lparr>Seg_Kind = ReferencePathSegmentIndex, Seg_Key = None, Seg_Index = Some index\<rparr>]"

definition encode_segment :: "ReferencePathSegment \<Rightarrow> string" where
  "encode_segment segment =
    (if Seg_Kind segment = ReferencePathSegmentKey
     then ''k'' @ decimal (int (length (the (Seg_Key segment)))) @ '':'' @ the (Seg_Key segment) @ '';''
     else ''i'' @ decimal (uint (the (Seg_Index segment))) @ '';'')"

definition encodePath :: "ReferencePathSegment list \<Rightarrow> string" where
  "encodePath path = concat (map encode_segment path)"

text \<open>The order of two segments, or None when they agree and the next ones decide.\<close>

definition compare_segments :: "ReferencePathSegment \<Rightarrow> ReferencePathSegment \<Rightarrow> int" where
  "compare_segments left right =
    (if Seg_Kind left \<noteq> Seg_Kind right then (if Seg_Kind left = ReferencePathSegmentKey then -1 else 1)
     else if Seg_Kind left = ReferencePathSegmentKey
     then (if the (Seg_Key left) < the (Seg_Key right) then -1 else if the (Seg_Key right) < the (Seg_Key left) then 1 else 0)
     else (if the (Seg_Index left) < the (Seg_Index right) then -1
           else if the (Seg_Index right) < the (Seg_Index left) then 1 else 0))"

fun comparePaths :: "ReferencePathSegment list \<Rightarrow> ReferencePathSegment list \<Rightarrow> int" where
  "comparePaths [] [] = 0"
| "comparePaths [] (_ # _) = -1"
| "comparePaths (_ # _) [] = 1"
| "comparePaths (l # ls) (r # rs) = (if compare_segments l r \<noteq> 0 then compare_segments l r else comparePaths ls rs)"

record referenceFact =
  Fact_TargetPath :: "ReferencePathSegment list"
  Fact_SourceOutputField :: string

definition compareFacts :: "referenceFact \<Rightarrow> referenceFact \<Rightarrow> int" where
  "compareFacts left right =
    (let compared = comparePaths (Fact_TargetPath left) (Fact_TargetPath right) in
     if compared \<noteq> 0 then compared
     else if Fact_SourceOutputField left < Fact_SourceOutputField right then -1
     else if Fact_SourceOutputField right < Fact_SourceOutputField left then 1 else 0)"

subsection \<open>Reference strings\<close>

datatype referenceStringClass =
    referenceStringPlainText
  | referenceStringLegal
  | referenceStringReservedPrefixInvalid
  | referenceStringExpression

definition reference_prefix :: string where "reference_prefix = ''step.output.''"

definition blank_class :: rx where "blank_class = Cls (\<lambda>c. c = CHR 0x20 \<or> c = CHR 0x09)"

definition outputFieldPattern :: rx where "outputFieldPattern = name_rx"

definition referenceToken :: rx where "referenceToken = Seq (chars reference_prefix) name_rx"

definition functionExpression :: rx where
  "functionExpression =
    Seq name_rx (Seq (Star (Seq (Alt (chars ''.'') (Alt (chars ''::'') (chars '':''))) name_rx))
      (Seq (Star blank_class) (Seq (chars ''('') (Seq anything (chars '')'')))))"

definition conditionalExpression :: rx where
  "conditionalExpression =
    Seq (chars ''if'') (Seq (many1 blank_class) (Seq some_chars (Seq (many1 blank_class) (Seq (chars ''then'')
      (Seq (opt (Seq (many1 blank_class) some_chars))
        (opt (Seq (many1 blank_class) (Seq (chars ''else'') (Seq (many1 blank_class) some_chars)))))))))"

definition dollarTemplateFragment :: rx where
  "dollarTemplateFragment =
    (let inside = Star (Cls (\<lambda>c. c \<noteq> CHR 0x7D)) in
     Seq (chars [CHR 0x24, CHR 0x7B]) (Seq inside (Seq referenceToken (Seq inside (chars [CHR 0x7D])))))"

definition mustacheTemplateFragment :: rx where
  "mustacheTemplateFragment =
    Seq (chars [CHR 0x7B, CHR 0x7B]) (Seq anything (Seq referenceToken (Seq anything (chars [CHR 0x7D, CHR 0x7D]))))"

definition classifyReferenceString :: "string \<Rightarrow> referenceStringClass \<times> string" where
  "classifyReferenceString value =
    (let n = length reference_prefix in
     if take n value = reference_prefix then
       (if matches outputFieldPattern (drop n value) then (referenceStringLegal, drop n value)
        else (referenceStringReservedPrefixInvalid, []))
     else if \<not> matches (search referenceToken) value then (referenceStringPlainText, [])
     else
       (let trimmed = trim_space value in
        if matches (search dollarTemplateFragment) trimmed \<or> matches (search mustacheTemplateFragment) trimmed
           \<or> matches functionExpression trimmed \<or> matches conditionalExpression trimmed
        then (referenceStringExpression, [])
        else (referenceStringPlainText, [])))"

definition parseReference :: "string \<Rightarrow> ExtractError + string option" where
  "parseReference value =
    (case classifyReferenceString value of
       (referenceStringLegal, field) \<Rightarrow> Inr (Some field)
     | (referenceStringReservedPrefixInvalid, _) \<Rightarrow> Inl ErrReferenceSyntax
     | (referenceStringExpression, _) \<Rightarrow> Inl ErrExpressionNotSupported
     | (referenceStringPlainText, _) \<Rightarrow> Inr None)"

subsection \<open>The traversal\<close>

definition validateSource :: "ExtractRequest \<Rightarrow> string \<Rightarrow> ExtractError + unit" where
  "validateSource request field =
    (case XRq_SourceStep request of
       None \<Rightarrow> Inl ErrSourceStep
     | Some source \<Rightarrow>
         if XRq_TargetStepSequence request \<le> 1 \<or> Src_Sequence source + 1 \<noteq> XRq_TargetStepSequence request
         then Inl ErrSourceStep
         else if map_of (Src_OutputSchema source) field = None then Inl ErrSourceOutput
         else if \<not> XRq_ValidatePersistedOutput request then Inr ()
         else if Src_StepID source = '''' \<or> Src_Status source \<noteq> StepStatusCompleted then Inl ErrSourceStep
         else if \<not> utf8_valid (Src_SafeOutput source) then Inl ErrSourceOutput
         else
           (case Option.bind (parse_json (Src_SafeOutput source)) object_fields of
              None \<Rightarrow> Inl ErrSourceOutput
            | Some output \<Rightarrow> require (map_of output field \<noteq> None) ErrSourceOutput))"

definition walkString ::
    "ExtractRequest \<Rightarrow> string \<Rightarrow> ReferencePathSegment list \<Rightarrow> referenceFact list \<Rightarrow> ExtractError + referenceFact list" where
  "walkString request value path facts =
    attempt (parseReference value) (\<lambda>reference.
    case reference of
      None \<Rightarrow> Inr facts
    | Some field \<Rightarrow>
        attempt (require (path \<noteq> []) ErrReferencePath) (\<lambda>_.
        attempt (require (length path \<le> MaxTargetPathDepth) ErrReferencePath) (\<lambda>_.
        attempt (validateSource request field) (\<lambda>_.
        attempt (require (encodePath path \<notin> set (map (encodePath \<circ> Fact_TargetPath) facts)) ErrDuplicateTarget) (\<lambda>_.
        let facts = facts @ [\<lparr>Fact_TargetPath = path, Fact_SourceOutputField = field\<rparr>] in
        attempt (require (length facts \<le> MaxResolvedReferencesPerStep) IssueCountLimitExceeded) (\<lambda>_.
        Inr facts))))))"

fun walkValue ::
    "ExtractRequest \<Rightarrow> jtext \<Rightarrow> ReferencePathSegment list \<Rightarrow> referenceFact list \<Rightarrow> ExtractError + referenceFact list"
  and walkArray ::
    "ExtractRequest \<Rightarrow> jtext list \<Rightarrow> ReferencePathSegment list \<Rightarrow> 64 word \<Rightarrow> referenceFact list \<Rightarrow>
     ExtractError + referenceFact list"
  and walkObject ::
    "ExtractRequest \<Rightarrow> (string \<times> jtext) list \<Rightarrow> ReferencePathSegment list \<Rightarrow> string set \<Rightarrow> referenceFact list \<Rightarrow>
     ExtractError + referenceFact list" where
  "walkValue request (TObject ms) path facts = walkObject request ms path {} facts"
| "walkValue request (TArray ts) path facts = walkArray request ts path 0 facts"
| "walkValue request (TString s) path facts = walkString request (unquote s) path facts"
| "walkValue request (TNumber n) path facts = attempt (require (finite_number n) ErrInvalidStepInput) (\<lambda>_. Inr facts)"
| "walkValue request (TBool b) path facts = Inr facts"
| "walkValue request TNull path facts = Inr facts"
| "walkArray request [] path index facts = Inr facts"
| "walkArray request (t # ts) path index facts =
    attempt (walkValue request t (pathWithIndex path index) facts) (\<lambda>facts.
    walkArray request ts path (index + 1) facts)"
| "walkObject request [] path seen facts = Inr facts"
| "walkObject request ((k, t) # ms) path seen facts =
    attempt (require (utf8_valid (unquote k)) ErrInvalidStepInput) (\<lambda>_.
    attempt (require (unquote k \<notin> seen) ErrDuplicateTarget) (\<lambda>_.
    attempt (walkValue request t (pathWithKey path (unquote k)) facts) (\<lambda>facts.
    walkObject request ms path (insert (unquote k) seen) facts)))"

fun insert_by :: "('a \<Rightarrow> 'a \<Rightarrow> bool) \<Rightarrow> 'a \<Rightarrow> 'a list \<Rightarrow> 'a list" where
  "insert_by lt x [] = [x]"
| "insert_by lt x (y # ys) = (if lt y x then y # insert_by lt x ys else x # y # ys)"

definition sort_by :: "('a \<Rightarrow> 'a \<Rightarrow> bool) \<Rightarrow> 'a list \<Rightarrow> 'a list" where
  "sort_by lt xs = foldr (insert_by lt) xs []"

definition emptyResult :: "bool \<Rightarrow> ExtractResult" where
  "emptyResult runtime =
    (if runtime then \<lparr>XRs_StaticReferences = None, XRs_ResolvedReferences = Some []\<rparr>
     else \<lparr>XRs_StaticReferences = Some [], XRs_ResolvedReferences = None\<rparr>)"

definition projectResult :: "ExtractRequest \<Rightarrow> referenceFact list \<Rightarrow> ExtractResult" where
  "projectResult request facts =
    (if \<not> XRq_ValidatePersistedOutput request
     then \<lparr>XRs_StaticReferences = Some (map (\<lambda>fact. \<lparr>SRef_TargetPath = Fact_TargetPath fact,
             SRef_SourceOutputField = Fact_SourceOutputField fact\<rparr>) facts), XRs_ResolvedReferences = None\<rparr>
     else \<lparr>XRs_StaticReferences = None, XRs_ResolvedReferences = Some (map (\<lambda>fact. \<lparr>Ref_TargetPath = Fact_TargetPath fact,
             Ref_SourceStepID = Src_StepID (the (XRq_SourceStep request)),
             Ref_SourceOutputField = Fact_SourceOutputField fact\<rparr>) facts)\<rparr>)"

definition extractTargetStepInput :: "ExtractRequest \<Rightarrow> ExtractError + ExtractResult" where
  "extractTargetStepInput request =
    (if \<not> utf8_valid (XRq_StepInput request) then Inl ErrInvalidStepInput
     else
       (case parse_json (XRq_StepInput request) of
          Some (TObject ms) \<Rightarrow>
            attempt (walkObject request ms [] {} []) (\<lambda>facts.
            Inr (projectResult request (sort_by (\<lambda>l r. compareFacts l r < 0) facts)))
        | _ \<Rightarrow> Inl ErrInvalidStepInput))"

definition Extract :: "ExtractRequest \<Rightarrow> ExtractError + ExtractResult" where
  "Extract request =
    (case XRq_ActionMode request of
       ReferenceActionModeNoStepInput \<Rightarrow> Inr (emptyResult (XRq_ValidatePersistedOutput request))
     | ReferenceActionModeTargetStepInput \<Rightarrow> extractTargetStepInput request
     | ReferenceActionModeOther _ \<Rightarrow> Inl ErrInvalidActionMode)"

end
