(* ===== verification/PlanDrafts.thy ===== *)
theory PlanDrafts
  imports References
begin

section \<open>Plan candidates\<close>

text \<open>
  \<open>internal/planner/schema.go\<close> with the catalogue messages of \<open>internal/contracts/catalog.go\<close>: a plan
  before it has identifiers, its limits and its JSON text. A raw JSON value is the \<open>jtext\<close> the decoder cut
  it from, so \<open>json.Compact\<close> of it is \<open>render\<close>. A slice or map without elements is written \<open>[]\<close> or \<open>{}\<close>.
\<close>

definition PlanSchemaVersionV1 :: "32 word" where "PlanSchemaVersionV1 = 1"
definition maxModelResponseBytes :: int where "maxModelResponseBytes = 1024 * 1024"
definition maxPlanDraftBytes :: int where "maxPlanDraftBytes = 256 * 1024"
definition maxPlanSteps :: nat where "maxPlanSteps = 20"
definition maxStepNameBytes :: int where "maxStepNameBytes = 128"
definition maxGoalBytes :: int where "maxGoalBytes = 2 * 1024"
definition maxStepInputBytes :: int where "maxStepInputBytes = 32 * 1024"
definition maxOutputFields :: nat where "maxOutputFields = 32"
definition maxOutputFieldNameBytes :: int where "maxOutputFieldNameBytes = 64"
definition maxJSONDepth :: nat where "maxJSONDepth = 16"
definition maxObjectFields :: nat where "maxObjectFields = 64"

text \<open>The encoded input object of a step, as \<open>StepInput.JSON\<close> returns it.\<close>

type_synonym StepInput = string

record StepDraft =
  Draft_Sequence :: "32 word"
  Draft_Type :: StepType
  Draft_Name :: string
  Draft_Input :: StepInput
  Draft_OutputSchema :: OutputSchema
  Draft_ToolName :: "ToolName option"

record PlanDraft =
  Draft_Goal :: string
  Draft_Steps :: "StepDraft list"

fun newStepInput :: "jtext \<Rightarrow> StepInput option" where
  "newStepInput (TObject ms) = Some (render (TObject ms))"
| "newStepInput _ = None"

subsection \<open>Names of the types\<close>

fun StepType_text :: "StepType \<Rightarrow> string" where
  "StepType_text StepTypeAnalysis = ''Analysis''"
| "StepType_text StepTypeModelCall = ''ModelCall''"
| "StepType_text StepTypeToolCall = ''ToolCall''"
| "StepType_text StepTypeVerification = ''Verification''"
| "StepType_text (StepTypeOther s) = s"

definition StepType_of :: "string \<Rightarrow> StepType" where
  "StepType_of s =
    (if s = ''Analysis'' then StepTypeAnalysis
     else if s = ''ModelCall'' then StepTypeModelCall
     else if s = ''ToolCall'' then StepTypeToolCall
     else if s = ''Verification'' then StepTypeVerification
     else StepTypeOther s)"

fun OutputValueType_text :: "OutputValueType \<Rightarrow> string" where
  "OutputValueType_text JSONSchemaTypeArray = ''array''"
| "OutputValueType_text JSONSchemaTypeBoolean = ''boolean''"
| "OutputValueType_text JSONSchemaTypeInteger = ''integer''"
| "OutputValueType_text JSONSchemaTypeNumber = ''number''"
| "OutputValueType_text JSONSchemaTypeObject = ''object''"
| "OutputValueType_text JSONSchemaTypeString = ''string''"
| "OutputValueType_text (JSONSchemaTypeOther s) = s"

definition OutputValueType_of :: "string \<Rightarrow> OutputValueType" where
  "OutputValueType_of s =
    (if s = ''array'' then JSONSchemaTypeArray
     else if s = ''boolean'' then JSONSchemaTypeBoolean
     else if s = ''integer'' then JSONSchemaTypeInteger
     else if s = ''number'' then JSONSchemaTypeNumber
     else if s = ''object'' then JSONSchemaTypeObject
     else if s = ''string'' then JSONSchemaTypeString
     else JSONSchemaTypeOther s)"

lemma StepType_read [simp]: "StepType_Valid t \<Longrightarrow> StepType_of (StepType_text t) = t"
  by (cases t) (simp_all add: StepType_of_def)

lemma OutputValueType_read [simp]: "JSONSchemaType_Valid t \<Longrightarrow> OutputValueType_of (OutputValueType_text t) = t"
  by (cases t) (simp_all add: OutputValueType_of_def)

subsection \<open>The JSON text of a draft\<close>

definition schema_text :: "OutputSchema \<Rightarrow> jtext" where
  "schema_text schema =
    TObject (map (\<lambda>(name, kind). (quote False name, TObject [(''type'', TString (quote False (OutputValueType_text kind)))])) schema)"

text \<open>A step whose input is not valid JSON has no text: the marshaller of \<open>StepInput\<close> fails.\<close>

definition step_text :: "StepDraft \<Rightarrow> jtext option" where
  "step_text step =
    map_option (\<lambda>input. TObject
      ([(''sequence'', TNumber (decimal (uint (Draft_Sequence step)))),
        (''type'', TString (quote False (StepType_text (Draft_Type step)))),
        (''name'', TString (quote False (Draft_Name step))),
        (''input'', input),
        (''output_schema'', schema_text (Draft_OutputSchema step))] @
       (case Draft_ToolName step of None \<Rightarrow> [] | Some tool \<Rightarrow> [(''tool_name'', TString (quote False tool))])))
      (parse_json (Draft_Input step))"

fun step_texts :: "StepDraft list \<Rightarrow> jtext list option" where
  "step_texts [] = Some []"
| "step_texts (step # steps) =
    (case (step_text step, step_texts steps) of
       (Some t, Some ts) \<Rightarrow> Some (t # ts)
     | _ \<Rightarrow> None)"

definition draft_text :: "PlanDraft \<Rightarrow> jtext option" where
  "draft_text draft =
    map_option (\<lambda>steps. TObject [(''goal'', TString (quote False (Draft_Goal draft))), (''steps'', TArray steps)])
      (step_texts (Draft_Steps draft))"

definition marshalPlanDraft :: "PlanDraft \<Rightarrow> string option" where
  "marshalPlanDraft draft = map_option render (draft_text draft)"

end
