(* ===== verification/PlanParser.thy ===== *)
theory PlanParser
  imports PlanDrafts JsonNumbers
begin

section \<open>The plan parser\<close>

text \<open>
  \<open>internal/planner/parser.go\<close>: the strict reading of the model's answer. The scan is the code's: it
  consumes one token after the other, and its first complaint is the answer, also when the text stops
  being JSON later on. Its fuel is the one of \<open>parse_json\<close>.
\<close>

subsection \<open>Errors and paths\<close>

datatype ParseIssueCode =
    ParseIssueInvalidJSON
  | ParseIssueDuplicateJSONKey
  | ParseIssueUnknownField
  | ParseIssueRequiredFieldMissing
  | ParseIssueNullNotAllowed
  | ParseIssueGoalRequired
  | ParseIssueStepCountInvalid
  | ParseIssueStepSequenceInvalid
  | ParseIssueStepTypeInvalid
  | ParseIssueStepNameRequired
  | ParseIssueOutputSchemaInvalid
  | ParseIssueOutputFieldLimitExceeded
  | ParseIssueOutputFieldNameTooLong
  | ParseIssueToolNameRequired
  | ParseIssueToolNameForbidden
  | ParseIssueToolInputInvalid
  | ParseIssueNonToolInputInvalid
  | ParseIssuePlanStepLimitExceeded
  | ParseIssuePlanDraftTooLarge
  | ParseIssuePlanGoalTooLong
  | ParseIssueStepNameTooLong
  | ParseIssueStepInputTooLarge
  | ParseIssueJSONDepthExceeded
  | ParseIssueObjectFieldLimitExceeded
  | ParseIssueModelResponseTooLarge
  | ParseIssueOther string

fun ParseIssueCode_Valid :: "ParseIssueCode \<Rightarrow> bool" where
  "ParseIssueCode_Valid (ParseIssueOther _) = False"
| "ParseIssueCode_Valid _ = True"

record ParseError =
  PErr_Code :: ParseIssueCode
  PErr_Path :: string

definition parseError :: "ParseIssueCode \<Rightarrow> string \<Rightarrow> ParseError" where
  "parseError code path = \<lparr>PErr_Code = code, PErr_Path = path\<rparr>"

definition dynamicJSONPathSegment :: string where "dynamicJSONPathSegment = ''<field>''"

definition fixedJSONFieldPath :: "string \<Rightarrow> string \<Rightarrow> string" where
  "fixedJSONFieldPath path field = path @ ''.'' @ field"

definition dynamicJSONFieldPath :: "string \<Rightarrow> string" where
  "dynamicJSONFieldPath path = path @ ''.'' @ dynamicJSONPathSegment"

definition index_path :: "string \<Rightarrow> nat \<Rightarrow> string" where
  "index_path path index = path @ ''['' @ decimal (int index) @ '']''"

definition root_path :: string where "root_path = ''$''"

definition step_path :: "nat \<Rightarrow> string" where
  "step_path index = index_path ''$.steps'' index"

definition stepObjectPathPattern :: rx where
  "stepObjectPathPattern = Seq (chars ''$.steps['') (Seq (many1 (Cls digit)) (chars '']''))"

definition scannedJSONFieldPath :: "string \<Rightarrow> string \<Rightarrow> string" where
  "scannedJSONFieldPath path field =
    (if path = root_path \<and> field \<in> set [''goal'', ''steps''] then fixedJSONFieldPath path field
     else if matches stepObjectPathPattern path
        \<and> field \<in> set [''sequence'', ''type'', ''name'', ''input'', ''output_schema'', ''tool_name'']
     then fixedJSONFieldPath path field
     else dynamicJSONFieldPath path)"

definition outputFieldNamePattern :: rx where "outputFieldNamePattern = name_rx"

subsection \<open>The scan\<close>

text \<open>A member up to its colon: the field name and what follows the colon.\<close>

definition scan_field :: "string \<Rightarrow> string list \<Rightarrow> string \<Rightarrow> ParseError + string \<times> string" where
  "scan_field path seen cs =
    (case skip cs of
       [] \<Rightarrow> Inl (parseError ParseIssueInvalidJSON path)
     | c # ds \<Rightarrow>
         if c \<noteq> quote_char then Inl (parseError ParseIssueInvalidJSON path)
         else
           (case lex_string ds of
              None \<Rightarrow> Inl (parseError ParseIssueInvalidJSON path)
            | Some (key, es) \<Rightarrow>
                let field = unquote key in
                attempt (require (utf8_valid field) (parseError ParseIssueInvalidJSON path)) (\<lambda>_.
                attempt (require (field \<notin> set seen) (parseError ParseIssueDuplicateJSONKey (dynamicJSONFieldPath path))) (\<lambda>_.
                attempt (require (Suc (length seen) \<le> maxObjectFields) (parseError ParseIssueObjectFieldLimitExceeded path)) (\<lambda>_.
                attempt (require (skip es \<noteq> [] \<and> hd (skip es) = CHR 0x3A)
                  (parseError ParseIssueInvalidJSON (scannedJSONFieldPath path field))) (\<lambda>_.
                Inr (field, tl (skip es))))))))"

text \<open>A literal that is no string, object or array.\<close>

definition scan_scalar :: "string \<Rightarrow> string \<Rightarrow> ParseError + string" where
  "scan_scalar cs path =
    (if take 4 cs = ''null'' then Inr (drop 4 cs)
     else if take 4 cs = ''true'' then Inr (drop 4 cs)
     else if take 5 cs = ''false'' then Inr (drop 5 cs)
     else (case lex_number cs of None \<Rightarrow> Inl (parseError ParseIssueInvalidJSON path) | Some (_, rest) \<Rightarrow> Inr rest))"

function (sequential) scanValue :: "nat \<Rightarrow> string \<Rightarrow> string \<Rightarrow> nat \<Rightarrow> ParseError + string"
  and scanArray :: "nat \<Rightarrow> string \<Rightarrow> string \<Rightarrow> nat \<Rightarrow> nat \<Rightarrow> ParseError + string"
  and scanObject :: "nat \<Rightarrow> string \<Rightarrow> string \<Rightarrow> nat \<Rightarrow> string list \<Rightarrow> ParseError + string" where
  "scanValue 0 cs path parentDepth = Inl (parseError ParseIssueInvalidJSON path)"
| "scanValue (Suc n) cs path parentDepth =
    (case skip cs of
       [] \<Rightarrow> Inl (parseError ParseIssueInvalidJSON path)
     | c # ds \<Rightarrow>
         if c = CHR 0x7B then
           (if maxJSONDepth < Suc parentDepth then Inl (parseError ParseIssueJSONDepthExceeded path)
            else if skip ds \<noteq> [] \<and> hd (skip ds) = CHR 0x7D then Inr (tl (skip ds))
            else scanObject n ds path (Suc parentDepth) [])
         else if c = CHR 0x5B then
           (if maxJSONDepth < Suc parentDepth then Inl (parseError ParseIssueJSONDepthExceeded path)
            else if skip ds = [] \<or> hd (skip ds) = CHR 0x7D then Inl (parseError ParseIssueInvalidJSON path)
            else if hd (skip ds) = CHR 0x5D then Inr (tl (skip ds))
            else scanArray n ds path (Suc parentDepth) 0)
         else if c = quote_char then
           (case lex_string ds of None \<Rightarrow> Inl (parseError ParseIssueInvalidJSON path) | Some (_, rest) \<Rightarrow> Inr rest)
         else scan_scalar (c # ds) path)"
| "scanArray 0 cs path depth index = Inl (parseError ParseIssueInvalidJSON path)"
| "scanArray (Suc n) cs path depth index =
    attempt (scanValue n cs (index_path path index) depth) (\<lambda>cs.
    case skip cs of
      [] \<Rightarrow> Inl (parseError ParseIssueInvalidJSON path)
    | c # ds \<Rightarrow>
        if c = CHR 0x2C then scanArray n ds path depth (Suc index)
        else if c = CHR 0x5D then Inr ds
        else if c = CHR 0x7D then Inl (parseError ParseIssueInvalidJSON path)
        else Inl (parseError ParseIssueInvalidJSON (index_path path (Suc index))))"
| "scanObject 0 cs path depth seen = Inl (parseError ParseIssueInvalidJSON path)"
| "scanObject (Suc n) cs path depth seen =
    attempt (scan_field path seen cs) (\<lambda>(field, es).
    attempt (scanValue n es (scannedJSONFieldPath path field) depth) (\<lambda>cs.
    case skip cs of
      [] \<Rightarrow> Inl (parseError ParseIssueInvalidJSON path)
    | c # ds \<Rightarrow>
        if c = CHR 0x2C then scanObject n ds path depth (field # seen)
        else if c = CHR 0x7D then Inr ds
        else Inl (parseError ParseIssueInvalidJSON path)))"
  by pat_completeness auto
termination by (relation "measure (case_sum fst (case_sum fst fst))") simp_all

definition scanPlanJSON :: "string \<Rightarrow> ParseError + unit" where
  "scanPlanJSON encoded =
    (if skip encoded = [] \<or> hd (skip encoded) \<noteq> CHR 0x7B then Inl (parseError ParseIssueInvalidJSON root_path)
     else
       attempt (scanValue (Suc (length encoded)) encoded root_path 0) (\<lambda>rest.
       require (skip rest = []) (parseError ParseIssueInvalidJSON root_path)))"

subsection \<open>Members\<close>

definition requiredField :: "(string \<times> jtext) list \<Rightarrow> string \<Rightarrow> string \<Rightarrow> ParseError + jtext" where
  "requiredField members name path =
    (case map_of members name of
       None \<Rightarrow> Inl (parseError ParseIssueRequiredFieldMissing (fixedJSONFieldPath path name))
     | Some raw \<Rightarrow>
         if raw = TNull then Inl (parseError ParseIssueNullNotAllowed (fixedJSONFieldPath path name)) else Inr raw)"

definition decodeString :: "jtext \<Rightarrow> string \<Rightarrow> ParseIssueCode \<Rightarrow> ParseError + string" where
  "decodeString raw path code =
    (if raw = TNull then Inl (parseError ParseIssueNullNotAllowed path)
     else (case unmarshal_string raw of None \<Rightarrow> Inl (parseError code path) | Some value \<Rightarrow> Inr value))"

definition decodeSequence :: "jtext \<Rightarrow> string \<Rightarrow> ParseError + 32 word" where
  "decodeSequence raw path =
    (case raw of
       TNull \<Rightarrow> Inl (parseError ParseIssueNullNotAllowed path)
     | TNumber n \<Rightarrow>
         if \<not> list_all digit n \<or> 2 ^ 32 \<le> digits_value n \<or> digits_value n = 0
         then Inl (parseError ParseIssueStepSequenceInvalid path)
         else Inr (word_of_int (digits_value n))
     | _ \<Rightarrow> Inl (parseError ParseIssueStepSequenceInvalid path))"

definition rejectUnknownAs ::
    "(string \<times> jtext) list \<Rightarrow> string list \<Rightarrow> string \<Rightarrow> ParseIssueCode \<Rightarrow> ParseError + unit" where
  "rejectUnknownAs members names path code =
    require (list_all (\<lambda>m. fst m \<in> set names) members) (parseError code (dynamicJSONFieldPath path))"

definition rejectUnknownFields :: "(string \<times> jtext) list \<Rightarrow> string list \<Rightarrow> string \<Rightarrow> ParseError + unit" where
  "rejectUnknownFields members names path = rejectUnknownAs members names path ParseIssueUnknownField"

subsection \<open>Steps\<close>

definition matchesNonToolFieldShape :: "jtext \<Rightarrow> NonToolInputFieldContract \<Rightarrow> bool" where
  "matchesNonToolFieldShape raw field =
    (case NTF_Type field of
       JSONSchemaTypeString \<Rightarrow> (case unmarshal_string raw of None \<Rightarrow> False | Some value \<Rightarrow> \<not> blank value)
     | JSONSchemaTypeObject \<Rightarrow>
         (case raw of
            TObject _ \<Rightarrow> True
          | _ \<Rightarrow> NTF_ReferenceAllowed field \<and>
              (case unmarshal_string raw of None \<Rightarrow> False | Some placeholder \<Rightarrow> placeholder \<noteq> []))
     | _ \<Rightarrow> False)"

fun check_contract_fields ::
    "NonToolInputFieldContract list \<Rightarrow> (string \<times> jtext) list \<Rightarrow> string \<Rightarrow> ParseError + unit" where
  "check_contract_fields [] members path = Inr ()"
| "check_contract_fields (field # rest) members path =
    attempt (require (\<not> NTF_Required field \<or> map_of members (NTF_Name field) \<noteq> None)
      (parseError ParseIssueNonToolInputInvalid (fixedJSONFieldPath path (NTF_Name field)))) (\<lambda>_.
    check_contract_fields rest members path)"

text \<open>
  A name that the contract does not have was refused before. The default field of the Go map lookup has
  no type, and no value has its shape.
\<close>

fun check_field_shapes ::
    "NonToolInputFieldContract list \<Rightarrow> (string \<times> jtext) list \<Rightarrow> string \<Rightarrow> ParseError + unit" where
  "check_field_shapes contract [] path = Inr ()"
| "check_field_shapes contract ((name, raw) # members) path =
    attempt (require
      (raw \<noteq> TNull \<and> \<not> has_null raw \<and>
       (case find (\<lambda>f. NTF_Name f = name) contract of None \<Rightarrow> False | Some field \<Rightarrow> matchesNonToolFieldShape raw field))
      (parseError ParseIssueNonToolInputInvalid (fixedJSONFieldPath path name))) (\<lambda>_.
    check_field_shapes contract members path)"

definition validateNonToolInput :: "jtext \<Rightarrow> StepType \<Rightarrow> string \<Rightarrow> ParseError + unit" where
  "validateNonToolInput raw stepType path =
    (case NonToolInputContract stepType of
       None \<Rightarrow> Inl (parseError ParseIssueNonToolInputInvalid path)
     | Some contract \<Rightarrow>
         (case object_fields raw of
            None \<Rightarrow> Inl (parseError ParseIssueNonToolInputInvalid path)
          | Some members \<Rightarrow>
              attempt (check_contract_fields contract members path) (\<lambda>_.
              attempt (rejectUnknownAs members (map NTF_Name contract) path ParseIssueNonToolInputInvalid) (\<lambda>_.
              check_field_shapes contract members path))))"

definition parseStepInput :: "jtext \<Rightarrow> StepType \<Rightarrow> string \<Rightarrow> ParseError + StepInput" where
  "parseStepInput raw stepType path =
    (if raw = TNull then Inl (parseError ParseIssueNullNotAllowed path)
     else
       (case newStepInput raw of
          None \<Rightarrow>
            Inl (parseError (if stepType \<noteq> StepTypeToolCall then ParseIssueNonToolInputInvalid
                             else ParseIssueToolInputInvalid) path)
        | Some input \<Rightarrow>
            if maxStepInputBytes < int (length input) then Inl (parseError ParseIssueStepInputTooLarge path)
            else if stepType = StepTypeToolCall then Inr input
            else attempt (validateNonToolInput raw stepType path) (\<lambda>_. Inr input)))"

definition parse_output_field :: "string \<Rightarrow> string \<Rightarrow> jtext \<Rightarrow> ParseError + OutputValueType" where
  "parse_output_field path name rawDescription =
    (let fieldPath = dynamicJSONFieldPath path in
     attempt (require (int (length name) \<le> maxOutputFieldNameBytes) (parseError ParseIssueOutputFieldNameTooLong fieldPath)) (\<lambda>_.
     attempt (require (matches outputFieldNamePattern name) (parseError ParseIssueOutputSchemaInvalid fieldPath)) (\<lambda>_.
     case object_fields rawDescription of
       Some [description] \<Rightarrow>
         attempt (rejectUnknownAs [description] [''type''] fieldPath ParseIssueOutputSchemaInvalid) (\<lambda>_.
         case (if snd description = TNull then None else unmarshal_string (snd description)) of
           None \<Rightarrow> Inl (parseError ParseIssueOutputSchemaInvalid (fixedJSONFieldPath fieldPath ''type''))
         | Some typeValue \<Rightarrow>
             attempt (require (JSONSchemaType_Valid (OutputValueType_of typeValue))
               (parseError ParseIssueOutputSchemaInvalid (fixedJSONFieldPath fieldPath ''type''))) (\<lambda>_.
             Inr (OutputValueType_of typeValue)))
     | _ \<Rightarrow> Inl (parseError ParseIssueOutputSchemaInvalid fieldPath))))"

fun parse_output_fields :: "string \<Rightarrow> (string \<times> jtext) list \<Rightarrow> ParseError + OutputSchema" where
  "parse_output_fields path [] = Inr []"
| "parse_output_fields path ((name, raw) # members) =
    attempt (parse_output_field path name raw) (\<lambda>kind.
    attempt (parse_output_fields path members) (\<lambda>schema. Inr ((name, kind) # schema)))"

definition parseOutputSchema :: "jtext \<Rightarrow> string \<Rightarrow> ParseError + OutputSchema" where
  "parseOutputSchema raw path =
    (case object_fields raw of
       None \<Rightarrow> Inl (parseError ParseIssueOutputSchemaInvalid path)
     | Some members \<Rightarrow>
         if members = [] then Inl (parseError ParseIssueOutputSchemaInvalid path)
         else if maxOutputFields < length members then Inl (parseError ParseIssueOutputFieldLimitExceeded path)
         else parse_output_fields path members)"

definition parseToolName :: "(string \<times> jtext) list \<Rightarrow> StepType \<Rightarrow> string \<Rightarrow> ParseError + ToolName option" where
  "parseToolName members stepType path =
    (if stepType \<noteq> StepTypeToolCall then
       attempt (require (map_of members ''tool_name'' = None)
         (parseError ParseIssueToolNameForbidden (fixedJSONFieldPath path ''tool_name''))) (\<lambda>_. Inr None)
     else
       (case map_of members ''tool_name'' of
          None \<Rightarrow> Inl (parseError ParseIssueToolNameRequired (fixedJSONFieldPath path ''tool_name''))
        | Some raw \<Rightarrow>
            (case (if raw = TNull then None else unmarshal_string raw) of
               None \<Rightarrow> Inl (parseError ParseIssueToolNameRequired (fixedJSONFieldPath path ''tool_name''))
             | Some value \<Rightarrow>
                 if blank value then Inl (parseError ParseIssueToolNameRequired (fixedJSONFieldPath path ''tool_name''))
                 else Inr (Some value))))"

definition parseStep :: "jtext \<Rightarrow> nat \<Rightarrow> ParseError + StepDraft" where
  "parseStep raw index =
    (let path = step_path index in
     case object_fields raw of
       None \<Rightarrow> Inl (parseError ParseIssueInvalidJSON path)
     | Some members \<Rightarrow>
         attempt (rejectUnknownFields members
           [''sequence'', ''type'', ''name'', ''input'', ''output_schema'', ''tool_name''] path) (\<lambda>_.
         attempt (requiredField members ''sequence'' path) (\<lambda>sequenceRaw.
         attempt (decodeSequence sequenceRaw (path @ ''.sequence'')) (\<lambda>sequence.
         attempt (requiredField members ''type'' path) (\<lambda>typeRaw.
         attempt (decodeString typeRaw (path @ ''.type'') ParseIssueStepTypeInvalid) (\<lambda>typeValue.
         let stepType = StepType_of typeValue in
         attempt (require (StepType_Valid stepType) (parseError ParseIssueStepTypeInvalid (path @ ''.type''))) (\<lambda>_.
         attempt (requiredField members ''name'' path) (\<lambda>nameRaw.
         attempt (decodeString nameRaw (path @ ''.name'') ParseIssueInvalidJSON) (\<lambda>name.
         attempt (require (\<not> blank name) (parseError ParseIssueStepNameRequired (path @ ''.name''))) (\<lambda>_.
         attempt (require (int (length name) \<le> maxStepNameBytes) (parseError ParseIssueStepNameTooLong (path @ ''.name''))) (\<lambda>_.
         attempt (requiredField members ''input'' path) (\<lambda>inputRaw.
         attempt (parseStepInput inputRaw stepType (path @ ''.input'')) (\<lambda>input.
         attempt (requiredField members ''output_schema'' path) (\<lambda>outputRaw.
         attempt (parseOutputSchema outputRaw (path @ ''.output_schema'')) (\<lambda>outputSchema.
         attempt (parseToolName members stepType path) (\<lambda>toolName.
         Inr \<lparr>Draft_Sequence = sequence, Draft_Type = stepType, Draft_Name = name, Draft_Input = input,
           Draft_OutputSchema = outputSchema, Draft_ToolName = toolName\<rparr>))))))))))))))))"

fun parse_steps :: "jtext list \<Rightarrow> nat \<Rightarrow> ParseError + StepDraft list" where
  "parse_steps [] index = Inr []"
| "parse_steps (raw # raws) index =
    attempt (parseStep raw index) (\<lambda>step.
    attempt (parse_steps raws (Suc index)) (\<lambda>steps. Inr (step # steps)))"

subsection \<open>The plan\<close>

definition parse_goal :: "(string \<times> jtext) list \<Rightarrow> ParseError + string" where
  "parse_goal members =
    attempt (requiredField members ''goal'' root_path) (\<lambda>goalRaw.
    attempt (decodeString goalRaw ''$.goal'' ParseIssueInvalidJSON) (\<lambda>goal.
    attempt (require (\<not> blank goal) (parseError ParseIssueGoalRequired ''$.goal'')) (\<lambda>_.
    attempt (require (int (length goal) \<le> maxGoalBytes) (parseError ParseIssuePlanGoalTooLong ''$.goal'')) (\<lambda>_.
    Inr goal))))"

definition parse_plan_steps :: "(string \<times> jtext) list \<Rightarrow> ParseError + StepDraft list" where
  "parse_plan_steps members =
    attempt (requiredField members ''steps'' root_path) (\<lambda>stepsRaw.
    case stepsRaw of
      TArray rawSteps \<Rightarrow>
        attempt (require (rawSteps \<noteq> []) (parseError ParseIssueStepCountInvalid ''$.steps'')) (\<lambda>_.
        attempt (require (length rawSteps \<le> maxPlanSteps) (parseError ParseIssuePlanStepLimitExceeded ''$.steps'')) (\<lambda>_.
        parse_steps rawSteps 0))
    | _ \<Rightarrow> Inl (parseError ParseIssueInvalidJSON ''$.steps''))"

definition check_draft_size :: "PlanDraft \<Rightarrow> ParseError + PlanDraft" where
  "check_draft_size draft =
    (case marshalPlanDraft draft of
       None \<Rightarrow> Inl (parseError ParseIssueInvalidJSON root_path)
     | Some canonical \<Rightarrow>
         if maxPlanDraftBytes < int (length canonical) then Inl (parseError ParseIssuePlanDraftTooLarge root_path)
         else Inr draft)"

definition ParseV1 :: "string \<Rightarrow> ParseError + PlanDraft" where
  "ParseV1 encoded =
    (if maxModelResponseBytes < int (length encoded) then Inl (parseError ParseIssueModelResponseTooLarge root_path)
     else if encoded = [] \<or> \<not> utf8_valid encoded then Inl (parseError ParseIssueInvalidJSON root_path)
     else
       attempt (scanPlanJSON encoded) (\<lambda>_.
       case Option.bind (parse_json encoded) object_fields of
         None \<Rightarrow> Inl (parseError ParseIssueInvalidJSON root_path)
       | Some members \<Rightarrow>
           attempt (rejectUnknownFields members [''goal'', ''steps''] root_path) (\<lambda>_.
           attempt (parse_goal members) (\<lambda>goal.
           attempt (parse_plan_steps members) (\<lambda>steps.
           check_draft_size \<lparr>Draft_Goal = goal, Draft_Steps = steps\<rparr>)))))"

end
