(* ===== verification/JsonFacts.thy ===== *)
theory JsonFacts
  imports JsonText
begin

section \<open>Decoded JSON values\<close>

text \<open>
  What holds of every value decoded from a JSON text: its strings are valid UTF-8 whatever the bytes of the text
  were, its maps have their keys once and in order, and so it survives being written and read again.
\<close>

subsection \<open>UTF-8\<close>

lemma utf8_bytes_unfold:
  assumes "0 < width_bytes bs"
  shows "utf8_bytes bs \<longleftrightarrow> utf8_bytes (drop (width_bytes bs) bs)"
  using assms by (rule width_bytes_range) (use assms in \<open>simp_all add: width_bytes_def split: list.split_asm if_split_asm\<close>)

definition one_rune :: "string \<Rightarrow> bool" where
  "one_rune p \<longleftrightarrow> p \<noteq> [] \<and> rune_width p = length p"

lemma utf8_valid_rune:
  assumes "one_rune p"
  shows "utf8_valid (p @ x) \<longleftrightarrow> utf8_valid x"
proof -
  have "0 < rune_width p" "rune_width p = length p" using assms by (auto simp: one_rune_def)
  then have "rune_width (p @ x) = length p" using rune_width_take [of p x] by simp
  then show ?thesis
    using utf8_bytes_unfold [of "map of_char (p @ x)"] assms
    by (simp add: utf8_valid_def rune_width_def one_rune_def)
qed

lemma one_rune_take:
  assumes "0 < rune_width s"
  shows "one_rune (take (rune_width s) s)"
proof -
  have "length (take (rune_width s) s) = rune_width s" using rune_width_le [of s] by simp
  moreover have "rune_width (take (rune_width s) s) = rune_width s" using rune_width_take [OF assms, of "[]"] by simp
  ultimately show ?thesis using assms unfolding one_rune_def by (metis length_greater_0_conv)
qed

lemma one_rune_replacement: "one_rune replacement"
  by (simp add: one_rune_def replacement_def rune_width_def width_bytes_def cont_byte_def)

lemma one_rune_ascii: "(of_char c :: nat) < 128 \<Longrightarrow> one_rune [c]"
  by (simp add: one_rune_def rune_width_def width_bytes_def)

lemma runes:
  fixes a b c d :: nat
  shows "2 \<le> a \<Longrightarrow> a < 32 \<Longrightarrow> b < 64 \<Longrightarrow> one_rune [char_of (192 + a), char_of (128 + b)]"
    and "a < 16 \<Longrightarrow> b < 64 \<Longrightarrow> c < 64 \<Longrightarrow> a \<noteq> 0 \<or> 32 \<le> b \<Longrightarrow> a \<noteq> 13 \<or> b \<le> 31 \<Longrightarrow>
      one_rune [char_of (224 + a), char_of (128 + b), char_of (128 + c)]"
    and "a < 5 \<Longrightarrow> b < 64 \<Longrightarrow> c < 64 \<Longrightarrow> d < 64 \<Longrightarrow> a \<noteq> 0 \<or> 16 \<le> b \<Longrightarrow> a \<noteq> 4 \<or> b \<le> 15 \<Longrightarrow>
      one_rune [char_of (240 + a), char_of (128 + b), char_of (128 + c), char_of (128 + d)]"
  by (auto simp: one_rune_def rune_width_def width_bytes_def cont_byte_def)

lemma one_rune_encode:
  assumes "r < 55296 \<or> 57344 \<le> r" and "r < 1114112"
  shows "one_rune (encode_rune r)"
proof -
  define m1 m2 m3 where "m1 = r mod 64" "m2 = r div 64 mod 64" "m3 = r div 4096 mod 64"
  note parts = this
  have m: "m1 < 64" "m2 < 64" "m3 < 64" by (simp_all add: parts)
  have "r div 4096 = r div 64 div 64" "r div 262144 = r div 64 div 64 div 64" by (simp_all add: div_mult2_eq [symmetric])
  then have r: "r = 64 * (r div 64) + m1" "r div 64 = 64 * (r div 4096) + m2" "r div 4096 = 64 * (r div 262144) + m3"
    by (simp_all add: parts)
  consider "r < 128" | "128 \<le> r" "r < 2048" | "2048 \<le> r" "r < 65536" | "65536 \<le> r" by linarith
  then show ?thesis
  proof cases
    case 1
    then show ?thesis by (simp add: encode_rune_def one_rune_ascii)
  next
    case 2
    have "2 \<le> r div 64" "r div 64 < 32" using 2 r m by linarith+
    from runes(1) [OF this m(1)] show ?thesis using 2 by (simp add: encode_rune_def parts)
  next
    case 3
    have "r div 4096 < 16" using 3 r m by linarith
    moreover have "r div 4096 \<noteq> 0 \<or> 32 \<le> m2" using 3 r m by linarith
    moreover have "r div 4096 \<noteq> 13 \<or> m2 \<le> 31" using assms(1) r m by linarith
    ultimately show ?thesis
      using runes(2) [of "r div 4096" m2 m1] 3 m by (simp add: encode_rune_def parts)
  next
    case 4
    have "r div 262144 < 5" using assms(2) r m by linarith
    moreover have "r div 262144 \<noteq> 0 \<or> 16 \<le> m3" using 4 r m by linarith
    moreover have "r div 262144 \<noteq> 4 \<or> m3 \<le> 15" using assms(2) r m by linarith
    ultimately show ?thesis
      using runes(3) [of "r div 262144" m3 m2 m1] 4 m by (simp add: encode_rune_def parts)
  qed
qed

lemma hex_code_bound: "list_all any_hex ds \<Longrightarrow> hex_code ds < 16 ^ length ds"
proof (induction ds rule: rev_induct)
  case Nil
  then show ?case by (simp add: hex_code_def)
next
  case (snoc d ds)
  have "hex_value d < 16" using snoc.prems by (auto simp: any_hex_def hex_digit_def hex_value_def Let_def)
  moreover have "hex_code ds < 16 ^ length ds" using snoc by simp
  ultimately have "16 * hex_code ds + hex_value d < 16 * 16 ^ length ds" by linarith
  then show ?case by (simp add: hex_code_def)
qed

text \<open>An escape of a literal stands for one character.\<close>

lemma unicode_escape_rune:
  assumes "list_all any_hex (take 4 ds)"
  shows "one_rune (fst (unicode_escape ds))"
proof -
  let ?r = "hex_code (take 4 ds)"
  have "?r < 16 ^ length (take 4 ds)" by (rule hex_code_bound [OF assms])
  moreover have "(16::nat) ^ length (take 4 ds) \<le> 16 ^ 4" by (intro power_increasing) auto
  ultimately have r: "?r < 65536" by simp
  let ?low = "hex_code (take 4 (drop 6 ds))"
  have "one_rune (encode_rune (65536 + (?r - 55296) * 1024 + (?low - 56320)))"
    if "55296 \<le> ?r" "?r < 56320" "56320 \<le> ?low" "?low < 57344"
    using that by (intro one_rune_encode) auto
  then have pair: "one_rune (fst (if ?r < 56320 \<and> P \<and> 56320 \<le> ?low \<and> ?low < 57344
      then (encode_rune (65536 + (?r - 55296) * 1024 + (?low - 56320)), 10 :: nat) else (replacement, 4)))"
    if "55296 \<le> ?r" for P
    using one_rune_replacement that by simp
  show ?thesis
  proof (cases "?r < 55296 \<or> 57344 \<le> ?r")
    case True
    then show ?thesis using one_rune_encode [of ?r] r by (simp add: unicode_escape_def Let_def)
  next
    case False
    show ?thesis
      unfolding unicode_escape_def Let_def if_not_P [OF False] by (rule pair) (use False in simp)
  qed
qed

lemma one_rune_escaped: "simple_escape e \<Longrightarrow> one_rune [escaped_char e]"
  unfolding simple_escape_def by (simp, elim disjE; simp add: escaped_char_def one_rune_ascii)

text \<open>What follows an escape in a literal is a literal, also after the second half of a surrogate pair.\<close>

lemma literal_lex: "literal s \<longleftrightarrow> (\<exists>cs r. lex_string cs = Some (s, r))"
  using lex_string_literal by (auto simp: literal_def)

lemma literal_cases:
  assumes "literal (c # cs)"
  obtains "c \<noteq> backslash" "literal cs"
  | e ds where "c = backslash" "cs = e # ds" "simple_escape e" "e \<noteq> CHR ''u''" "literal ds"
  | ds where "c = backslash" "cs = CHR ''u'' # ds" "4 \<le> length ds" "list_all any_hex (take 4 ds)" "literal (drop 4 ds)"
proof (cases "c = backslash")
  case False
  then have "literal cs"
    using assms by (auto simp: literal_def apfst_def map_prod_def split: if_splits)
  then show ?thesis using that(1) False by blast
next
  case True
  have lex: "lex_string (backslash # cs @ [quote_char]) = Some (backslash # cs, [])" using assms True by (simp add: literal_def)
  then have "cs \<noteq> []" by (auto simp: simple_escape_def)
  then obtain e ds where cs: "cs = e # ds" by (cases cs) auto
  show ?thesis
  proof (cases "simple_escape e")
    case simple: True
    then have "e \<noteq> CHR ''u''" by (auto simp: simple_escape_def)
    moreover have "literal ds" using lex simple cs by (auto simp: literal_def apfst_def map_prod_def)
    ultimately show ?thesis using that(2) True cs simple by blast
  next
    case False
    then have u: "e = CHR ''u''" "4 \<le> length (ds @ [quote_char])" "list_all any_hex (take 4 (ds @ [quote_char]))"
      using lex cs by (auto split: if_splits)
    have "\<not> any_hex quote_char" by (simp add: any_hex_def hex_digit_def)
    have four: "4 \<le> length ds"
    proof (rule ccontr)
      assume "\<not> 4 \<le> length ds"
      then have "take 4 (ds @ [quote_char]) = ds @ [quote_char]" using u(2) by simp
      then show False using u(3) \<open>\<not> any_hex quote_char\<close> by simp
    qed
    then have "lex_string (drop 4 ds @ [quote_char]) = Some (drop 4 ds, [])"
      using lex cs u False by (auto simp: apfst_def map_prod_def) (metis append_take_drop_id same_append_eq)
    then show ?thesis using that(3) True cs u four by (auto simp: literal_def)
  qed
qed

lemma literal_drop: "literal (p @ x) \<Longrightarrow> backslash \<notin> set p \<Longrightarrow> literal x"
proof (induction p)
  case (Cons c p)
  from Cons.prems(1) have "literal (c # p @ x)" by simp
  then show ?case using Cons by (cases rule: literal_cases) auto
qed simp

lemma utf8_valid_unquote: "literal s \<Longrightarrow> utf8_valid (unquote s)"
proof (induction "length s" arbitrary: s rule: less_induct)
  case less
  show ?case
  proof (cases s)
    case Nil
    then show ?thesis by simp
  next
    case (Cons c cs)
    from less.prems have "literal (c # cs)" using Cons by simp
    then show ?thesis
    proof (cases rule: literal_cases)
      case 1
      let ?w = "rune_width (c # cs)"
      show ?thesis
      proof (cases "?w = 0")
        case True
        have "utf8_valid (unquote cs)" using less.hyps [of cs] 1(2) Cons by simp
        then show ?thesis
          using True 1(1) Cons utf8_valid_rune [OF one_rune_replacement] by (simp add: unquote.simps(2))
      next
        case False
        have "backslash \<notin> set (take ?w (c # cs))"
        proof (cases "?w = 1")
          case True
          then show ?thesis using 1(1) by simp
        next
          case one: False
          then show ?thesis using rune_width_high [of "c # cs" backslash] False by fastforce
        qed
        then have "literal (drop ?w (c # cs))"
          using literal_drop [of "take ?w (c # cs)" "drop ?w (c # cs)"] \<open>literal (c # cs)\<close> by simp
        then have "utf8_valid (unquote (drop ?w (c # cs)))" using less.hyps [of "drop ?w (c # cs)"] Cons False by simp
        then show ?thesis
          using False 1(1) utf8_valid_rune [OF one_rune_take [of "c # cs"]] unfolding Cons
          by (simp add: unquote.simps(2))
      qed
    next
      case (2 e ds)
      then have "utf8_valid (unquote ds)" using less.hyps [of ds] Cons by simp
      then show ?thesis
        using 2 Cons utf8_valid_rune [OF one_rune_escaped [OF 2(3)]] by (simp add: unquote.simps(2))
    next
      case (3 ds)
      let ?n = "snd (unicode_escape ds)"
      have n: "?n = 4 \<or> ?n = 10 \<and> take 2 (drop 4 ds) = [backslash, CHR ''u'']"
        by (simp add: unicode_escape_def Let_def)
      have "literal (drop ?n ds)"
      proof (cases "?n = 4")
        case True
        then show ?thesis using 3(5) by simp
      next
        case False
        then obtain es where es: "drop 4 ds = backslash # CHR ''u'' # es"
          using n by (cases "drop 4 ds"; cases "tl (drop 4 ds)") auto
        have "literal (drop 4 es)"
          using 3(5) unfolding es by (cases rule: literal_cases) (auto simp: simple_escape_def)
        moreover have "drop ?n ds = drop 4 es"
        proof -
          have "drop ?n ds = drop 6 (drop 4 ds)" using n False by simp
          then show ?thesis using es by simp
        qed
        ultimately show ?thesis by simp
      qed
      then have "utf8_valid (unquote (drop ?n ds))" using less.hyps [of "drop ?n ds"] Cons 3(2) by simp
      then show ?thesis
        using 3(1,2) Cons utf8_valid_rune [OF unicode_escape_rune [OF 3(4)]] by (simp add: unquote_unicode)
    qed
  qed
qed

subsection \<open>Values\<close>

lemma collect_all: "\<forall>m\<in>set ms. P m \<Longrightarrow> \<forall>m\<in>set acc. P m \<Longrightarrow> \<forall>m\<in>set (collect ms acc). P m"
  using collect_entries [of ms acc] by blast

lemma storable_decode: "well_formed t \<Longrightarrow> storable (decode_any t)"
proof (induction t)
  case (TArray ts)
  then show ?case by (simp add: list_all_iff)
next
  case (TObject ms)
  let ?ms = "map (\<lambda>(k, t). (unquote k, decode_any t)) ms"
  have "\<forall>m\<in>set ?ms. utf8_valid (fst m) \<and> storable (snd m)"
    using TObject utf8_valid_unquote by (fastforce simp: list_all_iff)
  then have "\<forall>m\<in>set (collect ?ms []). utf8_valid (fst m) \<and> storable (snd m)" by (intro collect_all) simp_all
  moreover have "key_order (collect ?ms [])" by (intro key_order_collect) (simp add: key_order_def)
  ultimately show ?case by (auto simp: list_all_iff)
qed (simp_all add: utf8_valid_unquote)

lemma storable_put: "storable (JsonObject ms) \<Longrightarrow> storable v \<Longrightarrow> utf8_valid k \<Longrightarrow> storable (JsonObject (put k v ms))"
  using put_entries [of k v ms] key_order_put [of ms k v] by (fastforce simp: list_all_iff)

text \<open>A value that was decoded can be written and read again.\<close>

lemma parse_marshal:
  "storable v \<Longrightarrow> parse_json (render (marshal_any v)) = Some (marshal_any v) \<and> decode_any (marshal_any v) = v"
  by (simp add: marshal_well_formed decode_marshal)

lemma map_of_rev_distinct: "distinct (map fst ms) \<Longrightarrow> map_of (rev ms) = map_of ms"
proof (rule ext)
  fix k
  assume d: "distinct (map fst ms)"
  then have "distinct (map fst (rev ms))" by (simp add: rev_map [symmetric])
  then show "map_of (rev ms) k = map_of ms k"
    using d by (metis (no_types) map_of_eq_Some_iff not_None_eq set_rev)
qed

lemma key_order_eqI:
  assumes "key_order a" and "key_order b" and "map_of a = map_of b"
  shows "a = b"
proof -
  have "set a = set b"
    using assms by (metis key_order_distinct map_of_eq_Some_iff subset_antisym subrelI)
  moreover have "sorted (map fst a)" "sorted (map fst b)" using assms(1,2) by (simp_all add: key_order_def strict_sorted_iff)
  moreover have "distinct (map fst a)" "distinct (map fst b)" using assms(1,2) by (simp_all add: key_order_distinct)
  ultimately show ?thesis using map_sorted_distinct_set_unique [of fst a b] by (simp add: distinct_map)
qed

end
