(* ===== verification/PlanFacts.thy ===== *)
theory PlanFacts
  imports PlanParser JsonFacts
begin

section \<open>What the plan scanner accepts\<close>

text \<open>
  The scan accepts the texts that the JSON parser reads and whose objects and arrays keep the limits of
  depth, fields and distinct names. Cutting a UTF-8 text into JSON values keeps it UTF-8.
\<close>

subsection \<open>Limits of a text\<close>

fun in_limits :: "nat \<Rightarrow> jtext \<Rightarrow> bool" where
  "in_limits depth (TObject ms) =
    (Suc depth \<le> maxJSONDepth \<and> distinct (map (\<lambda>m. unquote (fst m)) ms) \<and> length ms \<le> maxObjectFields \<and>
     (\<forall>m\<in>set ms. in_limits (Suc depth) (snd m)))"
| "in_limits depth (TArray ts) = (Suc depth \<le> maxJSONDepth \<and> (\<forall>t\<in>set ts. in_limits (Suc depth) t))"
| "in_limits depth _ = True"

lemma scan_field_members:
  "scan_field path seen cs = Inr (field, es) \<longleftrightarrow>
   (\<exists>ds key fs. skip cs = quote_char # ds \<and> lex_string ds = Some (key, fs) \<and> field = unquote key \<and>
      field \<notin> set seen \<and> length seen < maxObjectFields \<and> skip fs \<noteq> [] \<and> hd (skip fs) = CHR 0x3A \<and> es = tl (skip fs))"
  by (auto simp: scan_field_def Let_def Suc_le_eq utf8_valid_unquote [OF lex_string_literal] split: list.splits option.splits if_splits)

lemma scan_scalar_ok:
  assumes "c \<noteq> CHR 0x7B" and "c \<noteq> CHR 0x5B" and "c \<noteq> quote_char" and "skip cs = c # ds"
  shows "scan_scalar (c # ds) path = Inr rest \<longleftrightarrow> (\<exists>t. json_value (Suc n) cs = Some (t, rest) \<and> in_limits depth t)"
  using assms by (auto simp: scan_scalar_def split: option.splits)

lemma json_value_bracket:
  "skip cs = [] \<or> hd (skip cs) = CHR 0x7D \<Longrightarrow> json_elements n cs = None"
  by (cases n; cases "n - 1"; cases "skip cs") (auto simp: lex_number_def lex_integer_def digit_def)

definition members_in_limits :: "nat \<Rightarrow> string list \<Rightarrow> (string \<times> jtext) list \<Rightarrow> bool" where
  "members_in_limits depth seen ms \<longleftrightarrow>
     distinct (map (\<lambda>m. unquote (fst m)) ms) \<and> (\<forall>m\<in>set ms. unquote (fst m) \<notin> set seen) \<and>
     length seen + length ms \<le> maxObjectFields \<and> (\<forall>m\<in>set ms. in_limits depth (snd m))"

lemma members_in_limits_Cons:
  "members_in_limits depth seen ((k, t) # ms) \<longleftrightarrow>
     unquote k \<notin> set seen \<and> length seen < maxObjectFields \<and> in_limits depth t \<and>
     members_in_limits depth (unquote k # seen) ms"
proof -
  have "unquote k \<notin> (\<lambda>m. unquote (fst m)) ` set ms \<longleftrightarrow> (\<forall>m\<in>set ms. unquote (fst m) \<noteq> unquote k)"
    unfolding image_iff by metis
  then show ?thesis by (auto simp: members_in_limits_def)
qed

lemma members_in_limits_Nil: "members_in_limits depth seen [] \<longleftrightarrow> length seen \<le> maxObjectFields"
  by (simp add: members_in_limits_def)

lemma scan_iff:
  "scanValue n cs path d = Inr rest \<longleftrightarrow> (\<exists>t. json_value n cs = Some (t, rest) \<and> in_limits d t)"
  "scanArray n cs path d i = Inr rest \<longleftrightarrow> (\<exists>ts. json_elements n cs = Some (ts, rest) \<and> (\<forall>t\<in>set ts. in_limits d t))"
  "scanObject n cs path d seen = Inr rest \<longleftrightarrow> (\<exists>ms. json_members n cs = Some (ms, rest) \<and> members_in_limits d seen ms)"
proof (induction n arbitrary: cs path d rest i seen)
  case 0
  {
    case 1 show ?case by simp
  next
    case 2 show ?case by simp
  next
    case 3 show ?case by simp
  }
next
  case (Suc n)
  {
    case 1
    show ?case
    proof (cases "skip cs")
      case Nil
      then show ?thesis by simp
    next
      case (Cons c ds)
      show ?thesis
      proof (cases "c = CHR 0x7B \<or> c = CHR 0x5B \<or> c = quote_char")
        case False
        then show ?thesis using scan_scalar_ok [OF _ _ _ Cons, of path rest n d] Cons by simp
      next
        case True
        then consider "c = CHR 0x7B" | "c = CHR 0x5B" | "c = quote_char" by blast
        then show ?thesis
        proof cases
          case 1
          have "members_in_limits (Suc d) [] ms \<and> Suc d \<le> maxJSONDepth \<longleftrightarrow> in_limits d (TObject ms)" for ms
            by (auto simp: members_in_limits_def)
          moreover have "in_limits d (TObject []) \<longleftrightarrow> Suc d \<le> maxJSONDepth" by (simp add: maxObjectFields_def)
          ultimately show ?thesis
            using 1 Cons Suc.IH(3) [of ds path "Suc d" "[]" rest] by (auto simp del: in_limits.simps)
        next
          case 2
          then show ?thesis
            using Cons json_value_bracket [of ds n] Suc.IH(2) [of ds path "Suc d" 0 rest] by (auto simp: not_less)
        next
          case 3
          then show ?thesis using Cons by (auto split: option.splits)
        qed
      qed
    qed
  next
    case 2
    show ?case
      using Suc.IH(1) [of cs "index_path path i" d] Suc.IH(2) [of _ path d "Suc i" rest]
      by (auto simp: attempt_eq_Inr split: option.splits list.splits)
  next
    case 3
    show ?case
      using Suc.IH(1) [of _ _ d] Suc.IH(3) [of _ path d _ rest]
      by (auto simp: attempt_eq_Inr scan_field_members members_in_limits_Cons members_in_limits_Nil split: option.splits list.splits)
  }
qed

end
