(* ===== verification/JsonUtf8.thy ===== *)
theory JsonUtf8
  imports JsonFacts
begin

section \<open>UTF-8 and JSON texts\<close>

text \<open>
  A UTF-8 text is cut at an ASCII character into UTF-8 texts, so the literals of a UTF-8 JSON text are
  UTF-8; and a text with such literals is written as UTF-8.
\<close>

lemma utf8_valid_append: "utf8_valid a \<Longrightarrow> utf8_valid (a @ b) \<longleftrightarrow> utf8_valid b"
proof (induction "length a" arbitrary: a rule: less_induct)
  case less
  show ?case
  proof (cases a)
    case Nil
    then show ?thesis by simp
  next
    case (Cons c cs)
    let ?w = "rune_width a"
    have w: "0 < ?w" "utf8_valid (drop ?w a)" using utf8_valid_step [of c cs] less.prems Cons by auto
    have "utf8_valid (a @ b) \<longleftrightarrow> utf8_valid (take ?w a @ drop ?w a @ b)"
      by (metis append.assoc append_take_drop_id)
    also have "\<dots> \<longleftrightarrow> utf8_valid (drop ?w a @ b)" by (rule utf8_valid_rune [OF one_rune_take [OF w(1)]])
    also have "\<dots> \<longleftrightarrow> utf8_valid b" using less.hyps [OF _ w(2)] w(1) Cons by simp
    finally show ?thesis .
  qed
qed

lemma utf8_valid_ascii: "\<forall>c\<in>set s. (of_char c :: nat) < 128 \<Longrightarrow> utf8_valid s"
  by (simp add: utf8_valid_def utf8_bytes_ascii)

lemma utf8_valid_ascii_append: "\<forall>c\<in>set s. (of_char c :: nat) < 128 \<Longrightarrow> utf8_valid (s @ x) \<longleftrightarrow> utf8_valid x"
  by (rule utf8_valid_append [OF utf8_valid_ascii])

lemma utf8_valid_ascii_Cons: "(of_char c :: nat) < 128 \<Longrightarrow> utf8_valid (c # x) \<longleftrightarrow> utf8_valid x"
  using utf8_valid_ascii_append [of "[c]" x] by simp

lemma utf8_valid_cut:
  assumes "utf8_valid (s @ q # r)" and "(of_char q :: nat) < 128"
  shows "utf8_valid s \<and> utf8_valid r"
  using assms(1)
proof (induction "length s" arbitrary: s rule: less_induct)
  case less
  show ?case
  proof (cases s)
    case Nil
    then show ?thesis using less.prems utf8_valid_ascii_Cons [OF assms(2)] by simp
  next
    case (Cons c cs)
    let ?t = "s @ q # r"
    let ?w = "rune_width ?t"
    have w: "0 < ?w" "utf8_valid (drop ?w ?t)" using utf8_valid_step [of c "cs @ q # r"] less.prems Cons by auto
    have "?w \<le> length s"
    proof (rule ccontr)
      assume long: "\<not> ?w \<le> length s"
      then have "q \<in> set (take ?w ?t)" by (simp add: take_Cons')
      moreover have "1 < ?w" using long Cons by simp
      ultimately show False using rune_width_high [of ?t q] assms(2) by auto
    qed
    then have "utf8_valid (drop ?w s @ q # r)" and take: "take ?w s = take ?w ?t" using w(2) by simp_all
    then have "utf8_valid (drop ?w s) \<and> utf8_valid r" using less.hyps [of "drop ?w s"] w(1) Cons by simp
    moreover have "utf8_valid s \<longleftrightarrow> utf8_valid (drop ?w s)"
      using utf8_valid_rune [OF one_rune_take [OF w(1)], of "drop ?w s"] take by (metis append_take_drop_id)
    ultimately show ?thesis by simp
  qed
qed

subsection \<open>Reading\<close>

lemma lex_string_split: "lex_string cs = Some (s, r) \<Longrightarrow> cs = s @ quote_char # r"
proof (induction cs arbitrary: s r rule: lex_string.induct)
  case 1
  then show ?case by simp
next
  case (2 c cs)
  show ?case
  proof (cases "c = quote_char \<or> (of_char c :: nat) < 32 \<or> c \<noteq> backslash")
    case True
    then show ?thesis using "2.prems" "2.IH"(1) by (auto split: if_splits)
  next
    case False
    then obtain e ds where cs: "cs = e # ds" using "2.prems" by (cases cs) auto
    show ?thesis
    proof (cases "simple_escape e")
      case True
      then show ?thesis using False "2.prems" "2.IH"(2) cs by auto
    next
      case escape: False
      then obtain s' where "lex_string (drop 4 ds) = Some (s', r)" "s = c # e # take 4 ds @ s'"
        using False "2.prems" cs by (auto split: if_splits)
      moreover from this have "drop 4 ds = s' @ quote_char # r"
        using False escape "2.prems" "2.IH"(3) [of e ds s' r] cs by (auto split: if_splits)
      ultimately show ?thesis using cs by (metis append.assoc append_Cons append_take_drop_id)
    qed
  qed
qed

lemma lex_string_utf8: "lex_string cs = Some (s, r) \<Longrightarrow> utf8_valid cs \<Longrightarrow> utf8_valid s \<and> utf8_valid r"
  using lex_string_split [of cs s r] utf8_valid_cut [of s quote_char r] by simp

lemma skip_utf8: "utf8_valid cs \<Longrightarrow> utf8_valid (skip cs)"
proof -
  have "cs = takeWhile json_space cs @ skip cs" by (simp add: skip_def)
  moreover have "\<forall>c\<in>set (takeWhile json_space cs). (of_char c :: nat) < 128"
    by (auto dest!: set_takeWhileD simp: json_space_def)
  ultimately show "utf8_valid cs \<Longrightarrow> utf8_valid (skip cs)" by (metis utf8_valid_ascii_append)
qed

definition ascii :: "string \<Rightarrow> bool" where
  "ascii s \<longleftrightarrow> (\<forall>c\<in>set s. (of_char c :: nat) < 128)"

lemma ascii_simps [simp]: "ascii []" "ascii (c # s) \<longleftrightarrow> (of_char c :: nat) < 128 \<and> ascii s" "ascii (a @ b) \<longleftrightarrow> ascii a \<and> ascii b"
  by (auto simp: ascii_def)

lemma ascii_digits [simp]: "ascii (takeWhile digit ds)"
  by (auto simp: ascii_def digit_def dest: set_takeWhileD)

lemma ascii_utf8 [simp]: "ascii a \<Longrightarrow> utf8_valid (a @ b) \<longleftrightarrow> utf8_valid b" "ascii a \<Longrightarrow> utf8_valid a"
  by (simp_all add: ascii_def utf8_valid_ascii_append utf8_valid_ascii)

lemma exponent_sign_split: "exponent_sign ds @ drop (length (exponent_sign ds)) ds = ds" "ascii (exponent_sign ds)"
  by (cases ds; simp add: exponent_sign_def)+

lemma lex_integer_split: "lex_integer cs = Some (w, r) \<Longrightarrow> cs = w @ r \<and> ascii w"
  by (cases cs) (auto simp: lex_integer_def digit_def split: if_splits)

lemma lex_fraction_split: "lex_fraction cs = Some (w, r) \<Longrightarrow> cs = w @ r \<and> ascii w"
  by (auto simp: lex_fraction_def split: list.splits if_splits)

lemma lex_exponent_split: "lex_exponent cs = Some (w, r) \<Longrightarrow> cs = w @ r \<and> ascii w"
proof (cases cs)
  case (Cons c ds)
  assume ok: "lex_exponent cs = Some (w, r)"
  let ?es = "drop (length (exponent_sign ds)) ds"
  show ?thesis
  proof (cases "c = CHR ''e'' \<or> c = CHR ''E''")
    case True
    then have "w = c # exponent_sign ds @ takeWhile digit ?es" "r = dropWhile digit ?es"
      using ok Cons by (auto simp: lex_exponent_def Let_def split: if_splits)
    then show ?thesis using True Cons exponent_sign_split [of ds] by auto
  next
    case False
    then show ?thesis using ok Cons by (auto simp: lex_exponent_def split: if_splits)
  qed
qed (simp add: lex_exponent_def)

lemma lex_number_split:
  assumes "lex_number cs = Some (n, r)"
  shows "cs = n @ r \<and> ascii n"
proof -
  let ?sign = "if cs \<noteq> [] \<and> hd cs = CHR ''-'' then ''-'' else []"
  obtain w c1 f c2 e where steps: "lex_integer (drop (length ?sign) cs) = Some (w, c1)" "lex_fraction c1 = Some (f, c2)"
      "lex_exponent c2 = Some (e, r)" "n = ?sign @ w @ f @ e"
    using assms unfolding lex_number_def Let_def by (auto split: option.splits)
  note parts = lex_integer_split [OF steps(1)] lex_fraction_split [OF steps(2)] lex_exponent_split [OF steps(3)]
  have "cs = ?sign @ drop (length ?sign) cs" by (cases cs) simp_all
  also have "\<dots> = n @ r" using parts steps(4) by simp
  finally have "cs = n @ r" .
  moreover have "ascii ?sign" by simp
  then have "ascii n" unfolding steps(4) ascii_simps(3) using parts by blast
  ultimately show ?thesis by blast
qed

lemma numeral_ascii: "numeral_text n \<Longrightarrow> ascii n"
  using lex_number_split by (auto simp: numeral_text_def)

text \<open>Texts whose literals are UTF-8.\<close>

fun utf8_text :: "jtext \<Rightarrow> bool" where
  "utf8_text (TString s) = utf8_valid s"
| "utf8_text (TArray ts) = (\<forall>t\<in>set ts. utf8_text t)"
| "utf8_text (TObject ms) = (\<forall>m\<in>set ms. utf8_valid (fst m) \<and> utf8_text (snd m))"
| "utf8_text _ = True"

lemma utf8_valid_tl: "utf8_valid cs \<Longrightarrow> cs \<noteq> [] \<Longrightarrow> (of_char (hd cs) :: nat) < 128 \<Longrightarrow> utf8_valid (tl cs)"
  by (cases cs) (simp_all add: utf8_valid_ascii_Cons)

lemma utf8_valid_drop: "take n cs = a \<Longrightarrow> ascii a \<Longrightarrow> utf8_valid cs \<Longrightarrow> utf8_valid (drop n cs)"
  by (metis append_take_drop_id ascii_utf8(1))

lemma lex_number_utf8: "lex_number cs = Some (n, r) \<Longrightarrow> utf8_valid cs \<Longrightarrow> utf8_valid r"
  using lex_number_split [of cs n r] by simp

lemma skip_Cons_utf8: "skip cs = c # ds \<Longrightarrow> utf8_valid cs \<Longrightarrow> (of_char c :: nat) < 128 \<Longrightarrow> utf8_valid ds"
  using skip_utf8 [of cs] by (simp add: utf8_valid_ascii_Cons)

lemma skip_tl_utf8: "utf8_valid cs \<Longrightarrow> skip cs \<noteq> [] \<Longrightarrow> (of_char (hd (skip cs)) :: nat) < 128 \<Longrightarrow> utf8_valid (tl (skip cs))"
  by (rule utf8_valid_tl [OF skip_utf8])

lemma json_value_utf8:
  "json_value n cs = Some (t, r) \<Longrightarrow> utf8_valid cs \<Longrightarrow> utf8_text t \<and> utf8_valid r"
  "json_elements n cs = Some (ts, r) \<Longrightarrow> utf8_valid cs \<Longrightarrow> (\<forall>t\<in>set ts. utf8_text t) \<and> utf8_valid r"
  "json_members n cs = Some (ms, r) \<Longrightarrow> utf8_valid cs \<Longrightarrow> (\<forall>m\<in>set ms. utf8_valid (fst m) \<and> utf8_text (snd m)) \<and> utf8_valid r"
proof (induction n arbitrary: cs t ts ms r)
  case 0
  {
    case 1 then show ?case by simp
  next
    case 2 then show ?case by simp
  next
    case 3 then show ?case by simp
  }
next
  case (Suc n)
  {
    case 1
    obtain c ds where cs: "skip cs = c # ds" using 1(1) by (cases "skip cs") auto
    have all: "utf8_valid (c # ds)" using skip_utf8 [OF 1(2)] cs by simp
    show ?case
    proof (cases "c = CHR 0x7B \<or> c = CHR 0x5B \<or> c = quote_char")
      case True
      then have ds: "utf8_valid ds" using skip_Cons_utf8 [OF cs 1(2)] by auto
      then show ?thesis
        using True 1(1) cs Suc.IH(2,3) [OF _ ds] skip_tl_utf8 [OF ds] lex_string_utf8 [OF _ ds] by (auto split: if_splits)
    next
      case False
      then show ?thesis
        using 1(1) cs utf8_valid_drop [OF refl _ all, of 4] utf8_valid_drop [OF refl _ all, of 5] lex_number_utf8 [OF _ all]
        by (auto simp del: take_Suc_Cons take_Cons drop_Suc_Cons split: if_splits)
    qed
  next
    case 2
    obtain v es c ds where parts: "json_value n cs = Some (v, es)" "skip es = c # ds"
        "c = CHR 0x2C \<and> (\<exists>us. json_elements n ds = Some (us, r) \<and> ts = v # us) \<or> c = CHR 0x5D \<and> ts = [v] \<and> r = ds"
      using 2(1) by (auto split: option.splits list.splits if_splits)
    have v: "utf8_text v" "utf8_valid es" using Suc.IH(1) [OF parts(1) 2(2)] by auto
    then have ds: "utf8_valid ds" using skip_Cons_utf8 [OF parts(2)] parts(3) by auto
    then show ?case using parts(3) v Suc.IH(2) [OF _ ds] by auto
  next
    case 3
    obtain ds k es v fs c gs where parts: "skip cs = quote_char # ds" "lex_string ds = Some (k, es)" "skip es \<noteq> []"
        "hd (skip es) = CHR 0x3A" "json_value n (tl (skip es)) = Some (v, fs)" "skip fs = c # gs"
        "c = CHR 0x2C \<and> (\<exists>us. json_members n gs = Some (us, r) \<and> ms = (k, v) # us) \<or> c = CHR 0x7D \<and> ms = [(k, v)] \<and> r = gs"
      using 3(1) by (auto split: option.splits list.splits if_splits)
    have ds: "utf8_valid ds" using skip_Cons_utf8 [OF parts(1) 3(2)] by simp
    then have k: "utf8_valid k" "utf8_valid es" using lex_string_utf8 [OF parts(2)] by auto
    have "utf8_valid (tl (skip es))" using skip_tl_utf8 [OF k(2) parts(3)] parts(4) by simp
    then have v: "utf8_text v" "utf8_valid fs" using Suc.IH(1) [OF parts(5)] by auto
    then have gs: "utf8_valid gs" using skip_Cons_utf8 [OF parts(6)] parts(7) by auto
    then show ?case using parts(7) v k Suc.IH(3) [OF _ gs] by (elim disjE) (fastforce+)
  }
qed

lemma parse_utf8: "parse_json cs = Some t \<Longrightarrow> utf8_valid cs \<Longrightarrow> utf8_text t"
  using json_value_utf8(1) by (auto simp: parse_json_def simp del: json_value.simps split: option.splits if_splits)

subsection \<open>Writing\<close>

lemma utf8_commas: "\<forall>x\<in>set xs. utf8_valid x \<Longrightarrow> utf8_valid (commas xs)"
  by (induction xs) (simp_all add: commas_Cons utf8_valid_append utf8_valid_ascii_Cons)

lemma utf8_quoted: "utf8_valid s \<Longrightarrow> utf8_valid (quote_char # s @ quote_char # x) \<longleftrightarrow> utf8_valid x"
  by (simp add: utf8_valid_append utf8_valid_ascii_Cons)

lemma render_utf8: "utf8_text t \<Longrightarrow> well_formed t \<Longrightarrow> utf8_valid (render t)"
proof (induction t)
  case (TNumber n)
  then show ?case by (simp add: numeral_ascii)
next
  case (TString s)
  then show ?case using utf8_quoted [of s "[]"] by simp
next
  case (TArray ts)
  then have "utf8_valid (commas (map render ts))" by (intro utf8_commas) (auto simp: list_all_iff)
  then show ?case by (simp add: utf8_valid_append utf8_valid_ascii_Cons)
next
  case (TObject ms)
  have "utf8_valid (quote_char # fst m @ quote_char # CHR 0x3A # render (snd m))" if m: "m \<in> set ms" for m
  proof -
    have "utf8_text (snd m)" "well_formed (snd m)" "utf8_valid (fst m)" using TObject.prems m by (auto simp: list_all_iff)
    then have "utf8_valid (render (snd m))" using TObject.IH [OF m, of "snd m"] by (simp add: snds.simps)
    then show ?thesis using utf8_quoted [OF \<open>utf8_valid (fst m)\<close>] by (simp add: utf8_valid_ascii_Cons)
  qed
  then have "utf8_valid (commas (map render_member ms))" by (intro utf8_commas) (auto split: prod.splits)
  then show ?case by (simp add: utf8_valid_append utf8_valid_ascii_Cons)
qed simp_all

lemma ascii_hex_char: "n < 16 \<Longrightarrow> (of_char (hex_char n) :: nat) < 128"
  by (simp add: hex_char_def)

lemma ascii_quote_byte:
  assumes "(of_char c :: nat) < 128"
  shows "ascii (quote_byte html c)"
proof -
  have "(of_char c :: nat) div 16 < 16" using assms by linarith
  then have "ascii (backslash # ''u00'' @ [hex_char (of_char c div 16), hex_char (of_char c mod 16)])"
    by (simp add: ascii_hex_char)
  moreover have "ascii [backslash, c]" "ascii [c]" using assms by simp_all
  moreover have "ascii [backslash, CHR ''b'']" "ascii [backslash, CHR ''f'']" "ascii [backslash, CHR ''n'']"
    "ascii [backslash, CHR ''r'']" "ascii [backslash, CHR ''t'']" by simp_all
  ultimately show ?thesis unfolding quote_byte_def by presburger
qed

lemma quote_utf8: "utf8_valid s \<Longrightarrow> utf8_valid (quote html s)"
proof (induction "length s" arbitrary: s rule: less_induct)
  case less
  show ?case
  proof (cases s)
    case Nil
    then show ?thesis by simp
  next
    case (Cons c cs)
    define w rune rest where "w = rune_width (c # cs)" and "rune = take w (c # cs)" and "rest = quote html (drop w (c # cs))"
    note defs = this
    have w: "0 < w" "utf8_valid (drop w (c # cs))" using utf8_valid_step [of c cs] less.prems Cons by (auto simp: defs)
    then have rest: "utf8_valid rest" unfolding defs(3) using less.hyps Cons by simp
    have rune: "utf8_valid (rune @ rest)"
      unfolding defs(2) using utf8_valid_rune [OF one_rune_take, of "c # cs" rest] w(1) rest by (simp add: defs(1))
    have other: "utf8_valid (p @ rest)" if "ascii p" for p using that rest by simp
    have byte: "ascii (quote_byte html c)" if "w = 1" using that rune_width_ascii [of c cs] by (simp add: ascii_quote_byte defs(1))
    have "quote html (c # cs) = (if w = 1 then quote_byte html c @ quote html cs
        else if rune = [CHR 0xE2, CHR 0x80, CHR 0xA8] then (backslash # ''u2028'') @ rest
        else if rune = [CHR 0xE2, CHR 0x80, CHR 0xA9] then (backslash # ''u2029'') @ rest else rune @ rest)"
      using w(1) unfolding quote.simps(2) Let_def defs(1) [symmetric] defs(2) [symmetric] defs(3) [symmetric] by simp
    moreover have "rest = quote html cs" if "w = 1" using that by (simp add: defs(3))
    ultimately show ?thesis
      unfolding Cons using rune other byte other [of "backslash # ''u2028''"] other [of "backslash # ''u2029''"] by (auto split: if_splits)
  qed
qed

end
