(* ===== verification/PlanRoundTrip.thy ===== *)
theory PlanRoundTrip
  imports PlanFacts JsonUtf8
begin

section \<open>Plans on the wire\<close>

text \<open>
  What the strict parser lets through keeps every limit of the plan schema, and its canonical text is read
  back as the same draft.
\<close>

subsection \<open>Drafts that fit\<close>

definition part_fits :: "nat \<Rightarrow> jtext \<Rightarrow> bool" where
  "part_fits depth t \<longleftrightarrow> well_formed t \<and> utf8_text t \<and> in_limits depth t"

definition input_fits :: "StepType \<Rightarrow> StepInput \<Rightarrow> bool" where
  "input_fits stepType input \<longleftrightarrow>
     (\<exists>t path. part_fits 3 t \<and> parseStepInput t stepType path = Inr input)"

definition schema_fits :: "OutputSchema \<Rightarrow> bool" where
  "schema_fits schema \<longleftrightarrow>
     schema \<noteq> [] \<and> length schema \<le> maxOutputFields \<and> key_order schema \<and>
     (\<forall>(name, kind)\<in>set schema. utf8_valid name \<and> int (length name) \<le> maxOutputFieldNameBytes \<and>
        matches PlanParser.outputFieldNamePattern name \<and> JSONSchemaType_Valid kind)"

definition tool_fits :: "StepType \<Rightarrow> ToolName option \<Rightarrow> bool" where
  "tool_fits stepType tool \<longleftrightarrow>
     (if stepType = StepTypeToolCall then (\<exists>name. tool = Some name \<and> \<not> blank name \<and> utf8_valid name) else tool = None)"

definition step_fits :: "StepDraft \<Rightarrow> bool" where
  "step_fits step \<longleftrightarrow>
     Draft_Sequence step \<noteq> 0 \<and> StepType_Valid (Draft_Type step) \<and>
     utf8_valid (Draft_Name step) \<and> \<not> blank (Draft_Name step) \<and> int (length (Draft_Name step)) \<le> maxStepNameBytes \<and>
     input_fits (Draft_Type step) (Draft_Input step) \<and> schema_fits (Draft_OutputSchema step) \<and>
     tool_fits (Draft_Type step) (Draft_ToolName step)"

definition draft_fits :: "PlanDraft \<Rightarrow> bool" where
  "draft_fits draft \<longleftrightarrow>
     utf8_valid (Draft_Goal draft) \<and> \<not> blank (Draft_Goal draft) \<and> int (length (Draft_Goal draft)) \<le> maxGoalBytes \<and>
     Draft_Steps draft \<noteq> [] \<and> length (Draft_Steps draft) \<le> maxPlanSteps \<and> (\<forall>step\<in>set (Draft_Steps draft). step_fits step) \<and>
     (\<exists>canonical. marshalPlanDraft draft = Some canonical \<and> int (length canonical) \<le> maxPlanDraftBytes)"

subsection \<open>Members\<close>

lemma part_fits_object:
  assumes "part_fits depth raw" and "object_fields raw = Some members"
  shows "\<forall>m\<in>set members. utf8_valid (fst m) \<and> part_fits (Suc depth) (snd m)" "key_order members"
proof -
  obtain ms where raw: "raw = TObject ms" using assms(2) by (cases raw) auto
  let ?ms = "map (\<lambda>(k, t). (unquote k, t)) ms"
  have members: "members = collect ?ms []" using assms(2) raw by simp
  have "\<forall>m\<in>set ?ms. utf8_valid (fst m) \<and> part_fits (Suc depth) (snd m)"
    using assms(1) raw utf8_valid_unquote by (fastforce simp: part_fits_def list_all_iff)
  then show "\<forall>m\<in>set members. utf8_valid (fst m) \<and> part_fits (Suc depth) (snd m)"
    unfolding members by (rule collect_all) simp
  show "key_order members" unfolding members by (rule key_order_collect) (simp add: key_order_def)
qed

lemma requiredField_ok:
  "requiredField members name path = Inr raw \<longleftrightarrow> map_of members name = Some raw \<and> raw \<noteq> TNull"
  by (auto simp: requiredField_def split: option.splits)

lemma unmarshal_utf8: "unmarshal_string t = Some s \<Longrightarrow> well_formed t \<Longrightarrow> utf8_valid s"
  by (cases t) (auto simp: utf8_valid_unquote)

lemma decodeString_ok:
  "decodeString raw path code = Inr s \<longleftrightarrow> (\<exists>q. raw = TString q \<and> s = unquote q)"
  by (cases raw) (auto simp: decodeString_def)

lemma member_fits:
  "map_of members name = Some raw \<Longrightarrow> \<forall>m\<in>set members. utf8_valid (fst m) \<and> part_fits depth (snd m) \<Longrightarrow> part_fits depth raw"
  by (auto dest!: map_of_SomeD)

subsection \<open>Independence of the path\<close>

lemma check_contract_fields_path:
  "check_contract_fields contract members path = Inr u \<Longrightarrow> check_contract_fields contract members path' = Inr u"
  by (induction contract) (auto simp: require_def split: if_splits)

lemma check_field_shapes_path:
  "check_field_shapes contract members path = Inr u \<Longrightarrow> check_field_shapes contract members path' = Inr u"
  by (induction contract members path rule: check_field_shapes.induct) (auto simp: require_def split: if_splits)

lemma validateNonToolInput_path:
  "validateNonToolInput raw stepType path = Inr u \<Longrightarrow> validateNonToolInput raw stepType path' = Inr u"
  using check_contract_fields_path check_field_shapes_path
  by (fastforce simp: validateNonToolInput_def attempt_eq_Inr rejectUnknownAs_def require_def split: option.splits if_splits)

lemma parseStepInput_path: "parseStepInput raw stepType path = Inr input \<Longrightarrow> parseStepInput raw stepType path' = Inr input"
  using validateNonToolInput_path
  by (fastforce simp: parseStepInput_def attempt_eq_Inr split: option.splits if_splits)

subsection \<open>What the parser reads fits\<close>

lemma digits_value_nonneg: "list_all digit n \<Longrightarrow> 0 \<le> digits_value n"
proof (induction n rule: rev_induct)
  case (snoc c n)
  then show ?case by (simp add: digits_value_def digit_def)
qed (simp add: digits_value_def)

lemma decodeSequence_ok: "decodeSequence raw path = Inr w \<Longrightarrow> w \<noteq> 0"
proof -
  assume "decodeSequence raw path = Inr w"
  then obtain n where n: "list_all digit n" "digits_value n < 2 ^ 32" "digits_value n \<noteq> 0" "w = word_of_int (digits_value n)"
    by (auto simp: decodeSequence_def not_le split: jtext.splits if_splits)
  have "uint w = digits_value n" using n(2) digits_value_nonneg [OF n(1)] unfolding n(4) by (simp add: uint_word_of_int)
  then show "w \<noteq> 0" using n(3) by auto
qed

lemma parse_output_field_ok:
  assumes "parse_output_field path name raw = Inr kind"
  shows "int (length name) \<le> maxOutputFieldNameBytes \<and> matches PlanParser.outputFieldNamePattern name \<and> JSONSchemaType_Valid kind"
  using assms by (auto simp: parse_output_field_def Let_def attempt_eq_Inr split: option.splits list.splits if_splits)

lemma parse_output_fields_ok:
  assumes "parse_output_fields path members = Inr schema"
  shows "map fst schema = map fst members \<and> (\<forall>(name, kind)\<in>set schema. int (length name) \<le> maxOutputFieldNameBytes \<and>
    matches PlanParser.outputFieldNamePattern name \<and> JSONSchemaType_Valid kind)"
  using assms
proof (induction path members arbitrary: schema rule: parse_output_fields.induct)
  case (2 path name raw members)
  then obtain kind rest where "parse_output_field path name raw = Inr kind" "parse_output_fields path members = Inr rest"
      "schema = (name, kind) # rest"
    by (auto simp: attempt_eq_Inr)
  then show ?case using 2 parse_output_field_ok by auto
qed simp

lemma parseOutputSchema_fits:
  assumes "parseOutputSchema raw path = Inr schema" and "part_fits depth raw"
  shows "schema_fits schema"
proof -
  obtain members where members: "object_fields raw = Some members" "members \<noteq> []" "length members \<le> maxOutputFields"
      "parse_output_fields path members = Inr schema"
    using assms(1) by (auto simp: parseOutputSchema_def not_less split: option.splits if_splits)
  note parsed = parse_output_fields_ok [OF members(4)] and parts = part_fits_object [OF assms(2) members(1)]
  have names: "map fst schema = map fst members" using parsed by simp
  have "length schema = length members" by (rule map_eq_imp_length_eq [OF names])
  moreover have "key_order schema" using parts(2) names by (simp add: key_order_def)
  moreover have "utf8_valid name" if "(name, kind) \<in> set schema" for name kind
  proof -
    have "name \<in> set (map fst members)" unfolding names [symmetric] using that by force
    then show ?thesis using parts(1) by auto
  qed
  ultimately show ?thesis using members(2,3) parsed by (auto simp: schema_fits_def)
qed

lemma parseToolName_fits:
  assumes "parseToolName members stepType path = Inr tool" and "\<forall>m\<in>set members. utf8_valid (fst m) \<and> part_fits depth (snd m)"
  shows "tool_fits stepType tool"
proof (cases "stepType = StepTypeToolCall")
  case True
  then obtain raw name where "map_of members ''tool_name'' = Some raw" "unmarshal_string raw = Some name" "\<not> blank name" "tool = Some name"
    using assms(1) by (auto simp: parseToolName_def split: option.splits if_splits)
  then show ?thesis
    using True member_fits [OF _ assms(2), of "''tool_name''" raw] by (auto simp: tool_fits_def part_fits_def unmarshal_utf8)
next
  case False
  then show ?thesis using assms(1) by (simp add: parseToolName_def tool_fits_def attempt_eq_Inr)
qed

lemma parseStep_fits:
  assumes "parseStep raw i = Inr step" and "part_fits 2 raw"
  shows "step_fits step"
proof -
  obtain members where members: "object_fields raw = Some members" using assms(1) by (auto simp: parseStep_def Let_def split: option.splits)
  have parts: "\<forall>m\<in>set members. utf8_valid (fst m) \<and> part_fits 3 (snd m)"
    using part_fits_object(1) [OF assms(2) members] by simp
  obtain sequenceRaw sequence kindText name inputRaw input outputRaw schema tool where step:
    "decodeSequence sequenceRaw (step_path i @ ''.sequence'') = Inr sequence" "StepType_Valid (StepType_of (unquote kindText))"
    "map_of members ''name'' = Some (TString name)" "\<not> blank (unquote name)" "int (length (unquote name)) \<le> maxStepNameBytes"
    "map_of members ''input'' = Some inputRaw" "parseStepInput inputRaw (StepType_of (unquote kindText)) (step_path i @ ''.input'') = Inr input"
    "map_of members ''output_schema'' = Some outputRaw" "parseOutputSchema outputRaw (step_path i @ ''.output_schema'') = Inr schema"
    "parseToolName members (StepType_of (unquote kindText)) (step_path i) = Inr tool"
    "step = \<lparr>Draft_Sequence = sequence, Draft_Type = StepType_of (unquote kindText), Draft_Name = unquote name, Draft_Input = input,
      Draft_OutputSchema = schema, Draft_ToolName = tool\<rparr>"
    using assms(1) members
    by (auto simp: parseStep_def Let_def attempt_eq_Inr requiredField_ok decodeString_ok)
  have "utf8_valid (unquote name)" using member_fits [OF step(3) parts] by (simp add: part_fits_def utf8_valid_unquote)
  moreover have "input_fits (StepType_of (unquote kindText)) input"
    using member_fits [OF step(6) parts] step(7) by (auto simp: input_fits_def)
  moreover have "schema_fits schema" by (rule parseOutputSchema_fits [OF step(9) member_fits [OF step(8) parts]])
  moreover have "tool_fits (StepType_of (unquote kindText)) tool" by (rule parseToolName_fits [OF step(10) parts])
  ultimately show ?thesis using step decodeSequence_ok [OF step(1)] by (simp add: step_fits_def)
qed

lemma parse_steps_fit:
  "parse_steps raws i = Inr steps \<Longrightarrow> \<forall>t\<in>set raws. part_fits 2 t \<Longrightarrow>
     length steps = length raws \<and> (\<forall>step\<in>set steps. step_fits step)"
proof (induction raws arbitrary: i steps)
  case (Cons raw raws)
  then obtain step rest where "parseStep raw i = Inr step" "parse_steps raws (Suc i) = Inr rest" "steps = step # rest"
    by (auto simp: attempt_eq_Inr)
  then show ?case using Cons parseStep_fits [of raw i step] by auto
qed simp

lemma scan_limits:
  assumes "scanPlanJSON encoded = Inr u" and "parse_json encoded = Some t"
  shows "in_limits 0 t"
proof -
  obtain rest where "scanValue (Suc (length encoded)) encoded root_path 0 = Inr rest"
    using assms(1) by (auto simp: scanPlanJSON_def attempt_eq_Inr split: if_splits)
  then obtain t' where "json_value (Suc (length encoded)) encoded = Some (t', rest)" "in_limits 0 t'"
    unfolding scan_iff by blast
  then show ?thesis using assms(2) by (auto simp: parse_json_def simp del: json_value.simps split: if_splits)
qed

lemma ParseV1_fits:
  assumes "ParseV1 encoded = Inr draft"
  shows "draft_fits draft"
proof -
  obtain u t members goal steps where call: "utf8_valid encoded" "scanPlanJSON encoded = Inr u" "parse_json encoded = Some t"
      "object_fields t = Some members" "parse_goal members = Inr goal" "parse_plan_steps members = Inr steps"
      "check_draft_size \<lparr>Draft_Goal = goal, Draft_Steps = steps\<rparr> = Inr draft"
    using assms by (auto simp: ParseV1_def attempt_eq_Inr bind_eq_Some_conv split: option.splits if_splits)
  have "part_fits 0 t"
    using parse_well_formed [OF call(3)] parse_utf8 [OF call(3,1)] scan_limits [OF call(2,3)] by (simp add: part_fits_def)
  then have parts: "\<forall>m\<in>set members. utf8_valid (fst m) \<and> part_fits 1 (snd m)" using part_fits_object(1) [OF _ call(4)] by simp
  obtain q where goal: "map_of members ''goal'' = Some (TString q)" "goal = unquote q" "\<not> blank goal" "int (length goal) \<le> maxGoalBytes"
    using call(5) by (auto simp: parse_goal_def attempt_eq_Inr requiredField_ok decodeString_ok)
  obtain a where a: "map_of members ''steps'' = Some a" using call(6) by (auto simp: parse_plan_steps_def attempt_eq_Inr requiredField_ok)
  then obtain raws where raws: "map_of members ''steps'' = Some (TArray raws)" "raws \<noteq> []" "length raws \<le> maxPlanSteps"
      "parse_steps raws 0 = Inr steps"
    using call(6) by (cases a) (auto simp: parse_plan_steps_def attempt_eq_Inr requiredField_ok)
  have "\<forall>t\<in>set raws. part_fits 2 t"
    using member_fits [OF raws(1) parts] by (auto simp: part_fits_def list_all_iff numeral_2_eq_2)
  then have "length steps = length raws" "\<forall>step\<in>set steps. step_fits step" using parse_steps_fit [OF raws(4)] by auto
  moreover have "utf8_valid goal" using member_fits [OF goal(1) parts] goal(2) by (simp add: part_fits_def utf8_valid_unquote)
  ultimately show ?thesis
    using call(7) goal raws by (auto simp: draft_fits_def check_draft_size_def not_less split: option.splits if_splits)
qed

subsection \<open>Numbers\<close>

lemma digits_of_digit: "list_all digit (digits_of n)"
proof (induction n rule: digits_of.induct)
  case (1 n)
  show ?case
  proof (cases "n < 10")
    case True
    then show ?thesis by (subst digits_of.simps) (simp add: digit_def)
  next
    case False
    have "digit (char_of (48 + n mod 10))" by (simp add: digit_def)
    then show ?thesis using 1 False by (subst digits_of.simps) simp
  qed
qed

lemma digits_of_value: "digits_value (digits_of n) = int n"
proof (induction n rule: digits_of.induct)
  case (1 n)
  show ?case
  proof (cases "n < 10")
    case True
    then show ?thesis by (subst digits_of.simps) (simp add: digits_value_def)
  next
    case False
    have "digits_value (digits_of n) = 10 * digits_value (digits_of (n div 10)) + int (n mod 10)"
      using False by (subst digits_of.simps) (simp add: digits_value_def)
    then show ?thesis using 1 False by (simp add: zmod_int zdiv_int)
  qed
qed

lemma digits_of_head: "0 < n \<Longrightarrow> \<exists>c cs. digits_of n = c # cs \<and> c \<noteq> CHR ''0''"
proof (induction n rule: digits_of.induct)
  case (1 n)
  show ?case
  proof (cases "n < 10")
    case True
    have "(of_char (char_of (48 + n) :: char) :: nat) \<noteq> of_char (CHR ''0'')" using True 1 by simp
    then have "char_of (48 + n) \<noteq> CHR ''0''" by metis
    then show ?thesis using True by (subst digits_of.simps) simp
  next
    case False
    then have "0 < n div 10" by simp
    then obtain c cs where "digits_of (n div 10) = c # cs" "c \<noteq> CHR ''0''" using 1 False by blast
    then show ?thesis using False by (subst digits_of.simps) simp
  qed
qed

lemma numeral_digits:
  assumes "0 < n"
  shows "numeral_text (digits_of n)"
proof -
  obtain c cs where c: "digits_of n = c # cs" "c \<noteq> CHR ''0''" using digits_of_head [OF assms] by blast
  have digits: "list_all digit (c # cs)" using digits_of_digit [of n] c(1) by simp
  then have "takeWhile digit (c # cs) = c # cs" "dropWhile digit (c # cs) = []" "c \<noteq> CHR ''-''"
    by (auto simp: takeWhile_eq_all_conv dropWhile_eq_Nil_conv list_all_iff digit_def)
  then show ?thesis
    using c by (simp add: numeral_text_def lex_number_def lex_integer_def lex_fraction_def lex_exponent_def)
qed

lemma sequence_text:
  assumes "w \<noteq> (0 :: 32 word)"
  shows "decodeSequence (TNumber (decimal (uint w))) path = Inr w" "numeral_text (decimal (uint w))"
proof -
  have w: "0 < uint w" using assms by (metis le_less uint_ge_0 unsigned_eq_0_iff)
  then have decimal: "decimal (uint w) = digits_of (nat (uint w))" by (simp add: decimal_def)
  have "uint w < 2 ^ 32" using uint_lt2p [of w] by simp
  then show "decodeSequence (TNumber (decimal (uint w))) path = Inr w"
    using w by (simp add: decodeSequence_def decimal digits_of_value digits_of_digit)
  show "numeral_text (decimal (uint w))" unfolding decimal by (rule numeral_digits) (use w in \<open>simp only: zero_less_nat_eq\<close>)
qed

subsection \<open>The written text fits\<close>

lemma quoted_fits: "utf8_valid s \<Longrightarrow> part_fits depth (TString (quote html s))"
  by (simp add: part_fits_def quote_literal quote_utf8)

lemma ascii_names [simp]:
  "unquote ''sequence'' = ''sequence''" "unquote ''type'' = ''type''" "unquote ''name'' = ''name''"
  "unquote ''input'' = ''input''" "unquote ''output_schema'' = ''output_schema''" "unquote ''tool_name'' = ''tool_name''"
  "unquote ''goal'' = ''goal''" "unquote ''steps'' = ''steps''"
  by code_simp+

lemma literal_names [simp]:
  "literal ''sequence''" "literal ''type''" "literal ''name''" "literal ''input''" "literal ''output_schema''"
  "literal ''tool_name''" "literal ''goal''" "literal ''steps''"
  by code_simp+

lemma object_fits:
  assumes "depth < maxJSONDepth" and "length ms \<le> maxObjectFields" and "distinct (map (\<lambda>m. unquote (fst m)) ms)"
    and "\<And>k t. (k, t) \<in> set ms \<Longrightarrow> literal k \<and> utf8_valid k \<and> part_fits (Suc depth) t"
  shows "part_fits depth (TObject ms)"
  using assms by (fastforce simp: part_fits_def list_all_iff)

lemma schema_text_fits:
  assumes "schema_fits schema"
  shows "part_fits 3 (schema_text schema)"
  unfolding schema_text_def
proof (rule object_fits)
  have schema: "length schema \<le> maxOutputFields" "key_order schema" "\<forall>(name, kind)\<in>set schema. utf8_valid name \<and> JSONSchemaType_Valid kind"
    using assms by (auto simp: schema_fits_def)
  let ?text = "\<lambda>(name, kind). (quote False name, TObject [(''type'', TString (quote False (OutputValueType_text kind)))])"
  show "3 < maxJSONDepth" by (simp add: maxJSONDepth_def)
  show "length (map ?text schema) \<le> maxObjectFields" using schema(1) by (simp add: maxOutputFields_def maxObjectFields_def)
  have "map (\<lambda>m. unquote (fst m)) (map ?text schema) = map fst schema"
    using schema(3) by (auto simp: unquote_quote)
  then show "distinct (map (\<lambda>m. unquote (fst m)) (map ?text schema))" using key_order_distinct [OF schema(2)] by (simp only:)
  fix k t
  assume "(k, t) \<in> set (map ?text schema)"
  then obtain name kind where member: "(name, kind) \<in> set schema" "k = quote False name"
      "t = TObject [(''type'', TString (quote False (OutputValueType_text kind)))]"
    by auto
  have "utf8_valid name" "JSONSchemaType_Valid kind" using schema(3) member(1) by auto
  then have "utf8_valid (OutputValueType_text kind)" by (cases kind) (simp_all add: utf8_valid_ascii)
  then have "part_fits (Suc 3) t"
    unfolding member(3) by (intro object_fits) (auto simp: maxJSONDepth_def maxObjectFields_def quoted_fits utf8_valid_ascii)
  then show "literal k \<and> utf8_valid k \<and> part_fits (Suc 3) t"
    using \<open>utf8_valid name\<close> member(2) by (simp add: quote_literal quote_utf8)
qed

lemma schema_text_read:
  assumes "schema_fits schema"
  shows "parseOutputSchema (schema_text schema) path = Inr schema"
proof -
  have schema: "key_order schema" "schema \<noteq> []" "length schema \<le> maxOutputFields" using assms by (auto simp: schema_fits_def)
  have names: "\<forall>(name, kind)\<in>set schema. utf8_valid name \<and> int (length name) \<le> maxOutputFieldNameBytes \<and>
      matches PlanParser.outputFieldNamePattern name \<and> JSONSchemaType_Valid kind"
    using assms by (simp add: schema_fits_def)
  let ?member = "\<lambda>(name, kind). (name, TObject [(''type'', TString (quote False (OutputValueType_text kind)))])"
  have "key_order (map ?member schema)" using schema(1) by (simp add: key_order_def o_def split_beta)
  then have "collect (map ?member schema) [] = map ?member schema" using collect_sorted [of "[]" "map ?member schema"] by simp
  moreover have "map (\<lambda>(k, t). (unquote k, t)) (map (\<lambda>(name, kind). (quote False name, TObject [(''type'', TString (quote False (OutputValueType_text kind)))])) schema) =
      map ?member schema"
    using names by (auto simp: unquote_quote)
  ultimately have fields: "object_fields (schema_text schema) = Some (map ?member schema)"
    by (simp add: schema_text_def del: map_map)
  have field: "parse_output_field path name (TObject [(''type'', TString (quote False (OutputValueType_text kind)))]) = Inr kind"
    if "(name, kind) \<in> set schema" for name kind
  proof -
    have "utf8_valid (OutputValueType_text kind)" using names that by (cases kind) (auto simp: utf8_valid_ascii)
    then show ?thesis using names that by (auto simp: parse_output_field_def Let_def unquote_quote rejectUnknownAs_def)
  qed
  have "parse_output_fields path (map ?member s) = Inr s" if "set s \<subseteq> set schema" for s
    using that by (induction s) (use field in \<open>auto\<close>)
  then show ?thesis using fields schema(2,3) by (simp add: parseOutputSchema_def)
qed

subsection \<open>Steps and plans are read back\<close>

lemma input_text:
  assumes "input_fits stepType input"
  obtains t where "parse_json input = Some t" "part_fits 3 t" "t \<noteq> TNull" "\<And>path. parseStepInput t stepType path = Inr input"
proof -
  obtain t path where t: "part_fits 3 t" "parseStepInput t stepType path = Inr input" using assms by (auto simp: input_fits_def)
  then obtain ms where "t = TObject ms" "input = render t"
    by (cases t) (auto simp: parseStepInput_def attempt_eq_Inr split: if_splits)
  moreover from this have "parse_json input = Some t" using t(1) by (simp only: parse_render part_fits_def)
  ultimately show thesis using that [of t] t(1) parseStepInput_path [OF t(2)] by simp
qed

lemma object_fields_distinct:
  assumes "distinct (map (\<lambda>m. unquote (fst m)) ms)"
  shows "\<exists>members. object_fields (TObject ms) = Some members \<and>
    map_of members = map_of (map (\<lambda>(k, t). (unquote k, t)) ms) \<and> fst ` set members \<subseteq> (\<lambda>m. unquote (fst m)) ` set ms"
proof -
  let ?ms = "map (\<lambda>(k, t). (unquote k, t)) ms"
  have "map fst ?ms = map (\<lambda>m. unquote (fst m)) ms" by auto
  then have "map_of (rev ?ms) = map_of ?ms" by (intro map_of_rev_distinct) (simp only: assms)
  moreover have "fst ` set (collect ?ms []) \<subseteq> (\<lambda>m. unquote (fst m)) ` set ms"
  proof -
    have "fst ` set (collect ?ms []) \<subseteq> fst ` set ?ms" using collect_entries [of ?ms "[]"] by (intro image_mono) simp
    also have "\<dots> = (\<lambda>m. unquote (fst m)) ` set ms" by force
    finally show ?thesis .
  qed
  ultimately show ?thesis by (simp add: map_of_collect)
qed

lemma type_text_utf8: "StepType_Valid t \<Longrightarrow> utf8_valid (StepType_text t)"
  by (cases t) (simp_all add: utf8_valid_ascii)

definition step_members :: "StepDraft \<Rightarrow> jtext \<Rightarrow> (string \<times> jtext) list" where
  "step_members step input =
    [(''sequence'', TNumber (decimal (uint (Draft_Sequence step)))),
     (''type'', TString (quote False (StepType_text (Draft_Type step)))),
     (''name'', TString (quote False (Draft_Name step))),
     (''input'', input),
     (''output_schema'', schema_text (Draft_OutputSchema step))] @
    (case Draft_ToolName step of None \<Rightarrow> [] | Some tool \<Rightarrow> [(''tool_name'', TString (quote False tool))])"

lemma step_names:
  "map (\<lambda>m. unquote (fst m)) (step_members step input) =
    [''sequence'', ''type'', ''name'', ''input'', ''output_schema''] @ (case Draft_ToolName step of None \<Rightarrow> [] | Some tool \<Rightarrow> [''tool_name''])"
  by (simp add: step_members_def split: option.splits)

lemma step_members_fit:
  assumes "step_fits step" and "part_fits 3 input"
  shows "part_fits 2 (TObject (step_members step input))"
proof (rule object_fits)
  show "2 < maxJSONDepth" by (simp add: maxJSONDepth_def)
  show "length (step_members step input) \<le> maxObjectFields"
    by (simp add: step_members_def maxObjectFields_def split: option.splits)
  show "distinct (map (\<lambda>m. unquote (fst m)) (step_members step input))" unfolding step_names by (simp split: option.splits)
  fix k t
  assume "(k, t) \<in> set (step_members step input)"
  moreover have "utf8_valid tool" if "Draft_ToolName step = Some tool" for tool
    using assms(1) that by (auto simp: step_fits_def tool_fits_def split: if_splits)
  ultimately show "literal k \<and> utf8_valid k \<and> part_fits (Suc 2) t"
    using assms schema_text_fits [of "Draft_OutputSchema step"] sequence_text(2) [of "Draft_Sequence step"]
    by (auto simp: step_members_def step_fits_def quoted_fits type_text_utf8 utf8_valid_ascii part_fits_def [of _ "TNumber _"]
        eval_nat_numeral split: option.splits)
qed

lemma step_read:
  assumes "step_fits step"
  shows "\<exists>t. step_text step = Some t \<and> part_fits 2 t \<and> (\<forall>i. parseStep t i = Inr step)"
proof -
  have fits: "Draft_Sequence step \<noteq> 0" "StepType_Valid (Draft_Type step)" "utf8_valid (Draft_Name step)" "\<not> blank (Draft_Name step)"
      "int (length (Draft_Name step)) \<le> maxStepNameBytes" "schema_fits (Draft_OutputSchema step)"
      "tool_fits (Draft_Type step) (Draft_ToolName step)" "input_fits (Draft_Type step) (Draft_Input step)"
    using assms by (simp_all add: step_fits_def)
  obtain input where input: "parse_json (Draft_Input step) = Some input" "part_fits 3 input" "input \<noteq> TNull"
      "\<And>path. parseStepInput input (Draft_Type step) path = Inr (Draft_Input step)"
    using input_text [OF fits(8)] by blast
  have written: "step_text step = Some (TObject (step_members step input))" by (simp add: step_text_def step_members_def input(1))
  have "distinct (map (\<lambda>m. unquote (fst m)) (step_members step input))" unfolding step_names by (simp split: option.splits)
  then obtain members where members: "object_fields (TObject (step_members step input)) = Some members"
      "map_of members = map_of (map (\<lambda>(k, t). (unquote k, t)) (step_members step input))"
      "fst ` set members \<subseteq> set (map (\<lambda>m. unquote (fst m)) (step_members step input))"
    using object_fields_distinct by (metis image_set)
  have known: "list_all (\<lambda>m. fst m \<in> set [''sequence'', ''type'', ''name'', ''input'', ''output_schema'', ''tool_name'']) members"
    using members(3) unfolding step_names list_all_iff by (fastforce split: option.splits)
  have lookup: "map_of members ''sequence'' = Some (TNumber (decimal (uint (Draft_Sequence step))))"
    "map_of members ''type'' = Some (TString (quote False (StepType_text (Draft_Type step))))"
    "map_of members ''name'' = Some (TString (quote False (Draft_Name step)))" "map_of members ''input'' = Some input"
    "map_of members ''output_schema'' = Some (schema_text (Draft_OutputSchema step))"
    "map_of members ''tool_name'' = map_option (\<lambda>tool. TString (quote False tool)) (Draft_ToolName step)"
    unfolding members(2) step_members_def by (simp_all split: option.splits)
  have tool: "parseToolName members (Draft_Type step) path = Inr (Draft_ToolName step)" for path
    using fits(7) lookup(6) by (auto simp: parseToolName_def tool_fits_def unquote_quote split: if_splits)
  have "schema_text (Draft_OutputSchema step) \<noteq> TNull" by (simp add: schema_text_def)
  then have "parseStep (TObject (step_members step input)) i = Inr step" for i
    using members(1) known lookup fits input sequence_text(1) [OF fits(1)] schema_text_read [OF fits(6)] tool
    by (simp add: parseStep_def Let_def rejectUnknownFields_def rejectUnknownAs_def requiredField_def decodeString_def
        unquote_quote type_text_utf8 del: object_fields.simps)
  then show ?thesis using written step_members_fit [OF assms input(2)] by blast
qed

lemma steps_read:
  "\<forall>step\<in>set steps. step_fits step \<Longrightarrow>
     \<exists>ts. step_texts steps = Some ts \<and> length ts = length steps \<and> (\<forall>t\<in>set ts. part_fits 2 t) \<and> (\<forall>i. parse_steps ts i = Inr steps)"
proof (induction steps)
  case (Cons step steps)
  then obtain ts where ts: "step_texts steps = Some ts" "length ts = length steps" "\<forall>t\<in>set ts. part_fits 2 t" "\<forall>i. parse_steps ts i = Inr steps"
    by auto
  obtain t where t: "step_text step = Some t" "part_fits 2 t" "\<forall>i. parseStep t i = Inr step" using step_read Cons.prems by force
  show ?case by (intro exI [of _ "t # ts"]) (use ts t in simp)
qed simp

lemma ParseV1_canonical:
  assumes "draft_fits draft" and "marshalPlanDraft draft = Some canonical"
  shows "ParseV1 canonical = Inr draft"
proof -
  have fits: "utf8_valid (Draft_Goal draft)" "\<not> blank (Draft_Goal draft)" "int (length (Draft_Goal draft)) \<le> maxGoalBytes"
      "Draft_Steps draft \<noteq> []" "length (Draft_Steps draft) \<le> maxPlanSteps" "int (length canonical) \<le> maxPlanDraftBytes"
    using assms by (auto simp: draft_fits_def)
  obtain ts where ts: "step_texts (Draft_Steps draft) = Some ts" "length ts = length (Draft_Steps draft)"
      "\<forall>t\<in>set ts. part_fits 2 t" "parse_steps ts 0 = Inr (Draft_Steps draft)"
    using steps_read [of "Draft_Steps draft"] assms(1) by (auto simp: draft_fits_def)
  let ?ms = "[(''goal'', TString (quote False (Draft_Goal draft))), (''steps'', TArray ts)]"
  have canonical: "canonical = render (TObject ?ms)" using assms(2) ts(1) by (simp add: marshalPlanDraft_def draft_text_def)
  have "part_fits 1 (TArray ts)" using ts(3) by (auto simp: part_fits_def list_all_iff maxJSONDepth_def numeral_2_eq_2)
  then have part: "part_fits 0 (TObject ?ms)"
    using fits(1) by (intro object_fits) (auto simp: maxJSONDepth_def maxObjectFields_def quoted_fits utf8_valid_ascii)
  then have parse: "parse_json canonical = Some (TObject ?ms)" unfolding canonical by (intro parse_render) (simp only: part_fits_def)
  then obtain rest where run: "json_value (Suc (length canonical)) canonical = Some (TObject ?ms, rest)" "skip rest = []"
    by (auto simp: parse_json_def simp del: json_value.simps split: option.splits if_splits)
  then have "scanValue (Suc (length canonical)) canonical root_path 0 = Inr rest"
    unfolding scan_iff using part by (auto simp: part_fits_def simp del: json_value.simps)
  moreover have "skip canonical \<noteq> []" "hd (skip canonical) = CHR 0x7B" unfolding canonical by (simp_all add: skip_def json_space_def)
  ultimately have scan: "scanPlanJSON canonical = Inr ()" using run(2) by (simp add: scanPlanJSON_def)
  have "distinct (map (\<lambda>m. unquote (fst m)) ?ms)" by simp
  then obtain members where members: "object_fields (TObject ?ms) = Some members"
      "map_of members = map_of (map (\<lambda>(k, t). (unquote k, t)) ?ms)" "fst ` set members \<subseteq> (\<lambda>m. unquote (fst m)) ` set ?ms"
    using object_fields_distinct [of ?ms] by blast
  have known: "list_all (\<lambda>m. fst m \<in> set [''goal'', ''steps'']) members" using members(3) by (auto simp: list_all_iff)
  have "parse_goal members = Inr (Draft_Goal draft)" "parse_plan_steps members = Inr (Draft_Steps draft)"
    using fits ts members(2)
    by (auto simp: parse_goal_def parse_plan_steps_def requiredField_def decodeString_def unquote_quote)
  moreover have "utf8_valid canonical" unfolding canonical using part by (intro render_utf8) (simp_all add: part_fits_def)
  moreover have "canonical \<noteq> []" "int (length canonical) \<le> maxModelResponseBytes"
    using fits(6) canonical by (auto simp: maxPlanDraftBytes_def maxModelResponseBytes_def)
  moreover have "check_draft_size \<lparr>Draft_Goal = Draft_Goal draft, Draft_Steps = Draft_Steps draft\<rparr> = Inr draft"
  proof -
    have "\<lparr>Draft_Goal = Draft_Goal draft, Draft_Steps = Draft_Steps draft\<rparr> = draft" by simp
    then have "check_draft_size \<lparr>Draft_Goal = Draft_Goal draft, Draft_Steps = Draft_Steps draft\<rparr> = check_draft_size draft"
      by (rule arg_cong)
    then show ?thesis using assms(2) fits(6) by (simp add: check_draft_size_def)
  qed
  ultimately show ?thesis
    using scan parse members(1) known
    by (simp add: ParseV1_def rejectUnknownFields_def rejectUnknownAs_def del: object_fields.simps)
qed

subsection \<open>A small plan\<close>

definition sample_plan :: PlanDraft where
  "sample_plan =
    \<lparr>Draft_Goal = ''check'', Draft_Steps =
      [\<lparr>Draft_Sequence = 1, Draft_Type = StepTypeVerification, Draft_Name = ''look'',
        Draft_Input = render (TObject [(''criteria'', TString ''ok''), (''evidence'', TObject [])]),
        Draft_OutputSchema = [(''ok'', JSONSchemaTypeBoolean)], Draft_ToolName = None\<rparr>]\<rparr>"

definition sample_answer :: string where
  "sample_answer = the (marshalPlanDraft sample_plan)"

lemma sample_parses: "ParseV1 sample_answer = Inr sample_plan"
  by code_simp

subsection \<open>Properties of the parser\<close>

text \<open>
  C35: A parsed plan survives the wire. Whatever the strict parser reads has a canonical text, and the parser
  reads that text as the same draft: no field, escape, number or nested input is lost or changed.
\<close>

theorem plan_round_trip:
  assumes "ParseV1 encoded = Inr draft"
  shows "\<exists>canonical. marshalPlanDraft draft = Some canonical \<and> ParseV1 canonical = Inr draft"
proof -
  have "draft_fits draft" by (rule ParseV1_fits [OF assms])
  then show ?thesis using ParseV1_canonical by (auto simp: draft_fits_def)
qed

theorem plan_round_trip_witness:
  "\<exists>canonical. marshalPlanDraft sample_plan = Some canonical \<and> ParseV1 canonical = Inr sample_plan"
  by (rule plan_round_trip [OF sample_parses])

text \<open>How deep the objects and arrays of a text are nested, and how many members its largest object has.\<close>

fun nesting :: "jtext \<Rightarrow> nat" where
  "nesting (TObject ms) = Suc (foldr max (map (\<lambda>m. nesting (snd m)) ms) 0)"
| "nesting (TArray ts) = Suc (foldr max (map nesting ts) 0)"
| "nesting _ = 0"

fun widest :: "jtext \<Rightarrow> nat" where
  "widest (TObject ms) = max (length ms) (foldr max (map (\<lambda>m. widest (snd m)) ms) 0)"
| "widest (TArray ts) = foldr max (map widest ts) 0"
| "widest _ = 0"

lemma foldr_max_le: "foldr max ns (0 :: nat) \<le> b \<longleftrightarrow> (\<forall>n\<in>set ns. n \<le> b)"
  by (induction ns) auto

lemma in_limits_nesting: "in_limits depth t \<Longrightarrow> depth \<le> maxJSONDepth \<Longrightarrow> nesting t \<le> maxJSONDepth - depth"
proof (induction depth t rule: in_limits.induct)
  case (1 depth ms)
  then have "\<forall>m\<in>set ms. nesting (snd m) \<le> maxJSONDepth - Suc depth" by auto
  then have "foldr max (map (\<lambda>m. nesting (snd m)) ms) 0 \<le> maxJSONDepth - Suc depth" by (simp add: foldr_max_le)
  moreover have "Suc depth \<le> maxJSONDepth" using 1(2) by simp
  ultimately show ?case unfolding nesting.simps by arith
next
  case (2 depth ts)
  then have "\<forall>t\<in>set ts. nesting t \<le> maxJSONDepth - Suc depth" by auto
  then have "foldr max (map nesting ts) 0 \<le> maxJSONDepth - Suc depth" by (simp add: foldr_max_le)
  moreover have "Suc depth \<le> maxJSONDepth" using 2(2) by simp
  ultimately show ?case unfolding nesting.simps by arith
qed simp_all

lemma in_limits_widest: "in_limits depth t \<Longrightarrow> widest t \<le> maxObjectFields"
  by (induction depth t rule: in_limits.induct) (auto simp: foldr_max_le)

lemma ParseV1_text:
  assumes "ParseV1 encoded = Inr draft"
  shows "\<exists>t. parse_json encoded = Some t \<and> nesting t \<le> maxJSONDepth \<and> widest t \<le> maxObjectFields"
proof -
  obtain u t where "scanPlanJSON encoded = Inr u" "parse_json encoded = Some t"
    using assms by (auto simp: ParseV1_def attempt_eq_Inr bind_eq_Some_conv split: option.splits if_splits)
  then show ?thesis using scan_limits in_limits_nesting [of 0 t] in_limits_widest by fastforce
qed

lemma step_fits_bounds:
  assumes "step_fits step"
  shows "1 \<le> Draft_Sequence step \<and> StepType_Valid (Draft_Type step) \<and>
    \<not> blank (Draft_Name step) \<and> length (Draft_Name step) \<le> 128 \<and> length (Draft_Input step) \<le> 32768 \<and>
    Draft_OutputSchema step \<noteq> [] \<and> length (Draft_OutputSchema step) \<le> 32 \<and>
    (\<forall>(name, kind)\<in>set (Draft_OutputSchema step). length name \<le> 64 \<and> JSONSchemaType_Valid kind) \<and>
    (Draft_ToolName step \<noteq> None \<longleftrightarrow> Draft_Type step = StepTypeToolCall)"
proof -
  have "length input \<le> 32768" if "input_fits stepType input" for stepType input
    using that by (auto simp: input_fits_def parseStepInput_def attempt_eq_Inr maxStepInputBytes_def split: if_splits option.splits)
  moreover have "1 \<le> w" if "w \<noteq> 0" for w :: "32 word" using that by (simp add: word_le_nat_alt Suc_le_eq unat_gt_0)
  moreover have "tool \<noteq> None \<longleftrightarrow> stepType = StepTypeToolCall" if "tool_fits stepType tool" for stepType tool
    using that by (auto simp: tool_fits_def split: if_splits)
  ultimately show ?thesis
    using assms unfolding step_fits_def schema_fits_def maxStepNameBytes_def maxOutputFields_def maxOutputFieldNameBytes_def
    by (intro conjI) (blast | force | simp)+
qed

text \<open>
  C36: The bounds of a parsed plan. An accepted answer has at most a MiB, is nested at most 16 deep and has no object
  with more than 64 members, and between one and 20 steps; goal, names
  and inputs keep their byte limits, every step has a number from 1 on, a known type, between one and 32 output fields of
  a known type with a name of at most 64 bytes,
  and a tool exactly when it is a tool call, and the canonical text has at most 256 KiB.
\<close>

theorem parsed_plan_is_bounded:
  assumes "ParseV1 encoded = Inr draft"
  shows "length encoded \<le> 1048576 \<and>
    (\<exists>t. parse_json encoded = Some t \<and> nesting t \<le> 16 \<and> widest t \<le> 64) \<and>
    Draft_Steps draft \<noteq> [] \<and> length (Draft_Steps draft) \<le> 20 \<and>
    \<not> blank (Draft_Goal draft) \<and> length (Draft_Goal draft) \<le> 2048 \<and>
    (\<forall>step\<in>set (Draft_Steps draft). 1 \<le> Draft_Sequence step \<and> StepType_Valid (Draft_Type step) \<and>
       \<not> blank (Draft_Name step) \<and> length (Draft_Name step) \<le> 128 \<and> length (Draft_Input step) \<le> 32768 \<and>
       Draft_OutputSchema step \<noteq> [] \<and> length (Draft_OutputSchema step) \<le> 32 \<and>
       (\<forall>(name, kind)\<in>set (Draft_OutputSchema step). length name \<le> 64 \<and> JSONSchemaType_Valid kind) \<and>
       (Draft_ToolName step \<noteq> None \<longleftrightarrow> Draft_Type step = StepTypeToolCall)) \<and>
    (\<exists>canonical. marshalPlanDraft draft = Some canonical \<and> length canonical \<le> 262144)"
proof -
  have fits: "draft_fits draft" by (rule ParseV1_fits [OF assms])
  have "length encoded \<le> 1048576"
    using assms by (auto simp: ParseV1_def maxModelResponseBytes_def split: if_splits)
  moreover have "\<exists>t. parse_json encoded = Some t \<and> nesting t \<le> 16 \<and> widest t \<le> 64"
    using ParseV1_text [OF assms] by (simp add: maxJSONDepth_def maxObjectFields_def)
  ultimately show ?thesis
    using fits step_fits_bounds
    by (simp add: draft_fits_def maxGoalBytes_def maxPlanSteps_def maxPlanDraftBytes_def) blast
qed

theorem parsed_plan_is_bounded_witness:
  "length (Draft_Steps sample_plan) \<le> 20 \<and> length (Draft_Goal sample_plan) \<le> 2048"
  using parsed_plan_is_bounded [OF sample_parses] by blast

end
