(* ===== verification/ToolCatalog.thy ===== *)
theory ToolCatalog
  imports PlanDrafts
begin

section \<open>The planning tool catalogue\<close>

text \<open>
  \<open>catalog.go\<close> and \<open>catalog_snapshot.go\<close> of \<open>internal/contracts\<close>, with the consumer in
  \<open>internal/planner/catalog.go\<close>: the tools a plan may use, the check that they are the ones the execution
  configuration froze, and the canonical JSON text (RFC 8785) their hash is computed from. SHA-256 in
  hexadecimal is the argument \<open>digest\<close>. Where the code ranges over a Go map its error does not depend on
  the order.
\<close>

subsection \<open>Messages\<close>

record PlanningToolCapability =
  Cap_Kind :: ToolCapabilityKind
  Cap_RiskLevel :: RiskLevel
  Cap_ReadOnly :: bool

record PlanningToolSpec =
  Spec_ToolName :: string
  Spec_Description :: string
  Spec_InputSchema :: CanonicalJSONSchema
  Spec_Capability :: PlanningToolCapability
  Spec_Enabled :: bool

record PlanningToolSnapshot =
  Snap_SchemaVersion :: "32 word"
  Snap_RegistryVersion :: string
  Snap_SnapshotHash :: string
  Snap_Tools :: "PlanningToolSpec list option"

datatype PlanningToolCatalogErrorKind =
    PlanningToolCatalogErrorToolNotFound
  | PlanningToolCatalogErrorToolDisabled
  | PlanningToolCatalogErrorDuplicateTool
  | PlanningToolCatalogErrorToolConfigInvalid
  | PlanningToolCatalogErrorConfigVersionMismatch
  | PlanningToolCatalogErrorRuntimeFatal
  | PlanningToolCatalogErrorKindOther string

fun PlanningToolCatalogErrorKind_Valid :: "PlanningToolCatalogErrorKind \<Rightarrow> bool" where
  "PlanningToolCatalogErrorKind_Valid (PlanningToolCatalogErrorKindOther _) = False"
| "PlanningToolCatalogErrorKind_Valid _ = True"

record PlanningToolCatalogError =
  PTCE_Kind :: PlanningToolCatalogErrorKind
  PTCE_ToolName :: "string option"
  PTCE_CauseCode :: CauseCode

definition NewPlanningToolCatalogError ::
    "PlanningToolCatalogErrorKind \<Rightarrow> string option \<Rightarrow> CauseCode \<Rightarrow> PlanningToolCatalogError" where
  "NewPlanningToolCatalogError kind toolName causeCode =
    \<lparr>PTCE_Kind = kind, PTCE_ToolName = toolName, PTCE_CauseCode = causeCode\<rparr>"

definition catalogSnapshotError :: "PlanningToolCatalogErrorKind \<Rightarrow> PlanningToolCatalogError" where
  "catalogSnapshotError kind = NewPlanningToolCatalogError kind None ErrorCodeRuntimeStaticToolSnapshotInconsistent"

definition PlanningToolSnapshotSchemaVersionV1 :: "32 word" where "PlanningToolSnapshotSchemaVersionV1 = 1"
definition maxPlanningToolCount :: nat where "maxPlanningToolCount = 32"
definition maxPlanningToolDescription :: int where "maxPlanningToolDescription = 4 * 1024"
definition maxPlanningToolSchemaBytes :: int where "maxPlanningToolSchemaBytes = 64 * 1024"
definition maxPlanningToolSchemaDepth :: nat where "maxPlanningToolSchemaDepth = 16"
definition maxPlanningSchemaFields :: nat where "maxPlanningSchemaFields = 64"

subsection \<open>The selector\<close>

definition validCatalogString :: "string \<Rightarrow> bool" where
  "validCatalogString s \<longleftrightarrow> utf8_valid s \<and> \<not> blank s"

fun check_allowed :: "string list \<Rightarrow> string list \<Rightarrow> PlanningToolCatalogError + unit" where
  "check_allowed [] seen = Inr ()"
| "check_allowed (name # names) seen =
    attempt (require (validCatalogString name) (catalogSnapshotError PlanningToolCatalogErrorToolConfigInvalid)) (\<lambda>_.
    attempt (require (name \<notin> set seen) (NewPlanningToolCatalogError PlanningToolCatalogErrorDuplicateTool (Some name)
      ErrorCodeRuntimeStaticToolSnapshotInconsistent)) (\<lambda>_.
    check_allowed names (name # seen)))"

definition ValidatePlanningToolCatalogSelector :: "PlanningToolCatalogSelector \<Rightarrow> PlanningToolCatalogError + unit" where
  "ValidatePlanningToolCatalogSelector selector =
    (case Selector_AllowedTools selector of
       None \<Rightarrow> Inl (catalogSnapshotError PlanningToolCatalogErrorToolConfigInvalid)
     | Some names \<Rightarrow>
         if \<not> validCatalogString (Selector_CatalogID selector) \<or> \<not> validCatalogString (Selector_ExpectedRegistryVersion selector)
            \<or> \<not> validSHA256 (Selector_ExpectedSnapshotHash selector) \<or> maxPlanningToolCount < length names
         then Inl (catalogSnapshotError PlanningToolCatalogErrorToolConfigInvalid)
         else check_allowed names [])"

subsection \<open>Canonical JSON\<close>

text \<open>The values that \<open>writeJCSValue\<close> gets; a map is the list of its entries, each key once.\<close>

datatype jcs =
    JcsString string
  | JcsBool bool
  | JcsNumber "32 word"
  | JcsList "jcs list"
  | JcsMap "(string \<times> jcs) list"

text \<open>A character as its code point; the encoder's input is valid UTF-8.\<close>

definition code_point :: "nat list \<Rightarrow> nat" where
  "code_point bs =
    (case bs of
       [a] \<Rightarrow> a
     | [a, b] \<Rightarrow> 64 * (a - 192) + (b - 128)
     | [a, b, c] \<Rightarrow> 4096 * (a - 224) + 64 * (b - 128) + (c - 128)
     | [a, b, c, d] \<Rightarrow> 262144 * (a - 240) + 4096 * (b - 128) + 64 * (c - 128) + (d - 128)
     | _ \<Rightarrow> 65533)"

function code_points :: "string \<Rightarrow> nat list" where
  "code_points [] = []"
| "code_points (c # cs) =
    (let w = rune_width (c # cs) in
     if w = 0 then 65533 # code_points cs
     else code_point (map of_char (take w (c # cs))) # code_points (drop w (c # cs)))"
  by pat_completeness auto
termination by (relation "measure length") (auto simp: Let_def)

definition utf16_units :: "nat \<Rightarrow> nat list" where
  "utf16_units r = (if r < 65536 then [r] else [55296 + (r - 65536) div 1024, 56320 + (r - 65536) mod 1024])"

fun compare_units :: "nat list \<Rightarrow> nat list \<Rightarrow> int" where
  "compare_units (l # ls) (r # rs) = (if l < r then -1 else if r < l then 1 else compare_units ls rs)"
| "compare_units ls rs = int (length ls) - int (length rs)"

definition compareUTF16 :: "string \<Rightarrow> string \<Rightarrow> int" where
  "compareUTF16 left right =
    compare_units (concat (map utf16_units (code_points left))) (concat (map utf16_units (code_points right)))"

text \<open>The escapes are those of the Go encoder for the bytes below 128; everything else is written as it is.\<close>

definition writeJCSString :: "string \<Rightarrow> string option" where
  "writeJCSString s =
    (if utf8_valid s then Some (quote_char # concat (map (quote_byte False) s) @ [quote_char]) else None)"

fun all_some :: "'a option list \<Rightarrow> 'a list option" where
  "all_some [] = Some []"
| "all_some (x # xs) = (case (x, all_some xs) of (Some y, Some ys) \<Rightarrow> Some (y # ys) | _ \<Rightarrow> None)"

definition write_member :: "string \<times> string option \<Rightarrow> string option" where
  "write_member m =
    (case (writeJCSString (fst m), snd m) of (Some k, Some v) \<Rightarrow> Some (k @ CHR 0x3A # v) | _ \<Rightarrow> None)"

fun writeJCSValue :: "jcs \<Rightarrow> string option" where
  "writeJCSValue (JcsString s) = writeJCSString s"
| "writeJCSValue (JcsBool b) = Some (if b then ''true'' else ''false'')"
| "writeJCSValue (JcsNumber n) = Some (decimal (uint n))"
| "writeJCSValue (JcsList vs) =
    map_option (\<lambda>ts. CHR 0x5B # commas ts @ [CHR 0x5D]) (all_some (map writeJCSValue vs))"
| "writeJCSValue (JcsMap ms) =
    (if \<not> list_all (\<lambda>m. utf8_valid (fst m)) ms then None
     else
       map_option (\<lambda>ts. CHR 0x7B # commas ts @ [CHR 0x7D])
         (all_some (map write_member
           (sort_by (\<lambda>l r. compareUTF16 (fst l) (fst r) < 0) (map (\<lambda>(k, v). (k, writeJCSValue v)) ms)))))"

subsection \<open>Tool schemas\<close>

definition schema_head :: "CanonicalJSONSchema \<Rightarrow> (string \<times> jcs) list" where
  "schema_head schema =
    [(''type'', JcsString (OutputValueType_text (Schema_Type schema)))] @
    (if Schema_Description schema \<noteq> '''' then [(''description'', JcsString (Schema_Description schema))] else []) @
    (if Schema_Nullable schema then [(''nullable'', JcsBool True)] else [])"

definition required_ok :: "string list \<Rightarrow> (string \<times> 'a) list \<Rightarrow> bool" where
  "required_ok names properties \<longleftrightarrow>
     sorted names \<and> list_all (\<lambda>name. validCatalogString name \<and> map_of properties name \<noteq> None) names \<and> distinct names"

fun planningToolSchemaValue :: "nat \<Rightarrow> CanonicalJSONSchema \<Rightarrow> jcs option"
  and property_values :: "nat \<Rightarrow> (string \<times> CanonicalJSONSchema) list \<Rightarrow> (string \<times> jcs) list option" where
  "planningToolSchemaValue depth (CanonicalJSONSchema additional description items may_be_null properties names kind) =
    (let schema = CanonicalJSONSchema additional description items may_be_null properties names kind in
     if maxPlanningToolSchemaDepth < depth \<or> \<not> JSONSchemaType_Valid kind \<or> description \<noteq> '''' \<and> \<not> utf8_valid description
     then None
     else if kind = JSONSchemaTypeObject then
       (case (items, properties, names, additional) of
          (None, Some ps, Some rs, Some False) \<Rightarrow>
            if maxPlanningSchemaFields < length ps then None
            else
              (case property_values (Suc depth) ps of
                 None \<Rightarrow> None
               | Some values \<Rightarrow>
                   if required_ok rs ps
                   then Some (JcsMap (schema_head schema @
                     [(''additionalProperties'', JcsBool False), (''properties'', JcsMap values),
                      (''required'', JcsList (map JcsString rs))]))
                   else None)
        | _ \<Rightarrow> None)
     else if kind = JSONSchemaTypeArray then
       (case (items, properties, names, additional) of
          (Some item, None, None, None) \<Rightarrow>
            map_option (\<lambda>v. JcsMap (schema_head schema @ [(''items'', v)])) (planningToolSchemaValue (Suc depth) item)
        | _ \<Rightarrow> None)
     else
       (case (items, properties, names, additional) of
          (None, None, None, None) \<Rightarrow> Some (JcsMap (schema_head schema))
        | _ \<Rightarrow> None))"
| "property_values depth [] = Some []"
| "property_values depth ((name, child) # ps) =
    (if \<not> validCatalogString name then None
     else
       (case (planningToolSchemaValue depth child, property_values depth ps) of
          (Some v, Some vs) \<Rightarrow> Some ((name, v) # vs)
        | _ \<Rightarrow> None))"

subsection \<open>The hash\<close>

fun ToolCapabilityKind_text :: "ToolCapabilityKind \<Rightarrow> string" where
  "ToolCapabilityKind_text ToolCapabilityK8sGetDeployment = ''K8S_GET_DEPLOYMENT''"
| "ToolCapabilityKind_text ToolCapabilityK8sGetPod = ''K8S_GET_POD''"
| "ToolCapabilityKind_text ToolCapabilityK8sGetEvent = ''K8S_GET_EVENT''"
| "ToolCapabilityKind_text ToolCapabilityK8sGetContainerLog = ''K8S_GET_CONTAINER_LOG''"
| "ToolCapabilityKind_text ToolCapabilityK8sPatchDeployment = ''K8S_PATCH_DEPLOYMENT''"
| "ToolCapabilityKind_text (ToolCapabilityKindOther s) = s"

fun RiskLevel_text :: "RiskLevel \<Rightarrow> string" where
  "RiskLevel_text RiskLevelLow = ''Low''"
| "RiskLevel_text RiskLevelHigh = ''High''"
| "RiskLevel_text (RiskLevelOther s) = s"

definition tool_value :: "PlanningToolSpec \<Rightarrow> jcs option" where
  "tool_value tool =
    map_option (\<lambda>schema. JcsMap
      [(''capability'', JcsMap
         [(''kind'', JcsString (ToolCapabilityKind_text (Cap_Kind (Spec_Capability tool)))),
          (''read_only'', JcsBool (Cap_ReadOnly (Spec_Capability tool))),
          (''risk_level'', JcsString (RiskLevel_text (Cap_RiskLevel (Spec_Capability tool))))]),
       (''description'', JcsString (Spec_Description tool)),
       (''enabled'', JcsBool (Spec_Enabled tool)),
       (''input_schema'', schema),
       (''tool_name'', JcsString (Spec_ToolName tool))])
      (planningToolSchemaValue 1 (Spec_InputSchema tool))"

definition snapshot_tools :: "PlanningToolSnapshot \<Rightarrow> PlanningToolSpec list" where
  "snapshot_tools snapshot = (case Snap_Tools snapshot of None \<Rightarrow> [] | Some tools \<Rightarrow> tools)"

definition CanonicalPlanningToolSnapshotPayload :: "string \<Rightarrow> PlanningToolSnapshot \<Rightarrow> string option" where
  "CanonicalPlanningToolSnapshotPayload catalogID snapshot =
    (if \<not> validCatalogString catalogID then None
     else
       (case all_some (map tool_value (sort_by (\<lambda>l r. Spec_ToolName l < Spec_ToolName r) (snapshot_tools snapshot))) of
          None \<Rightarrow> None
        | Some tools \<Rightarrow>
            writeJCSValue (JcsMap
              [(''catalog_id'', JcsString catalogID), (''registry_version'', JcsString (Snap_RegistryVersion snapshot)),
               (''schema_version'', JcsNumber (Snap_SchemaVersion snapshot)), (''tools'', JcsList tools)])))"

definition ComputePlanningToolSnapshotHash ::
    "(string \<Rightarrow> string) \<Rightarrow> string \<Rightarrow> PlanningToolSnapshot \<Rightarrow> (string \<times> string) option" where
  "ComputePlanningToolSnapshotHash digest catalogID snapshot =
    map_option (\<lambda>payload. (digest payload, payload)) (CanonicalPlanningToolSnapshotPayload catalogID snapshot)"

subsection \<open>The snapshot\<close>

definition validPlanningToolCapability :: "PlanningToolCapability \<Rightarrow> bool" where
  "validPlanningToolCapability capability \<longleftrightarrow>
     ToolCapabilityKind_Valid (Cap_Kind capability) \<and> RiskLevel_Valid (Cap_RiskLevel capability) \<and>
     (if Cap_Kind capability = ToolCapabilityK8sPatchDeployment
      then Cap_RiskLevel capability = RiskLevelHigh \<and> \<not> Cap_ReadOnly capability
      else Cap_RiskLevel capability = RiskLevelLow \<and> Cap_ReadOnly capability)"

definition tool_schema_ok :: "CanonicalJSONSchema \<Rightarrow> bool" where
  "tool_schema_ok schema \<longleftrightarrow>
     Schema_Type schema = JSONSchemaTypeObject \<and> \<not> Schema_Nullable schema \<and>
     (case Option.bind (planningToolSchemaValue 1 schema) writeJCSValue of
        None \<Rightarrow> False
      | Some encoded \<Rightarrow> int (length encoded) \<le> maxPlanningToolSchemaBytes)"

text \<open>The loop over the tools; it returns the allowed names that no tool used up.\<close>

fun check_tools ::
    "PlanningToolSpec list \<Rightarrow> string option \<Rightarrow> string set \<Rightarrow> ToolCapabilityKind list \<Rightarrow> PlanningToolCatalogError + string set" where
  "check_tools [] previous names kinds = Inr names"
| "check_tools (tool # tools) previous names kinds =
    attempt (require
      (validCatalogString (Spec_ToolName tool) \<and> validCatalogString (Spec_Description tool) \<and>
       int (length (Spec_Description tool)) \<le> maxPlanningToolDescription \<and> Spec_Enabled tool \<and>
       validPlanningToolCapability (Spec_Capability tool) \<and>
       (case previous of None \<Rightarrow> True | Some p \<Rightarrow> p < Spec_ToolName tool) \<and>
       Spec_ToolName tool \<in> names \<and> Cap_Kind (Spec_Capability tool) \<notin> set kinds \<and> tool_schema_ok (Spec_InputSchema tool))
      (catalogSnapshotError PlanningToolCatalogErrorRuntimeFatal)) (\<lambda>_.
    check_tools tools (Some (Spec_ToolName tool)) (names - {Spec_ToolName tool}) (Cap_Kind (Spec_Capability tool) # kinds))"

definition ValidatePlanningToolSnapshot ::
    "(string \<Rightarrow> string) \<Rightarrow> PlanningToolCatalogSelector \<Rightarrow> PlanningToolSnapshot \<Rightarrow> PlanningToolCatalogError + unit" where
  "ValidatePlanningToolSnapshot digest selector snapshot =
    attempt (ValidatePlanningToolCatalogSelector selector) (\<lambda>_.
    let allowed_names = (case Selector_AllowedTools selector of None \<Rightarrow> [] | Some names \<Rightarrow> names);
        fatal = catalogSnapshotError PlanningToolCatalogErrorRuntimeFatal in
    attempt (require
      (Snap_SchemaVersion snapshot = PlanningToolSnapshotSchemaVersionV1 \<and> validCatalogString (Snap_RegistryVersion snapshot) \<and>
       validSHA256 (Snap_SnapshotHash snapshot) \<and> Snap_Tools snapshot \<noteq> None \<and>
       length (snapshot_tools snapshot) \<le> maxPlanningToolCount \<and> length (snapshot_tools snapshot) = length allowed_names) fatal) (\<lambda>_.
    attempt (check_tools (snapshot_tools snapshot) None (set allowed_names) []) (\<lambda>left_over.
    attempt (require (left_over = {}) fatal) (\<lambda>_.
    case ComputePlanningToolSnapshotHash digest (Selector_CatalogID selector) snapshot of
      None \<Rightarrow> Inl fatal
    | Some (computed, _) \<Rightarrow>
        attempt (require (computed = Snap_SnapshotHash snapshot) fatal) (\<lambda>_.
        require (Snap_RegistryVersion snapshot = Selector_ExpectedRegistryVersion selector \<and>
            Snap_SnapshotHash snapshot = Selector_ExpectedSnapshotHash selector)
          (catalogSnapshotError PlanningToolCatalogErrorConfigVersionMismatch))))))"

subsection \<open>The consumer\<close>

text \<open>
  An error of the port is its context error or a typed one; any other is \<open>CatalogOther\<close>. The two context
  arguments are \<open>ctx.Err()\<close> before and after the call, the answer is what the port returns beside its error.
\<close>

datatype CatalogError =
    CatalogContext
  | CatalogTyped PlanningToolCatalogError
  | CatalogOther

definition empty_snapshot :: PlanningToolSnapshot where
  "empty_snapshot = \<lparr>Snap_SchemaVersion = 0, Snap_RegistryVersion = '''', Snap_SnapshotHash = '''', Snap_Tools = None\<rparr>"

definition planningToolSnapshotIsZero :: "PlanningToolSnapshot \<Rightarrow> bool" where
  "planningToolSnapshotIsZero snapshot \<longleftrightarrow>
     Snap_SchemaVersion snapshot = 0 \<and> Snap_RegistryVersion snapshot = '''' \<and> Snap_SnapshotHash snapshot = '''' \<and>
     Snap_Tools snapshot = None"

definition newCatalogRuntimeFatal :: CatalogError where
  "newCatalogRuntimeFatal = CatalogTyped (catalogSnapshotError PlanningToolCatalogErrorRuntimeFatal)"

definition CatalogConsumer_Load ::
    "(string \<Rightarrow> string) \<Rightarrow> bool \<Rightarrow> (PlanningToolSnapshot \<times> CatalogError option) \<Rightarrow> bool \<Rightarrow> PlanningToolCatalogSelector \<Rightarrow>
     CatalogError + PlanningToolSnapshot" where
  "CatalogConsumer_Load digest stopped answer stopped_after selector =
    attempt (require (\<not> stopped) CatalogContext) (\<lambda>_.
    case ValidatePlanningToolCatalogSelector selector of
      Inl err \<Rightarrow> Inl (CatalogTyped err)
    | Inr _ \<Rightarrow>
        if stopped_after then Inl CatalogContext
        else
          (case answer of
             (snapshot, Some err) \<Rightarrow>
               if \<not> planningToolSnapshotIsZero snapshot then Inl newCatalogRuntimeFatal
               else
                 (case err of
                    CatalogContext \<Rightarrow> Inl CatalogContext
                  | CatalogTyped typed \<Rightarrow>
                      if PlanningToolCatalogErrorKind_Valid (PTCE_Kind typed) \<and> ErrorCode_Valid (PTCE_CauseCode typed)
                      then Inl (CatalogTyped typed) else Inl newCatalogRuntimeFatal
                  | CatalogOther \<Rightarrow> Inl newCatalogRuntimeFatal)
           | (snapshot, None) \<Rightarrow>
               (case ValidatePlanningToolSnapshot digest selector snapshot of
                  Inl err \<Rightarrow> Inl (CatalogTyped err)
                | Inr _ \<Rightarrow> Inr snapshot)))"

end
