(* ===== verification/StepContracts.thy ===== *)
theory StepContracts
  imports Dispatch References
begin

section \<open>Step Executor contracts\<close>

text \<open>
  \<open>internal/stepexecutor/contract.go\<close>, \<open>errors.go\<close> and \<open>entity.go\<close>: the request and the closed
  outcomes of a step, the error classification, and the stored step. Its request differs from the one
  \<open>internal/taskruntime\<close> declares for its own port, so it is \<open>StepExecutorRequest\<close> here, and
  \<open>StepOutcome\<close> is \<open>StepExecutorOutcome\<close>. A \<open>json.RawMessage\<close> is its bytes; where the code
  compares it with nil it is an option.
\<close>

subsection \<open>Causes and errors\<close>

datatype StepCauseCode =
    CauseStepExecutorContractBroken
  | CauseRuntimeInvalidModelClientRequest
  | CauseRuntimeStaticToolSnapshotInconsistent
  | CausePersistenceInvariantViolation
  | CauseReferenceCountLimitExceeded
  | CauseInputResolutionFailed
  | CauseTaskTimeout
  | CauseTaskCancelled
  | CauseTaskTimedOut
  | CauseActionTimeout
  | CauseRuntimeShutdown
  | CauseLockLost
  | CauseStaleExecution
  | CauseModelTimeout
  | CauseModelAuthentication
  | CauseModelNetwork
  | CauseModelRateLimited
  | CauseModelProviderError
  | CauseModelResponseTooLarge
  | CauseModelOutputInvalid
  | CauseModelInputTooLarge
  | CauseResultSanitizationFailed
  | CauseStepOutputInvalid
  | CauseStepOutputTooLarge
  | CauseToolNotFound
  | CauseToolDisabled
  | CauseToolNotAuthorized
  | CauseToolInputInvalid
  | CauseToolAccessDenied
  | CauseToolTimeout
  | CauseToolConnectionLost
  | CauseToolCallFailed
  | StepCauseCodeOther string

fun StepCauseCode_Valid :: "StepCauseCode \<Rightarrow> bool" where
  "StepCauseCode_Valid (StepCauseCodeOther _) = False"
| "StepCauseCode_Valid _ = True"

definition StepCauseCode_Stale :: "StepCauseCode \<Rightarrow> bool" where
  "StepCauseCode_Stale c \<longleftrightarrow>
     c \<in> {CauseTaskCancelled, CauseTaskTimedOut, CauseRuntimeShutdown, CauseLockLost, CauseStaleExecution}"

definition StepCauseCode_RuntimeFatal :: "StepCauseCode \<Rightarrow> bool" where
  "StepCauseCode_RuntimeFatal c \<longleftrightarrow>
     c \<in> {CauseStepExecutorContractBroken, CauseRuntimeInvalidModelClientRequest,
       CauseRuntimeStaticToolSnapshotInconsistent, CausePersistenceInvariantViolation, CauseReferenceCountLimitExceeded}"

datatype ErrorKind =
    ErrorKindFailed
  | ErrorKindStale
  | ErrorKindRuntimeFatal
  | ErrorKindOther string

definition ErrorKind_Valid :: "ErrorKind \<Rightarrow> bool" where
  "ErrorKind_Valid k \<longleftrightarrow> k = ErrorKindFailed \<or> k = ErrorKindStale \<or> k = ErrorKindRuntimeFatal"

text \<open>The empty error code of a stale result is None.\<close>

record StepError =
  SErr_Kind :: ErrorKind
  SErr_ErrorCode :: "ErrorCode option"
  SErr_CauseCode :: StepCauseCode

definition newStepError :: "ErrorKind \<Rightarrow> ErrorCode option \<Rightarrow> StepCauseCode \<Rightarrow> StepError" where
  "newStepError kind errorCode causeCode =
    \<lparr>SErr_Kind = kind, SErr_ErrorCode = errorCode, SErr_CauseCode = causeCode\<rparr>"

definition validRuntimeFatalPair :: "ErrorCode \<Rightarrow> StepCauseCode \<Rightarrow> bool" where
  "validRuntimeFatalPair errorCode causeCode =
    (case errorCode of
       ErrorCodeStepExecutorContractBroken \<Rightarrow>
         causeCode \<in> {CauseStepExecutorContractBroken, CauseRuntimeInvalidModelClientRequest, CauseReferenceCountLimitExceeded}
     | ErrorCodeRuntimeStaticToolSnapshotInconsistent \<Rightarrow> causeCode = CauseRuntimeStaticToolSnapshotInconsistent
     | ErrorCodePersistenceInvariantViolation \<Rightarrow> causeCode = CausePersistenceInvariantViolation
     | _ \<Rightarrow> False)"

definition NewRuntimeFatalError :: "ErrorCode \<Rightarrow> StepCauseCode \<Rightarrow> StepError" where
  "NewRuntimeFatalError errorCode causeCode =
    (if \<not> validRuntimeFatalPair errorCode causeCode
     then newStepError ErrorKindRuntimeFatal (Some ErrorCodeStepExecutorContractBroken) CauseStepExecutorContractBroken
     else newStepError ErrorKindRuntimeFatal (Some errorCode) causeCode)"

definition validFailedPair :: "ErrorCode \<Rightarrow> StepCauseCode \<Rightarrow> bool" where
  "validFailedPair errorCode causeCode =
    (if errorCode = ErrorCodeModelInputTooLarge \<or> causeCode = CauseModelInputTooLarge
     then errorCode = ErrorCodeModelInputTooLarge \<and> causeCode = CauseModelInputTooLarge
     else ErrorCode_Valid errorCode \<and> StepCauseCode_Valid causeCode)"

datatype ModelClientErrorKind =
    ModelClientErrorCanceled
  | ModelClientErrorTimeout
  | ModelClientErrorAuthentication
  | ModelClientErrorNetwork
  | ModelClientErrorRateLimited
  | ModelClientErrorProvider
  | ModelClientErrorResponseTooLarge
  | ModelClientErrorInvalidResponse
  | ModelClientErrorContractViolation
  | ModelClientErrorKindOther string

fun ModelClientErrorKind_Valid :: "ModelClientErrorKind \<Rightarrow> bool" where
  "ModelClientErrorKind_Valid (ModelClientErrorKindOther _) = False"
| "ModelClientErrorKind_Valid _ = True"

text \<open>The error of a model call: None when no typed error is in its chain.\<close>

definition MapModelClientError :: "ModelClientErrorKind option \<Rightarrow> StepError" where
  "MapModelClientError err =
    (let broken = NewRuntimeFatalError ErrorCodeStepExecutorContractBroken CauseStepExecutorContractBroken;
         failed = (\<lambda>cause. newStepError ErrorKindFailed (Some ErrorCodeModelCallFailed) cause) in
     case err of
       None \<Rightarrow> broken
     | Some kind \<Rightarrow>
         (case kind of
            ModelClientErrorCanceled \<Rightarrow> newStepError ErrorKindStale None CauseStaleExecution
          | ModelClientErrorTimeout \<Rightarrow> failed CauseModelTimeout
          | ModelClientErrorAuthentication \<Rightarrow> failed CauseModelAuthentication
          | ModelClientErrorNetwork \<Rightarrow> failed CauseModelNetwork
          | ModelClientErrorRateLimited \<Rightarrow> failed CauseModelRateLimited
          | ModelClientErrorProvider \<Rightarrow> failed CauseModelProviderError
          | ModelClientErrorResponseTooLarge \<Rightarrow> failed CauseModelResponseTooLarge
          | ModelClientErrorInvalidResponse \<Rightarrow>
              newStepError ErrorKindFailed (Some ErrorCodeModelOutputInvalid) CauseModelOutputInvalid
          | ModelClientErrorContractViolation \<Rightarrow>
              NewRuntimeFatalError ErrorCodeStepExecutorContractBroken CauseRuntimeInvalidModelClientRequest
          | ModelClientErrorKindOther _ \<Rightarrow> broken))"

definition mapSharedRuntimeCause :: "CauseCode \<Rightarrow> StepCauseCode" where
  "mapSharedRuntimeCause cause =
    (case cause of
       ErrorCodeStepExecutorContractBroken \<Rightarrow> CauseStepExecutorContractBroken
     | ErrorCodeRuntimeStaticToolSnapshotInconsistent \<Rightarrow> CauseRuntimeStaticToolSnapshotInconsistent
     | ErrorCodePersistenceInvariantViolation \<Rightarrow> CausePersistenceInvariantViolation
     | _ \<Rightarrow> CauseStepExecutorContractBroken)"

text \<open>\<open>MapToolRuntimeFatal\<close> and \<open>MapApprovalRuntimeFatal\<close> read the same two fields.\<close>

definition MapToolRuntimeFatal :: "ErrorCode \<Rightarrow> CauseCode \<Rightarrow> StepError" where
  "MapToolRuntimeFatal errorCode causeCode = NewRuntimeFatalError errorCode (mapSharedRuntimeCause causeCode)"

subsection \<open>Requests\<close>

record StepExecutionProjection =
  SP_StepID :: StepID
  SP_RunID :: RunID
  SP_PlanID :: PlanID
  SP_Sequence :: "32 word"
  SP_Type :: StepType
  SP_Name :: string
  SP_Input :: string
  SP_OutputSchema :: OutputSchema
  SP_ToolName :: ToolName
  SP_Status :: StepStatus

record PreviousStepProjection =
  Prev_StepID :: StepID
  Prev_Sequence :: "32 word"
  Prev_Status :: StepStatus
  Prev_SafeOutput :: string
  Prev_OutputSchema :: OutputSchema

record AgentProjection =
  AP_AgentID :: AgentID
  AP_SystemPrompt :: string
  AP_ModelName :: string
  AP_GenerationParams :: GenerationParams

record AgentAuthorization =
  Auth_AgentID :: AgentID
  Auth_AllowedTools :: "ToolName list"

text \<open>\<open>StaticToolDefinition\<close> has the fields of \<open>ToolDefinitionV1\<close>.\<close>

record StepExecutorRequest =
  SER_Scope :: ExecutionScope
  SER_NextAction :: CheckpointNextAction
  SER_Step :: StepExecutionProjection
  SER_PreviousStep :: "PreviousStepProjection option"
  SER_ResolvedReferences :: "ResolvedReference list option"
  SER_Agent :: "AgentProjection option"
  SER_AgentAuthorization :: "AgentAuthorization option"
  SER_ToolCapability :: "ToolDefinitionV1 option"

subsection \<open>Outcomes\<close>

text \<open>\<open>validJSONObject\<close> of \<open>entity.go\<close> is the same function.\<close>

definition validOutcomeJSONObject :: "string \<Rightarrow> bool" where
  "validOutcomeJSONObject value =
    (case parse_json (trim_space value) of Some (TObject _) \<Rightarrow> True | _ \<Rightarrow> False)"

definition validOptionalOutcomeJSONObject :: "string option \<Rightarrow> bool" where
  "validOptionalOutcomeJSONObject value = (case value of None \<Rightarrow> True | Some v \<Rightarrow> validOutcomeJSONObject v)"

definition validErrorCode :: "ErrorCode option \<Rightarrow> bool" where
  "validErrorCode code = (case code of None \<Rightarrow> False | Some c \<Rightarrow> ErrorCode_Valid c)"

record StepContinuation =
  Cont_Kind :: StepContinuationKind
  Cont_NextStepID :: StepID

definition StepContinuation_Valid :: "StepContinuation \<Rightarrow> bool" where
  "StepContinuation_Valid c =
    (case Cont_Kind c of
       StepContinuationNextStep \<Rightarrow> Cont_NextStepID c \<noteq> ''''
     | StepContinuationFinalizeRun \<Rightarrow> Cont_NextStepID c = ''''
     | StepContinuationKindOther _ \<Rightarrow> False)"

record ToolResultUpdate =
  TRU_ToolExecutionID :: string
  TRU_Status :: ToolExecutionStatus
  TRU_Output :: "string option"
  TRU_ErrorCode :: "ErrorCode option"
  TRU_SideEffectUnknown :: bool

definition ToolResultUpdate_Valid :: "ToolResultUpdate \<Rightarrow> bool" where
  "ToolResultUpdate_Valid u =
    (if TRU_ToolExecutionID u = '''' \<or> \<not> ToolExecutionStatus_Terminal (TRU_Status u) then False
     else
       (case TRU_Status u of
          ToolExecutionStatusCompleted \<Rightarrow>
            validOptionalOutcomeJSONObject (TRU_Output u) \<and> TRU_ErrorCode u = None \<and> \<not> TRU_SideEffectUnknown u
        | ToolExecutionStatusFailed \<Rightarrow>
            TRU_Output u = None \<and> validErrorCode (TRU_ErrorCode u) \<and> \<not> TRU_SideEffectUnknown u
        | ToolExecutionStatusUnknown \<Rightarrow>
            TRU_Output u = None \<and> validErrorCode (TRU_ErrorCode u) \<and> TRU_SideEffectUnknown u
        | _ \<Rightarrow> False))"

datatype StepExecutorOutcome =
    OutcomeCompleted (Out_SafeOutput: string) (Out_ToolExecutionID: "string option")
      (Out_ToolResultUpdate: "ToolResultUpdate option") (Out_Continuation: StepContinuation)
  | OutcomeWaitingApproval (Out_ApprovalID: string)
  | OutcomeTerminalized (Out_TaskID: TaskID) (Out_ExecutionVersion: ExecutionVersion) (Out_TermErrorCode: ErrorCode)
      (Out_ReportStatus: ReportStatus)
  | OutcomeFailed (Out_ErrorCode: ErrorCode) (Out_CauseCode: StepCauseCode) (Out_SafeSummary: string)
      (Out_FailedToolExecutionID: "string option") (Out_FailedToolResultUpdate: "ToolResultUpdate option")
      (Out_SideEffectUnknown: bool)
  | OutcomeStale (Out_StaleCause: StepCauseCode)
  | OutcomeUnknown

definition validToolOutcome :: "string option \<Rightarrow> ToolResultUpdate option \<Rightarrow> bool \<Rightarrow> bool" where
  "validToolOutcome toolExecutionID update sideEffectUnknown =
    (case toolExecutionID of
       None \<Rightarrow> update = None \<and> \<not> sideEffectUnknown
     | Some k \<Rightarrow>
         k \<noteq> '''' \<and>
         (case update of
            None \<Rightarrow> False
          | Some u \<Rightarrow> ToolResultUpdate_Valid u \<and> TRU_ToolExecutionID u = k \<and> TRU_SideEffectUnknown u = sideEffectUnknown))"

definition validCompletedToolOutcome :: "string option \<Rightarrow> ToolResultUpdate option \<Rightarrow> bool" where
  "validCompletedToolOutcome toolExecutionID update =
    (validToolOutcome toolExecutionID update False \<and>
     (case update of None \<Rightarrow> True | Some u \<Rightarrow> TRU_Status u = ToolExecutionStatusCompleted))"

definition ValidateStepOutcome :: "StepExecutorOutcome \<Rightarrow> bool" where
  "ValidateStepOutcome outcome =
    (case outcome of
       OutcomeCompleted safe tool update continuation \<Rightarrow>
         validOutcomeJSONObject safe \<and> StepContinuation_Valid continuation \<and> validCompletedToolOutcome tool update
     | OutcomeWaitingApproval approval \<Rightarrow> approval \<noteq> ''''
     | OutcomeTerminalized task version code report \<Rightarrow>
         task \<noteq> '''' \<and> ExecutionVersion_Valid version \<and> code = ErrorCodeCheckpointInvalid \<and> report = ReportStatusPending
     | OutcomeFailed code cause summary tool update unknown \<Rightarrow>
         validFailedPair code cause \<and> summary \<noteq> '''' \<and> validToolOutcome tool update unknown
     | OutcomeStale cause \<Rightarrow> StepCauseCode_Stale cause
     | OutcomeUnknown \<Rightarrow> False)"

subsection \<open>The stored step\<close>

record StepEntityParams =
  Step_StepID :: StepID
  Step_RunID :: RunID
  Step_PlanID :: PlanID
  Step_Sequence :: "32 word"
  Step_Type :: StepType
  Step_Name :: string
  Step_Input :: string
  Step_OutputSchema :: OutputSchema
  Step_Output :: "string option"
  Step_Status :: StepStatus
  Step_ToolName :: ToolName
  Step_ErrorCode :: "ErrorCode option"
  Step_StartedAt :: "time option"
  Step_EndedAt :: "time option"

definition validToolName :: "StepType \<Rightarrow> ToolName \<Rightarrow> bool" where
  "validToolName stepType toolName =
    (if stepType = StepTypeToolCall then \<not> blank toolName else toolName = '''')"

definition validStepState :: "StepEntityParams \<Rightarrow> bool" where
  "validStepState p =
    (if (case Step_ErrorCode p of None \<Rightarrow> False | Some c \<Rightarrow> \<not> ErrorCode_Valid c) then False
     else if (case (Step_StartedAt p, Step_EndedAt p) of (Some a, Some b) \<Rightarrow> b < a | _ \<Rightarrow> False) then False
     else
       (case Step_Status p of
          StepStatusPending \<Rightarrow>
            Step_Output p = None \<and> Step_ErrorCode p = None \<and> Step_StartedAt p = None \<and> Step_EndedAt p = None
        | StepStatusRunning \<Rightarrow>
            Step_Output p = None \<and> Step_ErrorCode p = None \<and> Step_StartedAt p \<noteq> None \<and> Step_EndedAt p = None
        | StepStatusWaitingApproval \<Rightarrow>
            Step_Output p = None \<and> Step_ErrorCode p = None \<and> Step_StartedAt p \<noteq> None \<and> Step_EndedAt p = None
        | StepStatusCompleted \<Rightarrow>
            Step_Output p \<noteq> None \<and> Step_ErrorCode p = None \<and> Step_StartedAt p \<noteq> None \<and> Step_EndedAt p \<noteq> None
        | StepStatusFailed \<Rightarrow> Step_Output p = None \<and> Step_ErrorCode p \<noteq> None \<and> Step_EndedAt p \<noteq> None
        | _ \<Rightarrow> False))"

definition validOutputFieldName :: "string \<Rightarrow> bool" where
  "validOutputFieldName name =
    (case name of
       [] \<Rightarrow> False
     | c # cs \<Rightarrow> (letter c \<or> c = CHR ''_'') \<and> list_all (\<lambda>c. letter c \<or> c = CHR ''_'' \<or> char_in 48 57 c) cs)"

definition validOutputSchema :: "OutputSchema \<Rightarrow> bool" where
  "validOutputSchema schema \<longleftrightarrow>
     schema \<noteq> [] \<and> list_all (\<lambda>(name, kind). validOutputFieldName name \<and> JSONSchemaType_Valid kind) schema"

definition NewStepEntity :: "StepEntityParams \<Rightarrow> StepEntityParams option" where
  "NewStepEntity p =
    (if blank (Step_StepID p) \<or> blank (Step_RunID p) \<or> blank (Step_PlanID p) \<or> Step_Sequence p = 0
        \<or> \<not> StepType_Valid (Step_Type p) \<or> Step_Name p = '''' \<or> \<not> utf8_valid (Step_Name p)
        \<or> \<not> StepStatus_Valid (Step_Status p) \<or> \<not> validOutcomeJSONObject (Step_Input p)
        \<or> \<not> validOutputSchema (Step_OutputSchema p)
        \<or> (case Step_Output p of None \<Rightarrow> False | Some v \<Rightarrow> \<not> validOutcomeJSONObject v)
        \<or> \<not> validToolName (Step_Type p) (Step_ToolName p) \<or> \<not> validStepState p
     then None else Some p)"

end
