(* ===== verification/Resolver.thy ===== *)
theory Resolver
  imports StepContracts
begin

section \<open>The input resolver\<close>

text \<open>
  \<open>internal/stepexecutor/resolver.go\<close>: the input a step runs with. The references of the stored input are
  extracted again, compared with the ones the checkpoint froze, replaced by the fields of the preceding
  step's output, and the whole is checked against the structure limits, the schema and the size limit. The code
  replaces inside maps and slices it has just decoded, which nothing else refers to; here every
  replacement returns the new value.
\<close>

definition stepInputContractVersionV1 :: string where "stepInputContractVersionV1 = ''step-input-v1''"
definition maxResolvedStepInputBytes :: int where "maxResolvedStepInputBytes = 1024 * 1024"
definition maxResolvedStepInputDepth :: nat where "maxResolvedStepInputDepth = 16"
definition maxResolvedInputObjectFields :: nat where "maxResolvedInputObjectFields = 64"

datatype ResolveError =
    ErrResolvedReferenceBinding
  | ErrResolvedInputSchema
  | ErrResolvedInputStructure
  | ErrResolvedInputTooLarge
  | ErrResolveSourceStep
  | ErrResolveSourceOutput
  | ErrResolveDecode

record ResolvedStepInput =
  RSI_StepID :: StepID
  RSI_Value :: string
  RSI_ReferencedFields :: "ResolvedReference list option"
  RSI_InputContractVersion :: string

subsection \<open>Errors\<close>

definition referenceLimitError :: StepError where
  "referenceLimitError = NewRuntimeFatalError ErrorCodeStepExecutorContractBroken CauseReferenceCountLimitExceeded"

definition contractResolutionError :: StepError where
  "contractResolutionError = NewRuntimeFatalError ErrorCodeStepExecutorContractBroken CauseStepExecutorContractBroken"

definition inputResolutionError :: StepError where
  "inputResolutionError = newStepError ErrorKindFailed (Some ErrorCodeInputResolutionFailed) CauseInputResolutionFailed"

definition mapExtractError :: "ExtractError \<Rightarrow> StepError" where
  "mapExtractError err =
    (case err of
       IssueCountLimitExceeded \<Rightarrow> referenceLimitError
     | ErrExpressionNotSupported \<Rightarrow> inputResolutionError
     | ErrReferenceSyntax \<Rightarrow> inputResolutionError
     | ErrSourceStep \<Rightarrow> inputResolutionError
     | ErrSourceOutput \<Rightarrow> inputResolutionError
     | _ \<Rightarrow> contractResolutionError)"

subsection \<open>Structure and types\<close>

fun validateResolvedInputStructure :: "jvalue \<Rightarrow> nat \<Rightarrow> bool" where
  "validateResolvedInputStructure (JsonObject ms) depth =
    (depth \<le> maxResolvedStepInputDepth \<and> length ms \<le> maxResolvedInputObjectFields \<and>
     (\<forall>m\<in>set ms. validateResolvedInputStructure (snd m) (Suc depth)))"
| "validateResolvedInputStructure (JsonArray vs) depth =
    (depth \<le> maxResolvedStepInputDepth \<and> (\<forall>v\<in>set vs. validateResolvedInputStructure v (Suc depth)))"
| "validateResolvedInputStructure _ depth = True"

definition integer_text :: "string \<Rightarrow> bool" where
  "integer_text n \<longleftrightarrow> list_all (\<lambda>c. c \<notin> set ''.eE'') n"

definition matchesJSONSchemaType :: "jvalue \<Rightarrow> JSONSchemaType \<Rightarrow> bool" where
  "matchesJSONSchemaType value schemaType =
    (case schemaType of
       JSONSchemaTypeString \<Rightarrow> (case value of JsonString _ \<Rightarrow> True | _ \<Rightarrow> False)
     | JSONSchemaTypeBoolean \<Rightarrow> (case value of JsonBool _ \<Rightarrow> True | _ \<Rightarrow> False)
     | JSONSchemaTypeInteger \<Rightarrow> (case value of JsonNumber n \<Rightarrow> integer_text n | _ \<Rightarrow> False)
     | JSONSchemaTypeNumber \<Rightarrow> (case value of JsonNumber _ \<Rightarrow> True | _ \<Rightarrow> False)
     | JSONSchemaTypeObject \<Rightarrow> (case value of JsonObject _ \<Rightarrow> True | _ \<Rightarrow> False)
     | JSONSchemaTypeArray \<Rightarrow> (case value of JsonArray _ \<Rightarrow> True | _ \<Rightarrow> False)
     | JSONSchemaTypeOther _ \<Rightarrow> False)"

definition matchesOutputType :: "jvalue \<Rightarrow> OutputValueType \<Rightarrow> bool" where
  "matchesOutputType value outputType = matchesJSONSchemaType value outputType"

fun containsResolverNull :: "jvalue \<Rightarrow> bool" where
  "containsResolverNull JsonNull = True"
| "containsResolverNull (JsonObject ms) = (\<exists>m\<in>set ms. containsResolverNull (snd m))"
| "containsResolverNull (JsonArray vs) = (\<exists>v\<in>set vs. containsResolverNull v)"
| "containsResolverNull _ = False"

text \<open>The Go function \<open>validateToolSchemaValue\<close>; the planner has one of the same name over raw JSON.\<close>

fun conformsToToolSchema :: "jvalue \<Rightarrow> CanonicalJSONSchema \<Rightarrow> bool" where
  "conformsToToolSchema JsonNull schema = Schema_Nullable schema"
| "conformsToToolSchema (JsonObject ms) schema =
    (Schema_Type schema = JSONSchemaTypeObject \<and>
     (\<forall>name\<in>set (schema_required schema). map_of ms name \<noteq> None) \<and>
     (\<forall>m\<in>set ms. case map_of (schema_properties schema) (fst m) of
        None \<Rightarrow> False
      | Some child \<Rightarrow> conformsToToolSchema (snd m) child))"
| "conformsToToolSchema (JsonArray vs) schema =
    (Schema_Type schema = JSONSchemaTypeArray \<and>
     (case Schema_Items schema of
        None \<Rightarrow> False
      | Some items \<Rightarrow> (\<forall>v\<in>set vs. conformsToToolSchema v items)))"
| "conformsToToolSchema value schema =
    (Schema_Type schema \<noteq> JSONSchemaTypeObject \<and> Schema_Type schema \<noteq> JSONSchemaTypeArray \<and>
     matchesJSONSchemaType value (Schema_Type schema))"

definition non_tool_field_ok :: "NonToolInputFieldContract list \<Rightarrow> string \<times> jvalue \<Rightarrow> bool" where
  "non_tool_field_ok contract m =
    (case find (\<lambda>f. NTF_Name f = fst m) contract of
       None \<Rightarrow> False
     | Some field \<Rightarrow>
         \<not> containsResolverNull (snd m) \<and>
         (case NTF_Type field of
            JSONSchemaTypeString \<Rightarrow> (case snd m of JsonString value \<Rightarrow> \<not> blank value | _ \<Rightarrow> False)
          | JSONSchemaTypeObject \<Rightarrow> (case snd m of JsonObject _ \<Rightarrow> True | _ \<Rightarrow> False)
          | _ \<Rightarrow> False))"

definition validateNonToolInputValue :: "(string \<times> jvalue) list \<Rightarrow> StepType \<Rightarrow> bool" where
  "validateNonToolInputValue root stepType =
    (case NonToolInputContract stepType of
       None \<Rightarrow> False
     | Some contract \<Rightarrow>
         list_all (\<lambda>field. NTF_Required field \<longrightarrow> map_of root (NTF_Name field) \<noteq> None) contract \<and>
         list_all (non_tool_field_ok contract) root)"

definition validateResolvedInput :: "StepExecutorRequest \<Rightarrow> (string \<times> jvalue) list \<Rightarrow> bool" where
  "validateResolvedInput request root =
    (if SP_Type (SER_Step request) = StepTypeToolCall then
       (case SER_ToolCapability request of
          None \<Rightarrow> False
        | Some tool \<Rightarrow>
            Schema_Type (Tool_InputSchema tool) = JSONSchemaTypeObject \<and> \<not> Schema_Nullable (Tool_InputSchema tool) \<and>
            conformsToToolSchema (JsonObject root) (Tool_InputSchema tool))
     else validateNonToolInputValue root (SP_Type (SER_Step request)))"

definition referenceTypesCompatible :: "OutputValueType \<Rightarrow> JSONSchemaType \<Rightarrow> bool" where
  "referenceTypesCompatible source target \<longleftrightarrow>
     source = target \<or> source = JSONSchemaTypeInteger \<and> target = JSONSchemaTypeNumber"

subsection \<open>Paths\<close>

fun toolSchemaAtPath :: "CanonicalJSONSchema \<Rightarrow> ReferencePathSegment list \<Rightarrow> CanonicalJSONSchema option" where
  "toolSchemaAtPath current [] = Some current"
| "toolSchemaAtPath current (segment # path) =
    (case Seg_Kind segment of
       ReferencePathSegmentKey \<Rightarrow>
         (case (Seg_Key segment, Seg_Index segment) of
            (Some key, None) \<Rightarrow>
              if Schema_Type current \<noteq> JSONSchemaTypeObject then None
              else
                (case map_of (schema_properties current) key of
                   None \<Rightarrow> None
                 | Some child \<Rightarrow> toolSchemaAtPath child path)
          | _ \<Rightarrow> None)
     | ReferencePathSegmentIndex \<Rightarrow>
         (case (Seg_Key segment, Seg_Index segment) of
            (None, Some _) \<Rightarrow>
              if Schema_Type current \<noteq> JSONSchemaTypeArray then None
              else
                (case Schema_Items current of
                   None \<Rightarrow> None
                 | Some child \<Rightarrow> toolSchemaAtPath child path)
          | _ \<Rightarrow> None)
     | ReferencePathSegmentOther _ \<Rightarrow> None)"

text \<open>The type a reference has to have at its target, and whether the contract allows a reference there.\<close>

definition referenceTargetType ::
    "StepExecutorRequest \<Rightarrow> ReferencePathSegment list \<Rightarrow> (JSONSchemaType \<times> bool) option" where
  "referenceTargetType request path =
    (if SP_Type (SER_Step request) = StepTypeToolCall then
       (case SER_ToolCapability request of
          None \<Rightarrow> None
        | Some tool \<Rightarrow>
            if path = [] then None
            else map_option (\<lambda>schema. (Schema_Type schema, True)) (toolSchemaAtPath (Tool_InputSchema tool) path))
     else
       (case (NonToolInputContract (SP_Type (SER_Step request)), path) of
          (Some contract, [segment]) \<Rightarrow>
            (case (Seg_Kind segment, Seg_Key segment) of
               (ReferencePathSegmentKey, Some key) \<Rightarrow>
                 map_option (\<lambda>field. (NTF_Type field, NTF_ReferenceAllowed field))
                   (find (\<lambda>field. NTF_Name field = key) contract)
             | _ \<Rightarrow> None)
        | _ \<Rightarrow> None))"

text \<open>
  Replacing the value at a path. The walk stops before the last segment and stores the value there, so
  an empty path is an error.
\<close>

fun replaceResolverValue :: "jvalue \<Rightarrow> ReferencePathSegment list \<Rightarrow> jvalue \<Rightarrow> jvalue option" where
  "replaceResolverValue current [] value = None"
| "replaceResolverValue current (segment # path) value =
    (case (Seg_Kind segment, Seg_Key segment, Seg_Index segment, current) of
       (ReferencePathSegmentKey, Some key, None, JsonObject ms) \<Rightarrow>
         (case map_of ms key of
            None \<Rightarrow> None
          | Some child \<Rightarrow>
              if path = [] then Some (JsonObject (put key value ms))
              else map_option (\<lambda>child. JsonObject (put key child ms)) (replaceResolverValue child path value))
     | (ReferencePathSegmentIndex, None, Some index, JsonArray vs) \<Rightarrow>
         if length vs \<le> unat index then None
         else if path = [] then Some (JsonArray (vs[unat index := value]))
         else map_option (\<lambda>child. JsonArray (vs[unat index := child])) (replaceResolverValue (vs ! unat index) path value)
     | _ \<Rightarrow> None)"

subsection \<open>Resolving\<close>

definition decodeResolverJSON :: "string \<Rightarrow> jvalue option" where
  "decodeResolverJSON raw = map_option decode_any (parse_json raw)"

definition resolvedPathsEqual :: "ReferencePathSegment list \<Rightarrow> ReferencePathSegment list \<Rightarrow> bool" where
  "resolvedPathsEqual left right \<longleftrightarrow>
     left \<noteq> [] \<and> list_all2 (\<lambda>l r. Seg_Kind l = Seg_Kind r \<and>
       (case Seg_Kind l of
          ReferencePathSegmentKey \<Rightarrow>
            Seg_Key l \<noteq> None \<and> Seg_Key r \<noteq> None \<and> Seg_Index l = None \<and> Seg_Index r = None \<and> Seg_Key l = Seg_Key r
        | ReferencePathSegmentIndex \<Rightarrow>
            Seg_Index l \<noteq> None \<and> Seg_Index r \<noteq> None \<and> Seg_Key l = None \<and> Seg_Key r = None \<and> Seg_Index l = Seg_Index r
        | ReferencePathSegmentOther _ \<Rightarrow> False)) left right"

definition resolvedReferencesEqual :: "ResolvedReference list option \<Rightarrow> ResolvedReference list option \<Rightarrow> bool" where
  "resolvedReferencesEqual left right =
    (case (left, right) of
       (Some ls, Some rs) \<Rightarrow>
         list_all2 (\<lambda>l r. Ref_SourceStepID l = Ref_SourceStepID r \<and> Ref_SourceOutputField l = Ref_SourceOutputField r \<and>
           resolvedPathsEqual (Ref_TargetPath l) (Ref_TargetPath r)) ls rs
     | _ \<Rightarrow> False)"

definition resolverSourceStep :: "PreviousStepProjection option \<Rightarrow> SourceStep option" where
  "resolverSourceStep previous =
    map_option (\<lambda>p. \<lparr>Src_StepID = Prev_StepID p, Src_Sequence = Prev_Sequence p, Src_Status = Prev_Status p,
      Src_OutputSchema = Prev_OutputSchema p, Src_SafeOutput = Prev_SafeOutput p\<rparr>) previous"

definition resolverOutputFields ::
    "PreviousStepProjection option \<Rightarrow> bool \<Rightarrow> ResolveError + (string \<times> jtext) list" where
  "resolverOutputFields previous required =
    (if \<not> required then Inr []
     else
       (case previous of
          None \<Rightarrow> Inl ErrResolveSourceStep
        | Some p \<Rightarrow>
            (case Option.bind (parse_json (Prev_SafeOutput p)) object_fields of
               None \<Rightarrow> Inl ErrResolveSourceOutput
             | Some members \<Rightarrow> Inr members)))"

definition resolveReference ::
    "StepExecutorRequest \<Rightarrow> (string \<times> jtext) list \<Rightarrow> ResolvedReference \<Rightarrow> jvalue \<Rightarrow> ResolveError + jvalue" where
  "resolveReference request outputFields reference root =
    (case SER_PreviousStep request of
       None \<Rightarrow> Inl ErrResolveSourceStep
     | Some previous \<Rightarrow>
         (case (map_of (Prev_OutputSchema previous) (Ref_SourceOutputField reference),
                map_of outputFields (Ref_SourceOutputField reference)) of
            (Some sourceType, Some raw) \<Rightarrow>
              if decode_any raw = JsonNull \<or> \<not> matchesOutputType (decode_any raw) sourceType then Inl ErrResolveSourceOutput
              else
                (case referenceTargetType request (Ref_TargetPath reference) of
                   None \<Rightarrow> Inl ErrResolvedInputSchema
                 | Some (targetType, permitted) \<Rightarrow>
                     if \<not> permitted \<or> \<not> referenceTypesCompatible sourceType targetType then Inl ErrResolvedInputSchema
                     else
                       (case replaceResolverValue root (Ref_TargetPath reference) (decode_any raw) of
                          None \<Rightarrow> Inl ErrResolvedReferenceBinding
                        | Some root \<Rightarrow> Inr root))
          | _ \<Rightarrow> Inl ErrResolveSourceOutput))"

fun resolve_all ::
    "StepExecutorRequest \<Rightarrow> (string \<times> jtext) list \<Rightarrow> ResolvedReference list \<Rightarrow> jvalue \<Rightarrow> StepError + jvalue" where
  "resolve_all request outputFields [] root = Inr root"
| "resolve_all request outputFields (reference # references) root =
    (case resolveReference request outputFields reference root of
       Inl err \<Rightarrow> Inl (if err = ErrResolvedReferenceBinding then contractResolutionError else inputResolutionError)
     | Inr root \<Rightarrow> resolve_all request outputFields references root)"

definition resolver_request :: "StepExecutorRequest \<Rightarrow> ExtractRequest" where
  "resolver_request request =
    \<lparr>XRq_ActionMode = ReferenceActionModeTargetStepInput, XRq_StepInput = SP_Input (SER_Step request),
     XRq_TargetStepSequence = SP_Sequence (SER_Step request), XRq_SourceStep = resolverSourceStep (SER_PreviousStep request),
     XRq_ValidatePersistedOutput = True\<rparr>"

definition finish_input ::
    "StepExecutorRequest \<Rightarrow> ResolvedReference list option \<Rightarrow> jvalue \<Rightarrow> StepError + ResolvedStepInput" where
  "finish_input request references root =
    (if \<not> validateResolvedInputStructure root 1 then Inl inputResolutionError
     else if \<not> (case root of JsonObject ms \<Rightarrow> validateResolvedInput request ms | _ \<Rightarrow> False) then Inl inputResolutionError
     else
       (let encoded = render (marshal_any root) in
        if maxResolvedStepInputBytes < int (length encoded) then Inl inputResolutionError
        else Inr \<lparr>RSI_StepID = SP_StepID (SER_Step request), RSI_Value = encoded,
          RSI_ReferencedFields = references, RSI_InputContractVersion = stepInputContractVersionV1\<rparr>))"

definition Resolve :: "StepExecutorRequest \<Rightarrow> StepError + ResolvedStepInput" where
  "Resolve request =
    (if (case SER_ResolvedReferences request of None \<Rightarrow> False | Some rs \<Rightarrow> MaxResolvedReferencesPerStep < length rs)
     then Inl referenceLimitError
     else
       (case Extract (resolver_request request) of
          Inl err \<Rightarrow> Inl (mapExtractError err)
        | Inr extracted \<Rightarrow>
            if \<not> resolvedReferencesEqual (XRs_ResolvedReferences extracted) (SER_ResolvedReferences request)
            then Inl contractResolutionError
            else
              (let references = (case XRs_ResolvedReferences extracted of None \<Rightarrow> [] | Some rs \<Rightarrow> rs) in
               case decodeResolverJSON (SP_Input (SER_Step request)) of
                 Some (JsonObject ms) \<Rightarrow>
                   (case resolverOutputFields (SER_PreviousStep request) (references \<noteq> []) of
                      Inl _ \<Rightarrow> Inl inputResolutionError
                    | Inr outputFields \<Rightarrow>
                        attempt (resolve_all request outputFields references (JsonObject ms)) (\<lambda>root.
                        finish_input request (XRs_ResolvedReferences extracted) root))
               | _ \<Rightarrow> Inl contractResolutionError)))"

end
