(* ===== verification/PlanValidator.thy ===== *)
theory PlanValidator
  imports PlanSafety ToolCatalog Resolver
begin

section \<open>The plan validator\<close>

text \<open>
  \<open>internal/planner/validator.go\<close>: the static check of a draft against the step limit, the allowed tools,
  the frozen tool catalogue and the rules for references. Where the code calls back with an issue, the
  functions return the issues in that order. Raw JSON is the \<open>jtext\<close> of the parser; the extractor is
  the shared one, asked for static references.
\<close>

subsection \<open>Requests and issues\<close>

record ValidatePlanRequest =
  VPR_Draft :: PlanDraft
  VPR_MaxSteps :: "32 word"
  VPR_AllowedTools :: "string list"
  VPR_ToolSnapshot :: PlanningToolSnapshot

record orderedValidationIssue =
  OVI_StepOrder :: "32 word"
  OVI_Issue :: ValidationIssue

definition issue_at :: "32 word \<Rightarrow> ValidationIssueCode \<Rightarrow> string \<Rightarrow> orderedValidationIssue" where
  "issue_at stepOrder code path =
    \<lparr>OVI_StepOrder = stepOrder,
     OVI_Issue = \<lparr>VI_Code = code, VI_Path = path, VI_Summary = validationIssueSummary code\<rparr>\<rparr>"

definition report_if :: "bool \<Rightarrow> 32 word \<Rightarrow> ValidationIssueCode \<Rightarrow> string \<Rightarrow> orderedValidationIssue list" where
  "report_if found stepOrder code path = (if found then [issue_at stepOrder code path] else [])"

subsection \<open>The shape of the plan\<close>

definition validatePlanShape :: "ValidatePlanRequest \<Rightarrow> orderedValidationIssue list" where
  "validatePlanShape request =
    (let goal = Draft_Goal (VPR_Draft request); steps = Draft_Steps (VPR_Draft request); stepCount = length steps in
     report_if (blank goal) 0 ValidationIssueGoalRequired ''$.goal'' @
     report_if (maxGoalBytes < int (length goal)) 0 ValidationIssuePlanGoalTooLong ''$.goal'' @
     report_if (stepCount = 0 \<or> VPR_MaxSteps request = 0 \<or> uint (VPR_MaxSteps request) < int stepCount)
       0 ValidationIssueStepCountInvalid ''$.steps'' @
     report_if (maxPlanSteps < stepCount) 0 ValidationIssuePlanStepLimitExceeded ''$.steps'' @
     (if steps = [] then []
      else report_if (Draft_Type (last steps) \<noteq> StepTypeVerification) (Draft_Sequence (last steps))
        ValidationIssueFinalVerificationRequired (step_path (stepCount - 1) @ ''.type'')))"

definition validateOutputSchema :: "OutputSchema \<Rightarrow> string \<Rightarrow> 32 word \<Rightarrow> orderedValidationIssue list" where
  "validateOutputSchema schema path stepOrder =
    (if schema = [] then [issue_at stepOrder ValidationIssueOutputSchemaInvalid path]
     else
       report_if (maxOutputFields < length schema) stepOrder ValidationIssueOutputSchemaFieldLimitExceeded path @
       concat (map (\<lambda>(name, kind).
         report_if (maxOutputFieldNameBytes < int (length name)) stepOrder ValidationIssueOutputFieldNameTooLong
           (dynamicJSONFieldPath path) @
         report_if (\<not> matches PlanParser.outputFieldNamePattern name \<or> \<not> JSONSchemaType_Valid kind) stepOrder
           ValidationIssueOutputSchemaInvalid (dynamicJSONFieldPath path)) schema))"

definition no_tool_name :: "ToolName option \<Rightarrow> bool" where
  "no_tool_name tool = (case tool of None \<Rightarrow> True | Some name \<Rightarrow> blank name)"

definition validateStepShape :: "StepDraft \<Rightarrow> nat \<Rightarrow> 32 word \<Rightarrow> orderedValidationIssue list" where
  "validateStepShape step index stepOrder =
    (let path = step_path index in
     report_if (Draft_Sequence step \<noteq> of_nat (Suc index)) stepOrder ValidationIssueStepSequenceInvalid (path @ ''.sequence'') @
     report_if (\<not> StepType_Valid (Draft_Type step)) stepOrder ValidationIssueStepTypeInvalid (path @ ''.type'') @
     report_if (blank (Draft_Name step)) stepOrder ValidationIssueStepNameRequired (path @ ''.name'') @
     report_if (maxStepNameBytes < int (length (Draft_Name step))) stepOrder ValidationIssueStepNameTooLong (path @ ''.name'') @
     report_if (maxStepInputBytes < int (length (Draft_Input step))) stepOrder ValidationIssueStepInputTooLarge (path @ ''.input'') @
     validateOutputSchema (Draft_OutputSchema step) (path @ ''.output_schema'') stepOrder @
     (if Draft_Type step = StepTypeToolCall
      then report_if (no_tool_name (Draft_ToolName step)) stepOrder ValidationIssueToolNameRequired (path @ ''.tool_name'')
      else report_if (Draft_ToolName step \<noteq> None) stepOrder ValidationIssueToolNameForbidden (path @ ''.tool_name'')))"

subsection \<open>References\<close>

definition inputIssueCode :: "StepType \<Rightarrow> ValidationIssueCode" where
  "inputIssueCode stepType =
    (if stepType = StepTypeToolCall then ValidationIssueToolInputInvalid else ValidationIssueNonToolInputInvalid)"

definition referenceIssueCode :: "ExtractError \<Rightarrow> 32 word \<Rightarrow> StepType \<Rightarrow> ValidationIssueCode" where
  "referenceIssueCode err sequence stepType =
    (if err = IssueCountLimitExceeded then ValidationIssueReferenceCountLimitExceeded
     else if err = ErrExpressionNotSupported then ValidationIssueExpressionNotSupported
     else if is_syntax_error err then ValidationIssueReferenceSyntaxInvalid
     else if err = ErrSourceStep \<and> sequence \<le> 1 then ValidationIssueReferenceNotAllowedOnFirstStep
     else if err = ErrSourceStep \<or> err = ErrSourceOutput then ValidationIssueReferenceFieldNotFound
     else inputIssueCode stepType)"

definition segments_equal :: "ReferencePathSegment \<Rightarrow> ReferencePathSegment \<Rightarrow> bool" where
  "segments_equal l r \<longleftrightarrow> Seg_Kind l = Seg_Kind r \<and>
     (case Seg_Kind l of
        ReferencePathSegmentKey \<Rightarrow> Seg_Key l \<noteq> None \<and> Seg_Key r \<noteq> None \<and> Seg_Key l = Seg_Key r
      | ReferencePathSegmentIndex \<Rightarrow> Seg_Index l \<noteq> None \<and> Seg_Index r \<noteq> None \<and> Seg_Index l = Seg_Index r
      | ReferencePathSegmentOther _ \<Rightarrow> False)"

definition referencePathsEqual :: "ReferencePathSegment list \<Rightarrow> ReferencePathSegment list \<Rightarrow> bool" where
  "referencePathsEqual left right = list_all2 segments_equal left right"

definition findStaticReference :: "StaticReference list \<Rightarrow> ReferencePathSegment list \<Rightarrow> StaticReference option" where
  "findStaticReference references path = find (\<lambda>reference. referencePathsEqual (SRef_TargetPath reference) path) references"

definition referenceTypeCompatible :: "StaticReference \<Rightarrow> OutputSchema \<Rightarrow> JSONSchemaType \<Rightarrow> bool" where
  "referenceTypeCompatible reference sourceSchema target =
    (case map_of sourceSchema (SRef_SourceOutputField reference) of
       None \<Rightarrow> False
     | Some source \<Rightarrow> source = JSONSchemaTypeInteger \<and> target = JSONSchemaTypeNumber \<or> source = target)"

definition referenceKey :: "string \<Rightarrow> ReferencePathSegment" where
  "referenceKey key = \<lparr>Seg_Kind = ReferencePathSegmentKey, Seg_Key = Some key, Seg_Index = None\<rparr>"

definition appendReferenceKey :: "ReferencePathSegment list \<Rightarrow> string \<Rightarrow> ReferencePathSegment list" where
  "appendReferenceKey path key = path @ [referenceKey key]"

definition appendReferenceIndex :: "ReferencePathSegment list \<Rightarrow> 64 word \<Rightarrow> ReferencePathSegment list" where
  "appendReferenceIndex path index = path @ [\<lparr>Seg_Kind = ReferencePathSegmentIndex, Seg_Key = None, Seg_Index = Some index\<rparr>]"

definition isJSONString :: "jtext \<Rightarrow> bool" where
  "isJSONString raw \<longleftrightarrow> unmarshal_string raw \<noteq> None"

subsection \<open>Inputs of tools\<close>

definition singleJSONNumberToken :: "jtext \<Rightarrow> string option" where
  "singleJSONNumberToken raw = (case raw of TNumber n \<Rightarrow> Some n | _ \<Rightarrow> None)"

text \<open>Like a string variable, a boolean one takes \<open>null\<close> without an error.\<close>

definition matchesJSONSchemaPrimitive :: "jtext \<Rightarrow> JSONSchemaType \<Rightarrow> bool" where
  "matchesJSONSchemaPrimitive raw schemaType =
    (case schemaType of
       JSONSchemaTypeString \<Rightarrow> unmarshal_string raw \<noteq> None
     | JSONSchemaTypeBoolean \<Rightarrow> (case raw of TBool _ \<Rightarrow> True | TNull \<Rightarrow> True | _ \<Rightarrow> False)
     | JSONSchemaTypeInteger \<Rightarrow> (case singleJSONNumberToken raw of None \<Rightarrow> False | Some n \<Rightarrow> integer_text n)
     | JSONSchemaTypeNumber \<Rightarrow> singleJSONNumberToken raw \<noteq> None
     | _ \<Rightarrow> False)"

lemma size_field: "object_fields raw = Some members \<Longrightarrow> (name, t) \<in> set members \<Longrightarrow> size t < size raw"
proof (cases raw)
  case (TObject ms)
  assume "object_fields raw = Some members" and "(name, t) \<in> set members"
  then have "(name, t) \<in> set (map (\<lambda>(k, t). (unquote k, t)) ms)"
    using TObject collect_entries [of "map (\<lambda>(k, t). (unquote k, t)) ms" "[]"] by auto
  then obtain k where "(k, t) \<in> set ms" by auto
  then have "size t \<le> size_list (size_prod (\<lambda>_. 0) size) ms" by (intro size_list_estimation') auto
  then show ?thesis using TObject by (simp add: less_Suc_eq_le)
qed simp_all

function validateToolSchemaValue ::
    "StaticReference list \<Rightarrow> OutputSchema \<Rightarrow> bool \<Rightarrow> 32 word \<Rightarrow> jtext \<Rightarrow> CanonicalJSONSchema \<Rightarrow>
     ReferencePathSegment list \<Rightarrow> string \<Rightarrow> orderedValidationIssue list" where
  "validateToolSchemaValue references sourceOutputSchema suppressed stepOrder raw schema targetPath publicPath =
    (let invalid = [issue_at stepOrder ValidationIssueToolInputInvalid publicPath] in
     case findStaticReference references targetPath of
       Some reference \<Rightarrow>
         report_if (\<not> referenceTypeCompatible reference sourceOutputSchema (Schema_Type schema)) stepOrder
           ValidationIssueReferenceTypeMismatch publicPath
     | None \<Rightarrow>
         if suppressed \<and> isJSONString raw then []
         else if raw = TNull then (if Schema_Nullable schema then [] else invalid)
         else
           (case Schema_Type schema of
              JSONSchemaTypeObject \<Rightarrow>
                (case object_fields raw of
                   None \<Rightarrow> invalid
                 | Some members \<Rightarrow>
                     concat (map (\<lambda>name. report_if (map_of members name = None) stepOrder
                       ValidationIssueToolInputInvalid (fixedJSONFieldPath publicPath name)) (schema_required schema)) @
                     concat (map (\<lambda>(name, child).
                       case map_of (schema_properties schema) name of
                         None \<Rightarrow> [issue_at stepOrder ValidationIssueToolInputInvalid (dynamicJSONFieldPath publicPath)]
                       | Some childSchema \<Rightarrow>
                           validateToolSchemaValue references sourceOutputSchema suppressed stepOrder child childSchema
                             (appendReferenceKey targetPath name) (fixedJSONFieldPath publicPath name)) members))
            | JSONSchemaTypeArray \<Rightarrow>
                (case (Schema_Items schema, raw) of
                   (Some items, TArray elements) \<Rightarrow>
                     concat (map (\<lambda>(index, element).
                       validateToolSchemaValue references sourceOutputSchema suppressed stepOrder element items
                         (appendReferenceIndex targetPath (of_nat index)) (index_path publicPath index)) (enumerate 0 elements))
                 | _ \<Rightarrow> invalid)
            | _ \<Rightarrow> if matchesJSONSchemaPrimitive raw (Schema_Type schema) then [] else invalid))"
  by pat_completeness auto
termination
  by (relation "measure (\<lambda>(_, _, _, _, raw, _). size raw)")
    (auto simp: size_field in_set_enumerate_eq less_Suc_eq_le intro!: size_list_estimation')

declare validateToolSchemaValue.simps [simp del]

definition validateToolInput ::
    "StaticReference list \<Rightarrow> OutputSchema \<Rightarrow> bool \<Rightarrow> 32 word \<Rightarrow> jtext \<Rightarrow> CanonicalJSONSchema \<Rightarrow> string \<Rightarrow>
     orderedValidationIssue list" where
  "validateToolInput references sourceOutputSchema suppressed stepOrder raw schema path =
    (if Schema_Type schema \<noteq> JSONSchemaTypeObject \<or> Schema_Nullable schema
     then [issue_at stepOrder ValidationIssueToolInputInvalid path]
     else validateToolSchemaValue references sourceOutputSchema suppressed stepOrder raw schema [] path)"

subsection \<open>Inputs of the other steps\<close>

definition validateNonToolDraftInput ::
    "StepType \<Rightarrow> jtext \<Rightarrow> string \<Rightarrow> 32 word \<Rightarrow> OutputSchema \<Rightarrow> StaticReference list \<Rightarrow> bool \<Rightarrow> orderedValidationIssue list" where
  "validateNonToolDraftInput stepType input path stepOrder sourceOutputSchema references suppressed =
    (case NonToolInputContract stepType of
       None \<Rightarrow> []
     | Some contract \<Rightarrow>
         (case object_fields input of
            None \<Rightarrow> [issue_at stepOrder ValidationIssueNonToolInputInvalid path]
          | Some members \<Rightarrow>
              concat (map (\<lambda>field. report_if (NTF_Required field \<and> map_of members (NTF_Name field) = None) stepOrder
                ValidationIssueNonToolInputInvalid (fixedJSONFieldPath path (NTF_Name field))) contract) @
              concat (map (\<lambda>(name, raw).
                case find (\<lambda>field. NTF_Name field = name) contract of
                  None \<Rightarrow> [issue_at stepOrder ValidationIssueNonToolInputInvalid (dynamicJSONFieldPath path)]
                | Some field \<Rightarrow>
                    (case findStaticReference references [referenceKey name] of
                       Some reference \<Rightarrow>
                         if \<not> NTF_ReferenceAllowed field
                         then [issue_at stepOrder ValidationIssueNonToolInputInvalid (fixedJSONFieldPath path name)]
                         else report_if (\<not> referenceTypeCompatible reference sourceOutputSchema (NTF_Type field)) stepOrder
                           ValidationIssueReferenceTypeMismatch (fixedJSONFieldPath path name)
                     | None \<Rightarrow>
                         report_if (\<not> (suppressed \<and> isJSONString raw) \<and> (\<not> matchesNonToolFieldShape raw field \<or> has_null raw))
                           stepOrder ValidationIssueNonToolInputInvalid (fixedJSONFieldPath path name))) members) @
              concat (map (\<lambda>reference.
                report_if (length (SRef_TargetPath reference) \<noteq> 1 \<or>
                    Seg_Kind (hd (SRef_TargetPath reference)) \<noteq> ReferencePathSegmentKey)
                  stepOrder ValidationIssueNonToolInputInvalid path) references)))"

subsection \<open>The meaning of a step\<close>

definition indexPlanningTools :: "PlanningToolSnapshot \<Rightarrow> string \<Rightarrow> PlanningToolSpec option" where
  "indexPlanningTools snapshot = map_of (rev (map (\<lambda>tool. (Spec_ToolName tool, tool)) (snapshot_tools snapshot)))"

text \<open>The source step has neither an identifier nor an output: only its number and its output schema are set.\<close>

definition draft_source :: "StepDraft \<Rightarrow> SourceStep" where
  "draft_source step =
    \<lparr>Src_StepID = '''', Src_Sequence = Draft_Sequence step, Src_Status = StepStatusOther '''',
     Src_OutputSchema = Draft_OutputSchema step, Src_SafeOutput = ''''\<rparr>"

definition static_request :: "StepDraft \<Rightarrow> StepDraft option \<Rightarrow> ExtractRequest" where
  "static_request step previous =
    \<lparr>XRq_ActionMode = ReferenceActionModeTargetStepInput, XRq_StepInput = Draft_Input step,
     XRq_TargetStepSequence = Draft_Sequence step, XRq_SourceStep = map_option draft_source previous,
     XRq_ValidatePersistedOutput = False\<rparr>"

definition validateStepSemantics ::
    "StepDraft list \<Rightarrow> nat \<Rightarrow> 32 word \<Rightarrow> PlanningToolSnapshot \<Rightarrow> string list \<Rightarrow> orderedValidationIssue list" where
  "validateStepSemantics steps index stepOrder snapshot allowedTools =
    (let step = steps ! index; path = step_path index @ ''.input''; toolPath = step_path index @ ''.tool_name'' in
     case parse_json (Draft_Input step) of
       Some (TObject ms) \<Rightarrow>
         (let previous = (if 0 < index then Some (steps ! (index - 1)) else None);
              sourceOutputSchema = (case previous of None \<Rightarrow> [] | Some p \<Rightarrow> Draft_OutputSchema p);
              extracted = Extract (static_request step previous);
              references = (case extracted of Inl _ \<Rightarrow> []
                | Inr result \<Rightarrow> (case XRs_StaticReferences result of None \<Rightarrow> [] | Some rs \<Rightarrow> rs));
              failed = isl extracted in
          (case extracted of
             Inl err \<Rightarrow> [issue_at stepOrder (referenceIssueCode err (Draft_Sequence step) (Draft_Type step)) path]
           | Inr _ \<Rightarrow> []) @
          (if Draft_Type step \<noteq> StepTypeToolCall
           then validateNonToolDraftInput (Draft_Type step) (TObject ms) path stepOrder sourceOutputSchema references failed
           else
             (case Draft_ToolName step of
                None \<Rightarrow> []
              | Some toolName \<Rightarrow>
                  if blank toolName then []
                  else if toolName \<notin> set allowedTools then [issue_at stepOrder ValidationIssueToolNotAllowed toolPath]
                  else
                    (case indexPlanningTools snapshot toolName of
                       None \<Rightarrow> [issue_at stepOrder ValidationIssueToolNotFound toolPath]
                     | Some tool \<Rightarrow>
                         report_if (\<not> Spec_Enabled tool) stepOrder ValidationIssueToolDisabled toolPath @
                         validateToolInput references sourceOutputSchema failed stepOrder (TObject ms)
                           (Spec_InputSchema tool) path))))
     | _ \<Rightarrow> [issue_at stepOrder (inputIssueCode (Draft_Type step)) path])"

subsection \<open>Limits of the whole draft\<close>

definition validateDraftResourceLimits :: "PlanDraft \<Rightarrow> orderedValidationIssue list" where
  "validateDraftResourceLimits draft =
    (case marshalPlanDraft draft of
       None \<Rightarrow> []
     | Some encoded \<Rightarrow>
         report_if (maxPlanDraftBytes < int (length encoded)) 0 ValidationIssuePlanDraftTooLarge root_path @
         (case scanPlanJSON encoded of
            Inr _ \<Rightarrow> []
          | Inl err \<Rightarrow>
              report_if (PErr_Code err = ParseIssueJSONDepthExceeded) 0 ValidationIssueJSONDepthExceeded (PErr_Path err) @
              report_if (PErr_Code err = ParseIssueObjectFieldLimitExceeded) 0 ValidationIssueObjectFieldLimitExceeded
                (PErr_Path err)))"

subsection \<open>The validator\<close>

definition issue_before :: "orderedValidationIssue \<Rightarrow> orderedValidationIssue \<Rightarrow> bool" where
  "issue_before l r \<longleftrightarrow>
     (if OVI_StepOrder l \<noteq> OVI_StepOrder r then OVI_StepOrder l < OVI_StepOrder r
      else safe_issue_before (OVI_Issue l) (OVI_Issue r))"

definition step_order :: "StepDraft \<Rightarrow> nat \<Rightarrow> 32 word" where
  "step_order step index = (if Draft_Sequence step = 0 then of_nat (Suc index) else Draft_Sequence step)"

definition step_issues :: "ValidatePlanRequest \<Rightarrow> nat \<Rightarrow> orderedValidationIssue list" where
  "step_issues request index =
    (let steps = Draft_Steps (VPR_Draft request); stepOrder = step_order (steps ! index) index in
     validateStepShape (steps ! index) index stepOrder @
     validateStepSemantics steps index stepOrder (VPR_ToolSnapshot request) (VPR_AllowedTools request))"

definition found_issues :: "ValidatePlanRequest \<Rightarrow> orderedValidationIssue list" where
  "found_issues request =
    validatePlanShape request @
    concat (map (step_issues request) [0..<length (Draft_Steps (VPR_Draft request))]) @
    validateDraftResourceLimits (VPR_Draft request) @
    map (\<lambda>issue. \<lparr>OVI_StepOrder = 0, OVI_Issue = issue\<rparr>) (SafeResultProcessor_Validate (VPR_Draft request))"

definition Validator_Validate :: "ValidatePlanRequest \<Rightarrow> ValidationIssue list" where
  "Validator_Validate request =
    (let issues = sort_by issue_before (found_issues request);
         issues = (if maxValidationIssues < length issues
           then take (maxValidationIssues - 1) issues @ [issue_at 0 ValidationIssueValidationIssueLimitExceeded root_path]
           else issues) in
     map OVI_Issue issues)"

end
