(* ===== verification/PlannerService.thy ===== *)
theory PlannerService
  imports PlanPrompt
begin

section \<open>The planner service\<close>

text \<open>
  \<open>internal/planner/service.go\<close> with the messages of the model port (\<open>internal/contracts/model.go\<close>): one
  call of \<open>GeneratePlan\<close>. Everything outside is in \<open>planner_env\<close>: what the context says at each moment at
  which the code asks it, the time that is left when a repair starts, the catalogue port, the model port, and
  whether the time of a model call ran out. A call returns its result and the requests the model got. Context,
  service and ports are not nil here.
\<close>

definition plannerModelName :: string where "plannerModelName = ''deepseek-chat''"
definition plannerResponseFormat :: string where "plannerResponseFormat = ''json_object''"
definition seconds :: int where "seconds = 1000000000"
definition plannerModelCallTimeout :: int where "plannerModelCallTimeout = 60 * seconds"
definition repairMinModelBudget :: int where "repairMinModelBudget = 15 * seconds"
definition plannerLocalSafetyMargin :: int where "plannerLocalSafetyMargin = 2 * seconds"
definition maxTaskInputBytes :: int where "maxTaskInputBytes = 16 * 1024"
definition maxAgentSystemPromptBytes :: int where "maxAgentSystemPromptBytes = 32 * 1024"
definition maxPlannerTools :: nat where "maxPlannerTools = 32"

subsection \<open>Messages\<close>

record ModelRequestMetadata =
  Meta_Operation :: string
  Meta_Phase :: string
  Meta_TaskID :: TaskID
  Meta_RunID :: RunID
  Meta_ExecutionVersion :: "ExecutionVersion option"
  Meta_StepID :: "StepID option"
  Meta_StepType :: "StepType option"
  Meta_ReportID :: "string option"

record ModelRequest =
  MRq_Model :: string
  MRq_Stream :: bool
  MRq_ResponseFormat :: string
  MRq_Messages :: "ModelMessage list"
  MRq_GenerationParams :: GenerationParams
  MRq_Metadata :: ModelRequestMetadata

record ModelResponse =
  MRs_AssistantContent :: string
  MRs_ProviderRequestID :: "string option"

record PlannerRequest =
  PRq_TaskID :: TaskID
  PRq_RunID :: RunID
  PRq_ExecutionVersion :: ExecutionVersion
  PRq_TaskInput :: string
  PRq_AgentID :: AgentID
  PRq_AgentSystemPrompt :: string
  PRq_AllowedTools :: "string list option"
  PRq_MaxSteps :: "32 word"
  PRq_ModelName :: string
  PRq_GenerationParams :: GenerationParams
  PRq_ExecutionConfigHash :: ExecutionConfigHash
  PRq_ToolCatalogSelector :: PlanningToolCatalogSelector

record ValidatedPlanDraft =
  Valid_TaskID :: TaskID
  Valid_RunID :: RunID
  Valid_ExecutionVersion :: ExecutionVersion
  Valid_Goal :: string
  Valid_Steps :: "StepDraft list"

subsection \<open>Errors\<close>

datatype PlannerErrorKind =
    PlannerErrorRuntimeFatal
  | PlannerErrorCanceled
  | PlannerErrorPlanGenerationFailed
  | PlannerErrorPlanValidationFailed

datatype PlannerPhase = PlannerPhaseInitial | PlannerPhaseRepair

fun PlannerPhase_text :: "PlannerPhase \<Rightarrow> string" where
  "PlannerPhase_text PlannerPhaseInitial = ''INITIAL''"
| "PlannerPhase_text PlannerPhaseRepair = ''REPAIR''"

datatype PlannerCauseCode =
    PlannerCauseRuntimeInvalidRequest
  | PlannerCauseRuntimeInvalidModelClientRequest
  | PlannerCauseRuntimeStaticToolSnapshotInconsistent
  | PlannerCauseRuntimeContractBroken
  | PlannerCauseRuntimePromptInvariantBroken
  | PlannerCauseTaskCancelled
  | PlannerCauseTaskTimedOut
  | PlannerCauseActionTimeout
  | PlannerCauseRuntimeShutdown
  | PlannerCauseLockLost
  | PlannerCauseTaskInputTooLarge
  | PlannerCauseModelCallTimeout
  | PlannerCauseModelProviderTimeout
  | PlannerCauseModelAuthentication
  | PlannerCauseModelNetwork
  | PlannerCauseModelRateLimited
  | PlannerCauseModelProviderError
  | PlannerCauseModelResponseTooLarge
  | PlannerCauseRepairExhausted
  | PlannerCauseRepairBudgetInsufficient
  | PlannerCauseRepairPromptTooLarge
  | PlannerCauseOther string

fun PlannerCauseCode_Valid :: "PlannerCauseCode \<Rightarrow> bool" where
  "PlannerCauseCode_Valid (PlannerCauseOther _) = False"
| "PlannerCauseCode_Valid _ = True"

definition CancellationCause_Valid :: "PlannerCauseCode \<Rightarrow> bool" where
  "CancellationCause_Valid c \<longleftrightarrow>
     c \<in> set [PlannerCauseTaskCancelled, PlannerCauseTaskTimedOut, PlannerCauseActionTimeout,
       PlannerCauseRuntimeShutdown, PlannerCauseLockLost]"

datatype ContextSentinel = ContextCanceled | ContextDeadlineExceeded

record PlannerError =
  PlErr_Kind :: PlannerErrorKind
  PlErr_CauseCode :: PlannerCauseCode
  PlErr_Phase :: PlannerPhase
  PlErr_Issues :: "RepairIssue list"
  PlErr_CatalogKind :: "PlanningToolCatalogErrorKind option"
  PlErr_Cause :: "ContextSentinel option"

definition plannerError :: "PlannerErrorKind \<Rightarrow> PlannerCauseCode \<Rightarrow> PlannerPhase \<Rightarrow> RepairIssue list \<Rightarrow> PlannerError" where
  "plannerError kind code phase issues =
    \<lparr>PlErr_Kind = kind, PlErr_CauseCode = code, PlErr_Phase = phase, PlErr_Issues = issues, PlErr_CatalogKind = None,
     PlErr_Cause = None\<rparr>"

definition plannerContextError ::
    "PlannerErrorKind \<Rightarrow> PlannerCauseCode \<Rightarrow> PlannerPhase \<Rightarrow> RepairIssue list \<Rightarrow> ContextSentinel \<Rightarrow> PlannerError" where
  "plannerContextError kind code phase issues cause = (plannerError kind code phase issues)\<lparr>PlErr_Cause := Some cause\<rparr>"

text \<open>
  What an error chain tells: a cause code in it, if any, and whether \<open>context.DeadlineExceeded\<close> is in it. A context
  that has ended has such a cause beside its own error.
\<close>

record error_chain =
  Chain_Coded :: "PlannerCauseCode option"
  Chain_Deadline :: bool

record context_end =
  End_Cause :: error_chain
  End_Err :: ContextSentinel

definition fallbackCancellationCode :: "error_chain \<Rightarrow> PlannerCauseCode" where
  "fallbackCancellationCode err =
    (if Chain_Deadline err then PlannerCauseActionTimeout else PlannerCauseRuntimeShutdown)"

definition cancellationCode :: "error_chain \<Rightarrow> PlannerCauseCode" where
  "cancellationCode err =
    (case Chain_Coded err of
       Some code \<Rightarrow> if CancellationCause_Valid code then code else fallbackCancellationCode err
     | None \<Rightarrow> fallbackCancellationCode err)"

definition adapterCancellationSentinel :: "error_chain \<Rightarrow> ContextSentinel" where
  "adapterCancellationSentinel err = (if Chain_Deadline err then ContextDeadlineExceeded else ContextCanceled)"

definition plannerCancellation :: "context_end option \<Rightarrow> PlannerPhase \<Rightarrow> PlannerError + unit" where
  "plannerCancellation ctx phase =
    (case ctx of
       None \<Rightarrow> Inr ()
     | Some ended \<Rightarrow>
         Inl (plannerContextError PlannerErrorCanceled (cancellationCode (End_Cause ended)) phase [] (End_Err ended)))"

definition mapCatalogError :: "CatalogError \<Rightarrow> PlannerError" where
  "mapCatalogError err =
    (case err of
       CatalogTyped typed \<Rightarrow>
         (plannerError PlannerErrorRuntimeFatal PlannerCauseRuntimeStaticToolSnapshotInconsistent PlannerPhaseInitial [])
           \<lparr>PlErr_CatalogKind := Some (PTCE_Kind typed)\<rparr>
     | _ \<Rightarrow> plannerError PlannerErrorRuntimeFatal PlannerCauseRuntimeContractBroken PlannerPhaseInitial [])"

text \<open>The error of a model call: its typed kind, if any, and its chain.\<close>

record model_error =
  MErr_Kind :: "ModelClientErrorKind option"
  MErr_Chain :: error_chain

text \<open>A model answer that only a repair can mend, or an error that ends the call.\<close>

datatype generate_error =
    RepairableModelError
  | GenerateFailed PlannerError

definition mapModelError :: "model_error \<Rightarrow> PlannerPhase \<Rightarrow> generate_error" where
  "mapModelError err phase =
    (let fatal = (\<lambda>code. GenerateFailed (plannerError PlannerErrorRuntimeFatal code phase []));
         failed = (\<lambda>code. GenerateFailed (plannerError PlannerErrorPlanGenerationFailed code phase [])) in
     case MErr_Kind err of
       None \<Rightarrow> fatal PlannerCauseRuntimeContractBroken
     | Some kind \<Rightarrow>
         (case kind of
            ModelClientErrorContractViolation \<Rightarrow> fatal PlannerCauseRuntimeInvalidModelClientRequest
          | ModelClientErrorCanceled \<Rightarrow>
              GenerateFailed (plannerContextError PlannerErrorCanceled (cancellationCode (MErr_Chain err)) phase []
                (adapterCancellationSentinel (MErr_Chain err)))
          | ModelClientErrorTimeout \<Rightarrow> failed PlannerCauseModelProviderTimeout
          | ModelClientErrorAuthentication \<Rightarrow> failed PlannerCauseModelAuthentication
          | ModelClientErrorNetwork \<Rightarrow> failed PlannerCauseModelNetwork
          | ModelClientErrorRateLimited \<Rightarrow> failed PlannerCauseModelRateLimited
          | ModelClientErrorProvider \<Rightarrow> failed PlannerCauseModelProviderError
          | ModelClientErrorResponseTooLarge \<Rightarrow> failed PlannerCauseModelResponseTooLarge
          | ModelClientErrorInvalidResponse \<Rightarrow> RepairableModelError
          | ModelClientErrorKindOther _ \<Rightarrow> fatal PlannerCauseRuntimeContractBroken))"

subsection \<open>The environment\<close>

text \<open>The moments at which the code asks the context whether it has ended, in their order.\<close>

datatype planner_moment =
    RequestChecked
  | CatalogAsked
  | CatalogAnswered
  | CatalogFailed
  | ModelAnswered PlannerPhase
  | CandidateChecked PlannerPhase
  | RepairWanted

record planner_env =
  Env_Context :: "planner_moment \<Rightarrow> context_end option"
  Env_Remaining :: "int option"
  Env_Catalog :: "PlanningToolCatalogSelector \<Rightarrow> PlanningToolSnapshot \<times> CatalogError option"
  Env_Model :: "int \<Rightarrow> ModelRequest \<Rightarrow> ModelResponse \<times> model_error option"
  Env_CallExpired :: "PlannerPhase \<Rightarrow> bool"
  Env_Digest :: "string \<Rightarrow> string"
  Env_ModelCallTimeout :: int

subsection \<open>The request\<close>

text \<open>A canonical decimal is its coefficient over a power of ten.\<close>

definition decimal_between :: "CanonicalDecimalV1 \<Rightarrow> int \<Rightarrow> bool" where
  "decimal_between d bound \<longleftrightarrow> 0 \<le> CD_coefficient d \<and> CD_coefficient d \<le> bound * 10 ^ CD_scale d"

definition validGenerationParams :: "GenerationParams \<Rightarrow> bool" where
  "validGenerationParams params \<longleftrightarrow>
     decimal_between (GP_Temperature params) 2 \<and>
     decimal_between (GP_TopP params) 1 \<and> CD_coefficient (GP_TopP params) \<noteq> 0 \<and>
     0 < GP_MaxOutputTokens params \<and> GP_MaxOutputTokens params \<le> 8192"

definition allowed_tools :: "PlannerRequest \<Rightarrow> string list" where
  "allowed_tools request = (case PRq_AllowedTools request of None \<Rightarrow> [] | Some names \<Rightarrow> names)"

fun valid_tool_names :: "string list \<Rightarrow> string list \<Rightarrow> bool" where
  "valid_tool_names [] seen = True"
| "valid_tool_names (name # names) seen =
    (\<not> blank name \<and> utf8_valid name \<and> name \<notin> set seen \<and> valid_tool_names names (name # seen))"

definition validatePlannerRequest :: "PlannerRequest \<Rightarrow> PlannerError + unit" where
  "validatePlannerRequest request =
    attempt (require
      (PRq_TaskID request \<noteq> '''' \<and> PRq_RunID request \<noteq> '''' \<and> ExecutionVersion_Valid (PRq_ExecutionVersion request) \<and>
       PRq_AgentID request \<noteq> '''' \<and> utf8_valid (PRq_AgentID request) \<and>
       \<not> blank (PRq_TaskInput request) \<and> utf8_valid (PRq_TaskInput request) \<and>
       \<not> blank (PRq_AgentSystemPrompt request) \<and> utf8_valid (PRq_AgentSystemPrompt request) \<and>
       int (length (PRq_AgentSystemPrompt request)) \<le> maxAgentSystemPromptBytes \<and> PRq_MaxSteps request \<noteq> 0 \<and>
       unat (PRq_MaxSteps request) \<le> maxPlanSteps \<and> PRq_ModelName request = plannerModelName \<and>
       validSHA256 (PRq_ExecutionConfigHash request) \<and> validGenerationParams (PRq_GenerationParams request) \<and>
       PRq_AllowedTools request \<noteq> None \<and> length (allowed_tools request) \<le> maxPlannerTools \<and>
       PRq_AllowedTools request = Selector_AllowedTools (PRq_ToolCatalogSelector request) \<and>
       valid_tool_names (allowed_tools request) [])
      (plannerError PlannerErrorRuntimeFatal PlannerCauseRuntimeInvalidRequest PlannerPhaseInitial [])) (\<lambda>_.
    require (int (length (PRq_TaskInput request)) \<le> maxTaskInputBytes)
      (plannerError PlannerErrorPlanGenerationFailed PlannerCauseTaskInputTooLarge PlannerPhaseInitial []))"

subsection \<open>A model call\<close>

definition model_request :: "PlannerRequest \<Rightarrow> ModelMessage list \<Rightarrow> PlannerPhase \<Rightarrow> ModelRequest" where
  "model_request request messages phase =
    \<lparr>MRq_Model = plannerModelName, MRq_Stream = False, MRq_ResponseFormat = plannerResponseFormat,
     MRq_Messages = messages, MRq_GenerationParams = PRq_GenerationParams request,
     MRq_Metadata =
       \<lparr>Meta_Operation = ''GeneratePlan'', Meta_Phase = PlannerPhase_text phase, Meta_TaskID = PRq_TaskID request,
        Meta_RunID = PRq_RunID request, Meta_ExecutionVersion = Some (PRq_ExecutionVersion request),
        Meta_StepID = None, Meta_StepType = None, Meta_ReportID = None\<rparr>\<rparr>"

definition generate ::
    "planner_env \<Rightarrow> PlannerRequest \<Rightarrow> ModelMessage list \<Rightarrow> PlannerPhase \<Rightarrow> int \<Rightarrow> generate_error + string" where
  "generate env request messages phase timeout =
    (let (response, err) = Env_Model env timeout (model_request request messages phase);
         stop = (\<lambda>kind code. Inl (GenerateFailed (plannerError kind code phase []))) in
     case plannerCancellation (Env_Context env (ModelAnswered phase)) phase of
       Inl canceled \<Rightarrow> Inl (GenerateFailed canceled)
     | Inr _ \<Rightarrow>
         if Env_CallExpired env phase then stop PlannerErrorPlanGenerationFailed PlannerCauseModelCallTimeout
         else
           (case err of
              Some failure \<Rightarrow>
                if MRs_AssistantContent response \<noteq> '''' \<or> MRs_ProviderRequestID response \<noteq> None
                then stop PlannerErrorRuntimeFatal PlannerCauseRuntimeContractBroken
                else Inl (mapModelError failure phase)
            | None \<Rightarrow>
                if maxModelResponseBytes < int (length (MRs_AssistantContent response))
                then stop PlannerErrorPlanGenerationFailed PlannerCauseModelResponseTooLarge
                else if blank (MRs_AssistantContent response) \<or> \<not> utf8_valid (MRs_AssistantContent response)
                then Inl RepairableModelError
                else Inr (MRs_AssistantContent response)))"

definition validateCandidate ::
    "string \<Rightarrow> PlannerRequest \<Rightarrow> PlanningToolSnapshot \<Rightarrow> PlanDraft option \<times> RepairIssue list" where
  "validateCandidate content request snapshot =
    (case ParseV1 content of
       Inl err \<Rightarrow> (None, [repair_issue (ParseIssueCode_text (PErr_Code err)) (PErr_Path err)])
     | Inr draft \<Rightarrow>
         (Some draft, map project_issue (Validator_Validate
           \<lparr>VPR_Draft = draft, VPR_MaxSteps = PRq_MaxSteps request, VPR_AllowedTools = allowed_tools request,
            VPR_ToolSnapshot = snapshot\<rparr>)))"

definition validatedResult :: "PlannerRequest \<Rightarrow> PlanDraft \<Rightarrow> ValidatedPlanDraft" where
  "validatedResult request draft =
    \<lparr>Valid_TaskID = PRq_TaskID request, Valid_RunID = PRq_RunID request,
     Valid_ExecutionVersion = PRq_ExecutionVersion request, Valid_Goal = Draft_Goal draft, Valid_Steps = Draft_Steps draft\<rparr>"

subsection \<open>The repair\<close>

definition repairTimeout :: "int option \<Rightarrow> int option" where
  "repairTimeout remaining =
    (case remaining of
       None \<Rightarrow> Some plannerModelCallTimeout
     | Some left \<Rightarrow>
         if left \<le> repairMinModelBudget + plannerLocalSafetyMargin then None
         else Some (min plannerModelCallTimeout (left - plannerLocalSafetyMargin)))"

type_synonym plan_result = "(PlannerError + ValidatedPlanDraft) \<times> ModelRequest list"

definition finish_repair ::
    "planner_env \<Rightarrow> PlannerRequest \<Rightarrow> PlanningToolSnapshot \<Rightarrow> RepairIssue list \<Rightarrow> generate_error + string \<Rightarrow>
     PlannerError + ValidatedPlanDraft" where
  "finish_repair env request snapshot issues answer =
    (let exhausted = plannerError PlannerErrorPlanValidationFailed PlannerCauseRepairExhausted PlannerPhaseRepair in
     case answer of
       Inl RepairableModelError \<Rightarrow> Inl (exhausted issues)
     | Inl (GenerateFailed err) \<Rightarrow> Inl err
     | Inr content \<Rightarrow>
         (case validateCandidate content request snapshot of
            (Some draft, []) \<Rightarrow>
              attempt (plannerCancellation (Env_Context env (CandidateChecked PlannerPhaseRepair)) PlannerPhaseRepair) (\<lambda>_.
              Inr (validatedResult request draft))
          | (_, repairIssues) \<Rightarrow> Inl (exhausted repairIssues)))"

definition repair ::
    "planner_env \<Rightarrow> PlannerRequest \<Rightarrow> PlanningToolSnapshot \<Rightarrow> InitialPromptRequest \<Rightarrow> PlanDraft option \<Rightarrow> RepairIssue list \<Rightarrow>
     plan_result" where
  "repair env request snapshot initial candidate issues =
    (case plannerCancellation (Env_Context env RepairWanted) PlannerPhaseRepair of
       Inl canceled \<Rightarrow> (Inl canceled, [])
     | Inr _ \<Rightarrow>
         (case repairTimeout (Env_Remaining env) of
            None \<Rightarrow>
              (Inl (plannerError PlannerErrorPlanValidationFailed PlannerCauseRepairBudgetInsufficient PlannerPhaseRepair issues), [])
          | Some timeout \<Rightarrow>
              (case fst (Gate_Build False \<lparr>RPR_Initial = initial, RPR_Candidate = candidate, RPR_Issues = issues\<rparr>) of
                 (Inl err, normalized) \<Rightarrow>
                   (Inl (if err = PromptErrorRepairPromptTooLarge
                      then plannerError PlannerErrorPlanValidationFailed PlannerCauseRepairPromptTooLarge PlannerPhaseRepair normalized
                      else plannerError PlannerErrorRuntimeFatal PlannerCauseRuntimePromptInvariantBroken PlannerPhaseRepair []), [])
               | (Inr messages, normalized) \<Rightarrow>
                   (finish_repair env request snapshot normalized (generate env request messages PlannerPhaseRepair timeout),
                    [model_request request messages PlannerPhaseRepair]))))"

subsection \<open>The use case\<close>

definition callTimeout :: "planner_env \<Rightarrow> int" where
  "callTimeout env = (if Env_ModelCallTimeout env \<le> 0 then plannerModelCallTimeout else Env_ModelCallTimeout env)"

definition load_catalog :: "planner_env \<Rightarrow> PlannerRequest \<Rightarrow> PlannerError + PlanningToolSnapshot" where
  "load_catalog env request =
    (case CatalogConsumer_Load (Env_Digest env) (Env_Context env CatalogAsked \<noteq> None)
        (Env_Catalog env (PRq_ToolCatalogSelector request)) (Env_Context env CatalogAnswered \<noteq> None)
        (PRq_ToolCatalogSelector request) of
       Inr snapshot \<Rightarrow> Inr snapshot
     | Inl err \<Rightarrow>
         attempt (plannerCancellation (Env_Context env CatalogFailed) PlannerPhaseInitial) (\<lambda>_. Inl (mapCatalogError err)))"

definition initial_request :: "PlannerRequest \<Rightarrow> PlanningToolSnapshot \<Rightarrow> InitialPromptRequest" where
  "initial_request request snapshot =
    \<lparr>IPR_AgentSystemPrompt = PRq_AgentSystemPrompt request, IPR_TaskInput = PRq_TaskInput request,
     IPR_ToolSnapshot = snapshot, IPR_MaxSteps = PRq_MaxSteps request\<rparr>"

text \<open>What follows the first answer of the model.\<close>

definition finish_initial ::
    "planner_env \<Rightarrow> PlannerRequest \<Rightarrow> PlanningToolSnapshot \<Rightarrow> generate_error + string \<Rightarrow> plan_result" where
  "finish_initial env request snapshot answer =
    (let initial = initial_request request snapshot in
     case answer of
       Inl RepairableModelError \<Rightarrow>
         repair env request snapshot initial None [repair_issue (ParseIssueCode_text ParseIssueInvalidJSON) root_path]
     | Inl (GenerateFailed err) \<Rightarrow> (Inl err, [])
     | Inr content \<Rightarrow>
         (case validateCandidate content request snapshot of
            (Some draft, []) \<Rightarrow>
              (attempt (plannerCancellation (Env_Context env (CandidateChecked PlannerPhaseInitial)) PlannerPhaseInitial) (\<lambda>_.
               Inr (validatedResult request draft)), [])
          | (candidate, issues) \<Rightarrow> repair env request snapshot initial candidate issues))"

definition GeneratePlan :: "planner_env \<Rightarrow> PlannerRequest \<Rightarrow> plan_result" where
  "GeneratePlan env request =
    (case attempt (validatePlannerRequest request) (\<lambda>_.
        attempt (plannerCancellation (Env_Context env RequestChecked) PlannerPhaseInitial) (\<lambda>_.
        load_catalog env request)) of
       Inl err \<Rightarrow> (Inl err, [])
     | Inr snapshot \<Rightarrow>
         (case BuildInitial (initial_request request snapshot) of
            Inl _ \<Rightarrow>
              (Inl (plannerError PlannerErrorRuntimeFatal PlannerCauseRuntimePromptInvariantBroken PlannerPhaseInitial []), [])
          | Inr messages \<Rightarrow>
              (let (result, calls) = finish_initial env request snapshot
                     (generate env request messages PlannerPhaseInitial (callTimeout env)) in
               (result, model_request request messages PlannerPhaseInitial # calls))))"

subsection \<open>The stored plan\<close>

text \<open>\<open>entity.go\<close> and the condition of the insert in \<open>repository.go\<close>; the entity keeps its time in UTC.\<close>

record PlanEntity =
  Plan_PlanID :: PlanID
  Plan_RunID :: RunID
  Plan_Goal :: string
  Plan_CreatedAt :: time

definition NewPlanEntity :: "PlanID \<Rightarrow> RunID \<Rightarrow> string \<Rightarrow> time \<Rightarrow> PlanEntity option" where
  "NewPlanEntity planID runID goal createdAt =
    (if blank planID \<or> blank runID \<or> goal = [] \<or> \<not> utf8_valid goal \<or> IsZero createdAt then None
     else Some \<lparr>Plan_PlanID = planID, Plan_RunID = runID, Plan_Goal = goal, Plan_CreatedAt = createdAt\<rparr>)"

record PlanCreateGuard =
  Guard_TaskID :: TaskID
  Guard_ExecutionVersion :: ExecutionVersion
  Guard_WorkerID :: WorkerID
  Guard_ExpectedTaskStatus :: TaskStatus
  Guard_ExpectedRunStatus :: RunStatus
  Guard_ExpectedExecutionStatus :: TaskExecutionStatus

definition PlanCreateGuard_Valid :: "PlanCreateGuard \<Rightarrow> bool" where
  "PlanCreateGuard_Valid g \<longleftrightarrow>
     Guard_TaskID g \<noteq> [] \<and> ExecutionVersion_Valid (Guard_ExecutionVersion g) \<and> Guard_WorkerID g \<noteq> [] \<and>
     TaskStatus_Valid (Guard_ExpectedTaskStatus g) \<and> RunStatus_Valid (Guard_ExpectedRunStatus g) \<and>
     TaskExecutionStatus_Valid (Guard_ExpectedExecutionStatus g)"

end
