(* ===== verification/PlanAgreement.thy ===== *)
theory PlanAgreement
  imports PlanValidator PlanRoundTrip
begin

section \<open>Planner and step executor agree\<close>

text \<open>
  The planner checks the input of a tool call on raw JSON, before any step has run; the step executor
  checks the decoded input just before the call. On inputs without references the two verdicts are the same.
\<close>

lemma report_none [simp]: "report_if found stepOrder code path = [] \<longleftrightarrow> \<not> found"
  by (simp add: report_if_def)

lemma find_no_reference [simp]: "findStaticReference [] path = None"
  by (simp add: findStaticReference_def)

lemma primitive_agrees:
  assumes "raw \<noteq> TNull" and "Schema_Type schema \<noteq> JSONSchemaTypeObject" and "Schema_Type schema \<noteq> JSONSchemaTypeArray"
  shows "matchesJSONSchemaPrimitive raw (Schema_Type schema) \<longleftrightarrow> conformsToToolSchema (decode_any raw) schema"
  using assms by (cases raw; cases "Schema_Type schema")
    (auto simp: matchesJSONSchemaPrimitive_def matchesJSONSchemaType_def singleJSONNumberToken_def)

lemma object_agrees:
  assumes members: "object_fields raw = Some members" and object: "Schema_Type schema = JSONSchemaTypeObject"
    and children: "\<And>name child childSchema. (name, child) \<in> set members \<Longrightarrow>
      good name child childSchema \<longleftrightarrow> conformsToToolSchema (decode_any child) childSchema"
  shows "conformsToToolSchema (decode_any raw) schema \<longleftrightarrow>
    (\<forall>name\<in>set (schema_required schema). map_of members name \<noteq> None) \<and>
    (\<forall>(name, child)\<in>set members.
       case map_of (schema_properties schema) name of None \<Rightarrow> False | Some childSchema \<Rightarrow> good name child childSchema)"
  unfolding decode_object [OF members] using object children
  by (auto simp: map_of_map split: option.splits; fastforce)

lemma enumerate_all:
  "(\<And>index x. x \<in> set xs \<Longrightarrow> P index x \<longleftrightarrow> Q x) \<Longrightarrow>
     (\<forall>(index, x)\<in>set (enumerate n xs). P index x) \<longleftrightarrow> (\<forall>x\<in>set xs. Q x)"
  by (induction xs arbitrary: n) auto

lemma tool_value_accepted:
  "validateToolSchemaValue [] source False stepOrder raw schema target path = [] \<longleftrightarrow>
    (if raw = TNull then Schema_Nullable schema
     else
       (case Schema_Type schema of
          JSONSchemaTypeObject \<Rightarrow>
            (case object_fields raw of
               None \<Rightarrow> False
             | Some members \<Rightarrow>
                 (\<forall>name\<in>set (schema_required schema). map_of members name \<noteq> None) \<and>
                 (\<forall>(name, child)\<in>set members.
                    case map_of (schema_properties schema) name of
                      None \<Rightarrow> False
                    | Some childSchema \<Rightarrow> validateToolSchemaValue [] source False stepOrder child childSchema
                        (appendReferenceKey target name) (fixedJSONFieldPath path name) = []))
        | JSONSchemaTypeArray \<Rightarrow>
            (case (Schema_Items schema, raw) of
               (Some items, TArray elements) \<Rightarrow>
                 (\<forall>(index, element)\<in>set (enumerate 0 elements).
                    validateToolSchemaValue [] source False stepOrder element items
                      (appendReferenceIndex target (of_nat index)) (index_path path index) = [])
             | _ \<Rightarrow> False)
        | _ \<Rightarrow> matchesJSONSchemaPrimitive raw (Schema_Type schema)))"
  by (subst validateToolSchemaValue.simps)
    (simp add: Let_def concat_eq_Nil_conv split_beta split: JSONSchemaType.splits option.splits jtext.splits)

lemma tool_value_agrees:
  "validateToolSchemaValue [] source False stepOrder raw schema target path = [] \<longleftrightarrow>
     conformsToToolSchema (decode_any raw) schema"
proof (induction "size raw" arbitrary: raw schema target path rule: less_induct)
  case less
  show ?case
  proof (cases "raw = TNull")
    case True
    then show ?thesis by (subst tool_value_accepted) simp
  next
    case present: False
    show ?thesis
    proof (cases "Schema_Type schema")
      case JSONSchemaTypeObject
      show ?thesis
      proof (cases "object_fields raw")
        case None
        then have "\<not> conformsToToolSchema (decode_any raw) schema"
          using JSONSchemaTypeObject present by (cases raw) simp_all
        then show ?thesis using None JSONSchemaTypeObject present by (subst tool_value_accepted) simp
      next
        case (Some members)
        let ?good = "\<lambda>name child childSchema. validateToolSchemaValue [] source False stepOrder child childSchema
          (appendReferenceKey target name) (fixedJSONFieldPath path name) = []"
        have "?good name child childSchema \<longleftrightarrow> conformsToToolSchema (decode_any child) childSchema"
          if "(name, child) \<in> set members" for name child childSchema
          using that size_field [OF Some] by (intro less.hyps) simp
        note agrees = object_agrees [OF Some JSONSchemaTypeObject, of ?good, OF this]
        show ?thesis
          by (subst tool_value_accepted)
            (simp only: Some JSONSchemaTypeObject present agrees if_False option.case JSONSchemaType.case)
      qed
    next
      case JSONSchemaTypeArray
      show ?thesis
      proof (cases "\<exists>ts. raw = TArray ts")
        case True
        then obtain ts where ts: "raw = TArray ts" by blast
        have child: "validateToolSchemaValue [] source False stepOrder t items p q = [] \<longleftrightarrow> conformsToToolSchema (decode_any t) items"
          if "t \<in> set ts" for t items p q
          using that ts by (intro less.hyps) (simp add: less_Suc_eq_le size_list_estimation')
        note elements = enumerate_all [OF child]
        show ?thesis
          by (subst tool_value_accepted)
            (simp add: JSONSchemaTypeArray ts elements split: option.splits)
      next
        case False
        moreover from this have "\<not> conformsToToolSchema (decode_any raw) schema"
          using JSONSchemaTypeArray present by (cases raw) simp_all
        ultimately show ?thesis using JSONSchemaTypeArray present
          by (subst tool_value_accepted) (auto split: option.splits jtext.splits)
      qed
    qed (subst tool_value_accepted; use primitive_agrees [OF present, of schema] present in simp)+
  qed
qed

subsection \<open>Property of the two checks\<close>

text \<open>
  C34: Planner and step executor judge the input of a tool call alike. For an input without references the
  planner's check on raw JSON reports nothing exactly when the executor's check accepts the decoded input for
  the same tool, whatever nesting, null, number or repeated key it has: no plan is accepted that the executor then
  refuses for its schema, and none is refused that it would run.
\<close>

theorem planner_and_executor_agree:
  "validateToolInput [] source False stepOrder (TObject ms) (Tool_InputSchema tool) path = [] \<longleftrightarrow>
     (case decode_any (TObject ms) of
        JsonObject root \<Rightarrow>
          validateResolvedInput
            (request\<lparr>SER_Step := (SER_Step request)\<lparr>SP_Type := StepTypeToolCall\<rparr>, SER_ToolCapability := Some tool\<rparr>) root
      | _ \<Rightarrow> False)"
proof -
  have "validateToolInput [] source False stepOrder (TObject ms) (Tool_InputSchema tool) path = [] \<longleftrightarrow>
      Schema_Type (Tool_InputSchema tool) = JSONSchemaTypeObject \<and> \<not> Schema_Nullable (Tool_InputSchema tool) \<and>
      conformsToToolSchema (decode_any (TObject ms)) (Tool_InputSchema tool)"
    by (simp add: validateToolInput_def tool_value_agrees del: conformsToToolSchema.simps decode_any.simps)
  moreover obtain root where "decode_any (TObject ms) = JsonObject root" by simp
  ultimately show ?thesis by (simp add: validateResolvedInput_def del: conformsToToolSchema.simps decode_any.simps)
qed

end
