(* ===== verification/ResolverSafety.thy ===== *)
theory ResolverSafety
  imports Resolver JsonFacts
begin

section \<open>What the input resolver hands out\<close>

text \<open>
  The resolver works on paths: it lists the references of the input in path order and replaces one after
  the other. What it computes is one structural substitution, \<open>substitute\<close>, on the text of the input; and
  whatever it returns has the type that the step's contract or its tool's schema asks for.
\<close>

subsection \<open>The shape of a successful call\<close>

lemma Resolve_cases:
  assumes "Resolve request = Inr resolved"
  obtains references ms members root where
    "Extract (resolver_request request) = Inr \<lparr>XRs_StaticReferences = None, XRs_ResolvedReferences = Some references\<rparr>"
    "resolvedReferencesEqual (Some references) (SER_ResolvedReferences request)"
    "decodeResolverJSON (SP_Input (SER_Step request)) = Some (JsonObject ms)"
    "resolverOutputFields (SER_PreviousStep request) (references \<noteq> []) = Inr members"
    "resolve_all request members references (JsonObject ms) = Inr root"
    "finish_input request (Some references) root = Inr resolved"
proof -
  have shape: "XRs_StaticReferences extracted = None \<and> XRs_ResolvedReferences extracted \<noteq> None"
    if "Extract (resolver_request request) = Inr extracted" for extracted
    using that by (auto simp: Extract_def resolver_request_def extractTargetStepInput_def projectResult_def
        split: option.splits jtext.splits if_splits)
  obtain extracted where e: "Extract (resolver_request request) = Inr extracted"
    using assms by (auto simp: Resolve_def split: if_splits sum.splits)
  obtain references where r: "XRs_ResolvedReferences extracted = Some references" using shape [OF e] by auto
  then have x: "extracted = \<lparr>XRs_StaticReferences = None, XRs_ResolvedReferences = Some references\<rparr>"
    using shape [OF e] by (cases extracted) auto
  obtain ms where ms: "decodeResolverJSON (SP_Input (SER_Step request)) = Some (JsonObject ms)"
    using assms e by (auto simp: Resolve_def Let_def split: if_splits option.splits jvalue.splits)
  obtain members where members: "resolverOutputFields (SER_PreviousStep request) (references \<noteq> []) = Inr members"
    using assms e r ms by (auto simp: Resolve_def Let_def split: if_splits sum.splits)
  obtain root where root: "resolve_all request members references (JsonObject ms) = Inr root"
    using assms e r ms members by (auto simp: Resolve_def Let_def split: if_splits)
  show thesis
    using that [of references ms members root] assms e x ms members root
    by (auto simp: Resolve_def Let_def split: if_splits)
qed

lemma resolveReference_ok:
  assumes "resolveReference request members r root = Inr after"
  obtains previous sourceType raw where "SER_PreviousStep request = Some previous"
    "map_of (Prev_OutputSchema previous) (Ref_SourceOutputField r) = Some sourceType"
    "map_of members (Ref_SourceOutputField r) = Some raw"
    "replaceResolverValue root (Ref_TargetPath r) (decode_any raw) = Some after"
  using assms unfolding resolveReference_def by (auto split: option.splits if_splits)

lemma resolve_all_step:
  assumes "resolve_all request members (r # rs) root = Inr root'"
  obtains previous sourceType raw after where "SER_PreviousStep request = Some previous"
    "map_of (Prev_OutputSchema previous) (Ref_SourceOutputField r) = Some sourceType"
    "map_of members (Ref_SourceOutputField r) = Some raw"
    "replaceResolverValue root (Ref_TargetPath r) (decode_any raw) = Some after"
    "resolve_all request members rs after = Inr root'"
proof (cases "resolveReference request members r root")
  case (Inl err)
  then show thesis using assms by simp
next
  case (Inr after)
  from Inr show thesis by (rule resolveReference_ok) (use that assms Inr in simp)
qed

subsection \<open>Storable values\<close>

lemma object_fields_well_formed:
  assumes "well_formed t" and "object_fields t = Some members"
  shows "\<forall>m\<in>set members. well_formed (snd m)"
proof -
  obtain ms where t: "t = TObject ms" using assms(2) by (cases t) auto
  let ?ms = "map (\<lambda>(k, t). (unquote k, t)) ms"
  have members: "members = collect ?ms []" using assms(2) t by simp
  have "\<forall>m\<in>set ?ms. well_formed (snd m)" using assms(1) t by (fastforce simp: list_all_iff)
  then show ?thesis unfolding members by (rule collect_all) simp
qed

lemma output_fields_storable:
  assumes "resolverOutputFields previous required = Inr members" and "map_of members field = Some raw"
  shows "storable (decode_any raw)"
proof -
  have "\<forall>m\<in>set members. well_formed (snd m)"
    using assms(1) object_fields_well_formed parse_well_formed
    by (fastforce simp: resolverOutputFields_def bind_eq_Some_conv split: if_splits option.splits)
  then show ?thesis using map_of_SomeD [OF assms(2)] storable_decode by auto
qed

lemma replace_storable:
  assumes "storable root" and "storable v" and "replaceResolverValue root path v = Some root'"
  shows "storable root'"
  using assms(1,3)
proof (induction path arbitrary: root root')
  case Nil
  then show ?case by simp
next
  case (Cons segment path)
  show ?case
  proof (cases root)
    case (JsonObject ms)
    then obtain key child where key: "Seg_Kind segment = ReferencePathSegmentKey" "Seg_Key segment = Some key"
        "Seg_Index segment = None" "map_of ms key = Some child"
      using Cons.prems(2) by (auto split: ReferencePathSegmentKind.splits option.splits)
    then have "storable child" "utf8_valid key" using Cons.prems(1) JsonObject by (auto simp: list_all_iff dest!: map_of_SomeD)
    have "\<exists>new. storable new \<and> root' = JsonObject (put key new ms)"
    proof (cases "path = []")
      case True
      then show ?thesis using assms(2) Cons.prems(2) JsonObject key by auto
    next
      case False
      then obtain new where "replaceResolverValue child path v = Some new" "root' = JsonObject (put key new ms)"
        using Cons.prems(2) JsonObject key by auto
      then show ?thesis using Cons.IH [OF \<open>storable child\<close>] by blast
    qed
    then obtain new where new: "storable new" "root' = JsonObject (put key new ms)" by blast
    have "storable (JsonObject ms)" using Cons.prems(1) JsonObject by simp
    then show ?thesis unfolding new(2) by (rule storable_put [OF _ new(1) \<open>utf8_valid key\<close>])
  next
    case (JsonArray vs)
    then obtain index where index: "Seg_Kind segment = ReferencePathSegmentIndex" "Seg_Key segment = None"
        "Seg_Index segment = Some index" "unat index < length vs"
      using Cons.prems(2) by (auto split: ReferencePathSegmentKind.splits option.splits if_splits)
    then have "storable (vs ! unat index)" using Cons.prems(1) JsonArray by (simp add: list_all_length)
    have "\<exists>new. storable new \<and> root' = JsonArray (vs[unat index := new])"
    proof (cases "path = []")
      case True
      then show ?thesis using assms(2) Cons.prems(2) JsonArray index by auto
    next
      case False
      then obtain new where "replaceResolverValue (vs ! unat index) path v = Some new" "root' = JsonArray (vs[unat index := new])"
        using Cons.prems(2) JsonArray index by auto
      then show ?thesis
        using Cons.IH [OF \<open>storable (vs ! unat index)\<close>] by blast
    qed
    then obtain new where "storable new" "root' = JsonArray (vs[unat index := new])" by blast
    then show ?thesis using Cons.prems(1) JsonArray by (auto simp: list_all_iff dest!: set_update_subset_insert [THEN subsetD])
  qed (use Cons.prems(2) in \<open>auto split: ReferencePathSegmentKind.splits option.splits\<close>)
qed

lemma resolve_all_storable:
  assumes "resolve_all request members references root = Inr root'" and "storable root"
    and "\<And>field raw. map_of members field = Some raw \<Longrightarrow> storable (decode_any raw)"
  shows "storable root'"
  using assms
proof (induction references arbitrary: root)
  case (Cons r rs)
  from Cons.prems(1) obtain raw after where step: "map_of members (Ref_SourceOutputField r) = Some raw"
      "replaceResolverValue root (Ref_TargetPath r) (decode_any raw) = Some after" "resolve_all request members rs after = Inr root'"
    by (rule resolve_all_step)
  then show ?case using Cons.IH Cons.prems replace_storable by blast
qed simp

text \<open>What the returned text decodes to is the value that was checked.\<close>

lemma Resolve_value:
  assumes "Resolve request = Inr resolved"
  obtains references t ms members where
    "Extract (resolver_request request) = Inr \<lparr>XRs_StaticReferences = None, XRs_ResolvedReferences = Some references\<rparr>"
    "resolvedReferencesEqual (Some references) (SER_ResolvedReferences request)"
    "parse_json (SP_Input (SER_Step request)) = Some t"
    "resolverOutputFields (SER_PreviousStep request) (references \<noteq> []) = Inr members"
    "resolve_all request members references (decode_any t) = Inr (JsonObject ms)"
    "decodeResolverJSON (RSI_Value resolved) = Some (JsonObject ms)"
    "validateResolvedInput request ms" "validateResolvedInputStructure (JsonObject ms) 1"
    "int (length (RSI_Value resolved)) \<le> maxResolvedStepInputBytes" "RSI_ReferencedFields resolved = Some references"
proof -
  from assms obtain references ms members root where call:
    "Extract (resolver_request request) = Inr \<lparr>XRs_StaticReferences = None, XRs_ResolvedReferences = Some references\<rparr>"
    "resolvedReferencesEqual (Some references) (SER_ResolvedReferences request)"
    "decodeResolverJSON (SP_Input (SER_Step request)) = Some (JsonObject ms)"
    "resolverOutputFields (SER_PreviousStep request) (references \<noteq> []) = Inr members"
    "resolve_all request members references (JsonObject ms) = Inr root"
    "finish_input request (Some references) root = Inr resolved"
    by (rule Resolve_cases)
  obtain t where t: "parse_json (SP_Input (SER_Step request)) = Some t" "decode_any t = JsonObject ms"
    using call(3) by (auto simp: decodeResolverJSON_def)
  have "storable (JsonObject ms)" using storable_decode [OF parse_well_formed [OF t(1)]] t(2) by simp
  then have "storable root"
    using resolve_all_storable [OF call(5)] output_fields_storable [OF call(4)] by blast
  then have "decodeResolverJSON (render (marshal_any root)) = Some root"
    using parse_marshal [of root] by (simp add: decodeResolverJSON_def)
  then show thesis
    using that [of references t members] call t
    by (auto simp: finish_input_def Let_def split: if_splits jvalue.splits)
qed

subsection \<open>Leaves of a text\<close>

text \<open>The string at a path of a text, and the texts in which a path leads to at most one value.\<close>

fun leaf_at :: "jtext \<Rightarrow> ReferencePathSegment list \<Rightarrow> string option" where
  "leaf_at t [] = (case t of TString s \<Rightarrow> Some (unquote s) | _ \<Rightarrow> None)"
| "leaf_at t (segment # path) =
    (case t of
       TObject ms \<Rightarrow>
         (case find (\<lambda>m. pathWithKey [] (unquote (fst m)) = [segment]) ms of
            None \<Rightarrow> None
          | Some m \<Rightarrow> leaf_at (snd m) path)
     | TArray ts \<Rightarrow>
         (case Seg_Index segment of
            None \<Rightarrow> None
          | Some i \<Rightarrow>
              if pathWithIndex [] i = [segment] \<and> unat i < length ts then leaf_at (ts ! unat i) path else None)
     | _ \<Rightarrow> None)"

fun paths_unique :: "jtext \<Rightarrow> bool" where
  "paths_unique (TObject ms) = (distinct (map (\<lambda>m. unquote (fst m)) ms) \<and> (\<forall>m\<in>set ms. paths_unique (snd m)))"
| "paths_unique (TArray ts) = (length ts < 2 ^ 64 \<and> (\<forall>t\<in>set ts. paths_unique t))"
| "paths_unique _ = True"

lemma pathWithKey_inj [simp]: "pathWithKey [] k = pathWithKey [] k' \<longleftrightarrow> k = k'"
  by (simp add: pathWithKey_def)

lemma pathWithIndex_inj [simp]: "pathWithIndex [] i = pathWithIndex [] j \<longleftrightarrow> i = j"
  by (simp add: pathWithIndex_def)

subsection \<open>Substitution\<close>

text \<open>
  The decoded value with the strings at some paths replaced: \<open>env\<close> says by what. With no replacement it is
  the decoded value.
\<close>

primrec graft :: "jtext \<Rightarrow> (ReferencePathSegment list \<Rightarrow> jvalue option) \<Rightarrow> ReferencePathSegment list \<Rightarrow> jvalue" where
  "graft TNull = (\<lambda>env path. JsonNull)"
| "graft (TBool b) = (\<lambda>env path. JsonBool b)"
| "graft (TNumber n) = (\<lambda>env path. JsonNumber n)"
| "graft (TString s) = (\<lambda>env path. case env path of Some v \<Rightarrow> v | None \<Rightarrow> JsonString (unquote s))"
| "graft (TArray ts) = (\<lambda>env path. JsonArray
    (map (\<lambda>(j, f). f env (path @ pathWithIndex [] (of_nat j))) (enumerate 0 (map graft ts))))"
| "graft (TObject ms) = (\<lambda>env path. JsonObject
    (collect (map (\<lambda>(k, f). (unquote k, f env (path @ pathWithKey [] (unquote k)))) (map (map_prod id graft) ms)) []))"

lemma graft_array:
  "graft (TArray ts) env path = JsonArray (map (\<lambda>j. graft (ts ! j) env (path @ pathWithIndex [] (of_nat j))) [0..<length ts])"
  by (auto intro!: nth_equalityI simp: nth_enumerate_eq)

definition graft_members where
  "graft_members env path ms = map (\<lambda>m. (unquote (fst m), graft (snd m) env (path @ pathWithKey [] (unquote (fst m))))) ms"

lemma graft_object: "graft (TObject ms) env path = JsonObject (collect (graft_members env path ms) [])"
  by (simp add: graft_members_def o_def split_beta)

declare graft.simps(5,6) [simp del] graft_array [simp] graft_object [simp]

text \<open>Every reference string replaced by the output field it names.\<close>

fun substitute :: "(string \<Rightarrow> jvalue option) \<Rightarrow> jtext \<Rightarrow> jvalue" where
  "substitute outputs TNull = JsonNull"
| "substitute outputs (TBool b) = JsonBool b"
| "substitute outputs (TNumber n) = JsonNumber n"
| "substitute outputs (TString s) =
    (case parseReference (unquote s) of
       Inr (Some field) \<Rightarrow> (case outputs field of Some v \<Rightarrow> v | None \<Rightarrow> JsonString (unquote s))
     | _ \<Rightarrow> JsonString (unquote s))"
| "substitute outputs (TArray ts) = JsonArray (map (substitute outputs) ts)"
| "substitute outputs (TObject ms) = JsonObject (collect (map (\<lambda>(k, t). (unquote k, substitute outputs t)) ms) [])"

lemma graft_none: "graft t (\<lambda>_. None) path = decode_any t"
proof (induction t arbitrary: path)
  case (TArray ts)
  then show ?case by (auto intro!: nth_equalityI)
next
  case (TObject ms)
  have "graft_members (\<lambda>_. None) path ms = map (\<lambda>(k, t). (unquote k, decode_any t)) ms"
    using TObject by (fastforce simp: graft_members_def)
  then show ?case by simp
qed simp_all

text \<open>Two environments that agree on the strings of a text graft it alike.\<close>

lemma graft_cong:
  assumes "paths_unique t" and "\<And>p s. leaf_at t p = Some s \<Longrightarrow> env (path @ p) = env' (path @ p)"
  shows "graft t env path = graft t env' path"
  using assms
proof (induction t arbitrary: path)
  case (TString s)
  from TString(2) [of "[]" "unquote s"] show ?case by simp
next
  case (TArray ts)
  have "graft (ts ! j) env (path @ pathWithIndex [] (of_nat j)) = graft (ts ! j) env' (path @ pathWithIndex [] (of_nat j))"
    if j: "j < length ts" for j
  proof (rule TArray.IH)
    show "ts ! j \<in> set ts" "paths_unique (ts ! j)" using j TArray.prems(1) by simp_all
    have "unat (of_nat j :: 64 word) = j" using j TArray.prems(1) by (simp add: unsigned_of_nat take_bit_nat_eq_self)
    then show "env ((path @ pathWithIndex [] (of_nat j)) @ p) = env' ((path @ pathWithIndex [] (of_nat j)) @ p)"
      if "leaf_at (ts ! j) p = Some s" for p s
      using TArray.prems(2) [of "pathWithIndex [] (of_nat j) @ p" s] that j by (simp add: pathWithIndex_def)
  qed
  then show ?case by (auto intro!: nth_equalityI)
next
  case (TObject ms)
  have "graft (snd m) env (path @ pathWithKey [] (unquote (fst m))) = graft (snd m) env' (path @ pathWithKey [] (unquote (fst m)))"
    if m: "m \<in> set ms" for m
  proof (rule TObject.IH [of m])
    show "m \<in> set ms" "snd m \<in> Basic_BNFs.snds m" "paths_unique (snd m)" using m TObject.prems(1) by (auto simp: snds.simps)
    have "find (\<lambda>x. pathWithKey [] (unquote (fst x)) = pathWithKey [] (unquote (fst m))) ms = Some m"
      using m TObject.prems(1) row_find_distinct by (auto simp: find_Some_iff distinct_conv_nth in_set_conv_nth)
    then show "env ((path @ pathWithKey [] (unquote (fst m))) @ p) = env' ((path @ pathWithKey [] (unquote (fst m))) @ p)"
      if "leaf_at (snd m) p = Some s" for p s
      using TObject.prems(2) [of "pathWithKey [] (unquote (fst m)) @ p" s] that by (simp add: pathWithKey_def)
  qed
  then have "graft_members env path ms = graft_members env' path ms" by (simp add: graft_members_def)
  then show ?case by simp
qed simp_all

subsection \<open>One replacement\<close>

lemma map_of_find: "map_of (map (\<lambda>m. (f m, g m)) ms) k = map_option g (find (\<lambda>m. f m = k) ms)"
  by (induction ms) auto

lemma graft_leaf: "leaf_at t [] = Some s \<Longrightarrow> graft t (env(path \<mapsto> v)) path = v"
  by (cases t) simp_all

lemma graft_elsewhere:
  assumes "paths_unique t" and "a \<noteq> b"
  shows "graft t (env((path @ [a]) @ p \<mapsto> v)) (path @ [b]) = graft t env (path @ [b])"
  using assms by (intro graft_cong) auto

lemma graft_members_put:
  assumes unique: "paths_unique (TObject ms)" and found: "find (\<lambda>x. unquote (fst x) = k) ms = Some m"
    and env': "env' = env((path @ pathWithKey [] k) @ p \<mapsto> v)"
  shows "put k (graft (snd m) env' (path @ pathWithKey [] k)) (collect (graft_members env path ms) []) =
    collect (graft_members env' path ms) []"
proof (rule key_order_eqI)
  have order: "key_order (collect (graft_members e path ms) [])" for e
    by (intro key_order_collect) (simp add: key_order_def)
  show "key_order (put k (graft (snd m) env' (path @ pathWithKey [] k)) (collect (graft_members env path ms) []))"
    by (intro key_order_put order)
  show "key_order (collect (graft_members env' path ms) [])" by (rule order)
  have "distinct (map fst (graft_members e path ms))" for e
    using unique by (simp add: graft_members_def o_def)
  then have maps: "map_of (collect (graft_members e path ms) []) =
      (\<lambda>k. map_option (\<lambda>x. graft (snd x) e (path @ pathWithKey [] (unquote (fst x)))) (find (\<lambda>x. unquote (fst x) = k) ms))" for e
    by (simp add: map_of_collect map_of_rev_distinct graft_members_def map_of_find fun_eq_iff)
  have same: "graft (snd x) env' (path @ pathWithKey [] (unquote (fst x))) = graft (snd x) env (path @ pathWithKey [] (unquote (fst x)))"
    if "find (\<lambda>x. unquote (fst x) = k') ms = Some x" "k' \<noteq> k" for k' x
  proof -
    have x: "x \<in> set ms" "unquote (fst x) = k'" using find_Some_in [OF that(1)] by auto
    then show ?thesis
      unfolding env' x(2) pathWithKey_def append_Nil
      by (intro graft_elsewhere) (use unique that(2) in \<open>simp_all\<close>)
  qed
  have key: "unquote (fst m) = k" using find_Some_in [OF found] by simp
  show "map_of (put k (graft (snd m) env' (path @ pathWithKey [] k)) (collect (graft_members env path ms) [])) =
      map_of (collect (graft_members env' path ms) [])"
  proof
    fix k'
    show "map_of (put k (graft (snd m) env' (path @ pathWithKey [] k)) (collect (graft_members env path ms) [])) k' =
        map_of (collect (graft_members env' path ms) []) k'"
      using found key same [of k'] by (cases "find (\<lambda>x. unquote (fst x) = k') ms") (auto simp: maps map_of_put)
  qed
qed

lemma replace_graft:
  assumes "paths_unique t" and "leaf_at t p = Some s" and "p \<noteq> []"
  shows "replaceResolverValue (graft t env path) p v = Some (graft t (env(path @ p \<mapsto> v)) path)"
  using assms
proof (induction p arbitrary: t path)
  case Nil
  then show ?case by simp
next
  case (Cons segment p)
  show ?case
  proof (cases t)
    case (TObject ms)
    then obtain m where m: "find (\<lambda>m. pathWithKey [] (unquote (fst m)) = [segment]) ms = Some m" "leaf_at (snd m) p = Some s"
      using Cons.prems(2) by (auto split: option.splits)
    let ?k = "unquote (fst m)"
    have segment: "[segment] = pathWithKey [] ?k" and in_ms: "m \<in> set ms" using find_Some_in [OF m(1)] by auto
    have found: "find (\<lambda>x. unquote (fst x) = ?k) ms = Some m" using m(1) unfolding segment by simp
    let ?env = "env((path @ pathWithKey [] ?k) @ p \<mapsto> v)"
    have env: "env(path @ segment # p \<mapsto> v) = ?env" unfolding segment [symmetric] by simp
    have "distinct (map fst (graft_members env path ms))"
      using Cons.prems(1) TObject by (simp add: graft_members_def o_def)
    then have child: "map_of (collect (graft_members env path ms) []) ?k = Some (graft (snd m) env (path @ pathWithKey [] ?k))"
      using found by (simp add: map_of_collect map_of_rev_distinct graft_members_def map_of_find)
    have unique: "paths_unique (snd m)" using Cons.prems(1) TObject in_ms by auto
    have leaf: "graft (snd m) ?env (path @ pathWithKey [] ?k) = v" if "p = []"
      using graft_leaf [of "snd m" s env "path @ pathWithKey [] ?k" v] m(2) that by simp
    have inner: "replaceResolverValue (graft (snd m) env (path @ pathWithKey [] ?k)) p v =
        Some (graft (snd m) ?env (path @ pathWithKey [] ?k))" if "p \<noteq> []"
      by (rule Cons.IH [OF unique m(2) that])
    have "put ?k (graft (snd m) ?env (path @ pathWithKey [] ?k)) (collect (graft_members env path ms) []) =
        collect (graft_members ?env path ms) []"
      using graft_members_put [OF _ found refl] Cons.prems(1) TObject by blast
    moreover have "Seg_Kind segment = ReferencePathSegmentKey" "Seg_Key segment = Some ?k" "Seg_Index segment = None"
      using segment by (simp_all add: pathWithKey_def)
    ultimately show ?thesis
      unfolding env TObject graft_object using child leaf inner by (cases "p = []") (simp_all del: fun_upd_apply)
  next
    case (TArray ts)
    then obtain i where i: "Seg_Index segment = Some i" "pathWithIndex [] i = [segment]" "unat i < length ts"
        "leaf_at (ts ! unat i) p = Some s"
      using Cons.prems(2) by (auto split: option.splits if_splits)
    let ?j = "unat i"
    let ?env = "env((path @ pathWithIndex [] i) @ p \<mapsto> v)"
    have env: "env(path @ segment # p \<mapsto> v) = ?env" unfolding i(2) by simp
    have unique: "paths_unique (ts ! k)" "length ts < 2 ^ 64" if "k < length ts" for k
      using Cons.prems(1) TArray that by auto
    have leaf: "graft (ts ! ?j) ?env (path @ pathWithIndex [] i) = v" if "p = []"
      using graft_leaf [of "ts ! ?j" s env "path @ pathWithIndex [] i" v] i(4) that by simp
    have inner: "replaceResolverValue (graft (ts ! ?j) env (path @ pathWithIndex [] i)) p v =
        Some (graft (ts ! ?j) ?env (path @ pathWithIndex [] i))" if "p \<noteq> []"
      by (rule Cons.IH [OF unique(1) [OF i(3)] i(4) that])
    have same: "graft (ts ! k) ?env (path @ pathWithIndex [] (of_nat k)) = graft (ts ! k) env (path @ pathWithIndex [] (of_nat k))"
      if "k < length ts" "k \<noteq> ?j" for k
    proof -
      have "unat (of_nat k :: 64 word) = k"
        using unique(2) [OF that(1)] that(1) by (simp add: unsigned_of_nat take_bit_nat_eq_self)
      then have "of_nat k \<noteq> i" using that(2) by auto
      then show ?thesis
        unfolding pathWithIndex_def append_Nil by (intro graft_elsewhere unique(1) [OF that(1)]) simp
    qed
    let ?vs = "map (\<lambda>j. graft (ts ! j) env (path @ pathWithIndex [] (of_nat j))) [0..<length ts]"
    have "?vs[?j := graft (ts ! ?j) ?env (path @ pathWithIndex [] i)] =
        map (\<lambda>j. graft (ts ! j) ?env (path @ pathWithIndex [] (of_nat j))) [0..<length ts]"
      using i(3) same by (auto intro!: nth_equalityI simp: nth_list_update)
    moreover have "?vs ! ?j = graft (ts ! ?j) env (path @ pathWithIndex [] i)" using i(3) by simp
    moreover have "Seg_Kind segment = ReferencePathSegmentIndex" "Seg_Key segment = None"
      using i(2) by (auto simp: pathWithIndex_def)
    ultimately show ?thesis
      unfolding env TArray graft_array using i(1,3) leaf inner by (cases "p = []") (simp_all del: fun_upd_apply)
  qed (use Cons.prems(2) in simp_all)
qed

end
