(* ===== verification/ResolverRefinement.thy ===== *)
theory ResolverRefinement
  imports ResolverSafety
begin

section \<open>The resolver refines a substitution\<close>

text \<open>
  The extractor finds the reference strings of a text, wherever they are; the replacements the resolver
  makes, one per reference, add up to the substitution of all of them.
\<close>

subsection \<open>What the extractor finds\<close>

text \<open>The references of a text below a path: its strings that the grammar accepts.\<close>

definition finds :: "ReferencePathSegment list \<Rightarrow> jtext \<Rightarrow> referenceFact set" where
  "finds path t = {f. \<exists>p s. leaf_at t p = Some s \<and> Fact_TargetPath f = path @ p \<and>
     parseReference s = Inr (Some (Fact_SourceOutputField f))}"

definition all_parse :: "jtext \<Rightarrow> bool" where
  "all_parse t \<longleftrightarrow> (\<forall>p s. leaf_at t p = Some s \<longrightarrow> (\<exists>r. parseReference s = Inr r))"

lemma leaf_at_scalar:
  "leaf_at TNull p = None" "leaf_at (TBool b) p = None" "leaf_at (TNumber n) p = None"
  "leaf_at (TString s) p = (if p = [] then Some (unquote s) else None)"
  by (cases p; simp)+

lemma finds_scalar:
  "finds path TNull = {}" "finds path (TBool b) = {}" "finds path (TNumber n) = {}"
  "finds path (TString s) = {f. Fact_TargetPath f = path \<and> parseReference (unquote s) = Inr (Some (Fact_SourceOutputField f))}"
  by (simp_all add: finds_def leaf_at_scalar)

lemma walkString_finds:
  assumes "walkString request value path facts = Inr facts'"
  shows "set facts' = set facts \<union> {f. Fact_TargetPath f = path \<and> parseReference value = Inr (Some (Fact_SourceOutputField f))} \<and>
    (\<exists>r. parseReference value = Inr r)"
  using assms by (auto simp: walkString_def Let_def split: option.splits)

text \<open>The keys of an object are different, so a key finds the member it belongs to.\<close>

lemma walkObject_keys:
  "walkObject request ms path seen facts = Inr facts' \<Longrightarrow>
     distinct (map (\<lambda>m. unquote (fst m)) ms) \<and> (\<forall>m\<in>set ms. unquote (fst m) \<notin> seen)"
proof (induction ms arbitrary: seen facts)
  case (Cons m ms)
  obtain k t where "m = (k, t)" by (cases m)
  then obtain facts1 where "walkObject request ms path (insert (unquote k) seen) facts1 = Inr facts'" "unquote k \<notin> seen"
    using Cons.prems by auto
  then show ?case using Cons.IH [of "insert (unquote k) seen" facts1] \<open>m = (k, t)\<close> by auto
qed simp

lemma find_unique:
  "distinct (map f ms) \<Longrightarrow> m \<in> set ms \<Longrightarrow> find (\<lambda>x. f x = f m) ms = Some m"
  by (induction ms) (auto simp: rev_image_eqI)

lemma finds_object:
  assumes "distinct (map (\<lambda>m. unquote (fst m)) ms)"
  shows "finds path (TObject ms) = (\<Union>m\<in>set ms. finds (pathWithKey path (unquote (fst m))) (snd m))"
    and "all_parse (TObject ms) \<longleftrightarrow> (\<forall>m\<in>set ms. all_parse (snd m))"
proof -
  have leaf: "leaf_at (TObject ms) p = Some s \<longleftrightarrow>
      (\<exists>m\<in>set ms. \<exists>q. p = pathWithKey [] (unquote (fst m)) @ q \<and> leaf_at (snd m) q = Some s)" for p s
  proof (cases p)
    case Nil
    then show ?thesis by (simp add: pathWithKey_def)
  next
    case (Cons segment q)
    have "find (\<lambda>x. pathWithKey [] (unquote (fst x)) = [segment]) ms = Some m"
      if "m \<in> set ms" "[segment] = pathWithKey [] (unquote (fst m))" for m
      using find_unique [OF assms that(1)] unfolding that(2) by simp
    then show ?thesis
      unfolding Cons by (fastforce simp: pathWithKey_def dest!: find_Some_in split: option.splits)
  qed
  show "finds path (TObject ms) = (\<Union>m\<in>set ms. finds (pathWithKey path (unquote (fst m))) (snd m))"
    by (auto simp: finds_def leaf pathWithKey_def)
  show "all_parse (TObject ms) \<longleftrightarrow> (\<forall>m\<in>set ms. all_parse (snd m))"
    unfolding all_parse_def leaf by blast
qed

lemma finds_array:
  assumes "length ts < 2 ^ 64"
  shows "finds path (TArray ts) = (\<Union>j<length ts. finds (pathWithIndex path (of_nat j)) (ts ! j))"
    and "all_parse (TArray ts) \<longleftrightarrow> (\<forall>t\<in>set ts. all_parse t)"
proof -
  have index: "unat (of_nat j :: 64 word) = j" if "j < length ts" for j
    using that assms by (simp add: unsigned_of_nat take_bit_nat_eq_self)
  have leaf: "leaf_at (TArray ts) p = Some s \<longleftrightarrow>
      (\<exists>j<length ts. \<exists>q. p = pathWithIndex [] (of_nat j) @ q \<and> leaf_at (ts ! j) q = Some s)" for p s
  proof (cases p)
    case Nil
    then show ?thesis by (simp add: pathWithIndex_def)
  next
    case (Cons segment q)
    show ?thesis
    proof
      assume "leaf_at (TArray ts) p = Some s"
      then obtain i where "pathWithIndex [] i = [segment]" "unat i < length ts" "leaf_at (ts ! unat i) q = Some s"
        unfolding Cons by (auto split: option.splits if_splits)
      then show "\<exists>j<length ts. \<exists>q. p = pathWithIndex [] (of_nat j) @ q \<and> leaf_at (ts ! j) q = Some s"
        unfolding Cons by (intro exI [of _ "unat i"]) simp
    next
      assume "\<exists>j<length ts. \<exists>q. p = pathWithIndex [] (of_nat j) @ q \<and> leaf_at (ts ! j) q = Some s"
      then show "leaf_at (TArray ts) p = Some s" using index by (auto simp: pathWithIndex_def)
    qed
  qed
  show "finds path (TArray ts) = (\<Union>j<length ts. finds (pathWithIndex path (of_nat j)) (ts ! j))"
    by (auto simp: finds_def leaf pathWithIndex_def)
  show "all_parse (TArray ts) \<longleftrightarrow> (\<forall>t\<in>set ts. all_parse t)"
    unfolding all_parse_def leaf by (metis in_set_conv_nth)
qed

text \<open>Arrays that are shorter than the index type is wide.\<close>

fun arrays_fit :: "jtext \<Rightarrow> bool" where
  "arrays_fit (TObject ms) = (\<forall>m\<in>set ms. arrays_fit (snd m))"
| "arrays_fit (TArray ts) = (length ts < 2 ^ 64 \<and> (\<forall>t\<in>set ts. arrays_fit t))"
| "arrays_fit _ = True"

lemma walk_finds:
  "walkValue request t path facts = Inr facts' \<Longrightarrow> arrays_fit t \<Longrightarrow>
     set facts' = set facts \<union> finds path t \<and> all_parse t \<and> paths_unique t"
  "walkArray request ts path i facts = Inr facts' \<Longrightarrow> \<forall>t\<in>set ts. arrays_fit t \<Longrightarrow>
     set facts' = set facts \<union> (\<Union>j<length ts. finds (pathWithIndex path (i + of_nat j)) (ts ! j)) \<and>
     (\<forall>t\<in>set ts. all_parse t \<and> paths_unique t)"
  "walkObject request ms path seen facts = Inr facts' \<Longrightarrow> \<forall>m\<in>set ms. arrays_fit (snd m) \<Longrightarrow>
     set facts' = set facts \<union> (\<Union>m\<in>set ms. finds (pathWithKey path (unquote (fst m))) (snd m)) \<and>
     (\<forall>m\<in>set ms. all_parse (snd m) \<and> paths_unique (snd m))"
proof (induction request t path facts and request ts path i facts and request ms path seen facts
    arbitrary: facts' and facts' and facts' rule: walkValue_walkArray_walkObject.induct)
  case (1 request ms path facts)
  then have keys: "distinct (map (\<lambda>m. unquote (fst m)) ms)" using walkObject_keys [of request ms path "{}" facts facts'] by simp
  show ?case using 1 finds_object [OF keys] keys by simp
next
  case (2 request ts path facts)
  then show ?case using finds_array [of ts] by simp
next
  case (3 request s path facts)
  then show ?case
    using walkString_finds [of request "unquote s" path facts facts'] by (auto simp: finds_scalar all_parse_def leaf_at_scalar)
next
  case (8 request t ts path index facts)
  obtain facts1 where step: "walkValue request t (pathWithIndex path index) facts = Inr facts1"
      "walkArray request ts path (index + 1) facts1 = Inr facts'"
    using "8.prems"(1) by auto
  have "(\<Union>j<length (t # ts). finds (pathWithIndex path (index + of_nat j)) ((t # ts) ! j)) =
      finds (pathWithIndex path index) t \<union> (\<Union>j<length ts. finds (pathWithIndex path (index + 1 + of_nat j)) (ts ! j))"
    by (simp add: lessThan_Suc_eq_insert_0 add.assoc)
  then show ?case using "8.IH"(1) [OF step(1)] "8.IH"(2) [OF step(1) step(2)] "8.prems"(2) by auto
next
  case (10 request k t ms path seen facts)
  obtain facts1 where step: "walkValue request t (pathWithKey path (unquote k)) facts = Inr facts1"
      "walkObject request ms path (insert (unquote k) seen) facts1 = Inr facts'"
    using "10.prems"(1) by auto
  show ?case
    using "10.IH" "10.prems" step by auto
qed (simp_all add: finds_scalar all_parse_def leaf_at_scalar split: if_splits)

lemma json_value_fit:
  "json_value n cs = Some (t, r) \<Longrightarrow> n < 2 ^ 64 \<Longrightarrow> arrays_fit t"
  "json_elements n cs = Some (ts, r) \<Longrightarrow> n < 2 ^ 64 \<Longrightarrow> length ts \<le> n \<and> (\<forall>t\<in>set ts. arrays_fit t)"
  "json_members n cs = Some (ms, r) \<Longrightarrow> n < 2 ^ 64 \<Longrightarrow> \<forall>m\<in>set ms. arrays_fit (snd m)"
  by (induction n cs and n cs and n cs arbitrary: t r and ts r and ms r rule: json_value_json_elements_json_members.induct)
    (fastforce split: list.splits if_splits option.splits prod.splits)+

lemma parse_fits: "parse_json cs = Some t \<Longrightarrow> length cs < 2 ^ 63 \<Longrightarrow> arrays_fit t"
  using json_value_fit(1) [of "Suc (length cs)" cs t]
  by (auto simp: parse_json_def split: option.splits if_splits simp del: json_value.simps)

subsection \<open>Replacing all references\<close>

lemma resolve_all_graft:
  assumes "resolve_all request members references (graft t env []) = Inr root" and "paths_unique t"
    and "\<And>r. r \<in> set references \<Longrightarrow> leaf_at t (Ref_TargetPath r) \<noteq> None \<and> Ref_TargetPath r \<noteq> []"
    and "\<And>r. r \<in> set references \<Longrightarrow> g (Ref_TargetPath r) = map_option decode_any (map_of members (Ref_SourceOutputField r))"
  shows "root = graft t (\<lambda>p. if p \<in> Ref_TargetPath ` set references then g p else env p) []"
  using assms
proof (induction references arbitrary: env)
  case Nil
  then show ?case by simp
next
  case (Cons r rs)
  let ?p = "Ref_TargetPath r"
  from Cons.prems(1) obtain raw after where step: "map_of members (Ref_SourceOutputField r) = Some raw"
      "replaceResolverValue (graft t env []) ?p (decode_any raw) = Some after" "resolve_all request members rs after = Inr root"
    by (rule resolve_all_step)
  obtain s where s: "leaf_at t ?p = Some s" "?p \<noteq> []" using Cons.prems(3) [of r] by auto
  have g: "g ?p = Some (decode_any raw)" using Cons.prems(4) [of r] step(1) by simp
  have "after = graft t (env(?p \<mapsto> decode_any raw)) []"
    using replace_graft [OF Cons.prems(2) s, of env "[]" "decode_any raw"] step(2) by simp
  then have "root = graft t (\<lambda>p. if p \<in> Ref_TargetPath ` set rs then g p else (env(?p \<mapsto> decode_any raw)) p) []"
    using step(3) Cons.prems(2-4) by (intro Cons.IH) (simp_all del: fun_upd_apply)
  also have "(\<lambda>p. if p \<in> Ref_TargetPath ` set rs then g p else (env(?p \<mapsto> decode_any raw)) p) =
      (\<lambda>p. if p \<in> Ref_TargetPath ` set (r # rs) then g p else env p)"
    using g by (auto simp: fun_eq_iff)
  finally show ?case .
qed

text \<open>A graft that knows the output field of every reference string is the substitution.\<close>

lemma graft_substitute:
  assumes "paths_unique t"
    and "\<And>p s. leaf_at t p = Some s \<Longrightarrow> env (path @ p) = (case parseReference s of Inr (Some field) \<Rightarrow> outputs field | _ \<Rightarrow> None)"
  shows "graft t env path = substitute outputs t"
  using assms
proof (induction t arbitrary: path)
  case (TString s)
  from TString(2) [of "[]" "unquote s"] show ?case by (auto split: sum.splits option.splits)
next
  case (TArray ts)
  have "graft (ts ! j) env (path @ pathWithIndex [] (of_nat j)) = substitute outputs (ts ! j)" if j: "j < length ts" for j
  proof (rule TArray.IH)
    show "ts ! j \<in> set ts" "paths_unique (ts ! j)" using j TArray.prems(1) by simp_all
    have "unat (of_nat j :: 64 word) = j" using j TArray.prems(1) by (simp add: unsigned_of_nat take_bit_nat_eq_self)
    then show "env ((path @ pathWithIndex [] (of_nat j)) @ p) =
        (case parseReference s of Inr (Some field) \<Rightarrow> outputs field | _ \<Rightarrow> None)" if "leaf_at (ts ! j) p = Some s" for p s
      using TArray.prems(2) [of "pathWithIndex [] (of_nat j) @ p" s] that j by (simp add: pathWithIndex_def)
  qed
  then show ?case by (auto intro!: nth_equalityI)
next
  case (TObject ms)
  have "graft (snd m) env (path @ pathWithKey [] (unquote (fst m))) = substitute outputs (snd m)" if m: "m \<in> set ms" for m
  proof (rule TObject.IH [of m])
    show "m \<in> set ms" "snd m \<in> Basic_BNFs.snds m" "paths_unique (snd m)" using m TObject.prems(1) by (auto simp: snds.simps)
    have "find (\<lambda>x. pathWithKey [] (unquote (fst x)) = pathWithKey [] (unquote (fst m))) ms = Some m"
      using find_unique [of "\<lambda>m. unquote (fst m)" ms m] m TObject.prems(1) by simp
    then show "env ((path @ pathWithKey [] (unquote (fst m))) @ p) =
        (case parseReference s of Inr (Some field) \<Rightarrow> outputs field | _ \<Rightarrow> None)" if "leaf_at (snd m) p = Some s" for p s
      using TObject.prems(2) [of "pathWithKey [] (unquote (fst m)) @ p" s] that by (simp add: pathWithKey_def)
  qed
  then have "graft_members env path ms = map (\<lambda>(k, t). (unquote k, substitute outputs t)) ms"
    by (auto simp: graft_members_def)
  then show ?case by simp
qed simp_all

subsection \<open>The refinement\<close>

lemma set_sort_by [simp]: "set (sort_by lt xs) = set xs"
proof -
  have insert: "set (insert_by lt x ys) = insert x (set ys)" for x ys by (induction ys) auto
  show ?thesis by (induction xs) (simp_all add: sort_by_def insert)
qed

text \<open>The fields of the preceding step's output, as values.\<close>

definition previous_output :: "StepExecutorRequest \<Rightarrow> string \<Rightarrow> jvalue option" where
  "previous_output request field =
    (case SER_PreviousStep request of
       None \<Rightarrow> None
     | Some previous \<Rightarrow>
         (case decodeResolverJSON (Prev_SafeOutput previous) of
            Some (JsonObject ms) \<Rightarrow> map_of ms field
          | _ \<Rightarrow> None))"

lemma output_fields_values:
  assumes "resolverOutputFields (SER_PreviousStep request) True = Inr members"
  shows "map_option decode_any (map_of members field) = previous_output request field"
proof -
  obtain p t where p: "SER_PreviousStep request = Some p" "parse_json (Prev_SafeOutput p) = Some t" "object_fields t = Some members"
    using assms by (auto simp: resolverOutputFields_def bind_eq_Some_conv split: option.splits)
  have "decode_any t = JsonObject (map (\<lambda>(k, t). (k, decode_any t)) members)" by (rule decode_object [OF p(3)])
  then show ?thesis using p(1,2) by (simp add: previous_output_def decodeResolverJSON_def map_of_map)
qed

text \<open>The references that the extractor lists are the reference strings of the text.\<close>

lemma extracted_references:
  assumes "Extract (resolver_request request) = Inr \<lparr>XRs_StaticReferences = None, XRs_ResolvedReferences = Some references\<rparr>"
    and "parse_json (SP_Input (SER_Step request)) = Some t" and "length (SP_Input (SER_Step request)) < 2 ^ 63"
  shows "paths_unique t" "leaf_at t [] = None"
    "{(Ref_TargetPath r, Ref_SourceOutputField r) |r. r \<in> set references} =
     {(p, field). \<exists>s. leaf_at t p = Some s \<and> parseReference s = Inr (Some field)}"
proof -
  obtain ms facts where t: "t = TObject ms" and walk: "walkObject (resolver_request request) ms [] {} [] = Inr facts"
      and references: "references = map (\<lambda>fact. \<lparr>Ref_TargetPath = Fact_TargetPath fact,
        Ref_SourceStepID = Src_StepID (the (XRq_SourceStep (resolver_request request))),
        Ref_SourceOutputField = Fact_SourceOutputField fact\<rparr>) (sort_by (\<lambda>l r. compareFacts l r < 0) facts)"
    using assms(1,2)
    by (auto simp: Extract_def resolver_request_def extractTargetStepInput_def projectResult_def split: option.splits jtext.splits if_splits)
  have "walkValue (resolver_request request) t [] [] = Inr facts" using walk t by simp
  from walk_finds(1) [OF this parse_fits [OF assms(2,3)]]
  have facts: "set facts = finds [] t" "paths_unique t" by simp_all
  show "paths_unique t" "leaf_at t [] = None" using facts(2) t by simp_all
  show "{(Ref_TargetPath r, Ref_SourceOutputField r) |r. r \<in> set references} =
      {(p, field). \<exists>s. leaf_at t p = Some s \<and> parseReference s = Inr (Some field)}"
    (is "?left = ?right")
  proof -
    have "?left = (\<lambda>r. (Ref_TargetPath r, Ref_SourceOutputField r)) ` set references" by blast
    also have "\<dots> = (\<lambda>f. (Fact_TargetPath f, Fact_SourceOutputField f)) ` finds [] t"
      using facts(1) unfolding references by (simp add: image_image)
    also have "\<dots> = ?right"
    proof (intro set_eqI iffI)
      fix x
      assume "x \<in> ?right"
      then obtain p field s where x: "x = (p, field)" "leaf_at t p = Some s" "parseReference s = Inr (Some field)" by auto
      let ?f = "\<lparr>Fact_TargetPath = p, Fact_SourceOutputField = field\<rparr>"
      have "?f \<in> finds [] t" using x by (simp add: finds_def)
      then show "x \<in> (\<lambda>f. (Fact_TargetPath f, Fact_SourceOutputField f)) ` finds [] t"
        using x(1) by (intro image_eqI [of _ _ ?f]) simp_all
    qed (auto simp: finds_def)
    finally show ?thesis .
  qed
qed

lemma resolve_all_substitutes:
  assumes "resolve_all request members references (decode_any t) = Inr root"
    and "paths_unique t" and "leaf_at t [] = None"
    and refs: "{(Ref_TargetPath r, Ref_SourceOutputField r) |r. r \<in> set references} =
      {(p, field). \<exists>s. leaf_at t p = Some s \<and> parseReference s = Inr (Some field)}"
    and members: "\<And>field. references \<noteq> [] \<Longrightarrow> map_option decode_any (map_of members field) = outputs field"
  shows "root = substitute outputs t"
proof -
  define g where "g p = (case leaf_at t p of None \<Rightarrow> None
    | Some s \<Rightarrow> (case parseReference s of Inr (Some field) \<Rightarrow> outputs field | _ \<Rightarrow> None))" for p
  have found: "\<exists>s. leaf_at t (Ref_TargetPath r) = Some s \<and> parseReference s = Inr (Some (Ref_SourceOutputField r))"
    if "r \<in> set references" for r
  proof -
    have "(Ref_TargetPath r, Ref_SourceOutputField r) \<in> {(Ref_TargetPath r, Ref_SourceOutputField r) |r. r \<in> set references}"
      using that by blast
    then show ?thesis unfolding refs by simp
  qed
  have "root = graft t (\<lambda>p. if p \<in> Ref_TargetPath ` set references then g p else None) []"
  proof (rule resolve_all_graft [where g = g and env = "\<lambda>_. None"])
    show "resolve_all request members references (graft t (\<lambda>_. None) []) = Inr root" using assms(1) by (simp add: graft_none)
    show "leaf_at t (Ref_TargetPath r) \<noteq> None \<and> Ref_TargetPath r \<noteq> []" if "r \<in> set references" for r
      using found [OF that] assms(3) by auto
    show "g (Ref_TargetPath r) = map_option decode_any (map_of members (Ref_SourceOutputField r))" if "r \<in> set references" for r
    proof -
      have "references \<noteq> []" using that by auto
      then show ?thesis using found [OF that] members [of "Ref_SourceOutputField r"] by (auto simp: g_def)
    qed
  qed (rule assms(2))
  also have "\<dots> = substitute outputs t"
  proof (rule graft_substitute [OF assms(2)])
    fix p s
    assume leaf: "leaf_at t p = Some s"
    have "p \<in> Ref_TargetPath ` set references" if "parseReference s = Inr (Some field)" for field
    proof -
      have "(p, field) \<in> {(Ref_TargetPath r, Ref_SourceOutputField r) |r. r \<in> set references}"
        unfolding refs using leaf that by blast
      then show ?thesis by auto
    qed
    then show "(if [] @ p \<in> Ref_TargetPath ` set references then g ([] @ p) else None) =
        (case parseReference s of Inr (Some field) \<Rightarrow> outputs field | _ \<Rightarrow> None)"
      using leaf by (auto simp: g_def split: sum.splits option.splits)
  qed
  finally show ?thesis .
qed

subsection \<open>An input with one reference\<close>

definition sample_step_request :: StepExecutorRequest where
  "sample_step_request =
    \<lparr>SER_Scope = \<lparr>Scope_TaskID = ''t1'', Scope_RunID = ''r1'', Scope_ExecutionVersion = 1,
       Scope_ExecutionConfigHash = '''', Scope_WorkerID = ''w1'', Scope_StepID = ''s2'', Scope_DeadlineAt = 9\<rparr>,
     SER_NextAction = CheckpointNextActionExecuteStep,
     SER_Step = \<lparr>SP_StepID = ''s2'', SP_RunID = ''r1'', SP_PlanID = ''p1'', SP_Sequence = 2, SP_Type = StepTypeAnalysis,
       SP_Name = ''look'', SP_Input = concat [[CHR 0x7B, quote_char], ''instruction'', [quote_char, CHR 0x3A, quote_char], ''look'',
         [quote_char, CHR 0x2C, quote_char], ''evidence'', [quote_char, CHR 0x3A, quote_char], ''step.output.pod'', [quote_char, CHR 0x7D]],
       SP_OutputSchema = [], SP_ToolName = '''', SP_Status = StepStatusPending\<rparr>,
     SER_PreviousStep = Some \<lparr>Prev_StepID = ''s1'', Prev_Sequence = 1, Prev_Status = StepStatusCompleted,
       Prev_SafeOutput = concat [[CHR 0x7B, quote_char], ''pod'', [quote_char, CHR 0x3A, CHR 0x7B, quote_char], ''n'',
         [quote_char, CHR 0x3A, CHR ''1'', CHR 0x7D, CHR 0x7D]],
       Prev_OutputSchema = [(''pod'', JSONSchemaTypeObject)]\<rparr>,
     SER_ResolvedReferences = Some [\<lparr>Ref_TargetPath = pathWithKey [] ''evidence'', Ref_SourceStepID = ''s1'',
       Ref_SourceOutputField = ''pod''\<rparr>],
     SER_Agent = None, SER_AgentAuthorization = None, SER_ToolCapability = None\<rparr>"

lemma sample_resolves: "\<exists>resolved. Resolve sample_step_request = Inr resolved"
proof -
  have "\<not> isl (Resolve sample_step_request)" by code_simp
  then show ?thesis by (cases "Resolve sample_step_request") simp_all
qed

subsection \<open>What the resolver hands out\<close>

text \<open>
  C32: A resolved input has its type. Whatever the resolver returns is the text of one JSON object that
  conforms to the schema of the tool, or to the input contract of the other step types, keeps the limits of
  depth, fields and size, and carries the references that the checkpoint froze.
\<close>

theorem resolved_input_has_its_type:
  assumes "Resolve request = Inr resolved"
  shows "\<exists>ms. decodeResolverJSON (RSI_Value resolved) = Some (JsonObject ms) \<and>
    validateResolvedInput request ms \<and> validateResolvedInputStructure (JsonObject ms) 1 \<and>
    int (length (RSI_Value resolved)) \<le> maxResolvedStepInputBytes \<and>
    resolvedReferencesEqual (RSI_ReferencedFields resolved) (SER_ResolvedReferences request)"
proof -
  from assms show ?thesis by (rule Resolve_value) auto
qed

theorem resolved_input_has_its_type_witness:
  "\<exists>resolved ms. Resolve sample_step_request = Inr resolved \<and>
    decodeResolverJSON (RSI_Value resolved) = Some (JsonObject ms) \<and> validateResolvedInput sample_step_request ms"
  using sample_resolves resolved_input_has_its_type [of sample_step_request] by blast

text \<open>
  C31: The resolver implements a substitution. The code lists the reference strings of the input, compares
  them with the frozen ones and replaces them one by one through their paths; the input it hands out is
  the stored input with every string \<open>step.output.<field>\<close> replaced by that field of the preceding
  step's output, and nothing else changed. The input is shorter than 2 to the 63 bytes, the most a Go string can have.
\<close>

theorem resolver_refines_substitution:
  assumes "Resolve request = Inr resolved" and "length (SP_Input (SER_Step request)) < 2 ^ 63"
  shows "\<exists>t. parse_json (SP_Input (SER_Step request)) = Some t \<and>
    decodeResolverJSON (RSI_Value resolved) = Some (substitute (previous_output request) t)"
proof -
  from assms(1) obtain references t ms members where r:
    "Extract (resolver_request request) = Inr \<lparr>XRs_StaticReferences = None, XRs_ResolvedReferences = Some references\<rparr>"
    "parse_json (SP_Input (SER_Step request)) = Some t"
    "resolverOutputFields (SER_PreviousStep request) (references \<noteq> []) = Inr members"
    "resolve_all request members references (decode_any t) = Inr (JsonObject ms)"
    "decodeResolverJSON (RSI_Value resolved) = Some (JsonObject ms)"
    by (rule Resolve_value)
  have "JsonObject ms = substitute (previous_output request) t"
    using r(3) output_fields_values [of request members]
    by (intro resolve_all_substitutes [OF r(4) extracted_references [OF r(1,2) assms(2)]]) simp
  then show ?thesis using r(2,5) by simp
qed

theorem resolver_refines_substitution_witness:
  "\<exists>resolved t. Resolve sample_step_request = Inr resolved \<and>
    decodeResolverJSON (RSI_Value resolved) = Some (substitute (previous_output sample_step_request) t)"
proof -
  have "length (SP_Input (SER_Step sample_step_request)) < 2 ^ 63" by (simp add: sample_step_request_def)
  then show ?thesis using sample_resolves resolver_refines_substitution [of sample_step_request] by blast
qed

end
