(* ===== verification/PlannerSafety.thy ===== *)
theory PlannerSafety
  imports PlannerService PlanAgreement ResolverRefinement
begin

section \<open>What the planner returns\<close>

text \<open>
  A draft without issues keeps the rules of a plan, and \<open>GeneratePlan\<close> returns nothing else, after at most
  two calls of the model.
\<close>

subsection \<open>No issues\<close>

lemma sort_by_empty [simp]: "sort_by lt xs = [] \<longleftrightarrow> xs = []"
proof (cases xs)
  case (Cons x ys)
  have "insert_by lt x zs \<noteq> []" for zs by (cases zs) simp_all
  then show ?thesis using Cons by (simp add: sort_by_def)
qed (simp add: sort_by_def)

lemma sort_by_Nil [simp]: "sort_by lt [] = []"
  by (simp add: sort_by_def)

lemma add_new_empty: "add_new found kept = [] \<longleftrightarrow> found = [] \<and> kept = []"
  by (induction found kept rule: add_new.induct) auto

lemma collector_empty [simp]: "collector_result found = [] \<longleftrightarrow> found = []"
  by (auto simp: collector_result_def Let_def add_new_empty)

lemma no_validation_issues [simp]: "Validator_Validate request = [] \<longleftrightarrow> found_issues request = []"
  by (auto simp: Validator_Validate_def Let_def)

lemma accepted_shape:
  assumes "validatePlanShape request = []"
  defines "steps \<equiv> Draft_Steps (VPR_Draft request)"
  shows "steps \<noteq> [] \<and> int (length steps) \<le> uint (VPR_MaxSteps request) \<and> length steps \<le> 20 \<and>
    Draft_Type (last steps) = StepTypeVerification"
  using assms by (auto simp: validatePlanShape_def Let_def not_less maxPlanSteps_def split: if_splits)

lemma accepted_step_shape:
  assumes "validateStepShape step index stepOrder = []"
  shows "Draft_Sequence step = of_nat (Suc index) \<and> StepType_Valid (Draft_Type step) \<and> Draft_OutputSchema step \<noteq> [] \<and>
    (if Draft_Type step = StepTypeToolCall then \<not> no_tool_name (Draft_ToolName step) else Draft_ToolName step = None)"
  using assms by (auto simp: validateStepShape_def validateOutputSchema_def Let_def split: if_splits)

lemma accepted_extraction:
  assumes "validateStepSemantics steps index stepOrder snapshot allowed_names = []"
  shows "\<not> isl (Extract (static_request (steps ! index) (if 0 < index then Some (steps ! (index - 1)) else None)))"
  using assms
  by (cases "Extract (static_request (steps ! index) (if 0 < index then Some (steps ! (index - 1)) else None))")
    (simp_all only: validateStepSemantics_def Let_def sum.case sum.disc not_False_eq_True,
     simp_all split: option.splits jtext.splits)

lemma accepted_tool:
  assumes "validateStepSemantics steps index stepOrder snapshot allowed_names = []"
    and "Draft_Type (steps ! index) = StepTypeToolCall" and "Draft_ToolName (steps ! index) = Some name" and "\<not> blank name"
  shows "name \<in> set allowed_names \<and> (\<exists>tool\<in>set (snapshot_tools snapshot). Spec_ToolName tool = name \<and> Spec_Enabled tool)"
proof -
  have "name \<in> set allowed_names \<and> (\<exists>tool. indexPlanningTools snapshot name = Some tool \<and> Spec_Enabled tool)"
    using assms by (simp add: validateStepSemantics_def Let_def split: option.splits jtext.splits if_splits)
  moreover have "tool \<in> set (snapshot_tools snapshot) \<and> Spec_ToolName tool = name"
    if "indexPlanningTools snapshot name = Some tool" for tool
    using map_of_SomeD [OF that [unfolded indexPlanningTools_def]] by auto
  ultimately show ?thesis by blast
qed

definition plan_in_order :: "StepDraft list \<Rightarrow> bool" where
  "plan_in_order steps \<longleftrightarrow>
     steps \<noteq> [] \<and> Draft_Type (last steps) = StepTypeVerification \<and>
     (\<forall>i<length steps. Draft_Sequence (steps ! i) = of_nat (Suc i) \<and> StepType_Valid (Draft_Type (steps ! i)) \<and>
        \<not> isl (Extract (static_request (steps ! i) (if 0 < i then Some (steps ! (i - 1)) else None))))"

definition tools_permitted :: "StepDraft list \<Rightarrow> string list \<Rightarrow> PlanningToolSnapshot \<Rightarrow> bool" where
  "tools_permitted steps names snapshot \<longleftrightarrow>
     (\<forall>step\<in>set steps. if Draft_Type step = StepTypeToolCall
        then \<exists>name. Draft_ToolName step = Some name \<and> name \<in> set names \<and>
          (\<exists>tool\<in>set (snapshot_tools snapshot). Spec_ToolName tool = name \<and> Spec_Enabled tool)
        else Draft_ToolName step = None)"

lemma accepted_plan:
  assumes "Validator_Validate request = []"
  shows "plan_in_order (Draft_Steps (VPR_Draft request))"
    "tools_permitted (Draft_Steps (VPR_Draft request)) (VPR_AllowedTools request) (VPR_ToolSnapshot request)"
    "int (length (Draft_Steps (VPR_Draft request))) \<le> uint (VPR_MaxSteps request)"
    "inspectPlanSafety (VPR_Draft request) = []"
proof -
  let ?steps = "Draft_Steps (VPR_Draft request)"
  have found: "validatePlanShape request = []" "\<forall>i<length ?steps. step_issues request i = []" "inspectPlanSafety (VPR_Draft request) = []"
    using assms by (auto simp: found_issues_def SafeResultProcessor_Validate_def)
  have step: "validateStepShape (?steps ! i) i (step_order (?steps ! i) i) = []"
      "validateStepSemantics ?steps i (step_order (?steps ! i) i) (VPR_ToolSnapshot request) (VPR_AllowedTools request) = []"
    if "i < length ?steps" for i
    using found(2) that by (auto simp: step_issues_def Let_def)
  show "inspectPlanSafety (VPR_Draft request) = []" by (rule found(3))
  show "int (length ?steps) \<le> uint (VPR_MaxSteps request)" using accepted_shape [OF found(1)] by blast
  show "plan_in_order ?steps" unfolding plan_in_order_def
    using accepted_shape [OF found(1)] accepted_step_shape [OF step(1)] accepted_extraction [OF step(2)] by blast
  show "tools_permitted ?steps (VPR_AllowedTools request) (VPR_ToolSnapshot request)"
    unfolding tools_permitted_def
  proof
    fix draft_step
    assume "draft_step \<in> set ?steps"
    then obtain i where i: "i < length ?steps" "draft_step = ?steps ! i" by (auto simp: in_set_conv_nth)
    show "if Draft_Type draft_step = StepTypeToolCall
        then \<exists>name. Draft_ToolName draft_step = Some name \<and> name \<in> set (VPR_AllowedTools request) \<and>
          (\<exists>tool\<in>set (snapshot_tools (VPR_ToolSnapshot request)). Spec_ToolName tool = name \<and> Spec_Enabled tool)
        else Draft_ToolName draft_step = None"
      using accepted_step_shape [OF step(1) [OF i(1)]] accepted_tool [OF step(2) [OF i(1)]] i(2)
      by (auto simp: no_tool_name_def split: option.splits if_splits)
  qed
qed

subsection \<open>The calls\<close>

definition call_phases :: "ModelRequest list \<Rightarrow> string list" where
  "call_phases calls = map (Meta_Phase \<circ> MRq_Metadata) calls"

lemma repair_calls:
  "repair env request snapshot initial candidate issues = (result, calls) \<Longrightarrow> call_phases calls \<in> {[], [''REPAIR'']}"
  by (auto simp: repair_def call_phases_def model_request_def split: sum.splits option.splits prod.splits)

lemma finish_initial_calls:
  "finish_initial env request snapshot answer = (result, calls) \<Longrightarrow> call_phases calls \<in> {[], [''REPAIR'']}"
  using repair_calls
  by (auto simp: finish_initial_def Let_def call_phases_def split: sum.splits generate_error.splits prod.splits option.splits list.splits)

subsection \<open>Results\<close>

definition returned_plan :: "PlannerRequest \<Rightarrow> PlanningToolSnapshot \<Rightarrow> ValidatedPlanDraft \<Rightarrow> bool" where
  "returned_plan request snapshot plan \<longleftrightarrow>
     (\<exists>draft. plan = validatedResult request draft \<and>
        Validator_Validate
          \<lparr>VPR_Draft = draft, VPR_MaxSteps = PRq_MaxSteps request, VPR_AllowedTools = allowed_tools request,
           VPR_ToolSnapshot = snapshot\<rparr> = [])"

lemma candidate_accepted:
  "validateCandidate content request snapshot = (Some draft, []) \<Longrightarrow> returned_plan request snapshot (validatedResult request draft)"
  by (auto simp: validateCandidate_def returned_plan_def simp del: no_validation_issues split: sum.splits)

lemma finish_repair_plan:
  "finish_repair env request snapshot issues answer = Inr plan \<Longrightarrow> returned_plan request snapshot plan"
  using candidate_accepted
  by (auto simp: finish_repair_def Let_def attempt_eq_Inr split: sum.splits generate_error.splits prod.splits option.splits list.splits)

lemma repair_plan: "repair env request snapshot initial candidate issues = (Inr plan, calls) \<Longrightarrow> returned_plan request snapshot plan"
  using finish_repair_plan by (auto simp: repair_def split: sum.splits option.splits prod.splits)

lemma finish_initial_plan:
  "finish_initial env request snapshot answer = (Inr plan, calls) \<Longrightarrow> returned_plan request snapshot plan"
  using repair_plan candidate_accepted
  by (auto simp: finish_initial_def Let_def attempt_eq_Inr split: sum.splits generate_error.splits prod.splits option.splits list.splits)

lemma load_catalog_ok:
  "load_catalog env request = Inr snapshot \<Longrightarrow>
     ValidatePlanningToolSnapshot (Env_Digest env) (PRq_ToolCatalogSelector request) snapshot = Inr ()"
  by (auto simp: load_catalog_def CatalogConsumer_Load_def attempt_eq_Inr require_def split: sum.splits if_splits prod.splits option.splits CatalogError.splits)

lemma returned_plan_facts:
  assumes "returned_plan request snapshot plan"
  shows "Valid_TaskID plan = PRq_TaskID request" "Valid_RunID plan = PRq_RunID request"
    "Valid_ExecutionVersion plan = PRq_ExecutionVersion request" "plan_in_order (Valid_Steps plan)"
    "int (length (Valid_Steps plan)) \<le> uint (PRq_MaxSteps request)"
    "tools_permitted (Valid_Steps plan) (allowed_tools request) snapshot"
    "inspectPlanSafety \<lparr>Draft_Goal = Valid_Goal plan, Draft_Steps = Valid_Steps plan\<rparr> = []"
proof -
  obtain draft where draft: "plan = validatedResult request draft"
      "Validator_Validate \<lparr>VPR_Draft = draft, VPR_MaxSteps = PRq_MaxSteps request, VPR_AllowedTools = allowed_tools request,
        VPR_ToolSnapshot = snapshot\<rparr> = []"
    using assms by (auto simp: returned_plan_def simp del: no_validation_issues)
  note accepted = accepted_plan [OF draft(2)]
  show "Valid_TaskID plan = PRq_TaskID request" "Valid_RunID plan = PRq_RunID request"
    "Valid_ExecutionVersion plan = PRq_ExecutionVersion request"
    by (simp_all add: draft(1) validatedResult_def)
  show "plan_in_order (Valid_Steps plan)" "int (length (Valid_Steps plan)) \<le> uint (PRq_MaxSteps request)"
    "tools_permitted (Valid_Steps plan) (allowed_tools request) snapshot"
    using accepted(1-3) by (simp_all add: draft(1) validatedResult_def)
  show "inspectPlanSafety \<lparr>Draft_Goal = Valid_Goal plan, Draft_Steps = Valid_Steps plan\<rparr> = []"
    using accepted(4) by (simp add: draft(1) validatedResult_def inspectPlanSafety_def)
qed

lemma generate_plan_cases:
  assumes "GeneratePlan env request = (result, calls)"
  obtains err where "result = Inl err" "calls = []"
  | snapshot answer messages more where "load_catalog env request = Inr snapshot"
      "finish_initial env request snapshot answer = (result, more)"
      "calls = model_request request messages PlannerPhaseInitial # more"
  using assms by (auto simp: GeneratePlan_def Let_def attempt_eq_Inr split: sum.splits prod.splits)

subsection \<open>A small call\<close>

text \<open>A canonical text fails only on a string that is not UTF-8.\<close>

fun valid_jcs :: "jcs \<Rightarrow> bool" where
  "valid_jcs (JcsString s) = utf8_valid s"
| "valid_jcs (JcsList vs) = list_all valid_jcs vs"
| "valid_jcs (JcsMap ms) = list_all (\<lambda>m. utf8_valid (fst m) \<and> valid_jcs (snd m)) ms"
| "valid_jcs _ = True"

lemma all_some_defined: "all_some xs \<noteq> None \<longleftrightarrow> None \<notin> set xs"
  by (induction xs) (auto split: option.splits)

lemma all_some_map: "(\<And>x. x \<in> set xs \<Longrightarrow> f x \<noteq> None) \<Longrightarrow> all_some (map f xs) \<noteq> None"
proof (induction xs)
  case (Cons x xs)
  then have "f x \<noteq> None" "all_some (map f xs) \<noteq> None" by simp_all
  then show ?case by auto
qed simp

lemma valid_jcs_written: "valid_jcs v \<Longrightarrow> writeJCSValue v \<noteq> None"
proof (induction v)
  case (JcsList vs)
  then have "all_some (map writeJCSValue vs) \<noteq> None" by (intro all_some_map) (simp add: list_all_iff)
  then show ?case by auto
next
  case (JcsMap ms)
  let ?ms = "sort_by (\<lambda>l r. compareUTF16 (fst l) (fst r) < 0) (map (\<lambda>(k, v). (k, writeJCSValue v)) ms)"
  have "write_member m \<noteq> None" if "m \<in> set ?ms" for m
    using that JcsMap by (fastforce simp: list_all_iff write_member_def writeJCSString_def)
  then have "all_some (map write_member ?ms) \<noteq> None" by (rule all_some_map)
  then show ?case using JcsMap.prems by (auto simp: list_all_iff)
qed (simp_all add: writeJCSString_def)

definition sample_selector :: PlanningToolCatalogSelector where
  "sample_selector =
    \<lparr>Selector_CatalogID = ''c'', Selector_AllowedTools = Some [], Selector_ExpectedRegistryVersion = ''v'',
     Selector_ExpectedSnapshotHash = replicate 64 (CHR ''a'')\<rparr>"

definition sample_snapshot :: PlanningToolSnapshot where
  "sample_snapshot =
    \<lparr>Snap_SchemaVersion = 1, Snap_RegistryVersion = ''v'', Snap_SnapshotHash = replicate 64 (CHR ''a''),
     Snap_Tools = Some []\<rparr>"

definition sample_request :: PlannerRequest where
  "sample_request =
    \<lparr>PRq_TaskID = ''t'', PRq_RunID = ''r'', PRq_ExecutionVersion = 1, PRq_TaskInput = ''check'', PRq_AgentID = ''a'',
     PRq_AgentSystemPrompt = ''help'', PRq_AllowedTools = Some [], PRq_MaxSteps = 5, PRq_ModelName = plannerModelName,
     PRq_GenerationParams = \<lparr>GP_Temperature = \<lparr>CD_coefficient = 2, CD_scale = 1\<rparr>,
       GP_TopP = \<lparr>CD_coefficient = 1, CD_scale = 0\<rparr>, GP_MaxOutputTokens = 1\<rparr>,
     PRq_ExecutionConfigHash = replicate 64 (CHR ''a''), PRq_ToolCatalogSelector = sample_selector\<rparr>"

definition sample_env :: planner_env where
  "sample_env =
    \<lparr>Env_Context = (\<lambda>_. None), Env_Remaining = None, Env_Catalog = (\<lambda>_. (sample_snapshot, None)),
     Env_Model = (\<lambda>_ _. (\<lparr>MRs_AssistantContent = sample_answer, MRs_ProviderRequestID = None\<rparr>, None)),
     Env_CallExpired = (\<lambda>_. False), Env_Digest = (\<lambda>_. replicate 64 (CHR ''a'')), Env_ModelCallTimeout = plannerModelCallTimeout\<rparr>"

lemma sample_request_valid: "validatePlannerRequest sample_request = Inr ()"
  by code_simp

lemma sample_catalog: "load_catalog sample_env sample_request = Inr sample_snapshot"
proof -
  have "validCatalogString ''c''" by code_simp
  have "valid_jcs (JcsMap
      [(''catalog_id'', JcsString ''c''), (''registry_version'', JcsString ''v''), (''schema_version'', JcsNumber 1), (''tools'', JcsList [])])"
    by code_simp
  then have "CanonicalPlanningToolSnapshotPayload ''c'' sample_snapshot \<noteq> None"
    using valid_jcs_written \<open>validCatalogString ''c''\<close>
    by (simp add: CanonicalPlanningToolSnapshotPayload_def sample_snapshot_def snapshot_tools_def del: writeJCSValue.simps not_None_eq)
  moreover have "ValidatePlanningToolCatalogSelector sample_selector = Inr ()" by code_simp
  moreover have "validSHA256 (replicate 64 (CHR ''a''))" "validCatalogString ''v''" by code_simp+
  ultimately have "ValidatePlanningToolSnapshot (\<lambda>_. replicate 64 (CHR ''a'')) sample_selector sample_snapshot = Inr ()"
    by (auto simp: ValidatePlanningToolSnapshot_def sample_selector_def sample_snapshot_def PlanningToolSnapshotSchemaVersionV1_def
        snapshot_tools_def ComputePlanningToolSnapshotHash_def)
  then show ?thesis
    by (simp add: load_catalog_def CatalogConsumer_Load_def sample_env_def sample_request_def
        \<open>ValidatePlanningToolCatalogSelector sample_selector = Inr ()\<close>)
qed

text \<open>Each check of the small plan is evaluated on its own.\<close>

definition sample_check :: ValidatePlanRequest where
  "sample_check =
    \<lparr>VPR_Draft = sample_plan, VPR_MaxSteps = 5, VPR_AllowedTools = [], VPR_ToolSnapshot = sample_snapshot\<rparr>"

lemma sample_shape: "validatePlanShape sample_check = []"
  by code_simp

lemma sample_step: "validateStepShape (Draft_Steps sample_plan ! 0) 0 1 = []"
  by code_simp

lemma sample_semantics: "validateStepSemantics (Draft_Steps sample_plan) 0 1 sample_snapshot [] = []"
  by code_simp

lemma sample_limits: "validateDraftResourceLimits sample_plan = []"
  by code_simp

lemma sample_is_safe: "inspectPlanSafety sample_plan = []"
  by code_simp

lemma sample_accepted: "validateCandidate sample_answer sample_request sample_snapshot = (Some sample_plan, [])"
proof -
  have "length (Draft_Steps sample_plan) = 1" "step_order (Draft_Steps sample_plan ! 0) 0 = 1"
    by (simp_all add: sample_plan_def step_order_def)
  then have "Validator_Validate sample_check = []"
    unfolding no_validation_issues found_issues_def SafeResultProcessor_Validate_def
    using sample_shape sample_step sample_semantics sample_limits sample_is_safe
    by (simp add: sample_check_def step_issues_def)
  then show ?thesis
    by (simp only: validateCandidate_def sample_parses sum.case) (simp add: sample_request_def allowed_tools_def sample_check_def)
qed

lemma sample_texts:
  "json_text ''help'' = quote_char # ''help'' @ [quote_char]" "json_text ''check'' = quote_char # ''check'' @ [quote_char]"
  "decimal 5 = ''5''"
  by code_simp+

lemma sample_answer_fits: "\<not> blank sample_answer" "utf8_valid sample_answer" "int (length sample_answer) \<le> maxModelResponseBytes"
  by code_simp+

lemma sample_prompt: "\<exists>messages. BuildInitial (initial_request sample_request sample_snapshot) = Inr messages"
proof -
  have "length (initial_sections (initial_request sample_request sample_snapshot) ''[]'') \<le> 10000"
    unfolding initial_sections_def prompt_section_def platformPlanContract_def planWireProtocol_def minimumPlanExample_def
      completePlanExample_def nonToolAndToolInputContract_def
    by (simp add: initial_request_def sample_request_def sample_texts line_end_def)
  moreover have "promptToolSummary [] = Some ''[]''" by (simp add: promptToolSummary_def)
  moreover have "validPromptRequest (initial_request sample_request sample_snapshot)" by code_simp
  ultimately show ?thesis
    by (simp add: BuildInitial_def buildPrompt_def initial_request_def sample_snapshot_def snapshot_tools_def maxInitialPromptBytes_def)
qed

lemma sample_env_context: "Env_Context sample_env moment = None"
  by (simp add: sample_env_def)

lemma sample_plan_generated:
  "\<exists>calls. GeneratePlan sample_env sample_request = (Inr (validatedResult sample_request sample_plan), calls)"
proof -
  obtain messages where prompt: "BuildInitial (initial_request sample_request sample_snapshot) = Inr messages"
    using sample_prompt by blast
  have answer: "generate sample_env sample_request messages PlannerPhaseInitial (callTimeout sample_env) = Inr sample_answer"
    using sample_answer_fits by (simp add: generate_def sample_env_def plannerCancellation_def)
  show ?thesis
    unfolding GeneratePlan_def sample_request_valid sample_catalog
    using prompt answer plannerCancellation_def sample_accepted
    by (simp add: finish_initial_def sample_env_context)
qed

subsection \<open>Properties of the planner\<close>

text \<open>
  C33: What the planner hands on is a valid plan. However the model, the catalogue and the context behave, one call
  of \<open>GeneratePlan\<close> asks the model at most twice, first for a plan and then for one repair. A plan comes back
  under the identifiers and the version of the request; its steps are numbered from 1 on, the last verifies, there
  are no more than the request allows, every reference is legal and reads the step before; every tool call names an
  enabled tool of the frozen catalogue that the request allows; and no text of it looks like a credential or holds
  a control character.
\<close>

theorem generated_plan_is_valid:
  assumes "GeneratePlan env request = (result, calls)"
  shows "call_phases calls \<in> {[], [''INITIAL''], [''INITIAL'', ''REPAIR'']} \<and>
    (\<forall>plan. result = Inr plan \<longrightarrow>
       calls \<noteq> [] \<and> Valid_TaskID plan = PRq_TaskID request \<and> Valid_RunID plan = PRq_RunID request \<and>
       Valid_ExecutionVersion plan = PRq_ExecutionVersion request \<and>
       plan_in_order (Valid_Steps plan) \<and> int (length (Valid_Steps plan)) \<le> uint (PRq_MaxSteps request) \<and>
       (\<exists>snapshot. ValidatePlanningToolSnapshot (Env_Digest env) (PRq_ToolCatalogSelector request) snapshot = Inr () \<and>
          tools_permitted (Valid_Steps plan) (allowed_tools request) snapshot) \<and>
       inspectPlanSafety \<lparr>Draft_Goal = Valid_Goal plan, Draft_Steps = Valid_Steps plan\<rparr> = [])"
  using assms
proof (cases rule: generate_plan_cases)
  case (1 err)
  then show ?thesis by (simp add: call_phases_def)
next
  case (2 snapshot answer messages more)
  have "call_phases calls \<in> {[''INITIAL''], [''INITIAL'', ''REPAIR'']}"
    using finish_initial_calls [OF 2(2)] by (auto simp: 2(3) call_phases_def model_request_def)
  moreover have "returned_plan request snapshot plan" if "result = Inr plan" for plan
    using finish_initial_plan 2(2) that by blast
  note returned_plan_facts [OF this]
  ultimately show ?thesis using load_catalog_ok [OF 2(1)] 2(3)
    by (intro conjI allI impI exI [of _ snapshot]) simp_all
qed

theorem generated_plan_is_valid_witness:
  "plan_in_order (Draft_Steps sample_plan) \<and> inspectPlanSafety \<lparr>Draft_Goal = ''check'', Draft_Steps = Draft_Steps sample_plan\<rparr> = []"
proof -
  obtain calls where call: "GeneratePlan sample_env sample_request = (Inr (validatedResult sample_request sample_plan), calls)"
    using sample_plan_generated by blast
  have "Draft_Goal sample_plan = ''check''" by (simp add: sample_plan_def)
  then show ?thesis using generated_plan_is_valid [OF call] by (simp add: validatedResult_def)
qed

end
