(* ===== verification/ModelStepSafety.thy ===== *)
theory ModelStepSafety
  imports ModelStep JsonFacts
begin

section \<open>What a model step hands out\<close>

text \<open>
  The specification says of a value alone when nothing in it is to be redacted: no control characters but tab, line feed
  and carriage return, the replacement text under every sensitive key, no string that looks like a credential. Cleaning a value gives
  such a value, leaves such values alone, and keeps the shape the output schema asks for.
\<close>

fun clean :: "jvalue \<Rightarrow> bool" where
  "clean (JsonObject ms) =
    list_all (\<lambda>(key, child). \<not> containsUnsafeModelControl key \<and>
      (if sensitiveModelKey key then child = JsonString modelRedactedValue else clean child)) ms"
| "clean (JsonArray vs) = list_all clean vs"
| "clean (JsonString s) = (\<not> containsUnsafeModelControl s \<and> \<not> sensitiveModelString s)"
| "clean v = True"

lemma all_some_map_Some: "all_some (map Some ys) = Some ys"
  by (induction ys) simp_all

lemma all_some_Some: "all_some xs = Some ys \<longleftrightarrow> xs = map Some ys"
proof
  show "all_some xs = Some ys \<Longrightarrow> xs = map Some ys"
    by (induction xs arbitrary: ys) (auto split: option.splits)
qed (simp add: all_some_map_Some)

lemma map_eq_map_Some: "map f xs = map Some ys \<longleftrightarrow> list_all2 (\<lambda>x y. f x = Some y) xs ys"
  by (simp add: list_all2_conv_all_nth list_eq_iff_nth_eq) auto

lemma list_all2_image: "list_all2 P xs ys \<Longrightarrow> y \<in> set ys \<Longrightarrow> \<exists>x\<in>set xs. P x y"
  by (induction rule: list_all2_induct) auto

lemma redacted_clean: "clean (JsonString modelRedactedValue)"
  by code_simp

lemma redacted_utf8: "utf8_valid modelRedactedValue"
  by code_simp

lemma sanitized_object:
  assumes "sanitizeModelValue (JsonObject ms) = Some v"
  obtains safe where "v = JsonObject safe" and "map fst safe = map fst ms"
    and "\<forall>m\<in>set safe. \<not> containsUnsafeModelControl (fst m) \<and>
      (sensitiveModelKey (fst m) \<and> snd m = JsonString modelRedactedValue \<or>
       \<not> sensitiveModelKey (fst m) \<and> (\<exists>child. (fst m, child) \<in> set ms \<and> sanitizeModelValue child = Some (snd m)))"
proof -
  obtain safe where safe: "v = JsonObject safe" "list_all2 (\<lambda>m m'. (case m of (key, child) \<Rightarrow>
      if containsUnsafeModelControl key then None
      else if sensitiveModelKey key then Some (key, JsonString modelRedactedValue)
      else map_option (Pair key) (sanitizeModelValue child)) = Some m') ms safe"
    using assms by (auto simp: all_some_Some map_eq_map_Some)
  have "map fst safe = map fst ms"
    using safe(2) by (induction rule: list_all2_induct) (auto split: if_splits)
  moreover have "\<forall>m\<in>set safe. \<not> containsUnsafeModelControl (fst m) \<and>
      (sensitiveModelKey (fst m) \<and> snd m = JsonString modelRedactedValue \<or>
       \<not> sensitiveModelKey (fst m) \<and> (\<exists>child. (fst m, child) \<in> set ms \<and> sanitizeModelValue child = Some (snd m)))"
    using safe(2) by (induction rule: list_all2_induct) (fastforce split: if_splits)+
  ultimately show ?thesis using that safe(1) by blast
qed

lemma sanitized_clean: "sanitizeModelValue v = Some v' \<Longrightarrow> clean v'"
proof (induction v arbitrary: v')
  case (JsonArray vs)
  then obtain safe where "v' = JsonArray safe" "list_all2 (\<lambda>x y. sanitizeModelValue x = Some y) vs safe"
    by (auto simp: all_some_Some map_eq_map_Some)
  then show ?case using JsonArray.IH by (auto simp: list_all_iff dest!: list_all2_image)
next
  case (JsonObject ms)
  from JsonObject.prems obtain safe where safe: "v' = JsonObject safe" 
    "\<forall>m\<in>set safe. \<not> containsUnsafeModelControl (fst m) \<and>
      (sensitiveModelKey (fst m) \<and> snd m = JsonString modelRedactedValue \<or>
       \<not> sensitiveModelKey (fst m) \<and> (\<exists>child. (fst m, child) \<in> set ms \<and> sanitizeModelValue child = Some (snd m)))"
    by (rule sanitized_object) blast
  show ?case unfolding safe(1) using safe(2) JsonObject.IH
    by (fastforce simp: list_all_iff)
qed (use redacted_clean in \<open>auto split: if_splits\<close>)

lemma clean_unchanged: "clean v \<Longrightarrow> sanitizeModelValue v = Some v"
proof (induction v)
  case (JsonArray vs)
  then show ?case by (auto simp: all_some_Some list_all_iff)
next
  case (JsonObject ms)
  then show ?case by (fastforce simp: all_some_Some list_all_iff)
qed simp_all

lemma sanitized_storable: "sanitizeModelValue v = Some v' \<Longrightarrow> storable v \<Longrightarrow> storable v'"
proof (induction v arbitrary: v')
  case (JsonArray vs)
  then obtain safe where "v' = JsonArray safe" "list_all2 (\<lambda>x y. sanitizeModelValue x = Some y) vs safe"
    by (auto simp: all_some_Some map_eq_map_Some)
  then show ?case using JsonArray.IH JsonArray.prems(2) by (auto simp: list_all_iff dest!: list_all2_image)
next
  case (JsonObject ms)
  from JsonObject.prems(1) obtain safe where safe: "v' = JsonObject safe" "map fst safe = map fst ms"
    "\<forall>m\<in>set safe. \<not> containsUnsafeModelControl (fst m) \<and>
      (sensitiveModelKey (fst m) \<and> snd m = JsonString modelRedactedValue \<or>
       \<not> sensitiveModelKey (fst m) \<and> (\<exists>child. (fst m, child) \<in> set ms \<and> sanitizeModelValue child = Some (snd m)))"
    by (rule sanitized_object)
  have "utf8_valid (fst m) \<and> storable (snd m)" if m: "m \<in> set safe" for m
  proof -
    have "fst m \<in> set (map fst ms)" unfolding safe(2) [symmetric] using m by auto
    then have "utf8_valid (fst m)" using JsonObject.prems(2) by (auto simp: list_all_iff)
    moreover have "storable (snd m)"
      using safe(3) m JsonObject.IH JsonObject.prems(2) redacted_utf8 by (fastforce simp: list_all_iff)
    ultimately show ?thesis by simp
  qed
  then show ?case unfolding safe(1) using JsonObject.prems(2) safe(2)
    by (auto simp: list_all_iff key_order_def)
qed (use redacted_utf8 in \<open>auto split: if_splits\<close>)

lemma decoded_storable: "decodeStrictModelOutput content = Some members \<Longrightarrow> storable (JsonObject members)"
  by (auto simp: decodeStrictModelOutput_def split: if_splits option.splits jvalue.splits
      dest!: parse_well_formed storable_decode)

lemma processed_output:
  assumes "processModelStepOutput content schema = Inr out"
  shows "\<exists>safe. out = render (marshal_any (JsonObject safe)) \<and> parse_json out = Some (marshal_any (JsonObject safe)) \<and>
    decode_any (marshal_any (JsonObject safe)) = JsonObject safe \<and>
    int (length out) \<le> maxModelStepOutputBytes \<and> matchesModelOutputSchema safe schema \<and> clean (JsonObject safe)"
proof -
  obtain members safe where safe: "decodeStrictModelOutput content = Some members"
    "sanitizeModelOutput members = Some safe" "matchesModelOutputSchema safe schema"
    "out = render (marshal_any (JsonObject safe))" "int (length out) \<le> maxModelStepOutputBytes"
    using assms by (auto simp: processModelStepOutput_def Let_def not_less split: option.splits if_splits)
  have sanitized: "sanitizeModelValue (JsonObject members) = Some (JsonObject safe)"
    using safe(2) by (auto simp: sanitizeModelOutput_def simp del: sanitizeModelValue.simps split: option.splits jvalue.splits)
  have "clean (JsonObject safe)" "storable (JsonObject safe)"
    using sanitized_clean [OF sanitized] sanitized_storable [OF sanitized decoded_storable [OF safe(1)]] by simp_all
  then show ?thesis using safe parse_marshal by blast
qed

subsection \<open>A step that answers a credential\<close>

definition sample_model_request :: StepExecutorRequest where
  "sample_model_request =
    \<lparr>SER_Scope = \<lparr>Scope_TaskID = ''t'', Scope_RunID = ''r'', Scope_ExecutionVersion = 1,
       Scope_ExecutionConfigHash = replicate 64 (CHR ''a''), Scope_WorkerID = ''w'', Scope_StepID = ''s'', Scope_DeadlineAt = 5\<rparr>,
     SER_NextAction = CheckpointNextActionExecuteStep,
     SER_Step = \<lparr>SP_StepID = ''s'', SP_RunID = ''r'', SP_PlanID = ''p'', SP_Sequence = 1, SP_Type = StepTypeModelCall,
       SP_Name = ''ask'', SP_Input = ''{}'', SP_OutputSchema = [(''answer'', JSONSchemaTypeString), (''token'', JSONSchemaTypeString)],
       SP_ToolName = '''', SP_Status = StepStatusRunning\<rparr>,
     SER_PreviousStep = None, SER_ResolvedReferences = Some [],
     SER_Agent = Some \<lparr>AP_AgentID = ''a'', AP_SystemPrompt = ''help'', AP_ModelName = modelStepModelName,
       AP_GenerationParams = \<lparr>GP_Temperature = \<lparr>CD_coefficient = 2, CD_scale = 1\<rparr>,
         GP_TopP = \<lparr>CD_coefficient = 1, CD_scale = 0\<rparr>, GP_MaxOutputTokens = 1\<rparr>\<rparr>,
     SER_AgentAuthorization = None, SER_ToolCapability = None\<rparr>"

definition sample_resolved :: ResolvedStepInput where
  "sample_resolved =
    \<lparr>RSI_StepID = ''s'', RSI_Value = ''{}'', RSI_ReferencedFields = Some [], RSI_InputContractVersion = stepInputContractVersionV1\<rparr>"

definition sample_model_answer :: string where
  "sample_model_answer = ''{\"answer\":\"Bearer x\",\"token\":\"t\"}''"

definition sample_step_env :: model_step_env where
  "sample_step_env =
    \<lparr>MSE_Before = None, MSE_After = None, MSE_CallExpired = False,
     MSE_Model = (\<lambda>_ _. (\<lparr>MRs_AssistantContent = sample_model_answer, MRs_ProviderRequestID = None\<rparr>, None))\<rparr>"

definition sample_output :: string where
  "sample_output = ''{\"answer\":\"[REDACTED]\",\"token\":\"[REDACTED]\"}''"

lemma sample_request_accepted: "validateModelStepRequest sample_model_request sample_resolved"
  by code_simp

lemma sample_processed:
  "processModelStepOutput sample_model_answer [(''answer'', JSONSchemaTypeString), (''token'', JSONSchemaTypeString)] = Inr sample_output"
  by code_simp

lemma sample_prompt_fits:
  "case buildModelStepRequest sample_model_request (the (SER_Agent sample_model_request)) sample_resolved of
     None \<Rightarrow> False
   | Some prompt \<Rightarrow> modelPromptBytes (MRq_Messages prompt) \<le> maxModelStepPromptBytes"
  by code_simp

lemma sample_step_answers:
  "ModelStepRunner_Execute sample_step_env modelStepCallTimeout sample_model_request sample_resolved = Inr sample_output"
proof -
  obtain agent where agent: "SER_Agent sample_model_request = Some agent" by (simp add: sample_model_request_def)
  obtain prompt where prompt: "buildModelStepRequest sample_model_request agent sample_resolved = Some prompt"
    "modelPromptBytes (MRq_Messages prompt) \<le> maxModelStepPromptBytes"
    using sample_prompt_fits agent by (auto split: option.splits)
  have schema: "SP_OutputSchema (SER_Step sample_model_request) = [(''answer'', JSONSchemaTypeString), (''token'', JSONSchemaTypeString)]"
    by (simp add: sample_model_request_def)
  have short: "int (length sample_model_answer) \<le> maxModelStepResponseBytes"
    by (simp add: sample_model_answer_def maxModelStepResponseBytes_def)
  show ?thesis
    using agent prompt sample_request_accepted sample_processed short schema
    by (simp add: ModelStepRunner_Execute_def sample_step_env_def modelStepCancellation_def modelStepCallTimeout_def model_answer_def seconds_def)
qed

subsection \<open>Properties\<close>

text \<open>
  C37: A model step hands out only safe, well-shaped data. When \<open>Execute\<close> succeeds, the model was asked with a
  prompt of at most 256 KiB and answered at most 1 MiB, and the result is at most 1 MiB of JSON: an object with
  exactly the fields of the output schema and their types, without control characters but tab, line feed and
  carriage return, with the replacement text under every sensitive key at any depth and no string that looks like a credential, so that cleaning it again
  would change nothing.
\<close>

theorem model_step_output_is_safe:
  assumes "ModelStepRunner_Execute env timeout request resolved = Inr out"
  shows "(\<exists>agent prompt response. SER_Agent request = Some agent \<and>
      buildModelStepRequest request agent resolved = Some prompt \<and>
      modelPromptBytes (MRq_Messages prompt) \<le> 256 * 1024 \<and>
      MSE_Model env timeout prompt = (response, None) \<and> int (length (MRs_AssistantContent response)) \<le> 1024 * 1024) \<and>
    int (length out) \<le> 1024 * 1024 \<and>
    (\<exists>safe. map_option decode_any (parse_json out) = Some (JsonObject safe) \<and>
      matchesModelOutputSchema safe (SP_OutputSchema (SER_Step request)) \<and>
      clean (JsonObject safe) \<and> sanitizeModelOutput safe = Some safe)"
proof -
  obtain agent prompt response where run: "SER_Agent request = Some agent"
    "buildModelStepRequest request agent resolved = Some prompt"
    "modelPromptBytes (MRq_Messages prompt) \<le> maxModelStepPromptBytes"
    "MSE_Model env timeout prompt = (response, None)"
    "int (length (MRs_AssistantContent response)) \<le> maxModelStepResponseBytes"
    "processModelStepOutput (MRs_AssistantContent response) (SP_OutputSchema (SER_Step request)) = Inr out"
    using assms
    by (auto simp: ModelStepRunner_Execute_def model_answer_def not_less attempt_eq_Inr split: option.splits if_splits prod.splits)
  obtain safe where safe: "parse_json out = Some (marshal_any (JsonObject safe))"
    "decode_any (marshal_any (JsonObject safe)) = JsonObject safe" "int (length out) \<le> maxModelStepOutputBytes"
    "matchesModelOutputSchema safe (SP_OutputSchema (SER_Step request))" "clean (JsonObject safe)"
    using processed_output [OF run(6)] by blast
  have again: "sanitizeModelOutput safe = Some safe" unfolding sanitizeModelOutput_def clean_unchanged [OF safe(5)] by simp
  have "map_option decode_any (parse_json out) = Some (JsonObject safe)" unfolding safe(1) option.map safe(2) ..
  moreover have "\<exists>agent prompt response. SER_Agent request = Some agent \<and>
      buildModelStepRequest request agent resolved = Some prompt \<and>
      modelPromptBytes (MRq_Messages prompt) \<le> 256 * 1024 \<and>
      MSE_Model env timeout prompt = (response, None) \<and> int (length (MRs_AssistantContent response)) \<le> 1024 * 1024"
    using run by (simp add: maxModelStepPromptBytes_def maxModelStepResponseBytes_def)
  moreover have "int (length out) \<le> 1024 * 1024" using safe(3) by (simp add: maxModelStepOutputBytes_def)
  ultimately show ?thesis using safe(4,5) again by blast
qed

theorem model_step_output_is_safe_witness:
  "\<exists>safe. map_option decode_any (parse_json sample_output) = Some (JsonObject safe) \<and> clean (JsonObject safe)"
  using model_step_output_is_safe [OF sample_step_answers] by blast

end
