(* ===== verification/CheckpointContext.thy ===== *)
theory CheckpointContext
  imports StepContracts JsonNumbers PlanSafety
begin

section \<open>The runtime context of a checkpoint\<close>

text \<open>
  \<open>RuntimeContextV1\<close> of \<open>internal/contracts/checkpoint.go\<close> and its codec in
  \<open>internal/checkpoint/context_codec.go\<close>. A raw value (\<open>FrozenToolInput\<close>, \<open>ObservedValues\<close>) is its
  bytes, up to white space between tokens, which nothing reads. A document that is not a JSON text is refused
  as a whole, so the model does not say which of its complaints the streaming decoder meets first: all are
  the same kind of error.
\<close>

definition CheckpointNextAction_text :: "CheckpointNextAction \<Rightarrow> string" where
  "CheckpointNextAction_text action =
    (case action of
       CheckpointNextActionGeneratePlan \<Rightarrow> ''GENERATE_PLAN''
     | CheckpointNextActionExecuteStep \<Rightarrow> ''EXECUTE_STEP''
     | CheckpointNextActionRequestApproval \<Rightarrow> ''REQUEST_APPROVAL''
     | CheckpointNextActionExecuteApprovedTool \<Rightarrow> ''EXECUTE_APPROVED_TOOL''
     | CheckpointNextActionFinalizeRun \<Rightarrow> ''FINALIZE_RUN''
     | CheckpointNextActionOther s \<Rightarrow> s)"

definition CheckpointNextAction_of :: "string \<Rightarrow> CheckpointNextAction" where
  "CheckpointNextAction_of s =
    (if s = ''GENERATE_PLAN'' then CheckpointNextActionGeneratePlan
     else if s = ''EXECUTE_STEP'' then CheckpointNextActionExecuteStep
     else if s = ''REQUEST_APPROVAL'' then CheckpointNextActionRequestApproval
     else if s = ''EXECUTE_APPROVED_TOOL'' then CheckpointNextActionExecuteApprovedTool
     else if s = ''FINALIZE_RUN'' then CheckpointNextActionFinalizeRun
     else CheckpointNextActionOther s)"

definition SegmentKind_text :: "ReferencePathSegmentKind \<Rightarrow> string" where
  "SegmentKind_text kind =
    (case kind of ReferencePathSegmentKey \<Rightarrow> ''key'' | ReferencePathSegmentIndex \<Rightarrow> ''index'' | ReferencePathSegmentOther s \<Rightarrow> s)"

definition SegmentKind_of :: "string \<Rightarrow> ReferencePathSegmentKind" where
  "SegmentKind_of s =
    (if s = ''key'' then ReferencePathSegmentKey else if s = ''index'' then ReferencePathSegmentIndex
     else ReferencePathSegmentOther s)"

record FrozenApproval =
  FA_ApprovalID :: string
  FA_ApprovalExecutionVersion :: ExecutionVersion
  FA_ToolName :: ToolName
  FA_FrozenToolInput :: string
  FA_ObservedValues :: string
  FA_ResourceVersion :: string
  FA_FrozenInputHash :: string

text \<open>\<open>CanonicalResolvedReferences\<close> may be nil, which the codec refuses.\<close>

record RuntimeContextV1 =
  RX_SchemaVersion :: "32 word"
  RX_TaskID :: TaskID
  RX_RunID :: RunID
  RX_ExecutionVersion :: ExecutionVersion
  RX_PlanID :: "PlanID option"
  RX_CurrentStepID :: "StepID option"
  RX_NextAction :: CheckpointNextAction
  RX_ResolvedReferences :: "ResolvedReference list option"
  RX_ApprovalContext :: "FrozenApproval option"

datatype RuntimeContextCodecErrorKind = RuntimeContextCodecMalformed | RuntimeContextCodecVersionUnsupported

record RuntimeContextCodecLimits =
  CL_MaxBytes :: int
  CL_MaxDepth :: int

definition NewRuntimeContextCodec :: "RuntimeContextCodecLimits \<Rightarrow> RuntimeContextCodecLimits option" where
  "NewRuntimeContextCodec limits =
    (if CL_MaxBytes limits \<le> 0 \<or> CL_MaxDepth limits \<le> 0 then None else Some limits)"

definition runtimeContextSchemaVersion :: "32 word" where "runtimeContextSchemaVersion = 1"
definition maxResolvedReferences :: nat where "maxResolvedReferences = 256"
definition maxReferencePathDepth :: nat where "maxReferencePathDepth = 16"

subsection \<open>Validation\<close>

definition requireString :: "string \<Rightarrow> bool" where
  "requireString s \<longleftrightarrow> s \<noteq> '''' \<and> utf8_valid s"

definition requireJSONObject :: "string \<Rightarrow> bool" where
  "requireJSONObject s = (case parse_json s of Some (TObject _) \<Rightarrow> True | _ \<Rightarrow> False)"

definition validatePathSegment :: "ReferencePathSegment \<Rightarrow> bool" where
  "validatePathSegment segment =
    (case Seg_Kind segment of
       ReferencePathSegmentKey \<Rightarrow>
         (case Seg_Key segment of None \<Rightarrow> False | Some key \<Rightarrow> Seg_Index segment = None \<and> requireString key)
     | ReferencePathSegmentIndex \<Rightarrow> Seg_Index segment \<noteq> None \<and> Seg_Key segment = None
     | ReferencePathSegmentOther _ \<Rightarrow> False)"

definition validateResolvedReference :: "ResolvedReference \<Rightarrow> bool" where
  "validateResolvedReference reference \<longleftrightarrow>
     Ref_TargetPath reference \<noteq> [] \<and> length (Ref_TargetPath reference) \<le> maxReferencePathDepth \<and>
     requireString (Ref_SourceStepID reference) \<and> requireString (Ref_SourceOutputField reference) \<and>
     validOutputFieldName (Ref_SourceOutputField reference) \<and>
     list_all validatePathSegment (Ref_TargetPath reference)"

definition validateApprovalContext :: "FrozenApproval \<Rightarrow> ExecutionVersion \<Rightarrow> bool" where
  "validateApprovalContext approval executionVersion \<longleftrightarrow>
     requireString (FA_ApprovalID approval) \<and>
     ExecutionVersion_Valid (FA_ApprovalExecutionVersion approval) \<and> FA_ApprovalExecutionVersion approval \<le> executionVersion \<and>
     requireString (FA_ToolName approval) \<and>
     requireJSONObject (FA_FrozenToolInput approval) \<and> requireJSONObject (FA_ObservedValues approval) \<and>
     requireString (FA_ResourceVersion approval) \<and> validSHA256 (FA_FrozenInputHash approval)"

definition context_references :: "RuntimeContextV1 \<Rightarrow> ResolvedReference list" where
  "context_references ctx = (case RX_ResolvedReferences ctx of None \<Rightarrow> [] | Some refs \<Rightarrow> refs)"

definition validateNextActionShape :: "RuntimeContextV1 \<Rightarrow> bool" where
  "validateNextActionShape ctx =
    (let hasPlan = RX_PlanID ctx \<noteq> None; hasStep = RX_CurrentStepID ctx \<noteq> None;
         hasApproval = RX_ApprovalContext ctx \<noteq> None; hasReferences = context_references ctx \<noteq> [] in
     case RX_NextAction ctx of
       CheckpointNextActionGeneratePlan \<Rightarrow> \<not> (hasPlan \<or> hasStep \<or> hasApproval \<or> hasReferences)
     | CheckpointNextActionExecuteStep \<Rightarrow> hasPlan \<and> hasStep \<and> \<not> hasApproval
     | CheckpointNextActionRequestApproval \<Rightarrow>
         hasPlan \<and> hasStep \<and>
         (case RX_ApprovalContext ctx of
            None \<Rightarrow> True
          | Some approval \<Rightarrow> FA_ApprovalExecutionVersion approval = RX_ExecutionVersion ctx)
     | CheckpointNextActionExecuteApprovedTool \<Rightarrow> hasPlan \<and> hasStep \<and> hasApproval
     | CheckpointNextActionFinalizeRun \<Rightarrow> hasPlan \<and> hasStep \<and> \<not> hasApproval \<and> \<not> hasReferences
     | CheckpointNextActionOther _ \<Rightarrow> True)"

definition validateRuntimeContext :: "RuntimeContextV1 \<Rightarrow> bool" where
  "validateRuntimeContext ctx \<longleftrightarrow>
     RX_SchemaVersion ctx = runtimeContextSchemaVersion \<and>
     requireString (RX_TaskID ctx) \<and> requireString (RX_RunID ctx) \<and>
     ExecutionVersion_Valid (RX_ExecutionVersion ctx) \<and> CheckpointNextAction_Valid (RX_NextAction ctx) \<and>
     (case RX_ResolvedReferences ctx of
        None \<Rightarrow> False
      | Some refs \<Rightarrow> length refs \<le> maxResolvedReferences \<and> list_all validateResolvedReference refs) \<and>
     (case RX_PlanID ctx of None \<Rightarrow> True | Some k \<Rightarrow> requireString k) \<and>
     (case RX_CurrentStepID ctx of None \<Rightarrow> True | Some k \<Rightarrow> requireString k) \<and>
     (case RX_ApprovalContext ctx of
        None \<Rightarrow> True
      | Some approval \<Rightarrow> validateApprovalContext approval (RX_ExecutionVersion ctx)) \<and>
     validateNextActionShape ctx"

subsection \<open>The document\<close>

text \<open>
  Depth and repeated names; the scan of the code descends with the depth of the enclosing value. The decoder makes
  a \<open>float64\<close> of a number token, so a literal out of its range ends the scan.
\<close>

fun scan_value :: "int \<Rightarrow> int \<Rightarrow> jtext \<Rightarrow> bool" where
  "scan_value parentDepth maxDepth (TObject ms) =
    (parentDepth + 1 \<le> maxDepth \<and> distinct (map (\<lambda>m. unquote (fst m)) ms) \<and>
     (\<forall>m\<in>set ms. scan_value (parentDepth + 1) maxDepth (snd m)))"
| "scan_value parentDepth maxDepth (TArray ts) =
    (parentDepth + 1 \<le> maxDepth \<and> (\<forall>t\<in>set ts. scan_value (parentDepth + 1) maxDepth t))"
| "scan_value parentDepth maxDepth (TNumber n) = finite_number n"
| "scan_value parentDepth maxDepth _ = True"

definition validateJSONDocument :: "RuntimeContextCodecLimits \<Rightarrow> string \<Rightarrow> jtext option" where
  "validateJSONDocument limits encoded =
    (if encoded = [] \<or> CL_MaxBytes limits < int (length encoded) \<or> \<not> utf8_valid encoded then None
     else
       (case parse_json encoded of
          Some (TObject ms) \<Rightarrow> if scan_value 0 (CL_MaxDepth limits) (TObject ms) then Some (TObject ms) else None
        | _ \<Rightarrow> None))"

subsection \<open>Encoding\<close>

definition string_text :: "string \<Rightarrow> jtext" where
  "string_text s = TString (quote True s)"

definition segment_text :: "ReferencePathSegment \<Rightarrow> jtext" where
  "segment_text segment = TObject
    ((''kind'', string_text (SegmentKind_text (Seg_Kind segment)))
     # (case Seg_Key segment of None \<Rightarrow> [] | Some key \<Rightarrow> [(''key'', string_text key)])
     @ (case Seg_Index segment of None \<Rightarrow> [] | Some i \<Rightarrow> [(''index'', TNumber (decimal (uint i)))]))"

definition reference_text :: "ResolvedReference \<Rightarrow> jtext" where
  "reference_text reference = TObject
    [(''target_path'', TArray (map segment_text (Ref_TargetPath reference))),
     (''source_step_id'', string_text (Ref_SourceStepID reference)),
     (''source_output_field'', string_text (Ref_SourceOutputField reference))]"

definition approval_text :: "FrozenApproval \<Rightarrow> jtext option" where
  "approval_text approval =
    (case (parse_json (FA_FrozenToolInput approval), parse_json (FA_ObservedValues approval)) of
       (Some input, Some observed) \<Rightarrow> Some (TObject
         [(''approval_id'', string_text (FA_ApprovalID approval)),
          (''approval_execution_version'', TNumber (decimal (FA_ApprovalExecutionVersion approval))),
          (''tool_name'', string_text (FA_ToolName approval)),
          (''frozen_tool_input'', escape_text input),
          (''observed_values'', escape_text observed),
          (''resource_version'', string_text (FA_ResourceVersion approval)),
          (''frozen_input_hash'', string_text (FA_FrozenInputHash approval))])
     | _ \<Rightarrow> None)"

definition context_members :: "RuntimeContextV1 \<Rightarrow> (string \<times> jtext) list" where
  "context_members ctx =
    [(''schema_version'', TNumber (decimal (uint (RX_SchemaVersion ctx)))),
     (''task_id'', string_text (RX_TaskID ctx)),
     (''run_id'', string_text (RX_RunID ctx)),
     (''execution_version'', TNumber (decimal (RX_ExecutionVersion ctx)))]
    @ (case RX_PlanID ctx of None \<Rightarrow> [] | Some k \<Rightarrow> [(''plan_id'', string_text k)])
    @ (case RX_CurrentStepID ctx of None \<Rightarrow> [] | Some k \<Rightarrow> [(''current_step_id'', string_text k)])
    @ [(''next_action'', string_text (CheckpointNextAction_text (RX_NextAction ctx))),
       (''resolved_references'', (case RX_ResolvedReferences ctx of None \<Rightarrow> TNull | Some refs \<Rightarrow> TArray (map reference_text refs)))]"

definition context_text :: "RuntimeContextV1 \<Rightarrow> jtext option" where
  "context_text ctx =
    (case RX_ApprovalContext ctx of
       None \<Rightarrow> Some (TObject (context_members ctx))
     | Some approval \<Rightarrow>
         map_option (\<lambda>t. TObject (context_members ctx @ [(''approval_context'', t)])) (approval_text approval))"

definition Codec_Encode :: "RuntimeContextCodecLimits \<Rightarrow> RuntimeContextV1 \<Rightarrow> RuntimeContextCodecErrorKind + string" where
  "Codec_Encode limits ctx =
    (if \<not> validateRuntimeContext ctx
     then Inl (if RX_SchemaVersion ctx \<noteq> runtimeContextSchemaVersion then RuntimeContextCodecVersionUnsupported
               else RuntimeContextCodecMalformed)
     else
       (case context_text ctx of
          None \<Rightarrow> Inl RuntimeContextCodecMalformed
        | Some t \<Rightarrow>
            (case validateJSONDocument limits (render t) of
               None \<Rightarrow> Inl RuntimeContextCodecMalformed
             | Some _ \<Rightarrow> Inr (render t))))"

subsection \<open>Reading a struct\<close>

text \<open>
  \<open>json.Decoder\<close> finds the field of a member by its exact name or, failing that, by its name under case
  folding, which beside the letters of ASCII knows the Kelvin sign and the long s. A member without a field is
  an error here, a value of another kind too. \<open>null\<close> leaves a value as it is and makes a pointer or a slice
  nil. A member read into a field that already has a value goes on from that value: the fields of a struct
  and the elements of a slice that are not mentioned again stay. (What a slice keeps beyond its length from an
  even earlier spelling of the same name is not modelled.)
\<close>

fun fold_name :: "string \<Rightarrow> string" where
  "fold_name [] = []"
| "fold_name (c # cs) =
    (if take 3 (c # cs) = kelvin then CHR ''K'' # fold_name (drop 2 cs)
     else if take 2 (c # cs) = long_s then CHR ''S'' # fold_name (drop 1 cs)
     else upper_byte c # fold_name cs)"

type_synonym 's field = "string \<times> ('s \<Rightarrow> jtext \<Rightarrow> 's option)"

definition find_field :: "'s field list \<Rightarrow> string \<Rightarrow> ('s \<Rightarrow> jtext \<Rightarrow> 's option) option" where
  "find_field columns name =
    (case map_of columns name of
       Some read \<Rightarrow> Some read
     | None \<Rightarrow> map_option snd (find (\<lambda>f. fold_name (fst f) = fold_name name) columns))"

fun read_members :: "'s field list \<Rightarrow> (string \<times> jtext) list \<Rightarrow> 's \<Rightarrow> 's option" where
  "read_members columns [] s = Some s"
| "read_members columns ((k, t) # ms) s =
    (case find_field columns (unquote k) of
       None \<Rightarrow> None
     | Some read \<Rightarrow> Option.bind (read s t) (read_members columns ms))"

definition read_struct :: "'s field list \<Rightarrow> 's \<Rightarrow> jtext \<Rightarrow> 's option" where
  "read_struct columns s t =
    (case t of TNull \<Rightarrow> Some s | TObject ms \<Rightarrow> read_members columns ms s | _ \<Rightarrow> None)"

definition read_string :: "string \<Rightarrow> jtext \<Rightarrow> string option" where
  "read_string s t = (case t of TNull \<Rightarrow> Some s | TString l \<Rightarrow> Some (unquote l) | _ \<Rightarrow> None)"

text \<open>\<open>strconv.ParseUint\<close> and \<open>ParseInt\<close> of the literal, for a width in bits.\<close>

definition read_unsigned :: "nat \<Rightarrow> string \<Rightarrow> int option" where
  "read_unsigned width n =
    (if list_all digit n \<and> digits_value n < 2 ^ width then Some (digits_value n) else None)"

definition read_uint32 :: "32 word \<Rightarrow> jtext \<Rightarrow> 32 word option" where
  "read_uint32 v t =
    (case t of TNull \<Rightarrow> Some v | TNumber n \<Rightarrow> map_option word_of_int (read_unsigned 32 n) | _ \<Rightarrow> None)"

definition read_uint64 :: "64 word \<Rightarrow> jtext \<Rightarrow> 64 word option" where
  "read_uint64 v t =
    (case t of TNull \<Rightarrow> Some v | TNumber n \<Rightarrow> map_option word_of_int (read_unsigned 64 n) | _ \<Rightarrow> None)"

definition read_int64 :: "int \<Rightarrow> jtext \<Rightarrow> int option" where
  "read_int64 v t =
    (case t of
       TNull \<Rightarrow> Some v
     | TNumber n \<Rightarrow>
         (if take 1 n = ''-''
          then (if list_all digit (drop 1 n) \<and> digits_value (drop 1 n) \<le> 2 ^ 63 then Some (- digits_value (drop 1 n)) else None)
          else read_unsigned 63 n)
     | _ \<Rightarrow> None)"

text \<open>A type with an unmarshaler of its own gets the raw value, and these refuse \<open>null\<close>.\<close>

definition read_raw :: "string \<Rightarrow> jtext \<Rightarrow> string option" where
  "read_raw v t = (if t = TNull then None else Some (render t))"

definition read_pointer :: "'a \<Rightarrow> ('a \<Rightarrow> jtext \<Rightarrow> 'a option) \<Rightarrow> 'a option \<Rightarrow> jtext \<Rightarrow> 'a option option" where
  "read_pointer zero read p t =
    (if t = TNull then Some None
     else map_option Some (read (case p of None \<Rightarrow> zero | Some v \<Rightarrow> v) t))"

fun read_elements :: "'a \<Rightarrow> ('a \<Rightarrow> jtext \<Rightarrow> 'a option) \<Rightarrow> 'a list \<Rightarrow> jtext list \<Rightarrow> 'a list option" where
  "read_elements zero read old [] = Some []"
| "read_elements zero read old (t # ts) =
    (case read (case old of [] \<Rightarrow> zero | v # _ \<Rightarrow> v) t of
       None \<Rightarrow> None
     | Some v \<Rightarrow> map_option (Cons v) (read_elements zero read (drop 1 old) ts))"

definition read_slice :: "'a \<Rightarrow> ('a \<Rightarrow> jtext \<Rightarrow> 'a option) \<Rightarrow> 'a list \<Rightarrow> jtext \<Rightarrow> 'a list option option" where
  "read_slice zero read old t =
    (case t of TNull \<Rightarrow> Some None | TArray ts \<Rightarrow> map_option Some (read_elements zero read old ts) | _ \<Rightarrow> None)"

subsection \<open>Decoding\<close>

definition zero_segment :: ReferencePathSegment where
  "zero_segment = \<lparr>Seg_Kind = ReferencePathSegmentOther '''', Seg_Key = None, Seg_Index = None\<rparr>"

definition segment_fields :: "ReferencePathSegment field list" where
  "segment_fields =
    [(''kind'', \<lambda>s t. map_option (\<lambda>v. s\<lparr>Seg_Kind := SegmentKind_of v\<rparr>) (read_string (SegmentKind_text (Seg_Kind s)) t)),
     (''key'', \<lambda>s t. map_option (\<lambda>v. s\<lparr>Seg_Key := v\<rparr>) (read_pointer '''' read_string (Seg_Key s) t)),
     (''index'', \<lambda>s t. map_option (\<lambda>v. s\<lparr>Seg_Index := v\<rparr>) (read_pointer 0 read_uint64 (Seg_Index s) t))]"

definition zero_reference :: ResolvedReference where
  "zero_reference = \<lparr>Ref_TargetPath = [], Ref_SourceStepID = '''', Ref_SourceOutputField = ''''\<rparr>"

text \<open>A nil path and an empty one are the same list: both are refused.\<close>

definition reference_fields :: "ResolvedReference field list" where
  "reference_fields =
    [(''target_path'', \<lambda>s t. map_option (\<lambda>v. s\<lparr>Ref_TargetPath := (case v of None \<Rightarrow> [] | Some path \<Rightarrow> path)\<rparr>)
       (read_slice zero_segment (read_struct segment_fields) (Ref_TargetPath s) t)),
     (''source_step_id'', \<lambda>s t. map_option (\<lambda>v. s\<lparr>Ref_SourceStepID := v\<rparr>) (read_string (Ref_SourceStepID s) t)),
     (''source_output_field'', \<lambda>s t. map_option (\<lambda>v. s\<lparr>Ref_SourceOutputField := v\<rparr>)
       (read_string (Ref_SourceOutputField s) t))]"

definition zero_approval :: FrozenApproval where
  "zero_approval =
    \<lparr>FA_ApprovalID = '''', FA_ApprovalExecutionVersion = 0, FA_ToolName = '''', FA_FrozenToolInput = '''',
     FA_ObservedValues = '''', FA_ResourceVersion = '''', FA_FrozenInputHash = ''''\<rparr>"

definition approval_fields :: "FrozenApproval field list" where
  "approval_fields =
    [(''approval_id'', \<lambda>s t. map_option (\<lambda>v. s\<lparr>FA_ApprovalID := v\<rparr>) (read_string (FA_ApprovalID s) t)),
     (''approval_execution_version'', \<lambda>s t. map_option (\<lambda>v. s\<lparr>FA_ApprovalExecutionVersion := v\<rparr>)
       (read_int64 (FA_ApprovalExecutionVersion s) t)),
     (''tool_name'', \<lambda>s t. map_option (\<lambda>v. s\<lparr>FA_ToolName := v\<rparr>) (read_string (FA_ToolName s) t)),
     (''frozen_tool_input'', \<lambda>s t. map_option (\<lambda>v. s\<lparr>FA_FrozenToolInput := v\<rparr>) (read_raw (FA_FrozenToolInput s) t)),
     (''observed_values'', \<lambda>s t. map_option (\<lambda>v. s\<lparr>FA_ObservedValues := v\<rparr>) (read_raw (FA_ObservedValues s) t)),
     (''resource_version'', \<lambda>s t. map_option (\<lambda>v. s\<lparr>FA_ResourceVersion := v\<rparr>) (read_string (FA_ResourceVersion s) t)),
     (''frozen_input_hash'', \<lambda>s t. map_option (\<lambda>v. s\<lparr>FA_FrozenInputHash := v\<rparr>) (read_string (FA_FrozenInputHash s) t))]"

definition zero_context :: RuntimeContextV1 where
  "zero_context =
    \<lparr>RX_SchemaVersion = 0, RX_TaskID = '''', RX_RunID = '''', RX_ExecutionVersion = 0, RX_PlanID = None,
     RX_CurrentStepID = None, RX_NextAction = CheckpointNextActionOther '''', RX_ResolvedReferences = None,
     RX_ApprovalContext = None\<rparr>"

definition context_fields :: "RuntimeContextV1 field list" where
  "context_fields =
    [(''schema_version'', \<lambda>s t. map_option (\<lambda>v. s\<lparr>RX_SchemaVersion := v\<rparr>) (read_uint32 (RX_SchemaVersion s) t)),
     (''task_id'', \<lambda>s t. map_option (\<lambda>v. s\<lparr>RX_TaskID := v\<rparr>) (read_string (RX_TaskID s) t)),
     (''run_id'', \<lambda>s t. map_option (\<lambda>v. s\<lparr>RX_RunID := v\<rparr>) (read_string (RX_RunID s) t)),
     (''execution_version'', \<lambda>s t. map_option (\<lambda>v. s\<lparr>RX_ExecutionVersion := v\<rparr>) (read_int64 (RX_ExecutionVersion s) t)),
     (''plan_id'', \<lambda>s t. map_option (\<lambda>v. s\<lparr>RX_PlanID := v\<rparr>) (read_pointer '''' read_string (RX_PlanID s) t)),
     (''current_step_id'', \<lambda>s t. map_option (\<lambda>v. s\<lparr>RX_CurrentStepID := v\<rparr>)
       (read_pointer '''' read_string (RX_CurrentStepID s) t)),
     (''next_action'', \<lambda>s t. map_option (\<lambda>v. s\<lparr>RX_NextAction := CheckpointNextAction_of v\<rparr>)
       (read_string (CheckpointNextAction_text (RX_NextAction s)) t)),
     (''resolved_references'', \<lambda>s t. map_option (\<lambda>v. s\<lparr>RX_ResolvedReferences := v\<rparr>)
       (read_slice zero_reference (read_struct reference_fields) (context_references s) t)),
     (''approval_context'', \<lambda>s t. map_option (\<lambda>v. s\<lparr>RX_ApprovalContext := v\<rparr>)
       (read_pointer zero_approval (read_struct approval_fields) (RX_ApprovalContext s) t))]"

definition rejectNullRuntimeContextFields :: "jtext \<Rightarrow> bool" where
  "rejectNullRuntimeContextFields t =
    (case object_fields t of None \<Rightarrow> False | Some members \<Rightarrow> list_all (\<lambda>(k, v). v \<noteq> TNull) members)"

definition Codec_Decode :: "RuntimeContextCodecLimits \<Rightarrow> string \<Rightarrow> RuntimeContextCodecErrorKind + RuntimeContextV1" where
  "Codec_Decode limits encoded =
    (case validateJSONDocument limits encoded of
       None \<Rightarrow> Inl RuntimeContextCodecMalformed
     | Some t \<Rightarrow>
         if \<not> rejectNullRuntimeContextFields t then Inl RuntimeContextCodecMalformed
         else
           (case read_struct context_fields zero_context t of
              None \<Rightarrow> Inl RuntimeContextCodecMalformed
            | Some ctx \<Rightarrow>
                if validateRuntimeContext ctx then Inr ctx
                else Inl (if RX_SchemaVersion ctx \<noteq> 0 \<and> RX_SchemaVersion ctx \<noteq> runtimeContextSchemaVersion
                          then RuntimeContextCodecVersionUnsupported else RuntimeContextCodecMalformed)))"

end
