(* ===== verification/ModuleTables.thy ===== *)
theory ModuleTables
  imports PlannerService CheckpointContext
begin

section \<open>The tables of the other modules\<close>

text \<open>
  The tables that \<open>migrations/checkpoint\<close>, \<open>migrations/planner\<close> and \<open>migrations/stepexecutor\<close> add beside those
  of the Task Runtime, and the statements of the planner's and the step executor's PostgreSQL repositories. They
  are the part \<open>db_other\<close> of the database. \<open>approval\<close> and \<open>tool_execution\<close> have no migration in the repository;
  their rows are the columns the checkpoint repository reads. A \<open>jsonb\<close> column holds the text the server gives
  back for it; what it makes of a text, or that it refuses it, is a parameter. The statements that only read
  are one function here whether they go through the write transaction or the read pool.
\<close>

record CheckpointEntity =
  CE_CheckpointID :: CheckpointID
  CE_TaskID :: TaskID
  CE_RunID :: RunID
  CE_ExecutionVersion :: ExecutionVersion
  CE_CheckpointSequence :: int
  CE_RuntimeContext :: string
  CE_ExecutionConfigHash :: ExecutionConfigHash
  CE_SourceExecutionVersion :: "ExecutionVersion option"
  CE_SourceCheckpointID :: "CheckpointID option"
  CE_CreatedAt :: time

record ToolExecutionFact =
  TX_ToolExecutionID :: string
  TX_TaskID :: TaskID
  TX_RunID :: RunID
  TX_StepID :: StepID
  TX_ExecutionVersion :: ExecutionVersion
  TX_Status :: ToolExecutionStatus
  TX_ErrorCode :: "ErrorCode option"
  TX_SideEffectUnknown :: bool

text \<open>\<open>ApprovalFact\<close>; in a row of the table the hash of the owning execution is not a column.\<close>

record ApprovalRow =
  AR_ApprovalID :: string
  AR_TaskID :: TaskID
  AR_RunID :: RunID
  AR_StepID :: StepID
  AR_ExecutionVersion :: ExecutionVersion
  AR_ExecutionConfigHash :: ExecutionConfigHash
  AR_Status :: ApprovalStatus
  AR_ToolName :: ToolName
  AR_FrozenToolInput :: string
  AR_ObservedValues :: string
  AR_ResourceVersion :: string
  AR_FrozenInputHash :: string

record ApprovalFact = ApprovalRow +
  AF_OwnerExecutionConfigHash :: ExecutionConfigHash

record module_tables =
  tab_checkpoints :: "CheckpointEntity list"
  tab_plans :: "PlanEntity list"
  tab_steps :: "StepEntityParams list"
  tab_approvals :: "ApprovalRow list"
  tab_tools :: "ToolExecutionFact list"

type_synonym runtime_db = "module_tables db"

datatype StoreError =
    StoreNotFound
  | StoreInvariantViolation
  | ErrInvalidStepBatch
  | ErrInvalidUpdateGuard
  | ErrInvalidCreateGuard
  | ErrInvalidPlan
  | StoreConstraint string
  | StoreJSON string

definition with_tables :: "(module_tables \<Rightarrow> module_tables) \<Rightarrow> runtime_db \<Rightarrow> runtime_db" where
  "with_tables f s = s\<lparr>db_other := f (db_other s)\<rparr>"

definition run_by_id :: "RunID \<Rightarrow> 'x db \<Rightarrow> Run option" where
  "run_by_id k s = row_find Run_RunID k (db_runs s)"

subsection \<open>Plans\<close>

definition plan_row :: "PlanID \<Rightarrow> runtime_db \<Rightarrow> PlanEntity option" where
  "plan_row k s = row_find Plan_PlanID k (tab_plans (db_other s))"

definition plan_check :: "PlanEntity \<Rightarrow> bool" where
  "plan_check plan \<longleftrightarrow> Plan_PlanID plan \<noteq> '''' \<and> Plan_RunID plan \<noteq> '''' \<and> Plan_Goal plan \<noteq> ''''"

text \<open>The run the guard names, when it has no plan yet.\<close>

definition guarded_run :: "PlanCreateGuard \<Rightarrow> RunID \<Rightarrow> runtime_db \<Rightarrow> bool" where
  "guarded_run guard runID s =
    (case task_row (Guard_TaskID guard) s of
       None \<Rightarrow> False
     | Some t \<Rightarrow>
         (case (run_row (Guard_TaskID guard) s, exec_row (Guard_TaskID guard, Task_CurrentExecutionVersion t) s) of
            (Some r, Some e) \<Rightarrow>
              Run_RunID r = Task_CurrentRunID t \<and> Run_RunID r = runID \<and>
              Task_CurrentExecutionVersion t = Guard_ExecutionVersion guard \<and>
              Exec_WorkerID e = Some (Guard_WorkerID guard) \<and>
              Task_Status t = Guard_ExpectedTaskStatus guard \<and> Run_Status r = Guard_ExpectedRunStatus guard \<and>
              Exec_Status e = Guard_ExpectedExecutionStatus guard \<and> Run_PlanID r = None \<and>
              list_all (\<lambda>plan. Plan_RunID plan \<noteq> runID) (tab_plans (db_other s))
          | _ \<Rightarrow> False))"

definition PlanRepository_InsertIfCurrentExecution ::
    "PlanEntity \<Rightarrow> PlanCreateGuard \<Rightarrow> runtime_db \<Rightarrow> StoreError + bool \<times> runtime_db" where
  "PlanRepository_InsertIfCurrentExecution plan guard s =
    (if \<not> PlanCreateGuard_Valid guard then Inl ErrInvalidCreateGuard
     else if Plan_PlanID plan = '''' \<or> Plan_RunID plan = '''' \<or> Plan_Goal plan = '''' \<or> IsZero (Plan_CreatedAt plan)
     then Inl ErrInvalidPlan
     else if \<not> guarded_run guard (Plan_RunID plan) s then Inr (False, s)
     else if \<not> plan_check plan then Inl (StoreConstraint ''plan'')
     else if plan_row (Plan_PlanID plan) s \<noteq> None then Inl (StoreConstraint ''plan_pkey'')
     else if run_by_id (Plan_RunID plan) s = None then Inl (StoreConstraint ''plan_run_foreign_key'')
     else Inr (True, with_tables (\<lambda>tables. tables\<lparr>tab_plans := tab_plans tables @ [plan]\<rparr>) s))"

definition PlanRepository_FindByRun :: "RunID \<Rightarrow> runtime_db \<Rightarrow> StoreError + PlanEntity" where
  "PlanRepository_FindByRun runID s =
    (case row_find Plan_RunID runID (tab_plans (db_other s)) of
       None \<Rightarrow> Inl StoreNotFound
     | Some plan \<Rightarrow>
         (case NewPlanEntity (Plan_PlanID plan) (Plan_RunID plan) (Plan_Goal plan) (Plan_CreatedAt plan) of
            None \<Rightarrow> Inl StoreInvariantViolation
          | Some entity \<Rightarrow> Inr entity))"

subsection \<open>Steps\<close>

definition step_row :: "StepID \<Rightarrow> runtime_db \<Rightarrow> StepEntityParams option" where
  "step_row k s = row_find Step_StepID k (tab_steps (db_other s))"

text \<open>The list of the migration, which is the one of the other tables.\<close>

definition stepErrorCodeCheck :: "ErrorCode list" where
  "stepErrorCodeCheck = sharedErrorCodeCheck"

definition json_object_text :: "string \<Rightarrow> bool" where
  "json_object_text s = (case parse_json s of Some (TObject _) \<Rightarrow> True | _ \<Rightarrow> False)"

definition step_check :: "StepEntityParams \<Rightarrow> bool" where
  "step_check p \<longleftrightarrow>
     Step_StepID p \<noteq> '''' \<and> Step_RunID p \<noteq> '''' \<and> Step_PlanID p \<noteq> '''' \<and> Step_Sequence p \<noteq> 0 \<and>
     StepType_Valid (Step_Type p) \<and> Step_Name p \<noteq> '''' \<and> json_object_text (Step_Input p) \<and> Step_OutputSchema p \<noteq> [] \<and>
     (case Step_Output p of None \<Rightarrow> True | Some v \<Rightarrow> json_object_text v) \<and>
     Step_Status p \<in> set [StepStatusPending, StepStatusRunning, StepStatusWaitingApproval, StepStatusCompleted, StepStatusFailed] \<and>
     (case Step_ErrorCode p of None \<Rightarrow> True | Some c \<Rightarrow> c \<in> set stepErrorCodeCheck) \<and>
     (if Step_Type p = StepTypeToolCall then Step_ToolName p \<noteq> '''' else Step_ToolName p = '''') \<and>
     (case (Step_StartedAt p, Step_EndedAt p) of (Some a, Some b) \<Rightarrow> a \<le> b | _ \<Rightarrow> True) \<and>
     (case Step_Status p of
        StepStatusPending \<Rightarrow>
          Step_Output p = None \<and> Step_ErrorCode p = None \<and> Step_StartedAt p = None \<and> Step_EndedAt p = None
      | StepStatusCompleted \<Rightarrow>
          Step_Output p \<noteq> None \<and> Step_ErrorCode p = None \<and> Step_StartedAt p \<noteq> None \<and> Step_EndedAt p \<noteq> None
      | StepStatusFailed \<Rightarrow> Step_Output p = None \<and> Step_ErrorCode p \<noteq> None \<and> Step_EndedAt p \<noteq> None
      | _ \<Rightarrow> Step_Output p = None \<and> Step_ErrorCode p = None \<and> Step_StartedAt p \<noteq> None \<and> Step_EndedAt p = None)"

definition step_inserts :: "StepEntityParams \<Rightarrow> runtime_db \<Rightarrow> StoreError + runtime_db" where
  "step_inserts p s =
    (if \<not> step_check p then Inl (StoreConstraint ''step'')
     else if step_row (Step_StepID p) s \<noteq> None then Inl (StoreConstraint ''step_pkey'')
     else if list_ex (\<lambda>q. Step_RunID q = Step_RunID p \<and> Step_Sequence q = Step_Sequence p) (tab_steps (db_other s))
     then Inl (StoreConstraint ''step_run_sequence_unique'')
     else if (case plan_row (Step_PlanID p) s of None \<Rightarrow> True | Some plan \<Rightarrow> Plan_RunID plan \<noteq> Step_RunID p)
     then Inl (StoreConstraint ''step_plan_foreign_key'')
     else Inr (with_tables (\<lambda>tables. tables\<lparr>tab_steps := tab_steps tables @ [p]\<rparr>) s))"

definition validateInsertBatch :: "StepEntityParams list \<Rightarrow> bool" where
  "validateInsertBatch ps \<longleftrightarrow>
     ps \<noteq> [] \<and>
     list_all (\<lambda>(i, p). NewStepEntity p \<noteq> None \<and> Step_RunID p = Step_RunID (hd ps) \<and> Step_PlanID p = Step_PlanID (hd ps) \<and>
       Step_Sequence p = word_of_nat (i + 1) \<and> Step_Status p = StepStatusPending) (enumerate 0 ps)"

text \<open>The columns \<open>input\<close> and \<open>output\<close> are \<open>jsonb\<close>; a text the server refuses is an error of the statement.\<close>

definition stored_json :: "(string \<Rightarrow> string option) \<Rightarrow> string \<Rightarrow> StoreError + string" where
  "stored_json jsonb s = (case jsonb s of None \<Rightarrow> Inl (StoreJSON s) | Some stored \<Rightarrow> Inr stored)"

definition stored_optional :: "(string \<Rightarrow> string option) \<Rightarrow> string option \<Rightarrow> StoreError + string option" where
  "stored_optional jsonb v = (case v of None \<Rightarrow> Inr None | Some s \<Rightarrow> attempt (stored_json jsonb s) (\<lambda>stored. Inr (Some stored)))"

fun insert_steps :: "(string \<Rightarrow> string option) \<Rightarrow> StepEntityParams list \<Rightarrow> runtime_db \<Rightarrow> StoreError + runtime_db" where
  "insert_steps jsonb [] s = Inr s"
| "insert_steps jsonb (p # ps) s =
    attempt (stored_json jsonb (Step_Input p)) (\<lambda>input.
    attempt (stored_optional jsonb (Step_Output p)) (\<lambda>output.
    attempt (step_inserts (p\<lparr>Step_Input := input, Step_Output := output\<rparr>) s) (insert_steps jsonb ps)))"

definition StepRepository_InsertAll ::
    "(string \<Rightarrow> string option) \<Rightarrow> StepEntityParams list \<Rightarrow> runtime_db \<Rightarrow> StoreError + runtime_db" where
  "StepRepository_InsertAll jsonb ps s =
    (if \<not> validateInsertBatch ps then Inl ErrInvalidStepBatch else insert_steps jsonb ps s)"

definition scanStep :: "StepEntityParams option \<Rightarrow> StoreError + StepEntityParams" where
  "scanStep row =
    (case row of
       None \<Rightarrow> Inl StoreNotFound
     | Some p \<Rightarrow> (case NewStepEntity p of None \<Rightarrow> Inl StoreInvariantViolation | Some entity \<Rightarrow> Inr entity))"

definition StepRepository_FindByID :: "StepID \<Rightarrow> runtime_db \<Rightarrow> StoreError + StepEntityParams" where
  "StepRepository_FindByID k s = scanStep (step_row k s)"

definition StepRepository_LockByID :: "StepID \<Rightarrow> runtime_db \<Rightarrow> StoreError + StepEntityParams" where
  "StepRepository_LockByID k s = scanStep (step_row k s)"

fun list_steps :: "RunID \<Rightarrow> nat \<Rightarrow> StepEntityParams list \<Rightarrow> StoreError + StepEntityParams list" where
  "list_steps runID n [] = Inr []"
| "list_steps runID n (p # ps) =
    attempt (scanStep (Some p)) (\<lambda>entity.
    attempt (require (Step_RunID entity = runID \<and> Step_Sequence entity = word_of_nat (n + 1)) StoreInvariantViolation) (\<lambda>_.
    attempt (list_steps runID (n + 1) ps) (\<lambda>rest. Inr (entity # rest))))"

definition StepRepository_ListByRun :: "RunID \<Rightarrow> runtime_db \<Rightarrow> StoreError + StepEntityParams list" where
  "StepRepository_ListByRun runID s =
    list_steps runID 0 (sort_key (\<lambda>p. uint (Step_Sequence p)) (filter (\<lambda>p. Step_RunID p = runID) (tab_steps (db_other s))))"

record UpdateGuard =
  UG_TaskID :: TaskID
  UG_ExecutionVersion :: ExecutionVersion
  UG_ExpectedWorkerID :: "WorkerID option"
  UG_ExpectedTaskStatus :: TaskStatus
  UG_ExpectedRunStatus :: RunStatus
  UG_ExpectedExecutionStatus :: TaskExecutionStatus

definition UpdateGuard_Valid :: "UpdateGuard \<Rightarrow> bool" where
  "UpdateGuard_Valid g \<longleftrightarrow>
     UG_TaskID g \<noteq> '''' \<and> ExecutionVersion_Valid (UG_ExecutionVersion g) \<and> TaskStatus_Valid (UG_ExpectedTaskStatus g) \<and>
     RunStatus_Valid (UG_ExpectedRunStatus g) \<and> TaskExecutionStatus_Valid (UG_ExpectedExecutionStatus g) \<and>
     UG_ExpectedWorkerID g \<noteq> Some ''''"

record StepUpdate =
  SU_Guard :: UpdateGuard
  SU_RunID :: RunID
  SU_StepID :: StepID
  SU_ExpectedStatus :: StepStatus
  SU_Status :: StepStatus
  SU_Output :: "string option"
  SU_ErrorCode :: "ErrorCode option"
  SU_StartedAt :: "time option"
  SU_EndedAt :: "time option"

definition validFailedUpdate :: "StepUpdate \<Rightarrow> bool" where
  "validFailedUpdate u \<longleftrightarrow>
     SU_Output u = None \<and> (case SU_ErrorCode u of None \<Rightarrow> False | Some c \<Rightarrow> ErrorCode_Valid c) \<and> SU_EndedAt u \<noteq> None"

definition validStepTransition :: "StepUpdate \<Rightarrow> bool" where
  "validStepTransition u =
    (let unchanged = SU_Output u = None \<and> SU_ErrorCode u = None \<and> SU_StartedAt u = None \<and> SU_EndedAt u = None;
         failed = validFailedUpdate u \<and> SU_StartedAt u = None in
     case SU_ExpectedStatus u of
       StepStatusPending \<Rightarrow>
         (case SU_Status u of
            StepStatusRunning \<Rightarrow> SU_Output u = None \<and> SU_ErrorCode u = None \<and> SU_StartedAt u \<noteq> None \<and> SU_EndedAt u = None
          | StepStatusFailed \<Rightarrow> failed
          | _ \<Rightarrow> False)
     | StepStatusRunning \<Rightarrow>
         (case SU_Status u of
            StepStatusWaitingApproval \<Rightarrow> unchanged
          | StepStatusCompleted \<Rightarrow>
              (case SU_Output u of None \<Rightarrow> False | Some v \<Rightarrow> validOutcomeJSONObject v) \<and>
              SU_ErrorCode u = None \<and> SU_StartedAt u = None \<and> SU_EndedAt u \<noteq> None
          | StepStatusFailed \<Rightarrow> failed
          | _ \<Rightarrow> False)
     | StepStatusWaitingApproval \<Rightarrow>
         (case SU_Status u of StepStatusRunning \<Rightarrow> unchanged | StepStatusFailed \<Rightarrow> failed | _ \<Rightarrow> False)
     | _ \<Rightarrow> False)"

definition StepUpdate_Valid :: "StepUpdate \<Rightarrow> bool" where
  "StepUpdate_Valid u \<longleftrightarrow>
     UpdateGuard_Valid (SU_Guard u) \<and> SU_RunID u \<noteq> '''' \<and> SU_StepID u \<noteq> '''' \<and>
     StepStatus_Valid (SU_ExpectedStatus u) \<and> StepStatus_Valid (SU_Status u) \<and> validStepTransition u"

text \<open>The step the guard selects: the current step of the current run of the task, in the expected statuses.\<close>

definition guarded_step :: "StepUpdate \<Rightarrow> runtime_db \<Rightarrow> StepEntityParams option" where
  "guarded_step u s =
    (let g = SU_Guard u in
     case task_row (UG_TaskID g) s of
       None \<Rightarrow> None
     | Some t \<Rightarrow>
         (case (run_row (UG_TaskID g) s, exec_row (UG_TaskID g, Task_CurrentExecutionVersion t) s, step_row (SU_StepID u) s) of
            (Some r, Some e, Some p) \<Rightarrow>
              if Run_RunID r = Task_CurrentRunID t \<and> Run_RunID r = SU_RunID u \<and>
                 Step_RunID p = Run_RunID r \<and> Run_CurrentStepID r = Some (Step_StepID p) \<and>
                 Task_CurrentExecutionVersion t = UG_ExecutionVersion g \<and> Exec_WorkerID e = UG_ExpectedWorkerID g \<and>
                 Task_Status t = UG_ExpectedTaskStatus g \<and> Run_Status r = UG_ExpectedRunStatus g \<and>
                 Exec_Status e = UG_ExpectedExecutionStatus g \<and> Step_Status p = SU_ExpectedStatus u
              then Some p else None
          | _ \<Rightarrow> None))"

definition step_patch :: "StepUpdate \<Rightarrow> string option \<Rightarrow> StepEntityParams \<Rightarrow> StepEntityParams" where
  "step_patch u output p = p\<lparr>Step_Status := SU_Status u, Step_Output := output, Step_ErrorCode := SU_ErrorCode u,
     Step_StartedAt := (if Step_Status p = StepStatusPending \<and> SU_Status u = StepStatusRunning then SU_StartedAt u
       else Step_StartedAt p),
     Step_EndedAt := SU_EndedAt u\<rparr>"

definition StepRepository_Update ::
    "(string \<Rightarrow> string option) \<Rightarrow> StepUpdate \<Rightarrow> runtime_db \<Rightarrow> StoreError + bool \<times> runtime_db" where
  "StepRepository_Update jsonb u s =
    (if \<not> StepUpdate_Valid u then Inl ErrInvalidUpdateGuard
     else
       attempt (stored_optional jsonb (SU_Output u)) (\<lambda>output.
       case guarded_step u s of
         None \<Rightarrow> Inr (False, s)
       | Some p \<Rightarrow>
           if \<not> step_check (step_patch u output p) then Inl (StoreConstraint ''step'')
           else Inr (True, with_tables (\<lambda>tables. tables\<lparr>tab_steps :=
                  row_replace Step_StepID (step_patch u output p) (tab_steps tables)\<rparr>) s)))"

text \<open>
  The deferred foreign keys the migrations add to \<open>run\<close>: its plan and its current step are its own.
\<close>

definition run_keys_ok :: "runtime_db \<Rightarrow> bool" where
  "run_keys_ok s \<longleftrightarrow>
     list_all (\<lambda>r.
       (case Run_PlanID r of
          None \<Rightarrow> True
        | Some k \<Rightarrow> (case plan_row k s of None \<Rightarrow> False | Some plan \<Rightarrow> Plan_RunID plan = Run_RunID r)) \<and>
       (case Run_CurrentStepID r of
          None \<Rightarrow> True
        | Some k \<Rightarrow> (case step_row k s of None \<Rightarrow> False | Some p \<Rightarrow> Step_RunID p = Run_RunID r))) (db_runs s)"

end
