(* ===== verification/CheckpointStore.thy ===== *)
theory CheckpointStore
  imports ModuleTables
begin

section \<open>The checkpoint repository\<close>

text \<open>
  \<open>internal/adapter/postgres/checkpoint/repository.go\<close> with the projections of
  \<open>internal/checkpoint/entity.go\<close>: the checkpoints of a run and the facts a checkpoint is checked against.
  The identifiers of approvals and tool executions are compared as PostgreSQL's \<open>C\<close> collation does, byte by
  byte, where a query takes the least.
\<close>

datatype CheckpointError =
    ErrCheckpointNotFound
  | ErrCheckpointInvariant
  | ErrInvalidDraft
  | ErrCheckpointCodec RuntimeContextCodecErrorKind
  | ErrCheckpointID
  | ErrCheckpointConstraint string

record TaskExecutionHash =
  TEH_TaskID :: TaskID
  TEH_ExecutionVersion :: ExecutionVersion
  TEH_ExecutionConfigHash :: ExecutionConfigHash

record ValidationFacts =
  VF_Task :: Task
  VF_Run :: Run
  VF_Execution :: TaskExecution
  VF_Plan :: "PlanEntity option"
  VF_Step :: "StepEntityParams option"
  VF_Previous :: "StepEntityParams option"
  VF_HasLaterStep :: bool
  VF_Approval :: "ApprovalFact option"
  VF_ToolExecution :: "ToolExecutionFact option"

record ValidationFactsRequest =
  VFR_TaskID :: TaskID
  VFR_RunID :: RunID
  VFR_ExecutionVersion :: ExecutionVersion
  VFR_PlanID :: "PlanID option"
  VFR_CurrentStepID :: "StepID option"
  VFR_ApprovalID :: "string option"

subsection \<open>Checkpoints\<close>

definition checkpoints :: "runtime_db \<Rightarrow> CheckpointEntity list" where
  "checkpoints s = tab_checkpoints (db_other s)"

definition checkpoint_row :: "CheckpointID \<Rightarrow> runtime_db \<Rightarrow> CheckpointEntity option" where
  "checkpoint_row k s = row_find CE_CheckpointID k (checkpoints s)"

definition AllocateNextSequence :: "RunID \<Rightarrow> runtime_db \<Rightarrow> CheckpointError + int" where
  "AllocateNextSequence runID s =
    (let top = Max (insert 0 (CE_CheckpointSequence ` {c \<in> set (checkpoints s). CE_RunID c = runID})) in
     if bigint (top + 1) then Inr (top + 1) else Inl (ErrCheckpointConstraint ''bigint''))"

definition checkpoint_check :: "CheckpointEntity \<Rightarrow> bool" where
  "checkpoint_check c \<longleftrightarrow>
     CE_CheckpointID c \<noteq> '''' \<and> CE_TaskID c \<noteq> '''' \<and> CE_RunID c \<noteq> '''' \<and>
     0 < CE_ExecutionVersion c \<and> bigint (CE_ExecutionVersion c) \<and>
     0 < CE_CheckpointSequence c \<and> bigint (CE_CheckpointSequence c) \<and>
     json_object_text (CE_RuntimeContext c) \<and> validSHA256 (CE_ExecutionConfigHash c) \<and>
     (case CE_SourceExecutionVersion c of None \<Rightarrow> True | Some v \<Rightarrow> 0 < v \<and> v < CE_ExecutionVersion c) \<and>
     (CE_SourceExecutionVersion c = None \<longleftrightarrow> CE_SourceCheckpointID c = None)"

text \<open>\<open>transaction_timestamp()\<close> is \<open>now\<close>.\<close>

definition InsertCheckpoint ::
    "(string \<Rightarrow> string option) \<Rightarrow> time \<Rightarrow> CheckpointEntity \<Rightarrow> runtime_db \<Rightarrow> CheckpointError + time \<times> runtime_db" where
  "InsertCheckpoint jsonb now entity s =
    (case jsonb (CE_RuntimeContext entity) of
       None \<Rightarrow> Inl (ErrCheckpointConstraint ''jsonb'')
     | Some stored \<Rightarrow>
         let row = entity\<lparr>CE_RuntimeContext := stored, CE_CreatedAt := now\<rparr> in
         if \<not> checkpoint_check row then Inl (ErrCheckpointConstraint ''checkpoint'')
         else if checkpoint_row (CE_CheckpointID row) s \<noteq> None then Inl (ErrCheckpointConstraint ''checkpoint_pkey'')
         else if list_ex (\<lambda>c. CE_RunID c = CE_RunID row \<and> CE_CheckpointSequence c = CE_CheckpointSequence row) (checkpoints s)
         then Inl (ErrCheckpointConstraint ''checkpoint_run_sequence_unique'')
         else if (case run_row (CE_TaskID row) s of None \<Rightarrow> True | Some r \<Rightarrow> Run_RunID r \<noteq> CE_RunID row)
         then Inl (ErrCheckpointConstraint ''checkpoint_run_foreign_key'')
         else if exec_row (CE_TaskID row, CE_ExecutionVersion row) s = None
         then Inl (ErrCheckpointConstraint ''checkpoint_execution_foreign_key'')
         else if (case CE_SourceCheckpointID row of None \<Rightarrow> False | Some k \<Rightarrow> checkpoint_row k s = None)
         then Inl (ErrCheckpointConstraint ''checkpoint_source_foreign_key'')
         else Inr (now, with_tables (\<lambda>tables. tables\<lparr>tab_checkpoints := tab_checkpoints tables @ [row]\<rparr>) s))"

definition findOne :: "CheckpointEntity option \<Rightarrow> CheckpointError + CheckpointEntity" where
  "findOne row =
    (case row of
       None \<Rightarrow> Inl ErrCheckpointNotFound
     | Some c \<Rightarrow>
         if CE_CheckpointSequence c \<le> 0 \<or> \<not> ExecutionVersion_Valid (CE_ExecutionVersion c)
            \<or> \<not> validSHA256 (CE_ExecutionConfigHash c)
         then Inl ErrCheckpointInvariant else Inr c)"

text \<open>\<open>ORDER BY checkpoint_sequence DESC LIMIT 1\<close>; within a run the sequences differ.\<close>

definition latest_checkpoint :: "TaskID \<Rightarrow> RunID \<Rightarrow> ExecutionVersion \<Rightarrow> runtime_db \<Rightarrow> CheckpointEntity option" where
  "latest_checkpoint taskID runID version s =
    (case filter (\<lambda>c. CE_TaskID c = taskID \<and> CE_RunID c = runID \<and> CE_ExecutionVersion c = version) (checkpoints s) of
       [] \<Rightarrow> None
     | cs \<Rightarrow> Some (arg_min_list (\<lambda>c. - CE_CheckpointSequence c) cs))"

definition FindLatestByExecutionVersion ::
    "TaskID \<Rightarrow> RunID \<Rightarrow> ExecutionVersion \<Rightarrow> runtime_db \<Rightarrow> CheckpointError + CheckpointEntity" where
  "FindLatestByExecutionVersion taskID runID version s = findOne (latest_checkpoint taskID runID version s)"

definition CheckpointRepository_FindByID :: "CheckpointID \<Rightarrow> runtime_db \<Rightarrow> CheckpointError + CheckpointEntity" where
  "CheckpointRepository_FindByID k s = findOne (checkpoint_row k s)"

definition LoadTaskExecution :: "TaskID \<Rightarrow> ExecutionVersion \<Rightarrow> runtime_db \<Rightarrow> CheckpointError + TaskExecutionHash" where
  "LoadTaskExecution taskID version s =
    (case exec_row (taskID, version) s of
       None \<Rightarrow> Inl ErrCheckpointInvariant
     | Some e \<Rightarrow> Inr \<lparr>TEH_TaskID = Exec_TaskID e, TEH_ExecutionVersion = Exec_ExecutionVersion e,
         TEH_ExecutionConfigHash = Exec_ExecutionConfigHash e\<rparr>)"

definition VerifyRunAttribution :: "TaskID \<Rightarrow> RunID \<Rightarrow> runtime_db \<Rightarrow> CheckpointError + unit" where
  "VerifyRunAttribution taskID runID s =
    (case run_row taskID s of
       None \<Rightarrow> Inl ErrCheckpointInvariant
     | Some r \<Rightarrow> require (Run_RunID r = runID) ErrCheckpointInvariant)"

subsection \<open>Facts\<close>

text \<open>An approval whose own execution is gone is an inconsistency.\<close>

definition approval_fact :: "runtime_db \<Rightarrow> ApprovalRow \<Rightarrow> CheckpointError + ApprovalFact" where
  "approval_fact s a =
    (case exec_row (AR_TaskID a, AR_ExecutionVersion a) s of
       None \<Rightarrow> Inl ErrCheckpointInvariant
     | Some e \<Rightarrow> Inr (ApprovalRow.extend a \<lparr>AF_OwnerExecutionConfigHash = Exec_ExecutionConfigHash e\<rparr>))"

definition loadApprovalByID :: "string \<Rightarrow> runtime_db \<Rightarrow> CheckpointError + ApprovalFact option" where
  "loadApprovalByID k s =
    (case row_find AR_ApprovalID k (tab_approvals (db_other s)) of
       None \<Rightarrow> Inr None
     | Some a \<Rightarrow> attempt (approval_fact s a) (\<lambda>fact. Inr (Some fact)))"

definition loadApprovalByStep :: "ValidationFactsRequest \<Rightarrow> StepID \<Rightarrow> runtime_db \<Rightarrow> CheckpointError + ApprovalFact option" where
  "loadApprovalByStep request stepID s =
    (case filter (\<lambda>a. AR_TaskID a = VFR_TaskID request \<and> AR_RunID a = VFR_RunID request \<and> AR_StepID a = stepID \<and>
        AR_ExecutionVersion a = VFR_ExecutionVersion request) (tab_approvals (db_other s)) of
       [] \<Rightarrow> Inr None
     | as \<Rightarrow> attempt (approval_fact s (arg_min_list AR_ApprovalID as)) (\<lambda>fact. Inr (Some fact)))"

definition loadStepFact :: "StepID \<Rightarrow> runtime_db \<Rightarrow> CheckpointError + StepEntityParams option" where
  "loadStepFact stepID s =
    (case step_row stepID s of
       None \<Rightarrow> Inr None
     | Some p \<Rightarrow> if Step_Sequence p = 0 then Inl ErrCheckpointInvariant else Inr (Some p))"

definition loadStepBySequence :: "RunID \<Rightarrow> 32 word \<Rightarrow> runtime_db \<Rightarrow> CheckpointError + StepEntityParams option" where
  "loadStepBySequence runID sequence s =
    (case find (\<lambda>p. Step_RunID p = runID \<and> Step_Sequence p = sequence) (tab_steps (db_other s)) of
       None \<Rightarrow> Inr None
     | Some p \<Rightarrow> loadStepFact (Step_StepID p) s)"

definition loadToolExecution :: "ValidationFactsRequest \<Rightarrow> StepID \<Rightarrow> runtime_db \<Rightarrow> ToolExecutionFact option" where
  "loadToolExecution request stepID s =
    (case filter (\<lambda>x. TX_StepID x = stepID \<and> TX_ExecutionVersion x = VFR_ExecutionVersion request) (tab_tools (db_other s)) of
       [] \<Rightarrow> None
     | xs \<Rightarrow> Some (arg_min_list TX_ToolExecutionID xs))"

definition step_facts ::
    "ValidationFactsRequest \<Rightarrow> StepEntityParams \<Rightarrow> runtime_db \<Rightarrow> ValidationFacts \<Rightarrow> CheckpointError + ValidationFacts" where
  "step_facts request p s facts =
    attempt (if 1 < Step_Sequence p then loadStepBySequence (Step_RunID p) (Step_Sequence p - 1) s else Inr None) (\<lambda>previous.
    Inr (facts\<lparr>VF_Step := Some p,
      VF_HasLaterStep := list_ex (\<lambda>q. Step_RunID q = Step_RunID p \<and> Step_Sequence p < Step_Sequence q) (tab_steps (db_other s)),
      VF_Previous := previous, VF_ToolExecution := loadToolExecution request (Step_StepID p) s\<rparr>))"

definition approval_facts :: "ValidationFactsRequest \<Rightarrow> runtime_db \<Rightarrow> ValidationFacts \<Rightarrow> CheckpointError + ValidationFacts" where
  "approval_facts request s facts =
    (case VFR_ApprovalID request of
       Some k \<Rightarrow> attempt (loadApprovalByID k s) (\<lambda>approval. Inr (facts\<lparr>VF_Approval := approval\<rparr>))
     | None \<Rightarrow>
         (case VFR_CurrentStepID request of
            None \<Rightarrow> Inr facts
          | Some stepID \<Rightarrow>
              attempt (loadApprovalByStep request stepID s) (\<lambda>approval. Inr (facts\<lparr>VF_Approval := approval\<rparr>))))"

text \<open>A plan or a step that is named and missing ends the loading.\<close>

definition load_step :: "ValidationFactsRequest \<Rightarrow> runtime_db \<Rightarrow> ValidationFacts \<Rightarrow> CheckpointError + ValidationFacts" where
  "load_step request s facts =
    (case VFR_CurrentStepID request of
       None \<Rightarrow> approval_facts request s facts
     | Some stepID \<Rightarrow>
         attempt (loadStepFact stepID s) (\<lambda>found.
         case found of
           None \<Rightarrow> Inr facts
         | Some p \<Rightarrow> attempt (step_facts request p s facts) (approval_facts request s)))"

definition LoadValidationFacts :: "ValidationFactsRequest \<Rightarrow> runtime_db \<Rightarrow> CheckpointError + ValidationFacts" where
  "LoadValidationFacts request s =
    (case (task_row (VFR_TaskID request) s, run_row (VFR_TaskID request) s,
        exec_row (VFR_TaskID request, VFR_ExecutionVersion request) s) of
       (Some t, Some r, Some e) \<Rightarrow>
         if Run_RunID r \<noteq> VFR_RunID request then Inl ErrCheckpointInvariant
         else
           (let facts = \<lparr>VF_Task = t, VF_Run = r, VF_Execution = e, VF_Plan = None, VF_Step = None, VF_Previous = None,
                  VF_HasLaterStep = False, VF_Approval = None, VF_ToolExecution = None\<rparr> in
            case VFR_PlanID request of
              Some planID \<Rightarrow>
                (case plan_row planID s of
                   None \<Rightarrow> Inr facts
                 | Some plan \<Rightarrow> load_step request s (facts\<lparr>VF_Plan := Some plan\<rparr>))
            | None \<Rightarrow> load_step request s facts)
     | _ \<Rightarrow> Inl ErrCheckpointInvariant)"

end
