(* ===== verification/CheckpointRules.thy ===== *)
theory CheckpointRules
  imports CheckpointStore
begin

section \<open>When a checkpoint is valid\<close>

text \<open>
  The checks of \<open>internal/checkpoint/repository.go\<close> and \<open>recovery.go\<close> on a decoded context and the facts of
  the database, and \<open>ComputeFrozenInputHashV1\<close> of \<open>internal/contracts/tool.go\<close>. A check returns the first reason
  it finds, \<open>None\<close> for the empty reason; checks of an approval also say whether the stored approval
  contradicts itself. SHA-256 is a parameter.
\<close>

datatype InferredType = InferredTypeInitialization | InferredTypeExecution | InferredTypeRecoveryStart

datatype checkpointUsage = usageClaimInitial | usageClaimContinuation | usageExecutionDispatch | usageStartupCleanup

abbreviation invalid :: "ReasonCode option" where
  "invalid \<equiv> Some ReasonCodeCheckpointNextActionInvalid"

subsection \<open>The frozen input\<close>

record FrozenApprovedToolInputV1 =
  FI_Schema :: string
  FI_Version :: "32 word"
  FI_ToolName :: ToolName
  FI_ToolInput :: string
  FI_ObservedValues :: string
  FI_ResourceVersion :: string

definition FrozenApprovedToolInputSchemaV1 :: string where
  "FrozenApprovedToolInputSchemaV1 = ''agentops.frozen-approved-tool-input''"
definition FrozenApprovedToolInputVersionV1 :: "32 word" where "FrozenApprovedToolInputVersionV1 = 1"

definition decodeFrozenJSON :: "string \<Rightarrow> jvalue option" where
  "decodeFrozenJSON s = map_option decode_any (parse_json s)"

definition frozen_input_text :: "FrozenApprovedToolInputV1 \<Rightarrow> string option" where
  "frozen_input_text v =
    (case (decodeFrozenJSON (FI_ToolInput v), decodeFrozenJSON (FI_ObservedValues v)) of
       (Some input, Some observed) \<Rightarrow> Some (render (TObject
         [(''schema'', string_text (FI_Schema v)), (''version'', TNumber (decimal (uint (FI_Version v)))),
          (''tool_name'', string_text (FI_ToolName v)), (''tool_input'', marshal_any input),
          (''observed_values'', marshal_any observed), (''resource_version'', string_text (FI_ResourceVersion v))]))
     | _ \<Rightarrow> None)"

definition ComputeFrozenInputHashV1 :: "(string \<Rightarrow> string) \<Rightarrow> FrozenApprovedToolInputV1 \<Rightarrow> string option" where
  "ComputeFrozenInputHashV1 digest v =
    (if FI_Schema v \<noteq> FrozenApprovedToolInputSchemaV1 \<or> FI_Version v \<noteq> FrozenApprovedToolInputVersionV1 then None
     else map_option digest (frozen_input_text v))"

definition jsonEqual :: "string \<Rightarrow> string \<Rightarrow> bool" where
  "jsonEqual left right =
    (case (parse_json left, parse_json right) of
       (Some l, Some r) \<Rightarrow>
         float_values (decode_any l) \<and> float_values (decode_any r) \<and> same_any (decode_any l) (decode_any r)
     | _ \<Rightarrow> False)"

subsection \<open>Attribution, plan and step\<close>

definition coreAttributionValid :: "RuntimeContextV1 \<Rightarrow> ValidationFacts \<Rightarrow> bool" where
  "coreAttributionValid ctx facts \<longleftrightarrow>
     Task_TaskID (VF_Task facts) = RX_TaskID ctx \<and> Run_TaskID (VF_Run facts) = RX_TaskID ctx \<and>
     Run_RunID (VF_Run facts) = RX_RunID ctx \<and> Exec_TaskID (VF_Execution facts) = RX_TaskID ctx \<and>
     Exec_ExecutionVersion (VF_Execution facts) = RX_ExecutionVersion ctx \<and>
     Task_CurrentRunID (VF_Task facts) = RX_RunID ctx"

definition validatePlanAndStep :: "RuntimeContextV1 \<Rightarrow> ValidationFacts \<Rightarrow> ReasonCode option" where
  "validatePlanAndStep ctx facts =
    (let run = VF_Run facts in
     if (case RX_PlanID ctx of
           None \<Rightarrow> VF_Plan facts \<noteq> None \<or> Run_PlanID run \<noteq> None
         | Some planID \<Rightarrow>
             (case VF_Plan facts of
                None \<Rightarrow> True
              | Some plan \<Rightarrow>
                  Run_PlanID run \<noteq> Some planID \<or> Plan_PlanID plan \<noteq> planID \<or> Plan_RunID plan \<noteq> RX_RunID ctx))
     then Some ReasonCodeCheckpointPlanReferenceInvalid
     else if (case RX_CurrentStepID ctx of
           None \<Rightarrow> VF_Step facts \<noteq> None \<or> Run_CurrentStepID run \<noteq> None
         | Some stepID \<Rightarrow>
             (case VF_Step facts of
                None \<Rightarrow> True
              | Some step \<Rightarrow>
                  Run_CurrentStepID run \<noteq> Some stepID \<or> Step_StepID step \<noteq> stepID \<or>
                  Step_RunID step \<noteq> RX_RunID ctx \<or> RX_PlanID ctx \<noteq> Some (Step_PlanID step)))
     then Some ReasonCodeCheckpointStepReferenceInvalid
     else None)"

subsection \<open>References\<close>

definition mapReferenceError :: "ExtractError \<Rightarrow> ReasonCode" where
  "mapReferenceError err =
    (if err = IssueCountLimitExceeded then ReasonCodeCheckpointReferenceLimitExceeded
     else if is_syntax_error err then ReasonCodeCheckpointReferenceSyntaxInvalid
     else if err = ErrReferencePath then ReasonCodeCheckpointReferencePathInvalid
     else if err = ErrDuplicateTarget then ReasonCodeCheckpointReferenceDuplicateTarget
     else if err = ErrSourceStep then ReasonCodeCheckpointReferenceSourceInvalid
     else if err = ErrSourceOutput \<or> err = ErrInvalidStepInput then ReasonCodeCheckpointStepOutputReferenceInvalid
     else ReasonCodeCheckpointNextActionInvalid)"

definition classifyReferenceDifference :: "ResolvedReference list \<Rightarrow> ResolvedReference list \<Rightarrow> ReasonCode" where
  "classifyReferenceDifference expected actual =
    (if length actual < length expected then ReasonCodeCheckpointReferenceMissing
     else if length expected < length actual then ReasonCodeCheckpointReferenceExtra
     else ReasonCodeCheckpointReferenceOrderInvalid)"

definition source_step :: "StepEntityParams \<Rightarrow> SourceStep" where
  "source_step p =
    \<lparr>Src_StepID = Step_StepID p, Src_Sequence = Step_Sequence p, Src_Status = Step_Status p,
     Src_OutputSchema = Step_OutputSchema p, Src_SafeOutput = (case Step_Output p of None \<Rightarrow> [] | Some v \<Rightarrow> v)\<rparr>"

definition nil_list :: "'a list option \<Rightarrow> 'a list" where
  "nil_list v = (case v of None \<Rightarrow> [] | Some xs \<Rightarrow> xs)"

definition validateReferences :: "RuntimeContextV1 \<Rightarrow> ValidationFacts \<Rightarrow> ReasonCode option" where
  "validateReferences ctx facts =
    (case ActionModeForNextAction (RX_NextAction ctx) of
       Inl _ \<Rightarrow> invalid
     | Inr mode \<Rightarrow>
         if mode = ReferenceActionModeNoStepInput
         then (if context_references ctx \<noteq> [] then Some ReasonCodeCheckpointReferenceExtra else None)
         else
           (case VF_Step facts of
              None \<Rightarrow> Some ReasonCodeCheckpointStepReferenceInvalid
            | Some step \<Rightarrow>
                (case Extract \<lparr>XRq_ActionMode = mode, XRq_StepInput = Step_Input step,
                    XRq_TargetStepSequence = Step_Sequence step,
                    XRq_SourceStep = map_option source_step (VF_Previous facts), XRq_ValidatePersistedOutput = True\<rparr> of
                   Inl err \<Rightarrow> Some (mapReferenceError err)
                 | Inr result \<Rightarrow>
                     if XRs_ResolvedReferences result \<noteq> RX_ResolvedReferences ctx
                     then Some (classifyReferenceDifference (nil_list (XRs_ResolvedReferences result)) (context_references ctx))
                     else None)))"

subsection \<open>Approvals\<close>

definition frozen_of_approval :: "ApprovalFact \<Rightarrow> FrozenApprovedToolInputV1" where
  "frozen_of_approval a =
    \<lparr>FI_Schema = FrozenApprovedToolInputSchemaV1, FI_Version = FrozenApprovedToolInputVersionV1,
     FI_ToolName = AR_ToolName a, FI_ToolInput = AR_FrozenToolInput a, FI_ObservedValues = AR_ObservedValues a,
     FI_ResourceVersion = AR_ResourceVersion a\<rparr>"

definition approval_names :: "RuntimeContextV1 \<Rightarrow> FrozenApproval \<Rightarrow> StepEntityParams \<Rightarrow> ApprovalFact \<Rightarrow> bool" where
  "approval_names ctx context step a \<longleftrightarrow>
     AR_ApprovalID a = FA_ApprovalID context \<and> AR_TaskID a = RX_TaskID ctx \<and> AR_RunID a = RX_RunID ctx \<and>
     AR_StepID a = Step_StepID step \<and> AR_ExecutionVersion a = FA_ApprovalExecutionVersion context"

definition validateApproval ::
    "(string \<Rightarrow> string) \<Rightarrow> RuntimeContextV1 \<Rightarrow> ValidationFacts \<Rightarrow> ReasonCode option \<times> bool" where
  "validateApproval digest ctx facts =
    (case RX_ApprovalContext ctx of
       None \<Rightarrow> (if VF_Approval facts \<noteq> None then Some ReasonCodeCheckpointApprovalReferenceInvalid else None, False)
     | Some context \<Rightarrow>
         (case (VF_Approval facts, VF_Step facts) of
            (Some a, Some step) \<Rightarrow>
              if \<not> approval_names ctx context step a \<or> AR_ExecutionVersion a \<noteq> RX_ExecutionVersion ctx
              then (Some ReasonCodeCheckpointApprovalReferenceInvalid, False)
              else if \<not> validSHA256 (AR_ExecutionConfigHash a) \<or> \<not> validSHA256 (AF_OwnerExecutionConfigHash a)
                \<or> \<not> validSHA256 (AR_FrozenInputHash a)
              then (None, True)
              else if ComputeFrozenInputHashV1 digest (frozen_of_approval a) \<noteq> Some (AR_FrozenInputHash a)
                \<or> AR_ExecutionConfigHash a \<noteq> AF_OwnerExecutionConfigHash a
              then (None, True)
              else if AR_ExecutionConfigHash a \<noteq> Exec_ExecutionConfigHash (VF_Execution facts)
              then (Some ReasonCodeCheckpointExecutionHashMismatch, False)
              else if FA_FrozenInputHash context \<noteq> AR_FrozenInputHash a
              then (Some ReasonCodeCheckpointFrozenInputHashMismatch, False)
              else if FA_ToolName context \<noteq> AR_ToolName a \<or> AR_ToolName a \<noteq> Step_ToolName step
                \<or> \<not> jsonEqual (FA_FrozenToolInput context) (AR_FrozenToolInput a)
                \<or> \<not> jsonEqual (FA_ObservedValues context) (AR_ObservedValues a)
                \<or> FA_ResourceVersion context \<noteq> AR_ResourceVersion a
              then (Some ReasonCodeCheckpointFrozenActionMismatch, False)
              else (None, False)
          | _ \<Rightarrow> (Some ReasonCodeCheckpointApprovalReferenceInvalid, False)))"

definition validateApprovalForRecovery ::
    "(string \<Rightarrow> string) \<Rightarrow> RuntimeContextV1 \<Rightarrow> ValidationFacts \<Rightarrow> ReasonCode option \<times> bool" where
  "validateApprovalForRecovery digest ctx facts =
    (case RX_ApprovalContext ctx of
       None \<Rightarrow> validateApproval digest ctx facts
     | Some context \<Rightarrow>
         (case (VF_Approval facts, VF_Step facts) of
            (Some a, Some step) \<Rightarrow>
              if \<not> approval_names ctx context step a \<or> RX_ExecutionVersion ctx \<le> AR_ExecutionVersion a
              then (Some ReasonCodeCheckpointApprovalReferenceInvalid, False)
              else validateApproval digest (ctx\<lparr>RX_ExecutionVersion := AR_ExecutionVersion a\<rparr>) facts
          | _ \<Rightarrow> (Some ReasonCodeCheckpointApprovalReferenceInvalid, False)))"

subsection \<open>The action\<close>

definition toolExecutionBelongs :: "RuntimeContextV1 \<Rightarrow> ValidationFacts \<Rightarrow> bool" where
  "toolExecutionBelongs ctx facts =
    (case (VF_ToolExecution facts, VF_Step facts) of
       (Some tool, Some step) \<Rightarrow>
         TX_TaskID tool = RX_TaskID ctx \<and> TX_RunID tool = RX_RunID ctx \<and> TX_StepID tool = Step_StepID step \<and>
         TX_ExecutionVersion tool = RX_ExecutionVersion ctx \<and> ToolExecutionStatus_Valid (TX_Status tool) \<and>
         (TX_Status tool = ToolExecutionStatusUnknown \<longleftrightarrow> TX_SideEffectUnknown tool) \<and>
         (case TX_Status tool of
            ToolExecutionStatusRunning \<Rightarrow> TX_ErrorCode tool = None
          | ToolExecutionStatusCompleted \<Rightarrow> TX_ErrorCode tool = None
          | ToolExecutionStatusFailed \<Rightarrow> TX_ErrorCode tool \<noteq> None
          | ToolExecutionStatusUnknown \<Rightarrow> TX_ErrorCode tool \<noteq> None
          | _ \<Rightarrow> False)
     | _ \<Rightarrow> False)"

definition step_is :: "(StepEntityParams \<Rightarrow> bool) \<Rightarrow> ValidationFacts \<Rightarrow> bool" where
  "step_is P facts = (case VF_Step facts of None \<Rightarrow> False | Some step \<Rightarrow> P step)"

definition toolExecutionAllowed :: "RuntimeContextV1 \<Rightarrow> ValidationFacts \<Rightarrow> checkpointUsage \<Rightarrow> bool" where
  "toolExecutionAllowed ctx facts usage =
    (case VF_ToolExecution facts of
       None \<Rightarrow> True
     | Some tool \<Rightarrow>
         toolExecutionBelongs ctx facts \<and>
         (let running = usage = usageStartupCleanup \<and> step_is (\<lambda>p. Step_Type p = StepTypeToolCall) facts \<and>
            TX_Status tool = ToolExecutionStatusRunning in
          case RX_NextAction ctx of
            CheckpointNextActionExecuteStep \<Rightarrow> running
          | CheckpointNextActionExecuteApprovedTool \<Rightarrow> running
          | CheckpointNextActionFinalizeRun \<Rightarrow>
              step_is (\<lambda>p. Step_Type p = StepTypeToolCall) facts \<and> TX_Status tool = ToolExecutionStatusCompleted
          | _ \<Rightarrow> False))"

definition step_open :: "StepEntityParams \<Rightarrow> bool" where
  "step_open p \<longleftrightarrow> Step_Status p = StepStatusPending \<or> Step_Status p = StepStatusRunning"

definition validateAction :: "RuntimeContextV1 \<Rightarrow> ValidationFacts \<Rightarrow> checkpointUsage \<Rightarrow> ReasonCode option" where
  "validateAction ctx facts usage =
    (case RX_NextAction ctx of
       CheckpointNextActionGeneratePlan \<Rightarrow>
         if RX_PlanID ctx \<noteq> None \<or> RX_CurrentStepID ctx \<noteq> None \<or> RX_ApprovalContext ctx \<noteq> None then invalid else None
     | CheckpointNextActionExecuteStep \<Rightarrow>
         if VF_Plan facts = None \<or> \<not> step_is step_open facts \<or> RX_ApprovalContext ctx \<noteq> None
            \<or> VF_Approval facts \<noteq> None \<or> \<not> toolExecutionAllowed ctx facts usage
         then invalid else None
     | CheckpointNextActionRequestApproval \<Rightarrow>
         if VF_Plan facts = None \<or> \<not> step_is (\<lambda>p. Step_Type p = StepTypeToolCall \<and> step_open p) facts
            \<or> RX_ApprovalContext ctx \<noteq> None \<or> VF_Approval facts \<noteq> None \<or> VF_ToolExecution facts \<noteq> None
         then invalid else None
     | CheckpointNextActionExecuteApprovedTool \<Rightarrow>
         if \<not> step_is (\<lambda>p. Step_Type p = StepTypeToolCall \<and> Step_Status p = StepStatusRunning) facts
            \<or> RX_ApprovalContext ctx = None
            \<or> (case VF_Approval facts of None \<Rightarrow> True | Some a \<Rightarrow> AR_Status a \<noteq> ApprovalStatusApproved)
            \<or> \<not> toolExecutionAllowed ctx facts usage
         then Some ReasonCodeCheckpointApprovalReferenceInvalid else None
     | CheckpointNextActionFinalizeRun \<Rightarrow>
         if VF_Plan facts = None
            \<or> \<not> step_is (\<lambda>p. Step_Status p = StepStatusCompleted \<and> RX_CurrentStepID ctx = Some (Step_StepID p) \<and>
                 Run_CurrentStepID (VF_Run facts) = Some (Step_StepID p)) facts
            \<or> VF_HasLaterStep facts \<or> RX_ApprovalContext ctx \<noteq> None \<or> \<not> toolExecutionAllowed ctx facts usage
         then invalid else None
     | CheckpointNextActionOther _ \<Rightarrow> invalid)"

definition validateUsage :: "RuntimeContextV1 \<Rightarrow> ValidationFacts \<Rightarrow> checkpointUsage \<Rightarrow> ReasonCode option" where
  "validateUsage ctx facts usage =
    (let task = VF_Task facts; run = VF_Run facts; execution = VF_Execution facts;
         queued = Exec_Status execution = TaskExecutionStatusQueued \<and> Exec_WorkerID execution = None \<and> Task_QueuedAt task \<noteq> None;
         pending = Task_Status task = TaskStatusPending \<and> Run_Status run = RunStatusPending;
         running = Task_Status task = TaskStatusRunning \<and> Run_Status run = RunStatusRunning in
     case usage of
       usageClaimInitial \<Rightarrow>
         if RX_NextAction ctx \<noteq> CheckpointNextActionGeneratePlan \<or> RX_ExecutionVersion ctx \<noteq> 1 \<or> \<not> pending \<or> \<not> queued
         then invalid else None
     | usageClaimContinuation \<Rightarrow>
         if \<not> queued then invalid
         else if RX_NextAction ctx = CheckpointNextActionGeneratePlan then (if \<not> pending then invalid else None)
         else if \<not> running then invalid else None
     | _ \<Rightarrow>
         if \<not> running \<or> Exec_Status execution \<noteq> TaskExecutionStatusRunning \<or> Exec_WorkerID execution = None
         then invalid else None)"

definition validateContextWithApproval ::
    "(string \<Rightarrow> string) \<Rightarrow> RuntimeContextV1 \<Rightarrow> ValidationFacts \<Rightarrow> checkpointUsage \<Rightarrow> bool \<Rightarrow> ReasonCode option \<times> bool" where
  "validateContextWithApproval digest ctx facts usage recovery =
    (case validatePlanAndStep ctx facts of
       Some reason \<Rightarrow> (Some reason, False)
     | None \<Rightarrow>
         (case validateReferences ctx facts of
            Some reason \<Rightarrow> (Some reason, False)
          | None \<Rightarrow>
              (case (if recovery then validateApprovalForRecovery else validateApproval) digest ctx facts of
                 (None, False) \<Rightarrow>
                   (case validateAction ctx facts usage of
                      Some reason \<Rightarrow> (Some reason, False)
                    | None \<Rightarrow> (validateUsage ctx facts usage, False))
               | verdict \<Rightarrow> verdict)))"

definition validateContext ::
    "(string \<Rightarrow> string) \<Rightarrow> RuntimeContextV1 \<Rightarrow> ValidationFacts \<Rightarrow> checkpointUsage \<Rightarrow> ReasonCode option \<times> bool" where
  "validateContext digest ctx facts usage = validateContextWithApproval digest ctx facts usage False"

definition inferCheckpointType :: "CheckpointEntity \<Rightarrow> RuntimeContextV1 \<Rightarrow> InferredType option" where
  "inferCheckpointType entity ctx =
    (if (CE_SourceExecutionVersion entity \<noteq> None) \<noteq> (CE_SourceCheckpointID entity \<noteq> None) then None
     else if CE_SourceExecutionVersion entity \<noteq> None then Some InferredTypeRecoveryStart
     else if CE_ExecutionVersion entity = 1 \<and> CE_CheckpointSequence entity = 1 \<and>
       RX_NextAction ctx = CheckpointNextActionGeneratePlan \<and> RX_PlanID ctx = None \<and> RX_CurrentStepID ctx = None \<and>
       RX_ApprovalContext ctx = None
     then Some InferredTypeInitialization
     else Some InferredTypeExecution)"

subsection \<open>Recovery sources\<close>

definition validConfigMismatchStartedAt :: "RuntimeContextV1 \<Rightarrow> ValidationFacts \<Rightarrow> InferredType \<Rightarrow> bool" where
  "validConfigMismatchStartedAt ctx facts inferredType =
    (if inferredType = InferredTypeRecoveryStart then Exec_StartedAt (VF_Execution facts) = None
     else if inferredType = InferredTypeExecution \<and> RX_NextAction ctx = CheckpointNextActionExecuteApprovedTool
     then Exec_StartedAt (VF_Execution facts) \<noteq> None
     else False)"

definition validateRecoveryActionConsequence :: "RuntimeContextV1 \<Rightarrow> ValidationFacts \<Rightarrow> ErrorCode \<Rightarrow> ReasonCode option" where
  "validateRecoveryActionConsequence ctx facts errorCode =
    (let tool = VF_ToolExecution facts in
     if (case tool of
           None \<Rightarrow> False
         | Some x \<Rightarrow> \<not> toolExecutionBelongs ctx facts \<or> TX_Status x = ToolExecutionStatusUnknown \<or>
             TX_SideEffectUnknown x \<or> TX_Status x = ToolExecutionStatusRunning)
     then invalid
     else if errorCode = ErrorCodeConfigVersionMismatch \<and> tool \<noteq> None then invalid
     else
       (case RX_NextAction ctx of
          CheckpointNextActionGeneratePlan \<Rightarrow>
            if VF_Plan facts \<noteq> None \<or> VF_Step facts \<noteq> None \<or> VF_Approval facts \<noteq> None \<or> tool \<noteq> None then invalid else None
        | CheckpointNextActionExecuteStep \<Rightarrow>
            (case VF_Step facts of
               None \<Rightarrow> invalid
             | Some step \<Rightarrow>
                 if Step_Status step \<noteq> StepStatusRunning \<or> VF_Approval facts \<noteq> None then invalid
                 else
                   (case tool of
                      Some x \<Rightarrow>
                        if Step_Type step \<noteq> StepTypeToolCall then invalid
                        else if TX_Status x \<noteq> ToolExecutionStatusFailed \<or> TX_ErrorCode x = None
                          \<or> errorCode = ErrorCodeWorkerInterrupted \<and> TX_ErrorCode x \<noteq> Some ErrorCodeWorkerInterrupted
                          \<or> errorCode = ErrorCodeResultPersistenceFailed \<and> TX_ErrorCode x \<noteq> Some ErrorCodeResultPersistenceFailed
                        then invalid else None
                    | None \<Rightarrow>
                        if errorCode = ErrorCodeResultPersistenceFailed \<and> Step_Type step = StepTypeToolCall
                        then invalid else None))
        | CheckpointNextActionRequestApproval \<Rightarrow>
            if \<not> step_is (\<lambda>p. Step_Type p = StepTypeToolCall \<and> Step_Status p = StepStatusRunning) facts
               \<or> RX_ApprovalContext ctx \<noteq> None \<or> VF_Approval facts \<noteq> None \<or> tool \<noteq> None
               \<or> errorCode \<noteq> ErrorCodeWorkerInterrupted
            then invalid else None
        | CheckpointNextActionExecuteApprovedTool \<Rightarrow>
            if \<not> step_is (\<lambda>p. Step_Status p = StepStatusRunning) facts \<or> RX_ApprovalContext ctx = None
               \<or> (case VF_Approval facts of None \<Rightarrow> True | Some a \<Rightarrow> AR_Status a \<noteq> ApprovalStatusApproved) \<or> tool \<noteq> None
               \<or> errorCode \<noteq> ErrorCodeWorkerInterrupted \<and> errorCode \<noteq> ErrorCodeConfigVersionMismatch
            then invalid else None
        | CheckpointNextActionFinalizeRun \<Rightarrow>
            if \<not> step_is (\<lambda>p. Step_Status p = StepStatusCompleted) facts \<or> VF_HasLaterStep facts \<or> tool \<noteq> None
               \<or> errorCode \<noteq> ErrorCodeWorkerInterrupted
            then invalid else None
        | CheckpointNextActionOther _ \<Rightarrow> invalid))"

definition config_mismatch_task :: "Task \<Rightarrow> bool" where
  "config_mismatch_task t \<longleftrightarrow>
     Task_Status t = TaskStatusInterrupted \<and> Task_ErrorCode t = Some ErrorCodeConfigVersionMismatch"

definition before_first_execution :: "RuntimeContextV1 \<Rightarrow> ValidationFacts \<Rightarrow> InferredType \<Rightarrow> ErrorCode \<Rightarrow> bool" where
  "before_first_execution ctx facts inferredType errorCode \<longleftrightarrow>
     errorCode = ErrorCodeConfigVersionMismatch \<and> config_mismatch_task (VF_Task facts) \<and>
     Exec_ObservedConfigHash (VF_Execution facts) \<noteq> None \<and> Exec_StartedAt (VF_Execution facts) = None \<and>
     Run_Status (VF_Run facts) = RunStatusPending \<and> RX_NextAction ctx = CheckpointNextActionGeneratePlan \<and>
     VF_Plan facts = None \<and> VF_Step facts = None \<and> VF_Approval facts = None \<and> VF_ToolExecution facts = None \<and>
     (inferredType = InferredTypeInitialization \<or> inferredType = InferredTypeRecoveryStart)"

definition started_execution :: "RuntimeContextV1 \<Rightarrow> ValidationFacts \<Rightarrow> InferredType \<Rightarrow> ErrorCode \<Rightarrow> bool" where
  "started_execution ctx facts inferredType errorCode \<longleftrightarrow>
     Run_Status (VF_Run facts) = RunStatusRunning \<and> inferredType \<noteq> InferredTypeInitialization \<and>
     (if errorCode = ErrorCodeConfigVersionMismatch
      then config_mismatch_task (VF_Task facts) \<and> Exec_ObservedConfigHash (VF_Execution facts) \<noteq> None \<and>
        validConfigMismatchStartedAt ctx facts inferredType
      else (errorCode = ErrorCodeWorkerInterrupted \<or> errorCode = ErrorCodeResultPersistenceFailed) \<and>
        Task_Status (VF_Task facts) = TaskStatusRunning \<and> Exec_StartedAt (VF_Execution facts) \<noteq> None)"

definition validateRecoveryMatrix ::
    "RuntimeContextV1 \<Rightarrow> ValidationFacts \<Rightarrow> InferredType \<Rightarrow> RecoverySourcePhase \<Rightarrow> ReasonCode option" where
  "validateRecoveryMatrix ctx facts inferredType phase =
    (if Task_QueuedAt (VF_Task facts) \<noteq> None \<or> Exec_Status (VF_Execution facts) \<noteq> TaskExecutionStatusInterrupted then invalid
     else
       (case Exec_ErrorCode (VF_Execution facts) of
          None \<Rightarrow> invalid
        | Some errorCode \<Rightarrow>
            (case phase of
               RecoverySourceBeforeFirstExecution \<Rightarrow>
                 if before_first_execution ctx facts inferredType errorCode then None else invalid
             | RecoverySourceStartedExecution \<Rightarrow>
                 if started_execution ctx facts inferredType errorCode
                 then validateRecoveryActionConsequence ctx facts errorCode else invalid)))"

definition validateRecoveryContext ::
    "(string \<Rightarrow> string) \<Rightarrow> RuntimeContextV1 \<Rightarrow> ValidationFacts \<Rightarrow> InferredType \<Rightarrow> RecoverySourcePhase \<Rightarrow> ReasonCode option \<times> bool" where
  "validateRecoveryContext digest ctx facts inferredType phase =
    (case validatePlanAndStep ctx facts of
       Some reason \<Rightarrow> (Some reason, False)
     | None \<Rightarrow>
         (case validateReferences ctx facts of
            Some reason \<Rightarrow> (Some reason, False)
          | None \<Rightarrow>
              (case (if inferredType = InferredTypeRecoveryStart then validateApprovalForRecovery else validateApproval)
                 digest ctx facts of
                 (None, False) \<Rightarrow> (validateRecoveryMatrix ctx facts inferredType phase, False)
               | verdict \<Rightarrow> verdict)))"

end
