(* ===== verification/CheckpointManager.thy ===== *)
theory CheckpointManager
  imports CheckpointRules
begin

section \<open>The checkpoint manager\<close>

text \<open>
  \<open>Manager\<close> of \<open>internal/checkpoint/repository.go\<close> and \<open>recovery.go\<close>, and the adapter of
  \<open>taskruntime_adapter.go\<close> that gives it to the Task Runtime. What a call takes from outside is its environment:
  the limits of the codec, SHA-256, what a \<open>jsonb\<close> column makes of a text, the time of the transaction and the
  random identifier. The manager keeps no state of its own. The capability of a validated recovery source holds
  the manager and the transaction it was issued in; here a call has one of each.
\<close>

record checkpoint_env =
  CKE_Limits :: RuntimeContextCodecLimits
  CKE_Digest :: "string \<Rightarrow> string"
  CKE_Jsonb :: "string \<Rightarrow> string option"
  CKE_Now :: time
  CKE_NewID :: "CheckpointID option"

record Ref =
  Ref_CheckpointID :: CheckpointID
  Ref_CheckpointSequence :: int
  Ref_CreatedAt :: time

record View =
  View_Entity :: CheckpointEntity
  View_Context :: RuntimeContextV1

record RuntimeCheckpointQuery =
  CQ_TaskID :: TaskID
  CQ_RunID :: RunID
  CQ_ExecutionVersion :: ExecutionVersion

datatype RuntimeCheckpointDraft =
    InitializationDraft
  | ExecutionDraft (Draft_PlanID: "PlanID option") (Draft_CurrentStepID: "StepID option")
      (Draft_NextAction: CheckpointNextAction) (Draft_ResolvedReferences: "ResolvedReference list option")
  | UnsupportedDraft

record RuntimeCheckpointSaveRequest =
  CSR_TaskID :: TaskID
  CSR_RunID :: RunID
  CSR_ExecutionVersion :: ExecutionVersion
  CSR_ExecutionConfigHash :: ExecutionConfigHash
  CSR_Draft :: RuntimeCheckpointDraft

datatype checkpointPurpose = purposeInitialization | purposeExecution

record saveCheckpointRequest =
  SCR_Purpose :: checkpointPurpose
  SCR_Query :: RuntimeCheckpointQuery
  SCR_Hash :: ExecutionConfigHash
  SCR_Context :: RuntimeContextV1

record CheckpointInvalid =
  CI_CheckpointID :: CheckpointID
  CI_TaskID :: TaskID
  CI_RunID :: RunID
  CI_ExecutionVersion :: ExecutionVersion
  CI_ReasonCode :: ReasonCode

datatype ValidationResult =
    ValidCheckpoint (VC_Checkpoint: View) (VC_InferredType: InferredType) (VC_ExecutionConfigHash: ExecutionConfigHash)
  | InvalidCheckpoint CheckpointInvalid
  | PersistenceInvariantViolation CauseCode

definition invalidResult :: "CheckpointEntity \<Rightarrow> ReasonCode \<Rightarrow> CheckpointInvalid" where
  "invalidResult entity reason =
    \<lparr>CI_CheckpointID = CE_CheckpointID entity, CI_TaskID = CE_TaskID entity, CI_RunID = CE_RunID entity,
     CI_ExecutionVersion = CE_ExecutionVersion entity, CI_ReasonCode = reason\<rparr>"

definition persistenceInvariantResult :: ValidationResult where
  "persistenceInvariantResult = PersistenceInvariantViolation ErrorCodePersistenceInvariantViolation"

definition codecReasonCode :: "RuntimeContextCodecErrorKind \<Rightarrow> ReasonCode" where
  "codecReasonCode kind =
    (case kind of
       RuntimeContextCodecVersionUnsupported \<Rightarrow> ReasonCodeRuntimeContextVersionUnsupported
     | RuntimeContextCodecMalformed \<Rightarrow> ReasonCodeRuntimeContextMalformed)"

definition validateQuery :: "RuntimeCheckpointQuery \<Rightarrow> bool" where
  "validateQuery q \<longleftrightarrow> CQ_TaskID q \<noteq> '''' \<and> CQ_RunID q \<noteq> '''' \<and> ExecutionVersion_Valid (CQ_ExecutionVersion q)"

definition saveUsage :: "checkpointPurpose \<Rightarrow> checkpointUsage" where
  "saveUsage purpose = (if purpose = purposeInitialization then usageClaimInitial else usageExecutionDispatch)"

definition cloneReferences :: "ResolvedReference list option \<Rightarrow> ResolvedReference list option" where
  "cloneReferences refs = Some (nil_list refs)"

definition loadFacts ::
    "RuntimeCheckpointQuery \<Rightarrow> RuntimeContextV1 \<Rightarrow> runtime_db \<Rightarrow> CheckpointError + ValidationFacts" where
  "loadFacts q ctx s =
    attempt (VerifyRunAttribution (CQ_TaskID q) (CQ_RunID q) s) (\<lambda>_.
    LoadValidationFacts
      \<lparr>VFR_TaskID = CQ_TaskID q, VFR_RunID = CQ_RunID q, VFR_ExecutionVersion = CQ_ExecutionVersion q,
       VFR_PlanID = RX_PlanID ctx, VFR_CurrentStepID = RX_CurrentStepID ctx,
       VFR_ApprovalID = map_option FA_ApprovalID (RX_ApprovalContext ctx)\<rparr> s)"

subsection \<open>Saving\<close>

text \<open>What a save and a recovery start end with: the next sequence, a fresh identifier, the insert.\<close>

definition insert_next ::
    "checkpoint_env \<Rightarrow> (int \<Rightarrow> CheckpointError + unit) \<Rightarrow> (CheckpointID \<Rightarrow> int \<Rightarrow> CheckpointEntity) \<Rightarrow> RunID \<Rightarrow>
     runtime_db \<Rightarrow> CheckpointError + Ref \<times> runtime_db" where
  "insert_next env admit entity runID s =
    attempt (AllocateNextSequence runID s) (\<lambda>sequence.
    attempt (admit sequence) (\<lambda>_.
    case CKE_NewID env of
      None \<Rightarrow> Inl ErrCheckpointID
    | Some checkpointID \<Rightarrow>
        attempt (InsertCheckpoint (CKE_Jsonb env) (CKE_Now env) (entity checkpointID sequence) s) (\<lambda>(createdAt, s').
        Inr (\<lparr>Ref_CheckpointID = checkpointID, Ref_CheckpointSequence = sequence, Ref_CreatedAt = createdAt\<rparr>, s'))))"

definition reason_error :: "ReasonCode option \<times> bool \<Rightarrow> CheckpointError + unit" where
  "reason_error verdict =
    (case verdict of
       (_, True) \<Rightarrow> Inl ErrCheckpointInvariant
     | (Some _, False) \<Rightarrow> Inl ErrInvalidDraft
     | (None, False) \<Rightarrow> Inr ())"

definition saveCheckpoint ::
    "checkpoint_env \<Rightarrow> saveCheckpointRequest \<Rightarrow> runtime_db \<Rightarrow> CheckpointError + Ref \<times> runtime_db" where
  "saveCheckpoint env request s =
    (let q = SCR_Query request; initial = SCR_Purpose request = purposeInitialization in
     if \<not> validateQuery q \<or> \<not> validSHA256 (SCR_Hash request) then Inl ErrInvalidDraft
     else if initial \<and> CQ_ExecutionVersion q \<noteq> 1 then Inl ErrInvalidDraft
     else
       (case Codec_Encode (CKE_Limits env) (SCR_Context request) of
          Inl _ \<Rightarrow> Inl ErrInvalidDraft
        | Inr encoded \<Rightarrow>
            attempt (loadFacts q (SCR_Context request) s) (\<lambda>facts.
            attempt (require (Exec_ExecutionConfigHash (VF_Execution facts) = SCR_Hash request) ErrCheckpointInvariant) (\<lambda>_.
            attempt (reason_error (validateContext (CKE_Digest env) (SCR_Context request) facts
              (saveUsage (SCR_Purpose request)))) (\<lambda>_.
            insert_next env (\<lambda>sequence. require (initial \<longrightarrow> sequence = 1) ErrInvalidDraft)
              (\<lambda>checkpointID sequence.
                \<lparr>CE_CheckpointID = checkpointID, CE_TaskID = CQ_TaskID q, CE_RunID = CQ_RunID q,
                 CE_ExecutionVersion = CQ_ExecutionVersion q, CE_CheckpointSequence = sequence,
                 CE_RuntimeContext = encoded, CE_ExecutionConfigHash = SCR_Hash request,
                 CE_SourceExecutionVersion = None, CE_SourceCheckpointID = None, CE_CreatedAt = 0\<rparr>)
              (CQ_RunID q) s)))))"

definition draft_context :: "RuntimeCheckpointSaveRequest \<Rightarrow> RuntimeContextV1" where
  "draft_context request =
    \<lparr>RX_SchemaVersion = 1, RX_TaskID = CSR_TaskID request, RX_RunID = CSR_RunID request,
     RX_ExecutionVersion = CSR_ExecutionVersion request, RX_PlanID = None, RX_CurrentStepID = None,
     RX_NextAction = CheckpointNextActionOther '''', RX_ResolvedReferences = Some [], RX_ApprovalContext = None\<rparr>"

definition SaveRuntimeCheckpoint ::
    "checkpoint_env \<Rightarrow> RuntimeCheckpointSaveRequest \<Rightarrow> runtime_db \<Rightarrow> CheckpointError + Ref \<times> runtime_db" where
  "SaveRuntimeCheckpoint env request s =
    (let q = \<lparr>CQ_TaskID = CSR_TaskID request, CQ_RunID = CSR_RunID request,
           CQ_ExecutionVersion = CSR_ExecutionVersion request\<rparr>;
         save = (\<lambda>purpose ctx. saveCheckpoint env
           \<lparr>SCR_Purpose = purpose, SCR_Query = q, SCR_Hash = CSR_ExecutionConfigHash request, SCR_Context = ctx\<rparr> s) in
     case CSR_Draft request of
       InitializationDraft \<Rightarrow>
         save purposeInitialization ((draft_context request)\<lparr>RX_NextAction := CheckpointNextActionGeneratePlan\<rparr>)
     | ExecutionDraft planID stepID action refs \<Rightarrow>
         save purposeExecution ((draft_context request)\<lparr>RX_PlanID := planID, RX_CurrentStepID := stepID,
           RX_NextAction := action, RX_ResolvedReferences := cloneReferences refs\<rparr>)
     | UnsupportedDraft \<Rightarrow> Inl ErrInvalidDraft)"

subsection \<open>Loading\<close>

definition directRecoverySourceValid :: "CheckpointEntity \<Rightarrow> runtime_db \<Rightarrow> CheckpointError + bool" where
  "directRecoverySourceValid entity s =
    (case (CE_SourceExecutionVersion entity, CE_SourceCheckpointID entity) of
       (Some version, Some checkpointID) \<Rightarrow>
         if next_version version \<noteq> CE_ExecutionVersion entity then Inr False
         else
           (case CheckpointRepository_FindByID checkpointID s of
              Inl err \<Rightarrow> if err = ErrCheckpointNotFound then Inr False else Inl err
            | Inr source \<Rightarrow>
                if CE_CheckpointID source \<noteq> checkpointID \<or> CE_TaskID source \<noteq> CE_TaskID entity
                   \<or> CE_RunID source \<noteq> CE_RunID entity \<or> CE_ExecutionVersion source \<noteq> version
                   \<or> CE_CheckpointSequence entity \<le> CE_CheckpointSequence source
                   \<or> CE_ExecutionConfigHash source \<noteq> CE_ExecutionConfigHash entity
                then Inr False
                else
                  (case LoadTaskExecution (CE_TaskID entity) version s of
                     Inl err \<Rightarrow> if err = ErrCheckpointInvariant \<or> err = ErrCheckpointNotFound then Inr False else Inl err
                   | Inr execution \<Rightarrow>
                       Inr (TEH_TaskID execution = CE_TaskID entity \<and> TEH_ExecutionVersion execution = version \<and>
                         TEH_ExecutionConfigHash execution = CE_ExecutionConfigHash source)))
     | _ \<Rightarrow> Inr False)"

text \<open>
  Both ways of reading a checkpoint begin alike: the latest entity of the version, its context and the facts,
  or the verdict that ends the reading.
\<close>

definition read_latest ::
    "checkpoint_env \<Rightarrow> RuntimeCheckpointQuery \<Rightarrow> runtime_db \<Rightarrow>
     CheckpointError + (ValidationResult + CheckpointEntity \<times> RuntimeContextV1 \<times> ValidationFacts)" where
  "read_latest env q s =
    (case VerifyRunAttribution (CQ_TaskID q) (CQ_RunID q) s of
       Inl err \<Rightarrow> if err = ErrCheckpointInvariant then Inr (Inl persistenceInvariantResult) else Inl err
     | Inr _ \<Rightarrow>
         (case FindLatestByExecutionVersion (CQ_TaskID q) (CQ_RunID q) (CQ_ExecutionVersion q) s of
            Inl err \<Rightarrow>
              if err = ErrCheckpointNotFound
              then Inr (Inl (InvalidCheckpoint
                \<lparr>CI_CheckpointID = '''', CI_TaskID = CQ_TaskID q, CI_RunID = CQ_RunID q,
                 CI_ExecutionVersion = CQ_ExecutionVersion q, CI_ReasonCode = ReasonCodeCheckpointNotFound\<rparr>))
              else Inl err
          | Inr entity \<Rightarrow>
              (case Codec_Decode (CKE_Limits env) (CE_RuntimeContext entity) of
                 Inl kind \<Rightarrow> Inr (Inl (InvalidCheckpoint (invalidResult entity (codecReasonCode kind))))
               | Inr decoded \<Rightarrow>
                   if RX_TaskID decoded \<noteq> CE_TaskID entity \<or> RX_RunID decoded \<noteq> CE_RunID entity
                      \<or> RX_ExecutionVersion decoded \<noteq> CE_ExecutionVersion entity
                   then Inr (Inl (InvalidCheckpoint (invalidResult entity ReasonCodeCheckpointAttributionMismatch)))
                   else
                     (case loadFacts q decoded s of
                        Inl err \<Rightarrow> if err = ErrCheckpointInvariant then Inr (Inl persistenceInvariantResult) else Inl err
                      | Inr facts \<Rightarrow> Inr (Inr (entity, decoded, facts))))))"

definition verdict_of :: "CheckpointEntity \<Rightarrow> ReasonCode option \<times> bool \<Rightarrow> ValidationResult option" where
  "verdict_of entity verdict =
    (case verdict of
       (_, True) \<Rightarrow> Some persistenceInvariantResult
     | (Some reason, False) \<Rightarrow> Some (InvalidCheckpoint (invalidResult entity reason))
     | (None, False) \<Rightarrow> None)"

definition loadAndValidateLatest ::
    "checkpoint_env \<Rightarrow> RuntimeCheckpointQuery \<Rightarrow> checkpointUsage \<Rightarrow> runtime_db \<Rightarrow> CheckpointError + ValidationResult" where
  "loadAndValidateLatest env q usage s =
    (if \<not> validateQuery q then Inl ErrInvalidDraft
     else
       attempt (read_latest env q s) (\<lambda>found.
       case found of
         Inl result \<Rightarrow> Inr result
       | Inr (entity, decoded, facts) \<Rightarrow>
           (let refused = (\<lambda>reason. Inr (InvalidCheckpoint (invalidResult entity reason))) in
            if \<not> coreAttributionValid decoded facts then Inr persistenceInvariantResult
            else if CE_ExecutionConfigHash entity \<noteq> Exec_ExecutionConfigHash (VF_Execution facts)
            then refused ReasonCodeCheckpointExecutionHashMismatch
            else
              (case inferCheckpointType entity decoded of
                 None \<Rightarrow> refused ReasonCodeCheckpointTypeAmbiguous
               | Some inferredType \<Rightarrow>
                   if inferredType = InferredTypeRecoveryStart \<and> usage = usageClaimInitial
                   then refused ReasonCodeCheckpointSourceInvalid
                   else
                     attempt (if inferredType = InferredTypeRecoveryStart then directRecoverySourceValid entity s else Inr True)
                       (\<lambda>sourceValid.
                     if \<not> sourceValid then refused ReasonCodeCheckpointSourceInvalid
                     else
                       (case verdict_of entity (validateContextWithApproval (CKE_Digest env) decoded facts usage
                          (inferredType = InferredTypeRecoveryStart)) of
                          Some result \<Rightarrow> Inr result
                        | None \<Rightarrow>
                            if usage = usageClaimInitial \<and> inferredType \<noteq> InferredTypeInitialization
                               \<or> usage = usageClaimContinuation \<and> inferredType = InferredTypeInitialization
                            then refused ReasonCodeCheckpointSourceInvalid
                            else Inr (ValidCheckpoint \<lparr>View_Entity = entity, View_Context = decoded\<rparr> inferredType
                              (CE_ExecutionConfigHash entity))))))))"

datatype ClaimQueryKind = ClaimQueryInitial | ClaimQueryContinuation | ClaimQueryUnknown

definition Manager_LoadLatestForClaim ::
    "checkpoint_env \<Rightarrow> RuntimeCheckpointQuery \<Rightarrow> ClaimQueryKind \<Rightarrow> runtime_db \<Rightarrow> CheckpointError + ValidationResult" where
  "Manager_LoadLatestForClaim env q kind s =
    (case kind of
       ClaimQueryInitial \<Rightarrow> loadAndValidateLatest env q usageClaimInitial s
     | ClaimQueryContinuation \<Rightarrow> loadAndValidateLatest env q usageClaimContinuation s
     | ClaimQueryUnknown \<Rightarrow> Inl ErrInvalidDraft)"

definition Manager_LoadLatestForExecutionDispatch ::
    "checkpoint_env \<Rightarrow> RuntimeCheckpointQuery \<Rightarrow> runtime_db \<Rightarrow> CheckpointError + ValidationResult" where
  "Manager_LoadLatestForExecutionDispatch env q s = loadAndValidateLatest env q usageExecutionDispatch s"

definition Manager_LoadLatestForStartupCleanup ::
    "checkpoint_env \<Rightarrow> RuntimeCheckpointQuery \<Rightarrow> runtime_db \<Rightarrow> CheckpointError + ValidationResult" where
  "Manager_LoadLatestForStartupCleanup env q s = loadAndValidateLatest env q usageStartupCleanup s"

end
