(* ===== verification/CheckpointRecovery.thy ===== *)
theory CheckpointRecovery
  imports CheckpointManager
begin

section \<open>Recovery sources and the Task Runtime adapter\<close>

text \<open>
  \<open>ValidateRecoverySource\<close> and \<open>CreateRecoveryStart\<close> of \<open>internal/checkpoint/recovery.go\<close>, and the adapter of
  \<open>taskruntime_adapter.go\<close>.
\<close>

record RecoverySourceQuery =
  RQ_TaskID :: TaskID
  RQ_RunID :: RunID
  RQ_SourceExecutionVersion :: ExecutionVersion
  RQ_Phase :: RecoverySourcePhase

record validatedRecoveryCapability =
  Cap_View :: View
  Cap_TypeOf :: InferredType
  Cap_Phase :: RecoverySourcePhase

datatype RecoverySourceResult =
    ValidatedRecoverySource validatedRecoveryCapability
  | RecoverySourceInvalid CheckpointInvalid
  | RecoverySourceInvariantViolation CauseCode

record RuntimeRecoveryStartRequest =
  RSR_TaskID :: TaskID
  RSR_RunID :: RunID
  RSR_NewExecutionVersion :: ExecutionVersion
  RSR_ExecutionConfigHash :: ExecutionConfigHash
  RSR_ValidatedSource :: "validatedRecoveryCapability option"

definition SourceNextAction :: "validatedRecoveryCapability \<Rightarrow> CheckpointNextAction" where
  "SourceNextAction source = RX_NextAction (View_Context (Cap_View source))"
definition SourceCheckpointID :: "validatedRecoveryCapability \<Rightarrow> CheckpointID" where
  "SourceCheckpointID source = CE_CheckpointID (View_Entity (Cap_View source))"
definition SourceExecutionConfigHash :: "validatedRecoveryCapability \<Rightarrow> ExecutionConfigHash" where
  "SourceExecutionConfigHash source = CE_ExecutionConfigHash (View_Entity (Cap_View source))"

definition validateRecoveryQuery :: "RecoverySourceQuery \<Rightarrow> bool" where
  "validateRecoveryQuery q \<longleftrightarrow>
     RQ_TaskID q \<noteq> '''' \<and> RQ_RunID q \<noteq> '''' \<and> ExecutionVersion_Valid (RQ_SourceExecutionVersion q)"

definition recoveryInvalid :: "CheckpointEntity \<Rightarrow> ReasonCode \<Rightarrow> RecoverySourceResult" where
  "recoveryInvalid entity reason = RecoverySourceInvalid (invalidResult entity reason)"

definition recovery_invariant :: RecoverySourceResult where
  "recovery_invariant = RecoverySourceInvariantViolation ErrorCodePersistenceInvariantViolation"

text \<open>The verdicts with which \<open>read_latest\<close> ends are the same ones here, in the result type of a recovery.\<close>

definition recovery_result :: "ValidationResult \<Rightarrow> RecoverySourceResult" where
  "recovery_result result =
    (case result of
       InvalidCheckpoint v \<Rightarrow> RecoverySourceInvalid v
     | PersistenceInvariantViolation c \<Rightarrow> RecoverySourceInvariantViolation c
     | ValidCheckpoint view kind hash \<Rightarrow> recovery_invariant)"

definition Manager_ValidateRecoverySource ::
    "checkpoint_env \<Rightarrow> RecoverySourceQuery \<Rightarrow> runtime_db \<Rightarrow> CheckpointError + RecoverySourceResult" where
  "Manager_ValidateRecoverySource env q s =
    (if \<not> validateRecoveryQuery q then Inl ErrInvalidDraft
     else
       attempt (read_latest env \<lparr>CQ_TaskID = RQ_TaskID q, CQ_RunID = RQ_RunID q,
         CQ_ExecutionVersion = RQ_SourceExecutionVersion q\<rparr> s) (\<lambda>found.
       case found of
         Inl result \<Rightarrow> Inr (recovery_result result)
       | Inr (entity, decoded, facts) \<Rightarrow>
           if \<not> coreAttributionValid decoded facts
              \<or> Task_CurrentExecutionVersion (VF_Task facts) \<noteq> RQ_SourceExecutionVersion q
           then Inr recovery_invariant
           else if CE_ExecutionConfigHash entity \<noteq> Exec_ExecutionConfigHash (VF_Execution facts)
           then Inr (recoveryInvalid entity ReasonCodeCheckpointExecutionHashMismatch)
           else
             (case inferCheckpointType entity decoded of
                None \<Rightarrow> Inr (recoveryInvalid entity ReasonCodeCheckpointTypeAmbiguous)
              | Some inferredType \<Rightarrow>
                  attempt (if inferredType = InferredTypeRecoveryStart then directRecoverySourceValid entity s else Inr True)
                    (\<lambda>sourceValid.
                  if \<not> sourceValid then Inr (recoveryInvalid entity ReasonCodeCheckpointSourceInvalid)
                  else
                    (case validateRecoveryContext (CKE_Digest env) decoded facts inferredType (RQ_Phase q) of
                       (_, True) \<Rightarrow> Inr recovery_invariant
                     | (Some reason, False) \<Rightarrow> Inr (recoveryInvalid entity reason)
                     | (None, False) \<Rightarrow> Inr (ValidatedRecoverySource
                         \<lparr>Cap_View = \<lparr>View_Entity = entity, View_Context = decoded\<rparr>, Cap_TypeOf = inferredType,
                          Cap_Phase = RQ_Phase q\<rparr>))))))"

definition Manager_CreateRecoveryStart ::
    "checkpoint_env \<Rightarrow> RuntimeRecoveryStartRequest \<Rightarrow> runtime_db \<Rightarrow> CheckpointError + Ref \<times> runtime_db" where
  "Manager_CreateRecoveryStart env request s =
    (case RSR_ValidatedSource request of
       None \<Rightarrow> Inl ErrInvalidDraft
     | Some capability \<Rightarrow>
         (let source = View_Entity (Cap_View capability); version = RSR_NewExecutionVersion request;
              ctx = (View_Context (Cap_View capability))\<lparr>RX_ExecutionVersion := version,
                RX_ResolvedReferences := cloneReferences (RX_ResolvedReferences (View_Context (Cap_View capability)))\<rparr> in
          if RSR_TaskID request = '''' \<or> RSR_RunID request = '''' \<or> \<not> ExecutionVersion_Valid version
             \<or> \<not> validSHA256 (RSR_ExecutionConfigHash request)
          then Inl ErrInvalidDraft
          else if CE_TaskID source \<noteq> RSR_TaskID request \<or> CE_RunID source \<noteq> RSR_RunID request
             \<or> version \<noteq> next_version (CE_ExecutionVersion source)
             \<or> RSR_ExecutionConfigHash request \<noteq> CE_ExecutionConfigHash source
          then Inl ErrInvalidDraft
          else
            attempt (FindLatestByExecutionVersion (CE_TaskID source) (CE_RunID source) (CE_ExecutionVersion source) s) (\<lambda>latest.
            attempt (require (CE_CheckpointID latest = CE_CheckpointID source \<and>
              CE_CheckpointSequence latest = CE_CheckpointSequence source) ErrInvalidDraft) (\<lambda>_.
            attempt (LoadTaskExecution (RSR_TaskID request) version s) (\<lambda>newExecution.
            attempt (require (TEH_ExecutionConfigHash newExecution = RSR_ExecutionConfigHash request)
              ErrCheckpointInvariant) (\<lambda>_.
            attempt (loadFacts \<lparr>CQ_TaskID = RSR_TaskID request, CQ_RunID = RSR_RunID request,
              CQ_ExecutionVersion = version\<rparr> ctx s) (\<lambda>newFacts.
            attempt (require (coreAttributionValid ctx newFacts \<and>
              Task_CurrentExecutionVersion (VF_Task newFacts) = version) ErrCheckpointInvariant) (\<lambda>_.
            attempt (reason_error (validateContextWithApproval (CKE_Digest env) ctx newFacts usageClaimContinuation True)) (\<lambda>_.
            case Codec_Encode (CKE_Limits env) ctx of
              Inl kind \<Rightarrow> Inl (ErrCheckpointCodec kind)
            | Inr encoded \<Rightarrow>
                insert_next env (\<lambda>_. Inr ())
                  (\<lambda>checkpointID sequence.
                    \<lparr>CE_CheckpointID = checkpointID, CE_TaskID = RSR_TaskID request, CE_RunID = RSR_RunID request,
                     CE_ExecutionVersion = version, CE_CheckpointSequence = sequence, CE_RuntimeContext = encoded,
                     CE_ExecutionConfigHash = RSR_ExecutionConfigHash request,
                     CE_SourceExecutionVersion = Some (CE_ExecutionVersion source),
                     CE_SourceCheckpointID = Some (CE_CheckpointID source), CE_CreatedAt = 0\<rparr>)
                  (RSR_RunID request) s)))))))))"

subsection \<open>The adapter\<close>

text \<open>
  The errors of the module are its own values: none of them is a sentinel of the Task Runtime. A raw value is
  there a \<open>RawMessage\<close>, of which only the bytes and whether they are JSON are ever looked at.
\<close>

fun json_of :: "jtext \<Rightarrow> json" where
  "json_of TNull = JNull"
| "json_of (TBool b) = JBool b"
| "json_of (TNumber n) = (if list_all digit n then JNum (digits_value n) else JStr n)"
| "json_of (TString s) = JStr (unquote s)"
| "json_of (TArray ts) = JArr (map json_of ts)"
| "json_of (TObject ms) = JObj (map (\<lambda>(k, t). (unquote k, json_of t)) ms)"

definition raw_message :: "string \<Rightarrow> RawMessage" where
  "raw_message s = \<lparr>Raw_Bytes = s, Raw_Value = map_option json_of (parse_json s)\<rparr>"

definition approval_context :: "FrozenApproval \<Rightarrow> ApprovalContext" where
  "approval_context a =
    \<lparr>APX_ApprovalID = FA_ApprovalID a, APX_ApprovalExecutionVersion = FA_ApprovalExecutionVersion a,
     APX_ToolName = FA_ToolName a, APX_FrozenToolInput = raw_message (FA_FrozenToolInput a),
     APX_ObservedValues = raw_message (FA_ObservedValues a), APX_ResourceVersion = FA_ResourceVersion a,
     APX_FrozenInputHash = FA_FrozenInputHash a\<rparr>"

definition port_error :: "CheckpointError \<Rightarrow> GoError" where
  "port_error err =
    (case err of
       ErrCheckpointConstraint name \<Rightarrow> ErrConstraint name
     | ErrCheckpointNotFound \<Rightarrow> ErrText ''checkpoint repository fact not found''
     | ErrCheckpointInvariant \<Rightarrow> ErrText ''checkpoint persistence invariant violation''
     | ErrInvalidDraft \<Rightarrow> ErrText ''checkpoint draft is invalid''
     | ErrCheckpointCodec _ \<Rightarrow> ErrText ''encode Context''
     | ErrCheckpointID \<Rightarrow> ErrText ''generate ID'')"

definition through_port :: "CheckpointError + 'a \<Rightarrow> GoError + 'a" where
  "through_port r = (case r of Inl err \<Rightarrow> Inl (port_error err) | Inr v \<Rightarrow> Inr v)"

definition saveRequest :: "SaveRuntimeCheckpointRequest \<Rightarrow> RuntimeCheckpointDraft \<Rightarrow> RuntimeCheckpointSaveRequest" where
  "saveRequest request draft =
    \<lparr>CSR_TaskID = Save_TaskID request, CSR_RunID = Save_RunID request, CSR_ExecutionVersion = Save_ExecutionVersion request,
     CSR_ExecutionConfigHash = Save_ExecutionConfigHash request, CSR_Draft = draft\<rparr>"

definition Adapter_SaveInitializationCheckpoint ::
    "checkpoint_env \<Rightarrow> SaveRuntimeCheckpointRequest \<Rightarrow> runtime_db \<Rightarrow> GoError + module_tables" where
  "Adapter_SaveInitializationCheckpoint env request s =
    through_port (attempt (SaveRuntimeCheckpoint env (saveRequest request InitializationDraft) s)
      (\<lambda>(ref, s'). Inr (db_other s')))"

definition Adapter_SaveGeneratePlanExecutionCheckpoint ::
    "checkpoint_env \<Rightarrow> SaveRuntimeCheckpointRequest \<Rightarrow> runtime_db \<Rightarrow> GoError + module_tables" where
  "Adapter_SaveGeneratePlanExecutionCheckpoint env request s =
    through_port (attempt (SaveRuntimeCheckpoint env (saveRequest request
      (ExecutionDraft None None CheckpointNextActionGeneratePlan (Some []))) s) (\<lambda>(ref, s'). Inr (db_other s')))"

definition runtimeCheckpoint :: "View \<Rightarrow> ExecutionConfigHash \<Rightarrow> RuntimeCheckpoint" where
  "runtimeCheckpoint view hash =
    (let entity = View_Entity view; ctx = View_Context view in
     \<lparr>RC_CheckpointID = CE_CheckpointID entity, RC_TaskID = CE_TaskID entity, RC_RunID = CE_RunID entity,
      RC_ExecutionVersion = CE_ExecutionVersion entity, RC_ExecutionConfigHash = hash, RC_NextAction = RX_NextAction ctx,
      RC_CheckpointSequence = CE_CheckpointSequence entity, RC_ResolvedReferences = context_references ctx,
      RC_ApprovalContext = map_option approval_context (RX_ApprovalContext ctx),
      RC_SourceExecutionVersion = CE_SourceExecutionVersion entity, RC_SourceCheckpointID = CE_SourceCheckpointID entity\<rparr>)"

definition claimResult :: "ValidationResult \<Rightarrow> GoError + ClaimCheckpointResult" where
  "claimResult result =
    (case result of
       ValidCheckpoint view _ hash \<Rightarrow> Inr (ClaimCheckpointValid (runtimeCheckpoint view hash))
     | InvalidCheckpoint v \<Rightarrow> Inr (ClaimCheckpointInvalid (CI_ReasonCode v))
     | PersistenceInvariantViolation _ \<Rightarrow> Inl GoError.ErrPersistenceInvariantViolation)"

definition Adapter_LoadLatestForClaim ::
    "checkpoint_env \<Rightarrow> TaskID \<Rightarrow> RunID \<Rightarrow> ExecutionVersion \<Rightarrow> ClaimCheckpointSource \<Rightarrow> runtime_db \<Rightarrow>
     GoError + ClaimCheckpointResult" where
  "Adapter_LoadLatestForClaim env taskID runID version source s =
    (let kind = (case source of ClaimCheckpointSourceInitial \<Rightarrow> ClaimQueryInitial
                  | ClaimCheckpointSourceContinuation \<Rightarrow> ClaimQueryContinuation) in
     attempt (through_port (Manager_LoadLatestForClaim env
       \<lparr>CQ_TaskID = taskID, CQ_RunID = runID, CQ_ExecutionVersion = version\<rparr> kind s)) claimResult)"

definition Adapter_LoadLatestForExecutionDispatch ::
    "checkpoint_env \<Rightarrow> TaskID \<Rightarrow> RunID \<Rightarrow> ExecutionVersion \<Rightarrow> runtime_db \<Rightarrow> GoError + ExecutionCheckpointResult" where
  "Adapter_LoadLatestForExecutionDispatch env taskID runID version s =
    attempt (through_port (Manager_LoadLatestForExecutionDispatch env
      \<lparr>CQ_TaskID = taskID, CQ_RunID = runID, CQ_ExecutionVersion = version\<rparr> s)) (\<lambda>result.
    case result of
      ValidCheckpoint view _ hash \<Rightarrow> Inr (ExecutionCheckpointValid (runtimeCheckpoint view hash))
    | InvalidCheckpoint v \<Rightarrow> Inr (ExecutionCheckpointInvalid (CI_ReasonCode v))
    | PersistenceInvariantViolation _ \<Rightarrow> Inl GoError.ErrPersistenceInvariantViolation)"

text \<open>
  The Task Runtime passes the capability of a source back without looking into it. Its port has a string for it:
  the identifier of the checkpoint, from which the capability is built again. Checkpoints never change, so in the
  transaction that validated the source it is the same one.
\<close>

definition Adapter_ValidateRecoverySource ::
    "checkpoint_env \<Rightarrow> ValidateRecoveryCheckpointRequest \<Rightarrow> runtime_db \<Rightarrow> GoError + RecoveryCheckpointResult" where
  "Adapter_ValidateRecoverySource env request s =
    attempt (through_port (Manager_ValidateRecoverySource env
      \<lparr>RQ_TaskID = VR_TaskID request, RQ_RunID = VR_RunID request,
       RQ_SourceExecutionVersion = VR_SourceExecutionVersion request, RQ_Phase = VR_Phase request\<rparr> s)) (\<lambda>result.
    case result of
      ValidatedRecoverySource source \<Rightarrow>
        Inr (RecoveryCheckpointValid (SourceCheckpointID source) (SourceExecutionConfigHash source)
          (SourceNextAction source) (Some (SourceCheckpointID source)))
    | RecoverySourceInvalid v \<Rightarrow> Inr (RecoveryCheckpointInvalid (CI_ReasonCode v))
    | RecoverySourceInvariantViolation c \<Rightarrow> Inr (RecoveryCheckpointInvariantViolation c))"

definition recovery_capability :: "checkpoint_env \<Rightarrow> string \<Rightarrow> runtime_db \<Rightarrow> validatedRecoveryCapability option" where
  "recovery_capability env checkpointID s =
    (case CheckpointRepository_FindByID checkpointID s of
       Inl _ \<Rightarrow> None
     | Inr entity \<Rightarrow>
         (case Codec_Decode (CKE_Limits env) (CE_RuntimeContext entity) of
            Inl _ \<Rightarrow> None
          | Inr decoded \<Rightarrow>
              map_option (\<lambda>kind. \<lparr>Cap_View = \<lparr>View_Entity = entity, View_Context = decoded\<rparr>, Cap_TypeOf = kind,
                Cap_Phase = RecoverySourceStartedExecution\<rparr>) (inferCheckpointType entity decoded)))"

definition Adapter_CreateRecoveryStart ::
    "checkpoint_env \<Rightarrow> CreateRecoveryStartRequest \<Rightarrow> runtime_db \<Rightarrow> GoError + CheckpointID \<times> module_tables" where
  "Adapter_CreateRecoveryStart env request s =
    (case RS_ValidatedSource request of
       None \<Rightarrow> Inl GoError.ErrPersistenceInvariantViolation
     | Some source \<Rightarrow>
         attempt (through_port (Manager_CreateRecoveryStart env
           \<lparr>RSR_TaskID = RS_TaskID request, RSR_RunID = RS_RunID request,
            RSR_NewExecutionVersion = RS_NewExecutionVersion request,
            RSR_ExecutionConfigHash = RS_ExecutionConfigHash request,
            RSR_ValidatedSource = recovery_capability env source s\<rparr> s)) (\<lambda>(ref, s').
         Inr (Ref_CheckpointID ref, db_other s')))"

end
