(* ===== verification/ContextRoundTrip.thy ===== *)
theory ContextRoundTrip
  imports CheckpointContext PlanRoundTrip
begin

section \<open>Reading back a stored runtime context\<close>

text \<open>
  What the codec encodes it decodes as the same context. The parts are read back one by one: names, strings,
  numbers, the segments of a path, references, and the members of the document.
\<close>

lemma read_string_text [simp]: "utf8_valid s \<Longrightarrow> read_string v (string_text s) = Some s"
  by (simp add: read_string_def string_text_def unquote_quote)

lemma read_pointer_text [simp]: "utf8_valid s \<Longrightarrow> read_pointer zero read_string p (string_text s) = Some (Some s)"
proof -
  assume "utf8_valid s"
  moreover have "string_text s \<noteq> TNull" by (simp add: string_text_def)
  ultimately show ?thesis by (simp add: read_pointer_def)
qed

lemma digits_of_unsigned: "0 \<le> i \<Longrightarrow> i < 2 ^ width \<Longrightarrow> read_unsigned width (decimal i) = Some i"
  by (simp add: read_unsigned_def decimal_def digits_of_digit digits_of_value)

lemma read_uint32_text [simp]: "read_uint32 v (TNumber (decimal (uint w))) = Some w"
  using uint_lt2p [of w] by (simp add: read_uint32_def digits_of_unsigned)

lemma read_uint64_text [simp]: "read_uint64 v (TNumber (decimal (uint w))) = Some w"
  using uint_lt2p [of w] by (simp add: read_uint64_def digits_of_unsigned)

lemma digits_of_no_sign: "take 1 (digits_of n) \<noteq> ''-''"
proof
  assume "take 1 (digits_of n) = ''-''"
  then obtain ds where "digits_of n = CHR ''-'' # ds" by (cases "digits_of n") auto
  then show False using digits_of_digit [of n] by (simp add: digit_def)
qed

lemma read_int64_text [simp]: "0 < i \<Longrightarrow> i < 2 ^ 63 \<Longrightarrow> read_int64 v (TNumber (decimal i)) = Some i"
  using digits_of_unsigned [of i 63] digits_of_no_sign [of "nat i"] by (simp add: read_int64_def decimal_def)

lemma numeral_decimal: "0 \<le> i \<Longrightarrow> numeral_text (decimal i)"
proof -
  assume "0 \<le> i"
  then have "decimal i = digits_of (nat i)" by (simp add: decimal_def)
  moreover have "numeral_text (digits_of 0)" by code_simp
  ultimately show ?thesis using numeral_digits [of "nat i"] by (cases "nat i = 0") simp_all
qed

text \<open>The names of the fields are written as they are, and read back by their exact name.\<close>

lemma literal_fields [simp]:
  "literal ''kind''" "literal ''key''" "literal ''index''" "literal ''target_path''" "literal ''source_step_id''"
  "literal ''source_output_field''" "literal ''schema_version''" "literal ''task_id''" "literal ''run_id''"
  "literal ''execution_version''" "literal ''plan_id''" "literal ''current_step_id''" "literal ''next_action''"
  "literal ''resolved_references''"
  by code_simp+

lemma unquote_fields [simp]:
  "unquote ''kind'' = ''kind''" "unquote ''key'' = ''key''" "unquote ''index'' = ''index''"
  "unquote ''target_path'' = ''target_path''" "unquote ''source_step_id'' = ''source_step_id''"
  "unquote ''source_output_field'' = ''source_output_field''" "unquote ''schema_version'' = ''schema_version''"
  "unquote ''task_id'' = ''task_id''" "unquote ''run_id'' = ''run_id''" "unquote ''execution_version'' = ''execution_version''"
  "unquote ''plan_id'' = ''plan_id''" "unquote ''current_step_id'' = ''current_step_id''"
  "unquote ''next_action'' = ''next_action''" "unquote ''resolved_references'' = ''resolved_references''"
  by code_simp+

lemma find_field_known [simp]: "map_of columns name = Some read \<Longrightarrow> find_field columns name = Some read"
  by (simp add: find_field_def)

lemma utf8_texts [simp]: "utf8_valid ''key''" "utf8_valid ''index''"
  "utf8_valid ''GENERATE_PLAN''" "utf8_valid ''EXECUTE_STEP''" "utf8_valid ''REQUEST_APPROVAL''"
  "utf8_valid ''EXECUTE_APPROVED_TOOL''" "utf8_valid ''FINALIZE_RUN''"
  by code_simp+

lemma SegmentKind_round_trip:
  "validatePathSegment segment \<Longrightarrow> utf8_valid (SegmentKind_text (Seg_Kind segment)) \<and>
    SegmentKind_of (SegmentKind_text (Seg_Kind segment)) = Seg_Kind segment"
  by (auto simp: validatePathSegment_def SegmentKind_text_def SegmentKind_of_def split: ReferencePathSegmentKind.splits)

lemma NextAction_round_trip:
  "CheckpointNextAction_Valid action \<Longrightarrow> utf8_valid (CheckpointNextAction_text action) \<and>
    CheckpointNextAction_of (CheckpointNextAction_text action) = action"
  by (cases action) (simp_all add: CheckpointNextAction_text_def CheckpointNextAction_of_def)

lemma read_segment [simp]:
  assumes "validatePathSegment segment"
  shows "read_struct segment_fields zero_segment (segment_text segment) = Some segment"
proof -
  have index: "read_pointer 0 read_uint64 p (TNumber (decimal (uint i))) = Some (Some i)" for p i
    by (simp add: read_pointer_def)
  note kind = SegmentKind_round_trip [OF assms]
  show ?thesis
  proof (cases "Seg_Kind segment")
    case ReferencePathSegmentKey
    then obtain key where key: "Seg_Key segment = Some key" "Seg_Index segment = None" "utf8_valid key"
      using assms by (auto simp: validatePathSegment_def requireString_def split: option.splits)
    then show ?thesis using kind
      by (simp add: read_struct_def segment_text_def segment_fields_def zero_segment_def del: utf8_texts)
  next
    case ReferencePathSegmentIndex
    then obtain i where i: "Seg_Index segment = Some i" "Seg_Key segment = None"
      using assms by (auto simp: validatePathSegment_def)
    then show ?thesis using kind
      by (simp add: read_struct_def segment_text_def segment_fields_def zero_segment_def index)
  next
    case (ReferencePathSegmentOther s)
    then show ?thesis using assms by (simp add: validatePathSegment_def)
  qed
qed

lemma read_elements_map:
  "(\<And>x. x \<in> set xs \<Longrightarrow> read zero (f x) = Some x) \<Longrightarrow> read_elements zero read [] (map f xs) = Some xs"
  by (induction xs) simp_all

lemma read_reference [simp]:
  assumes "validateResolvedReference reference"
  shows "read_struct reference_fields zero_reference (reference_text reference) = Some reference"
proof -
  have "read_elements zero_segment (read_struct segment_fields) [] (map segment_text (Ref_TargetPath reference))
      = Some (Ref_TargetPath reference)"
    using assms by (intro read_elements_map) (simp add: validateResolvedReference_def list_all_iff)
  then show ?thesis using assms
    by (simp add: read_struct_def reference_text_def reference_fields_def zero_reference_def read_slice_def
        validateResolvedReference_def requireString_def)
qed

subsection \<open>The document\<close>

lemma string_text_well_formed [simp]: "well_formed (string_text s)"
  by (simp add: string_text_def quote_literal)

lemma segment_text_well_formed: "well_formed (segment_text segment)"
  by (auto simp: segment_text_def numeral_decimal split: option.splits)

lemma reference_text_well_formed: "well_formed (reference_text reference)"
  by (simp add: reference_text_def list_all_iff segment_text_well_formed)

lemma context_members_well_formed:
  assumes "ExecutionVersion_Valid (RX_ExecutionVersion ctx)"
  shows "well_formed (TObject (context_members ctx))"
  using assms
  by (auto simp: context_members_def numeral_decimal reference_text_well_formed list_all_iff ExecutionVersion_Valid_def
      split: option.splits)

lemma context_members_read:
  assumes "validateRuntimeContext ctx" and "RX_ExecutionVersion ctx < 2 ^ 63" and "RX_ApprovalContext ctx = None"
  shows "read_struct context_fields zero_context (TObject (context_members ctx)) = Some ctx"
proof -
  obtain refs where refs: "RX_ResolvedReferences ctx = Some refs" "\<forall>r\<in>set refs. validateResolvedReference r"
    using assms(1) by (auto simp: validateRuntimeContext_def list_all_iff split: option.splits)
  have elements: "read_elements zero_reference (read_struct reference_fields) [] (map reference_text refs) = Some refs"
    using refs(2) by (intro read_elements_map) simp
  have action: "utf8_valid (CheckpointNextAction_text (RX_NextAction ctx))"
    "CheckpointNextAction_of (CheckpointNextAction_text (RX_NextAction ctx)) = RX_NextAction ctx"
    using NextAction_round_trip [of "RX_NextAction ctx"] assms(1) by (simp_all add: validateRuntimeContext_def)
  have strings: "utf8_valid (RX_TaskID ctx)" "utf8_valid (RX_RunID ctx)" "0 < RX_ExecutionVersion ctx"
    "RX_PlanID ctx = Some k \<Longrightarrow> utf8_valid k" "RX_CurrentStepID ctx = Some k \<Longrightarrow> utf8_valid k" for k
    using assms(1) by (auto simp: validateRuntimeContext_def requireString_def ExecutionVersion_Valid_def)
  show ?thesis
    using refs(1) elements action strings assms(2,3)
    by (cases "RX_PlanID ctx"; cases "RX_CurrentStepID ctx")
      (simp_all add: read_struct_def context_members_def context_fields_def zero_context_def read_slice_def context_references_def)
qed

lemma context_members_not_null:
  assumes "RX_ResolvedReferences ctx \<noteq> None"
  shows "rejectNullRuntimeContextFields (TObject (context_members ctx))"
proof -
  have "\<forall>m\<in>set (collect (map (\<lambda>(k, t). (unquote k, t)) (context_members ctx)) []). snd m \<noteq> TNull"
    using assms by (intro collect_all) (auto simp: context_members_def string_text_def split: option.splits)
  then show ?thesis by (auto simp: rejectNullRuntimeContextFields_def list_all_iff)
qed

lemma Codec_Encode_Inr:
  assumes "Codec_Encode limits ctx = Inr encoded" and "RX_ApprovalContext ctx = None"
  shows "validateRuntimeContext ctx \<and> encoded = render (TObject (context_members ctx)) \<and>
    validateJSONDocument limits encoded = Some (TObject (context_members ctx))"
proof -
  have valid: "validateRuntimeContext ctx" "encoded = render (TObject (context_members ctx))"
    "validateJSONDocument limits encoded \<noteq> None"
    using assms by (auto simp: Codec_Encode_def context_text_def split: if_splits option.splits simp del: render.simps)
  have "well_formed (TObject (context_members ctx))"
    using valid(1) by (intro context_members_well_formed) (simp add: validateRuntimeContext_def)
  then have "parse_json encoded = Some (TObject (context_members ctx))" unfolding valid(2) by (rule parse_render)
  then show ?thesis using valid by (auto simp: validateJSONDocument_def split: if_splits)
qed

text \<open>
  A runtime context without an approval survives its encoding: whatever \<open>Encode\<close> accepts, \<open>Decode\<close> reads
  back as the same context, with every identifier, reference path and number.
\<close>

lemma runtime_context_round_trip:
  assumes "Codec_Encode limits ctx = Inr encoded"
    and "RX_ApprovalContext ctx = None" and "RX_ExecutionVersion ctx < 2 ^ 63"
  shows "Codec_Decode limits encoded = Inr ctx"
proof -
  have encoded: "validateRuntimeContext ctx" "validateJSONDocument limits encoded = Some (TObject (context_members ctx))"
    using Codec_Encode_Inr [OF assms(1,2)] by blast+
  have "RX_ResolvedReferences ctx \<noteq> None" using encoded(1) by (auto simp: validateRuntimeContext_def split: option.splits)
  then show ?thesis
    using encoded context_members_read [OF encoded(1) assms(3,2)] context_members_not_null
    by (simp only: Codec_Decode_def option.case not_True_eq_False if_False if_True simp_thms)
qed

end
