(* ===== verification/StoredContext.thy ===== *)
theory StoredContext
  imports ContextRoundTrip "HOL-Library.Multiset"
begin

section \<open>A runtime context in a \<open>jsonb\<close> column\<close>

text \<open>
  A \<open>jsonb\<close> column does not keep the text it is given: the server writes its own white space, its own escapes
  and the members of an object in its own order. \<open>jsonb_same\<close> is what it keeps of the documents whose
  numbers are plain integers. The codec reads the same context from both.
\<close>

inductive jsonb_same :: "jtext \<Rightarrow> jtext \<Rightarrow> bool" where
  same_null: "jsonb_same TNull TNull"
| same_bool: "jsonb_same (TBool b) (TBool b)"
| same_number: "list_all digit n \<Longrightarrow> jsonb_same (TNumber n) (TNumber n)"
| same_string: "unquote k = unquote l \<Longrightarrow> jsonb_same (TString k) (TString l)"
| same_array: "list_all2 jsonb_same ts us \<Longrightarrow> jsonb_same (TArray ts) (TArray us)"
| same_object:
    "list_all2 (\<lambda>m n. unquote (fst m) = unquote (fst n) \<and> jsonb_same (snd m) (snd n)) ms ns \<Longrightarrow> mset ns = mset ns' \<Longrightarrow>
     jsonb_same (TObject ms) (TObject ns')"

inductive_cases same_cases:
  "jsonb_same TNull u" "jsonb_same (TBool b) u" "jsonb_same (TNumber n) u" "jsonb_same (TString k) u"
  "jsonb_same (TArray ts) u" "jsonb_same (TObject ms) u"

text \<open>The law of a column: the stored text is UTF-8 and a document with integers only keeps its value.\<close>

fun plain_numbers :: "jtext \<Rightarrow> bool" where
  "plain_numbers (TNumber n) = list_all digit n"
| "plain_numbers (TArray ts) = (\<forall>t\<in>set ts. plain_numbers t)"
| "plain_numbers (TObject ms) = (\<forall>m\<in>set ms. plain_numbers (snd m))"
| "plain_numbers _ = True"

definition jsonb_law :: "string \<Rightarrow> string \<Rightarrow> bool" where
  "jsonb_law s stored \<longleftrightarrow> utf8_valid stored \<and>
     (case parse_json s of
        None \<Rightarrow> True
      | Some t \<Rightarrow> if plain_numbers t then (case parse_json stored of None \<Rightarrow> False | Some u \<Rightarrow> jsonb_same t u) else True)"

subsection \<open>Members in another order\<close>

definition member_name :: "string \<times> jtext \<Rightarrow> string" where
  "member_name m = unquote (fst m)"

definition commuting :: "'s field list \<Rightarrow> bool" where
  "commuting columns \<longleftrightarrow>
     (\<forall>f\<in>set columns. \<forall>g\<in>set columns. fst f \<noteq> fst g \<longrightarrow>
       (\<forall>s t u. Option.bind (snd f s t) (\<lambda>s. snd g s u) = Option.bind (snd g s u) (\<lambda>s. snd f s t)))"

definition known_names :: "'s field list \<Rightarrow> (string \<times> jtext) list \<Rightarrow> bool" where
  "known_names columns ms \<longleftrightarrow> distinct (map member_name ms) \<and> member_name ` set ms \<subseteq> fst ` set columns"

lemma known_field:
  assumes "name \<in> fst ` set columns"
  obtains read where "find_field columns name = Some read" "(name, read) \<in> set columns"
proof -
  have "map_of columns name \<noteq> None" using assms by (simp add: map_of_eq_None_iff)
  then obtain read where "map_of columns name = Some read" by blast
  then show thesis using that by (simp add: map_of_SomeD)
qed

lemma read_members_swap:
  assumes "commuting columns" and "known_names columns (m # n # ms)"
  shows "read_members columns (m # n # ms) s = read_members columns (n # m # ms) s"
proof -
  obtain k t l u where m: "m = (k, t)" and n: "n = (l, u)" by (cases m; cases n)
  obtain f where f: "find_field columns (unquote k) = Some f" "(unquote k, f) \<in> set columns"
    using assms(2) known_field [of "unquote k" columns] by (auto simp: known_names_def member_name_def m)
  obtain g where g: "find_field columns (unquote l) = Some g" "(unquote l, g) \<in> set columns"
    using assms(2) known_field [of "unquote l" columns] by (auto simp: known_names_def member_name_def n)
  have "unquote k \<noteq> unquote l" using assms(2) by (simp add: known_names_def member_name_def m n)
  then have "Option.bind (f s t) (\<lambda>s. g s u) = Option.bind (g s u) (\<lambda>s. f s t)"
    using assms(1) f(2) g(2) unfolding commuting_def by (metis fst_conv snd_conv)
  then have "Option.bind (Option.bind (f s t) (\<lambda>s. g s u)) (read_members columns ms)
    = Option.bind (Option.bind (g s u) (\<lambda>s. f s t)) (read_members columns ms)" by simp
  moreover have "read_members columns ((k, t) # ms) = (\<lambda>s. Option.bind (f s t) (read_members columns ms))"
    "read_members columns ((l, u) # ms) = (\<lambda>s. Option.bind (g s u) (read_members columns ms))"
    using f(1) g(1) by (simp_all add: fun_eq_iff)
  ultimately show ?thesis using f(1) g(1) by (simp add: m n Option.bind_assoc)
qed

lemma read_members_front:
  assumes "commuting columns" and "known_names columns (as @ m # bs)"
  shows "read_members columns (as @ m # bs) s = read_members columns (m # as @ bs) s"
  using assms(2)
proof (induction as arbitrary: s)
  case (Cons a as)
  have "known_names columns (as @ m # bs)" "known_names columns (m # a # as @ bs)"
    using Cons.prems by (auto simp: known_names_def)
  moreover obtain k t where a: "a = (k, t)" by (cases a)
  moreover have "read_members columns (a # as @ m # bs) s = read_members columns (a # m # as @ bs) s"
    using Cons.IH calculation(1) by (auto simp: a split: option.splits intro: Option.bind_cong)
  moreover have "known_names columns (a # m # as @ bs)" using Cons.prems by (auto simp: known_names_def)
  ultimately show ?case using read_members_swap [OF assms(1), of a m "as @ bs" s] by (simp del: read_members.simps)
qed simp

lemma read_members_mset:
  assumes "commuting columns" and "known_names columns ms" and "mset ms = mset ns"
  shows "read_members columns ms s = read_members columns ns s"
  using assms(2,3)
proof (induction ms arbitrary: ns s)
  case (Cons m ms)
  have "m \<in> set ns" using Cons.prems(2) by (metis list.set_intros(1) set_mset_mset)
  then obtain as bs where ns: "ns = as @ m # bs" by (meson split_list)
  have rest: "mset ms = mset (as @ bs)" using Cons.prems(2) by (simp add: ns)
  have known: "known_names columns ms" using Cons.prems(1) by (auto simp: known_names_def)
  have "set ns = set (m # ms)" "mset (map member_name ns) = mset (map member_name (m # ms))"
    using Cons.prems(2) by (metis mset_eq_setD, metis mset_map)
  then have "known_names columns ns" using Cons.prems(1) by (metis known_names_def mset_eq_imp_distinct_iff)
  then have "read_members columns ns s = read_members columns (m # as @ bs) s"
    using read_members_front [OF assms(1)] by (simp add: ns)
  moreover obtain k t where "m = (k, t)" by (cases m)
  ultimately show ?case using Cons.IH [OF known rest] by (auto split: option.splits intro: Option.bind_cong)
qed simp

subsection \<open>Values in another spelling\<close>

text \<open>A value is stable under a reader when the reader gets the same from every spelling of it.\<close>

definition stable :: "('s \<Rightarrow> jtext \<Rightarrow> 'r) \<Rightarrow> jtext \<Rightarrow> bool" where
  "stable read t \<longleftrightarrow> (\<forall>s u. jsonb_same t u \<longrightarrow> read s u = read s t)"

definition stable_members :: "'s field list \<Rightarrow> (string \<times> jtext) list \<Rightarrow> bool" where
  "stable_members columns ms \<longleftrightarrow>
     (\<forall>m\<in>set ms. \<forall>read. find_field columns (member_name m) = Some read \<longrightarrow> stable read (snd m))"

lemma stable_map: "stable read t \<Longrightarrow> stable (\<lambda>s t. map_option (h s) (read (g s) t)) t"
  by (simp add: stable_def)

lemma stable_string: "stable read_string (TString k)"
  by (auto simp: stable_def read_string_def elim: same_cases)

lemma stable_number: "stable read (TNumber n)"
  by (auto simp: stable_def elim: same_cases)

lemma same_not_null: "jsonb_same t u \<Longrightarrow> u = TNull \<longleftrightarrow> t = TNull"
  by (auto elim: jsonb_same.cases)

lemma stable_pointer: "stable read t \<Longrightarrow> stable (read_pointer zero read) t"
  by (auto simp: stable_def read_pointer_def same_not_null)

lemma same_elements:
  "list_all2 jsonb_same ts us \<Longrightarrow> \<forall>t\<in>set ts. stable read t \<Longrightarrow>
    read_elements zero read old us = read_elements zero read old ts"
proof (induction arbitrary: old rule: list_all2_induct)
  case (Cons t ts u us)
  then have "read s u = read s t" for s by (simp add: stable_def)
  then show ?case using Cons by (simp split: option.split)
qed simp

lemma stable_slice: "\<forall>t\<in>set ts. stable read t \<Longrightarrow> stable (read_slice zero read) (TArray ts)"
  using same_elements [of ts _ read zero] by (auto simp: stable_def read_slice_def elim!: same_cases(5))

lemma same_members:
  "list_all2 (\<lambda>m n. unquote (fst m) = unquote (fst n) \<and> jsonb_same (snd m) (snd n)) ms ns \<Longrightarrow>
    stable_members columns ms \<Longrightarrow> read_members columns ns s = read_members columns ms s"
proof (induction arbitrary: s rule: list_all2_induct)
  case (Cons m ms n ns)
  obtain k t l u where mn: "m = (k, t)" "n = (l, u)" by (cases m; cases n)
  then have same: "unquote k = unquote l" "jsonb_same t u" using Cons.hyps by auto
  have rest: "read_members columns ns s = read_members columns ms s" for s
    using Cons.IH Cons.prems by (simp add: stable_members_def)
  have "find_field columns (unquote l) = Some read \<Longrightarrow> read s u = read s t" for read
    using Cons.prems same by (auto simp: stable_members_def stable_def mn member_name_def)
  then show ?case using rest by (auto simp: mn same split: option.split intro!: Option.bind_cong)
qed simp

lemma same_names:
  "list_all2 (\<lambda>m n. unquote (fst m) = unquote (fst n) \<and> jsonb_same (snd m) (snd n)) ms ns \<Longrightarrow>
    map member_name ns = map member_name ms"
  by (induction rule: list_all2_induct) (simp_all add: member_name_def)

lemma stable_struct:
  assumes "commuting columns" and "known_names columns ms" and "stable_members columns ms"
  shows "stable (read_struct columns) (TObject ms)"
  unfolding stable_def
proof (intro allI impI)
  fix s u
  assume "jsonb_same (TObject ms) u"
  then obtain ns ns' where u: "u = TObject ns'" "mset ns = mset ns'"
    and related: "list_all2 (\<lambda>m n. unquote (fst m) = unquote (fst n) \<and> jsonb_same (snd m) (snd n)) ms ns"
    by (auto elim: same_cases(6))
  have "known_names columns ns"
    using assms(2) same_names [OF related] by (metis known_names_def set_map)
  then have "read_members columns ns' s = read_members columns ns s"
    using read_members_mset [OF assms(1)] u(2) by simp
  then show "read_struct columns s u = read_struct columns s (TObject ms)"
    using same_members [OF related assms(3)] by (simp add: read_struct_def u(1))
qed

subsection \<open>The codec\<close>

lemma bind_map_commute:
  "(\<And>v w. h v w = k w v) \<Longrightarrow> Option.bind x (\<lambda>v. map_option (h v) y) = Option.bind y (\<lambda>w. map_option (k w) x)"
  by (cases x; cases y) simp_all

lemma segment_fields_commute: "commuting segment_fields"
  by (simp add: commuting_def segment_fields_def Option.bind_map_option comp_def)
    (intro conjI allI bind_map_commute; simp)

lemma reference_fields_commute: "commuting reference_fields"
  by (simp add: commuting_def reference_fields_def Option.bind_map_option comp_def)
    (intro conjI allI bind_map_commute; simp)

lemma context_fields_commute: "commuting context_fields"
  by (simp add: commuting_def context_fields_def context_references_def Option.bind_map_option comp_def)
    (intro conjI allI bind_map_commute; simp)

lemma segment_text_stable: "stable (read_struct segment_fields) (segment_text segment)"
  unfolding segment_text_def
  by (rule stable_struct [OF segment_fields_commute])
    (auto simp: known_names_def stable_members_def member_name_def segment_fields_def string_text_def
      split: option.splits intro!: stable_map stable_pointer stable_string stable_number)

lemma reference_text_stable: "stable (read_struct reference_fields) (reference_text reference)"
  unfolding reference_text_def
  by (rule stable_struct [OF reference_fields_commute])
    (auto simp: known_names_def stable_members_def member_name_def reference_fields_def string_text_def
      intro!: stable_map stable_slice stable_string segment_text_stable)

lemma context_text_stable:
  assumes "RX_ResolvedReferences ctx \<noteq> None"
  shows "stable (read_struct context_fields) (TObject (context_members ctx))"
proof (rule stable_struct [OF context_fields_commute])
  show "known_names context_fields (context_members ctx)"
    by (auto simp: known_names_def member_name_def context_members_def context_fields_def split: option.splits)
  show "stable_members context_fields (context_members ctx)"
    using assms
    by (auto simp: stable_members_def member_name_def context_members_def context_fields_def string_text_def
        split: option.splits intro!: stable_map stable_slice stable_pointer stable_string stable_number reference_text_stable)
qed

lemma digits_of_decimal: "0 \<le> i \<Longrightarrow> list_all digit (decimal i)"
  by (simp add: decimal_def digits_of_digit)

lemma context_members_plain:
  assumes "0 \<le> RX_ExecutionVersion ctx"
  shows "plain_numbers (TObject (context_members ctx))"
proof -
  have "plain_numbers (segment_text segment)" for segment
    by (auto simp: segment_text_def string_text_def digits_of_decimal split: option.splits)
  then have "plain_numbers (reference_text reference)" for reference
    by (auto simp: reference_text_def string_text_def)
  then show ?thesis using assms
    by (auto simp: context_members_def string_text_def digits_of_decimal split: option.splits)
qed

lemma list_all2_right: "list_all2 P xs ys \<Longrightarrow> y \<in> set ys \<Longrightarrow> \<exists>x\<in>set xs. P x y"
  by (induction rule: list_all2_induct) auto

lemma parse_empty: "parse_json [] = None"
  by code_simp

text \<open>The scan of the document finds the same depth and the same names.\<close>

lemma same_scan: "jsonb_same t u \<Longrightarrow> scan_value d maxDepth t \<Longrightarrow> scan_value d maxDepth u"
proof (induction arbitrary: d rule: jsonb_same.induct)
  case (same_array ts us)
  show ?case unfolding scan_value.simps
  proof (intro conjI ballI)
    fix u assume "u \<in> set us"
    then obtain t where "t \<in> set ts" "\<forall>d. scan_value d maxDepth t \<longrightarrow> scan_value d maxDepth u"
      using list_all2_right [OF same_array.IH] by blast
    then show "scan_value (d + 1) maxDepth u" using same_array.prems by simp
  qed (use same_array.prems in simp)
next
  case (same_object ms ns ns')
  have names: "map member_name ns = map member_name ms"
    by (rule same_names) (rule list_all2_mono [OF same_object.IH(1)], simp)
  have "member_name = (\<lambda>m. unquote (fst m))" by (simp add: fun_eq_iff member_name_def)
  then have "distinct (map member_name ns)" using same_object.prems by (simp add: names)
  then have "distinct (map member_name ns')" using same_object.hyps by (metis mset_eq_imp_distinct_iff mset_map)
  moreover have "scan_value (d + 1) maxDepth (snd n)" if "n \<in> set ns'" for n
  proof -
    have "n \<in> set ns" using that same_object.hyps by (metis mset_eq_setD)
    then obtain m where "m \<in> set ms" "\<forall>d. scan_value d maxDepth (snd m) \<longrightarrow> scan_value d maxDepth (snd n)"
      using list_all2_right [OF same_object.IH(1)] by blast
    then show ?thesis using same_object.prems by simp
  qed
  ultimately show ?case using same_object.prems \<open>member_name = (\<lambda>m. unquote (fst m))\<close> by simp
qed auto

lemma same_nulls:
  assumes "jsonb_same (TObject ms) u" and "\<forall>m\<in>set ms. snd m \<noteq> TNull"
  obtains ns where "u = TObject ns" "\<forall>n\<in>set ns. snd n \<noteq> TNull"
proof -
  obtain ns ns' where u: "u = TObject ns'" "mset ns = mset ns'"
    and related: "list_all2 (\<lambda>m n. unquote (fst m) = unquote (fst n) \<and> jsonb_same (snd m) (snd n)) ms ns"
    using assms(1) by (auto elim: same_cases(6))
  have "snd n \<noteq> TNull" if "n \<in> set ns'" for n
  proof -
    have "n \<in> set ns" using that u(2) by (metis mset_eq_setD)
    then obtain m where "m \<in> set ms" "jsonb_same (snd m) (snd n)"
      using list_all2_right [OF related] by blast
    then show ?thesis using assms(2) same_not_null by auto
  qed
  then show thesis using that u(1) by blast
qed

lemma stored_context:
  assumes "Codec_Encode limits ctx = Inr encoded" and "RX_ApprovalContext ctx = None" and "RX_ExecutionVersion ctx < 2 ^ 63"
    and "jsonb_law encoded stored" and "int (length stored) \<le> CL_MaxBytes limits"
  shows "Codec_Decode limits stored = Inr ctx"
proof -
  let ?t = "TObject (context_members ctx)"
  have encoded: "validateRuntimeContext ctx" "validateJSONDocument limits encoded = Some ?t"
    using Codec_Encode_Inr [OF assms(1,2)] by blast+
  have refs: "RX_ResolvedReferences ctx \<noteq> None" "0 \<le> RX_ExecutionVersion ctx"
    using encoded(1) by (auto simp: validateRuntimeContext_def ExecutionVersion_Valid_def split: option.splits)
  have parsed: "parse_json encoded = Some ?t" "scan_value 0 (CL_MaxDepth limits) ?t"
    using encoded(2) by (auto simp: validateJSONDocument_def split: if_splits option.splits jtext.splits)
  obtain u where u: "parse_json stored = Some u" "jsonb_same ?t u" "utf8_valid stored"
    using assms(4) parsed(1) context_members_plain [OF refs(2)] by (auto simp: jsonb_law_def split: option.splits)
  have no_null: "\<forall>m\<in>set (context_members ctx). snd m \<noteq> TNull"
    using refs by (auto simp: context_members_def string_text_def split: option.splits)
  obtain ns where ns: "u = TObject ns" "\<forall>n\<in>set ns. snd n \<noteq> TNull" by (rule same_nulls [OF u(2) no_null])
  have "scan_value 0 (CL_MaxDepth limits) (TObject ns)" using same_scan [OF u(2) parsed(2)] ns(1) by simp
  moreover have "stored \<noteq> []" using u(1) parse_empty by auto
  ultimately have document: "validateJSONDocument limits stored = Some (TObject ns)"
    using u assms(5) ns(1) by (simp add: validateJSONDocument_def del: scan_value.simps)
  have "\<forall>m\<in>set (collect (map (\<lambda>(k, t). (unquote k, t)) ns) []). snd m \<noteq> TNull"
    using ns(2) by (intro collect_all) auto
  then have nulls: "rejectNullRuntimeContextFields (TObject ns)"
    by (auto simp: rejectNullRuntimeContextFields_def list_all_iff)
  have "read_struct context_fields zero_context (TObject ns) = Some ctx"
    using context_text_stable [OF refs(1)] u(2) context_members_read [OF encoded(1) assms(3,2)] ns(1)
    by (simp add: stable_def)
  then show ?thesis using document nulls encoded(1)
    by (simp only: Codec_Decode_def option.case not_True_eq_False if_False if_True simp_thms)
qed

text \<open>The limits of the codec the samples use.\<close>

definition stored_limits :: RuntimeContextCodecLimits where
  "stored_limits = \<lparr>CL_MaxBytes = 65536, CL_MaxDepth = 32\<rparr>"

end
