(* ===== verification/CheckpointSafety.thy ===== *)
theory CheckpointSafety
  imports CheckpointRecovery StoredContext
begin

section \<open>What a valid checkpoint guarantees\<close>

text \<open>
  The verdict of the checkpoint manager, traced back to the rows of the database: the approval behind a frozen
  tool call, and the tool calls behind a recovery source.
\<close>

subsection \<open>From a verdict to the facts\<close>

lemma latest_checkpoint_Some:
  assumes "latest_checkpoint taskID runID version s = Some c"
  shows "CE_TaskID c = taskID" "CE_RunID c = runID" "CE_ExecutionVersion c = version" "c \<in> set (checkpoints s)"
proof -
  let ?cs = "filter (\<lambda>c. CE_TaskID c = taskID \<and> CE_RunID c = runID \<and> CE_ExecutionVersion c = version) (checkpoints s)"
  have "?cs \<noteq> []" using assms by (auto simp: latest_checkpoint_def)
  then have "c = arg_min_list (\<lambda>c. - CE_CheckpointSequence c) ?cs"
    using assms unfolding latest_checkpoint_def by (cases ?cs) (simp_all only: list.case option.inject, simp)
  then have "c \<in> set ?cs" using \<open>?cs \<noteq> []\<close> by (metis arg_min_list_in)
  then show "CE_TaskID c = taskID" "CE_RunID c = runID" "CE_ExecutionVersion c = version" "c \<in> set (checkpoints s)"
    by simp_all
qed

lemma findOne_Inr [simp]: "findOne row = Inr c \<longleftrightarrow> row = Some c \<and> 0 < CE_CheckpointSequence c \<and>
    ExecutionVersion_Valid (CE_ExecutionVersion c) \<and> validSHA256 (CE_ExecutionConfigHash c)"
  by (auto simp: findOne_def split: option.splits)

lemma read_latest_found:
  assumes "read_latest env q s = Inr (Inr (entity, ctx, facts))"
  shows "latest_checkpoint (CQ_TaskID q) (CQ_RunID q) (CQ_ExecutionVersion q) s = Some entity"
    and "Codec_Decode (CKE_Limits env) (CE_RuntimeContext entity) = Inr ctx"
    and "RX_TaskID ctx = CQ_TaskID q" "RX_RunID ctx = CQ_RunID q" "RX_ExecutionVersion ctx = CQ_ExecutionVersion q"
    and "loadFacts q ctx s = Inr facts"
proof -
  have found: "FindLatestByExecutionVersion (CQ_TaskID q) (CQ_RunID q) (CQ_ExecutionVersion q) s = Inr entity \<and>
      Codec_Decode (CKE_Limits env) (CE_RuntimeContext entity) = Inr ctx \<and> RX_TaskID ctx = CE_TaskID entity \<and>
      RX_RunID ctx = CE_RunID entity \<and> RX_ExecutionVersion ctx = CE_ExecutionVersion entity \<and> loadFacts q ctx s = Inr facts"
    using assms by (auto simp: read_latest_def split: sum.splits if_splits)
  then show latest: "latest_checkpoint (CQ_TaskID q) (CQ_RunID q) (CQ_ExecutionVersion q) s = Some entity"
    by (simp add: FindLatestByExecutionVersion_def)
  show "Codec_Decode (CKE_Limits env) (CE_RuntimeContext entity) = Inr ctx" "loadFacts q ctx s = Inr facts"
    "RX_TaskID ctx = CQ_TaskID q" "RX_RunID ctx = CQ_RunID q" "RX_ExecutionVersion ctx = CQ_ExecutionVersion q"
    using found latest_checkpoint_Some [OF latest] by simp_all
qed

text \<open>The rows the loaded facts are.\<close>

lemma approval_facts_Inr:
  assumes "approval_facts request s facts = Inr facts'"
  shows "VF_Task facts' = VF_Task facts" "VF_Run facts' = VF_Run facts" "VF_Execution facts' = VF_Execution facts"
    "VF_Step facts' = VF_Step facts" "VF_ToolExecution facts' = VF_ToolExecution facts"
    "VFR_ApprovalID request = Some k \<Longrightarrow> loadApprovalByID k s = Inr (VF_Approval facts')"
  using assms by (auto simp: approval_facts_def split: option.splits)

lemma load_step_Inr:
  assumes "load_step request s facts = Inr facts'" and "VF_Step facts = None" "VF_Approval facts = None" "VF_ToolExecution facts = None"
  shows "VF_Task facts' = VF_Task facts" "VF_Run facts' = VF_Run facts" "VF_Execution facts' = VF_Execution facts"
    "VF_Step facts' = Some p \<Longrightarrow>
      step_row (Step_StepID p) s = Some p \<and> VF_ToolExecution facts' = loadToolExecution request (Step_StepID p) s"
    "VF_Approval facts' = Some a \<Longrightarrow> VFR_ApprovalID request = Some k \<Longrightarrow> loadApprovalByID k s = Inr (Some a)"
proof -
  have "VF_Task facts' = VF_Task facts \<and> VF_Run facts' = VF_Run facts \<and> VF_Execution facts' = VF_Execution facts \<and>
    (\<forall>p. VF_Step facts' = Some p \<longrightarrow>
      step_row (Step_StepID p) s = Some p \<and> VF_ToolExecution facts' = loadToolExecution request (Step_StepID p) s) \<and>
    (\<forall>a k. VF_Approval facts' = Some a \<longrightarrow> VFR_ApprovalID request = Some k \<longrightarrow> loadApprovalByID k s = Inr (Some a))"
  proof (cases "VFR_CurrentStepID request")
    case None
    then have "approval_facts request s facts = Inr facts'" using assms(1) by (simp add: load_step_def)
    then show ?thesis using approval_facts_Inr [of request s facts facts'] assms(2-) by auto
  next
    case (Some stepID)
    then obtain found where found: "loadStepFact stepID s = Inr found"
      using assms(1) by (auto simp: load_step_def)
    show ?thesis
    proof (cases found)
      case None
      then show ?thesis using assms Some found by (auto simp: load_step_def)
    next
      case (Some p)
      then obtain facts1 where facts1: "step_facts request p s facts = Inr facts1" "approval_facts request s facts1 = Inr facts'"
        using assms(1) \<open>VFR_CurrentStepID request = Some stepID\<close> found by (auto simp: load_step_def)
      have "step_row (Step_StepID p) s = Some p"
        using found Some by (auto simp: loadStepFact_def step_row_def split: option.splits if_splits dest: row_find_key)
      moreover have "VF_Step facts1 = Some p" "VF_ToolExecution facts1 = loadToolExecution request (Step_StepID p) s"
        "VF_Task facts1 = VF_Task facts" "VF_Run facts1 = VF_Run facts" "VF_Execution facts1 = VF_Execution facts"
        using facts1(1) by (auto simp: step_facts_def)
      ultimately show ?thesis using approval_facts_Inr [OF facts1(2)] by auto
    qed
  qed
  then show "VF_Task facts' = VF_Task facts" "VF_Run facts' = VF_Run facts" "VF_Execution facts' = VF_Execution facts"
    "VF_Step facts' = Some p \<Longrightarrow>
      step_row (Step_StepID p) s = Some p \<and> VF_ToolExecution facts' = loadToolExecution request (Step_StepID p) s"
    "VF_Approval facts' = Some a \<Longrightarrow> VFR_ApprovalID request = Some k \<Longrightarrow> loadApprovalByID k s = Inr (Some a)"
    by blast+
qed

definition facts_request :: "RuntimeCheckpointQuery \<Rightarrow> RuntimeContextV1 \<Rightarrow> ValidationFactsRequest" where
  "facts_request q ctx =
    \<lparr>VFR_TaskID = CQ_TaskID q, VFR_RunID = CQ_RunID q, VFR_ExecutionVersion = CQ_ExecutionVersion q,
     VFR_PlanID = RX_PlanID ctx, VFR_CurrentStepID = RX_CurrentStepID ctx,
     VFR_ApprovalID = map_option FA_ApprovalID (RX_ApprovalContext ctx)\<rparr>"

definition base_facts :: "Task \<Rightarrow> Run \<Rightarrow> TaskExecution \<Rightarrow> PlanEntity option \<Rightarrow> ValidationFacts" where
  "base_facts t r e plan = \<lparr>VF_Task = t, VF_Run = r, VF_Execution = e, VF_Plan = plan, VF_Step = None, VF_Previous = None,
     VF_HasLaterStep = False, VF_Approval = None, VF_ToolExecution = None\<rparr>"

lemma base_facts_simps [simp]:
  "VF_Task (base_facts t r e plan) = t" "VF_Run (base_facts t r e plan) = r" "VF_Execution (base_facts t r e plan) = e"
  "VF_Step (base_facts t r e plan) = None" "VF_Approval (base_facts t r e plan) = None"
  "VF_ToolExecution (base_facts t r e plan) = None" "(base_facts t r e plan)\<lparr>VF_Plan := plan'\<rparr> = base_facts t r e plan'"
  by (simp_all add: base_facts_def)

lemma LoadValidationFacts_base:
  "LoadValidationFacts request s =
    (case (task_row (VFR_TaskID request) s, run_row (VFR_TaskID request) s,
        exec_row (VFR_TaskID request, VFR_ExecutionVersion request) s) of
       (Some t, Some r, Some e) \<Rightarrow>
         if Run_RunID r \<noteq> VFR_RunID request then Inl ErrCheckpointInvariant
         else
           (case VFR_PlanID request of
              Some planID \<Rightarrow>
                (case plan_row planID s of
                   None \<Rightarrow> Inr (base_facts t r e None)
                 | Some plan \<Rightarrow> load_step request s (base_facts t r e (Some plan)))
            | None \<Rightarrow> load_step request s (base_facts t r e None))
     | _ \<Rightarrow> Inl ErrCheckpointInvariant)"
  by (simp add: LoadValidationFacts_def Let_def base_facts_def split: option.split)

lemma loadFacts_rows:
  assumes "loadFacts q ctx s = Inr facts"
  shows "task_row (CQ_TaskID q) s = Some (VF_Task facts)" "run_row (CQ_TaskID q) s = Some (VF_Run facts)"
    "exec_row (CQ_TaskID q, CQ_ExecutionVersion q) s = Some (VF_Execution facts)" "Run_RunID (VF_Run facts) = CQ_RunID q"
    "VF_Step facts = Some p \<Longrightarrow>
      step_row (Step_StepID p) s = Some p \<and> VF_ToolExecution facts = loadToolExecution (facts_request q ctx) (Step_StepID p) s"
    "VF_Approval facts = Some a \<Longrightarrow> RX_ApprovalContext ctx = Some frozen \<Longrightarrow>
      loadApprovalByID (FA_ApprovalID frozen) s = Inr (Some a)"
proof -
  have "LoadValidationFacts (facts_request q ctx) s = Inr facts"
    using assms by (auto simp: loadFacts_def facts_request_def)
  then obtain t r e plan where rows: "task_row (CQ_TaskID q) s = Some t" "run_row (CQ_TaskID q) s = Some r"
      "exec_row (CQ_TaskID q, CQ_ExecutionVersion q) s = Some e" "Run_RunID r = CQ_RunID q"
    and loaded: "facts = base_facts t r e plan \<or> load_step (facts_request q ctx) s (base_facts t r e plan) = Inr facts"
    by (auto simp: LoadValidationFacts_base facts_request_def split: option.splits if_splits)
  have approval: "RX_ApprovalContext ctx = Some frozen \<Longrightarrow> VFR_ApprovalID (facts_request q ctx) = Some (FA_ApprovalID frozen)"
    by (simp add: facts_request_def)
  from loaded show "task_row (CQ_TaskID q) s = Some (VF_Task facts)" "run_row (CQ_TaskID q) s = Some (VF_Run facts)"
    "exec_row (CQ_TaskID q, CQ_ExecutionVersion q) s = Some (VF_Execution facts)" "Run_RunID (VF_Run facts) = CQ_RunID q"
    "VF_Step facts = Some p \<Longrightarrow>
      step_row (Step_StepID p) s = Some p \<and> VF_ToolExecution facts = loadToolExecution (facts_request q ctx) (Step_StepID p) s"
    "VF_Approval facts = Some a \<Longrightarrow> RX_ApprovalContext ctx = Some frozen \<Longrightarrow>
      loadApprovalByID (FA_ApprovalID frozen) s = Inr (Some a)"
    using load_step_Inr [of "facts_request q ctx" s "base_facts t r e plan" facts] rows approval by auto
qed

subsection \<open>The approval behind a frozen tool call\<close>

lemma read_latest_verdict: "read_latest env q s = Inr (Inl result) \<Longrightarrow> result \<noteq> ValidCheckpoint view kind hash"
  by (auto simp: read_latest_def persistenceInvariantResult_def split: sum.splits if_splits)

lemma verdict_of_valid:
  "verdict_of entity verdict = None \<longleftrightarrow> verdict = (None, False)"
  "verdict_of entity verdict \<noteq> Some (ValidCheckpoint view kind hash)"
  by (auto simp: verdict_of_def persistenceInvariantResult_def split: prod.splits option.splits bool.splits)

lemma loadAndValidateLatest_valid:
  assumes "loadAndValidateLatest env q usage s = Inr (ValidCheckpoint view kind hash)"
  obtains facts where
    "read_latest env q s = Inr (Inr (View_Entity view, View_Context view, facts))"
    "coreAttributionValid (View_Context view) facts"
    "validateContextWithApproval (CKE_Digest env) (View_Context view) facts usage (kind = InferredTypeRecoveryStart) = (None, False)"
    "CE_ExecutionConfigHash (View_Entity view) = Exec_ExecutionConfigHash (VF_Execution facts)"
proof -
  have "validateQuery q" using assms by (auto simp: loadAndValidateLatest_def split: if_splits)
  then obtain found where found: "read_latest env q s = Inr found"
    using assms by (auto simp: loadAndValidateLatest_def)
  obtain entity ctx facts where right: "found = Inr (entity, ctx, facts)"
  proof (cases found)
    case (Inl result)
    then have "result = ValidCheckpoint view kind hash"
      using assms \<open>validateQuery q\<close> found by (simp add: loadAndValidateLatest_def)
    then show ?thesis using read_latest_verdict found Inl by blast
  qed auto
  then have result: "coreAttributionValid ctx facts \<and> CE_ExecutionConfigHash entity = Exec_ExecutionConfigHash (VF_Execution facts) \<and>
      verdict_of entity (validateContextWithApproval (CKE_Digest env) ctx facts usage (kind = InferredTypeRecoveryStart)) = None \<and>
      view = \<lparr>View_Entity = entity, View_Context = ctx\<rparr>"
    using assms \<open>validateQuery q\<close> found
    by (auto simp: loadAndValidateLatest_def Let_def persistenceInvariantResult_def verdict_of_valid(2)
        split: if_splits option.splits)
  then show thesis using that [of facts] found right verdict_of_valid(1) by auto
qed

lemma validateContextWithApproval_ok:
  assumes "validateContextWithApproval digest ctx facts usage recovery = (None, False)"
  shows "validatePlanAndStep ctx facts = None" "validateReferences ctx facts = None"
    "(if recovery then validateApprovalForRecovery else validateApproval) digest ctx facts = (None, False)"
    "validateAction ctx facts usage = None" "validateUsage ctx facts usage = None"
proof -
  let ?approval = "(if recovery then validateApprovalForRecovery else validateApproval) digest ctx facts"
  obtain reason broken where approval: "?approval = (reason, broken)" by (cases ?approval)
  show plan: "validatePlanAndStep ctx facts = None"
    using assms by (cases "validatePlanAndStep ctx facts") (simp_all add: validateContextWithApproval_def)
  show refs: "validateReferences ctx facts = None"
    using assms plan by (cases "validateReferences ctx facts") (simp_all add: validateContextWithApproval_def)
  show ok: "?approval = (None, False)"
    using assms unfolding approval validateContextWithApproval_def plan refs option.case
    by (cases reason; cases broken) simp_all
  show action: "validateAction ctx facts usage = None"
    using assms unfolding ok validateContextWithApproval_def plan refs option.case
    by (cases "validateAction ctx facts usage") simp_all
  show "validateUsage ctx facts usage = None"
    using assms unfolding ok validateContextWithApproval_def plan refs option.case by (simp add: action)
qed

text \<open>What both checks of an approval establish.\<close>

definition approval_backs :: "(string \<Rightarrow> string) \<Rightarrow> FrozenApproval \<Rightarrow> StepEntityParams \<Rightarrow> TaskExecution \<Rightarrow> ApprovalFact \<Rightarrow> bool" where
  "approval_backs digest frozen step execution a \<longleftrightarrow>
     AR_ApprovalID a = FA_ApprovalID frozen \<and> AR_StepID a = Step_StepID step \<and>
     AR_ExecutionVersion a = FA_ApprovalExecutionVersion frozen \<and>
     AR_ExecutionConfigHash a = Exec_ExecutionConfigHash execution \<and>
     AF_OwnerExecutionConfigHash a = Exec_ExecutionConfigHash execution \<and>
     AR_ToolName a = FA_ToolName frozen \<and> AR_ToolName a = Step_ToolName step \<and>
     jsonEqual (FA_FrozenToolInput frozen) (AR_FrozenToolInput a) \<and>
     jsonEqual (FA_ObservedValues frozen) (AR_ObservedValues a) \<and>
     AR_ResourceVersion a = FA_ResourceVersion frozen \<and> AR_FrozenInputHash a = FA_FrozenInputHash frozen \<and>
     ComputeFrozenInputHashV1 digest (frozen_of_approval a) = Some (AR_FrozenInputHash a)"

lemma validateApproval_ok:
  assumes "validateApproval digest ctx facts = (None, False)" and "RX_ApprovalContext ctx = Some frozen"
  obtains a step where "VF_Approval facts = Some a" "VF_Step facts = Some step"
    "approval_backs digest frozen step (VF_Execution facts) a"
    "AR_TaskID a = RX_TaskID ctx" "AR_RunID a = RX_RunID ctx" "AR_ExecutionVersion a = RX_ExecutionVersion ctx"
proof -
  obtain a step where found: "VF_Approval facts = Some a" "VF_Step facts = Some step"
    using assms by (cases "VF_Approval facts"; cases "VF_Step facts") (simp_all add: validateApproval_def)
  have "approval_names ctx frozen step a \<and> AR_ExecutionVersion a = RX_ExecutionVersion ctx \<and>
      ComputeFrozenInputHashV1 digest (frozen_of_approval a) = Some (AR_FrozenInputHash a) \<and>
      AR_ExecutionConfigHash a = AF_OwnerExecutionConfigHash a \<and>
      AR_ExecutionConfigHash a = Exec_ExecutionConfigHash (VF_Execution facts) \<and>
      FA_FrozenInputHash frozen = AR_FrozenInputHash a \<and> FA_ToolName frozen = AR_ToolName a \<and>
      AR_ToolName a = Step_ToolName step \<and> jsonEqual (FA_FrozenToolInput frozen) (AR_FrozenToolInput a) \<and>
      jsonEqual (FA_ObservedValues frozen) (AR_ObservedValues a) \<and> FA_ResourceVersion frozen = AR_ResourceVersion a"
    using assms unfolding validateApproval_def found option.case prod.case
    by (simp only: option.case split: if_splits) simp_all
  then show thesis by (intro that [OF found]) (auto simp: approval_backs_def approval_names_def)
qed

lemma approval_check_ok:
  assumes "(if recovery then validateApprovalForRecovery else validateApproval) digest ctx facts = (None, False)"
    and "RX_ApprovalContext ctx = Some frozen"
  obtains a step where "VF_Approval facts = Some a" "VF_Step facts = Some step"
    "approval_backs digest frozen step (VF_Execution facts) a"
    "AR_TaskID a = RX_TaskID ctx" "AR_RunID a = RX_RunID ctx" "AR_ExecutionVersion a \<le> RX_ExecutionVersion ctx"
proof (cases recovery)
  case False
  then show thesis using assms that by (auto elim!: validateApproval_ok)
next
  case True
  then have "validateApprovalForRecovery digest ctx facts = (None, False)" using assms(1) by simp
  then obtain a step where found: "VF_Approval facts = Some a" "VF_Step facts = Some step"
    and below: "AR_ExecutionVersion a < RX_ExecutionVersion ctx"
    and valid: "validateApproval digest (ctx\<lparr>RX_ExecutionVersion := AR_ExecutionVersion a\<rparr>) facts = (None, False)"
    using assms(2) by (auto simp: validateApprovalForRecovery_def not_le split: option.splits if_splits)
  then show thesis using that assms(2) by (auto elim!: validateApproval_ok)
qed

lemma approved_action_rows:
  assumes "loadAndValidateLatest env q usage s = Inr (ValidCheckpoint view kind hash)"
    and "RX_NextAction (View_Context view) = CheckpointNextActionExecuteApprovedTool"
  shows "\<exists>frozen a step execution.
    RX_ApprovalContext (View_Context view) = Some frozen \<and>
    loadApprovalByID (FA_ApprovalID frozen) s = Inr (Some a) \<and> AR_Status a = ApprovalStatusApproved \<and>
    AR_TaskID a = CQ_TaskID q \<and> AR_RunID a = CQ_RunID q \<and> AR_ExecutionVersion a \<le> CQ_ExecutionVersion q \<and>
    exec_row (CQ_TaskID q, CQ_ExecutionVersion q) s = Some execution \<and>
    step_row (AR_StepID a) s = Some step \<and> Step_Type step = StepTypeToolCall \<and> Step_Status step = StepStatusRunning \<and>
    approval_backs (CKE_Digest env) frozen step execution a"
proof -
  obtain facts where found: "read_latest env q s = Inr (Inr (View_Entity view, View_Context view, facts))"
    and verdict: "validateContextWithApproval (CKE_Digest env) (View_Context view) facts usage
      (kind = InferredTypeRecoveryStart) = (None, False)"
    using assms(1) by (rule loadAndValidateLatest_valid)
  let ?ctx = "View_Context view"
  note rows = loadFacts_rows [OF read_latest_found(6) [OF found]]
  have action: "validateAction ?ctx facts usage = None" by (rule validateContextWithApproval_ok [OF verdict])
  obtain frozen where frozen: "RX_ApprovalContext ?ctx = Some frozen"
    using action assms(2) by (auto simp: validateAction_def split: if_splits)
  obtain a step where approval: "VF_Approval facts = Some a" "VF_Step facts = Some step"
      "approval_backs (CKE_Digest env) frozen step (VF_Execution facts) a"
      "AR_TaskID a = CQ_TaskID q" "AR_RunID a = CQ_RunID q" "AR_ExecutionVersion a \<le> CQ_ExecutionVersion q"
    using approval_check_ok [OF validateContextWithApproval_ok(3) [OF verdict] frozen] read_latest_found(3-5) [OF found]
    by metis
  have "AR_Status a = ApprovalStatusApproved" "Step_Type step = StepTypeToolCall" "Step_Status step = StepStatusRunning"
    using action assms(2) approval(1,2) by (auto simp: validateAction_def step_is_def split: if_splits)
  moreover have "AR_StepID a = Step_StepID step" using approval(3) by (simp add: approval_backs_def)
  ultimately show ?thesis using frozen approval rows(3,5,6) by auto
qed

subsection \<open>The step behind a finished plan\<close>

lemma finalize_rows:
  assumes "loadAndValidateLatest env q usage s = Inr (ValidCheckpoint view kind hash)"
    and "RX_NextAction (View_Context view) = CheckpointNextActionFinalizeRun"
  shows "\<exists>run step. run_row (CQ_TaskID q) s = Some run \<and> Run_CurrentStepID run = Some (Step_StepID step) \<and>
    step_row (Step_StepID step) s = Some step \<and> Step_Status step = StepStatusCompleted"
proof -
  obtain facts where found: "read_latest env q s = Inr (Inr (View_Entity view, View_Context view, facts))"
    and verdict: "validateContextWithApproval (CKE_Digest env) (View_Context view) facts usage
      (kind = InferredTypeRecoveryStart) = (None, False)"
    using assms(1) by (rule loadAndValidateLatest_valid)
  note rows = loadFacts_rows [OF read_latest_found(6) [OF found]]
  have action: "validateAction (View_Context view) facts usage = None" by (rule validateContextWithApproval_ok [OF verdict])
  then obtain step where "VF_Step facts = Some step" "Step_Status step = StepStatusCompleted"
      "Run_CurrentStepID (VF_Run facts) = Some (Step_StepID step)"
    using assms(2) by (auto simp: validateAction_def step_is_def split: if_splits option.splits)
  with rows(2,5) show ?thesis by blast
qed

subsection \<open>The tool calls behind a recovery source\<close>

lemma validateRecoverySource_valid:
  assumes "Manager_ValidateRecoverySource env q s = Inr (ValidatedRecoverySource cap)"
  obtains facts where
    "read_latest env \<lparr>CQ_TaskID = RQ_TaskID q, CQ_RunID = RQ_RunID q, CQ_ExecutionVersion = RQ_SourceExecutionVersion q\<rparr> s =
      Inr (Inr (View_Entity (Cap_View cap), View_Context (Cap_View cap), facts))"
    "coreAttributionValid (View_Context (Cap_View cap)) facts"
    "Task_CurrentExecutionVersion (VF_Task facts) = RQ_SourceExecutionVersion q"
    "CE_ExecutionConfigHash (View_Entity (Cap_View cap)) = Exec_ExecutionConfigHash (VF_Execution facts)"
    "validateRecoveryContext (CKE_Digest env) (View_Context (Cap_View cap)) facts (Cap_TypeOf cap) (RQ_Phase q) = (None, False)"
proof -
  let ?q = "\<lparr>CQ_TaskID = RQ_TaskID q, CQ_RunID = RQ_RunID q, CQ_ExecutionVersion = RQ_SourceExecutionVersion q\<rparr>"
  have valid: "validateRecoveryQuery q" using assms by (auto simp: Manager_ValidateRecoverySource_def split: if_splits)
  then obtain found where found: "read_latest env ?q s = Inr found"
    using assms by (auto simp: Manager_ValidateRecoverySource_def)
  obtain entity ctx facts where right: "found = Inr (entity, ctx, facts)"
  proof (cases found)
    case (Inl result)
    then have "recovery_result result = ValidatedRecoverySource cap"
      using assms valid found by (simp add: Manager_ValidateRecoverySource_def)
    then show ?thesis by (simp add: recovery_result_def recovery_invariant_def split: ValidationResult.splits)
  qed auto
  then have result: "coreAttributionValid ctx facts \<and>
      Task_CurrentExecutionVersion (VF_Task facts) = RQ_SourceExecutionVersion q \<and>
      CE_ExecutionConfigHash entity = Exec_ExecutionConfigHash (VF_Execution facts) \<and>
      validateRecoveryContext (CKE_Digest env) ctx facts (Cap_TypeOf cap) (RQ_Phase q) = (None, False) \<and>
      Cap_View cap = \<lparr>View_Entity = entity, View_Context = ctx\<rparr>"
    using assms valid found
    by (auto simp: Manager_ValidateRecoverySource_def Let_def recovery_invariant_def recoveryInvalid_def
        split: if_splits option.splits prod.splits bool.splits)
  then show thesis using that [of facts] found right by auto
qed

lemma validateRecoveryContext_ok:
  assumes "validateRecoveryContext digest ctx facts inferredType phase = (None, False)"
  shows "validatePlanAndStep ctx facts = None" "validateRecoveryMatrix ctx facts inferredType phase = None"
proof -
  let ?approval = "(if inferredType = InferredTypeRecoveryStart then validateApprovalForRecovery else validateApproval) digest ctx facts"
  obtain reason broken where approval: "?approval = (reason, broken)" by (cases ?approval)
  show plan: "validatePlanAndStep ctx facts = None"
    using assms by (cases "validatePlanAndStep ctx facts") (simp_all add: validateRecoveryContext_def)
  have refs: "validateReferences ctx facts = None"
    using assms plan by (cases "validateReferences ctx facts") (simp_all add: validateRecoveryContext_def)
  show "validateRecoveryMatrix ctx facts inferredType phase = None"
    using assms unfolding approval validateRecoveryContext_def plan refs option.case
    by (cases reason; cases broken) simp_all
qed

text \<open>In both phases no tool call of the step at this version is running or unknown.\<close>

lemma matrix_tool_settled:
  assumes "validateRecoveryMatrix ctx facts inferredType phase = None" and "VF_ToolExecution facts = Some tool"
  shows "TX_Status tool \<noteq> ToolExecutionStatusRunning" "TX_Status tool \<noteq> ToolExecutionStatusUnknown" "\<not> TX_SideEffectUnknown tool"
proof -
  obtain errorCode where "validateRecoveryActionConsequence ctx facts errorCode = None"
    using assms by (auto simp: validateRecoveryMatrix_def before_first_execution_def
        split: if_splits option.splits RecoverySourcePhase.splits)
  then show "TX_Status tool \<noteq> ToolExecutionStatusRunning" "TX_Status tool \<noteq> ToolExecutionStatusUnknown" "\<not> TX_SideEffectUnknown tool"
    using assms(2) by (auto simp: validateRecoveryActionConsequence_def Let_def split: if_splits)
qed

lemma matrix_interrupted:
  assumes "validateRecoveryMatrix ctx facts inferredType phase = None"
  shows "Task_QueuedAt (VF_Task facts) = None" "Exec_Status (VF_Execution facts) = TaskExecutionStatusInterrupted"
  using assms by (auto simp: validateRecoveryMatrix_def split: if_splits)

lemma loadToolExecution_only:
  assumes "distinct (map (\<lambda>x. (TX_StepID x, TX_ExecutionVersion x)) (tab_tools (db_other s)))"
    and "tool \<in> set (tab_tools (db_other s))" "TX_ExecutionVersion tool = VFR_ExecutionVersion request"
  shows "loadToolExecution request (TX_StepID tool) s = Some tool"
proof -
  let ?xs = "filter (\<lambda>x. TX_StepID x = TX_StepID tool \<and> TX_ExecutionVersion x = VFR_ExecutionVersion request) (tab_tools (db_other s))"
  have only: "x = tool" if "x \<in> set ?xs" for x
    using assms that by (auto simp: distinct_map inj_on_def)
  have "tool \<in> set ?xs" using assms(2,3) by simp
  then have some: "?xs \<noteq> []" by force
  have "arg_min_list TX_ToolExecutionID ?xs = tool" by (rule only [OF arg_min_list_in [OF some]])
  then show ?thesis using some unfolding loadToolExecution_def by (cases ?xs) (simp_all only: list.case, simp)
qed

lemma recovery_source_rows:
  assumes "Manager_ValidateRecoverySource env q s = Inr (ValidatedRecoverySource cap)"
    and "distinct (map (\<lambda>x. (TX_StepID x, TX_ExecutionVersion x)) (tab_tools (db_other s)))"
  shows "\<exists>task execution.
    task_row (RQ_TaskID q) s = Some task \<and> exec_row (RQ_TaskID q, RQ_SourceExecutionVersion q) s = Some execution \<and>
    Task_CurrentExecutionVersion task = RQ_SourceExecutionVersion q \<and> Task_QueuedAt task = None \<and>
    Exec_Status execution = TaskExecutionStatusInterrupted \<and>
    latest_checkpoint (RQ_TaskID q) (RQ_RunID q) (RQ_SourceExecutionVersion q) s = Some (View_Entity (Cap_View cap)) \<and>
    CE_ExecutionConfigHash (View_Entity (Cap_View cap)) = Exec_ExecutionConfigHash execution \<and>
    (\<forall>tool\<in>set (tab_tools (db_other s)).
      RX_CurrentStepID (View_Context (Cap_View cap)) = Some (TX_StepID tool) \<and>
      TX_ExecutionVersion tool = RQ_SourceExecutionVersion q \<longrightarrow>
      TX_Status tool \<noteq> ToolExecutionStatusRunning \<and> TX_Status tool \<noteq> ToolExecutionStatusUnknown \<and> \<not> TX_SideEffectUnknown tool)"
proof -
  let ?q = "\<lparr>CQ_TaskID = RQ_TaskID q, CQ_RunID = RQ_RunID q, CQ_ExecutionVersion = RQ_SourceExecutionVersion q\<rparr>"
  let ?ctx = "View_Context (Cap_View cap)"
  obtain facts where found: "read_latest env ?q s = Inr (Inr (View_Entity (Cap_View cap), ?ctx, facts))"
    and current: "Task_CurrentExecutionVersion (VF_Task facts) = RQ_SourceExecutionVersion q"
      "CE_ExecutionConfigHash (View_Entity (Cap_View cap)) = Exec_ExecutionConfigHash (VF_Execution facts)"
    and verdict: "validateRecoveryContext (CKE_Digest env) ?ctx facts (Cap_TypeOf cap) (RQ_Phase q) = (None, False)"
    using assms(1) by (rule validateRecoverySource_valid)
  note rows = loadFacts_rows [OF read_latest_found(6) [OF found]]
  note matrix = validateRecoveryContext_ok(2) [OF verdict]
  have settled: "TX_Status tool \<noteq> ToolExecutionStatusRunning \<and> TX_Status tool \<noteq> ToolExecutionStatusUnknown \<and> \<not> TX_SideEffectUnknown tool"
    if tool: "tool \<in> set (tab_tools (db_other s))" "RX_CurrentStepID ?ctx = Some (TX_StepID tool)"
      "TX_ExecutionVersion tool = RQ_SourceExecutionVersion q" for tool
  proof -
    obtain p where p: "VF_Step facts = Some p" "Step_StepID p = TX_StepID tool"
      using validateRecoveryContext_ok(1) [OF verdict] tool(2)
      by (auto simp: validatePlanAndStep_def Let_def split: if_splits option.splits)
    then have "VF_ToolExecution facts = Some tool"
      using rows(5) [OF p(1)] loadToolExecution_only [OF assms(2) tool(1), of "facts_request ?q ?ctx"] tool(3)
      by (simp add: facts_request_def)
    then show ?thesis using matrix_tool_settled [OF matrix] by simp
  qed
  then show ?thesis
    using rows(1,3) current matrix_interrupted [OF matrix] read_latest_found(1) [OF found] by simp
qed

subsection \<open>Saving and loading\<close>

text \<open>Adding a checkpoint changes no other row.\<close>

definition add_checkpoint :: "CheckpointEntity \<Rightarrow> runtime_db \<Rightarrow> runtime_db" where
  "add_checkpoint row s = with_tables (\<lambda>tables. tables\<lparr>tab_checkpoints := tab_checkpoints tables @ [row]\<rparr>) s"

lemma add_checkpoint_rows [simp]:
  "task_row k (add_checkpoint row s) = task_row k s" "run_row k (add_checkpoint row s) = run_row k s"
  "exec_row j (add_checkpoint row s) = exec_row j s" "plan_row p (add_checkpoint row s) = plan_row p s"
  "step_row p (add_checkpoint row s) = step_row p s"
  "tab_steps (db_other (add_checkpoint row s)) = tab_steps (db_other s)"
  "tab_approvals (db_other (add_checkpoint row s)) = tab_approvals (db_other s)"
  "tab_tools (db_other (add_checkpoint row s)) = tab_tools (db_other s)"
  "checkpoints (add_checkpoint row s) = checkpoints s @ [row]"
  by (simp_all add: add_checkpoint_def with_tables_def task_row_def run_row_def exec_row_def plan_row_def step_row_def
      checkpoints_def)

lemma loadFacts_add_checkpoint [simp]: "loadFacts q ctx (add_checkpoint row s) = loadFacts q ctx s"
proof -
  have fact: "approval_fact (add_checkpoint row s) = approval_fact s"
    by (simp add: fun_eq_iff approval_fact_def)
  have byID: "loadApprovalByID k (add_checkpoint row s) = loadApprovalByID k s" for k
    by (simp add: loadApprovalByID_def fact split: option.split)
  have byStep: "loadApprovalByStep request stepID (add_checkpoint row s) = loadApprovalByStep request stepID s" for request stepID
    by (simp add: loadApprovalByStep_def fact cong: list.case_cong)
  have step: "loadStepFact stepID (add_checkpoint row s) = loadStepFact stepID s" for stepID
    by (simp add: loadStepFact_def)
  have "loadStepBySequence runID n (add_checkpoint row s) = loadStepBySequence runID n s" for runID n
    by (simp add: loadStepBySequence_def step split: option.split)
  then have "step_facts request p (add_checkpoint row s) facts = step_facts request p s facts" for request p facts
    by (simp add: step_facts_def loadToolExecution_def)
  moreover have "approval_facts request (add_checkpoint row s) = approval_facts request s" for request
    by (simp add: fun_eq_iff approval_facts_def byID byStep cong: option.case_cong)
  ultimately have "load_step request (add_checkpoint row s) facts = load_step request s facts" for request facts
    by (simp add: load_step_def step cong: option.case_cong)
  then have "LoadValidationFacts request (add_checkpoint row s) = LoadValidationFacts request s" for request
    by (simp add: LoadValidationFacts_base split: option.split)
  then show ?thesis by (simp add: loadFacts_def VerifyRunAttribution_def)
qed

text \<open>A saved row is the newest of its run.\<close>

lemma arg_min_list_last: "\<forall>x\<in>set xs. f y < f x \<Longrightarrow> arg_min_list f (xs @ [y]) = (y :: 'a)" for f :: "'a \<Rightarrow> 'b::linorder"
proof -
  assume less: "\<forall>x\<in>set xs. f y < f x"
  have "arg_min_list f (xs @ [y]) \<in> set (xs @ [y])" by (rule arg_min_list_in) simp
  moreover have "f (arg_min_list f (xs @ [y])) \<le> f y" by (simp add: f_arg_min_list_f)
  ultimately show ?thesis using less by force
qed

lemma AllocateNextSequence_Inr:
  assumes "AllocateNextSequence runID s = Inr n"
  shows "0 < n" "c \<in> set (checkpoints s) \<Longrightarrow> CE_RunID c = runID \<Longrightarrow> CE_CheckpointSequence c < n"
    "1 < n \<Longrightarrow> \<exists>c\<in>set (checkpoints s). CE_RunID c = runID \<and> CE_CheckpointSequence c = n - 1"
proof -
  let ?sequences = "insert 0 (CE_CheckpointSequence ` {c \<in> set (checkpoints s). CE_RunID c = runID})"
  have n: "n = Max ?sequences + 1" using assms by (auto simp: AllocateNextSequence_def Let_def split: if_splits)
  have finite: "finite ?sequences" by simp
  show "0 < n" using n Max_ge [OF finite, of 0] by simp
  show "CE_CheckpointSequence c < n" if "c \<in> set (checkpoints s)" "CE_RunID c = runID"
  proof -
    have "CE_CheckpointSequence c \<in> ?sequences" using that by blast
    then show ?thesis using Max_ge [OF finite] n by force
  qed
  show "\<exists>c\<in>set (checkpoints s). CE_RunID c = runID \<and> CE_CheckpointSequence c = n - 1" if "1 < n"
  proof -
    have "Max ?sequences \<in> ?sequences" by (rule Max_in [OF finite]) simp
    then show ?thesis using n that by auto
  qed
qed

lemma InsertCheckpoint_Inr:
  assumes "InsertCheckpoint jsonb now entity s = Inr (createdAt, s')"
  obtains stored where "jsonb (CE_RuntimeContext entity) = Some stored"
    "s' = add_checkpoint (entity\<lparr>CE_RuntimeContext := stored, CE_CreatedAt := now\<rparr>) s" "createdAt = now"
    "checkpoint_check (entity\<lparr>CE_RuntimeContext := stored, CE_CreatedAt := now\<rparr>)"
    "checkpoint_row (CE_CheckpointID entity) s = None"
    "\<forall>c\<in>set (checkpoints s). CE_RunID c = CE_RunID entity \<longrightarrow> CE_CheckpointSequence c \<noteq> CE_CheckpointSequence entity"
proof -
  obtain stored where stored: "jsonb (CE_RuntimeContext entity) = Some stored"
    using assms by (cases "jsonb (CE_RuntimeContext entity)") (simp_all add: InsertCheckpoint_def)
  define row where "row = entity\<lparr>CE_RuntimeContext := stored, CE_CreatedAt := now\<rparr>"
  have names: "CE_CheckpointID row = CE_CheckpointID entity" "CE_RunID row = CE_RunID entity"
    "CE_CheckpointSequence row = CE_CheckpointSequence entity" by (simp_all add: row_def)
  have "checkpoint_check row \<and> checkpoint_row (CE_CheckpointID row) s = None \<and>
      \<not> list_ex (\<lambda>c. CE_RunID c = CE_RunID row \<and> CE_CheckpointSequence c = CE_CheckpointSequence row) (checkpoints s) \<and>
      (now, add_checkpoint row s) = (createdAt, s')"
    using assms unfolding InsertCheckpoint_def stored option.case Let_def row_def [symmetric] add_checkpoint_def
    by (simp only: not_not split: if_splits) simp_all
  then show thesis using that [OF stored] unfolding row_def [symmetric] by (auto simp: names list_ex_iff)
qed

lemma latest_added:
  assumes "CE_TaskID row = taskID" "CE_RunID row = runID" "CE_ExecutionVersion row = version"
    and "\<forall>c\<in>set (checkpoints s). CE_RunID c = runID \<longrightarrow> CE_CheckpointSequence c < CE_CheckpointSequence row"
  shows "latest_checkpoint taskID runID version (add_checkpoint row s) = Some row"
proof -
  let ?old = "filter (\<lambda>c. CE_TaskID c = taskID \<and> CE_RunID c = runID \<and> CE_ExecutionVersion c = version) (checkpoints s)"
  have "arg_min_list (\<lambda>c. - CE_CheckpointSequence c) (?old @ [row]) = row"
    using assms(4) by (intro arg_min_list_last) auto
  moreover have "?old @ [row] \<noteq> []" by simp
  moreover have "filter (\<lambda>c. CE_TaskID c = taskID \<and> CE_RunID c = runID \<and> CE_ExecutionVersion c = version)
      (checkpoints (add_checkpoint row s)) = ?old @ [row]" using assms(1-3) by simp
  ultimately show ?thesis unfolding latest_checkpoint_def
    by (cases "?old @ [row]") (simp_all only: list.case, simp)
qed

lemma insert_next_Inr:
  assumes "insert_next env admit entity runID s = Inr (ref, s')"
  obtains createdAt where "AllocateNextSequence runID s = Inr (Ref_CheckpointSequence ref)"
    "admit (Ref_CheckpointSequence ref) = Inr ()" "CKE_NewID env = Some (Ref_CheckpointID ref)"
    "InsertCheckpoint (CKE_Jsonb env) (CKE_Now env) (entity (Ref_CheckpointID ref) (Ref_CheckpointSequence ref)) s = Inr (createdAt, s')"
  using assms by (auto simp: insert_next_def split: option.splits)

text \<open>The query and the context a save request stands for.\<close>

definition save_query :: "RuntimeCheckpointSaveRequest \<Rightarrow> RuntimeCheckpointQuery" where
  "save_query request =
    \<lparr>CQ_TaskID = CSR_TaskID request, CQ_RunID = CSR_RunID request, CQ_ExecutionVersion = CSR_ExecutionVersion request\<rparr>"

definition saved_context :: "RuntimeCheckpointSaveRequest \<Rightarrow> RuntimeContextV1" where
  "saved_context request =
    (case CSR_Draft request of
       ExecutionDraft planID stepID action refs \<Rightarrow>
         (draft_context request)\<lparr>RX_PlanID := planID, RX_CurrentStepID := stepID, RX_NextAction := action,
           RX_ResolvedReferences := cloneReferences refs\<rparr>
     | _ \<Rightarrow> (draft_context request)\<lparr>RX_NextAction := CheckpointNextActionGeneratePlan\<rparr>)"

definition save_purpose :: "RuntimeCheckpointSaveRequest \<Rightarrow> checkpointPurpose" where
  "save_purpose request = (if CSR_Draft request = InitializationDraft then purposeInitialization else purposeExecution)"

lemma saved_context_simps [simp]:
  "RX_TaskID (saved_context request) = CSR_TaskID request" "RX_RunID (saved_context request) = CSR_RunID request"
  "RX_ExecutionVersion (saved_context request) = CSR_ExecutionVersion request" "RX_ApprovalContext (saved_context request) = None"
  by (simp_all add: saved_context_def draft_context_def split: RuntimeCheckpointDraft.split)

lemma SaveRuntimeCheckpoint_Inr:
  assumes "SaveRuntimeCheckpoint env request s = Inr result"
  shows "saveCheckpoint env \<lparr>SCR_Purpose = save_purpose request, SCR_Query = save_query request,
    SCR_Hash = CSR_ExecutionConfigHash request, SCR_Context = saved_context request\<rparr> s = Inr result"
  using assms
  by (cases "CSR_Draft request")
    (simp_all add: SaveRuntimeCheckpoint_def save_purpose_def save_query_def saved_context_def Let_def)

lemma reason_error_Inr [simp]: "reason_error verdict = Inr u \<longleftrightarrow> verdict = (None, False)"
  by (auto simp: reason_error_def split: prod.splits option.splits bool.splits)

text \<open>A checkpoint row without the stored text and its time.\<close>

definition new_entity :: "RuntimeCheckpointSaveRequest \<Rightarrow> string \<Rightarrow> CheckpointID \<Rightarrow> int \<Rightarrow> CheckpointEntity" where
  "new_entity request encoded checkpointID sequence =
    \<lparr>CE_CheckpointID = checkpointID, CE_TaskID = CSR_TaskID request, CE_RunID = CSR_RunID request,
     CE_ExecutionVersion = CSR_ExecutionVersion request, CE_CheckpointSequence = sequence,
     CE_RuntimeContext = encoded, CE_ExecutionConfigHash = CSR_ExecutionConfigHash request,
     CE_SourceExecutionVersion = None, CE_SourceCheckpointID = None, CE_CreatedAt = 0\<rparr>"

lemma save_Inr:
  assumes "SaveRuntimeCheckpoint env request s = Inr (ref, s')"
  obtains encoded facts where
    "validateQuery (save_query request)" "validSHA256 (CSR_ExecutionConfigHash request)"
    "CSR_Draft request = InitializationDraft \<longrightarrow> CSR_ExecutionVersion request = 1 \<and> Ref_CheckpointSequence ref = 1"
    "Codec_Encode (CKE_Limits env) (saved_context request) = Inr encoded"
    "loadFacts (save_query request) (saved_context request) s = Inr facts"
    "Exec_ExecutionConfigHash (VF_Execution facts) = CSR_ExecutionConfigHash request"
    "validateContextWithApproval (CKE_Digest env) (saved_context request) facts (saveUsage (save_purpose request)) False = (None, False)"
    "insert_next env (\<lambda>sequence. require (save_purpose request = purposeInitialization \<longrightarrow> sequence = 1) ErrInvalidDraft)
      (new_entity request encoded) (CSR_RunID request) s = Inr (ref, s')"
proof -
  let ?save = "saveCheckpoint env \<lparr>SCR_Purpose = save_purpose request, SCR_Query = save_query request,
    SCR_Hash = CSR_ExecutionConfigHash request, SCR_Context = saved_context request\<rparr> s"
  have save: "?save = Inr (ref, s')" by (rule SaveRuntimeCheckpoint_Inr [OF assms])
  then have admitted: "validateQuery (save_query request)" "validSHA256 (CSR_ExecutionConfigHash request)"
      "save_purpose request = purposeInitialization \<longrightarrow> CSR_ExecutionVersion request = 1"
    by (auto simp: saveCheckpoint_def Let_def save_query_def split: if_splits)
  obtain encoded where encoded: "Codec_Encode (CKE_Limits env) (saved_context request) = Inr encoded"
    using save by (auto simp: saveCheckpoint_def Let_def split: if_splits sum.splits)
  have entity: "(\<lambda>checkpointID sequence. \<lparr>CE_CheckpointID = checkpointID, CE_TaskID = CQ_TaskID (save_query request),
      CE_RunID = CQ_RunID (save_query request), CE_ExecutionVersion = CQ_ExecutionVersion (save_query request),
      CE_CheckpointSequence = sequence, CE_RuntimeContext = encoded, CE_ExecutionConfigHash = CSR_ExecutionConfigHash request,
      CE_SourceExecutionVersion = None, CE_SourceCheckpointID = None, CE_CreatedAt = 0\<rparr>) = new_entity request encoded"
    by (simp add: fun_eq_iff new_entity_def save_query_def)
  obtain facts where facts: "loadFacts (save_query request) (saved_context request) s = Inr facts"
      "Exec_ExecutionConfigHash (VF_Execution facts) = CSR_ExecutionConfigHash request"
      "validateContextWithApproval (CKE_Digest env) (saved_context request) facts (saveUsage (save_purpose request)) False = (None, False)"
    and inserted: "insert_next env (\<lambda>sequence. require (save_purpose request = purposeInitialization \<longrightarrow> sequence = 1) ErrInvalidDraft)
      (new_entity request encoded) (CSR_RunID request) s = Inr (ref, s')"
    using save encoded entity
    by (auto simp: saveCheckpoint_def Let_def validateContext_def save_query_def split: if_splits)
  obtain createdAt where "require (save_purpose request = purposeInitialization \<longrightarrow> Ref_CheckpointSequence ref = 1) ErrInvalidDraft = Inr ()"
    using insert_next_Inr [OF inserted] by blast
  then have "CSR_Draft request = InitializationDraft \<longrightarrow> CSR_ExecutionVersion request = 1 \<and> Ref_CheckpointSequence ref = 1"
    using admitted(3) by (auto simp: save_purpose_def)
  then show thesis using that admitted(1,2) encoded facts inserted by blast
qed

lemma deferred_current_run:
  assumes "deferred_ok s" and "task_row k s = Some t" and "run_row k s = Some r"
  shows "Task_CurrentRunID t = Run_RunID r"
proof -
  have "t \<in> set (db_tasks s)" "Task_TaskID t = k"
    using assms(2) row_find_SomeD [of Task_TaskID k "db_tasks s" t] by (simp_all add: task_row_def)
  then show ?thesis using assms(1,3) by (auto simp: deferred_ok_def)
qed

lemma loaded_core:
  assumes "loadFacts q ctx s = Inr facts" and "deferred_ok s"
    and "RX_TaskID ctx = CQ_TaskID q" "RX_RunID ctx = CQ_RunID q" "RX_ExecutionVersion ctx = CQ_ExecutionVersion q"
  shows "coreAttributionValid ctx facts"
proof -
  note rows = loadFacts_rows(1-4) [OF assms(1)]
  have "Task_TaskID (VF_Task facts) = CQ_TaskID q" "Run_TaskID (VF_Run facts) = CQ_TaskID q"
    "Exec_key (VF_Execution facts) = (CQ_TaskID q, CQ_ExecutionVersion q)"
    using row_find_key [OF rows(1) [unfolded task_row_def]] row_find_key [OF rows(2) [unfolded run_row_def]]
      row_find_key [OF rows(3) [unfolded exec_row_def]] by simp_all
  then show ?thesis
    using rows(4) deferred_current_run [OF assms(2) rows(1,2)] assms(3-5) by (simp add: coreAttributionValid_def Exec_key_def)
qed

lemma loadFacts_verified: "loadFacts q ctx s = Inr facts \<Longrightarrow> VerifyRunAttribution (CQ_TaskID q) (CQ_RunID q) s = Inr ()"
  by (simp add: loadFacts_def)

lemma saved_row:
  assumes "SaveRuntimeCheckpoint env request s = Inr (ref, s')"
  obtains encoded stored row where
    "Codec_Encode (CKE_Limits env) (saved_context request) = Inr encoded" "CKE_Jsonb env encoded = Some stored"
    "row = (new_entity request encoded (Ref_CheckpointID ref) (Ref_CheckpointSequence ref))\<lparr>CE_RuntimeContext := stored, CE_CreatedAt := CKE_Now env\<rparr>"
    "s' = add_checkpoint row s" "checkpoint_check row"
    "\<forall>c\<in>set (checkpoints s). CE_RunID c = CE_RunID row \<longrightarrow> CE_CheckpointSequence c < CE_CheckpointSequence row"
proof -
  obtain encoded where encoded: "Codec_Encode (CKE_Limits env) (saved_context request) = Inr encoded"
    and inserted: "insert_next env (\<lambda>sequence. require (save_purpose request = purposeInitialization \<longrightarrow> sequence = 1) ErrInvalidDraft)
      (new_entity request encoded) (CSR_RunID request) s = Inr (ref, s')"
    using assms by (rule save_Inr)
  obtain createdAt where allocated: "AllocateNextSequence (CSR_RunID request) s = Inr (Ref_CheckpointSequence ref)"
    and insert: "InsertCheckpoint (CKE_Jsonb env) (CKE_Now env)
      (new_entity request encoded (Ref_CheckpointID ref) (Ref_CheckpointSequence ref)) s = Inr (createdAt, s')"
    using inserted by (rule insert_next_Inr)
  let ?entity = "new_entity request encoded (Ref_CheckpointID ref) (Ref_CheckpointSequence ref)"
  obtain stored where "CKE_Jsonb env (CE_RuntimeContext ?entity) = Some stored"
    "s' = add_checkpoint (?entity\<lparr>CE_RuntimeContext := stored, CE_CreatedAt := CKE_Now env\<rparr>) s"
    "checkpoint_check (?entity\<lparr>CE_RuntimeContext := stored, CE_CreatedAt := CKE_Now env\<rparr>)"
    using insert by (rule InsertCheckpoint_Inr)
  then show thesis using encoded AllocateNextSequence_Inr(2) [OF allocated]
    by (intro that [OF encoded _ refl]) (simp_all add: new_entity_def)
qed

lemma saved_is_latest:
  assumes "SaveRuntimeCheckpoint env request s = Inr (ref, s')" and "deferred_ok s"
    and jsonb: "\<And>encoded stored. Codec_Encode (CKE_Limits env) (saved_context request) = Inr encoded \<Longrightarrow>
      CKE_Jsonb env encoded = Some stored \<Longrightarrow>
      jsonb_law encoded stored \<and> int (length stored) \<le> CL_MaxBytes (CKE_Limits env)"
  shows "\<exists>view kind.
    loadAndValidateLatest env (save_query request) (saveUsage (save_purpose request)) s' =
      Inr (ValidCheckpoint view kind (CSR_ExecutionConfigHash request)) \<and>
    View_Context view = saved_context request \<and> CE_CheckpointID (View_Entity view) = Ref_CheckpointID ref \<and>
    CE_CheckpointSequence (View_Entity view) = Ref_CheckpointSequence ref"
proof -
  obtain encoded facts where admitted: "validateQuery (save_query request)" "validSHA256 (CSR_ExecutionConfigHash request)"
      "CSR_Draft request = InitializationDraft \<longrightarrow> CSR_ExecutionVersion request = 1 \<and> Ref_CheckpointSequence ref = 1"
    and facts: "loadFacts (save_query request) (saved_context request) s = Inr facts"
      "Exec_ExecutionConfigHash (VF_Execution facts) = CSR_ExecutionConfigHash request"
      "validateContextWithApproval (CKE_Digest env) (saved_context request) facts (saveUsage (save_purpose request)) False = (None, False)"
    using assms(1) by (rule save_Inr)
  obtain encoded stored row where encoded: "Codec_Encode (CKE_Limits env) (saved_context request) = Inr encoded"
      "CKE_Jsonb env encoded = Some stored"
    and row: "row = (new_entity request encoded (Ref_CheckpointID ref) (Ref_CheckpointSequence ref))
        \<lparr>CE_RuntimeContext := stored, CE_CreatedAt := CKE_Now env\<rparr>"
    and s': "s' = add_checkpoint row s" and check: "checkpoint_check row"
    and newest: "\<forall>c\<in>set (checkpoints s). CE_RunID c = CE_RunID row \<longrightarrow> CE_CheckpointSequence c < CE_CheckpointSequence row"
    using assms(1) by (rule saved_row)
  have fields: "CE_CheckpointID row = Ref_CheckpointID ref" "CE_CheckpointSequence row = Ref_CheckpointSequence ref"
    "CE_TaskID row = CSR_TaskID request" "CE_RunID row = CSR_RunID request" "CE_ExecutionVersion row = CSR_ExecutionVersion request"
    "CE_RuntimeContext row = stored" "CE_ExecutionConfigHash row = CSR_ExecutionConfigHash request"
    "CE_SourceExecutionVersion row = None" "CE_SourceCheckpointID row = None"
    by (simp_all add: row new_entity_def)
  have decoded: "Codec_Decode (CKE_Limits env) stored = Inr (saved_context request)"
    using check jsonb [OF encoded] fields(5) encoded(1)
    by (intro stored_context) (auto simp: checkpoint_check_def bigint_def)
  have latest: "latest_checkpoint (CSR_TaskID request) (CSR_RunID request) (CSR_ExecutionVersion request) s' = Some row"
    unfolding s' using newest fields by (intro latest_added) simp_all
  have found: "findOne (Some row) = Inr row"
    using check admitted(1,2) fields by (simp add: checkpoint_check_def validateQuery_def save_query_def)
  have facts': "loadFacts (save_query request) (saved_context request) s' = Inr facts" using facts(1) by (simp add: s')
  have query: "CQ_TaskID (save_query request) = CSR_TaskID request" "CQ_RunID (save_query request) = CSR_RunID request"
    "CQ_ExecutionVersion (save_query request) = CSR_ExecutionVersion request" by (simp_all add: save_query_def)
  have read: "read_latest env (save_query request) s' = Inr (Inr (row, saved_context request, facts))"
    using loadFacts_verified [OF facts'] facts' found
    by (simp add: read_latest_def FindLatestByExecutionVersion_def query latest fields decoded del: findOne_Inr)
  have core: "coreAttributionValid (saved_context request) facts"
    using facts(1) assms(2) by (rule loaded_core) (simp_all add: query)
  define kind where "kind = (if CE_ExecutionVersion row = 1 \<and> CE_CheckpointSequence row = 1 \<and>
       RX_NextAction (saved_context request) = CheckpointNextActionGeneratePlan \<and> RX_PlanID (saved_context request) = None \<and>
       RX_CurrentStepID (saved_context request) = None
     then InferredTypeInitialization else InferredTypeExecution)"
  have inferred: "inferCheckpointType row (saved_context request) = Some kind" "kind \<noteq> InferredTypeRecoveryStart"
    by (simp_all add: inferCheckpointType_def fields(8,9) kind_def)
  have initial: "saveUsage (save_purpose request) = usageClaimInitial \<Longrightarrow> kind = InferredTypeInitialization"
    using admitted(3) fields
    by (auto simp: kind_def saveUsage_def save_purpose_def saved_context_def draft_context_def split: if_splits)
  have "saveUsage (save_purpose request) \<noteq> usageClaimContinuation" by (simp add: saveUsage_def)
  then have usage: "\<not> (saveUsage (save_purpose request) = usageClaimInitial \<and> kind \<noteq> InferredTypeInitialization \<or>
      saveUsage (save_purpose request) = usageClaimContinuation \<and> kind = InferredTypeInitialization)"
    using initial by blast
  have accepted: "verdict_of row (None, False) = None" by (simp add: verdict_of_valid)
  have hash: "CE_ExecutionConfigHash row = Exec_ExecutionConfigHash (VF_Execution facts)" using facts(2) fields(7) by simp
  have "loadAndValidateLatest env (save_query request) (saveUsage (save_purpose request)) s' =
      Inr (ValidCheckpoint \<lparr>View_Entity = row, View_Context = saved_context request\<rparr> kind (CE_ExecutionConfigHash row))"
    using admitted(1) inferred(2)
    by (simp add: loadAndValidateLatest_def read core hash [symmetric] inferred(1) facts(3) accepted usage del: de_Morgan_disj)
  then show ?thesis using fields by auto
qed

end
