(* ===== verification/CheckpointClaims.thy ===== *)
theory CheckpointClaims
  imports CheckpointSafety ClaimSafety StartupSafety
begin

section \<open>Properties of the checkpoint module\<close>

text \<open>
  What the Task Runtime may rely on when the checkpoint manager has accepted a checkpoint, with sample databases on
  which the statements are evaluated.
\<close>

subsection \<open>Samples\<close>

definition no_tables :: module_tables where
  "no_tables = \<lparr>tab_checkpoints = [], tab_plans = [], tab_steps = [], tab_approvals = [], tab_tools = []\<rparr>"

definition created_sample :: runtime_db where
  "created_sample = sample_db TaskStatusPending RunStatusPending TaskExecutionStatusQueued None (Some 1000) no_tables"

definition initial_text :: string where
  "initial_text = ''{\"schema_version\":1,\"task_id\":\"t1\",\"run_id\":\"r1\",\"execution_version\":1,'' @
     ''\"next_action\":\"GENERATE_PLAN\",\"resolved_references\":[]}''"

definition initial_stored :: string where
  "initial_stored = ''{\"run_id\": \"r1\", \"task_id\": \"t1\", \"next_action\": \"GENERATE_PLAN\", \"schema_version\": 1, '' @
     ''\"execution_version\": 1, \"resolved_references\": []}''"

definition sample_checkpoint_env :: checkpoint_env where
  "sample_checkpoint_env =
    \<lparr>CKE_Limits = stored_limits, CKE_Digest = (\<lambda>_. sample_hash),
     CKE_Jsonb = (\<lambda>text. if text = initial_text then Some initial_stored else None), CKE_Now = 1000,
     CKE_NewID = Some ''checkpoint-1''\<rparr>"

definition initial_save :: RuntimeCheckpointSaveRequest where
  "initial_save = \<lparr>CSR_TaskID = ''t1'', CSR_RunID = ''r1'', CSR_ExecutionVersion = 1,
     CSR_ExecutionConfigHash = sample_hash, CSR_Draft = InitializationDraft\<rparr>"


definition initial_row :: CheckpointEntity where
  "initial_row = \<lparr>CE_CheckpointID = ''checkpoint-1'', CE_TaskID = ''t1'', CE_RunID = ''r1'', CE_ExecutionVersion = 1,
     CE_CheckpointSequence = 1, CE_RuntimeContext = initial_stored, CE_ExecutionConfigHash = sample_hash,
     CE_SourceExecutionVersion = None, CE_SourceCheckpointID = None, CE_CreatedAt = 1000\<rparr>"









subsection \<open>The queue makes progress\<close>

text \<open>The ports of the Task Runtime with the checkpoint module behind them.\<close>

definition checkpoint_ports :: "checkpoint_env \<Rightarrow> module_tables Ports" where
  "checkpoint_ports env =
    \<lparr>LookupAgent = sample_agents, HashExecutionConfigV1 = sample_hasher, json_digest = (\<lambda>j. sample_hash),
     SaveInitializationCheckpoint = Adapter_SaveInitializationCheckpoint env,
     SaveGeneratePlanExecutionCheckpoint = Adapter_SaveGeneratePlanExecutionCheckpoint env,
     LoadLatestForClaim = Adapter_LoadLatestForClaim env,
     LoadLatestForExecutionDispatch = Adapter_LoadLatestForExecutionDispatch env,
     LoadLatestForStartupCleanup = (\<lambda>k r v s. Inl (ErrText ''not used'')),
     ValidateRecoverySource = Adapter_ValidateRecoverySource env,
     CreateRecoveryStart = Adapter_CreateRecoveryStart env,
     EnsurePending = (\<lambda>q s. Inr (EnsurePendingReportCreated, db_other s))\<rparr>"

text \<open>The sample task with its initialization checkpoint, and the environment of the next save.\<close>

definition waiting_sample :: runtime_db where
  "waiting_sample = add_checkpoint initial_row created_sample"

definition next_env :: checkpoint_env where
  "next_env = sample_checkpoint_env\<lparr>CKE_Now := 2000, CKE_NewID := Some ''checkpoint-2''\<rparr>"

lemma waiting_is:
  "waiting_sample = sample_db TaskStatusPending RunStatusPending TaskExecutionStatusQueued None (Some 1000)
    (no_tables\<lparr>tab_checkpoints := [initial_row]\<rparr>)"
  by (simp add: waiting_sample_def add_checkpoint_def with_tables_def created_sample_def sample_db_def no_tables_def)

lemma waiting_rows:
  "db_tasks waiting_sample = [sample_task TaskStatusPending (Some 1000)]"
  "db_runs waiting_sample = [sample_run RunStatusPending]"
  "db_executions waiting_sample = [sample_execution TaskExecutionStatusQueued None]"
  "db_receipts waiting_sample = []" "db_logs waiting_sample = []"
  by (simp_all add: waiting_is sample_db_def)

lemma waiting_scene:
  "scene k waiting_sample t r e \<longleftrightarrow> k = ''t1'' \<and> t = sample_task TaskStatusPending (Some 1000) \<and>
     r = sample_run RunStatusPending \<and> e = sample_execution TaskExecutionStatusQueued None"
  by (auto simp: scene_def task_row_def run_row_def exec_row_def waiting_rows row_find_Cons sample_task_def sample_run_def
      sample_execution_def Exec_key_def)

lemma waiting_inv: "runtime_inv waiting_sample"
proof (rule runtime_invI)
  show "schema_ok waiting_sample"
    by (simp add: schema_ok_def waiting_rows sample_defs Task_check_def Run_check_def TaskExecution_check_def valid_simps
        error_code_column_def Exec_key_def is_object_def)
next
  show "scenes_ok waiting_sample"
    by (simp add: waiting_is sample_scenes_ok) (simp add: scene_ok_def sample_defs)
qed

lemma waiting_load:
  "Adapter_LoadLatestForClaim next_env ''t1'' ''r1'' 1 ClaimCheckpointSourceInitial waiting_sample =
    Inr (ClaimCheckpointValid
      (runtimeCheckpoint \<lparr>View_Entity = initial_row, View_Context = saved_context initial_save\<rparr> sample_hash))"
  by code_simp

lemma waiting_save:
  "case commitClaim (claim_scene (sample_task TaskStatusPending (Some 1000)) (sample_run RunStatusPending)
      (sample_execution TaskExecutionStatusQueued None)) 2000 ''w1'' waiting_sample of
     Inl _ \<Rightarrow> False
   | Inr s' \<Rightarrow> (case Adapter_SaveGeneratePlanExecutionCheckpoint next_env
       (claim_save_request (sample_task TaskStatusPending (Some 1000)) (sample_run RunStatusPending)
         (sample_execution TaskExecutionStatusQueued None)) s' of Inl _ \<Rightarrow> False | Inr _ \<Rightarrow> True)"
  by code_simp

lemma waiting_ports_work:
  "claim_ports_work (checkpoint_ports next_env) 2000 ''w1'' (sample_task TaskStatusPending (Some 1000))
     (sample_run RunStatusPending) (sample_execution TaskExecutionStatusQueued None) waiting_sample"
proof -
  have source: "classifyClaimSource (claim_scene (sample_task TaskStatusPending (Some 1000)) (sample_run RunStatusPending)
      (sample_execution TaskExecutionStatusQueued None)) = Inr ClaimCheckpointSourceInitial"
    by code_simp
  have keys: "Task_TaskID (sample_task TaskStatusPending (Some 1000)) = ''t1''" "Run_RunID (sample_run RunStatusPending) = ''r1''"
      "Exec_ExecutionVersion (sample_execution TaskExecutionStatusQueued None) = 1"
      "Task_AgentID (sample_task TaskStatusPending (Some 1000)) = ''ops''"
    by (simp_all add: sample_defs)
  have "agent_enabled sample_agent" "agent_id_of sample_agent = ''ops''"
    by (simp_all add: sample_agent_def sample_config_def)
  then show ?thesis
    using waiting_save
    by (auto simp: claim_ports_work_def checkpoint_ports_def source keys waiting_load sample_agents_def sample_hasher_def
        split: sum.splits)
qed

text \<open>
  C6: The queue makes progress. When the ports answer for the task at the head of the queue - its checkpoint can be
  loaded, a report of its Run exists or can be created after the statements of this claim, its checkpoint can be saved
  once the claim is committed, its Agent is configured - and the clock has not run backwards, a claim on a sound database
  succeeds: it never reports that there is no work, and the task has left the queue.
\<close>

theorem claim_progress:
  assumes "runtime_inv s" and "TaskRepository_LockNextQueueCandidate s = Inr q"
    and "scene (QC_TaskID q) s t r e" and "clock_after (call_now c) t e"
    and "claim_ports_work ports (call_now c) w t r e s" and "w \<noteq> ''''" and "call_fault c = None"
  shows "\<exists>res s' t'. ClaimNextExecution ports w c between c' w s = (Inr res, s') \<and> res \<noteq> ClaimResultNoWork \<and>
    task_row (QC_TaskID q) s' = Some t' \<and> Task_QueuedAt t' = None"
  using claim_makes_progress [OF assms] .

text \<open>The modelled checkpoint module meets the condition for a task that was just created.\<close>

theorem claim_progress_witness:
  "\<exists>res s' t'. ClaimNextExecution (checkpoint_ports next_env) ''w1'' sample_call id sample_call ''w1'' waiting_sample = (Inr res, s') \<and>
     res \<noteq> ClaimResultNoWork \<and> task_row ''t1'' s' = Some t' \<and> Task_QueuedAt t' = None"
proof -
  obtain q where q: "TaskRepository_LockNextQueueCandidate waiting_sample = Inr q" "QC_TaskID q = ''t1''"
    by (simp add: TaskRepository_LockNextQueueCandidate_def queue_candidates_def List.map_filter_def waiting_rows sample_defs
        candidate_of_def exec_row_def row_find_Cons Exec_key_def Let_def)
  have now: "call_now sample_call = 2000" "call_fault sample_call = None" by (simp_all add: sample_call_def)
  show ?thesis
    using claim_progress [OF waiting_inv q(1), of "sample_task TaskStatusPending (Some 1000)" "sample_run RunStatusPending"
        "sample_execution TaskExecutionStatusQueued None" sample_call "checkpoint_ports next_env" "''w1''" id sample_call]
      q(2) sample_clock waiting_ports_work
    by (auto simp: waiting_scene now)
qed

subsection \<open>An approved tool call\<close>

definition approved_step :: StepEntityParams where
  "approved_step =
    \<lparr>Step_StepID = ''s1'', Step_RunID = ''r1'', Step_PlanID = ''p1'', Step_Sequence = 1, Step_Type = StepTypeToolCall,
     Step_Name = ''restart'', Step_Input = ''{\"name\": \"web\"}'', Step_OutputSchema = [(''ok'', JSONSchemaTypeBoolean)],
     Step_Output = None, Step_Status = StepStatusRunning, Step_ToolName = ''restart'', Step_ErrorCode = None,
     Step_StartedAt = Some 1100, Step_EndedAt = None\<rparr>"


definition approved_text :: string where
  "approved_text = ''{\"run_id\": \"r1\", \"plan_id\": \"p1\", \"task_id\": \"t1\", \"next_action\": \"EXECUTE_APPROVED_TOOL\", '' @
     ''\"schema_version\": 1, \"current_step_id\": \"s1\", \"approval_context\": {\"tool_name\": \"restart\", '' @
     ''\"approval_id\": \"a1\", \"observed_values\": {}, \"resource_version\": \"7\", \"frozen_input_hash\": \"'' @ sample_hash @
     ''\", \"frozen_tool_input\": {\"name\": \"web\"}, \"approval_execution_version\": 1}, '' @
     ''\"execution_version\": 1, \"resolved_references\": []}''"

definition approved_row :: CheckpointEntity where
  "approved_row = \<lparr>CE_CheckpointID = ''checkpoint-3'', CE_TaskID = ''t1'', CE_RunID = ''r1'', CE_ExecutionVersion = 1,
     CE_CheckpointSequence = 3, CE_RuntimeContext = approved_text, CE_ExecutionConfigHash = sample_hash,
     CE_SourceExecutionVersion = None, CE_SourceCheckpointID = None, CE_CreatedAt = 1200\<rparr>"


definition sample_query :: RuntimeCheckpointQuery where
  "sample_query = \<lparr>CQ_TaskID = ''t1'', CQ_RunID = ''r1'', CQ_ExecutionVersion = 1\<rparr>"

definition approved_context :: RuntimeContextV1 where
  "approved_context =
    \<lparr>RX_SchemaVersion = 1, RX_TaskID = ''t1'', RX_RunID = ''r1'', RX_ExecutionVersion = 1, RX_PlanID = Some ''p1'',
     RX_CurrentStepID = Some ''s1'', RX_NextAction = CheckpointNextActionExecuteApprovedTool, RX_ResolvedReferences = Some [],
     RX_ApprovalContext = Some \<lparr>FA_ApprovalID = ''a1'', FA_ApprovalExecutionVersion = 1, FA_ToolName = ''restart'',
       FA_FrozenToolInput = ''{\"name\":\"web\"}'', FA_ObservedValues = ''{}'', FA_ResourceVersion = ''7'',
       FA_FrozenInputHash = sample_hash\<rparr>\<rparr>"

lemma approved_decodes: "Codec_Decode stored_limits approved_text = Inr approved_context"
  by code_simp




subsection \<open>A finished plan\<close>

definition finished_text :: string where
  "finished_text = ''{\"run_id\": \"r1\", \"plan_id\": \"p1\", \"task_id\": \"t1\", \"next_action\": \"FINALIZE_RUN\", '' @
     ''\"schema_version\": 1, \"current_step_id\": \"s1\", \"execution_version\": 1, \"resolved_references\": []}''"

definition finished_sample :: runtime_db where
  "finished_sample =
    (sample_db TaskStatusRunning RunStatusRunning TaskExecutionStatusRunning (Some ''w1'') None
      \<lparr>tab_checkpoints = [approved_row\<lparr>CE_RuntimeContext := finished_text\<rparr>],
       tab_plans = [\<lparr>Plan_PlanID = ''p1'', Plan_RunID = ''r1'', Plan_Goal = ''g'', Plan_CreatedAt = 1100\<rparr>],
       tab_steps = [approved_step\<lparr>Step_Type := StepTypeVerification, Step_ToolName := '''', Step_Status := StepStatusCompleted,
         Step_Output := Some ''{\"ok\": true}'', Step_EndedAt := Some 1150\<rparr>], tab_approvals = [], tab_tools = []\<rparr>)
    \<lparr>db_runs := [(sample_run RunStatusRunning)\<lparr>Run_PlanID := Some ''p1'', Run_CurrentStepID := Some ''s1''\<rparr>]\<rparr>"

lemma finished_valid:
  "\<exists>view kind. Manager_LoadLatestForStartupCleanup sample_checkpoint_env sample_query finished_sample =
     Inr (ValidCheckpoint view kind sample_hash) \<and> RX_NextAction (View_Context view) = CheckpointNextActionFinalizeRun"
proof -
  have "case Manager_LoadLatestForStartupCleanup sample_checkpoint_env sample_query finished_sample of
      Inr (ValidCheckpoint view kind hash) \<Rightarrow> hash = sample_hash \<and>
        RX_NextAction (View_Context view) = CheckpointNextActionFinalizeRun
    | _ \<Rightarrow> False"
    by code_simp
  then show ?thesis by (auto split: sum.splits ValidationResult.splits)
qed

text \<open>What a cleanup repository shows of a step is what is stored.\<close>

definition shows_steps :: "runtime_db \<Rightarrow> StartupCleanupFacts \<Rightarrow> bool" where
  "shows_steps s f \<longleftrightarrow> (case SCF_Step f of
     None \<Rightarrow> True
   | Some shown \<Rightarrow> (case step_row (SCS_StepID shown) s of None \<Rightarrow> False | Some step \<Rightarrow> SCS_Status shown = Step_Status step))"

lemma finished_facts:
  assumes "Manager_LoadLatestForStartupCleanup env q s = Inr (ValidCheckpoint view kind hash)"
    and "RX_NextAction (View_Context view) = CheckpointNextActionFinalizeRun"
    and "facts_rows s f" and "facts_id f = CQ_TaskID q" and "shows_steps s f"
  shows "validateStartupFacts f w = Inl GoError.ErrPersistenceInvariantViolation"
proof -
  obtain run step where rows: "run_row (CQ_TaskID q) s = Some run" "Run_CurrentStepID run = Some (Step_StepID step)"
      "step_row (Step_StepID step) s = Some step" "Step_Status step = StepStatusCompleted"
    using finalize_rows [OF assms(1) [unfolded Manager_LoadLatestForStartupCleanup_def] assms(2)] by blast
  then have "SCF_Run f = run" using assms(3,4) by (simp add: facts_rows_def)
  then show ?thesis
    using rows assms(5) by (auto simp: validateStartupFacts_def shows_steps_def Let_def split: option.splits)
qed

text \<open>
  C27: A finished plan blocks the start-up. When a worker stopped between the commit of the last step and the final
  transaction, the latest checkpoint of the execution asks for FINALIZE_RUN and the checkpoint module accepts it: the
  step it names is Completed and still the current step of the run. No clean-up gets past that scene, whatever its
  repository shows of the step: it fails and stores nothing, with ErrPersistenceInvariantViolation when
  there is no other candidate. So the worker cannot start and the finished plan is never finalized.
\<close>

theorem finished_plan_blocks_startup:
  assumes "Manager_LoadLatestForStartupCleanup env q s = Inr (ValidCheckpoint view kind hash)"
    and "RX_NextAction (View_Context view) = CheckpointNextActionFinalizeRun"
    and "exec_row (CQ_TaskID q, CQ_ExecutionVersion q) s = Some e" and "legacy w e" and "task_row (CQ_TaskID q) s \<noteq> None"
    and "startup_contract repo"
    and "\<And>fs. LockLegacyRunningExecutions repo w s = Inr fs \<Longrightarrow> list_all (shows_steps s) fs"
  shows "(\<exists>err. StartupCleanup ports repo call w s = (Inl err, s)) \<and>
    (w \<noteq> '''' \<and> call_fault call = None \<and> (\<exists>f. LockLegacyRunningExecutions repo w s = Inr [f]) \<longrightarrow>
       StartupCleanup ports repo call w s = (Inl GoError.ErrPersistenceInvariantViolation, s))"
proof -
  have refused: "\<exists>f \<in> set fs. validateStartupFacts f w = Inl GoError.ErrPersistenceInvariantViolation"
    if lock: "LockLegacyRunningExecutions repo w s = Inr fs" for fs
  proof -
    have rows: "list_all (facts_rows s) fs"
      "\<And>k v e. exec_row (k, v) s = Some e \<and> task_row k s \<noteq> None \<and> run_row k s \<noteq> None \<and> legacy w e \<Longrightarrow>
        (k, v) \<in> set (map facts_key fs)"
      using assms(6) lock unfolding startup_contract_def locks_legacy_def by blast+
    have "run_row (CQ_TaskID q) s \<noteq> None"
      using finalize_rows [OF assms(1) [unfolded Manager_LoadLatestForStartupCleanup_def] assms(2)] by auto
    then obtain f where f: "f \<in> set fs" "facts_id f = CQ_TaskID q"
      using rows(2) [of "CQ_TaskID q" "CQ_ExecutionVersion q" e] assms(3-5) by (auto simp: facts_key_def)
    then show ?thesis
      using finished_facts [OF assms(1,2) _ f(2)] rows(1) assms(7) [OF lock] unfolding list_all_iff by blast
  qed
  have "\<exists>err. StartupCleanup ports repo call w s = (Inl err, s)"
  proof (cases "StartupCleanup ports repo call w s")
    case (Pair res s')
    then show ?thesis
    proof (cases res)
      case (Inl err)
      then have "s' = s"
        using Pair Execute_error_unchanged [of "call_fault call" "startup_work ports repo w (call_now call)" s]
        by (auto simp: StartupCleanup_def split: if_splits)
      with Pair Inl show ?thesis by blast
    next
      case (Inr summary)
      then obtain fs where "LockLegacyRunningExecutions repo w s = Inr fs"
          "cleanup_all ports repo w (call_now call) fs empty_summary s = Inr (summary, s')"
        using StartupCleanup_ok Pair by metis
      then show ?thesis using refused cleanup_all_validates by fastforce
    qed
  qed
  moreover have "StartupCleanup ports repo call w s = (Inl GoError.ErrPersistenceInvariantViolation, s)"
    if one: "w \<noteq> ''''" "call_fault call = None" "LockLegacyRunningExecutions repo w s = Inr [f]" for f
    using refused [OF one(3)] one
    by (simp add: StartupCleanup_def Execute_def startup_work_def cleanup_one_def classify_def)
  ultimately show ?thesis by blast
qed

theorem finished_plan_blocks_startup_witness:
  "StartupCleanup (checkpoint_ports sample_checkpoint_env) stored_cleanups sample_call ''w2'' finished_sample =
     (Inl GoError.ErrPersistenceInvariantViolation, finished_sample)"
proof -
  obtain view kind where valid: "Manager_LoadLatestForStartupCleanup sample_checkpoint_env sample_query finished_sample =
      Inr (ValidCheckpoint view kind sample_hash)" "RX_NextAction (View_Context view) = CheckpointNextActionFinalizeRun"
    using finished_valid by blast
  have row: "exec_row (CQ_TaskID sample_query, CQ_ExecutionVersion sample_query) finished_sample =
      Some (sample_execution TaskExecutionStatusRunning (Some ''w1''))"
    "legacy ''w2'' (sample_execution TaskExecutionStatusRunning (Some ''w1''))"
    "task_row (CQ_TaskID sample_query) finished_sample \<noteq> None"
    by (simp_all add: finished_sample_def sample_query_def sample_db_def exec_row_def task_row_def row_find_Cons sample_execution_def
        sample_task_def Exec_key_def legacy_def)
  have "case stored_legacy ''w2'' finished_sample of Inr [f] \<Rightarrow> SCF_Step f = None | _ \<Rightarrow> False" by code_simp
  then obtain f where f: "stored_legacy ''w2'' finished_sample = Inr [f]" "SCF_Step f = None"
    by (auto split: sum.splits list.splits)
  show ?thesis
    using finished_plan_blocks_startup [OF valid row stored_cleanups_contract,
        of "checkpoint_ports sample_checkpoint_env" sample_call] f
    by (auto simp: stored_cleanups_def shows_steps_def sample_call_def)
qed

subsection \<open>A recovery source\<close>

definition interrupted_text :: string where
  "interrupted_text = ''{\"run_id\": \"r1\", \"plan_id\": \"p1\", \"task_id\": \"t1\", \"next_action\": \"EXECUTE_STEP\", '' @
     ''\"schema_version\": 1, \"current_step_id\": \"s1\", \"execution_version\": 1, \"resolved_references\": []}''"

definition interrupted_row :: CheckpointEntity where
  "interrupted_row = approved_row\<lparr>CE_RuntimeContext := interrupted_text\<rparr>"

definition interrupted_tool :: ToolExecutionFact where
  "interrupted_tool = \<lparr>TX_ToolExecutionID = ''x1'', TX_TaskID = ''t1'', TX_RunID = ''r1'', TX_StepID = ''s1'',
     TX_ExecutionVersion = 1, TX_Status = ToolExecutionStatusFailed, TX_ErrorCode = Some ErrorCodeWorkerInterrupted,
     TX_SideEffectUnknown = False\<rparr>"

definition interrupted_sample :: runtime_db where
  "interrupted_sample =
    (sample_db TaskStatusRunning RunStatusRunning TaskExecutionStatusInterrupted (Some ''w1'') None
      \<lparr>tab_checkpoints = [interrupted_row],
       tab_plans = [\<lparr>Plan_PlanID = ''p1'', Plan_RunID = ''r1'', Plan_Goal = ''g'', Plan_CreatedAt = 1100\<rparr>],
       tab_steps = [approved_step], tab_approvals = [], tab_tools = [interrupted_tool]\<rparr>)
    \<lparr>db_runs := [(sample_run RunStatusRunning)\<lparr>Run_PlanID := Some ''p1'', Run_CurrentStepID := Some ''s1''\<rparr>]\<rparr>"

definition sample_source_query :: RecoverySourceQuery where
  "sample_source_query = \<lparr>RQ_TaskID = ''t1'', RQ_RunID = ''r1'', RQ_SourceExecutionVersion = 1,
     RQ_Phase = RecoverySourceStartedExecution\<rparr>"

definition interrupted_capability :: validatedRecoveryCapability where
  "interrupted_capability =
    \<lparr>Cap_View = \<lparr>View_Entity = interrupted_row,
       View_Context = approved_context\<lparr>RX_NextAction := CheckpointNextActionExecuteStep, RX_ApprovalContext := None\<rparr>\<rparr>,
     Cap_TypeOf = InferredTypeExecution, Cap_Phase = RecoverySourceStartedExecution\<rparr>"

lemma interrupted_validated:
  "Manager_ValidateRecoverySource sample_checkpoint_env sample_source_query interrupted_sample =
    Inr (ValidatedRecoverySource interrupted_capability)"
  by code_simp

text \<open>
  C40: A recovery never continues over a tool call whose outcome is open: when the manager validates the source of a
  recovery, the source is the newest checkpoint of the current, interrupted execution of a task that is not queued, and no
  tool call of its step at that version is still running, unknown or of unknown side effect. (The tool framework
  stores at most one tool call per step and version.)
\<close>

theorem recovery_source_is_settled:
  assumes "Manager_ValidateRecoverySource env q s = Inr (ValidatedRecoverySource cap)"
    and "distinct (map (\<lambda>x. (TX_StepID x, TX_ExecutionVersion x)) (tab_tools (db_other s)))"
  shows "\<exists>task execution.
    task_row (RQ_TaskID q) s = Some task \<and> exec_row (RQ_TaskID q, RQ_SourceExecutionVersion q) s = Some execution \<and>
    Task_CurrentExecutionVersion task = RQ_SourceExecutionVersion q \<and> Task_QueuedAt task = None \<and>
    Exec_Status execution = TaskExecutionStatusInterrupted \<and>
    latest_checkpoint (RQ_TaskID q) (RQ_RunID q) (RQ_SourceExecutionVersion q) s = Some (View_Entity (Cap_View cap)) \<and>
    CE_ExecutionConfigHash (View_Entity (Cap_View cap)) = Exec_ExecutionConfigHash execution \<and>
    (\<forall>tool\<in>set (tab_tools (db_other s)).
      RX_CurrentStepID (View_Context (Cap_View cap)) = Some (TX_StepID tool) \<and>
      TX_ExecutionVersion tool = RQ_SourceExecutionVersion q \<longrightarrow>
      TX_Status tool \<noteq> ToolExecutionStatusRunning \<and> TX_Status tool \<noteq> ToolExecutionStatusUnknown \<and> \<not> TX_SideEffectUnknown tool)"
  using assms by (rule recovery_source_rows)

theorem recovery_source_is_settled_witness:
  "\<exists>task execution. task_row ''t1'' interrupted_sample = Some task \<and> exec_row (''t1'', 1) interrupted_sample = Some execution \<and>
    Exec_Status execution = TaskExecutionStatusInterrupted"
proof -
  have "distinct (map (\<lambda>x. (TX_StepID x, TX_ExecutionVersion x)) (tab_tools (db_other interrupted_sample)))"
    by (simp add: interrupted_sample_def sample_db_def)
  from recovery_source_is_settled [OF interrupted_validated this] show ?thesis
    by (auto simp: sample_source_query_def)
qed

end
