(* ===== verification/RecoveryClaims.thy ===== *)
theory RecoveryClaims
  imports CheckpointClaims RecoverSafety
begin

section \<open>Recovery with the checkpoint module behind it\<close>

text \<open>
  What becomes of a RecoverTask whose source the modelled checkpoint module has validated.
\<close>

subsection \<open>A recovery that cannot succeed\<close>

text \<open>
  The sample task after the death of its worker while it was planning: the newest checkpoint is an execution checkpoint
  that asks for a plan, the task is still Running.
\<close>

definition stuck_sample :: runtime_db where
  "stuck_sample = sample_db TaskStatusRunning RunStatusRunning TaskExecutionStatusInterrupted (Some ''w1'') None
     (no_tables\<lparr>tab_checkpoints := [initial_row, initial_row\<lparr>CE_CheckpointID := ''checkpoint-2'', CE_CheckpointSequence := 2\<rparr>]\<rparr>)"

lemma stuck_inv: "runtime_inv stuck_sample"
proof (rule runtime_invI)
  show "schema_ok stuck_sample"
    by (simp add: schema_ok_def stuck_sample_def sample_defs Task_check_def Run_check_def TaskExecution_check_def valid_simps
        error_code_column_def Exec_key_def is_object_def sharedErrorCodeCheck_def)
next
  show "scenes_ok stuck_sample"
    by (simp add: stuck_sample_def sample_scenes_ok) (simp add: scene_ok_def sample_defs)
qed

lemma stuck_source:
  "Adapter_ValidateRecoverySource next_env (recovery_request (sample_task TaskStatusRunning None) (sample_run RunStatusRunning)
     (sample_execution TaskExecutionStatusInterrupted (Some ''w1''))) stuck_sample =
     Inr (RecoveryCheckpointValid ''checkpoint-2'' sample_hash CheckpointNextActionGeneratePlan (Some ''checkpoint-2''))"
  by code_simp

lemma stuck_insert:
  "case TaskExecutionRepository_Insert (recovered_execution (plain_facts (sample_task TaskStatusRunning None)
      (sample_run RunStatusRunning) (sample_execution TaskExecutionStatusInterrupted (Some ''w1''))) ''execution-1''
      (next_version 1) sample_hash 2000) stuck_sample of Inl _ \<Rightarrow> False | Inr _ \<Rightarrow> True"
  by code_simp

text \<open>
  C28: A task whose worker died while it was planning can never be recovered. Its execution is interrupted and the Task is
  still Running, as the clean-up leaves it. Before the deadline, with a new command, an enabled Agent under an unchanged
  configuration and a checkpoint which the checkpoint module validates for exactly this execution, RecoverTask
  fails and stores nothing, not even a receipt; when the request is well-formed and the row of the next version could be
  inserted, it fails at the lifecycle check, because the policy has no edge from Running back to Pending. The
  design calls for exactly this transition.
\<close>

theorem recover_running_task_is_stuck:
  assumes "runtime_inv s" and "scene (RTR_TaskID request) s t r e"
    and "Task_Status t = TaskStatusRunning" and "Run_Status r = RunStatusRunning"
    and "Exec_Status e = TaskExecutionStatusInterrupted" and "Exec_ErrorCode e = Some ErrorCodeWorkerInterrupted"
    and "call_now c < Task_DeadlineAt t" and "receipt_row (RTR_CommandID request) s = None"
    and "LookupAgent ports (Task_AgentID t) = Some agent" and "agent_enabled agent"
    and "HashExecutionConfigV1 ports (ARC_ExecutionConfig agent) = Inr (Exec_ExecutionConfigHash e)"
    and "ValidateRecoverySource ports (recovery_request t r e) s =
      Inr (RecoveryCheckpointValid cid (Exec_ExecutionConfigHash e) CheckpointNextActionGeneratePlan (Some source))"
    and "cid \<noteq> ''''"
  shows "(\<exists>err. RecoverTask ports c request (s, reg) = (Inl err, (s, reg))) \<and>
    (\<forall>fp eid s1. recoverRequestFingerprint (json_digest ports) request = Inr fp \<and> call_fault c = None \<and>
      0 < next_version (Exec_ExecutionVersion e) \<and> call_newID c ''execution'' = Inr eid \<and>
      TaskExecutionRepository_Insert (recovered_execution (plain_facts t r e) eid (next_version (Exec_ExecutionVersion e))
        (Exec_ExecutionConfigHash e) (call_now c)) s = Inr s1 \<longrightarrow>
      RecoverTask ports c request (s, reg) =
        (Inl (ErrLifecycle ''validate Recover Task lifecycle''
          (Reason (CanTaskTransition TaskStatusRunning TaskStatusPending))), (s, reg)))"
  using running_task_recovery [OF assms, where reg = reg] by simp

theorem recover_running_task_is_stuck_witness:
  "RecoverTask (checkpoint_ports next_env) sample_call sample_recover (stuck_sample, NewRegistry) =
     (Inl (ErrLifecycle ''validate Recover Task lifecycle''
        (Reason (CanTaskTransition TaskStatusRunning TaskStatusPending))), (stuck_sample, NewRegistry))"
proof -
  let ?t = "sample_task TaskStatusRunning None" and ?r = "sample_run RunStatusRunning"
    and ?e = "sample_execution TaskExecutionStatusInterrupted (Some ''w1'')"
  have fields: "Task_AgentID ?t = ''ops''" "Task_Status ?t = TaskStatusRunning" "Run_Status ?r = RunStatusRunning"
      "Exec_Status ?e = TaskExecutionStatusInterrupted" "Exec_ErrorCode ?e = Some ErrorCodeWorkerInterrupted"
      "Exec_ExecutionConfigHash ?e = sample_hash" "Exec_ExecutionVersion ?e = 1" "Task_DeadlineAt ?t = 5000"
    by (simp_all add: sample_defs)
  have sc: "scene (RTR_TaskID sample_recover) stuck_sample ?t ?r ?e"
    by (simp add: stuck_sample_def sample_recover_def)
  have ports: "LookupAgent (checkpoint_ports next_env) ''ops'' = Some sample_agent" "agent_enabled sample_agent"
      "HashExecutionConfigV1 (checkpoint_ports next_env) (ARC_ExecutionConfig sample_agent) = Inr sample_hash"
      "ValidateRecoverySource (checkpoint_ports next_env) = Adapter_ValidateRecoverySource next_env"
      "json_digest (checkpoint_ports next_env) = (\<lambda>j. sample_hash)"
    by (simp_all add: checkpoint_ports_def sample_agents_def sample_hasher_def)
      (simp add: sample_agent_def sample_config_def)
  have call: "call_now sample_call = 2000" "call_fault sample_call = None" "call_newID sample_call ''execution'' = Inr ''execution-1''"
    by (simp_all add: sample_call_def)
  have "receipt_row (RTR_CommandID sample_recover) stuck_sample = None"
    by (simp add: stuck_sample_def sample_db_def receipt_row_def)
  from recover_running_task_is_stuck [OF stuck_inv sc, of sample_call "checkpoint_ports next_env" sample_agent "''checkpoint-2''"
      "''checkpoint-2''" NewRegistry, unfolded fields call ports, OF refl refl refl refl _ this]
  have main: "\<And>fp s1. recoverRequestFingerprint (\<lambda>j. sample_hash) sample_recover = Inr fp \<Longrightarrow>
      TaskExecutionRepository_Insert (recovered_execution (plain_facts ?t ?r ?e) ''execution-1'' (next_version 1) sample_hash 2000)
        stuck_sample = Inr s1 \<Longrightarrow>
      RecoverTask (checkpoint_ports next_env) sample_call sample_recover (stuck_sample, NewRegistry) =
        (Inl (ErrLifecycle ''validate Recover Task lifecycle''
          (Reason (CanTaskTransition TaskStatusRunning TaskStatusPending))), (stuck_sample, NewRegistry))"
    using stuck_source ports(2) by (simp add: next_version_below)
  have "case recoverRequestFingerprint (\<lambda>j. sample_hash) sample_recover of Inl _ \<Rightarrow> False | Inr _ \<Rightarrow> True" by code_simp
  then show ?thesis using main stuck_insert by (auto split: sum.splits)
qed

end
