(* ===== verification/Spec2Isabelle.thy ===== *)
theory Spec2Isabelle
  imports CreateTask ClaimSafety RecoverSafety ExecuteSafety StartupSafety TaskQuery Worker
    PlanRoundTrip PlannerSafety ModelStepSafety RecoveryClaims
begin

text \<open>
  Verification of the AgentOps Task Runtime (\<open>internal/taskruntime\<close> and what it stands on).
\<close>

end
